(* ===== verification/QPrelude.thy ===== *)
theory QPrelude
  imports Main "HOL-Library.List_Lexorder"
begin

text \<open>
  Shared vocabulary of the development.

  Rust text (\<open>String\<close>, \<open>&str\<close>) is a sequence of Unicode scalar values; \<open>ustr\<close> is the list of
  their code points.  A Rust byte offset that lies on a character boundary is represented by the
  number of characters before it, and where the code counts bytes (\<open>len\<close>) the model uses
  \<open>byte_len\<close>.  A literal of the source is written \<open>lit ''...''\<close>.

  Fallible code returns \<open>'e + 'a\<close> with \<open>Inl\<close> for the error.  An \<open>anyhow\<close> error is the list of its
  messages, outermost context first.
\<close>

section \<open>Text\<close>

type_synonym ustr = "nat list"

abbreviation lit :: "string \<Rightarrow> ustr" where
  "lit s \<equiv> map of_char s"

abbreviation ch :: "char \<Rightarrow> nat" where
  "ch c \<equiv> of_char c"

section \<open>Hint collections\<close>

named_theorems res_simps "rewriting of fallible computations"
named_theorems str_simps "rewriting of text operations"
named_theorems inv_intros "preservation of component invariants"

section \<open>Results\<close>

type_synonym error = "ustr list"

definition rbind :: "'e + 'a \<Rightarrow> ('a \<Rightarrow> 'e + 'b) \<Rightarrow> 'e + 'b" where
  "rbind r f = (case r of Inl e \<Rightarrow> Inl e | Inr x \<Rightarrow> f x)"

definition ensure :: "bool \<Rightarrow> 'e \<Rightarrow> 'e + unit" where
  "ensure b e = (if b then Inr () else Inl e)"

text \<open>\<open>anyhow\<close>'s \<open>Context::context\<close>: one more message in front of the chain.\<close>

definition with_context :: "ustr \<Rightarrow> error + 'a \<Rightarrow> error + 'a" where
  "with_context m r = (case r of Inl e \<Rightarrow> Inl (m # e) | Inr x \<Rightarrow> Inr x)"

lemma rbind_Inl [simp, res_simps]: "rbind (Inl e) f = Inl e"
  by (simp add: rbind_def)

lemma rbind_Inr [simp, res_simps]: "rbind (Inr x) f = f x"
  by (simp add: rbind_def)

lemma rbind_eq_Inr [res_simps]: "rbind r f = Inr y \<longleftrightarrow> (\<exists>x. r = Inr x \<and> f x = Inr y)"
  by (cases r) auto

lemma rbind_eq_Inl [res_simps]:
  "rbind r f = Inl e \<longleftrightarrow> r = Inl e \<or> (\<exists>x. r = Inr x \<and> f x = Inl e)"
  by (cases r) auto

lemma rbind_assoc: "rbind (rbind r f) g = rbind r (\<lambda>x. rbind (f x) g)"
  by (cases r) auto

lemma ensure_True [simp, res_simps]: "ensure True e = Inr ()"
  by (simp add: ensure_def)

lemma ensure_False [simp, res_simps]: "ensure False e = Inl e"
  by (simp add: ensure_def)

lemma ensure_eq_Inr [res_simps]: "ensure b e = Inr u \<longleftrightarrow> b"
  by (simp add: ensure_def)

lemma with_context_Inr [simp, res_simps]: "with_context m (Inr x) = Inr x"
  by (simp add: with_context_def)

lemma with_context_Inl [simp, res_simps]: "with_context m (Inl e) = Inl (m # e)"
  by (simp add: with_context_def)

lemma with_context_eq_Inr [res_simps]: "with_context m r = Inr x \<longleftrightarrow> r = Inr x"
  by (cases r) auto

text \<open>\<open>collect::<Result<Vec<_>>>\<close> over a list: the first error wins.\<close>

fun rmap :: "('a \<Rightarrow> 'e + 'b) \<Rightarrow> 'a list \<Rightarrow> 'e + 'b list" where
  "rmap f [] = Inr []"
| "rmap f (x # xs) = rbind (f x) (\<lambda>y. rbind (rmap f xs) (\<lambda>ys. Inr (y # ys)))"

lemma rmap_length: "rmap f xs = Inr ys \<Longrightarrow> length ys = length xs"
  by (induction xs arbitrary: ys) (auto simp: rbind_eq_Inr)

lemma rmap_total: "(\<And>x. x \<in> set xs \<Longrightarrow> f x = Inr (g x)) \<Longrightarrow> rmap f xs = Inr (map g xs)"
  by (induction xs) auto

section \<open>Fuelled computations\<close>

text \<open>
  A fuelled definition returns \<open>None\<close> only when its fuel ran out; \<open>fbind\<close> threads both the fuel
  and the error.
\<close>

definition fbind :: "('e + 'a) option \<Rightarrow> ('a \<Rightarrow> ('e + 'b) option) \<Rightarrow> ('e + 'b) option" where
  "fbind r f = (case r of None \<Rightarrow> None | Some (Inl e) \<Rightarrow> Some (Inl e) | Some (Inr x) \<Rightarrow> f x)"

lemma fbind_None [simp]: "fbind None f = None"
  by (simp add: fbind_def)

lemma fbind_Inl [simp]: "fbind (Some (Inl e)) f = Some (Inl e)"
  by (simp add: fbind_def)

lemma fbind_Inr [simp]: "fbind (Some (Inr x)) f = f x"
  by (simp add: fbind_def)

lemma fbind_eq_Some_Inr:
  "fbind r f = Some (Inr y) \<longleftrightarrow> (\<exists>x. r = Some (Inr x) \<and> f x = Some (Inr y))"
  by (auto simp: fbind_def split: option.splits sum.splits)

lemma fbind_ne_None:
  "fbind r f \<noteq> None \<longleftrightarrow> r \<noteq> None \<and> (\<forall>x. r = Some (Inr x) \<longrightarrow> f x \<noteq> None)"
  by (auto simp: fbind_def split: option.splits sum.splits)

lemma fbind_ex_Some:
  "(\<exists>y. fbind r f = Some y) \<longleftrightarrow> (\<exists>y. r = Some y) \<and> (\<forall>x. r = Some (Inr x) \<longrightarrow> (\<exists>y. f x = Some y))"
  by (auto simp: fbind_def split: option.splits sum.splits)

section \<open>Association lists kept in key order\<close>

text \<open>
  \<open>BTreeMap\<close> and \<open>serde_json::Map\<close> (which is a \<open>BTreeMap\<close> in this build: the \<open>preserve_order\<close>
  feature is off) iterate in key order.  Where the order is observable the model keeps the map as a
  sorted association list.
\<close>

fun bt_insert :: "'k::linorder \<Rightarrow> 'v \<Rightarrow> ('k \<times> 'v) list \<Rightarrow> ('k \<times> 'v) list" where
  "bt_insert k v [] = [(k, v)]"
| "bt_insert k v ((k', v') # m) =
     (if k < k' then (k, v) # (k', v') # m
      else if k = k' then (k, v) # m
      else (k', v') # bt_insert k v m)"

fun bt_remove :: "'k \<Rightarrow> ('k \<times> 'v) list \<Rightarrow> ('k \<times> 'v) list" where
  "bt_remove k [] = []"
| "bt_remove k ((k', v') # m) = (if k = k' then m else (k', v') # bt_remove k m)"

definition bt_wf :: "('k::linorder \<times> 'v) list \<Rightarrow> bool" where
  "bt_wf m \<longleftrightarrow> sorted_wrt (<) (map fst m)"

lemma map_of_bt_insert [simp]: "map_of (bt_insert k v m) = (map_of m)(k \<mapsto> v)"
  by (induction k v m rule: bt_insert.induct) auto

lemma set_fst_bt_insert [simp]: "fst ` set (bt_insert k v m) = insert k (fst ` set m)"
  by (induction k v m rule: bt_insert.induct) auto

lemma bt_wf_insert [inv_intros]: "bt_wf m \<Longrightarrow> bt_wf (bt_insert k v m)"
proof (induction k v m rule: bt_insert.induct)
  case (2 k v k' v' m)
  then show ?case
    by (auto simp: bt_wf_def)
qed (simp add: bt_wf_def)

lemma set_bt_remove: "set (bt_remove k m) \<subseteq> set m"
  by (induction k m rule: bt_remove.induct) auto

lemma bt_wf_remove [inv_intros]: "bt_wf m \<Longrightarrow> bt_wf (bt_remove k m)"
  using set_bt_remove by (induction k m rule: bt_remove.induct) (fastforce simp: bt_wf_def)+

lemma map_of_bt_remove: "bt_wf m \<Longrightarrow> map_of (bt_remove k m) = (map_of m)(k := None)"
proof (induction k m rule: bt_remove.induct)
  case (2 k k' v' m)
  have "map_of m k' = None" if "bt_wf ((k', v') # m)"
    using that by (force simp: bt_wf_def map_of_eq_None_iff)
  moreover have "bt_wf m" using 2 by (simp add: bt_wf_def)
  ultimately show ?case using 2 by (auto simp: fun_eq_iff)
qed simp

section \<open>Lists\<close>

lemma drop_nth_Cons: "i < length xs \<Longrightarrow> drop i xs = xs ! i # drop (Suc i) xs"
  by (rule Cons_nth_drop_Suc [symmetric])

lemma dropWhile_idem [simp]: "dropWhile P (dropWhile P xs) = dropWhile P xs"
  by (induction xs) auto

lemma list_all_dropWhile: "list_all Q xs \<Longrightarrow> list_all Q (dropWhile P xs)"
  by (induction xs) auto

end
