(* ===== verification/RustStr.thy ===== *)
theory RustStr
  imports QPrelude
begin

text \<open>
  The operations of Rust's \<open>str\<close> and \<open>char\<close> the program uses, on lists of code points, with the
  laws the components need.  \<open>White_Space\<close> is spelled out; the other Unicode tables enter the
  definitions that use them as an argument for the characters beyond ASCII.
\<close>

section \<open>Characters\<close>

definition is_ws :: "nat \<Rightarrow> bool" where
  "is_ws c \<longleftrightarrow> (9 \<le> c \<and> c \<le> 13) \<or> c = 32 \<or> c = 0x85 \<or> c = 0xA0 \<or> c = 0x1680
     \<or> (0x2000 \<le> c \<and> c \<le> 0x200A) \<or> c = 0x2028 \<or> c = 0x2029 \<or> c = 0x202F \<or> c = 0x205F \<or> c = 0x3000"

definition is_ascii_digit :: "nat \<Rightarrow> bool" where
  "is_ascii_digit c \<longleftrightarrow> 48 \<le> c \<and> c \<le> 57"

definition is_ascii_alpha :: "nat \<Rightarrow> bool" where
  "is_ascii_alpha c \<longleftrightarrow> (65 \<le> c \<and> c \<le> 90) \<or> (97 \<le> c \<and> c \<le> 122)"

definition is_ascii_punct :: "nat \<Rightarrow> bool" where
  "is_ascii_punct c \<longleftrightarrow> (33 \<le> c \<and> c \<le> 47) \<or> (58 \<le> c \<and> c \<le> 64) \<or> (91 \<le> c \<and> c \<le> 96) \<or> (123 \<le> c \<and> c \<le> 126)"

text \<open>\<open>char::is_alphanumeric\<close>; \<open>ua\<close> is the table beyond ASCII.\<close>

definition is_alnum :: "(nat \<Rightarrow> bool) \<Rightarrow> nat \<Rightarrow> bool" where
  "is_alnum ua c \<longleftrightarrow> (if c < 128 then is_ascii_digit c \<or> is_ascii_alpha c else ua c)"

definition lower1 :: "nat \<Rightarrow> nat" where
  "lower1 c = (if 65 \<le> c \<and> c \<le> 90 then c + 32 else c)"

definition upper1 :: "nat \<Rightarrow> nat" where
  "upper1 c = (if 97 \<le> c \<and> c \<le> 122 then c - 32 else c)"

definition to_ascii_lowercase :: "ustr \<Rightarrow> ustr" where
  "to_ascii_lowercase = map lower1"

definition to_ascii_uppercase :: "ustr \<Rightarrow> ustr" where
  "to_ascii_uppercase = map upper1"

definition eq_ignore_ascii_case :: "ustr \<Rightarrow> ustr \<Rightarrow> bool" where
  "eq_ignore_ascii_case a b \<longleftrightarrow> to_ascii_lowercase a = to_ascii_lowercase b"

text \<open>The UTF-8 length of a character and of a string (\<open>char::len_utf8\<close>, \<open>str::len\<close>).\<close>

definition len_utf8 :: "nat \<Rightarrow> nat" where
  "len_utf8 c = (if c < 0x80 then 1 else if c < 0x800 then 2 else if c < 0x10000 then 3 else 4)"

definition byte_len :: "ustr \<Rightarrow> nat" where
  "byte_len s = sum_list (map len_utf8 s)"

definition is_scalar :: "nat \<Rightarrow> bool" where
  "is_scalar c \<longleftrightarrow> c < 0xD800 \<or> (0xE000 \<le> c \<and> c < 0x110000)"

lemma len_utf8_pos: "0 < len_utf8 c"
  by (simp add: len_utf8_def)

lemma byte_len_Nil [simp, str_simps]: "byte_len [] = 0"
  by (simp add: byte_len_def)

lemma byte_len_Cons [simp, str_simps]: "byte_len (c # s) = len_utf8 c + byte_len s"
  by (simp add: byte_len_def)

lemma byte_len_append [simp, str_simps]: "byte_len (s @ t) = byte_len s + byte_len t"
  by (simp add: byte_len_def)

lemma length_le_byte_len: "length s \<le> byte_len s"
proof (induction s)
  case (Cons c s)
  then show ?case using len_utf8_pos [of c] by (simp add: Suc_le_eq)
qed simp

lemma eq_ignore_ascii_case_refl [simp]: "eq_ignore_ascii_case a a"
  by (simp add: eq_ignore_ascii_case_def)

lemma eq_ignore_ascii_case_sym: "eq_ignore_ascii_case a b \<Longrightarrow> eq_ignore_ascii_case b a"
  by (simp add: eq_ignore_ascii_case_def)

lemma lower1_idem [simp]: "lower1 (lower1 c) = lower1 c"
  by (simp add: lower1_def)

lemma to_ascii_lowercase_idem [simp]: "to_ascii_lowercase (to_ascii_lowercase s) = to_ascii_lowercase s"
  by (simp add: to_ascii_lowercase_def)

section \<open>Prefixes, suffixes and trimming\<close>

definition starts_with :: "'a list \<Rightarrow> 'a list \<Rightarrow> bool" where
  "starts_with p s \<longleftrightarrow> take (length p) s = p"

definition ends_with :: "'a list \<Rightarrow> 'a list \<Rightarrow> bool" where
  "ends_with p s \<longleftrightarrow> starts_with (rev p) (rev s)"

definition strip_prefix :: "'a list \<Rightarrow> 'a list \<Rightarrow> 'a list option" where
  "strip_prefix p s = (if starts_with p s then Some (drop (length p) s) else None)"

definition strip_suffix :: "'a list \<Rightarrow> 'a list \<Rightarrow> 'a list option" where
  "strip_suffix p s = (if ends_with p s then Some (take (length s - length p) s) else None)"

definition trim_start_by :: "('a \<Rightarrow> bool) \<Rightarrow> 'a list \<Rightarrow> 'a list" where
  "trim_start_by = dropWhile"

definition trim_end_by :: "('a \<Rightarrow> bool) \<Rightarrow> 'a list \<Rightarrow> 'a list" where
  "trim_end_by P s = rev (dropWhile P (rev s))"

definition trim_by :: "('a \<Rightarrow> bool) \<Rightarrow> 'a list \<Rightarrow> 'a list" where
  "trim_by P s = trim_end_by P (trim_start_by P s)"

abbreviation trim_start :: "ustr \<Rightarrow> ustr" where "trim_start \<equiv> trim_start_by is_ws"
abbreviation trim_end :: "ustr \<Rightarrow> ustr" where "trim_end \<equiv> trim_end_by is_ws"
abbreviation trim :: "ustr \<Rightarrow> ustr" where "trim \<equiv> trim_by is_ws"

lemma starts_with_append [simp, str_simps]: "starts_with p (p @ s)"
  by (simp add: starts_with_def)

lemma starts_with_Nil [simp, str_simps]: "starts_with [] s"
  by (simp add: starts_with_def)

lemma starts_with_iff: "starts_with p s \<longleftrightarrow> (\<exists>t. s = p @ t)"
  by (metis append_take_drop_id starts_with_append starts_with_def)

lemma strip_prefix_eq_Some: "strip_prefix p s = Some t \<longleftrightarrow> s = p @ t"
  by (auto simp: strip_prefix_def starts_with_def) (metis append_take_drop_id)

lemma strip_prefix_append [simp, str_simps]: "strip_prefix p (p @ t) = Some t"
  by (simp add: strip_prefix_eq_Some)

lemma ends_with_iff: "ends_with p s \<longleftrightarrow> (\<exists>t. s = t @ p)"
  by (auto simp: ends_with_def starts_with_iff) (metis rev_append rev_rev_ident)

lemma strip_suffix_eq_Some: "strip_suffix p s = Some t \<longleftrightarrow> s = t @ p"
  by (auto simp: strip_suffix_def ends_with_iff)

lemma strip_suffix_append [simp, str_simps]: "strip_suffix p (t @ p) = Some t"
  by (simp add: strip_suffix_eq_Some)

lemma trim_end_by_snoc: "\<not> P c \<Longrightarrow> trim_end_by P (s @ [c]) = s @ [c]"
  by (simp add: trim_end_by_def)

lemma trim_by_Nil [simp]: "trim_by P [] = []"
  by (simp add: trim_by_def trim_end_by_def trim_start_by_def)

text \<open>Trimmed text starts and ends with a kept character, and is a fixed point of trimming.\<close>

definition trimmed :: "('a \<Rightarrow> bool) \<Rightarrow> 'a list \<Rightarrow> bool" where
  "trimmed P s \<longleftrightarrow> s = [] \<or> (\<not> P (hd s) \<and> \<not> P (last s))"

lemma trim_by_trimmed [simp]: "trimmed P s \<Longrightarrow> trim_by P s = s"
proof (cases "s = []")
  case False
  assume t: "trimmed P s"
  with False have "dropWhile P s = s" by (simp add: trimmed_def dropWhile_eq_self_iff)
  moreover from t False have "dropWhile P (rev s) = rev s"
    by (simp add: trimmed_def dropWhile_eq_self_iff hd_rev)
  ultimately show ?thesis by (simp add: trim_by_def trim_start_by_def trim_end_by_def)
qed simp

lemma last_dropWhile_rev: "s \<noteq> [] \<Longrightarrow> trim_end_by P s \<noteq> [] \<Longrightarrow> \<not> P (last (trim_end_by P s))"
  by (simp add: trim_end_by_def last_rev hd_dropWhile)

lemma hd_trim_end: "\<not> P (hd s) \<Longrightarrow> s \<noteq> [] \<Longrightarrow> trim_end_by P s \<noteq> [] \<and> hd (trim_end_by P s) = hd s"
proof (induction s rule: rev_induct)
  case (snoc x xs)
  then show ?case
    by (cases "xs = []") (auto simp: trim_end_by_def)
qed simp

lemma trimmed_trim_by: "trimmed P (trim_by P s)"
proof (cases "dropWhile P s = []")
  case True
  then have "trim_by P s = []" by (simp only: trim_by_def trim_start_by_def trim_end_by_def) simp
  then show ?thesis by (simp add: trimmed_def)
next
  case False
  then have h: "\<not> P (hd (dropWhile P s))" by (rule hd_dropWhile)
  from hd_trim_end [where P = P and s = "dropWhile P s", OF h False]
    last_dropWhile_rev [where P = P and s = "dropWhile P s", OF False] h show ?thesis
    by (simp add: trimmed_def trim_by_def trim_start_by_def)
qed

lemma trim_by_idem [simp]: "trim_by P (trim_by P s) = trim_by P s"
  using trimmed_trim_by by (rule trim_by_trimmed)

section \<open>Searching and splitting\<close>

fun find_sub :: "'a list \<Rightarrow> 'a list \<Rightarrow> nat option" where
  "find_sub p [] = (if p = [] then Some 0 else None)"
| "find_sub p (c # s) = (if starts_with p (c # s) then Some 0 else map_option Suc (find_sub p s))"

definition rfind_sub :: "'a list \<Rightarrow> 'a list \<Rightarrow> nat option" where
  "rfind_sub p s = map_option (\<lambda>i. length s - length p - i) (find_sub (rev p) (rev s))"

fun find_by :: "('a \<Rightarrow> bool) \<Rightarrow> 'a list \<Rightarrow> nat option" where
  "find_by P [] = None"
| "find_by P (c # s) = (if P c then Some 0 else map_option Suc (find_by P s))"

definition contains_sub :: "'a list \<Rightarrow> 'a list \<Rightarrow> bool" where
  "contains_sub p s \<longleftrightarrow> find_sub p s \<noteq> None"

definition split_once :: "'a list \<Rightarrow> 'a list \<Rightarrow> ('a list \<times> 'a list) option" where
  "split_once p s = (case find_sub p s of None \<Rightarrow> None
     | Some i \<Rightarrow> Some (take i s, drop (i + length p) s))"

definition rsplit_once :: "'a list \<Rightarrow> 'a list \<Rightarrow> ('a list \<times> 'a list) option" where
  "rsplit_once p s = (case rfind_sub p s of None \<Rightarrow> None
     | Some i \<Rightarrow> Some (take i s, drop (i + length p) s))"

lemma find_sub_Some: "find_sub p s = Some i \<Longrightarrow> s = take i s @ p @ drop (i + length p) s \<and> i + length p \<le> length s"
proof (induction s arbitrary: i)
  case (Cons c s)
  show ?case
  proof (cases "starts_with p (c # s)")
    case True
    then obtain t where t: "c # s = p @ t" by (auto simp: starts_with_iff)
    from Cons.prems True have i: "i = 0" by (simp only: find_sub.simps) simp
    show ?thesis unfolding i t by simp
  next
    case False
    with Cons.prems obtain j where "find_sub p s = Some j" "i = Suc j" by auto
    with Cons.IH show ?thesis by auto
  qed
qed (auto split: if_splits)

lemma split_once_Some: "split_once p s = Some (a, b) \<Longrightarrow> s = a @ p @ b"
  by (auto simp: split_once_def split: option.splits dest: find_sub_Some)

lemma find_sub_None: "find_sub p s = None \<longleftrightarrow> (\<nexists>a b. s = a @ p @ b)"
proof (induction s)
  case (Cons c s)
  show ?case
  proof (cases "starts_with p (c # s)")
    case True
    then show ?thesis by (auto simp: starts_with_iff) (metis append_Nil)
  next
    case False
    have "(\<exists>a b. c # s = a @ p @ b) \<longleftrightarrow> (\<exists>a b. s = a @ p @ b)"
    proof
      assume "\<exists>a b. c # s = a @ p @ b"
      then obtain a b where ab: "c # s = a @ p @ b" by blast
      with False show "\<exists>a b. s = a @ p @ b"
        by (cases a) (auto simp: starts_with_iff)
    next
      assume "\<exists>a b. s = a @ p @ b"
      then show "\<exists>a b. c # s = a @ p @ b" by (metis append_Cons)
    qed
    with Cons.IH False show ?thesis by simp
  qed
qed auto

lemma contains_sub_iff: "contains_sub p s \<longleftrightarrow> (\<exists>a b. s = a @ p @ b)"
  by (simp add: contains_sub_def find_sub_None)

text \<open>The start positions of the non-overlapping matches, from the left (\<open>match_indices\<close>).\<close>

fun match_from :: "'a list \<Rightarrow> nat \<Rightarrow> 'a list \<Rightarrow> nat list" where
  "match_from p i [] = []"
| "match_from p i (c # s) =
     (if starts_with p (c # s) then i # match_from p (i + length p) (drop (length p - 1) s)
      else match_from p (Suc i) s)"

definition match_indices :: "'a list \<Rightarrow> 'a list \<Rightarrow> nat list" where
  "match_indices p s = (if p = [] then [0..<Suc (length s)] else match_from p 0 s)"

text \<open>Cut a text at the given match positions, each match \<open>w\<close> characters wide.\<close>

fun cut_pieces :: "nat \<Rightarrow> nat list \<Rightarrow> nat \<Rightarrow> 'a list \<Rightarrow> 'a list list" where
  "cut_pieces w [] st s = [drop st s]"
| "cut_pieces w (i # is) st s = take (i - st) (drop st s) # cut_pieces w is (i + w) s"

definition split_str :: "'a list \<Rightarrow> 'a list \<Rightarrow> 'a list list" where
  "split_str p s = cut_pieces (length p) (match_indices p s) 0 s"

definition splitn_str :: "nat \<Rightarrow> 'a list \<Rightarrow> 'a list \<Rightarrow> 'a list list" where
  "splitn_str n p s = (if n = 0 then [] else cut_pieces (length p) (take (n - 1) (match_indices p s)) 0 s)"

text \<open>The same from the right: the pieces come in the order the iterator yields them, last first.\<close>

definition rsplit_str :: "'a list \<Rightarrow> 'a list \<Rightarrow> 'a list list" where
  "rsplit_str p s = map rev (split_str (rev p) (rev s))"

definition rsplitn_str :: "nat \<Rightarrow> 'a list \<Rightarrow> 'a list \<Rightarrow> 'a list list" where
  "rsplitn_str n p s = map rev (splitn_str n (rev p) (rev s))"

fun join :: "'a list \<Rightarrow> 'a list list \<Rightarrow> 'a list" where
  "join p [] = []"
| "join p [x] = x"
| "join p (x # y # xs) = x @ p @ join p (y # xs)"

definition replace_str :: "'a list \<Rightarrow> 'a list \<Rightarrow> 'a list \<Rightarrow> 'a list" where
  "replace_str old new s = join new (split_str old s)"

definition replacen_str :: "'a list \<Rightarrow> 'a list \<Rightarrow> nat \<Rightarrow> 'a list \<Rightarrow> 'a list" where
  "replacen_str old new n s = join new (splitn_str (Suc n) old s)"

fun split_by :: "('a \<Rightarrow> bool) \<Rightarrow> 'a list \<Rightarrow> 'a list list" where
  "split_by P [] = [[]]"
| "split_by P (c # s) = (if P c then [] # split_by P s
     else (case split_by P s of [] \<Rightarrow> [[c]] | w # ws \<Rightarrow> (c # w) # ws))"

definition split_whitespace :: "ustr \<Rightarrow> ustr list" where
  "split_whitespace s = filter (\<lambda>w. w \<noteq> []) (split_by is_ws s)"

lemma cut_pieces_ne [simp]: "cut_pieces w is st s \<noteq> []"
  by (cases "is") auto

lemma join_Cons_ne: "xs \<noteq> [] \<Longrightarrow> join p (x # xs) = x @ p @ join p xs"
  by (cases xs) auto

text \<open>Positions at which \<open>p\<close> really occurs, in order and without overlap.\<close>

fun matches_at :: "'a list \<Rightarrow> nat \<Rightarrow> 'a list \<Rightarrow> nat list \<Rightarrow> bool" where
  "matches_at p st s [] = True"
| "matches_at p st s (i # is) \<longleftrightarrow> st \<le> i \<and> starts_with p (drop i s) \<and> i + length p \<le> length s
     \<and> matches_at p (i + length p) s is"

lemma join_cut_pieces:
  "matches_at p st s is \<Longrightarrow> join p (cut_pieces (length p) is st s) = drop st s"
proof (induction "is" arbitrary: st)
  case (Cons i "is")
  have ih: "join p (cut_pieces (length p) is (i + length p) s) = drop (i + length p) s"
    using Cons by simp
  from Cons.prems obtain t where t: "drop i s = p @ t" by (auto simp: starts_with_iff)
  have "drop (i + length p) s = drop (length p) (drop i s)" by (simp add: add.commute)
  also have "\<dots> = t" using t by simp
  finally have tl: "drop (i + length p) s = t" .
  have "drop st s = take (i - st) (drop st s) @ drop i s"
    using Cons.prems by (metis append_take_drop_id drop_drop le_add_diff_inverse2 matches_at.simps(2))
  then show ?case using ih tl t by (simp add: join_Cons_ne)
qed simp

lemma matches_at_take: "matches_at p st s is \<Longrightarrow> matches_at p st s (take n is)"
proof (induction "is" arbitrary: st n)
  case (Cons i "is") then show ?case by (cases n) auto
qed simp

lemma matches_at_mono: "matches_at p st s is \<Longrightarrow> st' \<le> st \<Longrightarrow> matches_at p st' s is"
  by (cases "is") auto

lemma matches_at_match_from:
  "p \<noteq> [] \<Longrightarrow> drop i s = t \<Longrightarrow> matches_at p i s (match_from p i t)"
proof (induction p i t rule: match_from.induct)
  case (2 p i c t)
  show ?case
  proof (cases "starts_with p (c # t)")
    case True
    have "drop (length p - 1) t = drop (length p) (c # t)" using "2.prems"(1)
      by (cases p) auto
    then have d: "drop (i + length p) s = drop (length p - 1) t"
      using "2.prems" by (metis add.commute drop_drop)
    have "length p \<le> length (drop i s)" using True unfolding "2.prems"(2) starts_with_iff
      by (metis length_append le_add1)
    moreover have "length (drop i s) = Suc (length t)" using "2.prems" by simp
    ultimately have "i + length p \<le> length s" using "2.prems"(1) by (cases p) auto
    with True "2.IH"(1) [OF True "2.prems"(1) d] "2.prems" show ?thesis by simp
  next
    case False
    have "drop (Suc i) s = t" using "2.prems"
      by (metis drop_Suc list.sel(3) tl_drop)
    with False 2 show ?thesis
      by (auto intro: matches_at_mono [where st = "Suc i"])
  qed
qed simp

lemma matches_at_Nil: "i + n \<le> Suc (length s) \<Longrightarrow> matches_at [] i s [i..<i + n]"
proof (induction n arbitrary: i)
  case (Suc n)
  from Suc.prems have "[i..<i + Suc n] = i # [Suc i..<Suc i + n]"
    by (simp add: upt_conv_Cons)
  moreover have "matches_at [] (Suc i) s [Suc i..<Suc i + n]"
    using Suc.IH [of "Suc i"] Suc.prems by simp
  ultimately show ?case using Suc.prems by (auto intro: matches_at_mono)
qed simp

lemma matches_at_match_indices: "matches_at p 0 s (match_indices p s)"
  using matches_at_match_from [of p 0 s s] matches_at_Nil [of 0 "Suc (length s)" s]
  by (auto simp: match_indices_def)

lemma join_split_str: "join p (split_str p s) = s"
  using join_cut_pieces [OF matches_at_match_indices] by (simp add: split_str_def)

lemma join_splitn_str: "0 < n \<Longrightarrow> join p (splitn_str n p s) = s"
  using join_cut_pieces [OF matches_at_take [OF matches_at_match_indices]]
  by (simp add: splitn_str_def)

lemma join_snoc: "xs \<noteq> [] \<Longrightarrow> join p (xs @ [x]) = join p xs @ p @ x"
  by (induction p xs rule: join.induct) auto

lemma rev_join: "rev (join p xs) = join (rev p) (rev (map rev xs))"
proof (induction p xs rule: join.induct)
  case (3 p x y xs)
  then show ?case by (simp add: join_snoc [of "rev (map rev xs) @ [rev y]", simplified])
qed auto

lemma join_rev_rsplitn_str: "0 < n \<Longrightarrow> join p (rev (rsplitn_str n p s)) = s"
proof -
  assume "0 < n"
  then have "rev (join (rev p) (splitn_str n (rev p) (rev s))) = s"
    by (simp add: join_splitn_str)
  then show ?thesis by (simp add: rev_join rsplitn_str_def rev_map)
qed

lemma split_by_ne [simp]: "split_by P s \<noteq> []"
  by (induction s) (auto split: list.splits)

lemma split_by_free: "w \<in> set (split_by P s) \<Longrightarrow> c \<in> set w \<Longrightarrow> \<not> P c"
proof (induction s arbitrary: w c)
  case (Cons a s)
  obtain v vs where "split_by P s = v # vs" using split_by_ne by (cases "split_by P s") auto
  with Cons.IH [of v] Cons.IH Cons.prems show ?case by (fastforce split: if_splits)
qed simp

lemma split_whitespace_word: "w \<in> set (split_whitespace s) \<Longrightarrow> w \<noteq> [] \<and> list_all (\<lambda>c. \<not> is_ws c) w"
  by (auto simp: split_whitespace_def list_all_iff dest: split_by_free)

section \<open>Numbers as text\<close>

fun nat_to_str :: "nat \<Rightarrow> ustr" where
  "nat_to_str n = (if n < 10 then [48 + n] else nat_to_str (n div 10) @ [48 + n mod 10])"

declare nat_to_str.simps [simp del]

definition int_to_str :: "int \<Rightarrow> ustr" where
  "int_to_str i = (if i < 0 then ch CHR ''-'' # nat_to_str (nat (- i)) else nat_to_str (nat i))"

definition digits_val :: "ustr \<Rightarrow> nat" where
  "digits_val = foldl (\<lambda>n c. 10 * n + (c - 48)) 0"

definition all_digits :: "ustr \<Rightarrow> bool" where
  "all_digits s \<longleftrightarrow> s \<noteq> [] \<and> list_all is_ascii_digit s"

text \<open>\<open>str::parse::<usize>\<close> and \<open>str::parse::<i64>\<close>: an optional sign, digits, no overflow.\<close>

definition parse_unsigned :: "nat \<Rightarrow> ustr \<Rightarrow> nat option" where
  "parse_unsigned bits s =
     (let d = (case s of c # t \<Rightarrow> if c = ch CHR ''+'' then t else s | [] \<Rightarrow> s)
      in if all_digits d \<and> digits_val d < 2 ^ bits then Some (digits_val d) else None)"

abbreviation parse_usize :: "ustr \<Rightarrow> nat option" where
  "parse_usize \<equiv> parse_unsigned 64"

definition parse_i64 :: "ustr \<Rightarrow> int option" where
  "parse_i64 s = (case s of [] \<Rightarrow> None
     | c # t \<Rightarrow>
       if c = ch CHR ''-'' then
         (if all_digits t \<and> digits_val t \<le> 2 ^ 63 then Some (- int (digits_val t)) else None)
       else let d = (if c = ch CHR ''+'' then t else s) in
         (if all_digits d \<and> digits_val d < 2 ^ 63 then Some (int (digits_val d)) else None))"

lemma nat_to_str_digits: "all_digits (nat_to_str n)"
proof (induction n rule: nat_to_str.induct)
  case (1 n)
  then show ?case
    by (subst nat_to_str.simps) (auto simp: all_digits_def is_ascii_digit_def)
qed

lemma digits_val_snoc [simp]: "digits_val (s @ [c]) = 10 * digits_val s + (c - 48)"
  by (simp add: digits_val_def)

lemma digits_val_nat_to_str [simp]: "digits_val (nat_to_str n) = n"
proof (induction n rule: nat_to_str.induct)
  case (1 n)
  show ?case
  proof (cases "n < 10")
    case True
    then show ?thesis by (subst nat_to_str.simps) (simp add: digits_val_def)
  next
    case False
    with 1 show ?thesis by (subst nat_to_str.simps) simp
  qed
qed

lemma parse_unsigned_nat_to_str: "n < 2 ^ bits \<Longrightarrow> parse_unsigned bits (nat_to_str n) = Some n"
proof -
  assume n: "n < 2 ^ bits"
  obtain c t where ct: "nat_to_str n = c # t"
    using nat_to_str_digits [of n] by (cases "nat_to_str n") (auto simp: all_digits_def)
  with nat_to_str_digits [of n] have "c \<noteq> ch CHR ''+''"
    by (auto simp: all_digits_def is_ascii_digit_def)
  with n show ?thesis
    using nat_to_str_digits [of n] digits_val_nat_to_str [of n]
    by (auto simp: parse_unsigned_def ct)
qed

end
