(* ===== verification/Json.thy ===== *)
theory Json
  imports RustStr
begin

text \<open>
  \<open>serde_json::Value\<close> and the accessors the program calls on it.  An object is the association
  list of its \<open>BTreeMap\<close>, in key order.  A number is an integer or, for a float, the text the
  library prints for it; the program never computes with JSON floats.
\<close>

datatype jnum = JInt int | JFloat ustr

datatype json =
    JNull
  | JBool bool
  | JNum jnum
  | JStr ustr
  | JArr "json list"
  | JObj "(ustr \<times> json) list"

definition is_array :: "json \<Rightarrow> bool" where
  "is_array v = (case v of JArr _ \<Rightarrow> True | _ \<Rightarrow> False)"

definition as_str :: "json \<Rightarrow> ustr option" where
  "as_str v = (case v of JStr s \<Rightarrow> Some s | _ \<Rightarrow> None)"

definition as_array :: "json \<Rightarrow> json list option" where
  "as_array v = (case v of JArr xs \<Rightarrow> Some xs | _ \<Rightarrow> None)"

definition as_object :: "json \<Rightarrow> (ustr \<times> json) list option" where
  "as_object v = (case v of JObj m \<Rightarrow> Some m | _ \<Rightarrow> None)"

text \<open>\<open>Value::get\<close> with a string key: the member of an object, nothing on any other kind.\<close>

definition jget :: "ustr \<Rightarrow> json \<Rightarrow> json option" where
  "jget k v = (case v of JObj m \<Rightarrow> map_of m k | _ \<Rightarrow> None)"

definition jnum_to_str :: "jnum \<Rightarrow> ustr" where
  "jnum_to_str n = (case n of JInt i \<Rightarrow> int_to_str i | JFloat s \<Rightarrow> s)"

text \<open>\<open>map.entry(k).or_insert_with(v)\<close> and \<open>contains_key\<close>.\<close>

definition bt_or_insert :: "'k::linorder \<Rightarrow> 'v \<Rightarrow> ('k \<times> 'v) list \<Rightarrow> ('k \<times> 'v) list" where
  "bt_or_insert k v m = (if map_of m k = None then bt_insert k v m else m)"

definition bt_has :: "'k \<Rightarrow> ('k \<times> 'v) list \<Rightarrow> bool" where
  "bt_has k m \<longleftrightarrow> map_of m k \<noteq> None"

lemma map_of_bt_or_insert:
  "map_of (bt_or_insert k v m) = (if bt_has k m then map_of m else (map_of m)(k \<mapsto> v))"
  by (auto simp: bt_or_insert_def bt_has_def)

lemma bt_has_or_insert [simp]: "bt_has k (bt_or_insert k' v m) \<longleftrightarrow> k = k' \<or> bt_has k m"
  by (auto simp: bt_or_insert_def bt_has_def)

lemma bt_or_insert_idem [simp]: "bt_has k m \<Longrightarrow> bt_or_insert k v m = m"
  by (auto simp: bt_or_insert_def bt_has_def)

lemma bt_wf_or_insert [inv_intros]: "bt_wf m \<Longrightarrow> bt_wf (bt_or_insert k v m)"
  by (simp add: bt_or_insert_def inv_intros)

text \<open>Every object inside a value has its keys in order, as the library keeps them.\<close>

fun json_wf :: "json \<Rightarrow> bool" where
  "json_wf (JArr xs) = list_all json_wf xs"
| "json_wf (JObj m) = (bt_wf m \<and> list_all (\<lambda>(k, v). json_wf v) m)"
| "json_wf _ = True"

end
