(* ===== verification/QdProgram.thy ===== *)
theory QdProgram
  imports Json
begin

text \<open>
  The QD HAR document (\<open>crates/qdrust-core/src/qd_har.rs\<close>): its entries, their validation, and the
  compilation of the flat entry list into the block program the executor runs
  (\<open>parse_blocks\<close>, \<open>QdProgram::compile\<close>).

  The parser is fuelled; \<open>parse_blocks_fuel\<close> shows that the number of entries is enough.  Its
  specification is the grammar \<open>blocks_of\<close>, and \<open>parse_blocks_iff\<close> states that parsing succeeds
  exactly on the entry lists the grammar derives, with the derived blocks.
\<close>

section \<open>The document\<close>

record qd_name_value =
  nv_name :: ustr
  nv_value :: ustr
  nv_checked :: bool
  nv_extensions :: "(ustr \<times> json) list"

record qd_post_data =
  pd_mime_type :: "ustr option"
  pd_text :: "ustr option"
  pd_extensions :: "(ustr \<times> json) list"

record qd_request =
  rq_method :: ustr
  rq_url :: ustr
  rq_headers :: "qd_name_value list"
  rq_cookies :: "qd_name_value list"
  rq_post_data :: "qd_post_data option"
  rq_extensions :: "(ustr \<times> json) list"

record qd_rule =
  ru_re :: ustr
  ru_from :: ustr
  ru_extensions :: "(ustr \<times> json) list"

record qd_extract_rule =
  xr_name :: ustr
  xr_rule :: qd_rule

record qd_entry =
  en_checked :: bool
  en_comment :: "ustr option"
  en_request :: qd_request
  en_success :: "qd_rule list"
  en_failed :: "qd_rule list"
  en_extract :: "qd_extract_rule list"
  en_extensions :: "(ustr \<times> json) list"

record har_log =
  log_version :: ustr
  log_entries :: "qd_entry list"

section \<open>Validation\<close>

definition validate_rule :: "qd_rule \<Rightarrow> error + unit" where
  "validate_rule r = ensure (trim (ru_from r) \<noteq> []) [lit ''rule source is empty'']"

fun validate_rules :: "qd_rule list \<Rightarrow> error + unit" where
  "validate_rules [] = Inr ()"
| "validate_rules (r # rs) = rbind (validate_rule r) (\<lambda>_. validate_rules rs)"

definition validate_entry :: "qd_entry \<Rightarrow> error + unit" where
  "validate_entry e =
     rbind (ensure (trim (rq_method (en_request e)) \<noteq> []) [lit ''method is empty'']) (\<lambda>_.
     rbind (ensure (trim (rq_url (en_request e)) \<noteq> []) [lit ''URL is empty'']) (\<lambda>_.
     rbind (validate_rules (en_success e @ en_failed e)) (\<lambda>_.
     validate_rules (map xr_rule (en_extract e)))))"

text \<open>The enabled entries are validated in order, with their index in the whole document.\<close>

fun validate_entries :: "nat \<Rightarrow> qd_entry list \<Rightarrow> error + unit" where
  "validate_entries i [] = Inr ()"
| "validate_entries i (e # es) =
     (if en_checked e
      then rbind (with_context (lit ''invalid QD HAR entry '' @ nat_to_str (i + 1)) (validate_entry e))
             (\<lambda>_. validate_entries (i + 1) es)
      else validate_entries (i + 1) es)"

definition finish_parse :: "har_log \<Rightarrow> error + har_log" where
  "finish_parse d =
     rbind (ensure (log_version d = lit ''1.2'') [lit ''unsupported HAR version'']) (\<lambda>_.
     rbind (ensure (log_entries d \<noteq> []) [lit ''QD HAR must contain at least one entry'']) (\<lambda>_.
     rbind (validate_entries 0 (log_entries d)) (\<lambda>_. Inr d)))"

definition enabled_entries :: "har_log \<Rightarrow> qd_entry list" where
  "enabled_entries d = filter en_checked (log_entries d)"

definition request_fields :: "qd_request \<Rightarrow> ustr list" where
  "request_fields r =
     [rq_method r, rq_url r]
     @ (case Option.bind (rq_post_data r) pd_text of None \<Rightarrow> [] | Some t \<Rightarrow> [t])
     @ concat (map (\<lambda>i. [nv_name i, nv_value i]) (rq_headers r @ rq_cookies r))"

section \<open>Control statements\<close>

definition control_statement :: "ustr \<Rightarrow> ustr option" where
  "control_statement v =
     Option.bind (strip_prefix (lit ''{%'') (trim v)) (\<lambda>s.
     map_option trim (strip_suffix (lit ''%}'') s))"

datatype qd_control = CFor ustr | CWhile ustr | CIf ustr | CElse | CEnd ustr

definition entry_control :: "qd_entry \<Rightarrow> qd_control option" where
  "entry_control e =
     (let v = trim (rq_url (en_request e)) in
      Option.bind (strip_prefix (lit ''{%'') v) (\<lambda>s.
      Option.bind (strip_suffix (lit ''%}'') s) (\<lambda>body.
      let st = trim body in
        if starts_with (lit ''for '') st then Some (CFor v)
        else if starts_with (lit ''while '') st then Some (CWhile v)
        else if starts_with (lit ''if '') st then Some (CIf v)
        else if st = lit ''else'' then Some CElse
        else if st = lit ''endfor'' \<or> st = lit ''endwhile'' \<or> st = lit ''endif'' then Some (CEnd v)
        else None)))"

section \<open>Compilation\<close>

datatype qd_block =
    BRequest qd_entry
  | BFor ustr ustr "qd_block list"
  | BWhile ustr "qd_block list"
  | BIf ustr "qd_block list" "qd_block list"

definition statement_at :: "qd_entry list \<Rightarrow> nat \<Rightarrow> ustr option" where
  "statement_at es c = (if c < length es then control_statement (rq_url (en_request (es ! c))) else None)"

definition consume_end :: "qd_entry list \<Rightarrow> nat \<Rightarrow> ustr \<Rightarrow> error + nat" where
  "consume_end es c expected =
     (let actual = (case statement_at es c of None \<Rightarrow> lit ''end of HAR'' | Some s \<Rightarrow> s) in
      rbind (ensure (actual = expected)
               [lit ''expected '' @ expected @ lit '', found '' @ actual])
        (\<lambda>_. Inr (c + 1)))"

text \<open>What \<open>parse_blocks\<close> does once its loop has stopped.\<close>

definition close_blocks :: "qd_entry list \<Rightarrow> nat \<Rightarrow> ustr option \<Rightarrow> qd_block list \<Rightarrow> error + qd_block list \<times> nat" where
  "close_blocks es c end_opt blocks =
     (case end_opt of None \<Rightarrow> Inr (blocks, c)
      | Some expected \<Rightarrow>
          let actual = statement_at es c in
          rbind (ensure (actual = Some expected \<or> (expected = lit ''endif'' \<and> actual = Some (lit ''else'')))
                   [lit ''expected '' @ expected @ lit '', found ''
                    @ (case actual of None \<Rightarrow> lit ''end of HAR'' | Some s \<Rightarrow> s)])
            (\<lambda>_. Inr (blocks, c)))"

text \<open>
  One iteration of the loop of \<open>parse_blocks\<close> at cursor \<open>c\<close> with the blocks \<open>acc\<close> already pushed,
  over the function \<open>rec\<close> that stands for the nested calls and for the rest of the loop; the three
  block openers come first.
\<close>

type_synonym pb_rec = "qd_entry list \<Rightarrow> nat \<Rightarrow> ustr option \<Rightarrow> qd_block list \<Rightarrow> (error + qd_block list \<times> nat) option"

definition parse_if :: "pb_rec \<Rightarrow> qd_entry list \<Rightarrow> nat \<Rightarrow> ustr option \<Rightarrow> qd_block list \<Rightarrow> ustr
    \<Rightarrow> (error + qd_block list \<times> nat) option" where
  "parse_if rec es c end_opt acc cond =
     (if trim cond = [] then Some (Inl [lit ''if condition is empty''])
      else fbind (rec es (c + 1) (Some (lit ''endif'')) []) (\<lambda>(thn, c1).
        fbind (if statement_at es c1 = Some (lit ''else'')
               then rec es (c1 + 1) (Some (lit ''endif'')) []
               else Some (Inr ([], c1))) (\<lambda>(els, c2).
        fbind (Some (consume_end es c2 (lit ''endif''))) (\<lambda>c3.
        rec es c3 end_opt (acc @ [BIf (trim cond) thn els])))))"

definition parse_for :: "pb_rec \<Rightarrow> qd_entry list \<Rightarrow> nat \<Rightarrow> ustr option \<Rightarrow> qd_block list \<Rightarrow> ustr
    \<Rightarrow> (error + qd_block list \<times> nat) option" where
  "parse_for rec es c end_opt acc expression =
     (case split_once (lit '' in '') expression of
        None \<Rightarrow> Some (Inl [lit ''for control must use `for <name> in <expression>`''])
      | Some (target, source) \<Rightarrow>
          if trim target = [] then Some (Inl [lit ''for target is empty''])
          else if trim source = [] then Some (Inl [lit ''for source is empty''])
          else fbind (rec es (c + 1) (Some (lit ''endfor'')) []) (\<lambda>(body, c1).
            fbind (Some (consume_end es c1 (lit ''endfor''))) (\<lambda>c2.
            rec es c2 end_opt (acc @ [BFor (trim target) (trim source) body]))))"

definition parse_while :: "pb_rec \<Rightarrow> qd_entry list \<Rightarrow> nat \<Rightarrow> ustr option \<Rightarrow> qd_block list \<Rightarrow> ustr
    \<Rightarrow> (error + qd_block list \<times> nat) option" where
  "parse_while rec es c end_opt acc cond =
     (if trim cond = [] then Some (Inl [lit ''while condition is empty''])
      else fbind (rec es (c + 1) (Some (lit ''endwhile'')) []) (\<lambda>(body, c1).
        fbind (Some (consume_end es c1 (lit ''endwhile''))) (\<lambda>c2.
        rec es c2 end_opt (acc @ [BWhile (trim cond) body]))))"

definition parse_statement :: "pb_rec \<Rightarrow> qd_entry list \<Rightarrow> nat \<Rightarrow> ustr option \<Rightarrow> qd_block list \<Rightarrow> ustr
    \<Rightarrow> (error + qd_block list \<times> nat) option" where
  "parse_statement rec es c end_opt acc st =
     (case strip_prefix (lit ''if '') st of Some cond \<Rightarrow> parse_if rec es c end_opt acc cond
      | None \<Rightarrow> (case strip_prefix (lit ''for '') st of Some expression \<Rightarrow> parse_for rec es c end_opt acc expression
      | None \<Rightarrow> (case strip_prefix (lit ''while '') st of Some cond \<Rightarrow> parse_while rec es c end_opt acc cond
      | None \<Rightarrow> rec es (c + 1) end_opt (acc @ [BRequest (es ! c)]))))"

definition parse_step :: "pb_rec \<Rightarrow> pb_rec" where
  "parse_step rec es c end_opt acc =
     (if length es \<le> c then Some (close_blocks es c end_opt acc)
      else (case control_statement (rq_url (en_request (es ! c))) of
        None \<Rightarrow> rec es (c + 1) end_opt (acc @ [BRequest (es ! c)])
      | Some st \<Rightarrow>
          if st = lit ''else'' \<or> starts_with (lit ''end'') st then
            (if end_opt \<noteq> None then Some (close_blocks es c end_opt acc)
             else Some (Inl [lit ''unexpected control tag at entry '' @ nat_to_str (c + 1) @ lit '': '' @ st]))
          else parse_statement rec es c end_opt acc st))"

text \<open>A nested call and an iteration of the loop both spend one unit of fuel.\<close>

fun parse_blocks :: "nat \<Rightarrow> pb_rec" where
  "parse_blocks 0 = (\<lambda>es c end_opt acc. None)"
| "parse_blocks (Suc fuel) = parse_step (parse_blocks fuel)"

definition compile_program :: "har_log \<Rightarrow> (error + qd_block list) option" where
  "compile_program d =
     (let es = enabled_entries d in
      fbind (parse_blocks (Suc (length es)) es 0 None []) (\<lambda>(blocks, c).
      Some (rbind (ensure (c = length es) [lit ''unexpected trailing control entry'']) (\<lambda>_. Inr blocks))))"

section \<open>The grammar of programs\<close>

definition stmt_of :: "qd_entry \<Rightarrow> ustr option" where
  "stmt_of e = control_statement (rq_url (en_request e))"

definition plain_entry :: "qd_entry \<Rightarrow> bool" where
  "plain_entry e = (case stmt_of e of None \<Rightarrow> True
     | Some st \<Rightarrow> st \<noteq> lit ''else'' \<and> \<not> starts_with (lit ''end'') st \<and> \<not> starts_with (lit ''if '') st
         \<and> \<not> starts_with (lit ''for '') st \<and> \<not> starts_with (lit ''while '') st)"

definition opens_if :: "qd_entry \<Rightarrow> ustr \<Rightarrow> bool" where
  "opens_if e cond \<longleftrightarrow> (\<exists>x. stmt_of e = Some (lit ''if '' @ x) \<and> cond = trim x \<and> cond \<noteq> [])"

definition opens_while :: "qd_entry \<Rightarrow> ustr \<Rightarrow> bool" where
  "opens_while e cond \<longleftrightarrow> (\<exists>x. stmt_of e = Some (lit ''while '' @ x) \<and> cond = trim x \<and> cond \<noteq> [])"

definition opens_for :: "qd_entry \<Rightarrow> ustr \<Rightarrow> ustr \<Rightarrow> bool" where
  "opens_for e target source \<longleftrightarrow> (\<exists>x a b. stmt_of e = Some (lit ''for '' @ x)
     \<and> split_once (lit '' in '') x = Some (a, b) \<and> target = trim a \<and> source = trim b
     \<and> target \<noteq> [] \<and> source \<noteq> [])"

inductive blocks_of :: "qd_entry list \<Rightarrow> qd_block list \<Rightarrow> bool" where
  bo_nil: "blocks_of [] []"
| bo_request: "plain_entry e \<Longrightarrow> blocks_of es bs \<Longrightarrow> blocks_of (e # es) (BRequest e # bs)"
| bo_if: "opens_if e cond \<Longrightarrow> blocks_of es1 thn \<Longrightarrow> stmt_of f = Some (lit ''endif'') \<Longrightarrow>
    blocks_of es bs \<Longrightarrow> blocks_of (e # es1 @ f # es) (BIf cond thn [] # bs)"
| bo_if_else: "opens_if e cond \<Longrightarrow> blocks_of es1 thn \<Longrightarrow> stmt_of g = Some (lit ''else'') \<Longrightarrow>
    blocks_of es2 els \<Longrightarrow> stmt_of f = Some (lit ''endif'') \<Longrightarrow>
    blocks_of es bs \<Longrightarrow> blocks_of (e # es1 @ g # es2 @ f # es) (BIf cond thn els # bs)"
| bo_for: "opens_for e target source \<Longrightarrow> blocks_of es1 body \<Longrightarrow> stmt_of f = Some (lit ''endfor'') \<Longrightarrow>
    blocks_of es bs \<Longrightarrow> blocks_of (e # es1 @ f # es) (BFor target source body # bs)"
| bo_while: "opens_while e cond \<Longrightarrow> blocks_of es1 body \<Longrightarrow> stmt_of f = Some (lit ''endwhile'') \<Longrightarrow>
    blocks_of es bs \<Longrightarrow> blocks_of (e # es1 @ f # es) (BWhile cond body # bs)"

section \<open>Fuel\<close>

lemma fbind_mono:
  assumes "fbind r f = Some y"
    and "\<And>z. r = Some z \<Longrightarrow> r' = Some z"
    and "\<And>x z. r = Some (Inr x) \<Longrightarrow> f x = Some z \<Longrightarrow> f' x = Some z"
  shows "fbind r' f' = Some y"
proof (cases r)
  case (Some z)
  then have r': "r' = Some z" by (rule assms(2))
  show ?thesis
  proof (cases z)
    case (Inl e) then show ?thesis using assms(1) Some r' by simp
  next
    case (Inr x)
    with assms(1) Some have "f x = Some y" by simp
    with Some Inr have "f' x = Some y" by (intro assms(3)) auto
    with r' Inr show ?thesis by simp
  qed
qed (use assms(1) in simp)

definition le_rec :: "pb_rec \<Rightarrow> pb_rec \<Rightarrow> bool" where
  "le_rec r r' \<longleftrightarrow> (\<forall>es c e acc y. r es c e acc = Some y \<longrightarrow> r' es c e acc = Some y)"

lemma le_recD: "le_rec r r' \<Longrightarrow> r es c e acc = Some y \<Longrightarrow> r' es c e acc = Some y"
  by (auto simp: le_rec_def)

lemma parse_if_mono:
  "le_rec r r' \<Longrightarrow> parse_if r es c e acc x = Some y \<Longrightarrow> parse_if r' es c e acc x = Some y"
  unfolding parse_if_def
  by (auto split: if_splits prod.splits dest: le_recD elim!: fbind_mono)

lemma parse_for_mono:
  "le_rec r r' \<Longrightarrow> parse_for r es c e acc x = Some y \<Longrightarrow> parse_for r' es c e acc x = Some y"
  unfolding parse_for_def
  by (auto split: if_splits prod.splits option.splits dest: le_recD elim!: fbind_mono)

lemma parse_while_mono:
  "le_rec r r' \<Longrightarrow> parse_while r es c e acc x = Some y \<Longrightarrow> parse_while r' es c e acc x = Some y"
  unfolding parse_while_def
  by (auto split: if_splits prod.splits dest: le_recD elim!: fbind_mono)

lemma parse_step_mono: "le_rec r r' \<Longrightarrow> le_rec (parse_step r) (parse_step r')"
  unfolding le_rec_def [of "parse_step r"] parse_step_def parse_statement_def
  by (auto split: if_splits option.splits dest: le_recD parse_if_mono parse_for_mono parse_while_mono)

lemma parse_blocks_le_Suc: "le_rec (parse_blocks fuel) (parse_blocks (Suc fuel))"
proof (induction fuel)
  case 0
  show ?case by (simp add: le_rec_def)
next
  case (Suc fuel)
  then show ?case by (simp add: parse_step_mono)
qed

lemma parse_blocks_mono:
  assumes "fuel \<le> fuel'" and "parse_blocks fuel es c e acc = Some r"
  shows "parse_blocks fuel' es c e acc = Some r"
  using assms
proof (induction fuel' rule: dec_induct)
  case (step n)
  then show ?case using parse_blocks_le_Suc le_recD by blast
qed simp

section \<open>The parser derives the grammar\<close>

definition slice :: "'a list \<Rightarrow> nat \<Rightarrow> nat \<Rightarrow> 'a list" where
  "slice xs a b = take (b - a) (drop a xs)"

lemma slice_empty [simp]: "slice xs a a = []"
  by (simp add: slice_def)

lemma slice_Cons: "a < b \<Longrightarrow> b \<le> length xs \<Longrightarrow> slice xs a b = xs ! a # slice xs (Suc a) b"
  by (simp add: slice_def drop_nth_Cons take_Cons' Suc_diff_Suc)

lemma slice_split:
  assumes "a \<le> b" "b \<le> c"
  shows "slice xs a c = slice xs a b @ slice xs b c"
proof -
  have "c - a = (b - a) + (c - b)" using assms by simp
  then have "slice xs a c = take (b - a) (drop a xs) @ take (c - b) (drop (b - a) (drop a xs))"
    unfolding slice_def by (simp only: take_add)
  then show ?thesis using assms by (simp add: slice_def)
qed

definition stops :: "qd_entry list \<Rightarrow> nat \<Rightarrow> ustr option \<Rightarrow> bool" where
  "stops es c end_opt = (case end_opt of None \<Rightarrow> c = length es
     | Some x \<Rightarrow> statement_at es c = Some x \<or> (x = lit ''endif'' \<and> statement_at es c = Some (lit ''else'')))"

lemma statement_at_Some: "statement_at es c = Some s \<longleftrightarrow> c < length es \<and> stmt_of (es ! c) = Some s"
  by (simp add: statement_at_def stmt_of_def)

lemma close_blocks_Inr:
  "close_blocks es c e acc = Inr r \<Longrightarrow> r = (acc, c) \<and> (e \<noteq> None \<longrightarrow> stops es c e)"
  by (auto simp: close_blocks_def stops_def Let_def res_simps split: option.splits)

lemma consume_end_Inr:
  "x \<noteq> lit ''end of HAR'' \<Longrightarrow> consume_end es c x = Inr c' \<longleftrightarrow> c' = c + 1 \<and> statement_at es c = Some x"
  by (auto simp: consume_end_def Let_def res_simps split: option.splits)

definition derives :: "pb_rec \<Rightarrow> bool" where
  "derives rec \<longleftrightarrow> (\<forall>es c e acc bs c'. rec es c e acc = Some (Inr (bs, c')) \<longrightarrow> c \<le> length es \<longrightarrow>
     c \<le> c' \<and> c' \<le> length es \<and> stops es c' e
     \<and> (\<exists>bs'. bs = acc @ bs' \<and> blocks_of (slice es c c') bs'))"

lemma derivesE:
  assumes "derives rec" "rec es c e acc = Some (Inr (bs, c'))" "c \<le> length es"
  obtains bs' where "bs = acc @ bs'" "blocks_of (slice es c c') bs'" "c \<le> c'" "c' \<le> length es" "stops es c' e"
  using assms unfolding derives_def by blast

lemma derives_if:
  assumes d: "derives rec" and st: "stmt_of (es ! c) = Some (lit ''if '' @ cond)" and c: "c < length es"
    and p: "parse_if rec es c e acc cond = Some (Inr (bs, c'))"
  shows "c \<le> c' \<and> c' \<le> length es \<and> stops es c' e \<and> (\<exists>bs'. bs = acc @ bs' \<and> blocks_of (slice es c c') bs')"
proof -
  from p obtain thn c1 els c2 where ne: "trim cond \<noteq> []"
    and r1: "rec es (Suc c) (Some (lit ''endif'')) [] = Some (Inr (thn, c1))"
    and r2: "(if statement_at es c1 = Some (lit ''else'') then rec es (Suc c1) (Some (lit ''endif'')) []
              else Some (Inr ([], c1))) = Some (Inr (els, c2))"
    and e2: "statement_at es c2 = Some (lit ''endif'')"
    and r3: "rec es (Suc c2) e (acc @ [BIf (trim cond) thn els]) = Some (Inr (bs, c'))"
    by (auto simp: parse_if_def fbind_eq_Some_Inr consume_end_Inr split: if_splits)
  have op: "opens_if (es ! c) (trim cond)" using st ne by (auto simp: opens_if_def)
  from d r1 c obtain thn' where t: "blocks_of (slice es (Suc c) c1) thn" and l1: "Suc c \<le> c1" "c1 \<le> length es"
    by (auto elim: derivesE)
  from e2 have l2: "c2 < length es" and s2: "stmt_of (es ! c2) = Some (lit ''endif'')"
    by (auto simp: statement_at_Some)
  from d r3 l2 obtain bs' where b: "bs = acc @ BIf (trim cond) thn els # bs'" "blocks_of (slice es (Suc c2) c') bs'"
    and l3: "Suc c2 \<le> c'" "c' \<le> length es" "stops es c' e"
    by (elim derivesE) auto
  have tail: "slice es c2 c' = es ! c2 # slice es (Suc c2) c'" using l3 by (simp add: slice_Cons)
  show ?thesis
  proof (cases "statement_at es c1 = Some (lit ''else'')")
    case True
    then have l1': "c1 < length es" and s1: "stmt_of (es ! c1) = Some (lit ''else'')"
      by (auto simp: statement_at_Some)
    from d r2 True l1' obtain "blocks_of (slice es (Suc c1) c2) els" "Suc c1 \<le> c2"
      by (auto elim: derivesE)
    moreover from this l1 l3 have "slice es c c' = es ! c # slice es (Suc c) c1 @ es ! c1 # slice es (Suc c1) c2
        @ es ! c2 # slice es (Suc c2) c'"
      using c by (simp add: slice_Cons [of c c'] slice_split [of "Suc c" c1 c'] slice_Cons [of c1 c']
          slice_split [of "Suc c1" c2 c'] tail)
    ultimately have "blocks_of (slice es c c') (BIf (trim cond) thn els # bs')"
      using bo_if_else [OF op t s1 _ s2 b(2)] by simp
    with b l1 l3 \<open>Suc c1 \<le> c2\<close> show ?thesis by auto
  next
    case False
    with r2 have eq: "els = []" "c2 = c1" by auto
    have "slice es c c' = es ! c # slice es (Suc c) c1 @ es ! c1 # slice es (Suc c1) c'"
      using c l1 l3 eq tail by (simp add: slice_Cons [of c c'] slice_split [of "Suc c" c1 c'])
    then have "blocks_of (slice es c c') (BIf (trim cond) thn els # bs')"
      using bo_if [OF op t] s2 b(2) eq by simp
    with b l1 l3 eq show ?thesis by auto
  qed
qed


text \<open>\<open>for\<close> and \<open>while\<close> share the shape: an opener, a body closed by its own end tag, the rest.\<close>

lemma derives_loop:
  assumes d: "derives rec" and c: "c < length es" and x: "x \<noteq> lit ''endif'' \<and> x \<noteq> lit ''end of HAR''"
    and r1: "rec es (Suc c) (Some x) [] = Some (Inr (body, c1))" and e1: "consume_end es c1 x = Inr c2"
    and r2: "rec es c2 e (acc @ [blk body]) = Some (Inr (bs, c'))"
    and bo: "\<And>es1 body f es2 bs2. blocks_of es1 body \<Longrightarrow> stmt_of f = Some x \<Longrightarrow> blocks_of es2 bs2
       \<Longrightarrow> blocks_of (es ! c # es1 @ f # es2) (blk body # bs2)"
  shows "c \<le> c' \<and> c' \<le> length es \<and> stops es c' e \<and> (\<exists>bs'. bs = acc @ bs' \<and> blocks_of (slice es c c') bs')"
proof -
  from e1 x have c2: "c2 = Suc c1" and l1: "c1 < length es" and s1: "stmt_of (es ! c1) = Some x"
    by (auto simp: consume_end_Inr statement_at_Some)
  from d r1 c have t: "blocks_of (slice es (Suc c) c1) body" and l0: "Suc c \<le> c1"
    by (auto elim: derivesE)
  from d r2 l1 c2 obtain bs' where b: "bs = acc @ blk body # bs'" "blocks_of (slice es (Suc c1) c') bs'"
    and l3: "Suc c1 \<le> c'" "c' \<le> length es" "stops es c' e"
    by (elim derivesE) auto
  have "slice es c c' = es ! c # slice es (Suc c) c1 @ es ! c1 # slice es (Suc c1) c'"
    using c l0 l1 l3 by (simp add: slice_Cons [of c c'] slice_split [of "Suc c" c1 c'] slice_Cons [of c1 c'])
  then have "blocks_of (slice es c c') (blk body # bs')" using bo [OF t s1 b(2)] by simp
  with b l0 l1 l3 show ?thesis by auto
qed

lemma derives_for:
  assumes d: "derives rec" and st: "stmt_of (es ! c) = Some (lit ''for '' @ x)" and c: "c < length es"
    and p: "parse_for rec es c e acc x = Some (Inr (bs, c'))"
  shows "c \<le> c' \<and> c' \<le> length es \<and> stops es c' e \<and> (\<exists>bs'. bs = acc @ bs' \<and> blocks_of (slice es c c') bs')"
proof -
  from p obtain a b body c1 c2 where sp: "split_once (lit '' in '') x = Some (a, b)"
    and ne: "trim a \<noteq> []" "trim b \<noteq> []"
    and r1: "rec es (Suc c) (Some (lit ''endfor'')) [] = Some (Inr (body, c1))"
    and e1: "consume_end es c1 (lit ''endfor'') = Inr c2"
    and r2: "rec es c2 e (acc @ [BFor (trim a) (trim b) body]) = Some (Inr (bs, c'))"
    by (auto simp: parse_for_def fbind_eq_Some_Inr split: if_splits option.splits)
  have "opens_for (es ! c) (trim a) (trim b)" using st sp ne by (auto simp: opens_for_def)
  from derives_loop [where blk = "BFor (trim a) (trim b)", OF d c _ r1 e1 r2 bo_for [OF this]]
  show ?thesis by simp
qed

lemma derives_while:
  assumes d: "derives rec" and st: "stmt_of (es ! c) = Some (lit ''while '' @ x)" and c: "c < length es"
    and p: "parse_while rec es c e acc x = Some (Inr (bs, c'))"
  shows "c \<le> c' \<and> c' \<le> length es \<and> stops es c' e \<and> (\<exists>bs'. bs = acc @ bs' \<and> blocks_of (slice es c c') bs')"
proof -
  from p obtain body c1 c2 where ne: "trim x \<noteq> []"
    and r1: "rec es (Suc c) (Some (lit ''endwhile'')) [] = Some (Inr (body, c1))"
    and e1: "consume_end es c1 (lit ''endwhile'') = Inr c2"
    and r2: "rec es c2 e (acc @ [BWhile (trim x) body]) = Some (Inr (bs, c'))"
    by (auto simp: parse_while_def fbind_eq_Some_Inr split: if_splits)
  have "opens_while (es ! c) (trim x)" using st ne by (auto simp: opens_while_def)
  from derives_loop [where blk = "BWhile (trim x)", OF d c _ r1 e1 r2 bo_while [OF this]]
  show ?thesis by simp
qed

lemma derives_request:
  assumes d: "derives rec" and pl: "plain_entry (es ! c)" and c: "c < length es"
    and r: "rec es (Suc c) e (acc @ [BRequest (es ! c)]) = Some (Inr (bs, c'))"
  shows "c \<le> c' \<and> c' \<le> length es \<and> stops es c' e \<and> (\<exists>bs'. bs = acc @ bs' \<and> blocks_of (slice es c c') bs')"
proof -
  from d r c obtain bs' where b: "bs = acc @ BRequest (es ! c) # bs'" "blocks_of (slice es (Suc c) c') bs'"
    and l: "Suc c \<le> c'" "c' \<le> length es" "stops es c' e"
    by (elim derivesE) auto
  have "blocks_of (slice es c c') (BRequest (es ! c) # bs')"
    using bo_request [OF pl b(2)] c l by (simp add: slice_Cons [of c c'])
  with b l show ?thesis by auto
qed

lemma plain_entryI:
  assumes "stmt_of e = Some st" "st \<noteq> lit ''else''" "\<not> starts_with (lit ''end'') st"
    "strip_prefix (lit ''if '') st = None" "strip_prefix (lit ''for '') st = None" "strip_prefix (lit ''while '') st = None"
  shows "plain_entry e"
  using assms by (auto simp: plain_entry_def strip_prefix_def split: if_splits)

lemma derives_statement:
  assumes d: "derives rec" and c: "c < length es"
    and st: "stmt_of (es ! c) = Some st" "st \<noteq> lit ''else''" "\<not> starts_with (lit ''end'') st"
    and p: "parse_statement rec es c e acc st = Some (Inr (bs, c'))"
  shows "c \<le> c' \<and> c' \<le> length es \<and> stops es c' e \<and> (\<exists>bs'. bs = acc @ bs' \<and> blocks_of (slice es c c') bs')"
proof (cases "strip_prefix (lit ''if '') st")
  case (Some x)
  with p have "parse_if rec es c e acc x = Some (Inr (bs, c'))" by (simp only: parse_statement_def option.case)
  moreover have "stmt_of (es ! c) = Some (lit ''if '' @ x)" using Some st by (simp only: strip_prefix_eq_Some)
  ultimately show ?thesis by (intro derives_if [OF d _ c])
next
  case nif: None
  show ?thesis
  proof (cases "strip_prefix (lit ''for '') st")
    case (Some x)
    with nif p have "parse_for rec es c e acc x = Some (Inr (bs, c'))" by (simp only: parse_statement_def option.case)
    moreover have "stmt_of (es ! c) = Some (lit ''for '' @ x)" using Some st by (simp only: strip_prefix_eq_Some)
    ultimately show ?thesis by (intro derives_for [OF d _ c])
  next
    case nfor: None
    show ?thesis
    proof (cases "strip_prefix (lit ''while '') st")
      case (Some x)
      with nif nfor p have "parse_while rec es c e acc x = Some (Inr (bs, c'))"
        by (simp only: parse_statement_def option.case)
      moreover have "stmt_of (es ! c) = Some (lit ''while '' @ x)" using Some st by (simp only: strip_prefix_eq_Some)
      ultimately show ?thesis by (intro derives_while [OF d _ c])
    next
      case None
      with nif nfor p have "rec es (Suc c) e (acc @ [BRequest (es ! c)]) = Some (Inr (bs, c'))"
        by (simp add: parse_statement_def)
      with nif nfor None st show ?thesis by (intro derives_request [OF d plain_entryI c]) auto
    qed
  qed
qed

lemma derives_step:
  assumes d: "derives rec"
  shows "derives (parse_step rec)"
  unfolding derives_def
proof (intro allI impI)
  fix es c e acc bs c'
  assume p: "parse_step rec es c e acc = Some (Inr (bs, c'))" and le: "c \<le> length es"
  show "c \<le> c' \<and> c' \<le> length es \<and> stops es c' e \<and> (\<exists>bs'. bs = acc @ bs' \<and> blocks_of (slice es c c') bs')"
  proof (cases "c = length es")
    case True
    with p show ?thesis
      by (auto simp: parse_step_def stops_def bo_nil split: option.splits dest!: close_blocks_Inr)
  next
    case False
    with le have c: "c < length es" by simp
    show ?thesis
    proof (cases "stmt_of (es ! c)")
      case None
      with p c show ?thesis
        by (intro derives_request [OF d _ c]) (auto simp: parse_step_def plain_entry_def stmt_of_def)
    next
      case (Some st)
      show ?thesis
      proof (cases "st = lit ''else'' \<or> starts_with (lit ''end'') st")
        case True
        with p c Some have "e \<noteq> None" and "close_blocks es c e acc = Inr (bs, c')"
          by (auto simp: parse_step_def stmt_of_def split: if_splits)
        from close_blocks_Inr [OF this(2)] this(1) c show ?thesis
          by (auto simp: bo_nil)
      next
        case False
        with p c Some show ?thesis
          by (intro derives_statement [OF d c Some]) (auto simp: parse_step_def stmt_of_def)
      qed
    qed
  qed
qed

lemma derives_parse_blocks: "derives (parse_blocks fuel)"
proof (induction fuel)
  case 0
  show ?case by (simp add: derives_def)
next
  case (Suc fuel)
  then show ?case by (simp add: derives_step)
qed


section \<open>Enough fuel\<close>

definition enough :: "pb_rec \<Rightarrow> nat \<Rightarrow> bool" where
  "enough rec n \<longleftrightarrow> (\<forall>es c e acc. c \<le> length es \<longrightarrow> length es < n + c \<longrightarrow> rec es c e acc \<noteq> None)"

lemma enoughD: "enough rec n \<Longrightarrow> c \<le> length es \<Longrightarrow> length es < n + c \<Longrightarrow> rec es c e acc \<noteq> None"
  by (simp add: enough_def)

lemma consume_end_lt: "consume_end es c x = Inr c' \<Longrightarrow> x \<noteq> lit ''end of HAR'' \<Longrightarrow> c' = c + 1 \<and> c < length es"
  by (simp add: consume_end_Inr statement_at_Some)

lemma derives_le: "derives rec \<Longrightarrow> rec es c e acc = Some (Inr (bs, c')) \<Longrightarrow> c \<le> length es \<Longrightarrow> c \<le> c'"
  by (erule derivesE) auto

lemma enough_if:
  assumes "derives rec" "enough rec n" "c < length es" "length es \<le> n + c"
  shows "parse_if rec es c e acc x \<noteq> None"
proof -
  have n1: "\<exists>y. rec es (Suc k) e' acc' = Some y" if "c \<le> k" "k < length es" for k e' acc'
    using enoughD [OF assms(2), of "Suc k" es e' acc'] assms(4) that by auto
  show ?thesis using assms(3)
    by (auto simp: parse_if_def fbind_ex_Some statement_at_Some
        dest!: consume_end_lt derives_le [OF assms(1)] split: prod.splits if_splits intro!: n1)
qed

lemma enough_for:
  assumes "derives rec" "enough rec n" "c < length es" "length es \<le> n + c"
  shows "parse_for rec es c e acc x \<noteq> None"
proof -
  have n1: "\<exists>y. rec es (Suc k) e' acc' = Some y" if "c \<le> k" "k < length es" for k e' acc'
    using enoughD [OF assms(2), of "Suc k" es e' acc'] assms(4) that by auto
  show ?thesis using assms(3)
    by (auto simp: parse_for_def fbind_ex_Some
        dest!: consume_end_lt derives_le [OF assms(1)] split: prod.splits option.splits if_splits intro!: n1)
qed

lemma enough_while:
  assumes "derives rec" "enough rec n" "c < length es" "length es \<le> n + c"
  shows "parse_while rec es c e acc x \<noteq> None"
proof -
  have n1: "\<exists>y. rec es (Suc k) e' acc' = Some y" if "c \<le> k" "k < length es" for k e' acc'
    using enoughD [OF assms(2), of "Suc k" es e' acc'] assms(4) that by auto
  show ?thesis using assms(3)
    by (auto simp: parse_while_def fbind_ex_Some
        dest!: consume_end_lt derives_le [OF assms(1)] split: prod.splits if_splits intro!: n1)
qed

lemma enough_step:
  assumes d: "derives rec" and n: "enough rec n"
  shows "enough (parse_step rec) (Suc n)"
  unfolding enough_def
proof (intro allI impI)
  fix es :: "qd_entry list" and c e acc
  assume "c \<le> length es" and l: "length es < Suc n + c"
  show "parse_step rec es c e acc \<noteq> None"
  proof (cases "c < length es")
    case True
    have r: "rec es (Suc c) e acc' \<noteq> None" for acc' using True l by (intro enoughD [OF n]) auto
    have l': "length es \<le> n + c" using l by simp
    show ?thesis
      using r enough_if [OF d n True l'] enough_for [OF d n True l'] enough_while [OF d n True l']
      by (auto simp: parse_step_def parse_statement_def simp del: not_None_eq split: option.splits)
  qed (simp add: parse_step_def)
qed

lemma parse_blocks_fuel: "enough (parse_blocks fuel) fuel"
proof (induction fuel)
  case 0
  show ?case by (simp add: enough_def)
next
  case (Suc fuel)
  then show ?case by (simp add: enough_step derives_parse_blocks)
qed

section \<open>Completeness\<close>

text \<open>\<open>runs_to es c e acc r\<close>: with enough fuel the call returns \<open>r\<close>.\<close>

definition runs_to :: "qd_entry list \<Rightarrow> nat \<Rightarrow> ustr option \<Rightarrow> qd_block list \<Rightarrow> (error + qd_block list \<times> nat) \<Rightarrow> bool" where
  "runs_to es c e acc r \<longleftrightarrow> (\<exists>fuel. \<forall>fuel' \<ge> fuel. parse_blocks fuel' es c e acc = Some r)"

lemma runs_toI: "parse_blocks fuel es c e acc = Some r \<Longrightarrow> runs_to es c e acc r"
  unfolding runs_to_def by (blast intro: parse_blocks_mono)

lemma runs_to_stepI:
  assumes "\<exists>fuel. \<forall>fuel' \<ge> fuel. parse_step (parse_blocks fuel') es c e acc = Some r"
  shows "runs_to es c e acc r"
proof -
  from assms obtain fuel where "parse_step (parse_blocks fuel) es c e acc = Some r" by blast
  then have "parse_blocks (Suc fuel) es c e acc = Some r" by simp
  then show ?thesis by (rule runs_toI)
qed

lemma runs_to_stop:
  assumes "stops es c (Some x)" "c < length es" "x = lit ''endif'' \<or> x = lit ''endfor'' \<or> x = lit ''endwhile''"
  shows "runs_to es c (Some x) acc (Inr (acc, c))"
proof (rule runs_to_stepI, intro exI allI impI)
  fix fuel
  from assms(1,2) have "statement_at es c = Some x \<or> statement_at es c = Some (lit ''else'')"
    by (auto simp: stops_def)
  then obtain st where st: "statement_at es c = Some st" "st = x \<or> st = lit ''else''" by blast
  then have "st = lit ''else'' \<or> starts_with (lit ''end'') st"
    using assms(3) by (auto simp: starts_with_def)
  moreover from st have "control_statement (rq_url (en_request (es ! c))) = Some st"
    by (simp add: statement_at_Some stmt_of_def)
  moreover have "close_blocks es c (Some x) acc = Inr (acc, c)"
    using assms(1) by (auto simp: close_blocks_def stops_def)
  ultimately show "parse_step (parse_blocks fuel) es c (Some x) acc = Some (Inr (acc, c))"
    using assms(2) by (simp add: parse_step_def)
qed

lemma runs_to_end: "runs_to es (length es) None acc (Inr (acc, length es))"
  by (rule runs_toI [of 1]) (simp add: parse_step_def close_blocks_def)

lemma runs_to_plain:
  assumes "c < length es" "plain_entry (es ! c)" "runs_to es (Suc c) e (acc @ [BRequest (es ! c)]) r"
  shows "runs_to es c e acc r"
  using assms
  by (intro runs_to_stepI)
     (auto simp: runs_to_def parse_step_def parse_statement_def plain_entry_def strip_prefix_def stmt_of_def
       split: option.splits)


lemma runs_toE:
  assumes "runs_to es c e acc r"
  obtains fuel where "\<And>fuel'. fuel \<le> fuel' \<Longrightarrow> parse_blocks fuel' es c e acc = Some r"
  using assms unfolding runs_to_def by blast

lemma step_statement:
  assumes "c < length es" "stmt_of (es ! c) = Some st" "st \<noteq> lit ''else''" "\<not> starts_with (lit ''end'') st"
  shows "parse_step rec es c e acc = parse_statement rec es c e acc st"
  using assms by (simp add: parse_step_def stmt_of_def)

lemma runs_to_if:
  assumes c: "c < length es" "stmt_of (es ! c) = Some (lit ''if '' @ x)" "trim x \<noteq> []"
    and t: "runs_to es (Suc c) (Some (lit ''endif'')) [] (Inr (thn, c1))"
    and f: "(statement_at es c1 = Some (lit ''else'') \<and> runs_to es (Suc c1) (Some (lit ''endif'')) [] (Inr (els, c2)))
            \<or> (statement_at es c1 \<noteq> Some (lit ''else'') \<and> els = [] \<and> c2 = c1)"
    and e2: "statement_at es c2 = Some (lit ''endif'')"
    and r: "runs_to es (Suc c2) e (acc @ [BIf (trim x) thn els]) r"
  shows "runs_to es c e acc r"
proof -
  from t obtain f1 where f1: "\<And>n. f1 \<le> n \<Longrightarrow> parse_blocks n es (Suc c) (Some (lit ''endif'')) [] = Some (Inr (thn, c1))"
    by (rule runs_toE) blast
  have "\<exists>f2. \<forall>n \<ge> f2. (if statement_at es c1 = Some (lit ''else'')
      then parse_blocks n es (Suc c1) (Some (lit ''endif'')) [] else Some (Inr ([], c1))) = Some (Inr (els, c2))"
  proof (cases "statement_at es c1 = Some (lit ''else'')")
    case True
    with f have "runs_to es (Suc c1) (Some (lit ''endif'')) [] (Inr (els, c2))" by blast
    then show ?thesis unfolding if_P [OF True] runs_to_def .
  next
    case False
    with f have "els = []" "c2 = c1" by blast+
    then show ?thesis unfolding if_not_P [OF False] by blast
  qed
  then obtain f2 where f2: "\<And>n. f2 \<le> n \<Longrightarrow> (if statement_at es c1 = Some (lit ''else'')
      then parse_blocks n es (Suc c1) (Some (lit ''endif'')) [] else Some (Inr ([], c1))) = Some (Inr (els, c2))"
    by blast
  from r obtain f3 where f3: "\<And>n. f3 \<le> n \<Longrightarrow> parse_blocks n es (Suc c2) e (acc @ [BIf (trim x) thn els]) = Some r"
    by (rule runs_toE) blast
  have ce: "consume_end es c2 (lit ''endif'') = Inr (Suc c2)" using e2 by (simp add: consume_end_Inr)
  have ne: "lit ''if '' @ x \<noteq> lit ''else''" "\<not> starts_with (lit ''end'') (lit ''if '' @ x)"
    by (simp_all add: starts_with_def)
  have eq: "parse_statement rec es c e acc (lit ''if '' @ x) = parse_if rec es c e acc x" for rec
    by (simp only: parse_statement_def strip_prefix_append option.case)
  have "parse_step (parse_blocks n) es c e acc = Some r" if "f1 + f2 + f3 \<le> n" for n
    using f1 [of n] f2 [of n] f3 [of n] that ce c(3)
    unfolding step_statement [OF c(1,2) ne] eq parse_if_def
    by (simp only: fbind_Inr prod.case if_False Suc_eq_plus1 [symmetric])
  then show ?thesis by (intro runs_to_stepI) blast
qed

lemma runs_to_for:
  assumes c: "c < length es" "stmt_of (es ! c) = Some (lit ''for '' @ x)"
    and sp: "split_once (lit '' in '') x = Some (a, b)" "trim a \<noteq> []" "trim b \<noteq> []"
    and t: "runs_to es (Suc c) (Some (lit ''endfor'')) [] (Inr (body, c1))"
    and e2: "statement_at es c1 = Some (lit ''endfor'')"
    and r: "runs_to es (Suc c1) e (acc @ [BFor (trim a) (trim b) body]) r"
  shows "runs_to es c e acc r"
proof -
  from t obtain f1 where f1: "\<And>n. f1 \<le> n \<Longrightarrow> parse_blocks n es (Suc c) (Some (lit ''endfor'')) [] = Some (Inr (body, c1))"
    by (rule runs_toE) blast
  from r obtain f3 where f3: "\<And>n. f3 \<le> n \<Longrightarrow> parse_blocks n es (Suc c1) e (acc @ [BFor (trim a) (trim b) body]) = Some r"
    by (rule runs_toE) blast
  have ce: "consume_end es c1 (lit ''endfor'') = Inr (Suc c1)" using e2 by (simp add: consume_end_Inr)
  have ne: "lit ''for '' @ x \<noteq> lit ''else''" "\<not> starts_with (lit ''end'') (lit ''for '' @ x)"
    "strip_prefix (lit ''if '') (lit ''for '' @ x) = None"
    by (simp_all add: starts_with_def strip_prefix_def)
  have eq: "parse_statement rec es c e acc (lit ''for '' @ x) = parse_for rec es c e acc x" for rec
    by (simp only: parse_statement_def strip_prefix_append option.case ne(3))
  have "parse_step (parse_blocks n) es c e acc = Some r" if "f1 + f3 \<le> n" for n
    using f1 [of n] f3 [of n] that ce sp
    unfolding step_statement [OF c(1,2) ne(1,2)] eq parse_for_def
    by (simp only: fbind_Inr prod.case option.case if_False Suc_eq_plus1 [symmetric])
  then show ?thesis by (intro runs_to_stepI) blast
qed

lemma runs_to_while:
  assumes c: "c < length es" "stmt_of (es ! c) = Some (lit ''while '' @ x)" "trim x \<noteq> []"
    and t: "runs_to es (Suc c) (Some (lit ''endwhile'')) [] (Inr (body, c1))"
    and e2: "statement_at es c1 = Some (lit ''endwhile'')"
    and r: "runs_to es (Suc c1) e (acc @ [BWhile (trim x) body]) r"
  shows "runs_to es c e acc r"
proof -
  from t obtain f1 where f1: "\<And>n. f1 \<le> n \<Longrightarrow> parse_blocks n es (Suc c) (Some (lit ''endwhile'')) [] = Some (Inr (body, c1))"
    by (rule runs_toE) blast
  from r obtain f3 where f3: "\<And>n. f3 \<le> n \<Longrightarrow> parse_blocks n es (Suc c1) e (acc @ [BWhile (trim x) body]) = Some r"
    by (rule runs_toE) blast
  have ce: "consume_end es c1 (lit ''endwhile'') = Inr (Suc c1)" using e2 by (simp add: consume_end_Inr)
  have ne: "lit ''while '' @ x \<noteq> lit ''else''" "\<not> starts_with (lit ''end'') (lit ''while '' @ x)"
    "strip_prefix (lit ''if '') (lit ''while '' @ x) = None" "strip_prefix (lit ''for '') (lit ''while '' @ x) = None"
    by (simp_all add: starts_with_def strip_prefix_def)
  have eq: "parse_statement rec es c e acc (lit ''while '' @ x) = parse_while rec es c e acc x" for rec
    by (simp only: parse_statement_def strip_prefix_append option.case ne(3,4))
  have "parse_step (parse_blocks n) es c e acc = Some r" if "f1 + f3 \<le> n" for n
    using f1 [of n] f3 [of n] that ce c(3)
    unfolding step_statement [OF c(1,2) ne(1,2)] eq parse_while_def
    by (simp only: fbind_Inr prod.case if_False Suc_eq_plus1 [symmetric])
  then show ?thesis by (intro runs_to_stepI) blast
qed

lemma nth_mid [simp]: "(pre @ x # rest) ! length pre = x"
  by simp

text \<open>A derivation is followed by the parser wherever it stands in the entry list.\<close>

lemma blocks_of_runs:
  "blocks_of es0 bs \<Longrightarrow> runs_to (pre @ es0 @ rest) (length pre + length es0) e (acc @ bs) r
    \<Longrightarrow> runs_to (pre @ es0 @ rest) (length pre) e acc r"
proof (induction arbitrary: pre rest e acc r rule: blocks_of.induct)
  case bo_nil
  then show ?case by simp
next
  case (bo_request f es bs)
  have "runs_to ((pre @ [f]) @ es @ rest) (length (pre @ [f])) e (acc @ [BRequest f]) r"
    using bo_request.prems by (intro bo_request.IH) simp
  then show ?case using bo_request.hyps(1) by - (rule runs_to_plain, simp_all)
next
  case (bo_if o' cond es1 thn f es bs)
  let ?es = "pre @ (o' # es1 @ f # es) @ rest"
  from bo_if.hyps(1) obtain x where x: "stmt_of o' = Some (lit ''if '' @ x)" "cond = trim x" "trim x \<noteq> []"
    by (auto simp: opens_if_def)
  let ?c1 = "length pre + Suc (length es1)"
  have at: "?es ! ?c1 = f" by (simp add: nth_append)
  have st: "statement_at ?es ?c1 = Some (lit ''endif'')"
    unfolding statement_at_Some at using bo_if.hyps(3) by simp
  have "runs_to ((pre @ [o']) @ es1 @ (f # es @ rest)) (length (pre @ [o'])) (Some (lit ''endif'')) [] (Inr (thn, ?c1))"
    using runs_to_stop [of ?es ?c1 "lit ''endif''" thn] st by (intro bo_if.IH(1)) (simp add: stops_def)
  moreover have "runs_to ((pre @ o' # es1 @ [f]) @ es @ rest) (length (pre @ o' # es1 @ [f])) e (acc @ [BIf cond thn []]) r"
    using bo_if.prems by (intro bo_if.IH(2)) (simp add: add.commute add.left_commute)
  ultimately show ?case
    using x st by - (rule runs_to_if [where x = x and thn = thn and els = "[]" and ?c1.0 = ?c1 and ?c2.0 = ?c1], simp_all)
next
  case (bo_if_else o' cond es1 thn g es2 els f es bs)
  let ?es = "pre @ (o' # es1 @ g # es2 @ f # es) @ rest"
  from bo_if_else.hyps(1) obtain x where x: "stmt_of o' = Some (lit ''if '' @ x)" "cond = trim x" "trim x \<noteq> []"
    by (auto simp: opens_if_def)
  let ?c1 = "length pre + Suc (length es1)"
  let ?c2 = "length pre + Suc (length es1) + Suc (length es2)"
  have at: "?es ! ?c1 = g" "?es ! ?c2 = f" by (simp_all add: nth_append)
  have st1: "statement_at ?es ?c1 = Some (lit ''else'')"
    unfolding statement_at_Some at using bo_if_else.hyps(3) by simp
  have st2: "statement_at ?es ?c2 = Some (lit ''endif'')"
    unfolding statement_at_Some at using bo_if_else.hyps(5) by simp
  have "runs_to ((pre @ [o']) @ es1 @ (g # es2 @ f # es @ rest)) (length (pre @ [o'])) (Some (lit ''endif'')) [] (Inr (thn, ?c1))"
    using runs_to_stop [of ?es ?c1 "lit ''endif''" thn] st1 by (intro bo_if_else.IH(1)) (simp add: stops_def)
  moreover have "runs_to ((pre @ o' # es1 @ [g]) @ es2 @ (f # es @ rest)) (length (pre @ o' # es1 @ [g]))
      (Some (lit ''endif'')) [] (Inr (els, ?c2))"
    using runs_to_stop [of ?es ?c2 "lit ''endif''" els] st2
    by (intro bo_if_else.IH(2)) (simp add: stops_def add.commute add.left_commute)
  moreover have "runs_to ((pre @ o' # es1 @ g # es2 @ [f]) @ es @ rest) (length (pre @ o' # es1 @ g # es2 @ [f])) e
      (acc @ [BIf cond thn els]) r"
    using bo_if_else.prems by (intro bo_if_else.IH(3)) (simp add: add.commute add.left_commute)
  ultimately show ?case
    using x st1 st2
    by - (rule runs_to_if [where x = x and thn = thn and els = els and ?c1.0 = ?c1 and ?c2.0 = ?c2],
        simp_all add: add.commute add.left_commute)
next
  case (bo_for o' target source es1 body f es bs)
  let ?es = "pre @ (o' # es1 @ f # es) @ rest"
  from bo_for.hyps(1) obtain x a b where x: "stmt_of o' = Some (lit ''for '' @ x)"
    "split_once (lit '' in '') x = Some (a, b)" "target = trim a" "source = trim b" "trim a \<noteq> []" "trim b \<noteq> []"
    by (auto simp: opens_for_def)
  let ?c1 = "length pre + Suc (length es1)"
  have at: "?es ! ?c1 = f" by (simp add: nth_append)
  have st: "statement_at ?es ?c1 = Some (lit ''endfor'')"
    unfolding statement_at_Some at using bo_for.hyps(3) by simp
  have "runs_to ((pre @ [o']) @ es1 @ (f # es @ rest)) (length (pre @ [o'])) (Some (lit ''endfor'')) [] (Inr (body, ?c1))"
    using runs_to_stop [of ?es ?c1 "lit ''endfor''" body] st by (intro bo_for.IH(1)) (simp add: stops_def)
  moreover have "runs_to ((pre @ o' # es1 @ [f]) @ es @ rest) (length (pre @ o' # es1 @ [f])) e
      (acc @ [BFor target source body]) r"
    using bo_for.prems by (intro bo_for.IH(2)) (simp add: add.commute add.left_commute)
  moreover have "length pre < length ?es" "?es ! length pre = o'" by simp_all
  ultimately show ?case
    using x st by - (rule runs_to_for [where x = x and a = a and b = b and body = body and ?c1.0 = ?c1], simp_all)
next
  case (bo_while o' cond es1 body f es bs)
  let ?es = "pre @ (o' # es1 @ f # es) @ rest"
  from bo_while.hyps(1) obtain x where x: "stmt_of o' = Some (lit ''while '' @ x)" "cond = trim x" "trim x \<noteq> []"
    by (auto simp: opens_while_def)
  let ?c1 = "length pre + Suc (length es1)"
  have at: "?es ! ?c1 = f" by (simp add: nth_append)
  have st: "statement_at ?es ?c1 = Some (lit ''endwhile'')"
    unfolding statement_at_Some at using bo_while.hyps(3) by simp
  have "runs_to ((pre @ [o']) @ es1 @ (f # es @ rest)) (length (pre @ [o'])) (Some (lit ''endwhile'')) [] (Inr (body, ?c1))"
    using runs_to_stop [of ?es ?c1 "lit ''endwhile''" body] st by (intro bo_while.IH(1)) (simp add: stops_def)
  moreover have "runs_to ((pre @ o' # es1 @ [f]) @ es @ rest) (length (pre @ o' # es1 @ [f])) e
      (acc @ [BWhile cond body]) r"
    using bo_while.prems by (intro bo_while.IH(2)) (simp add: add.commute add.left_commute)
  ultimately show ?case
    using x st by - (rule runs_to_while [where x = x and body = body and ?c1.0 = ?c1], simp_all)
qed

section \<open>Compilation is total and exact\<close>

lemma compile_program_total: "compile_program d \<noteq> None"
proof -
  let ?es = "enabled_entries d"
  have "parse_blocks (Suc (length ?es)) ?es 0 None [] \<noteq> None"
    using enoughD [OF parse_blocks_fuel, of 0 ?es "Suc (length ?es)"] by simp
  then show ?thesis
    by (auto simp: compile_program_def Let_def fbind_ex_Some not_None_eq split: prod.splits)
qed

lemma compile_program_iff:
  "compile_program d = Some (Inr bs) \<longleftrightarrow> blocks_of (enabled_entries d) bs"
proof -
  let ?es = "enabled_entries d"
  let ?n = "Suc (length ?es)"
  show ?thesis
  proof
    assume "compile_program d = Some (Inr bs)"
    then obtain c where p: "parse_blocks ?n ?es 0 None [] = Some (Inr (bs, c))" and c: "c = length ?es"
      by (auto simp: compile_program_def Let_def fbind_eq_Some_Inr res_simps simp del: parse_blocks.simps)
    from derives_parse_blocks p obtain bs' where "bs = [] @ bs'" "blocks_of (slice ?es 0 c) bs'"
      by (rule derivesE) simp
    with c show "blocks_of ?es bs" by (simp add: slice_def)
  next
    assume "blocks_of ?es bs"
    from blocks_of_runs [OF this, of "[]" "[]" None "[]" "Inr (bs, length ?es)"]
    have "runs_to ?es 0 None [] (Inr (bs, length ?es))" by (simp add: runs_to_end)
    then obtain m where m: "\<And>n. m \<le> n \<Longrightarrow> parse_blocks n ?es 0 None [] = Some (Inr (bs, length ?es))"
      by (rule runs_toE) blast
    obtain r where r: "parse_blocks ?n ?es 0 None [] = Some r"
      using enoughD [OF parse_blocks_fuel, of 0 ?es ?n None "[]"] by auto
    have "r = Inr (bs, length ?es)"
      using parse_blocks_mono [OF _ r, of "max m ?n"] m [of "max m ?n"] by simp
    with r show "compile_program d = Some (Inr bs)"
      by (simp add: compile_program_def Let_def del: parse_blocks.simps)
  qed
qed

section \<open>Properties\<close>

text \<open>
  C18.  Compilation always returns, and it returns blocks exactly for the documents whose enabled
  entries the grammar of programs derives, with the blocks the grammar gives.
\<close>

theorem compile_program_correct:
  "compile_program d \<noteq> None
   \<and> (compile_program d = Some (Inr bs) \<longleftrightarrow> blocks_of (enabled_entries d) bs)"
  by (simp add: compile_program_total compile_program_iff)

end
