(* ===== verification/Template.thy ===== *)
theory Template
  imports Json
begin

text \<open>
  The native template schema v1 and its validation (\<open>crates/qdrust-core/src/template.rs\<close>).  The
  mutable step counter of \<open>validate_steps\<close> is passed in and returned.
\<close>

section \<open>Schema\<close>

datatype request_body = BodyJson json | BodyText ustr | BodyForm "(ustr \<times> ustr) list"

record request_step =
  rs_name :: ustr
  rs_method :: ustr
  rs_url :: ustr
  rs_headers :: "(ustr \<times> ustr) list"
  rs_query :: "(ustr \<times> ustr) list"
  rs_body :: "request_body option"

datatype extract_source = SrcJson | SrcText | SrcHeader | SrcStatus

record extract_step =
  xs_name :: ustr
  xs_source :: extract_source
  xs_selector :: ustr
  xs_target :: ustr
  xs_required :: bool

datatype step =
    SRequest request_step
  | SExtract extract_step
  | SIf ustr "step list" "step list"
  | SForEach ustr ustr "step list"
  | SDelay nat

record template_definition =
  td_version :: nat
  td_name :: ustr
  td_variables :: "(ustr \<times> json) list"
  td_steps :: "step list"

definition TEMPLATE_SCHEMA_VERSION :: nat where "TEMPLATE_SCHEMA_VERSION = 1"
definition MAX_NESTING_DEPTH :: nat where "MAX_NESTING_DEPTH = 16"
definition MAX_STEPS :: nat where "MAX_STEPS = 1000"

section \<open>Validation\<close>

definition http_methods :: "ustr list" where
  "http_methods = [lit ''GET'', lit ''POST'', lit ''PUT'', lit ''PATCH'', lit ''DELETE'', lit ''HEAD'', lit ''OPTIONS'']"

definition validate_request_step :: "request_step \<Rightarrow> error + unit" where
  "validate_request_step r =
     rbind (ensure (trim (rs_name r) \<noteq> []) [lit ''request name cannot be empty'']) (\<lambda>_.
     rbind (ensure (trim (rs_url r) \<noteq> []) [lit ''request URL cannot be empty'']) (\<lambda>_.
     ensure (to_ascii_uppercase (rs_method r) \<in> set http_methods)
       [lit ''unsupported HTTP method: '' @ rs_method r]))"

definition validate_extract_step :: "extract_step \<Rightarrow> error + unit" where
  "validate_extract_step x =
     rbind (ensure (trim (xs_name x) \<noteq> []) [lit ''extract name cannot be empty'']) (\<lambda>_.
     rbind (ensure (trim (xs_target x) \<noteq> []) [lit ''extract target cannot be empty'']) (\<lambda>_.
     if xs_source x \<noteq> SrcStatus \<and> xs_selector x = [] then Inl [lit ''extract selector cannot be empty'']
     else Inr ()))"

function (sequential) validate_steps :: "step list \<Rightarrow> nat \<Rightarrow> nat \<Rightarrow> error + nat"
  and validate_each :: "step list \<Rightarrow> nat \<Rightarrow> nat \<Rightarrow> error + nat"
  and validate_step :: "step \<Rightarrow> nat \<Rightarrow> nat \<Rightarrow> error + nat" where
  "validate_steps steps depth count =
     rbind (ensure (depth \<le> MAX_NESTING_DEPTH) [lit ''template nesting is too deep'']) (\<lambda>_.
     let count = count + length steps in
     rbind (ensure (count \<le> MAX_STEPS) [lit ''template has too many steps'']) (\<lambda>_.
     validate_each steps depth count))"
| "validate_each [] depth count = Inr count"
| "validate_each (s # steps) depth count =
     rbind (validate_step s depth count) (\<lambda>count. validate_each steps depth count)"
| "validate_step (SRequest r) depth count = rbind (validate_request_step r) (\<lambda>_. Inr count)"
| "validate_step (SExtract x) depth count = rbind (validate_extract_step x) (\<lambda>_. Inr count)"
| "validate_step (SIf condition thn otherwise) depth count =
     rbind (ensure (trim condition \<noteq> []) [lit ''if condition cannot be empty'']) (\<lambda>_.
     rbind (validate_steps thn (depth + 1) count) (\<lambda>count.
     validate_steps otherwise (depth + 1) count))"
| "validate_step (SForEach item items steps) depth count =
     rbind (ensure (trim item \<noteq> []) [lit ''for_each item cannot be empty'']) (\<lambda>_.
     rbind (ensure (trim items \<noteq> []) [lit ''for_each items cannot be empty'']) (\<lambda>_.
     validate_steps steps (depth + 1) count))"
| "validate_step (SDelay ms) depth count =
     rbind (ensure (ms \<le> 300000) [lit ''delay exceeds five minutes'']) (\<lambda>_. Inr count)"
  by pat_completeness auto
termination
  by (relation "measure (\<lambda>x. case x of Inl (ss, _) \<Rightarrow> 2 * size_list size ss + 1
        | Inr (Inl (ss, _)) \<Rightarrow> 2 * size_list size ss
        | Inr (Inr (s, _)) \<Rightarrow> 2 * size s)") auto

definition validate_template :: "template_definition \<Rightarrow> error + unit" where
  "validate_template t =
     rbind (ensure (td_version t = TEMPLATE_SCHEMA_VERSION) [lit ''unsupported template version'']) (\<lambda>_.
     rbind (ensure (trim (td_name t) \<noteq> []) [lit ''template name cannot be empty'']) (\<lambda>_.
     rbind (ensure (td_steps t \<noteq> []) [lit ''template must contain at least one step'']) (\<lambda>_.
     rbind (validate_steps (td_steps t) 0 0) (\<lambda>_. Inr ()))))"

section \<open>What validation promises\<close>

text \<open>Declarative reading: well-formed steps, their number and their nesting.\<close>

fun step_ok :: "step \<Rightarrow> bool" where
  "step_ok (SRequest r) = (trim (rs_name r) \<noteq> [] \<and> trim (rs_url r) \<noteq> []
     \<and> to_ascii_uppercase (rs_method r) \<in> set http_methods)"
| "step_ok (SExtract x) = (trim (xs_name x) \<noteq> [] \<and> trim (xs_target x) \<noteq> []
     \<and> (xs_source x = SrcStatus \<or> xs_selector x \<noteq> []))"
| "step_ok (SIf c thn els) = (trim c \<noteq> [] \<and> list_all step_ok thn \<and> list_all step_ok els)"
| "step_ok (SForEach i xs steps) = (trim i \<noteq> [] \<and> trim xs \<noteq> [] \<and> list_all step_ok steps)"
| "step_ok (SDelay ms) = (ms \<le> 300000)"

fun step_count :: "step \<Rightarrow> nat" where
  "step_count (SIf c thn els) = 1 + sum_list (map step_count thn) + sum_list (map step_count els)"
| "step_count (SForEach i xs steps) = 1 + sum_list (map step_count steps)"
| "step_count _ = 1"

text \<open>Levels of step lists below a step.\<close>

fun nesting :: "step \<Rightarrow> nat" where
  "nesting (SIf c thn els) = 1 + fold (max \<circ> nesting) (thn @ els) 0"
| "nesting (SForEach i xs steps) = 1 + fold (max \<circ> nesting) steps 0"
| "nesting _ = 0"

lemma fold_max_ge: "(m::nat) \<le> fold (max \<circ> f) xs m"
  by (induction xs arbitrary: m) (auto intro: le_trans [OF max.cobounded2])

lemma fold_max_le: "fold (max \<circ> f) xs m \<le> (k::nat) \<longleftrightarrow> m \<le> k \<and> list_all (\<lambda>x. f x \<le> k) xs"
  by (induction xs arbitrary: m) auto

lemma nesting_bound:
  assumes "Suc d \<le> M" "list_all (\<lambda>x. Suc d + f x \<le> M) xs"
  shows "d + (1 + fold (max \<circ> f) xs 0) \<le> (M::nat)"
proof -
  have "fold (max \<circ> f) xs 0 \<le> M - Suc d"
    using assms unfolding fold_max_le by (auto simp: list_all_iff)
  with assms(1) show ?thesis by simp
qed

lemma step_count_pos: "1 \<le> step_count s"
  by (cases s) auto

lemma length_le_counts: "length ss \<le> sum_list (map step_count ss)"
proof (induction ss)
  case (Cons s ss)
  then show ?case using step_count_pos [of s] by simp
qed simp

lemma validate_sound:
  shows "validate_steps ss d n = Inr m \<Longrightarrow> m = n + sum_list (map step_count ss) \<and> m \<le> MAX_STEPS
      \<and> d \<le> MAX_NESTING_DEPTH \<and> list_all step_ok ss \<and> list_all (\<lambda>s. d + nesting s \<le> MAX_NESTING_DEPTH) ss"
    and "validate_each ss d n = Inr m \<Longrightarrow> n \<le> MAX_STEPS \<Longrightarrow> d \<le> MAX_NESTING_DEPTH \<Longrightarrow>
      m + length ss = n + sum_list (map step_count ss) \<and> m \<le> MAX_STEPS
      \<and> list_all step_ok ss \<and> list_all (\<lambda>s. d + nesting s \<le> MAX_NESTING_DEPTH) ss"
    and "validate_step s d n = Inr m \<Longrightarrow> n \<le> MAX_STEPS \<Longrightarrow> d \<le> MAX_NESTING_DEPTH \<Longrightarrow>
      m + 1 = n + step_count s \<and> m \<le> MAX_STEPS \<and> step_ok s \<and> d + nesting s \<le> MAX_NESTING_DEPTH"
proof (induction ss d n and ss d n and s d n arbitrary: m and m and m
    rule: validate_steps_validate_each_validate_step.induct)
  case (1 ss d n)
  then show ?case by (fastforce simp: res_simps Let_def)
next
  case (3 s ss d n)
  then show ?case by (fastforce simp: res_simps)
next
  case (6 c thn els d n)
  from "6.prems"(1) obtain m1 where ne: "trim c \<noteq> []" and v1: "validate_steps thn (d + 1) n = Inr m1"
    and v2: "validate_steps els (d + 1) m1 = Inr m"
    by (auto simp: res_simps)
  have i1: "m1 = n + sum_list (map step_count thn)" "list_all step_ok thn" "d + 1 \<le> MAX_NESTING_DEPTH"
    "list_all (\<lambda>s. d + 1 + nesting s \<le> MAX_NESTING_DEPTH) thn"
    using "6.IH"(1) [OF v1] ne by auto
  have i2: "m = m1 + sum_list (map step_count els)" "m \<le> MAX_STEPS" "list_all step_ok els"
    "list_all (\<lambda>s. d + 1 + nesting s \<le> MAX_NESTING_DEPTH) els"
    using "6.IH"(2) [OF v2] ne by auto
  have "d + nesting (SIf c thn els) \<le> MAX_NESTING_DEPTH"
    unfolding nesting.simps using i1 i2 by (intro nesting_bound) auto
  with ne i1 i2 show ?case by simp
next
  case (7 i xs ss d n)
  from "7.prems"(1) have ne: "trim i \<noteq> []" "trim xs \<noteq> []" and v: "validate_steps ss (d + 1) n = Inr m"
    by (auto simp: res_simps)
  have i1: "m = n + sum_list (map step_count ss)" "m \<le> MAX_STEPS" "list_all step_ok ss" "d + 1 \<le> MAX_NESTING_DEPTH"
    "list_all (\<lambda>s. d + 1 + nesting s \<le> MAX_NESTING_DEPTH) ss"
    using "7.IH" [OF v] ne by auto
  have "d + nesting (SForEach i xs ss) \<le> MAX_NESTING_DEPTH"
    unfolding nesting.simps using i1 by (intro nesting_bound) auto
  with ne i1 show ?case by simp
qed (auto simp: res_simps validate_request_step_def validate_extract_step_def split: if_splits)

lemma validate_complete:
  shows "list_all step_ok ss \<Longrightarrow> d \<le> MAX_NESTING_DEPTH \<Longrightarrow> list_all (\<lambda>s. d + nesting s \<le> MAX_NESTING_DEPTH) ss \<Longrightarrow>
      n + sum_list (map step_count ss) \<le> MAX_STEPS \<Longrightarrow>
      validate_steps ss d n = Inr (n + sum_list (map step_count ss))"
    and "list_all step_ok ss \<Longrightarrow> list_all (\<lambda>s. d + nesting s \<le> MAX_NESTING_DEPTH) ss \<Longrightarrow>
      n + sum_list (map step_count ss) \<le> MAX_STEPS + length ss \<Longrightarrow> length ss \<le> n \<Longrightarrow>
      validate_each ss d n = Inr (n + sum_list (map step_count ss) - length ss)"
    and "step_ok s \<Longrightarrow> d + nesting s \<le> MAX_NESTING_DEPTH \<Longrightarrow> n + step_count s \<le> MAX_STEPS + 1 \<Longrightarrow>
      validate_step s d n = Inr (n + step_count s - 1)"
proof (induction ss d n and ss d n and s d n rule: validate_steps_validate_each_validate_step.induct)
  case (1 ss d n)
  have "n + length ss \<le> MAX_STEPS" using "1.prems"(4) length_le_counts [of ss] by simp
  with 1 show ?case by (simp add: res_simps Let_def ensure_def)
next
  case (3 s ss d n)
  have le: "length ss \<le> sum_list (map step_count ss)" by (rule length_le_counts)
  have pos: "1 \<le> step_count s" by (rule step_count_pos)
  have "validate_step s d n = Inr (n + step_count s - 1)"
    using 3 le by simp
  moreover have "validate_each ss d (n + step_count s - 1)
      = Inr (n + step_count s - 1 + sum_list (map step_count ss) - length ss)"
    using 3 le pos calculation by simp
  ultimately show ?case using pos le by simp
next
  case (6 c thn els d n)
  have nest: "d + 1 \<le> MAX_NESTING_DEPTH" "list_all (\<lambda>s. d + 1 + nesting s \<le> MAX_NESTING_DEPTH) (thn @ els)"
  proof -
    have f: "fold (max \<circ> nesting) (thn @ els) 0 \<le> MAX_NESTING_DEPTH - (d + 1)"
      and g: "d + 1 \<le> MAX_NESTING_DEPTH" using "6.prems"(2) by simp_all
    show "d + 1 \<le> MAX_NESTING_DEPTH" by (rule g)
    show "list_all (\<lambda>s. d + 1 + nesting s \<le> MAX_NESTING_DEPTH) (thn @ els)"
      using f g unfolding fold_max_le list_all_iff by (fastforce simp: le_diff_conv2)
  qed
  have "validate_steps thn (d + 1) n = Inr (n + sum_list (map step_count thn))"
    using "6.prems" nest by (intro "6.IH"(1)) (auto simp: ensure_def)
  moreover have "validate_steps els (d + 1) (n + sum_list (map step_count thn))
      = Inr (n + sum_list (map step_count thn) + sum_list (map step_count els))"
    using "6.prems" nest calculation by (intro "6.IH"(2)) (auto simp: ensure_def)
  ultimately show ?case using "6.prems" by (simp add: ensure_def)
next
  case (7 i xs ss d n)
  have f: "fold (max \<circ> nesting) ss 0 \<le> MAX_NESTING_DEPTH - (d + 1)"
    and g: "d + 1 \<le> MAX_NESTING_DEPTH" using "7.prems"(2) by simp_all
  have nest: "list_all (\<lambda>s. d + 1 + nesting s \<le> MAX_NESTING_DEPTH) ss"
    using f g unfolding fold_max_le list_all_iff by (fastforce simp: le_diff_conv2)
  have "validate_steps ss (d + 1) n = Inr (n + sum_list (map step_count ss))"
    using "7.prems" nest g by (intro "7.IH") (auto simp: ensure_def)
  with "7.prems" show ?case by (simp add: ensure_def)
qed (auto simp: res_simps ensure_def validate_request_step_def validate_extract_step_def split: if_splits)

section \<open>Properties\<close>

text \<open>
  A template is accepted exactly when its version is the schema's, its name is not blank, it has
  steps, every step at every depth is well formed, there are at most 1000 steps in all (nested ones
  included) and none is nested deeper than 16.
\<close>

theorem validate_template_iff:
  "validate_template t = Inr () \<longleftrightarrow>
     td_version t = TEMPLATE_SCHEMA_VERSION \<and> trim (td_name t) \<noteq> [] \<and> td_steps t \<noteq> []
     \<and> list_all step_ok (td_steps t) \<and> sum_list (map step_count (td_steps t)) \<le> MAX_STEPS
     \<and> list_all (\<lambda>s. nesting s \<le> MAX_NESTING_DEPTH) (td_steps t)"
proof -
  have "(\<exists>m. validate_steps (td_steps t) 0 0 = Inr m) \<longleftrightarrow>
     list_all step_ok (td_steps t) \<and> sum_list (map step_count (td_steps t)) \<le> MAX_STEPS
     \<and> list_all (\<lambda>s. nesting s \<le> MAX_NESTING_DEPTH) (td_steps t)" (is "?l \<longleftrightarrow> ?r")
  proof
    assume ?l
    then obtain m where "validate_steps (td_steps t) 0 0 = Inr m" by blast
    from validate_sound(1) [OF this] show ?r by (auto simp: list_all_iff)
  next
    assume r: ?r
    have "validate_steps (td_steps t) 0 0 = Inr (0 + sum_list (map step_count (td_steps t)))"
      by (rule validate_complete(1)) (use r in \<open>auto simp: list_all_iff\<close>)
    then show ?l by blast
  qed
  then show ?thesis unfolding validate_template_def res_simps by auto
qed

end
