(* ===== verification/Ssrf.thy ===== *)
theory Ssrf
  imports RustStr "HOL-Library.Word"
begin

unbundle bit_operations_syntax

text \<open>
  The outbound guard of \<open>crates/qdrust-core/src/executor.rs\<close> (ADR-0008): address classification
  (\<open>is_public_ip\<close>), target and proxy resolution and the client that is pinned to what was resolved
  (\<open>guarded_client_for_url\<close>).

  URL parsing (\<open>reqwest::Url\<close>) and DNS (\<open>tokio::net::lookup_host\<close>) are parameters: the record
  \<open>net\<close> of functions.  The client that is built is the value \<open>client\<close>: the settings handed to the
  builder.
\<close>

section \<open>Addresses\<close>

datatype ip_addr = IpV4 "8 word" "8 word" "8 word" "8 word" | IpV6 "128 word"

definition v4_is_private :: "8 word \<Rightarrow> 8 word \<Rightarrow> 8 word \<Rightarrow> 8 word \<Rightarrow> bool" where
  "v4_is_private a b c d \<longleftrightarrow> a = 10 \<or> (a = 172 \<and> 16 \<le> b \<and> b \<le> 31) \<or> (a = 192 \<and> b = 168)"

definition v4_is_documentation :: "8 word \<Rightarrow> 8 word \<Rightarrow> 8 word \<Rightarrow> 8 word \<Rightarrow> bool" where
  "v4_is_documentation a b c d \<longleftrightarrow> (a = 192 \<and> b = 0 \<and> c = 2) \<or> (a = 198 \<and> b = 51 \<and> c = 100)
     \<or> (a = 203 \<and> b = 0 \<and> c = 113)"

definition v6_first_segment :: "128 word \<Rightarrow> 16 word" where
  "v6_first_segment w = ucast (drop_bit 112 w)"

definition is_public_ip :: "ip_addr \<Rightarrow> bool" where
  "is_public_ip ip = (case ip of
     IpV4 a b c d \<Rightarrow>
       \<not> (v4_is_private a b c d
          \<or> a = 127
          \<or> (a = 169 \<and> b = 254)
          \<or> (a = 255 \<and> b = 255 \<and> c = 255 \<and> d = 255)
          \<or> v4_is_documentation a b c d
          \<or> (a = 0 \<and> b = 0 \<and> c = 0 \<and> d = 0)
          \<or> (224 \<le> a \<and> a \<le> 239)
          \<or> a = 0)
   | IpV6 w \<Rightarrow>
       \<not> (w = 1
          \<or> w = 0
          \<or> v6_first_segment w AND 0xff00 = 0xff00
          \<or> v6_first_segment w AND 0xfe00 = 0xfc00
          \<or> v6_first_segment w AND 0xffc0 = 0xfe80))"

section \<open>Policy, targets and clients\<close>

record outbound_policy =
  op_timeout :: nat
  op_allow_private :: bool
  op_allow_invalid_certs :: bool
  op_proxy :: "ustr option"

definition default_policy :: outbound_policy where
  "default_policy = \<lparr>op_timeout = 30, op_allow_private = False, op_allow_invalid_certs = False, op_proxy = None\<rparr>"

record url =
  url_scheme :: ustr
  url_host :: "ustr option"
  url_port :: "nat option"

record net =
  net_parse_url :: "ustr \<Rightarrow> error + url"
  net_lookup :: "ustr \<Rightarrow> nat \<Rightarrow> error + ip_addr list"

record client =
  cl_follow_redirects :: bool
  cl_accept_invalid_certs :: bool
  cl_timeout :: nat
  cl_cookies :: bool
  cl_proxy :: "url option"
  cl_pinned :: "(ustr \<times> (ip_addr \<times> nat) list) option"

definition expect :: "'a option \<Rightarrow> ustr \<Rightarrow> error + 'a" where
  "expect x m = (case x of None \<Rightarrow> Inl [m] | Some v \<Rightarrow> Inr v)"

definition resolve_target :: "net \<Rightarrow> ustr \<Rightarrow> bool \<Rightarrow> error + url \<times> (ip_addr \<times> nat) list" where
  "resolve_target n u allow_private =
     rbind (with_context (lit ''invalid rendered URL'') (net_parse_url n u)) (\<lambda>parsed.
     rbind (ensure (url_scheme parsed = lit ''http'' \<or> url_scheme parsed = lit ''https'')
              [lit ''unsupported URL scheme'']) (\<lambda>_.
     rbind (expect (url_host parsed) (lit ''URL host is missing'')) (\<lambda>host.
     rbind (expect (url_port parsed) (lit ''URL port is missing'')) (\<lambda>port.
     rbind (with_context (lit ''cannot resolve request host'') (net_lookup n host port)) (\<lambda>ips.
     rbind (ensure (ips \<noteq> []) [lit ''request host resolved to no addresses'']) (\<lambda>_.
     rbind (ensure (allow_private \<or> list_all is_public_ip ips)
              [lit ''private or special-use network target is blocked'']) (\<lambda>_.
     Inr (parsed, map (\<lambda>ip. (ip, port)) ips))))))))"

definition classify_proxy :: "net \<Rightarrow> ustr \<Rightarrow> bool \<Rightarrow> error + url" where
  "classify_proxy n proxy allow_private =
     rbind (with_context (lit ''invalid proxy URL'') (net_parse_url n proxy)) (\<lambda>parsed.
     rbind (ensure (url_scheme parsed \<in> {lit ''http'', lit ''https'', lit ''socks5'', lit ''socks5h''})
              [lit ''unsupported proxy scheme'']) (\<lambda>_.
     rbind (expect (url_host parsed) (lit ''proxy host is missing'')) (\<lambda>host.
     rbind (expect (url_port parsed) (lit ''proxy port is missing'')) (\<lambda>port.
     rbind (with_context (lit ''cannot resolve proxy host'') (net_lookup n host port)) (\<lambda>ips.
     rbind (ensure (ips \<noteq> []) [lit ''proxy host resolved to no addresses'']) (\<lambda>_.
     rbind (ensure (allow_private \<or> list_all is_public_ip ips)
              [lit ''private or special-use network target is blocked'']) (\<lambda>_.
     Inr parsed)))))))"

definition guarded_client_for_url :: "net \<Rightarrow> ustr \<Rightarrow> outbound_policy \<Rightarrow> bool \<Rightarrow> error + client" where
  "guarded_client_for_url n u policy cookies =
     rbind (resolve_target n u (op_allow_private policy)) (\<lambda>(parsed, addresses).
     rbind (expect (url_host parsed) (lit ''URL host is missing'')) (\<lambda>host.
     let builder = \<lparr>cl_follow_redirects = False,
                    cl_accept_invalid_certs = op_allow_invalid_certs policy,
                    cl_timeout = op_timeout policy,
                    cl_cookies = cookies,
                    cl_proxy = None,
                    cl_pinned = None\<rparr>
     in (case op_proxy policy of
           Some proxy \<Rightarrow>
             rbind (classify_proxy n proxy (op_allow_private policy)) (\<lambda>p.
             Inr (builder\<lparr>cl_proxy := Some p\<rparr>))
         | None \<Rightarrow> Inr (builder\<lparr>cl_pinned := Some (host, addresses)\<rparr>))))"

section \<open>Classification as address blocks\<close>

text \<open>A CIDR block over the address read as a 32-bit number.\<close>

definition in_block4 :: "nat \<times> nat \<Rightarrow> ip_addr \<Rightarrow> bool" where
  "in_block4 blk ip = (case ip of
      IpV4 a b c d \<Rightarrow> (((unat a * 256 + unat b) * 256 + unat c) * 256 + unat d) div 2 ^ (32 - snd blk)
                      = fst blk div 2 ^ (32 - snd blk)
    | IpV6 _ \<Rightarrow> False)"

definition net4 :: "nat \<Rightarrow> nat \<Rightarrow> nat \<Rightarrow> nat \<Rightarrow> nat" where
  "net4 a b c d = ((a * 256 + b) * 256 + c) * 256 + d"

definition blocked4 :: "(nat \<times> nat) list" where
  "blocked4 = [(net4 0 0 0 0, 8), (net4 10 0 0 0, 8), (net4 127 0 0 0, 8), (net4 169 254 0 0, 16),
     (net4 172 16 0 0, 12), (net4 192 0 2 0, 24), (net4 192 168 0 0, 16), (net4 198 51 100 0, 24),
     (net4 203 0 113 0, 24), (net4 224 0 0 0, 4), (net4 255 255 255 255, 32)]"

lemma octet_lt: "unat (x :: 8 word) < 256"
  using unsigned_less [of x] by simp

lemma div256: "y < 256 \<Longrightarrow> (x * 256 + y) div 256 = (x::nat)"
  by simp

lemma quad_div:
  fixes a b c d :: nat
  assumes lt: "a < 256" "b < 256" "c < 256" "d < 256"
    and N: "N = ((a * 256 + b) * 256 + c) * 256 + d"
  shows "N div 256 = (a * 256 + b) * 256 + c" "N div 65536 = a * 256 + b" "N div 16777216 = a"
    "N div 1048576 = a * 16 + b div 16" "N div 268435456 = a div 16"
proof -
  show 1: "N div 256 = (a * 256 + b) * 256 + c" unfolding N by (rule div256 [OF lt(4)])
  have "N div (256 * 256) = N div 256 div 256" by (rule div_mult2_eq)
  also have "\<dots> = a * 256 + b" unfolding 1 by (rule div256 [OF lt(3)])
  finally show 2: "N div 65536 = a * 256 + b" by simp
  have "N div (65536 * 256) = N div 65536 div 256" by (rule div_mult2_eq)
  also have "\<dots> = a" unfolding 2 by (rule div256 [OF lt(2)])
  finally show 3: "N div 16777216 = a" by simp
  have "N div (65536 * 16) = N div 65536 div 16" by (rule div_mult2_eq)
  also have "\<dots> = (b + (a * 16) * 16) div 16" unfolding 2 by (simp add: add.commute)
  also have "\<dots> = a * 16 + b div 16" by (subst div_mult_self1) simp_all
  finally show "N div 1048576 = a * 16 + b div 16" by simp
  have "N div (16777216 * 16) = N div 16777216 div 16" by (rule div_mult2_eq)
  also have "\<dots> = a div 16" unfolding 3 ..
  finally show "N div 268435456 = a div 16" by simp
qed

lemma octet_eq: "(x :: 8 word) = y \<longleftrightarrow> unat x = unat y"
  by (rule word_unat_eq_iff)

lemma pair_eq:
  fixes a b a' b' :: nat
  shows "b < 256 \<Longrightarrow> b' < 256 \<Longrightarrow> a * 256 + b = a' * 256 + b' \<longleftrightarrow> a = a' \<and> b = b'"
proof
  assume lt: "b < 256" "b' < 256" and eq: "a * 256 + b = a' * 256 + b'"
  have "a = (a * 256 + b) div 256" using lt by (simp only: div256)
  also have "\<dots> = a'" unfolding eq using lt by (simp only: div256)
  finally show "a = a' \<and> b = b'" using eq by simp
qed simp

lemma block4: "(x::nat) div 16 = 14 \<longleftrightarrow> 224 \<le> x \<and> x \<le> 239"
  by linarith

lemma div16: "y < 16 \<Longrightarrow> (x * 16 + y) div 16 = (x::nat)"
  by simp

lemma block12:
  fixes x y :: nat
  assumes "y < 256"
  shows "x * 16 + y div 16 = 2753 \<longleftrightarrow> x = 172 \<and> 16 \<le> y \<and> y \<le> 31"
proof -
  have "y div 16 < 16" using assms by simp
  have "y div 16 < 16 \<Longrightarrow> x * 16 + y div 16 = 172 * 16 + 1 \<longleftrightarrow> x = 172 \<and> y div 16 = 1"
  proof (intro iffI conjI)
    assume lt: "y div 16 < 16" and eq: "x * 16 + y div 16 = 172 * 16 + 1"
    from div16 [OF lt, of x] show x: "x = 172" unfolding eq by simp
    from eq show "y div 16 = 1" unfolding x by (rule add_left_imp_eq)
  qed simp
  from this [OF \<open>y div 16 < 16\<close>]
  have "x * 16 + y div 16 = 2753 \<longleftrightarrow> x = 172 \<and> y div 16 = 1" by simp
  moreover have "y div 16 = 1 \<longleftrightarrow> 16 \<le> y \<and> y \<le> 31" by linarith
  ultimately show ?thesis by simp
qed

lemma blocks4_iff:
  shows "in_block4 (net4 n 0 0 0, 8) (IpV4 a b c d) \<longleftrightarrow> unat a = n"
    and "m < 256 \<Longrightarrow> in_block4 (net4 n m 0 0, 16) (IpV4 a b c d) \<longleftrightarrow> unat a = n \<and> unat b = m"
    and "m < 256 \<Longrightarrow> l < 256 \<Longrightarrow> in_block4 (net4 n m l 0, 24) (IpV4 a b c d) \<longleftrightarrow> unat a = n \<and> unat b = m \<and> unat c = l"
    and "in_block4 (net4 172 16 0 0, 12) (IpV4 a b c d) \<longleftrightarrow> unat a = 172 \<and> 16 \<le> unat b \<and> unat b \<le> 31"
    and "in_block4 (net4 224 0 0 0, 4) (IpV4 a b c d) \<longleftrightarrow> 224 \<le> unat a \<and> unat a \<le> 239"
    and "in_block4 (net4 255 255 255 255, 32) (IpV4 a b c d) \<longleftrightarrow> unat a = 255 \<and> unat b = 255 \<and> unat c = 255 \<and> unat d = 255"
proof -
  note lt = octet_lt [of a] octet_lt [of b] octet_lt [of c] octet_lt [of d]
  note q = quad_div [OF lt refl]
  have p: "net4 n m l k div 16777216 = n" "net4 n m l k div 65536 = n * 256 + m"
    "net4 n m l k div 256 = (n * 256 + m) * 256 + l" if "m < 256" "l < 256" "k < 256" for n m l k
  proof -
    show 1: "net4 n m l k div 256 = (n * 256 + m) * 256 + l" unfolding net4_def using that by (intro div256)
    have "net4 n m l k div (256 * 256) = net4 n m l k div 256 div 256" by (rule div_mult2_eq)
    also have "\<dots> = n * 256 + m" unfolding 1 using that by (intro div256)
    finally show 2: "net4 n m l k div 65536 = n * 256 + m" by simp
    have "net4 n m l k div (65536 * 256) = net4 n m l k div 65536 div 256" by (rule div_mult2_eq)
    also have "\<dots> = n" unfolding 2 using that by (intro div256)
    finally show "net4 n m l k div 16777216 = n" by simp
  qed
  have w: "(2::nat) ^ (32 - 8) = 16777216" "(2::nat) ^ (32 - 16) = 65536" "(2::nat) ^ (32 - 24) = 256"
    "(2::nat) ^ (32 - 12) = 1048576" "(2::nat) ^ (32 - 4) = 268435456" "(2::nat) ^ (32 - 32) = 1"
    by simp_all
  note u = in_block4_def ip_addr.case fst_conv snd_conv w q div_by_1
  show "in_block4 (net4 n 0 0 0, 8) (IpV4 a b c d) \<longleftrightarrow> unat a = n"
    unfolding u by (subst p) simp_all
  show "m < 256 \<Longrightarrow> in_block4 (net4 n m 0 0, 16) (IpV4 a b c d) \<longleftrightarrow> unat a = n \<and> unat b = m"
    unfolding u using lt by (subst p) (simp_all add: pair_eq)
  show "m < 256 \<Longrightarrow> l < 256 \<Longrightarrow> in_block4 (net4 n m l 0, 24) (IpV4 a b c d) \<longleftrightarrow> unat a = n \<and> unat b = m \<and> unat c = l"
  proof -
    assume ml: "m < 256" "l < 256"
    have "net4 n m l 0 div 256 = (n * 256 + m) * 256 + l" using p(3) [OF ml] by simp
    then show ?thesis
      unfolding u by (simp only: pair_eq [OF lt(3) ml(2)] pair_eq [OF lt(2) ml(1)] conj_assoc)
  qed
  have "unat a * 16 + unat b div 16 = 2753 \<longleftrightarrow> unat a = 172 \<and> 16 \<le> unat b \<and> unat b \<le> 31"
    using lt(2) by (rule block12)
  then show "in_block4 (net4 172 16 0 0, 12) (IpV4 a b c d) \<longleftrightarrow> unat a = 172 \<and> 16 \<le> unat b \<and> unat b \<le> 31"
    unfolding u by (simp add: net4_def)
  have "unat a div 16 = 14 \<longleftrightarrow> 224 \<le> unat a \<and> unat a \<le> 239" by (rule block4)
  then show "in_block4 (net4 224 0 0 0, 4) (IpV4 a b c d) \<longleftrightarrow> 224 \<le> unat a \<and> unat a \<le> 239"
    unfolding u by (simp add: net4_def)
  show "in_block4 (net4 255 255 255 255, 32) (IpV4 a b c d) \<longleftrightarrow>
      unat a = 255 \<and> unat b = 255 \<and> unat c = 255 \<and> unat d = 255"
    unfolding u net4_def using lt
    by (simp only: pair_eq [OF lt(4)] pair_eq [OF lt(3)] pair_eq [OF lt(2)] conj_assoc)
qed

lemma public_v4_iff:
  "is_public_ip (IpV4 a b c d) \<longleftrightarrow> \<not> list_ex (\<lambda>blk. in_block4 blk (IpV4 a b c d)) blocked4"
  unfolding is_public_ip_def v4_is_private_def v4_is_documentation_def blocked4_def
    octet_eq word_le_nat_alt
  by (simp add: blocks4_iff) blast

section \<open>What a guarded client can reach\<close>

lemma resolve_target_public:
  "resolve_target n u False = Inr (p, addrs) \<Longrightarrow>
     addrs \<noteq> [] \<and> list_all (\<lambda>(ip, _). is_public_ip ip) addrs
     \<and> (url_scheme p = lit ''http'' \<or> url_scheme p = lit ''https'')"
  by (auto simp: resolve_target_def res_simps expect_def list_all_iff split: option.splits)

lemma classify_proxy_public:
  "classify_proxy n u False = Inr p \<Longrightarrow> \<exists>host port ips. net_parse_url n u = Inr p \<and> url_host p = Some host
     \<and> url_port p = Some port \<and> net_lookup n host port = Inr ips \<and> ips \<noteq> [] \<and> list_all is_public_ip ips"
  by (auto simp: classify_proxy_def res_simps expect_def split: option.splits)

lemma guarded_client_settings:
  "guarded_client_for_url n u policy ck = Inr cl \<Longrightarrow>
     \<not> cl_follow_redirects cl \<and> cl_accept_invalid_certs cl = op_allow_invalid_certs policy
     \<and> cl_timeout cl = op_timeout policy \<and> (cl_proxy cl = None \<longleftrightarrow> op_proxy policy = None)
     \<and> (cl_pinned cl = None \<longleftrightarrow> op_proxy policy \<noteq> None)"
  by (auto simp: guarded_client_for_url_def Let_def res_simps expect_def split: option.splits prod.splits)

text \<open>What the guard leaves of a client: no redirects, and only public addresses behind it.\<close>

definition client_guarded :: "net \<Rightarrow> client \<Rightarrow> bool" where
  "client_guarded n cl \<longleftrightarrow> \<not> cl_follow_redirects cl \<and> (case cl_proxy cl of
      None \<Rightarrow> (\<exists>host addrs. cl_pinned cl = Some (host, addrs) \<and> addrs \<noteq> [] \<and> list_all (\<lambda>(ip, _). is_public_ip ip) addrs)
    | Some p \<Rightarrow> (\<exists>host port ips. url_host p = Some host \<and> url_port p = Some port \<and> net_lookup n host port = Inr ips
        \<and> ips \<noteq> [] \<and> list_all is_public_ip ips))"

lemma guarded_client_guarded:
  assumes "guarded_client_for_url n u policy ck = Inr cl" and "\<not> op_allow_private policy"
  shows "client_guarded n cl"
proof (cases "op_proxy policy")
  case None
  with assms obtain p addrs host where t: "resolve_target n u False = Inr (p, addrs)"
    and c: "cl_proxy cl = None" "cl_pinned cl = Some (host, addrs)" "\<not> cl_follow_redirects cl"
    by (auto simp: guarded_client_for_url_def Let_def res_simps expect_def split: option.splits)
  with resolve_target_public [OF t] show ?thesis by (simp add: client_guarded_def)
next
  case (Some proxy)
  with assms obtain p where "classify_proxy n proxy False = Inr p" and "cl_proxy cl = Some p"
    by (auto simp: guarded_client_for_url_def Let_def res_simps)
  then show ?thesis
    using classify_proxy_public [of n proxy p] guarded_client_settings [OF assms(1)]
    by (auto simp: client_guarded_def)
qed

lemma mapped_first_segment:
  "v6_first_segment (push_bit 32 0xffff OR ucast (w :: 32 word)) = 0"
proof -
  have "drop_bit 112 (push_bit 32 0xffff OR ucast w :: 128 word) = 0"
    by (rule bit_word_eqI) (auto simp: bit_drop_bit_eq bit_or_iff bit_push_bit_iff bit_ucast_iff
        bit_numeral_word_iff dest: bit_imp_le_length)
  then show ?thesis by (simp add: v6_first_segment_def)
qed

section \<open>Properties\<close>

text \<open>
  With private targets refused, a client that is built never follows redirects; without a proxy
  it is pinned to the host of the URL and to a non-empty list of addresses, all of them public, which
  are the ones the resolver gave; with a proxy, every address of the proxy's host is public.
\<close>

theorem guarded_client_public:
  assumes "guarded_client_for_url n u policy ck = Inr cl" and "\<not> op_allow_private policy"
  shows "\<not> cl_follow_redirects cl \<and> (case op_proxy policy of
      None \<Rightarrow> cl_proxy cl = None \<and> (\<exists>p host port ips. net_parse_url n u = Inr p \<and> url_host p = Some host
        \<and> net_lookup n host port = Inr ips \<and> ips \<noteq> [] \<and> list_all is_public_ip ips
        \<and> cl_pinned cl = Some (host, map (\<lambda>ip. (ip, port)) ips))
    | Some proxy \<Rightarrow> (\<exists>p host port ips. cl_proxy cl = Some p \<and> net_parse_url n proxy = Inr p
        \<and> url_host p = Some host \<and> url_port p = Some port
        \<and> net_lookup n host port = Inr ips \<and> ips \<noteq> [] \<and> list_all is_public_ip ips))"
proof (cases "op_proxy policy")
  case None
  with assms show ?thesis
    by (fastforce simp: guarded_client_for_url_def resolve_target_def Let_def res_simps expect_def split: option.splits)
next
  case (Some proxy)
  with assms obtain p where "classify_proxy n proxy False = Inr p" and "cl_proxy cl = Some p"
    by (auto simp: guarded_client_for_url_def Let_def res_simps)
  with Some assms show ?thesis
    using classify_proxy_public [of n proxy p] guarded_client_settings [OF assms(1)] by auto
qed

definition sample_net :: net where
  "sample_net = \<lparr>net_parse_url = (\<lambda>u. Inr \<lparr>url_scheme = lit ''https'', url_host = Some u, url_port = Some 443\<rparr>),
     net_lookup = (\<lambda>_ _. Inr [IpV4 1 1 1 1])\<rparr>"

theorem guarded_client_public_witness:
  "\<exists>cl. guarded_client_for_url sample_net (lit ''a.b'') default_policy False = Inr cl
     \<and> \<not> cl_follow_redirects cl \<and> cl_pinned cl = Some (lit ''a.b'', [(IpV4 1 1 1 1, 443)])"
proof -
  have pub: "is_public_ip (IpV4 1 1 1 1)"
    by (simp add: is_public_ip_def v4_is_private_def v4_is_documentation_def word_le_nat_alt)
  then obtain cl where c: "guarded_client_for_url sample_net (lit ''a.b'') default_policy False = Inr cl"
    and p: "cl_pinned cl = Some (lit ''a.b'', [(IpV4 1 1 1 1, 443)])"
    by (simp add: guarded_client_for_url_def resolve_target_def sample_net_def default_policy_def
        res_simps expect_def with_context_def ensure_def)
  have "\<not> op_allow_private default_policy" by (simp add: default_policy_def)
  from guarded_client_public [OF c this] c p show ?thesis by blast
qed

text \<open>
  The IPv4 classifier refuses exactly the addresses of eleven CIDR blocks.
\<close>

theorem is_public_v4_blocks:
  "is_public_ip (IpV4 a b c d) \<longleftrightarrow> \<not> list_ex (\<lambda>blk. in_block4 blk (IpV4 a b c d)) blocked4"
  by (rule public_v4_iff)

text \<open>
  An IPv4-mapped IPv6 address (\<open>::ffff:a.b.c.d\<close>) is always classified as public, whatever the
  IPv4 address it carries: the embedded address is not inspected.
\<close>

theorem mapped_v4_is_public:
  "is_public_ip (IpV6 (push_bit 32 0xffff OR ucast (w :: 32 word)))"
proof -
  define v :: "128 word" where "v = push_bit 32 0xffff OR ucast w"
  have "bit v 32"
    by (simp add: v_def bit_or_iff bit_push_bit_iff bit_numeral_word_iff)
  then have "v \<noteq> 0" and "v \<noteq> 1"
    by (auto simp: bit_1_iff dest: arg_cong [where f = "\<lambda>v. bit v 32"])
  moreover have "v6_first_segment v = 0" unfolding v_def by (rule mapped_first_segment)
  ultimately have "is_public_ip (IpV6 v)" by (simp add: is_public_ip_def)
  then show ?thesis by (simp only: v_def)
qed

end
