(* ===== verification/Utf8.thy ===== *)
theory Utf8
  imports RustStr
begin

text \<open>
  The bytes of a Rust \<open>String\<close> (\<open>as_bytes\<close>) and \<open>String::from_utf8_lossy\<close>: an ill-formed sequence is
  replaced by U+FFFD once per maximal prefix of a well-formed one.  Decoding the encoding of a
  sequence of scalar values gives the sequence back.
\<close>

section \<open>Encoding\<close>

definition utf8_char :: "nat \<Rightarrow> nat list" where
  "utf8_char c =
     (if c < 0x80 then [c]
      else if c < 0x800 then [0xC0 + c div 64, 0x80 + c mod 64]
      else if c < 0x10000 then [0xE0 + c div 4096, 0x80 + c div 64 mod 64, 0x80 + c mod 64]
      else [0xF0 + c div 262144, 0x80 + c div 4096 mod 64, 0x80 + c div 64 mod 64, 0x80 + c mod 64])"

definition utf8_encode :: "ustr \<Rightarrow> nat list" where
  "utf8_encode s = concat (map utf8_char s)"

section \<open>Lossy decoding\<close>

definition utf8_cont :: "nat \<Rightarrow> bool" where
  "utf8_cont b \<longleftrightarrow> 0x80 \<le> b \<and> b \<le> 0xBF"

definition utf8_second3 :: "nat \<Rightarrow> nat \<Rightarrow> bool" where
  "utf8_second3 b0 b1 \<longleftrightarrow> utf8_cont b1 \<and> (b0 = 0xE0 \<longrightarrow> 0xA0 \<le> b1) \<and> (b0 = 0xED \<longrightarrow> b1 \<le> 0x9F)"

definition utf8_second4 :: "nat \<Rightarrow> nat \<Rightarrow> bool" where
  "utf8_second4 b0 b1 \<longleftrightarrow> utf8_cont b1 \<and> (b0 = 0xF0 \<longrightarrow> 0x90 \<le> b1) \<and> (b0 = 0xF4 \<longrightarrow> b1 \<le> 0x8F)"

abbreviation REPLACEMENT :: nat where "REPLACEMENT \<equiv> 0xFFFD"

text \<open>The character at the head of the bytes and the number of bytes it takes after the first one.\<close>

definition utf8_step :: "nat \<Rightarrow> nat list \<Rightarrow> nat \<times> nat" where
  "utf8_step b0 bs =
     (if b0 < 0x80 then (b0, 0)
      else if 0xC2 \<le> b0 \<and> b0 \<le> 0xDF then
        (case bs of b1 # _ \<Rightarrow> if utf8_cont b1 then ((b0 - 0xC0) * 64 + (b1 - 0x80), 1) else (REPLACEMENT, 0)
          | [] \<Rightarrow> (REPLACEMENT, 0))
      else if 0xE0 \<le> b0 \<and> b0 \<le> 0xEF then
        (case bs of b1 # rest \<Rightarrow>
            if \<not> utf8_second3 b0 b1 then (REPLACEMENT, 0)
            else (case rest of
                b2 # _ \<Rightarrow> if utf8_cont b2 then (((b0 - 0xE0) * 64 + (b1 - 0x80)) * 64 + (b2 - 0x80), 2)
                          else (REPLACEMENT, 1)
              | [] \<Rightarrow> (REPLACEMENT, 1))
          | [] \<Rightarrow> (REPLACEMENT, 0))
      else if 0xF0 \<le> b0 \<and> b0 \<le> 0xF4 then
        (case bs of b1 # rest \<Rightarrow>
            if \<not> utf8_second4 b0 b1 then (REPLACEMENT, 0)
            else (case rest of
                b2 # rest' \<Rightarrow>
                  if \<not> utf8_cont b2 then (REPLACEMENT, 1)
                  else (case rest' of
                      b3 # _ \<Rightarrow>
                        if utf8_cont b3
                        then ((((b0 - 0xF0) * 64 + (b1 - 0x80)) * 64 + (b2 - 0x80)) * 64 + (b3 - 0x80), 3)
                        else (REPLACEMENT, 2)
                    | [] \<Rightarrow> (REPLACEMENT, 2))
              | [] \<Rightarrow> (REPLACEMENT, 1))
          | [] \<Rightarrow> (REPLACEMENT, 0))
      else (REPLACEMENT, 0))"

function utf8_lossy :: "nat list \<Rightarrow> ustr" where
  "utf8_lossy [] = []"
| "utf8_lossy (b # bs) = fst (utf8_step b bs) # utf8_lossy (drop (snd (utf8_step b bs)) bs)"
  by pat_completeness auto
termination by (relation "measure length") auto

section \<open>Round trip\<close>

lemma utf8_lossy_ascii: "c < 0x80 \<Longrightarrow> utf8_lossy (c # bs) = c # utf8_lossy bs"
  by (simp add: utf8_step_def)

lemma split64: "(c::nat) = c div 64 * 64 + c mod 64" and mod64: "(c::nat) mod 64 < 64"
  by simp_all

lemma div64: "(c::nat) div 4096 = c div 64 div 64" "(c::nat) div 262144 = c div 64 div 64 div 64"
  by (simp_all add: div_mult2_eq [symmetric])

lemma utf8_step_char:
  assumes "is_scalar c"
  shows "\<exists>b rest. utf8_char c = b # rest \<and> (\<forall>bs. utf8_step b (rest @ bs) = (c, length rest))"
proof -
  define x y z where "x = c mod 64" and "y = c div 64 mod 64" and "z = c div 64 div 64 mod 64"
  define w where "w = c div 64 div 64 div 64"
  have lt: "x < 64" "y < 64" "z < 64" by (simp_all add: x_def y_def z_def)
  have "c div 64 div 64 = w * 64 + z" unfolding z_def w_def by (simp only: div_mult_mod_eq)
  moreover have "c div 64 = c div 64 div 64 * 64 + y" unfolding y_def by (simp only: div_mult_mod_eq)
  moreover have "c = c div 64 * 64 + x" unfolding x_def by (simp only: div_mult_mod_eq)
  ultimately have c: "c = 262144 * w + 4096 * z + 64 * y + x"
    and d: "c div 64 = (w * 64 + z) * 64 + y" "c div 64 div 64 = w * 64 + z" by simp_all
  have parts: "c mod 64 = x" "c div 64 mod 64 = y" "c div 4096 mod 64 = z" "c div 262144 = w"
    "c div 4096 = w * 64 + z"
    unfolding div64 x_def y_def z_def w_def by (simp_all only: div_mult_mod_eq)
  have sc: "c < 0xD800 \<or> 0xDFFF < c \<and> c \<le> 0x10FFFF"
    using assms by (auto simp: is_scalar_def)
  consider "c < 0x80" | "0x80 \<le> c" "c < 0x800" | "0x800 \<le> c" "c < 0x10000" | "0x10000 \<le> c"
    by linarith
  then show ?thesis
  proof cases
    case 1
    then show ?thesis by (simp add: utf8_char_def utf8_step_def)
  next
    case 2
    have "z = 0" using 2 c by linarith
    have "w = 0" using 2 c by linarith
    with 2 \<open>z = 0\<close> have u: "utf8_char c = [0xC0 + (z * 64 + y), 0x80 + x]"
      by (simp add: utf8_char_def d x_def)
    have "2 \<le> y" "y \<le> 31" using 2 c lt unfolding \<open>w = 0\<close> \<open>z = 0\<close> by simp_all
    with u show ?thesis using lt c \<open>w = 0\<close> \<open>z = 0\<close> by (simp add: utf8_step_def utf8_cont_def)
  next
    case 3
    have w: "w = 0" using 3 c by linarith
    have z: "z \<le> 15" using 3 c by linarith
    have u: "utf8_char c = [0xE0 + z, 0x80 + y, 0x80 + x]"
      using 3 unfolding utf8_char_def parts w by simp
    have e: "z = 0 \<Longrightarrow> 32 \<le> y" using 3 c lt w by linarith
    have f: "z = 13 \<Longrightarrow> y \<le> 31" using sc c lt w by linarith
    show ?thesis unfolding u using lt c w z e f
      by (auto simp: utf8_step_def utf8_cont_def utf8_second3_def)
  next
    case 4
    have w: "w \<le> 4" using c sc by linarith
    have u: "utf8_char c = [0xF0 + w, 0x80 + z, 0x80 + y, 0x80 + x]"
      using 4 lt unfolding utf8_char_def parts by simp
    have e: "w = 0 \<Longrightarrow> 16 \<le> z" using 4 c lt by linarith
    have f: "w = 4 \<Longrightarrow> z \<le> 15" using sc c lt by linarith
    show ?thesis unfolding u using lt c w e f
      by (auto simp: utf8_step_def utf8_cont_def utf8_second4_def)
  qed
qed

lemma utf8_lossy_char: "is_scalar c \<Longrightarrow> utf8_lossy (utf8_char c @ bs) = c # utf8_lossy bs"
  using utf8_step_char [of c] by fastforce

lemma utf8_roundtrip: "list_all is_scalar s \<Longrightarrow> utf8_lossy (utf8_encode s) = s"
  by (induction s) (auto simp: utf8_encode_def utf8_lossy_char)

lemma utf8_char_byte: "is_scalar c \<Longrightarrow> b \<in> set (utf8_char c) \<Longrightarrow> b < 256"
  by (auto simp: utf8_char_def is_scalar_def split: if_splits)

lemma utf8_encode_Cons [simp]: "utf8_encode (c # s) = utf8_char c @ utf8_encode s"
  by (simp add: utf8_encode_def)

lemma utf8_encode_Nil [simp]: "utf8_encode [] = []"
  by (simp add: utf8_encode_def)

lemma length_utf8_char: "length (utf8_char c) = len_utf8 c"
  by (simp add: utf8_char_def len_utf8_def)

lemma length_utf8_encode: "length (utf8_encode s) = byte_len s"
  by (induction s) (simp_all add: length_utf8_char)

lemma is_scalar_repl [simp]: "is_scalar REPLACEMENT"
  by (simp add: is_scalar_def)

lemma cont_offset: "utf8_cont b \<Longrightarrow> \<exists>x. b = 0x80 + x \<and> x < 64"
  by (rule exI [of _ "b - 0x80"]) (auto simp: utf8_cont_def)

lemma scalar3:
  "x < 16 \<Longrightarrow> y < 64 \<Longrightarrow> z < 64 \<Longrightarrow> (x = 13 \<longrightarrow> y < 32) \<Longrightarrow> is_scalar (4096 * x + y * 64 + z)"
  unfolding is_scalar_def by (cases "x = 13"; cases "x < 13"; linarith)

lemma scalar4:
  "x \<le> 4 \<Longrightarrow> w < 64 \<Longrightarrow> y < 64 \<Longrightarrow> z < 64 \<Longrightarrow> (x = 0 \<longrightarrow> 16 \<le> w) \<Longrightarrow> (x = 4 \<longrightarrow> w < 16) \<Longrightarrow>
   is_scalar (262144 * x + 4096 * w + y * 64 + z)"
  unfolding is_scalar_def by (cases "x = 0"; cases "x = 4"; linarith)

lemma utf8_step_scalar:
  shows "is_scalar (fst (utf8_step b bs))"
proof -
  consider "b < 0x80" | "0xC2 \<le> b" "b \<le> 0xDF" | "0xE0 \<le> b" "b \<le> 0xEF" | "0xF0 \<le> b" "b \<le> 0xF4"
    | "\<not> b < 0x80" "\<not> (0xC2 \<le> b \<and> b \<le> 0xDF)" "\<not> (0xE0 \<le> b \<and> b \<le> 0xEF)" "\<not> (0xF0 \<le> b \<and> b \<le> 0xF4)"
    by linarith
  then show ?thesis
  proof cases
    case 1 then show ?thesis by (simp add: utf8_step_def is_scalar_def)
  next
    case 2
    define x where "x = b - 0xC0"
    have b: "b = 0xC0 + x" "x < 32" "2 \<le> x" using 2 by (auto simp: x_def)
    show ?thesis
      unfolding b(1) using b(2,3)
      by (auto simp: utf8_step_def is_scalar_def dest!: cont_offset split: list.splits)
  next
    case 3
    define x where "x = b - 0xE0"
    have b: "b = 0xE0 + x" "x < 16" using 3 by (auto simp: x_def)
    show ?thesis
      unfolding b(1) using b(2)
      by (auto simp: utf8_step_def utf8_second3_def intro!: scalar3 dest!: cont_offset split: list.splits)
  next
    case 4
    define x where "x = b - 0xF0"
    have b: "b = 0xF0 + x" "x \<le> 4" using 4 by (auto simp: x_def)
    show ?thesis
      unfolding b(1) using b(2)
      by (auto simp: utf8_step_def utf8_second4_def intro!: scalar4 dest!: cont_offset split: list.splits)
  next
    case 5 then show ?thesis by (simp only: utf8_step_def if_False fst_conv is_scalar_repl)
  qed
qed

lemma utf8_lossy_scalar: "list_all is_scalar (utf8_lossy bs)"
  by (induction bs rule: utf8_lossy.induct) (simp_all add: utf8_step_scalar)

end
