(* ===== verification/HttpForm.thy ===== *)
theory HttpForm
  imports Utf8
begin

text \<open>
  URL-encoded forms, as \<open>crates/qdrust-core/src/executor.rs\<close> reads and writes them
  (\<open>form_urldecode\<close>, \<open>parse_form_pairs\<close>, \<open>encode_form_body\<close>, \<open>merge_form_into_query\<close>).

  The \<open>percent_encoding\<close> crate is a parameter: the record \<open>percent_lib\<close> of its two functions, with the
  documented laws the code relies on in the locale \<open>percent_codec\<close>.  The locale is interpreted on
  \<open>std_percent\<close>, the percent codec over UTF-8 written out.
\<close>

section \<open>The percent codec as an interface\<close>

text \<open>\<open>pl_encode S\<close> is \<open>utf8_percent_encode\<close> with the ASCII set \<open>S\<close>; \<open>pl_decode\<close> is
  \<open>percent_decode_str\<close> followed by \<open>decode_utf8_lossy\<close>.\<close>

record percent_lib =
  pl_encode :: "(nat \<Rightarrow> bool) \<Rightarrow> ustr \<Rightarrow> ustr"
  pl_decode :: "ustr \<Rightarrow> ustr"

definition is_hex_upper :: "nat \<Rightarrow> bool" where
  "is_hex_upper c \<longleftrightarrow> 48 \<le> c \<and> c \<le> 57 \<or> 65 \<le> c \<and> c \<le> 70"

locale percent_codec =
  fixes L :: percent_lib
  assumes encode_alphabet: "list_all is_scalar s \<Longrightarrow> c \<in> set (pl_encode L S s) \<Longrightarrow> c = 37 \<or> is_hex_upper c \<or> (c < 128 \<and> \<not> S c)"
    and decode_encode: "S 37 \<Longrightarrow> list_all is_scalar s \<Longrightarrow> pl_decode L (pl_encode L S s) = s"
    and decode_scalar: "list_all is_scalar (pl_decode L s)"

section \<open>Forms\<close>

definition form_urldecode :: "percent_lib \<Rightarrow> ustr \<Rightarrow> ustr" where
  "form_urldecode L input = pl_decode L (map (\<lambda>c. if c = 43 then 32 else c) input)"

definition split_pair :: "ustr \<Rightarrow> ustr \<times> ustr" where
  "split_pair part = (case split_once (lit ''='') part of Some p \<Rightarrow> p | None \<Rightarrow> (part, []))"

definition form_parts :: "ustr \<Rightarrow> ustr list" where
  "form_parts body = filter (\<lambda>p. p \<noteq> []) (split_by (\<lambda>c. c = 38) body)"

definition parse_form_pairs :: "percent_lib \<Rightarrow> ustr \<Rightarrow> (ustr \<times> ustr) list" where
  "parse_form_pairs L body =
     map (\<lambda>part. let (name, v) = split_pair part in (form_urldecode L name, form_urldecode L v))
       (form_parts body)"

definition FORM_VALUE_ENCODE_SET :: "nat \<Rightarrow> bool" where
  "FORM_VALUE_ENCODE_SET c \<longleftrightarrow> c < 32 \<or> c = 127 \<or> c \<in> {38, 61, 63, 35, 37, 43, 32}"

definition NON_ALPHANUMERIC :: "nat \<Rightarrow> bool" where
  "NON_ALPHANUMERIC c \<longleftrightarrow> c < 128 \<and> \<not> (is_ascii_digit c \<or> is_ascii_alpha c)"

definition encode_form_value :: "percent_lib \<Rightarrow> ustr \<Rightarrow> ustr" where
  "encode_form_value L v = pl_encode L FORM_VALUE_ENCODE_SET (form_urldecode L v)"

definition encode_form_body :: "percent_lib \<Rightarrow> ustr \<Rightarrow> ustr" where
  "encode_form_body L body =
     join (lit ''&'')
       (map (\<lambda>part. let (name, v) = split_pair part
                    in encode_form_value L name @ lit ''='' @ encode_form_value L v)
         (form_parts body))"

text \<open>The pairs are appended one by one; the separator depends on the URL the merge started from.\<close>

fun merge_pairs :: "percent_lib \<Rightarrow> bool \<Rightarrow> nat \<Rightarrow> (ustr \<times> ustr) list \<Rightarrow> ustr \<Rightarrow> ustr" where
  "merge_pairs L has_query i [] merged = merged"
| "merge_pairs L has_query i ((name, v) # pairs) merged =
     merge_pairs L has_query (i + 1) pairs
       (merged @ (if i = 0 \<and> \<not> has_query then lit ''?'' else lit ''&'')
        @ pl_encode L NON_ALPHANUMERIC name @ lit ''='' @ pl_encode L NON_ALPHANUMERIC v)"

definition merge_form_into_query :: "percent_lib \<Rightarrow> ustr \<Rightarrow> ustr \<Rightarrow> ustr" where
  "merge_form_into_query L u body =
     (let pairs = parse_form_pairs L body in
      if pairs = [] then u else merge_pairs L (contains_sub (lit ''?'') u) 0 pairs u)"

section \<open>Splitting on one character\<close>

lemma split_by_none: "\<forall>x\<in>set a. \<not> P x \<Longrightarrow> split_by P a = [a]"
  by (induction a) auto

lemma split_by_sep: "\<forall>x\<in>set a. \<not> P x \<Longrightarrow> P c \<Longrightarrow> split_by P (a @ c # b) = a # split_by P b"
  by (induction a) auto

lemma split_by_join:
  "xs \<noteq> [] \<Longrightarrow> \<forall>a\<in>set xs. c \<notin> set a \<Longrightarrow> split_by (\<lambda>x. x = c) (join [c] xs) = xs"
proof (induction "[c]" xs rule: join.induct)
  case (2 x)
  then have "\<forall>y\<in>set x. \<not> y = c" by auto
  then show ?case by (simp add: split_by_none)
next
  case (3 x y xs)
  then have "\<forall>z\<in>set x. \<not> z = c" by auto
  then have "split_by (\<lambda>x. x = c) (x @ c # join [c] (y # xs)) = x # split_by (\<lambda>x. x = c) (join [c] (y # xs))"
    by (rule split_by_sep) simp
  with 3 show ?case by simp
qed simp

lemma form_parts_join:
  assumes "\<forall>a\<in>set xs. 38 \<notin> set a \<and> a \<noteq> []"
  shows "form_parts (join (lit ''&'') xs) = xs"
proof (cases "xs = []")
  case False
  have "split_by (\<lambda>x. x = 38) (join [38] xs) = xs"
    by (rule split_by_join) (use False assms in auto)
  moreover have "filter (\<lambda>p. p \<noteq> []) xs = xs"
    using assms by (auto simp: filter_id_conv)
  ultimately show ?thesis by (simp add: form_parts_def)
qed (simp add: form_parts_def)

lemma find_sub_char: "c \<notin> set a \<Longrightarrow> find_sub [c] (a @ c # b) = Some (length a)"
  by (induction a) (auto simp: starts_with_def)

lemma split_pair_joined: "61 \<notin> set n \<Longrightarrow> split_pair (n @ lit ''='' @ v) = (n, v)"
  by (simp add: split_pair_def split_once_def find_sub_char)

section \<open>What re-encoding keeps\<close>

text \<open>The appended part of a merged URL.\<close>

definition encoded_pairs :: "percent_lib \<Rightarrow> (ustr \<times> ustr) list \<Rightarrow> ustr list" where
  "encoded_pairs L ps =
     map (\<lambda>(n, v). pl_encode L NON_ALPHANUMERIC n @ lit ''='' @ pl_encode L NON_ALPHANUMERIC v) ps"

lemma merge_pairs_append:
  "ps \<noteq> [] \<Longrightarrow> merge_pairs L q i ps u =
     u @ (if i = 0 \<and> \<not> q then lit ''?'' else lit ''&'') @ join (lit ''&'') (encoded_pairs L ps)"
proof (induction L q i ps u rule: merge_pairs.induct)
  case (2 L q i name v pairs merged)
  then show ?case by (cases pairs) (auto simp: encoded_pairs_def)
qed simp

context percent_codec
begin

lemma encode_no_plus: "S 43 \<Longrightarrow> list_all is_scalar s \<Longrightarrow> map (\<lambda>c. if c = 43 then 32 else c) (pl_encode L S s) = pl_encode L S s"
proof (rule map_idI)
  fix c assume "S 43" and "list_all is_scalar s" and "c \<in> set (pl_encode L S s)"
  then have "c \<noteq> 43" using encode_alphabet [of s c S] by (auto simp: is_hex_upper_def)
  then show "(if c = 43 then 32 else c) = c" by simp
qed

lemma decode_encode_form: "S 37 \<Longrightarrow> S 43 \<Longrightarrow> list_all is_scalar s \<Longrightarrow> form_urldecode L (pl_encode L S s) = s"
  by (simp add: form_urldecode_def encode_no_plus decode_encode)

lemma form_set: "FORM_VALUE_ENCODE_SET 37" "FORM_VALUE_ENCODE_SET 43"
  by (simp_all add: FORM_VALUE_ENCODE_SET_def)

lemma urldecode_scalar: "list_all is_scalar (form_urldecode L s)"
  by (simp add: form_urldecode_def decode_scalar)

lemma decode_encode_value: "form_urldecode L (encode_form_value L v) = form_urldecode L v"
  unfolding encode_form_value_def by (intro decode_encode_form form_set urldecode_scalar)

lemma encode_value_free: "38 \<notin> set (encode_form_value L v)" "61 \<notin> set (encode_form_value L v)"
  using encode_alphabet [OF urldecode_scalar, of 38 FORM_VALUE_ENCODE_SET]
    encode_alphabet [OF urldecode_scalar, of 61 FORM_VALUE_ENCODE_SET]
  by (auto simp: encode_form_value_def FORM_VALUE_ENCODE_SET_def is_hex_upper_def)

lemma encode_body_parts:
  "form_parts (encode_form_body L body) =
     map (\<lambda>part. encode_form_value L (fst (split_pair part)) @ lit ''='' @ encode_form_value L (snd (split_pair part)))
       (form_parts body)"
  unfolding encode_form_body_def case_prod_beta Let_def
  by (rule form_parts_join) (auto simp: encode_value_free)

lemma encode_body_pairs: "parse_form_pairs L (encode_form_body L body) = parse_form_pairs L body"
  unfolding parse_form_pairs_def encode_body_parts
  by (simp add: case_prod_beta split_pair_joined [simplified] encode_value_free decode_encode_value)

lemma encode_body_idem: "encode_form_body L (encode_form_body L body) = encode_form_body L body"
proof -
  have "encode_form_value L (encode_form_value L v) = encode_form_value L v" for v
    unfolding encode_form_value_def [of L "encode_form_value L v"]
    by (simp add: decode_encode_value) (simp add: encode_form_value_def)
  then show ?thesis
    unfolding encode_form_body_def [of L "encode_form_body L body"] encode_body_parts
    by (simp add: case_prod_beta split_pair_joined [simplified] encode_value_free encode_form_body_def o_def)
qed

lemma encode_alnum_free:
  "list_all is_scalar s \<Longrightarrow> c \<in> set (pl_encode L NON_ALPHANUMERIC s) \<Longrightarrow> c = 37 \<or> is_ascii_digit c \<or> is_ascii_alpha c"
  using encode_alphabet [of s c NON_ALPHANUMERIC]
  by (auto simp: NON_ALPHANUMERIC_def is_hex_upper_def is_ascii_digit_def is_ascii_alpha_def)

lemma decode_encode_alnum: "list_all is_scalar s \<Longrightarrow> form_urldecode L (pl_encode L NON_ALPHANUMERIC s) = s"
  by (rule decode_encode_form) (simp_all add: NON_ALPHANUMERIC_def is_ascii_digit_def is_ascii_alpha_def)

lemma pairs_of_encoded:
  assumes "\<forall>(n, v)\<in>set ps. list_all is_scalar n \<and> list_all is_scalar v"
  shows "parse_form_pairs L (join (lit ''&'') (encoded_pairs L ps)) = ps"
proof -
  have free: "38 \<notin> set (pl_encode L NON_ALPHANUMERIC s)" "61 \<notin> set (pl_encode L NON_ALPHANUMERIC s)"
    if "list_all is_scalar s" for s
    using encode_alnum_free [OF that, of 38] encode_alnum_free [OF that, of 61]
    by (auto simp: is_ascii_digit_def is_ascii_alpha_def)
  have "form_parts (join (lit ''&'') (encoded_pairs L ps)) = encoded_pairs L ps"
    by (rule form_parts_join) (use assms in \<open>auto simp: encoded_pairs_def free\<close>)
  moreover have "map (\<lambda>part. let (n, v) = split_pair part in (form_urldecode L n, form_urldecode L v))
      (encoded_pairs L ps) = ps"
    unfolding encoded_pairs_def map_map
    by (rule map_idI) (use assms in \<open>auto simp: split_pair_joined [simplified] free decode_encode_alnum\<close>)
  ultimately show ?thesis by (simp add: parse_form_pairs_def)
qed

lemma parsed_scalar: "\<forall>(n, v)\<in>set (parse_form_pairs L body). list_all is_scalar n \<and> list_all is_scalar v"
  by (auto simp: parse_form_pairs_def urldecode_scalar split: prod.splits)

lemma merge_reads_back:
  assumes "form_parts body \<noteq> []"
  shows "\<exists>q. merge_form_into_query L u body =
      u @ (if contains_sub (lit ''?'') u then lit ''&'' else lit ''?'') @ q
    \<and> parse_form_pairs L q = parse_form_pairs L body"
proof -
  let ?ps = "parse_form_pairs L body"
  have ne: "?ps \<noteq> []" using assms by (simp add: parse_form_pairs_def)
  show ?thesis
  proof (intro exI conjI)
    show "merge_form_into_query L u body = u @ (if contains_sub (lit ''?'') u then lit ''&'' else lit ''?'')
        @ join (lit ''&'') (encoded_pairs L ?ps)"
      using ne by (simp add: merge_form_into_query_def Let_def merge_pairs_append)
    show "parse_form_pairs L (join (lit ''&'') (encoded_pairs L ?ps)) = ?ps"
      by (rule pairs_of_encoded) (rule parsed_scalar)
  qed
qed

end

section \<open>The codec written out\<close>

definition hex_digit_upper :: "nat \<Rightarrow> nat" where
  "hex_digit_upper n = (if n < 10 then 48 + n else 55 + n)"

definition hex_val :: "nat \<Rightarrow> nat option" where
  "hex_val c = (if 48 \<le> c \<and> c \<le> 57 then Some (c - 48) else if 65 \<le> c \<and> c \<le> 70 then Some (c - 55)
     else if 97 \<le> c \<and> c \<le> 102 then Some (c - 87) else None)"

definition pct_byte :: "(nat \<Rightarrow> bool) \<Rightarrow> nat \<Rightarrow> ustr" where
  "pct_byte S b = (if 128 \<le> b \<or> S b then [37, hex_digit_upper (b div 16), hex_digit_upper (b mod 16)] else [b])"

fun pct_bytes :: "nat list \<Rightarrow> nat list" where
  "pct_bytes (c # h # l # rest) =
     (if c = 37 then (case (hex_val h, hex_val l) of
          (Some x, Some y) \<Rightarrow> (16 * x + y) # pct_bytes rest
        | _ \<Rightarrow> c # pct_bytes (h # l # rest))
      else c # pct_bytes (h # l # rest))"
| "pct_bytes bs = bs"

definition std_percent :: percent_lib where
  "std_percent = \<lparr>pl_encode = (\<lambda>S s. concat (map (pct_byte S) (utf8_encode s))),
     pl_decode = (\<lambda>s. utf8_lossy (pct_bytes (utf8_encode s)))\<rparr>"

lemma hex_val_digit: "n < 16 \<Longrightarrow> hex_val (hex_digit_upper n) = Some n"
  by (auto simp: hex_val_def hex_digit_upper_def)

lemma pct_bytes_plain: "c \<noteq> 37 \<Longrightarrow> pct_bytes (c # bs) = c # pct_bytes bs"
  by (cases bs rule: pct_bytes.cases) (auto split: list.splits)

lemma pct_bytes_byte: "b < 256 \<Longrightarrow> S 37 \<Longrightarrow> pct_bytes (pct_byte S b @ bs) = b # pct_bytes bs"
  by (auto simp: pct_byte_def hex_val_digit intro!: pct_bytes_plain)

lemma pct_bytes_encode:
  "list_all (\<lambda>b. b < 256) bs \<Longrightarrow> S 37 \<Longrightarrow> pct_bytes (concat (map (pct_byte S) bs)) = bs"
  by (induction bs) (auto simp: pct_bytes_byte)

lemma utf8_encode_ascii: "\<forall>c\<in>set s. c < 128 \<Longrightarrow> utf8_encode s = s"
  by (induction s) (auto simp: utf8_char_def)

lemma pct_byte_alphabet: "b < 256 \<Longrightarrow> c \<in> set (pct_byte S b) \<Longrightarrow> c = 37 \<or> is_hex_upper c \<or> c < 128 \<and> \<not> S c"
  by (auto simp: pct_byte_def hex_digit_upper_def is_hex_upper_def split: if_splits)

lemma utf8_encode_bytes: "list_all is_scalar s \<Longrightarrow> list_all (\<lambda>b. b < 256) (utf8_encode s)"
  by (induction s) (auto simp: list_all_iff dest: utf8_char_byte)

lemma hex_bound: "n < 16 \<Longrightarrow> is_hex_upper (hex_digit_upper n)"
  by (auto simp: hex_digit_upper_def is_hex_upper_def)

interpretation std: percent_codec std_percent
proof
  fix S s c
  assume "list_all is_scalar s" and "c \<in> set (pl_encode std_percent S s)"
  then show "c = 37 \<or> is_hex_upper c \<or> c < 128 \<and> \<not> S c"
    using utf8_encode_bytes [of s] by (auto simp: std_percent_def list_all_iff dest: pct_byte_alphabet)
next
  fix S :: "nat \<Rightarrow> bool" and s
  assume S: "S 37" and sc: "list_all is_scalar s"
  let ?e = "concat (map (pct_byte S) (utf8_encode s))"
  have "\<forall>c\<in>set ?e. c < 128"
    using utf8_encode_bytes [OF sc] by (fastforce simp: list_all_iff is_hex_upper_def dest: pct_byte_alphabet)
  then have "utf8_encode ?e = ?e" by (rule utf8_encode_ascii)
  with S sc show "pl_decode std_percent (pl_encode std_percent S s) = s"
    by (simp add: std_percent_def pct_bytes_encode utf8_encode_bytes utf8_roundtrip)
next
  show "list_all is_scalar (pl_decode std_percent s)" for s
    by (simp add: std_percent_def utf8_lossy_scalar)
qed

section \<open>Properties\<close>

text \<open>
  C22.  Re-encoding a form body (done for every url-encoded body that is sent) keeps its name/value
  pairs, in order, and re-encoding twice is re-encoding once, for any percent codec with the
  documented laws.
\<close>

theorem encode_form_body_keeps_pairs:
  assumes "percent_codec L"
  shows "parse_form_pairs L (encode_form_body L body) = parse_form_pairs L body
    \<and> encode_form_body L (encode_form_body L body) = encode_form_body L body"
  using percent_codec.encode_body_pairs [OF assms] percent_codec.encode_body_idem [OF assms] by simp

theorem encode_form_body_keeps_pairs_witness:
  "parse_form_pairs std_percent (encode_form_body std_percent (lit ''a=1+2&&b=%26''))
     = [(lit ''a'', lit ''1 2''), (lit ''b'', lit ''&'')]"
proof -
  have "parse_form_pairs std_percent (lit ''a=1+2&&b=%26'') = [(lit ''a'', lit ''1 2''), (lit ''b'', lit ''&'')]"
    by code_simp
  with encode_form_body_keeps_pairs [OF std.percent_codec_axioms, of "lit ''a=1+2&&b=%26''"]
  show ?thesis by (simp only:)
qed

text \<open>
  Merging a form body into the query of an \<open>api://\<close> URL keeps the URL as a prefix, joins with
  the right separator, and the query text appended reads back as exactly the pairs of the body.
\<close>

theorem merge_form_reads_back:
  assumes "percent_codec L" and "form_parts body \<noteq> []"
  shows "\<exists>q. merge_form_into_query L u body =
      u @ (if contains_sub (lit ''?'') u then lit ''&'' else lit ''?'') @ q
    \<and> parse_form_pairs L q = parse_form_pairs L body"
  by (rule percent_codec.merge_reads_back [OF assms])

theorem merge_form_reads_back_witness:
  "\<exists>q. merge_form_into_query std_percent (lit ''api://util/x'') (lit ''k=v w'') = lit ''api://util/x?'' @ q
     \<and> parse_form_pairs std_percent q = [(lit ''k'', lit ''v w'')]"
proof -
  have 1: "form_parts (lit ''k=v w'') \<noteq> []" by code_simp
  have 2: "\<not> contains_sub (lit ''?'') (lit ''api://util/x'')" by code_simp
  have 3: "parse_form_pairs std_percent (lit ''k=v w'') = [(lit ''k'', lit ''v w'')]" by code_simp
  from merge_form_reads_back [OF std.percent_codec_axioms 1, of "lit ''api://util/x''"] 2
  show ?thesis unfolding 3 by simp
qed

end
