(* ===== verification/PyRegex.thy ===== *)
theory PyRegex
  imports Json
begin

text \<open>
  The regular-expression dialect layer of \<open>crates/qdrust-core/src/executor.rs\<close>: QD patterns with
  their \<open>/.../flags\<close> delimiters (\<open>split_qd_regex\<close>, \<open>QdFlags\<close>), the translation of Python's \<open>re\<close>
  syntax (\<open>translate_from_python\<close>) and the two-engine compilation (\<open>QdFlags::build\<close>), and the shapes
  of what a match yields.

  The engines (\<open>regex\<close>, \<open>fancy_regex\<close>) are parameters, the record \<open>rx_engines\<close>.  The loop over
  \<open>characters[index..]\<close> is \<open>rx_step\<close>, one iteration on the first character and the rest of the
  pattern, and \<open>rx_loop\<close>, which repeats it; an iteration returns what it appends to the translation
  and how many characters after the first one it consumes.
\<close>

section \<open>Delimited patterns\<close>

record qd_flags =
  fl_global :: bool
  fl_case_insensitive :: bool
  fl_multi_line :: bool
  fl_dot_matches_new_line :: bool

definition default_flags :: qd_flags where
  "default_flags = \<lparr>fl_global = False, fl_case_insensitive = False, fl_multi_line = False,
     fl_dot_matches_new_line = False\<rparr>"

definition parse_flags :: "ustr \<Rightarrow> qd_flags" where
  "parse_flags flags = \<lparr>fl_global = ch CHR ''g'' \<in> set flags, fl_case_insensitive = ch CHR ''i'' \<in> set flags,
     fl_multi_line = ch CHR ''m'' \<in> set flags, fl_dot_matches_new_line = ch CHR ''s'' \<in> set flags\<rparr>"

definition split_qd_regex :: "ustr \<Rightarrow> (ustr \<times> qd_flags) option" where
  "split_qd_regex pattern =
     Option.bind (strip_prefix (lit ''/'') pattern) (\<lambda>rest.
     Option.bind (rfind_sub (lit ''/'') rest) (\<lambda>slash.
     let body = take slash rest; flags = drop 1 (drop slash rest) in
     if list_all (\<lambda>flag. flag \<in> set (lit ''gimsu'')) flags then Some (body, parse_flags flags) else None))"

definition qd_pattern :: "ustr \<Rightarrow> ustr \<times> qd_flags" where
  "qd_pattern pattern = (case split_qd_regex pattern of Some p \<Rightarrow> p | None \<Rightarrow> (pattern, default_flags))"

section \<open>Escapes\<close>

definition RUST_METACHARACTERS :: ustr where
  "RUST_METACHARACTERS = [92] @ lit ''.+*?()|[]{}^$#&-~''"

definition means_itself :: "nat \<Rightarrow> bool" where
  "means_itself c \<longleftrightarrow> is_ascii_punct c \<and> c \<notin> set RUST_METACHARACTERS"

definition knows_escape :: "nat \<Rightarrow> bool" where
  "knows_escape c \<longleftrightarrow> \<not> is_ascii_alpha c \<or> c \<in> set (lit ''abfnrtvdDsSwWABZNxuU'')"

datatype numbered_escape = Octal ustr nat | BackReference

definition hex_digit_lower :: "nat \<Rightarrow> nat" where
  "hex_digit_lower n = (if n < 10 then 48 + n else 87 + n)"

definition octal_text :: "nat \<Rightarrow> ustr" where
  "octal_text v = [92, 120, hex_digit_lower (v div 16), hex_digit_lower (v mod 16)]"

definition octal_value :: "ustr \<Rightarrow> nat" where
  "octal_value ds = foldl (\<lambda>v d. v * 8 + (d - 48)) 0 ds"

definition python_numbered_escape :: "ustr \<Rightarrow> bool \<Rightarrow> ustr + numbered_escape" where
  "python_numbered_escape digits in_class =
     (case digits of [] \<Rightarrow> Inr BackReference
      | first # _ \<Rightarrow>
        let octal_digits = length (takeWhile (\<lambda>d. 48 \<le> d \<and> d \<le> 55) digits);
            span = (if first = 48 then Some (1 + min (octal_digits - 1) 2)
                    else if in_class then (if octal_digits = 0 then None else Some (min octal_digits 3))
                    else if 3 \<le> octal_digits then Some 3
                    else None)
        in (case span of None \<Rightarrow> Inr BackReference
            | Some span \<Rightarrow>
                let v = octal_value (take span digits) in
                if 255 < v then Inl (lit ''an octal escape above `'' @ [92] @ lit ''377`, which Python refuses'')
                else Inr (Octal (octal_text v) span)))"

section \<open>Repetitions\<close>

record py_repetition =
  pr_length :: nat
  pr_omitted_minimum :: bool
  pr_minimum_exceeds_maximum :: bool

definition significant :: "ustr \<Rightarrow> ustr" where
  "significant ds = dropWhile (\<lambda>d. d = 48) ds"

definition exceeds :: "ustr \<Rightarrow> ustr \<Rightarrow> bool" where
  "exceeds minimum maximum =
     (let a = significant minimum; b = significant maximum in
      length b < length a \<or> (length a = length b \<and> b < a))"

definition char_at :: "ustr \<Rightarrow> nat \<Rightarrow> nat option" where
  "char_at s i = (if i < length s then Some (s ! i) else None)"

definition python_repetition :: "ustr \<Rightarrow> py_repetition option" where
  "python_repetition cs =
     (let minimum = takeWhile is_ascii_digit (drop 1 cs);
          i1 = 1 + length minimum;
          omitted_minimum = (minimum = []);
          comma = (char_at cs i1 = Some (ch CHR '',''));
          i2 = (if comma then i1 + 1 else i1);
          maximum = (if comma then takeWhile is_ascii_digit (drop i2 cs) else []);
          i3 = i2 + length maximum
      in if char_at cs i3 \<noteq> Some (ch CHR ''}'') \<or> (omitted_minimum \<and> \<not> comma) then None
         else Some \<lparr>pr_length = i3 + 1, pr_omitted_minimum = omitted_minimum,
                pr_minimum_exceeds_maximum = (\<not> omitted_minimum \<and> maximum \<noteq> [] \<and> exceeds minimum maximum)\<rparr>)"

section \<open>Groups\<close>

datatype py_condition = CondNumber nat | CondName ustr | CondOther

datatype py_group = GCapturing "ustr option" | GPlain | GConditional py_condition

text \<open>\<open>ua\<close> is the non-ASCII part of \<open>char::is_alphanumeric\<close>.\<close>

definition name_char :: "(nat \<Rightarrow> bool) \<Rightarrow> nat \<Rightarrow> bool" where
  "name_char ua c \<longleftrightarrow> is_alnum ua c \<or> c = ch CHR ''_''"

definition python_named_group :: "(nat \<Rightarrow> bool) \<Rightarrow> ustr \<Rightarrow> py_group" where
  "python_named_group ua cs =
     (let name = takeWhile (name_char ua) (drop 4 cs) in
      if name = [] \<or> char_at cs (4 + length name) \<noteq> Some (ch CHR ''>'') then GPlain
      else GCapturing (Some name))"

definition python_condition :: "(nat \<Rightarrow> bool) \<Rightarrow> ustr \<Rightarrow> py_condition" where
  "python_condition ua cs =
     (let number = takeWhile is_ascii_digit cs in
      if number \<noteq> [] then
        (if char_at cs (length number) = Some (ch CHR '')'')
         then CondNumber (case parse_usize number of Some n \<Rightarrow> n | None \<Rightarrow> 2 ^ 64 - 1)
         else CondOther)
      else (let name = takeWhile (name_char ua) cs in
        if char_at cs (length name) = Some (ch CHR '')'') \<and> name \<noteq> [] then CondName name else CondOther))"

definition inline_flag_group :: "ustr \<Rightarrow> ustr option" where
  "inline_flag_group cs =
     (let flags = takeWhile (\<lambda>c. c \<in> set (lit ''-aiLmsux'')) (drop 2 cs);
          turned_off = ch CHR ''-'' \<in> set flags;
          scoped = (char_at cs (2 + length flags) = Some (ch CHR '':''))
      in if flags = [] \<or> (\<not> scoped \<and> char_at cs (2 + length flags) \<noteq> Some (ch CHR '')'')) then None
         else if ch CHR ''a'' \<in> set flags then Some (lit ''the ASCII flag, `(?a)`, which neither engine here can express'')
         else if turned_off \<and> \<not> scoped
           then Some (lit ''an inline flag turned off outside a group, which Python spells `(?-i:...)`'')
         else None)"

definition refuse_unknown_group :: "ustr \<Rightarrow> ustr option" where
  "refuse_unknown_group cs =
     (if char_at cs 2 = Some (ch CHR ''<'') \<and> char_at cs 3 \<noteq> Some (ch CHR ''='') \<and> char_at cs 3 \<noteq> Some (ch CHR ''!'')
      then Some (lit ''a group named `(?<name>...)`, which Python spells `(?P<name>...)`'')
      else inline_flag_group cs)"

definition python_group :: "(nat \<Rightarrow> bool) \<Rightarrow> ustr \<Rightarrow> ustr + py_group" where
  "python_group ua cs =
     (if char_at cs 1 = Some (ch CHR ''*'')
      then Inl (lit ''a backtracking verb, `(*FAIL)` and friends, which Python has no syntax for'')
      else if char_at cs 1 \<noteq> Some (ch CHR ''?'') then Inr (GCapturing None)
      else (case refuse_unknown_group cs of Some reason \<Rightarrow> Inl reason
        | None \<Rightarrow>
          if char_at cs 2 = Some (ch CHR ''('') then Inr (GConditional (python_condition ua (drop 3 cs)))
          else if char_at cs 2 = Some (ch CHR ''P'') \<and> char_at cs 3 = Some (ch CHR ''<'')
            then Inr (python_named_group ua cs)
          else Inr GPlain))"

section \<open>Translation\<close>

record rx_state =
  rx_in_class :: bool
  rx_class_head :: bool
  rx_groups :: "ustr option list"
  rx_conditions :: "(nat \<times> ustr option) list"

definition rx_init :: rx_state where
  "rx_init = \<lparr>rx_in_class = False, rx_class_head = False, rx_groups = [], rx_conditions = []\<rparr>"

text \<open>What one iteration appends, how many further characters it consumes, and the state after it.\<close>

type_synonym rx_out = "ustr \<times> nat \<times> rx_state"

definition rx_pass_escape :: "rx_state \<Rightarrow> ustr \<Rightarrow> ustr + rx_out" where
  "rx_pass_escape st cs =
     (case cs of
        [] \<Rightarrow> Inr ([92], 0, st\<lparr>rx_class_head := False\<rparr>)
      | e # _ \<Rightarrow>
          if means_itself e then Inr ([e], 1, st\<lparr>rx_class_head := False\<rparr>)
          else if \<not> knows_escape e then Inl (lit ''an escape Python does not know'')
          else Inr ([92, e], 1, st\<lparr>rx_class_head := False\<rparr>))"

definition rx_escape :: "rx_state \<Rightarrow> ustr \<Rightarrow> ustr + rx_out" where
  "rx_escape st cs =
     (if \<not> rx_in_class st \<and> char_at cs 0 = Some (ch CHR ''Z'')
      then Inr ([92, ch CHR ''z''], 1, st\<lparr>rx_class_head := False\<rparr>)
      else if char_at cs 0 = Some (ch CHR ''N'')
        then Inl (lit ''`'' @ [92] @ lit ''N`, Python's named-character escape'')
      else (case python_numbered_escape (takeWhile is_ascii_digit cs) (rx_in_class st) of
          Inl reason \<Rightarrow> Inl reason
        | Inr (Octal t span) \<Rightarrow> Inr (t, span, st\<lparr>rx_class_head := False\<rparr>)
        | Inr BackReference \<Rightarrow> rx_pass_escape st cs))"

definition rx_class_char :: "rx_state \<Rightarrow> nat \<Rightarrow> rx_out" where
  "rx_class_char st c =
     (if c = ch CHR ''['' then ([92, 91], 0, st\<lparr>rx_class_head := False\<rparr>)
      else let st1 = (if c = ch CHR '']'' \<and> \<not> rx_class_head st then st\<lparr>rx_in_class := False\<rparr> else st);
               st2 = (if c \<noteq> ch CHR ''^'' then st1\<lparr>rx_class_head := False\<rparr> else st1)
           in ([c], 0, st2))"

definition group_position :: "ustr \<Rightarrow> ustr option list \<Rightarrow> nat option" where
  "group_position name groups = find_by (\<lambda>seen. seen = Some name) groups"

text \<open>An opening parenthesis: the group it opens, and the parenthesis itself unless a named condition
  is rewritten to its number.\<close>

definition rx_group :: "(nat \<Rightarrow> bool) \<Rightarrow> rx_state \<Rightarrow> ustr \<Rightarrow> ustr + rx_out" where
  "rx_group ua st cs =
     rbind (python_group ua cs) (\<lambda>g.
       case g of
         GCapturing name \<Rightarrow> Inr ([40], 0, st\<lparr>rx_groups := rx_groups st @ [name]\<rparr>)
       | GPlain \<Rightarrow> Inr ([40], 0, st)
       | GConditional (CondNumber n) \<Rightarrow>
           if n = 0 then Inl (lit ''a conditional group branching on group 0'')
           else Inr ([40], 0, st\<lparr>rx_conditions := rx_conditions st @ [(n, None)]\<rparr>)
       | GConditional (CondName name) \<Rightarrow>
           (case group_position name (rx_groups st) of
              None \<Rightarrow> Inl (lit ''a conditional group naming a group not read before it'')
            | Some grp \<Rightarrow>
                let number = grp + 1 in
                Inr (lit ''(?('' @ nat_to_str number @ lit '')'', 3 + length name,
                  st\<lparr>rx_class_head := False, rx_conditions := rx_conditions st @ [(number, Some name)]\<rparr>))
       | GConditional CondOther \<Rightarrow> Inr ([40], 0, st))"

definition rx_brace :: "rx_state \<Rightarrow> ustr \<Rightarrow> ustr + rx_out" where
  "rx_brace st cs =
     (case python_repetition cs of
        None \<Rightarrow> Inr ([92, 123], 0, st)
      | Some r \<Rightarrow>
          if pr_minimum_exceeds_maximum r then Inl (lit ''a repetition whose minimum is greater than its maximum'')
          else if pr_omitted_minimum r
            then Inr (lit ''{0'' @ take (pr_length r - 1) (drop 1 cs), pr_length r - 1, st)
          else Inr (take (pr_length r) cs, pr_length r - 1, st))"

definition rx_step :: "(nat \<Rightarrow> bool) \<Rightarrow> rx_state \<Rightarrow> nat \<Rightarrow> ustr \<Rightarrow> ustr + rx_out" where
  "rx_step ua st c cs =
     (if c = 92 then rx_escape st cs
      else if rx_in_class st then Inr (rx_class_char st c)
      else if c = ch CHR ''['' then Inr ([c], 0, st\<lparr>rx_in_class := True, rx_class_head := True\<rparr>)
      else if c = ch CHR ''('' then rx_group ua st (c # cs)
      else if c = ch CHR ''{'' then rx_brace st (c # cs)
      else Inr ([c], 0, st))"

function rx_loop :: "(nat \<Rightarrow> bool) \<Rightarrow> rx_state \<Rightarrow> ustr \<Rightarrow> ustr + ustr \<times> rx_state" where
  "rx_loop ua st [] = Inr ([], st)"
| "rx_loop ua st (c # cs) =
     (case rx_step ua st c cs of Inl reason \<Rightarrow> Inl reason
      | Inr (out, skip, st1) \<Rightarrow>
          rbind (rx_loop ua st1 (drop skip cs)) (\<lambda>(rest, st2). Inr (out @ rest, st2)))"
  by pat_completeness auto
termination by (relation "measure (\<lambda>(ua, st, cs). length cs)") auto

record translated =
  tr_body :: ustr
  tr_conditions :: "(nat \<times> ustr option) list"

definition translate_from_python :: "(nat \<Rightarrow> bool) \<Rightarrow> ustr \<Rightarrow> ustr + translated" where
  "translate_from_python ua body =
     rbind (rx_loop ua rx_init body) (\<lambda>(out, st). Inr \<lparr>tr_body = out, tr_conditions = rx_conditions st\<rparr>)"

section \<open>Compilation\<close>

text \<open>A capture set: the number of groups and the text of each one that took part.\<close>

type_synonym captures = "ustr option list"

text \<open>
  A compiled engine pattern: capture names and count, and the three searches.  The linear engine's
  searches cannot fail.
\<close>

record rx_compiled =
  rc_names :: "ustr option list"
  rc_len :: nat
  rc_is_match :: "ustr \<Rightarrow> error + bool"
  rc_captures_iter :: "ustr \<Rightarrow> (error + captures) list"
  rc_captures :: "ustr \<Rightarrow> error + captures option"

record rx_engines =
  rx_linear :: "qd_flags \<Rightarrow> ustr \<Rightarrow> ustr + rx_compiled"
  rx_backtracking :: "qd_flags \<Rightarrow> ustr \<Rightarrow> ustr + rx_compiled"

datatype compiled_regex = Linear rx_compiled | Backtracking rx_compiled ustr

fun check_conditions :: "ustr option list \<Rightarrow> nat \<Rightarrow> (nat \<times> ustr option) list \<Rightarrow> ustr + unit" where
  "check_conditions names captures_len [] = Inr ()"
| "check_conditions names captures_len ((grp, name) # cs) =
     (if captures_len \<le> grp
      then Inl (lit ''a conditional group branching on group '' @ nat_to_str grp @ lit '', which does not exist'')
      else (case name of
          Some n \<Rightarrow>
            if \<not> (grp < length names \<and> names ! grp = Some n)
            then Inl (lit ''a conditional group naming `'' @ n @ lit ''`, which is not group '' @ nat_to_str grp
              @ lit '' of the pattern'')
            else check_conditions names captures_len cs
        | None \<Rightarrow> check_conditions names captures_len cs))"

definition build_regex :: "(nat \<Rightarrow> bool) \<Rightarrow> rx_engines \<Rightarrow> qd_flags \<Rightarrow> ustr \<Rightarrow> ustr \<Rightarrow> ustr + compiled_regex" where
  "build_regex ua E flags pattern body =
     rbind (translate_from_python ua body) (\<lambda>t.
       case rx_linear E flags (tr_body t) of
         Inr regex \<Rightarrow> rbind (check_conditions (rc_names regex) (rc_len regex) (tr_conditions t)) (\<lambda>_.
           Inr (Linear regex))
       | Inl err \<Rightarrow>
           (case rx_backtracking E flags (tr_body t) of
              Inr regex \<Rightarrow> rbind (check_conditions (rc_names regex) (rc_len regex) (tr_conditions t)) (\<lambda>_.
                Inr (Backtracking regex pattern))
            | Inl _ \<Rightarrow> Inl err))"

text \<open>\<open>{pattern:?}\<close> is the parameter \<open>dbg\<close>.\<close>

definition compile_regex :: "(nat \<Rightarrow> bool) \<Rightarrow> (ustr \<Rightarrow> ustr) \<Rightarrow> rx_engines \<Rightarrow> ustr \<Rightarrow> error + compiled_regex" where
  "compile_regex ua dbg E pattern =
     (let (body, flags) = qd_pattern pattern in
      case build_regex ua E flags pattern body of
        Inr r \<Rightarrow> Inr r
      | Inl reason \<Rightarrow> Inl [lit ''invalid QD regular expression '' @ dbg pattern @ lit '': '' @ reason])"

section \<open>What a match yields\<close>

definition group_text :: "captures \<Rightarrow> nat \<Rightarrow> ustr option" where
  "group_text cap i = (if i < length cap then cap ! i else None)"

definition group_json :: "captures \<Rightarrow> nat \<Rightarrow> json" where
  "group_json cap i = JStr (case group_text cap i of Some t \<Rightarrow> t | None \<Rightarrow> [])"

definition qd_findall_entry :: "captures \<Rightarrow> json" where
  "qd_findall_entry cap =
     (if length cap = 1 then group_json cap 0
      else if length cap = 2 then group_json cap 1
      else JArr (map (group_json cap) [1..<length cap]))"

definition qd_first_value :: "captures \<Rightarrow> json option" where
  "qd_first_value cap =
     (let matched = (if 1 < length cap then group_text cap 1 else group_text cap 0);
          matched = (case matched of None \<Rightarrow> group_text cap 0 | Some t \<Rightarrow> Some t)
      in map_option JStr matched)"

definition gave_up :: "(ustr \<Rightarrow> ustr) \<Rightarrow> ustr \<Rightarrow> error + 'a \<Rightarrow> error + 'a" where
  "gave_up dbg pattern r = with_context (lit ''QD regular expression '' @ dbg pattern
     @ lit '' gave up: it needed more backtracking than the fallback engine allows (1000000 steps)'') r"

definition rx_is_match :: "(ustr \<Rightarrow> ustr) \<Rightarrow> compiled_regex \<Rightarrow> ustr \<Rightarrow> error + bool" where
  "rx_is_match dbg r source = (case r of
      Linear regex \<Rightarrow> rc_is_match regex source
    | Backtracking regex pattern \<Rightarrow> gave_up dbg pattern (rc_is_match regex source))"

definition rx_find_all :: "(ustr \<Rightarrow> ustr) \<Rightarrow> compiled_regex \<Rightarrow> ustr \<Rightarrow> error + json list" where
  "rx_find_all dbg r source = (case r of
      Linear regex \<Rightarrow> rmap (\<lambda>c. rbind c (\<lambda>cap. Inr (qd_findall_entry cap))) (rc_captures_iter regex source)
    | Backtracking regex pattern \<Rightarrow>
        rmap (\<lambda>c. rbind (gave_up dbg pattern c) (\<lambda>cap. Inr (qd_findall_entry cap))) (rc_captures_iter regex source))"

definition rx_first :: "(ustr \<Rightarrow> ustr) \<Rightarrow> compiled_regex \<Rightarrow> ustr \<Rightarrow> error + json option" where
  "rx_first dbg r source = (case r of
      Linear regex \<Rightarrow> rbind (rc_captures regex source) (\<lambda>c. Inr (Option.bind c qd_first_value))
    | Backtracking regex pattern \<Rightarrow>
        rbind (gave_up dbg pattern (rc_captures regex source)) (\<lambda>c. Inr (Option.bind c qd_first_value)))"

definition rx_extract :: "(nat \<Rightarrow> bool) \<Rightarrow> (ustr \<Rightarrow> ustr) \<Rightarrow> rx_engines \<Rightarrow> ustr \<Rightarrow> ustr \<Rightarrow> error + json option" where
  "rx_extract ua dbg E pattern source =
     rbind (compile_regex ua dbg E pattern) (\<lambda>regex.
       if fl_global (snd (qd_pattern pattern))
       then rbind (rx_find_all dbg regex source) (\<lambda>vs. Inr (Some (JArr vs)))
       else rx_first dbg regex source)"

definition python_findall :: "(nat \<Rightarrow> bool) \<Rightarrow> (ustr \<Rightarrow> ustr) \<Rightarrow> rx_engines \<Rightarrow> ustr \<Rightarrow> ustr \<Rightarrow> error + json list" where
  "python_findall ua dbg E pattern source =
     (case build_regex ua E (default_flags\<lparr>fl_case_insensitive := True\<rparr>) pattern pattern of
        Inl reason \<Rightarrow> Inl [lit ''invalid QD regular expression '' @ dbg pattern @ lit '': '' @ reason]
      | Inr regex \<Rightarrow> rx_find_all dbg regex source)"

section \<open>Repetition bounds\<close>

text \<open>Comparing the digits is comparing the numbers they denote, whatever their size.\<close>

lemma digits_val_bound: "list_all is_ascii_digit ds \<Longrightarrow> digits_val ds < 10 ^ length ds"
proof (induction ds rule: rev_induct)
  case (snoc d ds)
  then have "digits_val ds < 10 ^ length ds" and "d \<le> 57" by (auto simp: is_ascii_digit_def)
  then show ?case by simp
qed (simp add: digits_val_def)

lemma digits_val_Cons:
  "digits_val (d # ds) = (d - 48) * 10 ^ length ds + digits_val ds"
proof (induction ds rule: rev_induct)
  case (snoc e ds)
  have "digits_val (d # ds @ [e]) = 10 * digits_val (d # ds) + (e - 48)"
    using digits_val_snoc [of "d # ds" e] by simp
  with snoc show ?case by (simp add: algebra_simps)
qed (simp add: digits_val_def)

lemma digits_val_significant: "digits_val (significant ds) = digits_val ds"
  by (induction ds) (auto simp: significant_def digits_val_Cons)

lemma significant_digits: "list_all is_ascii_digit ds \<Longrightarrow> list_all is_ascii_digit (significant ds)"
  unfolding significant_def by (rule list_all_dropWhile)

lemma significant_lower:
  assumes "list_all is_ascii_digit ds" and "significant ds \<noteq> []"
  shows "10 ^ (length (significant ds) - 1) \<le> digits_val (significant ds)"
proof -
  obtain d es where s: "significant ds = d # es" using assms(2) by (cases "significant ds") auto
  have "d \<noteq> 48" using s hd_dropWhile [of "\<lambda>d. d = 48" ds] by (auto simp: significant_def)
  moreover have "is_ascii_digit d" using significant_digits [OF assms(1)] s by simp
  ultimately have "1 \<le> d - 48" unfolding is_ascii_digit_def by linarith
  then have "1 * 10 ^ length es \<le> (d - 48) * 10 ^ length es" by (rule mult_le_mono1)
  then show ?thesis by (simp add: s digits_val_Cons trans_le_add1)
qed

lemma digits_less:
  "length a = length b \<Longrightarrow> list_all is_ascii_digit a \<Longrightarrow> list_all is_ascii_digit b \<Longrightarrow>
     b < a \<longleftrightarrow> digits_val b < digits_val a"
proof (induction a b rule: list_induct2)
  case (Cons x xs y ys)
  have bx: "digits_val xs < 10 ^ length ys" and by': "digits_val ys < 10 ^ length ys"
    using Cons digits_val_bound [of xs] digits_val_bound [of ys] by auto
  have xy: "48 \<le> x" "48 \<le> y" using Cons.prems by (auto simp: is_ascii_digit_def)
  consider "x = y" | "y < x" | "x < y" by linarith
  then show ?case
  proof cases
    case 1
    then show ?thesis using Cons by (simp add: digits_val_Cons)
  next
    case 2
    then have "y - 48 + 1 \<le> x - 48" using xy by simp
    then have "(y - 48 + 1) * 10 ^ length ys \<le> (x - 48) * 10 ^ length ys" by (rule mult_le_mono1)
    then have "digits_val (y # ys) < digits_val (x # xs)"
      using Cons.hyps by' by (simp add: digits_val_Cons)
    with 2 show ?thesis by simp
  next
    case 3
    then have "x - 48 + 1 \<le> y - 48" using xy by simp
    then have "(x - 48 + 1) * 10 ^ length ys \<le> (y - 48) * 10 ^ length ys" by (rule mult_le_mono1)
    then have "digits_val (x # xs) < digits_val (y # ys)"
      using Cons.hyps bx by (simp add: digits_val_Cons)
    with 3 show ?thesis by simp
  qed
qed simp

lemma shorter_less:
  assumes "list_all is_ascii_digit a" "list_all is_ascii_digit b"
    and "length (significant a) < length (significant b)"
  shows "digits_val a < digits_val b"
proof -
  have "digits_val (significant a) < 10 ^ length (significant a)"
    by (rule digits_val_bound) (rule significant_digits [OF assms(1)])
  also have "\<dots> \<le> 10 ^ (length (significant b) - 1)"
    using assms(3) by (intro power_increasing) auto
  also have "\<dots> \<le> digits_val (significant b)"
    using assms(3) by (intro significant_lower assms(2)) auto
  finally show ?thesis by (simp add: digits_val_significant)
qed

lemma exceeds_iff:
  assumes "list_all is_ascii_digit a" "list_all is_ascii_digit b"
  shows "exceeds a b \<longleftrightarrow> digits_val b < digits_val a"
proof -
  consider "length (significant a) = length (significant b)" | "length (significant a) < length (significant b)"
    | "length (significant b) < length (significant a)" by linarith
  then show ?thesis
  proof cases
    case 1
    then show ?thesis
      using digits_less [OF 1 significant_digits [OF assms(1)] significant_digits [OF assms(2)]]
      by (simp add: exceeds_def digits_val_significant)
  next
    case 2
    then show ?thesis using shorter_less [OF assms 2] by (simp add: exceeds_def)
  next
    case 3
    then show ?thesis using shorter_less [OF assms(2,1) 3] by (simp add: exceeds_def)
  qed
qed

section \<open>The translated text\<close>

text \<open>
  A reading of a translated pattern, with the class state the engines keep: outside a class a brace
  opens a repetition with a written minimum that is not above its maximum, and a parenthesis is never
  followed by a star; inside a class no bracket is unescaped; an escape is never \<open>\N\<close> and never a
  backslash before punctuation that means itself.
\<close>

definition plain_repetition :: "ustr \<Rightarrow> bool" where
  "plain_repetition cs = (case python_repetition cs of None \<Rightarrow> False
     | Some r \<Rightarrow> \<not> pr_omitted_minimum r \<and> \<not> pr_minimum_exceeds_maximum r)"

definition escape_ok :: "nat \<Rightarrow> bool" where
  "escape_ok e \<longleftrightarrow> e \<noteq> ch CHR ''N'' \<and> \<not> means_itself e \<and> (knows_escape e \<or> e = ch CHR ''z'')"

function dialect_ok :: "bool \<Rightarrow> bool \<Rightarrow> ustr \<Rightarrow> bool" where
  "dialect_ok ic hd0 [] = True"
| "dialect_ok ic hd0 (c # cs) =
     (if c = 92 then
        (case cs of [] \<Rightarrow> True | e # rest \<Rightarrow> escape_ok e \<and> dialect_ok ic False rest)
      else if ic then
        c \<noteq> ch CHR ''['' \<and> dialect_ok (\<not> (c = ch CHR '']'' \<and> \<not> hd0)) (hd0 \<and> c = ch CHR ''^'') cs
      else if c = ch CHR ''['' then dialect_ok True True cs
      else if c = ch CHR ''{'' then
        plain_repetition (c # cs)
        \<and> dialect_ok False hd0 (drop (pr_length (the (python_repetition (c # cs))) - 1) cs)
      else (c = ch CHR ''('' \<longrightarrow> char_at cs 0 \<noteq> Some (ch CHR ''*'')) \<and> dialect_ok False hd0 cs)"
  by pat_completeness auto
termination by (relation "measure (\<lambda>(ic, hd0, cs). length cs)") auto

lemma takeWhile_digits: "list_all is_ascii_digit m \<Longrightarrow> \<not> is_ascii_digit c \<Longrightarrow> takeWhile is_ascii_digit (m @ c # t) = m"
  by (induction m) auto

lemma char_at_append [simp]: "char_at (xs @ c # t) (length xs) = Some c"
  by (simp add: char_at_def)

lemma char_at_Suc [simp]: "char_at (c # s) (Suc i) = char_at s i"
  by (simp add: char_at_def)

lemma char_at_0 [simp]: "char_at (c # s) 0 = Some c" "char_at [] i = None"
  by (simp_all add: char_at_def)

lemma not_digit [simp]: "\<not> is_ascii_digit 125" "\<not> is_ascii_digit 44"
  by (simp_all add: is_ascii_digit_def)

lemma repetition_exact:
  assumes "list_all is_ascii_digit m" "m \<noteq> []"
  shows "python_repetition (123 # m @ 125 # t) =
     Some \<lparr>pr_length = length m + 2, pr_omitted_minimum = False, pr_minimum_exceeds_maximum = False\<rparr>"
  using assms by (simp add: python_repetition_def takeWhile_digits Let_def)

lemma repetition_range:
  assumes "list_all is_ascii_digit m" "list_all is_ascii_digit x"
  shows "python_repetition (123 # m @ 44 # x @ 125 # t) =
     Some \<lparr>pr_length = length m + length x + 3, pr_omitted_minimum = (m = []),
       pr_minimum_exceeds_maximum = (m \<noteq> [] \<and> x \<noteq> [] \<and> exceeds m x)\<rparr>"
proof -
  have 1: "takeWhile is_ascii_digit (m @ 44 # x @ 125 # t) = m" using assms by (simp add: takeWhile_digits)
  have 2: "takeWhile is_ascii_digit (x @ 125 # t) = x" using assms by (simp add: takeWhile_digits)
  have 3: "char_at (123 # m @ 44 # x @ 125 # t) (Suc (Suc (length m)) + length x) = Some 125"
    by (simp add: char_at_def nth_append)
  show ?thesis
    using 1 2 3 by (simp add: python_repetition_def Let_def)
qed

lemma char_at_SomeD: "char_at s i = Some c \<Longrightarrow> s = take i s @ c # drop (Suc i) s"
  by (auto simp: char_at_def split: if_splits intro: id_take_nth_drop)

lemma list_all_takeWhile: "list_all P (takeWhile P xs)"
  by (induction xs) auto

lemma repetition_shape:
  assumes "python_repetition (123 # s) = Some r"
  obtains (exact) m t where "list_all is_ascii_digit m" "m \<noteq> []" "s = m @ 125 # t"
  | (range) m x t where "list_all is_ascii_digit m" "list_all is_ascii_digit x" "s = m @ 44 # x @ 125 # t"
proof -
  define m where "m = takeWhile is_ascii_digit s"
  define u where "u = dropWhile is_ascii_digit s"
  have s: "s = m @ u" by (simp add: m_def u_def)
  have dm: "list_all is_ascii_digit m" unfolding m_def by (rule list_all_takeWhile)
  have drop_m: "drop (length m) s = u" by (simp add: s)
  have at: "char_at (123 # s) (Suc (length m) + i) = char_at u i" for i
    by (simp add: s char_at_def nth_append)
  show ?thesis
  proof (cases "char_at u 0 = Some 44")
    case True
    then obtain v where u: "u = 44 # v" by (cases u) auto
    define x where "x = takeWhile is_ascii_digit v"
    define t where "t = dropWhile is_ascii_digit v"
    have v: "v = x @ t" by (simp add: x_def t_def)
    have tm: "takeWhile is_ascii_digit (m @ 44 # v) = m" using dm by (simp add: takeWhile_digits)
    have "char_at (m @ 44 # v) (Suc (length m) + length x) = Some 125"
      using assms unfolding s u python_repetition_def Let_def
      by (simp add: tm x_def split: if_splits)
    then have "char_at ((m @ 44 # x) @ t) (length (m @ 44 # x)) = Some 125" unfolding v by simp
    then have "char_at t 0 = Some 125" by (cases t) (simp add: char_at_def, simp only: char_at_append char_at_0)
    then obtain w where "t = 125 # w" by (cases t) auto
    then show ?thesis using range [OF dm, of x w] unfolding s u v by (simp add: x_def list_all_takeWhile)
  next
    case False
    have "char_at u 0 = Some 125 \<and> m \<noteq> []"
      using assms False at [of 0] unfolding python_repetition_def Let_def
      by (simp add: m_def [symmetric] split: if_splits)
    then obtain w where "u = 125 # w" "m \<noteq> []" by (cases u) auto
    then show ?thesis using exact [OF dm] unfolding s by simp
  qed
qed

lemma plain_repetition_append:
  assumes "python_repetition (123 # s) = Some r" "\<not> pr_minimum_exceeds_maximum r" "\<not> pr_omitted_minimum r"
  shows "\<exists>w. take (pr_length r) (123 # s) = 123 # w \<and> length w = pr_length r - 1
    \<and> python_repetition (123 # w @ rest) = Some r"
proof (rule repetition_shape [OF assms(1)], goal_cases)
  case (1 m t)
  then show ?case using assms repetition_exact [of m t] repetition_exact [of m rest]
    by (intro exI [of _ "m @ [125]"]) auto
next
  case (2 m x t)
  have t: "take (length w + 1) (123 # w @ t) = 123 # w" for w by simp
  from 2 show ?case using assms repetition_range [of m x t] repetition_range [of m x rest] t [of "m @ 44 # x @ [125]"]
    by (intro exI [of _ "m @ 44 # x @ [125]"]) (auto simp: numeral_eq_Suc)
qed

lemma zero_repetition_append:
  assumes "python_repetition (123 # s) = Some r" "pr_omitted_minimum r"
  shows "\<exists>w. take (pr_length r - 1) s = w \<and> length w = pr_length r - 1
    \<and> (\<exists>r'. python_repetition (123 # 48 # w @ rest) = Some r' \<and> pr_length r' = pr_length r + 1
         \<and> \<not> pr_omitted_minimum r' \<and> \<not> pr_minimum_exceeds_maximum r')"
proof (rule repetition_shape [OF assms(1)], goal_cases)
  case (1 m t)
  then show ?case using assms repetition_exact [of m t] by auto
next
  case (2 m x t)
  have z: "list_all is_ascii_digit [48]" by (simp add: is_ascii_digit_def)
  have e: "\<not> exceeds [48] x" if "list_all is_ascii_digit x" using that
    by (simp add: exceeds_iff [OF z]) (simp add: digits_val_def)
  from 2 have r: "r = \<lparr>pr_length = length x + 3, pr_omitted_minimum = True, pr_minimum_exceeds_maximum = False\<rparr>"
    and m: "m = []" using assms repetition_range [of m x t] by auto
  have "python_repetition (123 # [48] @ 44 # x @ 125 # rest) =
     Some \<lparr>pr_length = length [48] + length x + 3, pr_omitted_minimum = False,
       pr_minimum_exceeds_maximum = (x \<noteq> [] \<and> exceeds [48] x)\<rparr>"
    using repetition_range [OF z 2(2), of rest] by simp
  then show ?case using 2 e by (simp add: r m)
qed

text \<open>One iteration keeps the reading in step.\<close>

lemma escape_text_ok [simp]: "escape_ok 120" "escape_ok 122" "escape_ok 91" "escape_ok 123"
  by (simp_all add: escape_ok_def means_itself_def knows_escape_def is_ascii_alpha_def is_ascii_punct_def
      RUST_METACHARACTERS_def)

lemma hex_plain:
  "v < 16 \<Longrightarrow> hex_digit_lower v \<noteq> 92 \<and> hex_digit_lower v \<noteq> 91 \<and> hex_digit_lower v \<noteq> 93
     \<and> hex_digit_lower v \<noteq> 123 \<and> hex_digit_lower v \<noteq> 40 \<and> hex_digit_lower v \<noteq> 94"
  by (auto simp: hex_digit_lower_def)

lemma dialect_ok_plain:
  "c \<notin> {92, 91, 93, 123, 40, 94} \<Longrightarrow> dialect_ok ic False (c # cs) = dialect_ok ic False cs"
  by auto

lemma numbered_escape_octal:
  assumes "python_numbered_escape ds ic = Inr (Octal t span)"
  shows "\<exists>v\<le>255. t = octal_text v"
proof -
  from assms have "\<exists>w. t = octal_text (octal_value w) \<and> \<not> 255 < octal_value w"
    unfolding python_numbered_escape_def Let_def
    by (auto split: list.splits option.splits if_splits)
  then show ?thesis by (auto simp: not_less)
qed

lemma dialect_ok_octal:
  assumes "v \<le> 255"
  shows "dialect_ok ic hd0 (octal_text v @ rest) = dialect_ok ic False rest"
proof -
  have "v div 16 < 16" "v mod 16 < 16" using assms by simp_all
  then show ?thesis
    unfolding octal_text_def append_Cons append_Nil
    by (subst dialect_ok.simps) (simp add: dialect_ok_plain hex_plain del: dialect_ok.simps)
qed

lemma dialect_ok_outside: "dialect_ok False a cs = dialect_ok False b cs"
proof (induction "False" a cs arbitrary: b rule: dialect_ok.induct)
  case (2 hd0 c cs)
  have "(c = 92 \<or> c = 91) \<or> c = 123 \<or> (c \<noteq> 92 \<and> c \<noteq> 91 \<and> c \<noteq> 123)" by blast
  then show ?case
  proof (elim disjE)
    assume c: "c = 123"
    show ?thesis unfolding c dialect_ok.simps using 2(4) [of b] c by simp
  next
    assume c: "c \<noteq> 92 \<and> c \<noteq> 91 \<and> c \<noteq> 123"
    then show ?thesis using 2(5) [of b] by simp
  qed (simp_all split: list.splits)
qed simp

lemma dialect_ok_char:
  "c \<notin> {92, 91, 93, 123, 40, 94} \<Longrightarrow> dialect_ok ic hd0 (c # cs) = dialect_ok ic False cs"
  using dialect_ok_outside [of hd0 cs False] by (cases ic) auto

lemma means_itself_plain: "means_itself e \<Longrightarrow> e \<notin> {92, 91, 93, 123, 40, 94, 42}"
  by (auto simp: means_itself_def RUST_METACHARACTERS_def)

lemma digits_plain: "list_all is_ascii_digit ds \<Longrightarrow> dialect_ok False a (ds @ cs) = dialect_ok False b cs"
proof (induction ds)
  case (Cons d ds)
  then have "d \<notin> {92, 91, 93, 123, 40, 94}" by (auto simp: is_ascii_digit_def)
  then have "dialect_ok False a (d # ds @ cs) = dialect_ok False False (ds @ cs)" by (rule dialect_ok_char)
  with Cons show ?case using dialect_ok_outside [of False "ds @ cs" a] by simp
qed (simp add: dialect_ok_outside)

lemma rx_escape_ok:
  assumes "rx_escape st cs = Inr (out, skip, st1)" "cs = [] \<longrightarrow> rest = []"
    and "dialect_ok (rx_in_class st1) (rx_class_head st1) rest"
  shows "dialect_ok (rx_in_class st) (rx_class_head st) (out @ rest)"
proof -
  have pass: "dialect_ok (rx_in_class st) (rx_class_head st) (out @ rest)"
    if "rx_pass_escape st cs = Inr (out, skip, st1)" "char_at cs 0 \<noteq> Some (ch CHR ''N'')"
  proof (cases cs)
    case Nil
    with that assms show ?thesis by (auto simp: rx_pass_escape_def)
  next
    case (Cons e es)
    show ?thesis
    proof (cases "means_itself e")
      case True
      with Cons that assms show ?thesis
        using dialect_ok_char [of e "rx_in_class st" "rx_class_head st" rest] means_itself_plain [OF True]
        by (auto simp: rx_pass_escape_def simp del: dialect_ok.simps)
    next
      case False
      with Cons that assms show ?thesis
        by (auto simp: rx_pass_escape_def escape_ok_def split: if_splits)
    qed
  qed
  show ?thesis
  proof (cases "\<not> rx_in_class st \<and> char_at cs 0 = Some (ch CHR ''Z'')")
    case True
    with assms show ?thesis by (auto simp: rx_escape_def)
  next
    case False
    note F = False
    show ?thesis
    proof (cases "python_numbered_escape (takeWhile is_ascii_digit cs) (rx_in_class st)")
      case (Inr ne)
      with F assms(1) have N: "char_at cs 0 \<noteq> Some (ch CHR ''N'')" by (auto simp: rx_escape_def split: if_splits)
      show ?thesis
      proof (cases ne)
        case (Octal t span)
        with Inr obtain v where "v \<le> 255" "t = octal_text v" using numbered_escape_octal by blast
        with Octal Inr F N assms(1) have "out = octal_text v" "st1 = st\<lparr>rx_class_head := False\<rparr>"
          by (auto simp: rx_escape_def)
        with \<open>v \<le> 255\<close> assms(3) show ?thesis
          by (simp add: dialect_ok_octal del: dialect_ok.simps)
      next
        case BackReference
        with Inr F N assms(1) have "rx_pass_escape st cs = Inr (out, skip, st1)"
          by (auto simp: rx_escape_def split: if_splits)
        then show ?thesis using N by (rule pass)
      qed
    qed (use F assms in \<open>auto simp: rx_escape_def split: if_splits\<close>)
  qed
qed

lemma rx_class_ok:
  assumes "rx_class_char st c = (out, skip, st1)" "rx_in_class st" "c \<noteq> 92"
    and "dialect_ok (rx_in_class st1) (rx_class_head st1) rest"
  shows "dialect_ok (rx_in_class st) (rx_class_head st) (out @ rest)"
  using assms dialect_ok_outside [of "rx_class_head st" rest False]
  by (auto simp: rx_class_char_def Let_def split: if_splits)

lemma rx_brace_ok:
  assumes "rx_brace st (123 # cs) = Inr (out, skip, st1)" "\<not> rx_in_class st"
    and "dialect_ok (rx_in_class st1) (rx_class_head st1) rest"
  shows "dialect_ok (rx_in_class st) (rx_class_head st) (out @ rest)"
proof (cases "python_repetition (123 # cs)")
  case None
  with assms show ?thesis
    using dialect_ok_outside [of "rx_class_head st" rest False] by (auto simp: rx_brace_def)
next
  case (Some r)
  with assms(1) have x: "\<not> pr_minimum_exceeds_maximum r" and st1: "st1 = st"
    by (auto simp: rx_brace_def split: if_splits)
  show ?thesis
  proof (cases "pr_omitted_minimum r")
    case True
    obtain w r' where w: "take (pr_length r - 1) cs = w" "length w = pr_length r - 1"
      and r': "python_repetition (123 # 48 # w @ rest) = Some r'" "pr_length r' = pr_length r + 1"
        "\<not> pr_omitted_minimum r'" "\<not> pr_minimum_exceeds_maximum r'"
      using zero_repetition_append [OF Some True, of rest] by blast
    have "0 < pr_length r" using Some by (auto simp: python_repetition_def Let_def split: if_splits)
    moreover have "out = 123 # 48 # w" using assms(1) Some x True w by (auto simp: rx_brace_def)
    moreover have "pr_length r = Suc (length w)" using w(2) \<open>0 < pr_length r\<close> by simp
    ultimately show ?thesis using r' assms(2,3) st1 by (simp add: plain_repetition_def)
  next
    case False
    obtain w where w: "take (pr_length r) (123 # cs) = 123 # w" "length w = pr_length r - 1"
      "python_repetition (123 # w @ rest) = Some r"
      using plain_repetition_append [OF Some x False, of rest] by blast
    moreover have "out = 123 # w" using assms(1) Some x False w by (auto simp: rx_brace_def)
    ultimately show ?thesis using assms(2,3) st1 False x by (simp add: plain_repetition_def)
  qed
qed

lemma rx_group_ok:
  assumes "rx_group ua st (40 # cs) = Inr (out, skip, st1)" "\<not> rx_in_class st"
    and "dialect_ok (rx_in_class st1) (rx_class_head st1) rest" and "out = [40] \<longrightarrow> char_at rest 0 \<noteq> Some 42"
  shows "dialect_ok (rx_in_class st) (rx_class_head st) (out @ rest)"
proof -
  have d: "list_all is_ascii_digit (nat_to_str n)" "nat_to_str n \<noteq> []" for n
    using nat_to_str_digits [of n] by (auto simp: all_digits_def)
  have h: "char_at (nat_to_str n @ xs) 0 \<noteq> Some 42" for n xs
    using d [of n] by (cases "nat_to_str n") (auto simp: is_ascii_digit_def)
  have "out = [40] \<and> rx_in_class st1 = rx_in_class st
    \<or> (\<exists>n. out = lit ''(?('' @ nat_to_str n @ lit '')'' \<and> rx_in_class st1 = rx_in_class st)"
  proof -
    obtain g where g: "python_group ua (40 # cs) = Inr g"
      using assms(1) by (auto simp: rx_group_def rbind_eq_Inr)
    show ?thesis
    proof (cases g)
      case (GConditional c)
      then show ?thesis using assms(1) g
        by (cases c) (auto simp: rx_group_def Let_def split: option.splits if_splits)
    qed (use assms(1) g in \<open>auto simp: rx_group_def\<close>)
  qed
  then show ?thesis
  proof (elim disjE exE conjE)
    assume "out = [40]" "rx_in_class st1 = rx_in_class st"
    then show ?thesis using assms(2-4) dialect_ok_outside [of "rx_class_head st" rest "rx_class_head st1"] by simp
  next
    fix n assume o: "out = lit ''(?('' @ nat_to_str n @ lit '')''" "rx_in_class st1 = rx_in_class st"
    have "dialect_ok False (rx_class_head st) (nat_to_str n @ 41 # rest) = dialect_ok False False (41 # rest)"
      using d by (intro digits_plain)
    then show ?thesis
      using assms(2,3) o h [of n "41 # rest"] dialect_ok_outside [of False rest "rx_class_head st1"] by simp
  qed
qed

lemma rx_step_ok:
  assumes "rx_step ua st c cs = Inr (out, skip, st1)" "cs = [] \<longrightarrow> rest = []"
    and "\<not> rx_in_class st \<and> out = [40] \<longrightarrow> char_at rest 0 \<noteq> Some 42"
    and "dialect_ok (rx_in_class st1) (rx_class_head st1) rest"
  shows "dialect_ok (rx_in_class st) (rx_class_head st) (out @ rest)"
proof -
  consider "c = 92" | "c \<noteq> 92" "rx_in_class st" | "\<not> rx_in_class st" "c = 91" | "\<not> rx_in_class st" "c = 40"
    | "\<not> rx_in_class st" "c = 123" | "\<not> rx_in_class st" "c \<notin> {92, 91, 40, 123}" by auto
  then show ?thesis
  proof cases
    case 1
    with assms show ?thesis by (intro rx_escape_ok [of st cs out skip st1]) (auto simp: rx_step_def)
  next
    case 2
    with assms show ?thesis by (intro rx_class_ok [of st c out skip st1]) (auto simp: rx_step_def)
  next
    case 3
    with assms show ?thesis by (auto simp: rx_step_def)
  next
    case 4
    with assms show ?thesis by (intro rx_group_ok [of ua st cs out skip st1]) (auto simp: rx_step_def)
  next
    case 5
    with assms show ?thesis by (intro rx_brace_ok [of st cs out skip st1]) (auto simp: rx_step_def)
  next
    case 6
    with assms have "out = [c]" "st1 = st" by (auto simp: rx_step_def)
    with 6 assms(4) show ?thesis by simp
  qed
qed

lemma rx_step_head:
  assumes "rx_step ua st c cs = Inr (out, skip, st1)"
  shows "out \<noteq> [] \<and> (out ! 0 = 42 \<longrightarrow> c = 42)"
proof -
  have esc: "out \<noteq> [] \<and> out ! 0 \<noteq> 42" if "rx_escape st cs = Inr (out, skip, st1)"
    using that means_itself_plain [of "hd cs"]
    by (auto simp: rx_escape_def rx_pass_escape_def octal_text_def dest!: numbered_escape_octal
        split: if_splits sum.splits numbered_escape.splits list.splits)
  have cls: "out \<noteq> [] \<and> (out ! 0 = 42 \<longrightarrow> c = 42)" if "rx_class_char st c = (out, skip, st1)"
    using that by (auto simp: rx_class_char_def Let_def split: if_splits)
  have brc: "out \<noteq> [] \<and> out ! 0 \<noteq> 42" if "rx_brace st (123 # cs) = Inr (out, skip, st1)"
  proof -
    have "0 < pr_length r" if "python_repetition (123 # cs) = Some r" for r
      using that by (auto simp: python_repetition_def Let_def split: if_splits)
    with that show ?thesis
      by (auto simp: rx_brace_def nth_append split: option.splits if_splits)
  qed
  have grp: "out \<noteq> [] \<and> out ! 0 \<noteq> 42" if "rx_group ua st (40 # cs) = Inr (out, skip, st1)"
  proof -
    note rg = that
    then have "\<exists>g. python_group ua (40 # cs) = Inr g" unfolding rx_group_def rbind_eq_Inr by blast
    then obtain g where g: "python_group ua (40 # cs) = Inr g" ..
    show ?thesis
    proof (cases g)
      case (GConditional c)
      then show ?thesis using rg g
        by (cases c) (auto simp: rx_group_def Let_def split: option.splits if_splits)
    qed (use rg g in \<open>auto simp: rx_group_def\<close>)
  qed
  show ?thesis
    using assms esc cls brc grp by (auto simp: rx_step_def split: if_splits)
qed

lemma rx_step_paren:
  assumes "rx_step ua st 40 cs = Inr ([40], skip, st1)" "\<not> rx_in_class st"
  shows "skip = 0" "char_at cs 0 \<noteq> Some 42"
proof -
  from assms have rg: "rx_group ua st (40 # cs) = Inr ([40], skip, st1)" by (simp add: rx_step_def)
  then have "\<exists>g. python_group ua (40 # cs) = Inr g" unfolding rx_group_def rbind_eq_Inr by blast
  then obtain g where pg: "python_group ua (40 # cs) = Inr g" ..
  then show "char_at cs 0 \<noteq> Some 42" by (auto simp: python_group_def split: if_splits)
  show "skip = 0"
  proof (cases g)
    case (GConditional c)
    then show ?thesis using rg pg
      by (cases c) (auto simp: rx_group_def Let_def split: option.splits if_splits)
  qed (use rg pg in \<open>auto simp: rx_group_def\<close>)
qed

lemma rx_step_open: "rx_step ua st c cs = Inr ([40], skip, st1) \<Longrightarrow> \<not> rx_in_class st \<Longrightarrow> c = 40"
  by (auto simp: rx_step_def rx_escape_def rx_pass_escape_def octal_text_def rx_brace_def
      dest!: numbered_escape_octal means_itself_plain
      split: if_splits sum.splits numbered_escape.splits list.splits option.splits)
    (metis list.inject list.size(3) nat.distinct(1) neq0_conv numeral_eq_iff semiring_norm(86,89) take_Cons' take_eq_Nil list.distinct(1))

lemma rx_loop_ok:
  "rx_loop ua st cs = Inr (out, st2) \<Longrightarrow>
     dialect_ok (rx_in_class st) (rx_class_head st) out \<and> (cs = [] \<longrightarrow> out = [])
     \<and> (char_at out 0 = Some 42 \<longrightarrow> char_at cs 0 = Some 42)"
proof (induction ua st cs arbitrary: out rule: rx_loop.induct)
  case (2 ua st c cs)
  from "2.prems" obtain o1 skip st1 rest where s: "rx_step ua st c cs = Inr (o1, skip, st1)"
    and r: "rx_loop ua st1 (drop skip cs) = Inr (rest, st2)" and out: "out = o1 @ rest"
    by (auto simp: rbind_eq_Inr split: sum.splits)
  note IH = "2.IH" [OF s refl refl r]
  have "char_at rest 0 \<noteq> Some 42" if "\<not> rx_in_class st" "o1 = [40]"
  proof -
    have "c = 40" using rx_step_open s that by blast
    with s that have "skip = 0" "char_at cs 0 \<noteq> Some 42" using rx_step_paren by blast+
    with IH show ?thesis by simp
  qed
  then have "dialect_ok (rx_in_class st) (rx_class_head st) (o1 @ rest)"
    using IH by (intro rx_step_ok [OF s]) auto
  moreover have "char_at out 0 = Some 42 \<longrightarrow> c = 42"
    using rx_step_head [OF s] unfolding out by (cases o1) auto
  ultimately show ?case by (simp add: out)
qed simp

section \<open>Properties\<close>



text \<open>
  The digit comparison that rejects \<open>{m,n}\<close> with \<open>m > n\<close> is the comparison of the numbers, with
  leading zeros and at any size.
\<close>

theorem exceeds_is_greater:
  assumes "list_all is_ascii_digit a" and "list_all is_ascii_digit b"
  shows "exceeds a b \<longleftrightarrow> digits_val b < digits_val a"
  by (rule exceeds_iff [OF assms])

theorem exceeds_is_greater_witness:
  "exceeds (lit ''0010'') (lit ''9'') \<longleftrightarrow> digits_val (lit ''9'') < digits_val (lit ''0010'')"
proof (rule exceeds_is_greater)
  show "list_all is_ascii_digit (lit ''0010'')" by code_simp
  show "list_all is_ascii_digit (lit ''9'')" by code_simp
qed

text \<open>
  The refusal of \<open>(?<name>...)\<close> can be passed by: a backslash before the \<open><\<close>, which Python
  refuses after \<open>(?\<close>, is dropped by the translation after the group was read, so the text handed to
  the engines opens the very group the layer refuses.
\<close>

theorem escaped_group_bypass:
  "translate_from_python (\<lambda>_. False) (lit ''(?'' @ [92] @ lit ''<x>a)'')
     = Inr \<lparr>tr_body = lit ''(?<x>a)'', tr_conditions = []\<rparr>
   \<and> (\<exists>reason. translate_from_python (\<lambda>_. False) (lit ''(?<x>a)'') = Inl reason)"
proof (intro conjI exI)
  show "translate_from_python (\<lambda>_. False) (lit ''(?'' @ [92] @ lit ''<x>a)'')
     = Inr \<lparr>tr_body = lit ''(?<x>a)'', tr_conditions = []\<rparr>" by code_simp
  show "translate_from_python (\<lambda>_. False) (lit ''(?<x>a)'')
     = Inl (lit ''a group named `(?<name>...)`, which Python spells `(?P<name>...)`'')" by code_simp
qed

end
