(* ===== verification/ExecPure.thy ===== *)
theory ExecPure
  imports HttpForm PyRegex QdProgram Template
begin

text \<open>
  The pure helpers of \<open>crates/qdrust-core/src/executor.rs\<close>: step labels and previews, the sources a
  rule reads, the choice of a response's encoding, the values a loop iterates over and the loop
  variables it sets.

  The variable map is a function \<open>ustr \<rightharpoonup> json\<close>.  Decoders and detectors (\<open>encoding_rs\<close>,
  \<open>chardetng\<close>) are the parameters of the record \<open>charset_lib\<close>.
\<close>

type_synonym vars = "ustr \<Rightarrow> json option"

section \<open>Labels and previews\<close>

definition STEP_LABEL_CHARS :: nat where "STEP_LABEL_CHARS = 120"

abbreviation ELLIPSIS :: nat where "ELLIPSIS \<equiv> 0x2026"

definition bounded_label :: "ustr \<Rightarrow> ustr" where
  "bounded_label v =
     (let trimmed = trim v in
      take STEP_LABEL_CHARS trimmed @ (if STEP_LABEL_CHARS < length trimmed then [ELLIPSIS] else []))"

definition request_label :: "ustr \<Rightarrow> ustr \<Rightarrow> ustr \<Rightarrow> ustr" where
  "request_label name method u =
     (let name = trim name in
      if name = [] then method @ lit '' '' @ bounded_label u
      else name @ lit '' '' @ method @ lit '' '' @ bounded_label u)"

definition step_detail :: "step \<Rightarrow> ustr" where
  "step_detail s = (case s of
      SRequest r \<Rightarrow> request_label (rs_name r) (rs_method r) (rs_url r)
    | SExtract x \<Rightarrow> lit ''extract '' @ bounded_label (xs_name x)
    | SIf condition _ _ \<Rightarrow> lit ''if '' @ bounded_label condition
    | SForEach item items _ \<Rightarrow> lit ''for '' @ item @ lit '' in '' @ bounded_label items
    | SDelay ms \<Rightarrow> lit ''delay '' @ nat_to_str ms @ lit ''ms'')"

definition step_label :: "nat \<Rightarrow> step \<Rightarrow> ustr" where
  "step_label index s = lit ''step '' @ nat_to_str (index + 1) @ lit '' ('' @ step_detail s @ lit '')''"

definition block_detail :: "qd_block \<Rightarrow> ustr" where
  "block_detail b = (case b of
      BRequest e \<Rightarrow> request_label [] (rq_method (en_request e)) (rq_url (en_request e))
    | BFor target source _ \<Rightarrow> lit ''for '' @ target @ lit '' in '' @ bounded_label source
    | BWhile condition _ \<Rightarrow> lit ''while '' @ bounded_label condition
    | BIf condition _ _ \<Rightarrow> lit ''if '' @ bounded_label condition)"

definition block_label :: "nat \<Rightarrow> qd_block \<Rightarrow> ustr" where
  "block_label index b = lit ''step '' @ nat_to_str (index + 1) @ lit '' ('' @ block_detail b @ lit '')''"

definition bounded_preview :: "ustr \<Rightarrow> ustr" where
  "bounded_preview t =
     (let collapsed = join (lit '' '') (split_whitespace t) in
      take 300 collapsed @ (if 300 < length collapsed then [ELLIPSIS] else []))"

definition request_digest :: "ustr \<Rightarrow> ustr option \<Rightarrow> ustr" where
  "request_digest method body = (case body of
      Some b \<Rightarrow> bounded_preview (method @ lit '' body: '' @ b)
    | None \<Rightarrow> bounded_preview method)"

section \<open>Rule sources\<close>

type_synonym headers = "(ustr \<times> ustr) list"

definition header_value :: "headers \<Rightarrow> ustr \<Rightarrow> ustr option" where
  "header_value hs name = map_option snd (find (\<lambda>(candidate, _). eq_ignore_ascii_case candidate name) hs)"

definition rule_source :: "ustr \<Rightarrow> nat \<Rightarrow> headers \<Rightarrow> ustr \<Rightarrow> ustr" where
  "rule_source source status hs content =
     (if source = lit ''content'' then content
      else if source = lit ''status'' then nat_to_str status
      else if source = lit ''header'' then join [10] (map (\<lambda>(name, v). name @ lit '': '' @ v) hs)
      else if starts_with (lit ''header-'') source
        then (case header_value hs (drop 7 source) of Some v \<Rightarrow> v | None \<Rightarrow> [])
      else [])"

definition is_image_response :: "headers \<Rightarrow> bool" where
  "is_image_response hs = (case header_value hs (lit ''content-type'') of
      Some v \<Rightarrow> contains_sub (lit ''image'') (to_ascii_lowercase v) | None \<Rightarrow> False)"

section \<open>Encodings\<close>

abbreviation DQUOTE :: nat where "DQUOTE \<equiv> 34"
abbreviation SQUOTE :: nat where "SQUOTE \<equiv> 39"

definition charset_parameter :: "ustr \<Rightarrow> ustr option" where
  "charset_parameter content_type =
     Option.bind (find_sub (lit ''charset'') (to_ascii_lowercase content_type)) (\<lambda>i.
     let rest = trim_start (drop (i + length (lit ''charset'')) content_type) in
     Option.bind (strip_prefix (lit ''='') rest) (\<lambda>rest.
     let rest = trim_start_by (\<lambda>c. c = DQUOTE \<or> c = SQUOTE) (trim_start rest);
         end0 = (case find_by (\<lambda>c. c = ch CHR '';'' \<or> c = ch CHR '','' \<or> c = DQUOTE \<or> c = SQUOTE) rest of
                  Some k \<Rightarrow> k | None \<Rightarrow> length rest);
         charset = trim (take end0 rest)
     in if charset \<noteq> [] then Some charset else None))"

text \<open>\<open>cs_for_label\<close> is \<open>Encoding::for_label\<close>, \<open>cs_declared\<close> the three regular expressions over the
  body, \<open>cs_guess\<close> the detector and \<open>cs_decode\<close> \<open>decode_without_bom_handling\<close>.\<close>

record 'enc charset_lib =
  cs_utf8 :: 'enc
  cs_gb18030 :: 'enc
  cs_windows_1252 :: 'enc
  cs_for_label :: "ustr \<Rightarrow> 'enc option"
  cs_declared :: "nat list \<Rightarrow> ustr option"
  cs_guess :: "nat list \<Rightarrow> 'enc"
  cs_decode :: "'enc \<Rightarrow> nat list \<Rightarrow> ustr"

definition encoding_for :: "'enc charset_lib \<Rightarrow> ustr \<Rightarrow> 'enc option" where
  "encoding_for C lbl =
     (let lbl = trim_by (\<lambda>c. c = DQUOTE \<or> c = SQUOTE \<or> is_ws c) lbl in
      if eq_ignore_ascii_case lbl (lit ''unicode'') then Some (cs_utf8 C)
      else if eq_ignore_ascii_case lbl (lit ''gb2312'') then Some (cs_gb18030 C)
      else if eq_ignore_ascii_case lbl (lit ''latin_1'') then Some (cs_windows_1252 C)
      else cs_for_label C lbl)"

definition header_encoding :: "'enc charset_lib \<Rightarrow> headers \<Rightarrow> 'enc option" where
  "header_encoding C hs =
     Option.bind (header_value hs (lit ''content-type'')) (\<lambda>v.
     Option.bind (charset_parameter v) (\<lambda>charset.
     if eq_ignore_ascii_case charset (lit ''iso-8859-1'') then None else encoding_for C charset))"

definition find_encoding :: "'enc charset_lib \<Rightarrow> nat list \<Rightarrow> headers \<Rightarrow> 'enc" where
  "find_encoding C body hs =
     (case header_encoding C hs of Some e \<Rightarrow> e
      | None \<Rightarrow> (case Option.bind (cs_declared C body) (encoding_for C) of Some e \<Rightarrow> e
        | None \<Rightarrow> cs_guess C body))"

definition decode_body :: "'enc charset_lib \<Rightarrow> nat list \<Rightarrow> headers \<Rightarrow> ustr" where
  "decode_body C body hs = cs_decode C (find_encoding C body hs) body"

section \<open>Loops\<close>

definition iterable_values :: "json \<Rightarrow> error + json list" where
  "iterable_values v = (case v of
      JArr vs \<Rightarrow> Inr vs
    | JObj m \<Rightarrow> Inr (map (\<lambda>(k, _). JStr k) m)
    | JStr s \<Rightarrow> Inr (map (\<lambda>c. JStr [c]) s)
    | _ \<Rightarrow> Inl [lit ''for expression is not iterable''])"

definition py_bool :: "bool \<Rightarrow> json" where
  "py_bool b = JStr (if b then lit ''True'' else lit ''False'')"

definition set_loop_variables :: "nat \<Rightarrow> nat \<Rightarrow> vars \<Rightarrow> vars" where
  "set_loop_variables index n vs = vs
     (lit ''loop_index0'' \<mapsto> JStr (nat_to_str index),
      lit ''loop_index'' \<mapsto> JStr (nat_to_str (index + 1)),
      lit ''loop_first'' \<mapsto> py_bool (index = 0),
      lit ''loop_last'' \<mapsto> py_bool (index + 1 = n),
      lit ''loop_length'' \<mapsto> JStr (nat_to_str n),
      lit ''loop_revindex0'' \<mapsto> JStr (nat_to_str (n - index - 1)),
      lit ''loop_revindex'' \<mapsto> JStr (nat_to_str (n - index)))"

definition loop_depth :: "vars \<Rightarrow> nat option" where
  "loop_depth vs = Option.bind (vs (lit ''loop_depth'')) (\<lambda>v. Option.bind (as_str v) parse_usize)"

definition enter_loop :: "vars \<Rightarrow> vars" where
  "enter_loop vs =
     (let depth = (case loop_depth vs of Some d \<Rightarrow> d | None \<Rightarrow> 0) + 1 in
      vs(lit ''loop_depth'' \<mapsto> JStr (nat_to_str depth), lit ''loop_depth0'' \<mapsto> JStr (nat_to_str (depth - 1))))"

definition leave_loop :: "vars \<Rightarrow> vars" where
  "leave_loop vs =
     (let depth = (case loop_depth vs of Some d \<Rightarrow> d | None \<Rightarrow> 1) - 1 in
      vs(lit ''loop_depth'' \<mapsto> JStr (nat_to_str depth),
         lit ''loop_depth0'' \<mapsto> JStr (if depth = 0 then lit ''-1'' else nat_to_str (depth - 1))))"

section \<open>Facts\<close>

lemma bounded_label_length: "length (bounded_label v) \<le> STEP_LABEL_CHARS + 1"
  by (simp add: bounded_label_def Let_def)

lemma bounded_preview_length: "length (bounded_preview t) \<le> 301"
  by (simp add: bounded_preview_def Let_def)

lemma loop_depth_set [simp]:
  "n < 2 ^ 64 \<Longrightarrow> vs (lit ''loop_depth'') = Some (JStr (nat_to_str n)) \<Longrightarrow> loop_depth vs = Some n"
  by (simp add: loop_depth_def as_str_def parse_unsigned_nat_to_str del: list.map)

end
