(* ===== verification/Plugin.thy ===== *)
theory Plugin
  imports Json
begin

text \<open>
  Plugins (\<open>crates/qdrust-core/src/plugin.rs\<close>): manifests and capabilities, \<open>api://\<close> requests, the
  registry and the call it routes, and the capability check of subprocess plugins.

  URL parsing, the plugin process, the JSON envelope and the clock are parameters; a plugin is its
  manifest with the function it runs, which may time out (\<open>None\<close>) and reports the time it took.
\<close>

section \<open>Manifests\<close>

definition PLUGIN_API_VERSION :: nat where "PLUGIN_API_VERSION = 1"

datatype plugin_capability = Network | ReadFile | WriteFile | Environment

definition capability_str :: "plugin_capability \<Rightarrow> ustr" where
  "capability_str c = (case c of Network \<Rightarrow> lit ''network'' | ReadFile \<Rightarrow> lit ''read_file''
     | WriteFile \<Rightarrow> lit ''write_file'' | Environment \<Rightarrow> lit ''environment'')"

record plugin_manifest =
  mf_api_version :: nat
  mf_id :: ustr
  mf_name :: ustr
  mf_version :: ustr
  mf_capabilities :: "plugin_capability list"

definition valid_plugin_id :: "ustr \<Rightarrow> bool" where
  "valid_plugin_id v \<longleftrightarrow> v \<noteq> [] \<and> byte_len v \<le> 64
     \<and> list_all (\<lambda>b. (97 \<le> b \<and> b \<le> 122) \<or> is_ascii_digit b \<or> b = ch CHR ''-'') v"

definition validate_manifest :: "plugin_manifest \<Rightarrow> error + unit" where
  "validate_manifest m =
     rbind (ensure (mf_api_version m = PLUGIN_API_VERSION) [lit ''unsupported plugin API version'']) (\<lambda>_.
     rbind (ensure (valid_plugin_id (mf_id m)) [lit ''invalid plugin id'']) (\<lambda>_.
     rbind (ensure (trim (mf_name m) \<noteq> []) [lit ''plugin name is empty'']) (\<lambda>_.
     ensure (trim (mf_version m) \<noteq> []) [lit ''plugin version is empty''])))"

section \<open>Requests and responses\<close>

record plugin_request =
  pq_plugin_id :: ustr
  pq_action :: ustr
  pq_query :: "(ustr \<times> ustr) list"

record plugin_response =
  ps_status :: nat
  ps_headers :: "(ustr \<times> ustr) list"
  ps_body :: "nat list"

text \<open>What \<open>reqwest::Url\<close> reads out of a URL text.\<close>

record api_url =
  au_scheme :: ustr
  au_host :: "ustr option"
  au_path :: ustr
  au_query :: "(ustr \<times> ustr) list"

definition from_api_url :: "(ustr \<Rightarrow> error + api_url) \<Rightarrow> ustr \<Rightarrow> error + plugin_request" where
  "from_api_url parse v =
     rbind (with_context (lit ''invalid api plugin URL'') (parse v)) (\<lambda>u.
     rbind (ensure (au_scheme u = lit ''api'') [lit ''plugin URL must use api scheme'']) (\<lambda>_.
     rbind (case au_host u of None \<Rightarrow> Inl [lit ''plugin id is missing''] | Some h \<Rightarrow> Inr h) (\<lambda>plugin_id.
     rbind (ensure (valid_plugin_id plugin_id) [lit ''invalid plugin id'']) (\<lambda>_.
     let action = trim_by (\<lambda>c. c = ch CHR ''/'') (au_path u) in
     rbind (ensure (action \<noteq> []) [lit ''plugin action is missing'']) (\<lambda>_.
     Inr \<lparr>pq_plugin_id = plugin_id, pq_action = action,
          pq_query = fold (\<lambda>(k, x) m. bt_insert k x m) (au_query u) []\<rparr>)))))"

section \<open>Subprocess plugins\<close>

definition capability_list :: "plugin_capability list \<Rightarrow> ustr" where
  "capability_list cs = (if cs = [] then lit ''<none>'' else join (lit '','') (map capability_str cs))"

fun ensure_declared_capabilities :: "plugin_manifest \<Rightarrow> plugin_request \<Rightarrow> plugin_capability list \<Rightarrow> error + unit" where
  "ensure_declared_capabilities m req [] = Inr ()"
| "ensure_declared_capabilities m req (c # used) =
     rbind (ensure (c \<in> set (mf_capabilities m))
        [lit ''plugin '' @ pq_plugin_id req @ lit ''/'' @ pq_action req @ lit '' used undeclared capability: ''
         @ capability_str c @ lit '' (declared: '' @ capability_list (mf_capabilities m) @ lit '')''])
       (\<lambda>_. ensure_declared_capabilities m req used)"

record subprocess_plugin =
  sp_manifest :: plugin_manifest
  sp_executable :: ustr
  sp_arguments :: "ustr list"
  sp_output_limit :: nat

definition subprocess_new :: "plugin_manifest \<Rightarrow> ustr \<Rightarrow> ustr list \<Rightarrow> error + subprocess_plugin" where
  "subprocess_new m executable arguments =
     rbind (validate_manifest m) (\<lambda>_.
     Inr \<lparr>sp_manifest = m, sp_executable = executable, sp_arguments = arguments, sp_output_limit = 1024 * 1024\<rparr>)"

definition subprocess_from_command :: "plugin_manifest \<Rightarrow> ustr \<Rightarrow> error + subprocess_plugin" where
  "subprocess_from_command m command =
     (case split_whitespace command of
        [] \<Rightarrow> Inl [lit ''plugin command is empty'']
      | program # arguments \<Rightarrow> subprocess_new m program arguments)"

text \<open>\<open>run\<close> starts the process, writes the payload and collects exit status and output.\<close>

record 'w process_lib =
  pc_payload :: "plugin_request \<Rightarrow> error + nat list"
  pc_run :: "ustr \<Rightarrow> ustr list \<Rightarrow> nat list \<Rightarrow> 'w \<Rightarrow> (error + bool \<times> nat list) \<times> 'w"
  pc_envelope :: "nat list \<Rightarrow> error + plugin_response \<times> plugin_capability list"

definition subprocess_call :: "'w process_lib \<Rightarrow> subprocess_plugin \<Rightarrow> plugin_request \<Rightarrow> 'w \<Rightarrow> (error + plugin_response) \<times> 'w" where
  "subprocess_call P sp req w =
     (case pc_payload P req of Inl e \<Rightarrow> (Inl e, w)
      | Inr payload \<Rightarrow>
        (case pc_run P (sp_executable sp) (sp_arguments sp) (payload @ [10]) w of
           (Inl e, w1) \<Rightarrow> (Inl e, w1)
         | (Inr (success, stdout), w1) \<Rightarrow>
             (rbind (ensure success [lit ''plugin process failed'']) (\<lambda>_.
              rbind (ensure (length stdout \<le> sp_output_limit sp) [lit ''plugin output limit exceeded'']) (\<lambda>_.
              rbind (with_context (lit ''invalid plugin response'') (pc_envelope P stdout)) (\<lambda>(response, used).
              rbind (ensure_declared_capabilities (sp_manifest sp) req used) (\<lambda>_.
              Inr response)))), w1)))"

section \<open>The registry\<close>

record 'w plugin =
  pl_manifest :: plugin_manifest
  pl_call :: "nat \<Rightarrow> plugin_request \<Rightarrow> 'w \<Rightarrow> (error + plugin_response) option \<times> nat \<times> 'w"

type_synonym 'w registry = "(ustr \<times> 'w plugin) list"

definition register_plugin :: "'w plugin \<Rightarrow> 'w registry \<Rightarrow> error + 'w registry" where
  "register_plugin p reg =
     rbind (validate_manifest (pl_manifest p)) (\<lambda>_.
     let id = mf_id (pl_manifest p) in
     rbind (ensure (\<not> bt_has id reg) [lit ''plugin is already registered'']) (\<lambda>_.
     Inr (bt_insert id p reg)))"

definition registry_ids :: "'w registry \<Rightarrow> ustr list" where
  "registry_ids reg = map fst reg"

definition join_ids :: "ustr list \<Rightarrow> ustr" where
  "join_ids ids = (if ids = [] then lit ''<none>'' else join (lit '','') ids)"

definition registry_call :: "(ustr \<Rightarrow> error + api_url) \<Rightarrow> 'w registry \<Rightarrow> ustr \<Rightarrow> nat \<Rightarrow> 'w
    \<Rightarrow> (error + plugin_response) \<times> 'w" where
  "registry_call parse reg v timeout w =
     (case from_api_url parse v of Inl e \<Rightarrow> (Inl e, w)
      | Inr request \<Rightarrow>
        let name = pq_plugin_id request @ lit ''/'' @ pq_action request in
        (case map_of reg (pq_plugin_id request) of
           None \<Rightarrow> (Inl [lit ''plugin unavailable: '' @ name @ lit '' (registered: ''
                          @ join_ids (registry_ids reg) @ lit '')''], w)
         | Some p \<Rightarrow>
             (case pl_call p timeout request w of
                (None, elapsed_ms, w1) \<Rightarrow>
                  (Inl [lit ''plugin call timed out: '' @ name @ lit '' after '' @ nat_to_str elapsed_ms @ lit '' ms''], w1)
              | (Some outcome, elapsed_ms, w1) \<Rightarrow>
                  (with_context (lit ''plugin call failed: '' @ name) outcome, w1))))"

section \<open>Well-formed registries\<close>

definition registry_wf :: "'w registry \<Rightarrow> bool" where
  "registry_wf reg \<longleftrightarrow> bt_wf reg
     \<and> (\<forall>(id, p) \<in> set reg. mf_id (pl_manifest p) = id \<and> validate_manifest (pl_manifest p) = Inr ())"

lemma set_bt_insert: "set (bt_insert k v m) \<subseteq> insert (k, v) (set m)"
  by (induction k v m rule: bt_insert.induct) auto

lemma registry_wf_Nil [intro, inv_intros]: "registry_wf []"
  by (simp add: registry_wf_def bt_wf_def)

lemma registry_wf_register [inv_intros]:
  assumes "registry_wf reg" and "register_plugin p reg = Inr reg'"
  shows "registry_wf reg'"
proof -
  from assms(2) have v: "validate_manifest (pl_manifest p) = Inr ()"
    and r: "reg' = bt_insert (mf_id (pl_manifest p)) p reg"
    by (auto simp: register_plugin_def Let_def res_simps)
  with assms(1) show ?thesis
    using set_bt_insert [of "mf_id (pl_manifest p)" p reg]
    by (fastforce simp: registry_wf_def intro: bt_wf_insert)
qed

lemma declared_iff:
  "ensure_declared_capabilities m req used = Inr () \<longleftrightarrow> set used \<subseteq> set (mf_capabilities m)"
  by (induction used) (auto simp: res_simps)

lemma subprocess_call_cases:
  assumes "subprocess_call P sp req w = (Inr resp, w')"
  obtains payload success stdout used where "pc_payload P req = Inr payload"
    "pc_run P (sp_executable sp) (sp_arguments sp) (payload @ [10]) w = (Inr (True, stdout), w')"
    "length stdout \<le> sp_output_limit sp" "pc_envelope P stdout = Inr (resp, used)"
    "set used \<subseteq> set (mf_capabilities (sp_manifest sp))"
  using assms
  by (auto simp: subprocess_call_def res_simps declared_iff split: sum.splits prod.splits)

section \<open>Properties\<close>

text \<open>
  Registration keeps a registry well formed (ids in order and distinct, every plugin under its
  own manifest id, every manifest valid), never replaces a plugin, and adds exactly the one it was
  given.
\<close>

theorem register_plugin_correct:
  assumes "registry_wf reg" and "register_plugin p reg = Inr reg'"
  shows "registry_wf reg' \<and> map_of reg (mf_id (pl_manifest p)) = None
    \<and> map_of reg' = (map_of reg)(mf_id (pl_manifest p) \<mapsto> p)"
proof -
  from assms(2) have "\<not> bt_has (mf_id (pl_manifest p)) reg"
    and r: "reg' = bt_insert (mf_id (pl_manifest p)) p reg"
    by (auto simp: register_plugin_def Let_def res_simps)
  then have "map_of reg (mf_id (pl_manifest p)) = None"
    by (simp add: bt_has_def)
  with registry_wf_register [OF assms] r show ?thesis by simp
qed

definition sample_manifest :: plugin_manifest where
  "sample_manifest = \<lparr>mf_api_version = 1, mf_id = lit ''util'', mf_name = lit ''u'', mf_version = lit ''1'',
     mf_capabilities = [Network]\<rparr>"

definition sample_plugin :: "unit plugin" where
  "sample_plugin = \<lparr>pl_manifest = sample_manifest, pl_call = (\<lambda>t r w. (Some (Inl []), 0, w))\<rparr>"

lemma sample_valid: "validate_manifest sample_manifest = Inr ()"
  by (simp add: validate_manifest_def sample_manifest_def PLUGIN_API_VERSION_def valid_plugin_id_def
      byte_len_def len_utf8_def is_ascii_digit_def trim_by_def trim_start_by_def trim_end_by_def is_ws_def)

theorem register_plugin_correct_witness:
  "registry_wf [(lit ''util'', sample_plugin)]"
proof -
  have "register_plugin sample_plugin [] = Inr [(lit ''util'', sample_plugin)]"
    using sample_valid
    by (simp add: register_plugin_def sample_plugin_def bt_has_def) (simp add: sample_manifest_def)
  from register_plugin_correct [OF registry_wf_Nil this] show ?thesis by blast
qed

text \<open>
  A subprocess plugin's response reaches the caller only when the process succeeded, its output
  is within the limit, and every capability the call reported is declared in the manifest.
\<close>

theorem subprocess_capabilities:
  assumes "subprocess_call P sp req w = (Inr resp, w')"
  shows "\<exists>payload stdout used. pc_payload P req = Inr payload
    \<and> pc_run P (sp_executable sp) (sp_arguments sp) (payload @ [10]) w = (Inr (True, stdout), w')
    \<and> length stdout \<le> sp_output_limit sp \<and> pc_envelope P stdout = Inr (resp, used)
    \<and> set used \<subseteq> set (mf_capabilities (sp_manifest sp))"
  using assms by (rule subprocess_call_cases) blast

definition sample_response :: plugin_response where
  "sample_response = \<lparr>ps_status = 200, ps_headers = [], ps_body = []\<rparr>"

definition sample_process :: "unit process_lib" where
  "sample_process = \<lparr>pc_payload = (\<lambda>_. Inr []), pc_run = (\<lambda>_ _ _ w. (Inr (True, [1]), w)),
     pc_envelope = (\<lambda>_. Inr (sample_response, [Network]))\<rparr>"

definition sample_subprocess :: subprocess_plugin where
  "sample_subprocess = \<lparr>sp_manifest = sample_manifest, sp_executable = [], sp_arguments = [], sp_output_limit = 10\<rparr>"

theorem subprocess_capabilities_witness:
  "\<exists>used. pc_envelope sample_process [1] = Inr (sample_response, used)
     \<and> set used \<subseteq> set (mf_capabilities sample_manifest)"
proof -
  have "subprocess_call sample_process sample_subprocess
      \<lparr>pq_plugin_id = [], pq_action = [], pq_query = []\<rparr> () = (Inr sample_response, ())"
    by (simp add: subprocess_call_def sample_process_def sample_subprocess_def sample_manifest_def)
  from subprocess_capabilities [OF this] show ?thesis
    by (auto simp: sample_process_def sample_subprocess_def)
qed

end
