(* ===== verification/StateErr.thy ===== *)
theory StateErr
  imports QPrelude
begin

text \<open>
  Computations on a state that may fail: \<open>async fn(&mut self, ...) -> Result<T>\<close> becomes a function
  from the state to the result and the new state.  The state reached when the error was raised is
  kept, as the \<open>&mut\<close> arguments keep it in the code.

  \<open>outcome Q E m\<close> is the proof rule of the later theories: a success relates the states by \<open>Q\<close>, a
  failure by \<open>E\<close>.  The locale \<open>run_relation\<close> collects what the composition rules need.
\<close>

type_synonym ('s, 'a) serr = "'s \<Rightarrow> (error + 'a) \<times> 's"

definition sret :: "'a \<Rightarrow> ('s, 'a) serr" where
  "sret x s = (Inr x, s)"

definition sfail :: "error \<Rightarrow> ('s, 'a) serr" where
  "sfail e s = (Inl e, s)"

definition sbind :: "('s, 'a) serr \<Rightarrow> ('a \<Rightarrow> ('s, 'b) serr) \<Rightarrow> ('s, 'b) serr" where
  "sbind m f s = (case m s of (Inl e, s1) \<Rightarrow> (Inl e, s1) | (Inr x, s1) \<Rightarrow> f x s1)"

text \<open>A pure fallible computation that reads the state.\<close>

definition sread :: "('s \<Rightarrow> error + 'a) \<Rightarrow> ('s, 'a) serr" where
  "sread f s = (f s, s)"

definition smod :: "('s \<Rightarrow> 's) \<Rightarrow> ('s, unit) serr" where
  "smod f s = (Inr (), f s)"

definition smap_err :: "(error \<Rightarrow> error) \<Rightarrow> ('s, 'a) serr \<Rightarrow> ('s, 'a) serr" where
  "smap_err g m s = (case m s of (Inl e, s1) \<Rightarrow> (Inl (g e), s1) | (Inr x, s1) \<Rightarrow> (Inr x, s1))"

definition scontext :: "ustr \<Rightarrow> ('s, 'a) serr \<Rightarrow> ('s, 'a) serr" where
  "scontext msg m = smap_err (\<lambda>e. msg # e) m"

lemma sbind_sret [simp]: "sbind (sret x) f = f x"
  by (simp add: sbind_def sret_def fun_eq_iff)

lemma sbind_eq_Inr [res_simps]:
  "sbind m f s = (Inr y, s2) \<longleftrightarrow> (\<exists>x s1. m s = (Inr x, s1) \<and> f x s1 = (Inr y, s2))"
  by (auto simp: sbind_def split: prod.splits sum.splits)

lemma sread_eq [res_simps]: "sread f s = (r, s1) \<longleftrightarrow> r = f s \<and> s1 = s"
  by (auto simp: sread_def)

lemma smod_eq [res_simps]: "smod f s = (r, s1) \<longleftrightarrow> r = Inr () \<and> s1 = f s"
  by (auto simp: smod_def)

lemma scontext_eq_Inr [res_simps]: "scontext msg m s = (Inr y, s1) \<longleftrightarrow> m s = (Inr y, s1)"
  by (auto simp: scontext_def smap_err_def split: prod.splits sum.splits)

section \<open>Outcomes\<close>

definition outcome :: "('s \<Rightarrow> 's \<Rightarrow> bool) \<Rightarrow> ('s \<Rightarrow> 's \<Rightarrow> bool) \<Rightarrow> ('s, 'a) serr \<Rightarrow> bool" where
  "outcome Q E m \<longleftrightarrow> (\<forall>s. case m s of (Inr x, s1) \<Rightarrow> Q s s1 | (Inl e, s1) \<Rightarrow> E s s1)"

lemma outcomeI:
  "(\<And>s x s1. m s = (Inr x, s1) \<Longrightarrow> Q s s1) \<Longrightarrow> (\<And>s e s1. m s = (Inl e, s1) \<Longrightarrow> E s s1) \<Longrightarrow> outcome Q E m"
  by (auto simp: outcome_def split: prod.splits sum.splits)

lemma outcome_Inr: "outcome Q E m \<Longrightarrow> m s = (Inr x, s1) \<Longrightarrow> Q s s1"
  unfolding outcome_def by (drule spec [of _ s]) simp

lemma outcome_Inl: "outcome Q E m \<Longrightarrow> m s = (Inl e, s1) \<Longrightarrow> E s s1"
  unfolding outcome_def by (drule spec [of _ s]) simp

lemma outcome_cong: "(\<And>s. m s = m' s) \<Longrightarrow> outcome Q E m = outcome Q E m'"
  by (simp add: outcome_def)

locale run_relation =
  fixes Q E :: "'s \<Rightarrow> 's \<Rightarrow> bool"
  assumes Q_refl: "Q s s"
    and Q_trans: "Q s s1 \<Longrightarrow> Q s1 s2 \<Longrightarrow> Q s s2"
    and Q_E: "Q s s1 \<Longrightarrow> E s s1"
    and QE_E: "Q s s1 \<Longrightarrow> E s1 s2 \<Longrightarrow> E s s2"
begin

lemma outcome_sret: "outcome Q E (sret x)"
  by (simp add: outcome_def sret_def Q_refl)

lemma outcome_sfail: "outcome Q E (sfail e)"
  by (simp add: outcome_def sfail_def Q_E [OF Q_refl])

lemma outcome_sread: "outcome Q E (sread f)"
  by (auto simp: outcome_def sread_def Q_refl Q_E [OF Q_refl] split: sum.splits)

lemma outcome_smod: "(\<And>s. Q s (f s)) \<Longrightarrow> outcome Q E (smod f)"
  by (simp add: outcome_def smod_def)

lemma outcome_sbind:
  "outcome Q E m \<Longrightarrow> (\<And>x. outcome Q E (f x)) \<Longrightarrow> outcome Q E (sbind m f)"
  unfolding outcome_def sbind_def
  by (fastforce split: prod.splits sum.splits intro: Q_trans QE_E)

lemma outcome_smap_err: "outcome Q E m \<Longrightarrow> outcome Q E (smap_err g m)"
  unfolding outcome_def smap_err_def by (fastforce split: prod.splits sum.splits)

lemma outcome_scontext: "outcome Q E m \<Longrightarrow> outcome Q E (scontext msg m)"
  unfolding scontext_def by (rule outcome_smap_err)

lemma outcome_if: "outcome Q E m \<Longrightarrow> outcome Q E m' \<Longrightarrow> outcome Q E (if b then m else m')"
  by simp

lemmas outcome_intros = outcome_sret outcome_sfail outcome_sread outcome_smod outcome_sbind
  outcome_smap_err outcome_scontext

end

end
