(* ===== verification/Executor.thy ===== *)
theory Executor
  imports ExecPure Ssrf Plugin StateErr
begin

text \<open>
  \<open>QdExecutor\<close> (\<open>crates/qdrust-core/src/executor.rs\<close>): the execution context, one request from
  rendering to extraction, and the drivers over HAR blocks and over native template steps.

  The executor's mutable state is the record \<open>run\<close>: the context, the results pushed so far, the
  events handed to the observer, the step counter, and the world outside (network, cookie jar,
  plugins), which is a type parameter.  What the code calls and does not define is in two records:
  \<open>engine\<close> (the expression engine's three entry points) and \<open>outside\<close> (HTTP client, plugins, cookie
  jar, codecs, regular expressions, JSON text).  The debug output of \<open>QDRUST_DEBUG_REQUESTS\<close> is left
  out.
\<close>

section \<open>Options and state\<close>

record executor_options =
  eo_timeout :: nat
  eo_response_limit :: nat
  eo_allow_private :: bool
  eo_allow_invalid_certs :: bool
  eo_plugin_timeout :: nat
  eo_request_limit :: nat
  eo_loop_limit :: nat
  eo_proxy :: "ustr option"

definition DEFAULT_REQUEST_LIMIT :: nat where "DEFAULT_REQUEST_LIMIT = 100"
definition DEFAULT_RESPONSE_LIMIT :: nat where "DEFAULT_RESPONSE_LIMIT = 5 * 1024 * 1024"
definition MAX_LOOP_ITERATIONS :: nat where "MAX_LOOP_ITERATIONS = 1000"

definition default_options :: executor_options where
  "default_options = \<lparr>eo_timeout = 30, eo_response_limit = DEFAULT_RESPONSE_LIMIT, eo_allow_private = False,
     eo_allow_invalid_certs = False, eo_plugin_timeout = 30, eo_request_limit = DEFAULT_REQUEST_LIMIT,
     eo_loop_limit = MAX_LOOP_ITERATIONS, eo_proxy = None\<rparr>"

definition options_policy :: "executor_options \<Rightarrow> outbound_policy" where
  "options_policy opts = \<lparr>op_timeout = eo_timeout opts, op_allow_private = eo_allow_private opts,
     op_allow_invalid_certs = eo_allow_invalid_certs opts, op_proxy = eo_proxy opts\<rparr>"

record exec_context =
  cx_variables :: vars
  cx_remaining :: nat
  cx_loop_limit :: nat
  cx_last_status :: "nat option"
  cx_last_headers :: headers
  cx_last_body :: ustr

definition context_with_limits :: "vars \<Rightarrow> nat \<Rightarrow> nat \<Rightarrow> exec_context" where
  "context_with_limits vs request_limit loop_limit =
     \<lparr>cx_variables = vs, cx_remaining = request_limit, cx_loop_limit = loop_limit, cx_last_status = None,
      cx_last_headers = [], cx_last_body = []\<rparr>"

definition context_new :: "vars \<Rightarrow> exec_context" where
  "context_new vs = context_with_limits vs DEFAULT_REQUEST_LIMIT MAX_LOOP_ITERATIONS"

record step_result =
  sr_url :: ustr
  sr_status :: nat
  sr_body_size :: nat

datatype execution_phase = Started | Finished

record execution_event =
  ev_step_index :: nat
  ev_method :: ustr
  ev_url :: ustr
  ev_phase :: execution_phase
  ev_status :: "nat option"
  ev_body_size :: nat
  ev_error :: "ustr option"

record 'w run =
  rn_cx :: exec_context
  rn_results :: "step_result list"
  rn_events :: "execution_event list"
  rn_next :: nat
  rn_world :: 'w

abbreviation vars_of :: "'w run \<Rightarrow> vars" where
  "vars_of s \<equiv> cx_variables (rn_cx s)"

definition set_vars :: "vars \<Rightarrow> 'w run \<Rightarrow> 'w run" where
  "set_vars vs s = s\<lparr>rn_cx := (rn_cx s)\<lparr>cx_variables := vs\<rparr>\<rparr>"

section \<open>The interfaces\<close>

record engine =
  en_render :: "ustr \<Rightarrow> vars \<Rightarrow> error + ustr"
  en_evaluate :: "ustr \<Rightarrow> vars \<Rightarrow> error + json"
  en_bool :: "ustr \<Rightarrow> vars \<Rightarrow> error + bool"

record form_part =
  fp_name :: ustr
  fp_content :: ustr
  fp_file_name :: "ustr option"
  fp_mime :: "ustr option"

datatype http_body = HText ustr | HForm "form_part list"

record http_request =
  hq_method :: ustr
  hq_url :: ustr
  hq_headers :: headers
  hq_body :: "http_body option"

text \<open>A header value that is not text is \<open>None\<close>; reading the body may fail.\<close>

record http_response =
  hr_status :: nat
  hr_headers :: "(ustr \<times> ustr option) list"
  hr_body :: "error + nat list"

record ('w, 'enc) outside =
  o_net :: "'w \<Rightarrow> net"
  o_send :: "client \<Rightarrow> http_request \<Rightarrow> 'w \<Rightarrow> (error + http_response) \<times> 'w"
  o_plugin :: "ustr \<Rightarrow> nat \<Rightarrow> 'w \<Rightarrow> (error + plugin_response) \<times> 'w"
  o_jar_add :: "ustr \<Rightarrow> ustr \<Rightarrow> 'w \<Rightarrow> 'w"
  o_jar_get :: "ustr \<Rightarrow> 'w \<Rightarrow> ustr option"
  o_method :: "ustr \<Rightarrow> error + ustr"
  o_parse_api :: "ustr \<Rightarrow> error + api_url"
  o_append_query :: "ustr \<Rightarrow> (ustr \<times> ustr) list \<Rightarrow> ustr"
  o_percent :: percent_lib
  o_charset :: "'enc charset_lib"
  o_base64 :: "nat list \<Rightarrow> ustr"
  o_rx :: rx_engines
  o_alnum :: "nat \<Rightarrow> bool"
  o_dbg :: "ustr \<Rightarrow> ustr"
  o_mime_ok :: "ustr \<Rightarrow> bool"
  o_json_parse :: "ustr \<Rightarrow> error + json"
  o_json_pointer :: "ustr \<Rightarrow> json \<Rightarrow> json option"
  o_json_text :: "json \<Rightarrow> ustr"

record ('w, 'enc) executor =
  ex_engine :: engine
  ex_out :: "('w, 'enc) outside"
  ex_policy :: outbound_policy
  ex_response_limit :: nat
  ex_plugin_timeout :: nat
  ex_request_limit :: nat
  ex_loop_limit :: nat
  ex_observed :: bool

definition executor_with_options :: "engine \<Rightarrow> ('w, 'enc) outside \<Rightarrow> executor_options \<Rightarrow> error + ('w, 'enc) executor" where
  "executor_with_options en out opts =
     rbind (ensure (0 < eo_request_limit opts) [lit ''request limit must be positive'']) (\<lambda>_.
     rbind (ensure (0 < eo_loop_limit opts) [lit ''loop limit must be positive'']) (\<lambda>_.
     Inr \<lparr>ex_engine = en, ex_out = out, ex_policy = options_policy opts,
          ex_response_limit = eo_response_limit opts, ex_plugin_timeout = eo_plugin_timeout opts,
          ex_request_limit = eo_request_limit opts, ex_loop_limit = eo_loop_limit opts, ex_observed = False\<rparr>))"

section \<open>Rendering and clients\<close>

definition render :: "('w, 'enc) executor \<Rightarrow> vars \<Rightarrow> ustr \<Rightarrow> error + ustr" where
  "render X vs v = with_context (lit ''cannot render QD template value'') (en_render (ex_engine X) v vs)"

definition policy_with_proxy :: "('w, 'enc) executor \<Rightarrow> vars \<Rightarrow> outbound_policy" where
  "policy_with_proxy X vs =
     (let proxy = trim (case Option.bind (vs (lit ''_proxy'')) as_str of Some p \<Rightarrow> p | None \<Rightarrow> []) in
      (ex_policy X)\<lparr>op_proxy := (if proxy \<noteq> [] then Some proxy else None)\<rparr>)"

definition client_for_url :: "('w, 'enc) executor \<Rightarrow> ustr \<Rightarrow> ('w run, client) serr" where
  "client_for_url X u = sread (\<lambda>s.
     guarded_client_for_url (o_net (ex_out X) (rn_world s)) u (policy_with_proxy X (vars_of s)) True)"

section \<open>Assembling a request\<close>

text \<open>The header loop: the headers so far, whether a cookie header was explicit, and its value.\<close>

fun collect_headers :: "(ustr \<Rightarrow> error + ustr) \<Rightarrow> qd_name_value list \<Rightarrow> headers \<Rightarrow> ustr option
    \<Rightarrow> error + headers \<times> ustr option" where
  "collect_headers rr [] out cookie = Inr (out, cookie)"
| "collect_headers rr (h # hs) out cookie =
     (if \<not> nv_checked h then collect_headers rr hs out cookie
      else rbind (rr (nv_name h)) (\<lambda>name.
        if starts_with (lit '':'') name then collect_headers rr hs out cookie
        else rbind (rr (nv_value h)) (\<lambda>v.
          if eq_ignore_ascii_case name (lit ''accept-encoding'')
          then collect_headers rr hs (out @ [(lit ''accept-encoding'', lit ''identity'')]) cookie
          else collect_headers rr hs (out @ [(name, v)])
                 (if eq_ignore_ascii_case name (lit ''cookie'') then Some v else cookie))))"

definition COOKIE_VAR :: ustr where "COOKIE_VAR = lit ''__qdrust_cookie_header''"

definition remember_cookie :: "ustr \<Rightarrow> ('w run, unit) serr" where
  "remember_cookie header = smod (\<lambda>s. set_vars ((vars_of s)(COOKIE_VAR \<mapsto> JStr header)) s)"

definition render_cookies :: "('w, 'enc) executor \<Rightarrow> vars \<Rightarrow> qd_name_value list \<Rightarrow> error + ustr list" where
  "render_cookies X vs cs =
     rmap (\<lambda>c. rbind (render X vs (nv_name c)) (\<lambda>n. rbind (render X vs (nv_value c)) (\<lambda>v. Inr (n @ lit ''='' @ v))))
       (filter nv_checked cs)"

definition jar_add_all :: "('w, 'enc) executor \<Rightarrow> ustr \<Rightarrow> ustr list \<Rightarrow> ('w run, unit) serr" where
  "jar_add_all X u cookies = smod (\<lambda>s. s\<lparr>rn_world :=
     fold (\<lambda>c w. o_jar_add (ex_out X) (c @ lit ''; Path=/'') u w) cookies (rn_world s)\<rparr>)"

definition parse_url :: "('w, 'enc) executor \<Rightarrow> ustr \<Rightarrow> ('w run, url) serr" where
  "parse_url X u = sread (\<lambda>s. net_parse_url (o_net (ex_out X) (rn_world s)) u)"

definition har_cookies :: "('w, 'enc) executor \<Rightarrow> ustr \<Rightarrow> qd_request \<Rightarrow> headers \<Rightarrow> ('w run, headers) serr" where
  "har_cookies X u rq hs =
     sbind (sread (\<lambda>s. render_cookies X (vars_of s) (rq_cookies rq))) (\<lambda>cookies.
     if cookies = [] then sret hs
     else let header = join (lit ''; '') cookies in
       sbind (remember_cookie header) (\<lambda>_.
       sbind (scontext (lit ''invalid cookie URL'') (parse_url X u)) (\<lambda>_.
       sbind (jar_add_all X u cookies) (\<lambda>_.
       sret (hs @ [(lit ''cookie'', header)])))))"

definition jar_cookies :: "('w, 'enc) executor \<Rightarrow> ustr \<Rightarrow> bool \<Rightarrow> headers \<Rightarrow> ('w run, headers) serr" where
  "jar_cookies X u explicit_cookie hs =
     (if explicit_cookie then sret hs
      else sbind (sread (\<lambda>s. Inr (case vars_of s COOKIE_VAR of
                 Some (JStr header) \<Rightarrow> hs @ [(lit ''cookie'', header)] | _ \<Rightarrow> hs))) (\<lambda>hs.
       sbind (parse_url X u) (\<lambda>_.
       sread (\<lambda>s. Inr (case o_jar_get (ex_out X) u (rn_world s) of
                 Some v \<Rightarrow> hs @ [(lit ''cookie'', v)] | None \<Rightarrow> hs)))))"

definition json_field :: "ustr \<Rightarrow> json \<Rightarrow> ustr option" where
  "json_field k v = Option.bind (jget k v) as_str"

definition text_or_empty :: "ustr option \<Rightarrow> ustr" where
  "text_or_empty t = (case t of Some t \<Rightarrow> t | None \<Rightarrow> [])"

definition multipart_param :: "('w, 'enc) executor \<Rightarrow> vars \<Rightarrow> json \<Rightarrow> error + form_part" where
  "multipart_param X vs param =
     rbind (render X vs (text_or_empty (json_field (lit ''name'') param))) (\<lambda>name.
     if (case json_field (lit ''fileName'') param of Some f \<Rightarrow> f \<noteq> [] | None \<Rightarrow> False) then
       rbind (render X vs (text_or_empty (json_field (lit ''fileName'') param))) (\<lambda>file_name.
       rbind (render X vs (text_or_empty (json_field (lit ''value'') param))) (\<lambda>content.
       Inr \<lparr>fp_name = name, fp_content = content, fp_file_name = Some file_name,
            fp_mime = (case json_field (lit ''contentType'') param of
               Some mime \<Rightarrow> if o_mime_ok (ex_out X) mime then Some mime else None | None \<Rightarrow> None)\<rparr>))
     else
       rbind (render X vs (text_or_empty (json_field (lit ''value'') param))) (\<lambda>v.
       Inr \<lparr>fp_name = name, fp_content = v, fp_file_name = None, fp_mime = None\<rparr>))"

definition build_multipart :: "('w, 'enc) executor \<Rightarrow> vars \<Rightarrow> qd_post_data \<Rightarrow> error + form_part list" where
  "build_multipart X vs pd =
     (case pd_text pd of
        Some t \<Rightarrow> rbind (render X vs t) (\<lambda>body.
          Inr [\<lparr>fp_name = lit ''body'', fp_content = body, fp_file_name = None, fp_mime = None\<rparr>])
      | None \<Rightarrow>
          (case Option.bind (map_of (pd_extensions pd) (lit ''params'')) as_array of
             Some params \<Rightarrow> rmap (multipart_param X vs) params
           | None \<Rightarrow> Inr []))"

definition post_headers :: "qd_request \<Rightarrow> qd_post_data \<Rightarrow> headers \<Rightarrow> headers" where
  "post_headers rq pd hs =
     (let mime_type = text_or_empty (pd_mime_type pd);
          has_content_type = list_ex (\<lambda>h. eq_ignore_ascii_case (nv_name h) (lit ''content-type''))
                               (filter nv_checked (rq_headers rq))
      in if mime_type \<noteq> [] \<and> \<not> has_content_type then hs @ [(lit ''content-type'', mime_type)] else hs)"

text \<open>The body to send and the text the failure digest quotes.\<close>

definition post_body :: "('w, 'enc) executor \<Rightarrow> vars \<Rightarrow> qd_post_data \<Rightarrow> error + http_body option \<times> ustr option" where
  "post_body X vs pd =
     (if (case pd_mime_type pd of Some m \<Rightarrow> starts_with (lit ''multipart/'') m | None \<Rightarrow> False)
      then rbind (build_multipart X vs pd) (\<lambda>parts. Inr (Some (HForm parts), None))
      else (case pd_text pd of None \<Rightarrow> Inr (None, None)
        | Some t \<Rightarrow> rbind (render X vs t) (\<lambda>rendered.
            let body = (if (case pd_mime_type pd of
                              Some m \<Rightarrow> contains_sub (lit ''application/x-www-form-urlencoded'') (to_ascii_lowercase m)
                            | None \<Rightarrow> False)
                        then encode_form_body (o_percent (ex_out X)) rendered else rendered)
            in Inr (Some (HText body), Some body))))"

section \<open>Reading a response\<close>

fun check_rules_loop :: "('w, 'enc) executor \<Rightarrow> vars \<Rightarrow> bool \<Rightarrow> nat \<Rightarrow> headers \<Rightarrow> ustr \<Rightarrow> qd_rule list \<Rightarrow> error + unit" where
  "check_rules_loop X vs success_rules status hs content [] =
     (if success_rules then Inl [lit ''no success assertion matched''] else Inr ())"
| "check_rules_loop X vs success_rules status hs content (rule # rules) =
     rbind (render X vs (ru_re rule)) (\<lambda>pattern.
     let source = rule_source (ru_from rule) status hs content; eo = ex_out X in
     rbind (compile_regex (o_alnum eo) (o_dbg eo) (o_rx eo) pattern) (\<lambda>regex.
     rbind (rx_is_match (o_dbg eo) regex source) (\<lambda>matched.
     if matched then
       (if \<not> success_rules then Inl [lit ''failed assertion matched: '' @ pattern] else Inr ())
     else check_rules_loop X vs success_rules status hs content rules)))"

definition check_rules :: "('w, 'enc) executor \<Rightarrow> vars \<Rightarrow> bool \<Rightarrow> nat \<Rightarrow> headers \<Rightarrow> ustr \<Rightarrow> qd_rule list \<Rightarrow> error + unit" where
  "check_rules X vs success_rules status hs content rules =
     (if rules = [] then Inr () else check_rules_loop X vs success_rules status hs content rules)"

text \<open>\<open>{cause}\<close> prints the outermost message of an error; \<open>{err:#}\<close> the whole chain.\<close>

definition outer_message :: "error \<Rightarrow> ustr" where
  "outer_message e = (case e of [] \<Rightarrow> [] | m # _ \<Rightarrow> m)"

definition full_message :: "error \<Rightarrow> ustr" where
  "full_message e = join (lit '': '') e"

definition with_response :: "ustr \<Rightarrow> ustr \<Rightarrow> ustr \<Rightarrow> error \<Rightarrow> error" where
  "with_response u digest preview cause =
     [outer_message cause @ lit '' (at '' @ u @ lit '')'' @ [10] @ lit ''request: '' @ digest @ [10]
      @ lit ''response: '' @ preview]"

definition apply_extract :: "('w, 'enc) executor \<Rightarrow> nat \<Rightarrow> headers \<Rightarrow> ustr \<Rightarrow> qd_extract_rule \<Rightarrow> ('w run, unit) serr" where
  "apply_extract X status hs content rule =
     (if ru_re (xr_rule rule) = [] \<or> trim (xr_name rule) = [] then sret ()
      else sbind (sread (\<lambda>s. render X (vars_of s) (ru_re (xr_rule rule)))) (\<lambda>pattern.
        let source = rule_source (ru_from (xr_rule rule)) status hs content; eo = ex_out X;
            extracted = (case rx_extract (o_alnum eo) (o_dbg eo) (o_rx eo) pattern source of
                Inr v \<Rightarrow> v | Inl err \<Rightarrow> Some (JStr (outer_message err)))
        in (case extracted of None \<Rightarrow> sret ()
            | Some v \<Rightarrow> smod (\<lambda>s. set_vars ((vars_of s)(xr_name rule \<mapsto> v)) s))))"

fun apply_extracts :: "('w, 'enc) executor \<Rightarrow> nat \<Rightarrow> headers \<Rightarrow> ustr \<Rightarrow> qd_extract_rule list \<Rightarrow> ('w run, unit) serr" where
  "apply_extracts X status hs content [] = sret ()"
| "apply_extracts X status hs content (rule # rules) =
     sbind (apply_extract X status hs content rule) (\<lambda>_. apply_extracts X status hs content rules)"

definition response_content :: "('w, 'enc) executor \<Rightarrow> headers \<Rightarrow> nat list \<Rightarrow> ustr" where
  "response_content X hs body =
     (if is_image_response hs then o_base64 (ex_out X) body else decode_body (o_charset (ex_out X)) body hs)"

definition record_response :: "nat \<Rightarrow> headers \<Rightarrow> ustr \<Rightarrow> 'w run \<Rightarrow> 'w run" where
  "record_response status hs content s =
     s\<lparr>rn_cx := (rn_cx s)\<lparr>cx_last_status := Some status, cx_last_headers := hs, cx_last_body := content\<rparr>\<rparr>"

definition finish_response :: "('w, 'enc) executor \<Rightarrow> qd_entry \<Rightarrow> ustr \<Rightarrow> ustr \<Rightarrow> nat \<Rightarrow> headers \<Rightarrow> nat list \<Rightarrow> bool
    \<Rightarrow> ('w run, step_result) serr" where
  "finish_response X entry u digest status hs body body_is_stored_value =
     sbind (sread (\<lambda>_. ensure (length body \<le> ex_response_limit X) [lit ''response body limit exceeded''])) (\<lambda>_.
     let content = response_content X hs body;
         preview = (if body_is_stored_value \<and> status = 200
                    then lit ''<'' @ nat_to_str (length body) @ lit '' bytes of notepad content omitted>''
                    else bounded_preview content);
         checked = (\<lambda>success_rules rules. smap_err (with_response u digest preview)
                      (sread (\<lambda>s. check_rules X (vars_of s) success_rules status hs content rules)))
     in
     sbind (smod (record_response status hs content)) (\<lambda>_.
     sbind (checked True (en_success entry)) (\<lambda>_.
     sbind (checked False (en_failed entry)) (\<lambda>_.
     sbind (apply_extracts X status hs content (en_extract entry)) (\<lambda>_.
     if contains_sub (lit ''/oauth2/appConf.do'') u \<and> contains_sub ([34] @ lit ''data'' @ [34] @ lit '':{}'') content
     then sfail [lit ''QD appConf returned empty data (check reqid, lt and referer headers)'']
     else sret \<lparr>sr_url = u, sr_status = status, sr_body_size = length body\<rparr>)))))"

section \<open>One request\<close>

definition api_call_url :: "('w, 'enc) executor \<Rightarrow> vars \<Rightarrow> qd_entry \<Rightarrow> ustr \<Rightarrow> ustr \<Rightarrow> error + ustr" where
  "api_call_url X vs entry method u =
     (if \<not> eq_ignore_ascii_case method (lit ''POST'') then Inr u
      else (case rq_post_data (en_request entry) of None \<Rightarrow> Inr u
        | Some pd \<Rightarrow>
          let mime = text_or_empty (pd_mime_type pd) in
          if mime = [] \<or> contains_sub (lit ''application/x-www-form-urlencoded'') mime then
            (case pd_text pd of None \<Rightarrow> Inr u
             | Some t \<Rightarrow> rbind (render X vs t) (\<lambda>body. Inr (merge_form_into_query (o_percent (ex_out X)) u body)))
          else Inr u))"

definition response_body_is_stored_value :: "('w, 'enc) executor \<Rightarrow> ustr \<Rightarrow> bool" where
  "response_body_is_stored_value X u =
     (case from_api_url (o_parse_api (ex_out X)) u of
        Inr r \<Rightarrow> pq_action r = lit ''toolbox/notepad'' | Inl _ \<Rightarrow> False)"

definition call_plugin :: "('w, 'enc) executor \<Rightarrow> ustr \<Rightarrow> ('w run, plugin_response) serr" where
  "call_plugin X u s =
     (case o_plugin (ex_out X) u (ex_plugin_timeout X) (rn_world s) of (r, w) \<Rightarrow> (r, s\<lparr>rn_world := w\<rparr>))"

definition send_request :: "('w, 'enc) executor \<Rightarrow> client \<Rightarrow> http_request \<Rightarrow> ('w run, http_response) serr" where
  "send_request X cl rq s =
     (case o_send (ex_out X) cl rq (rn_world s) of (r, w) \<Rightarrow> (r, s\<lparr>rn_world := w\<rparr>))"

definition execute_api :: "('w, 'enc) executor \<Rightarrow> qd_entry \<Rightarrow> ustr \<Rightarrow> ustr \<Rightarrow> ('w run, step_result) serr" where
  "execute_api X entry method u =
     sbind (sread (\<lambda>s. api_call_url X (vars_of s) entry method u)) (\<lambda>call_url.
     sbind (call_plugin X call_url) (\<lambda>response.
     finish_response X entry u (request_digest method None) (ps_status response) (ps_headers response)
       (ps_body response) (response_body_is_stored_value X call_url)))"

definition execute_http :: "('w, 'enc) executor \<Rightarrow> qd_entry \<Rightarrow> ustr \<Rightarrow> ustr \<Rightarrow> ('w run, step_result) serr" where
  "execute_http X entry method u =
     sbind (client_for_url X u) (\<lambda>cl.
     sbind (sread (\<lambda>_. with_context (lit ''invalid rendered method'') (o_method (ex_out X) method))) (\<lambda>method.
     sbind (sread (\<lambda>s. collect_headers (render X (vars_of s)) (rq_headers (en_request entry)) [] None)) (\<lambda>(hs, cookie).
     sbind (case cookie of None \<Rightarrow> sret () | Some header \<Rightarrow> remember_cookie header) (\<lambda>_.
     sbind (har_cookies X u (en_request entry) hs) (\<lambda>hs.
     sbind (jar_cookies X u (cookie \<noteq> None) hs) (\<lambda>hs.
     sbind (case rq_post_data (en_request entry) of None \<Rightarrow> sret (hs, None, None)
            | Some pd \<Rightarrow> sbind (sread (\<lambda>s. post_body X (vars_of s) pd)) (\<lambda>(body, sent).
                 sret (post_headers (en_request entry) pd hs, body, sent))) (\<lambda>(hs, body, sent).
     sbind (send_request X cl \<lparr>hq_method = method, hq_url = u, hq_headers = hs, hq_body = body\<rparr>) (\<lambda>response.
     sbind (sread (\<lambda>_. hr_body response)) (\<lambda>bytes.
     finish_response X entry u (request_digest method sent) (hr_status response)
       (map (\<lambda>(n, v). (n, text_or_empty v)) (hr_headers response)) bytes False)))))))))"

text \<open>The request budget is spent, and the status of the step before forgotten, before anything else.\<close>

definition spend_request :: "'w run \<Rightarrow> 'w run" where
  "spend_request s = s\<lparr>rn_cx := (rn_cx s)\<lparr>cx_remaining := cx_remaining (rn_cx s) - 1, cx_last_status := None\<rparr>\<rparr>"

definition execute_request_inner :: "('w, 'enc) executor \<Rightarrow> qd_entry \<Rightarrow> ('w run, step_result) serr" where
  "execute_request_inner X entry =
     sbind (sread (\<lambda>s. ensure (0 < cx_remaining (rn_cx s)) [lit ''request limit exceeded''])) (\<lambda>_.
     sbind (smod spend_request) (\<lambda>_.
     sbind (sread (\<lambda>s. render X (vars_of s) (rq_method (en_request entry)))) (\<lambda>method.
     sbind (sread (\<lambda>s. render X (vars_of s) (rq_url (en_request entry)))) (\<lambda>u.
     if starts_with (lit ''api://'') u then execute_api X entry method u else execute_http X entry method u))))"

definition emit :: "('w, 'enc) executor \<Rightarrow> execution_event \<Rightarrow> 'w run \<Rightarrow> 'w run" where
  "emit X e s = (if ex_observed X then s\<lparr>rn_events := rn_events s @ [e]\<rparr> else s)"

definition execute_request :: "('w, 'enc) executor \<Rightarrow> qd_entry \<Rightarrow> ('w run, step_result) serr" where
  "execute_request X entry s =
     (let step_index = rn_next s;
          s = s\<lparr>rn_next := rn_next s + 1\<rparr>;
          method = rq_method (en_request entry);
          observed_url = (case render X (vars_of s) (rq_url (en_request entry)) of
             Inr u \<Rightarrow> u | Inl _ \<Rightarrow> rq_url (en_request entry));
          s = emit X \<lparr>ev_step_index = step_index, ev_method = method, ev_url = observed_url, ev_phase = Started,
                ev_status = None, ev_body_size = 0, ev_error = None\<rparr> s
      in (case execute_request_inner X entry s of
            (Inl err, s1) \<Rightarrow>
              (Inl err, emit X \<lparr>ev_step_index = step_index, ev_method = method, ev_url = observed_url,
                 ev_phase = Finished, ev_status = cx_last_status (rn_cx s1), ev_body_size = 0,
                 ev_error = Some (full_message err)\<rparr> s1)
          | (Inr result, s1) \<Rightarrow>
              (Inr result, emit X \<lparr>ev_step_index = step_index, ev_method = method, ev_url = sr_url result,
                 ev_phase = Finished, ev_status = Some (sr_status result), ev_body_size = sr_body_size result,
                 ev_error = None\<rparr> s1)))"

text \<open>\<open>results.push(self.execute_request(...).await?)\<close>\<close>

definition push_request :: "('w, 'enc) executor \<Rightarrow> qd_entry \<Rightarrow> ('w run, unit) serr" where
  "push_request X entry =
     sbind (execute_request X entry) (\<lambda>r. smod (\<lambda>s. s\<lparr>rn_results := rn_results s @ [r]\<rparr>))"

section \<open>HAR blocks\<close>

definition loop_values :: "('w, 'enc) executor \<Rightarrow> ustr \<Rightarrow> ('w run, json list) serr" where
  "loop_values X source =
     sbind (sread (\<lambda>s. case vars_of s source of Some v \<Rightarrow> Inr v
              | None \<Rightarrow> en_evaluate (ex_engine X) source (vars_of s))) (\<lambda>v.
     sread (\<lambda>_. iterable_values v))"

text \<open>The loops over a body: \<open>for\<close> over the remaining values, \<open>while\<close> over the remaining indices.\<close>

fun for_loop :: "ustr \<Rightarrow> nat \<Rightarrow> ('w run, unit) serr \<Rightarrow> nat \<Rightarrow> json list \<Rightarrow> ('w run, unit) serr" where
  "for_loop target n body index [] = sret ()"
| "for_loop target n body index (v # vs) =
     sbind (smod (\<lambda>s. set_vars (set_loop_variables index n ((vars_of s)(target \<mapsto> v))) s)) (\<lambda>_.
     sbind body (\<lambda>_.
     for_loop target n body (index + 1) vs))"

fun while_loop :: "('w, 'enc) executor \<Rightarrow> ustr \<Rightarrow> ('w run, unit) serr \<Rightarrow> nat \<Rightarrow> nat \<Rightarrow> ('w run, unit) serr" where
  "while_loop X condition body index 0 = sret ()"
| "while_loop X condition body index (Suc rest) =
     sbind (smod (\<lambda>s. set_vars (set_loop_variables index (cx_loop_limit (rn_cx s)) (vars_of s)) s)) (\<lambda>_.
     sbind (sread (\<lambda>s. en_bool (ex_engine X) condition (vars_of s))) (\<lambda>b.
     if \<not> b then sret ()
     else sbind body (\<lambda>_.
       sbind (sread (\<lambda>s. ensure (index + 1 \<noteq> cx_loop_limit (rn_cx s))
                            [lit ''while loop iteration limit exceeded''])) (\<lambda>_.
       while_loop X condition body (index + 1) rest))))"

definition enter_leave :: "(vars \<Rightarrow> vars) \<Rightarrow> ('w run, unit) serr" where
  "enter_leave f = smod (\<lambda>s. set_vars (f (vars_of s)) s)"

function (sequential) execute_blocks :: "('w, 'enc) executor \<Rightarrow> nat \<Rightarrow> qd_block list \<Rightarrow> ('w run, unit) serr"
  and execute_block :: "('w, 'enc) executor \<Rightarrow> qd_block \<Rightarrow> ('w run, unit) serr" where
  "execute_blocks X index [] = sret ()"
| "execute_blocks X index (b # bs) =
     sbind (scontext (block_label index b) (execute_block X b)) (\<lambda>_. execute_blocks X (index + 1) bs)"
| "execute_block X (BRequest entry) = push_request X entry"
| "execute_block X (BIf condition thn els) =
     sbind (sread (\<lambda>s. en_bool (ex_engine X) condition (vars_of s))) (\<lambda>b.
     if b then execute_blocks X 0 thn else execute_blocks X 0 els)"
| "execute_block X (BFor target source body) =
     sbind (loop_values X source) (\<lambda>vs.
     sbind (sread (\<lambda>s. ensure (length vs \<le> cx_loop_limit (rn_cx s)) [lit ''for loop iteration limit exceeded''])) (\<lambda>_.
     sbind (enter_leave enter_loop) (\<lambda>_.
     sbind (for_loop target (length vs) (execute_blocks X 0 body) 0 vs) (\<lambda>_.
     enter_leave leave_loop))))"
| "execute_block X (BWhile condition body) =
     sbind (enter_leave enter_loop) (\<lambda>_.
     sbind (sread (\<lambda>s. Inr (cx_loop_limit (rn_cx s)))) (\<lambda>limit.
     sbind (while_loop X condition (execute_blocks X 0 body) 0 limit) (\<lambda>_.
     enter_leave leave_loop)))"
  by pat_completeness auto
termination
  by (relation "measure (\<lambda>x. case x of Inl (_, _, bs) \<Rightarrow> 2 * size_list size bs | Inr (_, b) \<Rightarrow> 2 * size b)") auto

definition initial_run :: "exec_context \<Rightarrow> nat \<Rightarrow> 'w \<Rightarrow> 'w run" where
  "initial_run cx step_index w = \<lparr>rn_cx = cx, rn_results = [], rn_events = [], rn_next = step_index, rn_world = w\<rparr>"

definition execute :: "('w, 'enc) executor \<Rightarrow> qd_block list \<Rightarrow> ('w run, step_result list) serr" where
  "execute X blocks =
     sbind (smod (\<lambda>s. s\<lparr>rn_cx := (rn_cx s)\<lparr>cx_remaining := min (cx_remaining (rn_cx s)) (ex_request_limit X),
                  cx_loop_limit := min (cx_loop_limit (rn_cx s)) (ex_loop_limit X)\<rparr>, rn_results := []\<rparr>)) (\<lambda>_.
     sbind (execute_blocks X 0 blocks) (\<lambda>_.
     sread (\<lambda>s. Inr (rn_results s))))"

section \<open>Native template steps\<close>

definition body_post_data :: "('w, 'enc) executor \<Rightarrow> request_body \<Rightarrow> qd_post_data" where
  "body_post_data X body =
     (let (mime_type, content) = (case body of
            BodyJson v \<Rightarrow> (lit ''application/json'', o_json_text (ex_out X) v)
          | BodyText v \<Rightarrow> (lit ''text/plain'', v)
          | BodyForm vs \<Rightarrow> (lit ''application/x-www-form-urlencoded'',
              join (lit ''&'') (map (\<lambda>(name, v). name @ lit ''='' @ v) vs)))
      in \<lparr>pd_mime_type = Some mime_type, pd_text = Some content, pd_extensions = []\<rparr>)"

definition native_request_entry :: "('w, 'enc) executor \<Rightarrow> net \<Rightarrow> vars \<Rightarrow> request_step \<Rightarrow> error + qd_entry" where
  "native_request_entry X n vs r =
     rbind (with_context (lit ''cannot render template request URL'') (en_render (ex_engine X) (rs_url r) vs)) (\<lambda>u.
     rbind (with_context (lit ''invalid rendered template URL'') (net_parse_url n u)) (\<lambda>_.
     rbind (rmap (\<lambda>(name, v). rbind (en_render (ex_engine X) name vs) (\<lambda>name.
                 rbind (en_render (ex_engine X) v vs) (\<lambda>v. Inr (name, v)))) (rs_query r)) (\<lambda>pairs.
     Inr \<lparr>en_checked = True, en_comment = Some (rs_name r),
          en_request = \<lparr>rq_method = rs_method r, rq_url = o_append_query (ex_out X) u pairs,
            rq_headers = map (\<lambda>(name, v). \<lparr>nv_name = name, nv_value = v, nv_checked = True, nv_extensions = []\<rparr>)
                           (rs_headers r),
            rq_cookies = [], rq_post_data = map_option (body_post_data X) (rs_body r), rq_extensions = []\<rparr>,
          en_success = [], en_failed = [], en_extract = [], en_extensions = []\<rparr>)))"

definition extract_value :: "('w, 'enc) executor \<Rightarrow> exec_context \<Rightarrow> extract_step \<Rightarrow> error + json option" where
  "extract_value X cx x = (case xs_source x of
      SrcStatus \<Rightarrow> Inr (map_option (\<lambda>n. JNum (JInt (int n))) (cx_last_status cx))
    | SrcHeader \<Rightarrow> Inr (map_option JStr (header_value (cx_last_headers cx) (xs_selector x)))
    | SrcText \<Rightarrow> (let eo = ex_out X in rx_extract (o_alnum eo) (o_dbg eo) (o_rx eo) (xs_selector x) (cx_last_body cx))
    | SrcJson \<Rightarrow>
        rbind (with_context (lit ''last response is not valid JSON'') (o_json_parse (ex_out X) (cx_last_body cx))) (\<lambda>j.
        Inr (o_json_pointer (ex_out X) (xs_selector x) j)))"

definition run_extract :: "('w, 'enc) executor \<Rightarrow> extract_step \<Rightarrow> ('w run, unit) serr" where
  "run_extract X x =
     sbind (sread (\<lambda>s. extract_value X (rn_cx s) x)) (\<lambda>v.
     case v of
       Some v \<Rightarrow> smod (\<lambda>s. set_vars ((vars_of s)(xs_target x \<mapsto> v)) s)
     | None \<Rightarrow> if xs_required x then sfail [lit ''required extraction did not match: '' @ xs_name x] else sret ())"

text \<open>A delay changes nothing the model records.\<close>

fun each_value :: "ustr \<Rightarrow> ('w run, unit) serr \<Rightarrow> json list \<Rightarrow> ('w run, unit) serr" where
  "each_value item body [] = sret ()"
| "each_value item body (v # vs) =
     sbind (smod (\<lambda>s. set_vars ((vars_of s)(item \<mapsto> v)) s)) (\<lambda>_.
     sbind body (\<lambda>_. each_value item body vs))"

function (sequential) execute_template_steps :: "('w, 'enc) executor \<Rightarrow> nat \<Rightarrow> step list \<Rightarrow> ('w run, unit) serr"
  and execute_step :: "('w, 'enc) executor \<Rightarrow> step \<Rightarrow> ('w run, unit) serr" where
  "execute_template_steps X index [] = sret ()"
| "execute_template_steps X index (st # steps) =
     sbind (scontext (step_label index st) (execute_step X st)) (\<lambda>_. execute_template_steps X (index + 1) steps)"
| "execute_step X (SRequest r) =
     sbind (sread (\<lambda>s. native_request_entry X (o_net (ex_out X) (rn_world s)) (vars_of s) r)) (\<lambda>entry.
     push_request X entry)"
| "execute_step X (SExtract x) = run_extract X x"
| "execute_step X (SIf condition thn els) =
     sbind (sread (\<lambda>s. en_bool (ex_engine X) condition (vars_of s))) (\<lambda>b.
     if b then execute_template_steps X 0 thn else execute_template_steps X 0 els)"
| "execute_step X (SForEach item items steps) =
     sbind (loop_values X items) (\<lambda>vs.
     sbind (sread (\<lambda>s. ensure (length vs \<le> cx_loop_limit (rn_cx s)) [lit ''for_each iteration limit exceeded''])) (\<lambda>_.
     each_value item (execute_template_steps X 0 steps) vs))"
| "execute_step X (SDelay ms) = sret ()"
  by pat_completeness auto
termination
  by (relation "measure (\<lambda>x. case x of Inl (_, _, ss) \<Rightarrow> 2 * size_list size ss | Inr (_, s) \<Rightarrow> 2 * size s)") auto

text \<open>The template's variables are defaults: they do not replace what the caller set.\<close>

definition default_variables :: "(ustr \<times> json) list \<Rightarrow> vars \<Rightarrow> vars" where
  "default_variables defs vs =
     fold (\<lambda>(name, v) vs. case vs name of None \<Rightarrow> vs(name \<mapsto> v) | Some _ \<Rightarrow> vs) defs vs"

definition execute_template :: "('w, 'enc) executor \<Rightarrow> template_definition \<Rightarrow> ('w run, step_result list) serr" where
  "execute_template X t =
     sbind (sread (\<lambda>_. validate_template t)) (\<lambda>_.
     sbind (smod (\<lambda>s. set_vars (default_variables (td_variables t) (vars_of s)) s)) (\<lambda>_.
     sbind (smod (\<lambda>s. s\<lparr>rn_cx := (rn_cx s)\<lparr>cx_remaining := min (cx_remaining (rn_cx s)) (ex_request_limit X)\<rparr>,
                  rn_results := []\<rparr>)) (\<lambda>_.
     sbind (execute_template_steps X 0 (td_steps t)) (\<lambda>_.
     sread (\<lambda>s. Inr (rn_results s))))))"

end
