(* ===== verification/ExecProps.thy ===== *)
theory ExecProps
  imports Executor
begin

text \<open>
  What an execution does to its state.  The locale \<open>exec_relation\<close> is the interface between one
  request and the drivers: a relation that every request satisfies and that ignores the variables is
  satisfied by whole programs and whole templates.  It is interpreted twice: on \<open>accounts\<close> (results,
  request budget, step counter and observer events) and on the preservation of an invariant of the
  outside world, which carries the outbound guard to whole executions.
\<close>

lemma sbind_smod: "sbind (smod f) g s = g () (f s)"
  by (simp add: sbind_def smod_def)

lemma sbind_sread: "f s = Inr x \<Longrightarrow> sbind (sread f) g s = g x s"
  by (simp add: sbind_def sread_def)

section \<open>From requests to programs\<close>

locale exec_relation = run_relation Q E
  for Q E :: "'w run \<Rightarrow> 'w run \<Rightarrow> bool" +
  fixes X :: "('w, 'enc) executor"
  assumes request: "outcome Q E (push_request X entry)"
    and variables: "Q s (set_vars vs s)"
begin

lemma set_variables: "outcome Q E (smod (\<lambda>s. set_vars (f s) s))"
  by (rule outcome_smod) (rule variables)

lemma outcome_enter_leave: "outcome Q E (enter_leave f)"
  unfolding enter_leave_def by (rule set_variables)

lemma outcome_loop_values: "outcome Q E (loop_values X source)"
  unfolding loop_values_def by (intro outcome_sbind outcome_sread)

lemma outcome_for_loop: "outcome Q E body \<Longrightarrow> outcome Q E (for_loop target n body i vs)"
  by (induction vs arbitrary: i) (auto intro!: outcome_sret outcome_sbind set_variables)

lemma outcome_each_value: "outcome Q E body \<Longrightarrow> outcome Q E (each_value item body vs)"
  by (induction vs) (auto intro!: outcome_sret outcome_sbind set_variables)

lemma outcome_while_loop: "outcome Q E body \<Longrightarrow> outcome Q E (while_loop X c body i n)"
proof (induction n arbitrary: i)
  case (Suc n)
  then show ?case
    unfolding while_loop.simps
    by (intro outcome_sbind set_variables outcome_sread) (auto intro!: outcome_sret outcome_sbind outcome_sread)
qed (simp add: outcome_sret)

lemma outcome_blocks_at:
  shows "Y = X \<Longrightarrow> outcome Q E (execute_blocks Y i bs)" and "Y = X \<Longrightarrow> outcome Q E (execute_block Y b)"
proof (induction Y i bs and Y b rule: execute_blocks_execute_block.induct)
  case (4 X c thn els)
  then show ?case by (auto intro!: outcome_sbind outcome_sread)
qed (auto intro!: outcome_sret outcome_sbind outcome_scontext outcome_sread outcome_loop_values
    outcome_for_loop outcome_while_loop outcome_enter_leave request)

lemma outcome_steps_at:
  shows "Y = X \<Longrightarrow> outcome Q E (execute_template_steps Y i ss)" and "Y = X \<Longrightarrow> outcome Q E (execute_step Y st)"
proof (induction Y i ss and Y st rule: execute_template_steps_execute_step.induct)
  case (4 X x)
  show ?case
    unfolding execute_step.simps run_extract_def
    by (rule outcome_sbind) (auto intro!: outcome_sread outcome_sret outcome_sfail set_variables split: option.splits)
next
  case (5 X c thn els)
  then show ?case by (auto intro!: outcome_sbind outcome_sread)
qed (auto intro!: outcome_sret outcome_sbind outcome_scontext outcome_sread outcome_loop_values
    outcome_each_value request)

lemmas outcome_blocks = outcome_blocks_at(1) [OF refl]
lemmas outcome_steps = outcome_steps_at(1) [OF refl]

end

section \<open>Parts of a request keep the accounts\<close>

definition keeps :: "'w run \<Rightarrow> 'w run \<Rightarrow> bool" where
  "keeps s s1 \<longleftrightarrow> rn_results s1 = rn_results s \<and> rn_events s1 = rn_events s \<and> rn_next s1 = rn_next s
     \<and> cx_remaining (rn_cx s1) = cx_remaining (rn_cx s) \<and> cx_loop_limit (rn_cx s1) = cx_loop_limit (rn_cx s)"

lemma outcome_same: "outcome R R m \<Longrightarrow> R s (snd (m s))"
  unfolding outcome_def by (drule spec [of _ s]) (auto split: prod.splits sum.splits)

lemma outcome_sameI: "(\<And>s. R s (snd (m s))) \<Longrightarrow> outcome R R m"
  unfolding outcome_def by (auto split: prod.splits sum.splits) (metis snd_conv)+

interpretation kp: run_relation keeps keeps
  by unfold_locales (auto simp: keeps_def)

lemma keeps_vars [simp]: "keeps s (set_vars vs s)"
  by (simp add: keeps_def set_vars_def)

lemma keeps_world [simp]: "keeps s (s\<lparr>rn_world := w\<rparr>)"
  by (simp add: keeps_def)

lemma keeps_response [simp]: "keeps s (record_response st hs c s)"
  by (simp add: keeps_def record_response_def)

lemma outcome_keeps_plugin: "outcome keeps keeps (call_plugin X u)"
  by (rule outcomeI) (auto simp: call_plugin_def split: prod.splits)

lemma outcome_keeps_send: "outcome keeps keeps (send_request X cl rq)"
  by (rule outcomeI) (auto simp: send_request_def split: prod.splits)

lemma outcome_keeps_extracts: "outcome keeps keeps (apply_extracts X st hs c rules)"
proof (induction rules)
  case (Cons r rules)
  have "outcome keeps keeps (apply_extract X st hs c r)"
    unfolding apply_extract_def Let_def
    by (auto intro!: kp.outcome_intros split: option.splits sum.splits)
  with Cons show ?case by (auto intro!: kp.outcome_intros)
qed (simp add: kp.outcome_sret)

lemma outcome_keeps_finish: "outcome keeps keeps (finish_response X entry u d st hs body flag)"
  unfolding finish_response_def Let_def
  by (auto intro!: kp.outcome_intros outcome_keeps_extracts)

lemma outcome_keeps_api: "outcome keeps keeps (execute_api X entry m u)"
  unfolding execute_api_def by (intro kp.outcome_intros outcome_keeps_plugin outcome_keeps_finish)

lemma outcome_keeps_remember: "outcome keeps keeps (remember_cookie h)"
  unfolding remember_cookie_def by (auto intro!: kp.outcome_intros)

lemma outcome_keeps_har_cookies: "outcome keeps keeps (har_cookies X u rq hs)"
  unfolding har_cookies_def jar_add_all_def parse_url_def Let_def
  by (auto intro!: kp.outcome_intros outcome_keeps_remember)

lemma outcome_keeps_jar_cookies: "outcome keeps keeps (jar_cookies X u e hs)"
  unfolding jar_cookies_def parse_url_def by (auto intro!: kp.outcome_intros)

lemma outcome_keeps_http: "outcome keeps keeps (execute_http X entry m u)"
  unfolding execute_http_def client_for_url_def
  by (intro kp.outcome_intros)
    (auto intro!: kp.outcome_intros outcome_keeps_send outcome_keeps_finish outcome_keeps_har_cookies
      outcome_keeps_jar_cookies outcome_keeps_remember split: option.splits prod.splits)

section \<open>The accounts of an execution\<close>

text \<open>The events of a sequence of requests that succeeded with the given results, from a step index.\<close>

fun paired :: "nat \<Rightarrow> execution_event list \<Rightarrow> step_result list \<Rightarrow> bool" where
  "paired n [] [] = True"
| "paired n (a # b # es) (r # rs) =
     (ev_phase a = Started \<and> ev_step_index a = n \<and> ev_status a = None \<and> ev_error a = None
      \<and> ev_phase b = Finished \<and> ev_step_index b = n \<and> ev_method b = ev_method a \<and> ev_error b = None
      \<and> ev_url b = sr_url r \<and> ev_status b = Some (sr_status r) \<and> ev_body_size b = sr_body_size r
      \<and> paired (n + 1) es rs)"
| "paired _ _ _ = False"

definition failed_pair :: "nat \<Rightarrow> execution_event list \<Rightarrow> bool" where
  "failed_pair n es \<longleftrightarrow> (\<exists>a b. es = [a, b] \<and> ev_phase a = Started \<and> ev_step_index a = n
     \<and> ev_phase b = Finished \<and> ev_step_index b = n \<and> ev_method b = ev_method a \<and> ev_url b = ev_url a
     \<and> ev_error b \<noteq> None)"

definition accounts :: "bool \<Rightarrow> 'w run \<Rightarrow> 'w run \<Rightarrow> bool" where
  "accounts observed s s1 \<longleftrightarrow> (\<exists>tr rs. rn_results s1 = rn_results s @ rs
     \<and> rn_events s1 = rn_events s @ (if observed then tr else []) \<and> paired (rn_next s) tr rs
     \<and> rn_next s1 = rn_next s + length rs
     \<and> cx_remaining (rn_cx s) = cx_remaining (rn_cx s1) + length rs
     \<and> cx_loop_limit (rn_cx s1) = cx_loop_limit (rn_cx s))"

text \<open>After a failure there may be one more request: the one that failed.\<close>

definition accounts_failed :: "bool \<Rightarrow> 'w run \<Rightarrow> 'w run \<Rightarrow> bool" where
  "accounts_failed observed s s1 \<longleftrightarrow> accounts observed s s1 \<or>
     (\<exists>s0 es. accounts observed s s0 \<and> rn_results s1 = rn_results s0 \<and> failed_pair (rn_next s0) es
      \<and> rn_events s1 = rn_events s0 @ (if observed then es else []) \<and> rn_next s1 = rn_next s0 + 1
      \<and> cx_remaining (rn_cx s1) = cx_remaining (rn_cx s0) - 1
      \<and> cx_loop_limit (rn_cx s1) = cx_loop_limit (rn_cx s0))"

lemma paired_append: "paired n tr rs \<Longrightarrow> paired (n + length rs) tr' rs' \<Longrightarrow> paired n (tr @ tr') (rs @ rs')"
  by (induction n tr rs rule: paired.induct) auto

lemma accounts_refl: "accounts observed s s"
  unfolding accounts_def by (rule exI [of _ "[]"], rule exI [of _ "[]"]) simp

lemma accounts_trans: "accounts observed s s1 \<Longrightarrow> accounts observed s1 s2 \<Longrightarrow> accounts observed s s2"
proof -
  assume "accounts observed s s1" "accounts observed s1 s2"
  then obtain tr rs tr' rs' where
    1: "rn_results s1 = rn_results s @ rs" "rn_events s1 = rn_events s @ (if observed then tr else [])"
      "paired (rn_next s) tr rs" "rn_next s1 = rn_next s + length rs"
      "cx_remaining (rn_cx s) = cx_remaining (rn_cx s1) + length rs" "cx_loop_limit (rn_cx s1) = cx_loop_limit (rn_cx s)"
    and 2: "rn_results s2 = rn_results s1 @ rs'" "rn_events s2 = rn_events s1 @ (if observed then tr' else [])"
      "paired (rn_next s1) tr' rs'" "rn_next s2 = rn_next s1 + length rs'"
      "cx_remaining (rn_cx s1) = cx_remaining (rn_cx s2) + length rs'" "cx_loop_limit (rn_cx s2) = cx_loop_limit (rn_cx s1)"
    unfolding accounts_def by blast
  have "paired (rn_next s) (tr @ tr') (rs @ rs')" using 1(3,4) 2(3) paired_append by metis
  then show ?thesis
    unfolding accounts_def
    by (intro exI [of _ "tr @ tr'"] exI [of _ "rs @ rs'"]) (use 1 2 in auto)
qed

lemma keeps_accounts: "keeps s s1 \<Longrightarrow> accounts observed s s1"
  unfolding accounts_def keeps_def by (rule exI [of _ "[]"], rule exI [of _ "[]"]) simp

interpretation ac: run_relation "accounts observed" "accounts_failed observed"
proof
  show "accounts observed s s" for s :: "'w run" by (rule accounts_refl)
  show "accounts observed s s1 \<Longrightarrow> accounts observed s1 s2 \<Longrightarrow> accounts observed s s2" for s s1 s2 :: "'w run"
    by (rule accounts_trans)
  show "accounts observed s s1 \<Longrightarrow> accounts_failed observed s s1" for s s1 :: "'w run"
    by (simp add: accounts_failed_def)
  show "accounts observed s s1 \<Longrightarrow> accounts_failed observed s1 s2 \<Longrightarrow> accounts_failed observed s s2"
    for s s1 s2 :: "'w run"
    unfolding accounts_failed_def using accounts_trans by blast
qed

text \<open>Inside a request: the budget is spent once, then everything else keeps the accounts.\<close>

lemma request_inner_cases:
  assumes "execute_request_inner X entry s = (r, s1)"
  shows "keeps s s1 \<and> cx_remaining (rn_cx s) = 0 \<and> (\<exists>e. r = Inl e)
    \<or> 0 < cx_remaining (rn_cx s) \<and> keeps (spend_request s) s1"
proof (cases "0 < cx_remaining (rn_cx s)")
  case False
  then show ?thesis using assms
    by (auto simp: execute_request_inner_def sbind_def sread_def ensure_def keeps_def)
next
  case True
  let ?rest = "sbind (sread (\<lambda>s. render X (vars_of s) (rq_method (en_request entry)))) (\<lambda>method.
     sbind (sread (\<lambda>s. render X (vars_of s) (rq_url (en_request entry)))) (\<lambda>u.
     if starts_with (lit ''api://'') u then execute_api X entry method u else execute_http X entry method u))"
  have eq: "execute_request_inner X entry s = ?rest (spend_request s)"
    using True by (simp add: execute_request_inner_def sbind_def sread_def ensure_def smod_def)
  have s1: "snd (?rest (spend_request s)) = s1" by (simp only: eq [symmetric] assms snd_conv)
  have "outcome keeps keeps ?rest"
    by (auto intro!: kp.outcome_intros outcome_keeps_api outcome_keeps_http)
  then have "keeps (spend_request s) (snd (?rest (spend_request s)))" by (rule outcome_same)
  then have "keeps (spend_request s) s1" unfolding s1 .
  with True show ?thesis by simp
qed

lemma push_request_accounts:
  "outcome (accounts (ex_observed X)) (accounts_failed (ex_observed X)) (push_request X entry)"
proof (rule outcomeI)
  fix s s1 :: "'a run" and x
  assume "push_request X entry s = (Inr x, s1)"
  then obtain r s0 where r: "execute_request X entry s = (Inr r, s0)"
    and s1: "s1 = s0\<lparr>rn_results := rn_results s0 @ [r]\<rparr>"
    by (auto simp: push_request_def res_simps)
  from r obtain a u si where i: "execute_request_inner X entry (emit X a (s\<lparr>rn_next := rn_next s + 1\<rparr>)) = (Inr r, si)"
    and a: "a = \<lparr>ev_step_index = rn_next s, ev_method = rq_method (en_request entry), ev_url = u,
       ev_phase = Started, ev_status = None, ev_body_size = 0, ev_error = None\<rparr>"
    and s0: "s0 = emit X \<lparr>ev_step_index = rn_next s, ev_method = rq_method (en_request entry), ev_url = sr_url r,
       ev_phase = Finished, ev_status = Some (sr_status r), ev_body_size = sr_body_size r, ev_error = None\<rparr> si"
    (is "_ = emit X ?b si")
    unfolding execute_request_def Let_def by (auto split: prod.splits sum.splits)
  from request_inner_cases [OF i]
  show "accounts (ex_observed X) s s1"
    unfolding accounts_def s1 s0
    by (intro exI [of _ "[a, ?b]"] exI [of _ "[r]"])
      (auto simp: keeps_def spend_request_def emit_def a split: if_splits)
next
  fix s s1 :: "'a run" and e
  assume "push_request X entry s = (Inl e, s1)"
  then have r: "execute_request X entry s = (Inl e, s1)"
    by (auto simp: push_request_def sbind_def smod_def split: prod.splits sum.splits)
  from r obtain u si where i: "execute_request_inner X entry
      (emit X \<lparr>ev_step_index = rn_next s, ev_method = rq_method (en_request entry), ev_url = u,
       ev_phase = Started, ev_status = None, ev_body_size = 0, ev_error = None\<rparr>
      (s\<lparr>rn_next := rn_next s + 1\<rparr>)) = (Inl e, si)" (is "execute_request_inner X entry (emit X ?a _) = _")
    and s1: "s1 = emit X \<lparr>ev_step_index = rn_next s, ev_method = rq_method (en_request entry), ev_url = u,
       ev_phase = Finished, ev_status = cx_last_status (rn_cx si), ev_body_size = 0,
       ev_error = Some (full_message e)\<rparr> si" (is "_ = emit X ?b si")
    unfolding execute_request_def Let_def by (auto split: prod.splits sum.splits)
  from request_inner_cases [OF i]
  have "rn_results s1 = rn_results s \<and> rn_events s1 = rn_events s @ (if ex_observed X then [?a, ?b] else [])
     \<and> rn_next s1 = rn_next s + 1 \<and> cx_remaining (rn_cx s1) = cx_remaining (rn_cx s) - 1
     \<and> cx_loop_limit (rn_cx s1) = cx_loop_limit (rn_cx s)"
    unfolding s1 by (auto simp: keeps_def spend_request_def emit_def split: if_splits)
  moreover have "failed_pair (rn_next s) [?a, ?b]" by (simp add: failed_pair_def)
  ultimately show "accounts_failed (ex_observed X) s s1"
    unfolding accounts_failed_def using accounts_refl by blast
qed

interpretation ax: exec_relation "accounts (ex_observed X)" "accounts_failed (ex_observed X)" X for X
  by unfold_locales (auto intro: push_request_accounts keeps_accounts)

section \<open>The world of an execution\<close>

text \<open>
  \<open>carries Inv\<close> relates runs by an invariant of the world.  A request carries it when the plugins, the
  cookie jar and every send with a client the guard lets through carry it.
\<close>

definition carries :: "('w \<Rightarrow> bool) \<Rightarrow> 'w run \<Rightarrow> 'w run \<Rightarrow> bool" where
  "carries Inv s s1 \<longleftrightarrow> (Inv (rn_world s) \<longrightarrow> Inv (rn_world s1))"

definition world_safe :: "('w, 'enc) executor \<Rightarrow> ('w \<Rightarrow> bool) \<Rightarrow> bool" where
  "world_safe X Inv \<longleftrightarrow>
     (\<forall>w w0 cl rq. Inv w \<longrightarrow> client_guarded (o_net (ex_out X) w0) cl \<longrightarrow> Inv (snd (o_send (ex_out X) cl rq w)))
     \<and> (\<forall>w u t. Inv w \<longrightarrow> Inv (snd (o_plugin (ex_out X) u t w)))
     \<and> (\<forall>w c u. Inv w \<longrightarrow> Inv (o_jar_add (ex_out X) c u w))"

interpretation cw: run_relation "carries Inv" "carries Inv"
  by unfold_locales (auto simp: carries_def)

lemma carries_keep [simp]: "rn_world s1 = rn_world s \<Longrightarrow> carries Inv s s1"
  by (simp add: carries_def)

lemma world_record [simp]: "rn_world (set_vars vs s) = rn_world s" "rn_world (record_response st hs c s) = rn_world s"
  "rn_world (spend_request s) = rn_world s" "rn_world (emit X e s) = rn_world s"
  by (simp_all add: set_vars_def record_response_def spend_request_def emit_def)

lemma carries_extracts: "outcome (carries Inv) (carries Inv) (apply_extracts X st hs c rules)"
proof (induction rules)
  case (Cons r rules)
  have "outcome (carries Inv) (carries Inv) (apply_extract X st hs c r)"
    unfolding apply_extract_def Let_def
    by (auto intro!: cw.outcome_intros split: option.splits sum.splits)
  with Cons show ?case by (auto intro!: cw.outcome_intros)
qed (simp add: cw.outcome_sret)

lemma carries_finish: "outcome (carries Inv) (carries Inv) (finish_response X entry u d st hs body flag)"
  unfolding finish_response_def Let_def
  by (auto intro!: cw.outcome_intros carries_extracts)

lemma fold_jar: "world_safe X Inv \<Longrightarrow> Inv w \<Longrightarrow> Inv (fold (\<lambda>c w. o_jar_add (ex_out X) (f c) u w) cs w)"
  by (induction cs arbitrary: w) (auto simp: world_safe_def)

lemma carries_plugin: "world_safe X Inv \<Longrightarrow> outcome (carries Inv) (carries Inv) (call_plugin X u)"
  by (rule outcome_sameI) (simp add: call_plugin_def carries_def world_safe_def case_prod_beta)

lemma carries_send:
  assumes "world_safe X Inv" and "client_guarded (o_net (ex_out X) w0) cl"
  shows "outcome (carries Inv) (carries Inv) (send_request X cl rq)"
  by (rule outcome_sameI)
    (use assms in \<open>auto simp: send_request_def carries_def world_safe_def case_prod_beta\<close>)

lemma carries_cookies:
  assumes "world_safe X Inv"
  shows "outcome (carries Inv) (carries Inv) (har_cookies X u rq hs)"
    and "outcome (carries Inv) (carries Inv) (jar_cookies X u e hs)"
    and "outcome (carries Inv) (carries Inv) (remember_cookie h)"
proof -
  have add: "outcome (carries Inv) (carries Inv) (jar_add_all X u cs)" for cs
    unfolding jar_add_all_def
    by (rule cw.outcome_smod) (simp add: carries_def fold_jar [OF assms])
  show rem: "outcome (carries Inv) (carries Inv) (remember_cookie h)" for h
    unfolding remember_cookie_def by (auto intro!: cw.outcome_intros)
  show "outcome (carries Inv) (carries Inv) (har_cookies X u rq hs)"
    unfolding har_cookies_def parse_url_def Let_def by (auto intro!: cw.outcome_intros add rem)
  show "outcome (carries Inv) (carries Inv) (jar_cookies X u e hs)"
    unfolding jar_cookies_def parse_url_def by (auto intro!: cw.outcome_intros)
qed

lemma client_for_url_guarded:
  assumes "client_for_url X u s = (Inr cl, s1)" and "\<not> op_allow_private (ex_policy X)"
  shows "s1 = s \<and> client_guarded (o_net (ex_out X) (rn_world s)) cl"
  using assms guarded_client_guarded [of "o_net (ex_out X) (rn_world s)" u "policy_with_proxy X (vars_of s)" True cl]
  by (auto simp: client_for_url_def sread_def policy_with_proxy_def Let_def)

lemma carries_http:
  assumes safe: "world_safe X Inv" and guard: "\<not> op_allow_private (ex_policy X)"
  shows "outcome (carries Inv) (carries Inv) (execute_http X entry m u)"
proof -
  define rest where "rest = (\<lambda>cl. sbind (sread (\<lambda>_. with_context (lit ''invalid rendered method'') (o_method (ex_out X) m))) (\<lambda>method.
     sbind (sread (\<lambda>s. collect_headers (render X (vars_of s)) (rq_headers (en_request entry)) [] None)) (\<lambda>(hs, cookie).
     sbind (case cookie of None \<Rightarrow> sret () | Some header \<Rightarrow> remember_cookie header) (\<lambda>_.
     sbind (har_cookies X u (en_request entry) hs) (\<lambda>hs.
     sbind (jar_cookies X u (cookie \<noteq> None) hs) (\<lambda>hs.
     sbind (case rq_post_data (en_request entry) of None \<Rightarrow> sret (hs, None, None)
            | Some pd \<Rightarrow> sbind (sread (\<lambda>s. post_body X (vars_of s) pd)) (\<lambda>(body, sent).
                 sret (post_headers (en_request entry) pd hs, body, sent))) (\<lambda>(hs, body, sent).
     sbind (send_request X cl \<lparr>hq_method = method, hq_url = u, hq_headers = hs, hq_body = body\<rparr>) (\<lambda>response.
     sbind (sread (\<lambda>_. hr_body response)) (\<lambda>bytes.
     finish_response X entry u (request_digest method sent) (hr_status response)
       (map (\<lambda>(n, v). (n, text_or_empty v)) (hr_headers response)) bytes False)))))))))"
  have rest: "outcome (carries Inv) (carries Inv) (rest cl)" if "client_guarded (o_net (ex_out X) w0) cl" for w0 cl
    unfolding rest_def
    by (intro cw.outcome_intros)
      (auto intro!: cw.outcome_intros carries_send [OF safe that] carries_finish carries_cookies [OF safe]
        split: option.splits prod.splits)
  show ?thesis
  proof (rule outcomeI)
    fix s x s1 assume "execute_http X entry m u s = (Inr x, s1)"
    then obtain cl s0 where cl: "client_for_url X u s = (Inr cl, s0)" and r: "rest cl s0 = (Inr x, s1)"
      unfolding execute_http_def rest_def [symmetric] by (auto simp only: sbind_eq_Inr)
    from client_for_url_guarded [OF cl guard] have "s0 = s" and g: "client_guarded (o_net (ex_out X) (rn_world s)) cl"
      by auto
    with outcome_Inr [OF rest [OF g] r] show "carries Inv s s1" by simp
  next
    fix s e s1 assume e: "execute_http X entry m u s = (Inl e, s1)"
    show "carries Inv s s1"
    proof (cases "client_for_url X u s")
      case (Pair r s0)
      show ?thesis
      proof (cases r)
        case (Inl e')
        with Pair e have "s1 = s" by (auto simp: execute_http_def sbind_def client_for_url_def sread_def)
        then show ?thesis by simp
      next
        case (Inr cl)
        from client_for_url_guarded [OF Pair [unfolded Inr] guard]
        have "s0 = s" and g: "client_guarded (o_net (ex_out X) (rn_world s)) cl" by auto
        moreover have "rest cl s0 = (Inl e, s1)"
          using e Pair Inr unfolding execute_http_def rest_def [symmetric] by (simp add: sbind_def)
        ultimately show ?thesis using outcome_Inl [OF rest [OF g]] by simp
      qed
    qed
  qed
qed

lemma carries_request:
  assumes safe: "world_safe X Inv" and guard: "\<not> op_allow_private (ex_policy X)"
  shows "outcome (carries Inv) (carries Inv) (push_request X entry)"
proof -
  have api: "outcome (carries Inv) (carries Inv) (execute_api X entry m u)" for m u
    unfolding execute_api_def by (intro cw.outcome_intros carries_plugin [OF safe] carries_finish)
  have inner: "outcome (carries Inv) (carries Inv) (execute_request_inner X entry)"
    unfolding execute_request_inner_def
    by (auto intro!: cw.outcome_intros api carries_http [OF safe guard])
  have "outcome (carries Inv) (carries Inv) (execute_request X entry)"
  proof (rule outcomeI)
    fix s r s1 assume "execute_request X entry s = (Inr r, s1)"
    then show "carries Inv s s1"
      unfolding execute_request_def Let_def
      by (auto simp: carries_def split: prod.splits sum.splits dest!: outcome_Inr [OF inner])
  next
    fix s e s1 assume "execute_request X entry s = (Inl e, s1)"
    then show "carries Inv s s1"
      unfolding execute_request_def Let_def
      by (auto simp: carries_def split: prod.splits sum.splits dest!: outcome_Inl [OF inner])
  qed
  then show ?thesis unfolding push_request_def by (auto intro!: cw.outcome_intros)
qed

lemma world_exec:
  assumes "world_safe X Inv" "\<not> op_allow_private (ex_policy X)"
  shows "exec_relation (carries Inv) (carries Inv) X"
  by unfold_locales (auto intro: carries_request [OF assms])

text \<open>The trivial invariant needs no assumption: the interpretation on the model itself.\<close>

interpretation wt: exec_relation "carries (\<lambda>_. True)" "carries (\<lambda>_. True)" X for X
  by unfold_locales (auto simp: carries_def outcome_def split: prod.splits sum.splits)

section \<open>While loops\<close>

lemma blocks_limit: "execute_blocks X i bs s = (Inr u, s1) \<Longrightarrow> cx_loop_limit (rn_cx s1) = cx_loop_limit (rn_cx s)"
  by (drule outcome_Inr [OF ax.outcome_blocks]) (auto simp: accounts_def)

lemma set_vars_limit [simp]: "cx_loop_limit (rn_cx (set_vars vs s)) = cx_loop_limit (rn_cx s)"
  by (simp add: set_vars_def)

lemma while_loop_stops:
  "while_loop X c (execute_blocks X 0 body) i n s = (Inr (), s1) \<Longrightarrow> 0 < n \<Longrightarrow> i + n = cx_loop_limit (rn_cx s) \<Longrightarrow>
     en_bool (ex_engine X) c (vars_of s1) = Inr False"
proof (induction n arbitrary: i s)
  case (Suc n)
  let ?s = "set_vars (set_loop_variables i (cx_loop_limit (rn_cx s)) (vars_of s)) s"
  obtain b where b: "en_bool (ex_engine X) c (vars_of ?s) = Inr b"
    using Suc.prems(1) by (cases "en_bool (ex_engine X) c (vars_of ?s)") (auto simp: sbind_def smod_def sread_def)
  show ?case
  proof (cases b)
    case False
    with b Suc.prems(1) have "s1 = ?s" by (simp add: sbind_def smod_def sread_def sret_def)
    with b False show ?thesis by simp
  next
    case True
    with b Suc.prems(1) obtain s2 where b2: "execute_blocks X 0 body ?s = (Inr (), s2)"
      and l: "i + 1 \<noteq> cx_loop_limit (rn_cx s2)"
      and w: "while_loop X c (execute_blocks X 0 body) (i + 1) n s2 = (Inr (), s1)"
      by (auto simp: sbind_def smod_def sread_def ensure_def split: prod.splits sum.splits if_splits)
    have lim: "cx_loop_limit (rn_cx s2) = cx_loop_limit (rn_cx s)"
      using blocks_limit [OF b2] by simp
    have "0 < n" using l lim Suc.prems(3) by (cases n) auto
    then show ?thesis by (rule Suc.IH [OF w]) (use lim Suc.prems(3) in simp)
  qed
qed simp

section \<open>Properties\<close>

text \<open>
  What a finished execution reports: with \<open>budget\<close> requests allowed, a success spent exactly one per
  result and showed the observer one \<open>Started\<close>/\<open>Finished\<close> pair per result, with that result's URL,
  status and size, under consecutive step indices; a failure showed such pairs and then at most one
  more, carrying the error.
\<close>

definition run_report :: "('w, 'enc) executor \<Rightarrow> 'w run \<Rightarrow> (error + step_result list) \<times> 'w run \<Rightarrow> bool" where
  "run_report X s out = (let budget = min (cx_remaining (rn_cx s)) (ex_request_limit X) in
     case out of
       (Inr results, s1) \<Rightarrow> (\<exists>tr. paired (rn_next s) tr results
          \<and> rn_events s1 = rn_events s @ (if ex_observed X then tr else [])
          \<and> rn_next s1 = rn_next s + length results
          \<and> length results + cx_remaining (rn_cx s1) = budget)
     | (Inl e, s1) \<Rightarrow> (\<exists>tr rs es. paired (rn_next s) tr rs \<and> (es = [] \<or> failed_pair (rn_next s + length rs) es)
          \<and> rn_events s1 = rn_events s @ (if ex_observed X then tr @ es else [])
          \<and> length rs \<le> budget))"

lemma run_report_blocks:
  assumes "s0 = s\<lparr>rn_cx := (rn_cx s)\<lparr>cx_variables := vs,
      cx_remaining := min (cx_remaining (rn_cx s)) (ex_request_limit X), cx_loop_limit := l\<rparr>, rn_results := []\<rparr>"
    and "outcome (accounts (ex_observed X)) (accounts_failed (ex_observed X)) m"
  shows "run_report X s (sbind m (\<lambda>_. sread (\<lambda>s. Inr (rn_results s))) s0)"
proof (cases "m s0")
  case (Pair r s1)
  show ?thesis
  proof (cases r)
    case (Inr u)
    with outcome_Inr [OF assms(2)] Pair have "accounts (ex_observed X) s0 s1" by auto
    with Pair Inr show ?thesis
      by (auto simp: assms(1) accounts_def run_report_def sbind_def sread_def Let_def)
  next
    case (Inl e)
    with outcome_Inl [OF assms(2)] Pair have "accounts_failed (ex_observed X) s0 s1" by auto
    with Pair Inl show ?thesis
      unfolding accounts_failed_def
    proof (elim disjE exE conjE, goal_cases)
      case 1
      then show ?case
        by (fastforce simp: assms(1) accounts_def run_report_def sbind_def Let_def)
    next
      case (2 s2 es)
      then obtain tr rs where "rn_events s2 = rn_events s @ (if ex_observed X then tr else [])"
        "paired (rn_next s) tr rs" "rn_next s2 = rn_next s + length rs"
        "min (cx_remaining (rn_cx s)) (ex_request_limit X) = cx_remaining (rn_cx s2) + length rs"
        by (auto simp: assms(1) accounts_def)
      with 2 have "\<exists>tr rs es. paired (rn_next s) tr rs \<and> (es = [] \<or> failed_pair (rn_next s + length rs) es)
          \<and> rn_events s1 = rn_events s @ (if ex_observed X then tr @ es else [])
          \<and> length rs \<le> min (cx_remaining (rn_cx s)) (ex_request_limit X)"
        by (intro exI [of _ tr] exI [of _ rs] exI [of _ es]) auto
      with 2 show ?case by (simp add: run_report_def sbind_def Let_def)
    qed
  qed
qed

text \<open>
  C20.  Every execution of a program or of a template, successful or not, respects the request budget
  and reports its steps to the observer in matched pairs (\<open>run_report\<close>).
\<close>

theorem execution_report:
  "run_report X s (execute X blocks s) \<and> run_report X s (execute_template X t s)"
proof
  show "run_report X s (execute X blocks s)"
    unfolding execute_def sbind_def [of "smod _"] smod_def
    by (simp, rule run_report_blocks [OF _ ax.outcome_blocks,
        where vs = "vars_of s" and l = "min (cx_loop_limit (rn_cx s)) (ex_loop_limit X)"]) simp
  show "run_report X s (execute_template X t s)"
  proof (cases "validate_template t")
    case (Inl e)
    then show ?thesis
      by (auto simp: execute_template_def sbind_def sread_def run_report_def Let_def
          intro!: exI [of _ "[]"])
  next
    case (Inr u)
    have "execute_template X t s =
       sbind (execute_template_steps X 0 (td_steps t)) (\<lambda>_. sread (\<lambda>s. Inr (rn_results s)))
         (s\<lparr>rn_cx := (rn_cx s)\<lparr>cx_variables := default_variables (td_variables t) (vars_of s),
            cx_remaining := min (cx_remaining (rn_cx s)) (ex_request_limit X),
            cx_loop_limit := cx_loop_limit (rn_cx s)\<rparr>, rn_results := []\<rparr>)"
      by (simp add: execute_template_def sbind_smod sbind_sread Inr set_vars_def)
    then show ?thesis by (simp only: run_report_blocks [OF refl ax.outcome_steps])
  qed
qed

text \<open>A concrete executor for the witnesses: the world is the list of clients that sent a request.\<close>

definition echo_engine :: engine where
  "echo_engine = \<lparr>en_render = (\<lambda>v vs. Inr v), en_evaluate = (\<lambda>v vs. Inr JNull), en_bool = (\<lambda>v vs. Inr False)\<rparr>"

definition log_outside :: "(client list, unit) outside" where
  "log_outside = \<lparr>o_net = (\<lambda>_. sample_net),
     o_send = (\<lambda>cl rq w. (Inr \<lparr>hr_status = 200, hr_headers = [], hr_body = Inr []\<rparr>, cl # w)),
     o_plugin = (\<lambda>u t w. (Inl [], w)), o_jar_add = (\<lambda>c u w. w), o_jar_get = (\<lambda>u w. None),
     o_method = Inr, o_parse_api = (\<lambda>u. Inl []), o_append_query = (\<lambda>u q. u), o_percent = std_percent,
     o_charset = \<lparr>cs_utf8 = (), cs_gb18030 = (), cs_windows_1252 = (), cs_for_label = (\<lambda>_. None),
       cs_declared = (\<lambda>_. None), cs_guess = (\<lambda>_. ()), cs_decode = (\<lambda>_ b. b)\<rparr>,
     o_base64 = id, o_rx = \<lparr>rx_linear = (\<lambda>_ _. Inl []), rx_backtracking = (\<lambda>_ _. Inl [])\<rparr>,
     o_alnum = (\<lambda>_. False), o_dbg = id, o_mime_ok = (\<lambda>_. False), o_json_parse = (\<lambda>_. Inl []),
     o_json_pointer = (\<lambda>_ _. None), o_json_text = (\<lambda>_. [])\<rparr>"

definition log_executor :: "(client list, unit) executor" where
  "log_executor = \<lparr>ex_engine = echo_engine, ex_out = log_outside, ex_policy = default_policy,
     ex_response_limit = 10, ex_plugin_timeout = 30, ex_request_limit = 5, ex_loop_limit = 5, ex_observed = True\<rparr>"

definition get_entry :: qd_entry where
  "get_entry = \<lparr>en_checked = True, en_comment = None,
     en_request = \<lparr>rq_method = lit ''GET'', rq_url = lit ''https://a.b/'', rq_headers = [], rq_cookies = [],
       rq_post_data = None, rq_extensions = []\<rparr>,
     en_success = [], en_failed = [], en_extract = [], en_extensions = []\<rparr>"

lemma execution_guarded_run:
  assumes "world_safe X Inv" and "\<not> op_allow_private (ex_policy X)"
  shows "outcome (carries Inv) (carries Inv) (execute X blocks)" "outcome (carries Inv) (carries Inv) (execute_template X t)"
proof -
  note xr = exec_relation.outcome_blocks [OF world_exec [OF assms]] exec_relation.outcome_steps [OF world_exec [OF assms]]
  show "outcome (carries Inv) (carries Inv) (execute X blocks)"
    unfolding execute_def by (auto intro!: cw.outcome_intros xr)
  show "outcome (carries Inv) (carries Inv) (execute_template X t)"
    unfolding execute_template_def by (auto intro!: cw.outcome_intros xr)
qed

text \<open>
  C19.  With private targets refused, whatever the templates, variables, plugins and responses do,
  every request an execution sends is sent by a client the guard let through: an invariant of the
  outside world that such sends (and plugin calls and cookie-jar updates) keep is kept by every
  execution of a program and of a template.
\<close>

theorem execution_guarded:
  assumes "world_safe X Inv" and "\<not> op_allow_private (ex_policy X)" and "Inv (rn_world s)"
  shows "Inv (rn_world (snd (execute X blocks s))) \<and> Inv (rn_world (snd (execute_template X t s)))"
  using execution_guarded_run [OF assms(1,2)] assms(3) outcome_same [of "carries Inv"] by (auto simp: carries_def)

definition no_redirects :: "client list \<Rightarrow> bool" where
  "no_redirects w \<longleftrightarrow> list_all (\<lambda>cl. \<not> cl_follow_redirects cl) w"

definition log_start :: "client list run" where
  "log_start = initial_run (context_new (\<lambda>_. None)) 0 []"

lemmas request_defs = execute_def push_request_def execute_request_def execute_request_inner_def
  execute_http_def client_for_url_def policy_with_proxy_def har_cookies_def render_cookies_def
  jar_cookies_def parse_url_def send_request_def finish_response_def check_rules_def response_content_def
  sbind_def sread_def smod_def sret_def scontext_def smap_err_def emit_def spend_request_def
  render_def set_vars_def record_response_def ensure_def

lemmas log_defs = log_executor_def echo_engine_def log_outside_def get_entry_def log_start_def initial_run_def
  context_new_def context_with_limits_def

lemma log_client:
  "guarded_client_for_url sample_net (lit ''https://a.b/'') (default_policy\<lparr>op_proxy := None\<rparr>) True = Inr
     \<lparr>cl_follow_redirects = False, cl_accept_invalid_certs = False, cl_timeout = 30, cl_cookies = True,
      cl_proxy = None, cl_pinned = Some (lit ''https://a.b/'', [(IpV4 1 1 1 1, 443)])\<rparr>"
proof -
  have "is_public_ip (IpV4 1 1 1 1)"
    by (simp add: is_public_ip_def v4_is_private_def v4_is_documentation_def word_le_nat_alt)
  then show ?thesis
    by (simp add: guarded_client_for_url_def resolve_target_def sample_net_def default_policy_def
        res_simps expect_def with_context_def ensure_def)
qed

lemma log_sends: "length (rn_world (snd (execute log_executor [BRequest get_entry] log_start))) = 1"
proof -
  have net: "net_parse_url sample_net v = Inr \<lparr>url_scheme = lit ''https'', url_host = Some v, url_port = Some 443\<rparr>" for v
    by (simp add: sample_net_def)
  show ?thesis
    using log_client
    by (simp add: request_defs log_defs Let_def is_image_response_def header_value_def contains_sub_def
        DEFAULT_REQUEST_LIMIT_def starts_with_def net)
qed

theorem execution_guarded_witness:
  "no_redirects (rn_world (snd (execute log_executor [BRequest get_entry] log_start)))
   \<and> length (rn_world (snd (execute log_executor [BRequest get_entry] log_start))) = 1"
proof -
  have "world_safe log_executor no_redirects"
    by (auto simp: world_safe_def log_executor_def log_outside_def no_redirects_def client_guarded_def)
  moreover have "\<not> op_allow_private (ex_policy log_executor)"
    by (simp add: log_executor_def default_policy_def)
  moreover have "no_redirects (rn_world log_start)"
    by (simp add: no_redirects_def log_start_def initial_run_def)
  ultimately show ?thesis using execution_guarded log_sends by blast
qed

text \<open>
  A while block that succeeds ended because its condition was false: its variables are those of
  a state in which the condition evaluates to false, after \<open>leave_loop\<close>.  (With a positive loop limit;
  reaching the limit is an error.)
\<close>

theorem while_block_stops:
  assumes "execute_block X (BWhile c body) s = (Inr (), s1)" and "0 < cx_loop_limit (rn_cx s)"
  shows "\<exists>s0. en_bool (ex_engine X) c (vars_of s0) = Inr False \<and> s1 = set_vars (leave_loop (vars_of s0)) s0"
proof -
  from assms(1) obtain s0 where w: "while_loop X c (execute_blocks X 0 body) 0 (cx_loop_limit (rn_cx s))
      (set_vars (enter_loop (vars_of s)) s) = (Inr (), s0)"
    and s1: "s1 = set_vars (leave_loop (vars_of s0)) s0"
    by (auto simp: enter_leave_def sbind_def smod_def sread_def split: prod.splits sum.splits)
  have "en_bool (ex_engine X) c (vars_of s0) = Inr False"
    by (rule while_loop_stops [OF w assms(2)]) simp
  with s1 show ?thesis by blast
qed

theorem while_block_stops_witness:
  "\<exists>s1 s0. execute_block log_executor (BWhile (lit ''x'') []) log_start = (Inr (), s1)
     \<and> s1 = set_vars (leave_loop (vars_of s0)) s0"
proof -
  have "\<exists>s1. execute_block log_executor (BWhile (lit ''x'') []) log_start = (Inr (), s1)"
    by (simp add: log_start_def initial_run_def context_new_def context_with_limits_def MAX_LOOP_ITERATIONS_def
        enter_leave_def sbind_def smod_def sread_def sret_def log_executor_def echo_engine_def numeral_eq_Suc)
  then obtain s1 where e: "execute_block log_executor (BWhile (lit ''x'') []) log_start = (Inr (), s1)" ..
  have "0 < cx_loop_limit (rn_cx log_start)"
    by (simp add: log_start_def initial_run_def context_new_def context_with_limits_def MAX_LOOP_ITERATIONS_def)
  from while_block_stops [OF e this] e show ?thesis by blast
qed

end
