(* ===== verification/Redact.thy ===== *)
theory Redact
  imports HttpForm
begin

text \<open>
  Masking of credentials in what the server stores (\<open>crates/qdrust-server/src/redact.rs\<close>).  The byte
  scan for \<open>://\<close> and the loop over \<open>Bearer\<close> markers are recursions on the rest of the text.
\<close>

definition SECRET_WORDS :: "ustr list" where
  "SECRET_WORDS = [lit ''token'', lit ''key'', lit ''sign'', lit ''signature'', lit ''sig'', lit ''secret'',
     lit ''password'', lit ''passwd'', lit ''pwd'', lit ''session'', lit ''sessionid'', lit ''cookie'',
     lit ''auth'', lit ''authorization'', lit ''credential'', lit ''ticket'', lit ''captcha'', lit ''code'']"

definition MASK :: ustr where "MASK = lit ''***''"

definition is_ascii_ws :: "nat \<Rightarrow> bool" where
  "is_ascii_ws b \<longleftrightarrow> b = 32 \<or> b = 9 \<or> b = 10 \<or> b = 12 \<or> b = 13"

definition ends_url :: "nat \<Rightarrow> bool" where
  "ends_url b \<longleftrightarrow> is_ascii_ws b \<or> b \<in> {34, 39, 60, 62, 96, 92, 124, 44, 59}"

definition is_secret_name :: "ustr \<Rightarrow> bool" where
  "is_secret_name name =
     (let normalised = map lower1 (filter (\<lambda>c. is_ascii_digit c \<or> is_ascii_alpha c) name) in
      if normalised = [] then False
      else list_ex (\<lambda>word. normalised = word \<or> ends_with word normalised) SECRET_WORDS)"

definition mask_pair :: "ustr \<Rightarrow> ustr" where
  "mask_pair pair = (case split_once (lit ''='') pair of
      Some (name, _) \<Rightarrow> if is_secret_name name then name @ lit ''='' @ MASK else pair
    | None \<Rightarrow> pair)"

definition redact_query :: "ustr \<Rightarrow> ustr" where
  "redact_query query =
     (if query = [] then []
      else lit ''?'' @ join (lit ''&'') (map mask_pair (split_by (\<lambda>c. c = 38) query)))"

text \<open>\<open>find\<close> of a character and \<open>split_at\<close> it; no occurrence leaves the second part empty.\<close>

definition cut_at :: "(nat \<Rightarrow> bool) \<Rightarrow> ustr \<Rightarrow> ustr \<times> ustr" where
  "cut_at P s = (takeWhile (\<lambda>c. \<not> P c) s, dropWhile (\<lambda>c. \<not> P c) s)"

definition mask_authority :: "ustr \<Rightarrow> ustr" where
  "mask_authority authority = (case rfind_sub (lit ''@'') authority of
      Some at \<Rightarrow> MASK @ drop at authority | None \<Rightarrow> authority)"

definition redact_url_body :: "ustr \<Rightarrow> ustr" where
  "redact_url_body body =
     (let (authority, rest) = cut_at (\<lambda>c. c = 47 \<or> c = 63 \<or> c = 35) body;
          authority = mask_authority authority;
          (path, fragment) = cut_at (\<lambda>c. c = 35) rest;
          (path, query) = cut_at (\<lambda>c. c = 63) path
      in authority @ path @ redact_query (trim_start_by (\<lambda>c. c = 63) query) @ fragment)"

function redact_urls :: "ustr \<Rightarrow> ustr" where
  "redact_urls s = (case find_sub (lit ''://'') s of None \<Rightarrow> s
     | Some i \<Rightarrow>
         let (body, rest) = cut_at ends_url (drop (i + 3) s)
         in take (i + 3) s @ redact_url_body body @ redact_urls rest)"
  by pat_completeness auto
termination
  by (relation "measure length") (auto simp: cut_at_def dest!: find_sub_Some
      intro: le_less_trans [OF length_dropWhile_le])

declare redact_urls.simps [simp del]

definition bearer_end :: "nat \<Rightarrow> bool" where
  "bearer_end c \<longleftrightarrow> is_ws c \<or> c \<in> {34, 39, 44, 59, 41, 125}"

function redact_bearer :: "ustr \<Rightarrow> ustr" where
  "redact_bearer s = (case find_sub (lit ''Bearer '') s of None \<Rightarrow> s
     | Some found \<Rightarrow>
         let (token, rest) = cut_at bearer_end (drop (found + 7) s)
         in take (found + 7) s @ (if token = [] \<or> token = MASK then token else MASK) @ redact_bearer rest)"
  by pat_completeness auto
termination
  by (relation "measure length") (auto simp: cut_at_def dest!: find_sub_Some
      intro: le_less_trans [OF length_dropWhile_le])

declare redact_bearer.simps [simp del]

definition redact :: "ustr \<Rightarrow> ustr" where
  "redact s = redact_bearer (redact_urls s)"

section \<open>Cutting and finding\<close>

lemma cut_at_append:
  "\<forall>c\<in>set a. \<not> P c \<Longrightarrow> (b = [] \<or> P (hd b)) \<Longrightarrow> cut_at P (a @ b) = (a, b)"
  by (cases b) (simp_all add: cut_at_def takeWhile_append2 dropWhile_append2 takeWhile_eq_all_conv
      dropWhile_eq_Nil_conv)

lemma cut_atD:
  assumes "cut_at P s = (a, b)"
  shows "s = a @ b" "\<forall>c\<in>set a. \<not> P c" "b = [] \<or> P (hd b)"
  using assms hd_dropWhile [of "\<lambda>c. \<not> P c" s]
  by (auto simp: cut_at_def dest: set_takeWhileD)

lemma starts_with_take: "starts_with p (take n s @ t) \<longleftrightarrow> starts_with p s" if "length p \<le> n" "n \<le> length s"
  using that by (simp add: starts_with_def take_append min_def)

lemma find_sub_prefix:
  "find_sub p s = Some i \<Longrightarrow> p \<noteq> [] \<Longrightarrow> find_sub p (take (i + length p) s @ t) = Some i"
proof (induction s arbitrary: i)
  case (Cons c s)
  show ?case
  proof (cases "starts_with p (c # s)")
    case True
    then obtain u where u: "c # s = p @ u" by (auto simp: starts_with_iff)
    have "i = 0" using Cons.prems True by (simp split: if_splits)
    moreover have "find_sub p (p @ t) = Some 0"
      using Cons.prems(2) starts_with_append [of p t] by (cases "p @ t") simp_all
    ultimately show ?thesis using u by simp
  next
    case False
    then obtain j where j: "find_sub p s = Some j" "i = Suc j" using Cons.prems by auto
    have le: "j + length p \<le> length s" using find_sub_Some [OF j(1)] by simp
    have "\<not> starts_with p (c # take (j + length p) s @ t)"
      using starts_with_take [of p "Suc (j + length p)" "c # s" t] False le by simp
    with Cons.IH [OF j(1) Cons.prems(2)] j(2) show ?thesis by simp
  qed
qed simp

section \<open>Masking twice\<close>

lemma split_once_char: "61 \<notin> set n \<Longrightarrow> split_once [61] (n @ 61 # v) = Some (n, v)"
  by (simp add: split_once_def find_sub_char)

lemma split_once_name:
  assumes "split_once [c] s = Some (n, v)"
  shows "c \<notin> set n"
proof -
  have "find_sub [c] s = Some i \<Longrightarrow> c \<notin> set (take i s)" for i
    by (induction s arbitrary: i) (auto simp: starts_with_def split: if_splits)
  with assms show ?thesis by (auto simp: split_once_def split: option.splits)
qed

lemma mask_pair_idem: "mask_pair (mask_pair p) = mask_pair p"
proof (cases "split_once (lit ''='') p")
  case (Some nv)
  obtain n v where nv: "nv = (n, v)" by (cases nv)
  have "61 \<notin> set n" using Some nv by (auto dest: split_once_name)
  then show ?thesis using Some nv by (auto simp: mask_pair_def split_once_char)
qed (simp add: mask_pair_def)

lemma mask_pair_chars: "set (mask_pair p) \<subseteq> set p \<union> {42}"
proof (cases "split_once (lit ''='') p")
  case (Some nv)
  obtain n v where nv: "nv = (n, v)" by (cases nv)
  with Some have "p = n @ lit ''='' @ v" by (auto dest: split_once_Some)
  then show ?thesis using Some nv by (auto simp: mask_pair_def MASK_def)
qed (auto simp: mask_pair_def)

lemma mask_pair_Nil [simp]: "mask_pair [] = []"
  by (simp add: mask_pair_def split_once_def)

lemma mask_pair_hd: "p \<noteq> [] \<Longrightarrow> mask_pair p \<noteq> [] \<and> hd (mask_pair p) = hd p"
proof (cases "split_once (lit ''='') p")
  case (Some nv)
  obtain n v where nv: "nv = (n, v)" by (cases nv)
  with Some have "p = n @ lit ''='' @ v" by (auto dest: split_once_Some)
  then show ?thesis using Some nv by (cases n) (auto simp: mask_pair_def)
qed (simp add: mask_pair_def)

lemma set_join: "set (join p xs) \<subseteq> set p \<union> \<Union> (set (map set xs))"
  by (induction p xs rule: join.induct) auto

lemma split_by_chars: "w \<in> set (split_by P s) \<Longrightarrow> set w \<subseteq> set s"
proof (induction s arbitrary: w)
  case (Cons c s)
  show ?case
  proof (cases "split_by P s")
    case (Cons v vs)
    then have "set u \<subseteq> set s" if "u = v \<or> u \<in> set vs" for u using Cons.IH that by auto
    then show ?thesis using Cons Cons.prems by (fastforce split: if_splits)
  qed simp
qed simp

lemma masked_query:
  assumes "q \<noteq> []" "hd q \<noteq> 63"
  obtains j where "redact_query q = 63 # j" "j \<noteq> []" "hd j \<noteq> 63" "redact_query j = 63 # j" "set j \<subseteq> set q \<union> {42, 38}"
proof -
  define ps where "ps = split_by (\<lambda>c. c = 38) q"
  define j where "j = join (lit ''&'') (map mask_pair ps)"
  have free: "\<forall>a\<in>set (map mask_pair ps). 38 \<notin> set a"
    using mask_pair_chars split_by_free [of _ "\<lambda>c. c = 38" q] by (fastforce simp: ps_def)
  have ne: "ps \<noteq> []" by (simp add: ps_def)
  have split_j: "split_by (\<lambda>c. c = 38) j = map mask_pair ps"
    unfolding j_def using split_by_join [of "map mask_pair ps" 38] free ne by simp
  obtain c q' where q: "q = c # q'" using assms(1) by (cases q) auto
  obtain w ws where ps: "ps = w # ws" using ne by (cases ps) auto
  have "j \<noteq> [] \<and> hd j \<noteq> 63"
  proof (cases "c = 38")
    case True
    then have "w = []" "ws \<noteq> []" using q ps by (auto simp: ps_def)
    then show ?thesis by (cases ws) (auto simp: j_def ps)
  next
    case False
    then have "w \<noteq> [] \<and> hd w = c" using q ps by (auto simp: ps_def split: list.splits)
    then have "mask_pair w \<noteq> []" "hd (mask_pair w) = c" using mask_pair_hd by auto
    then show ?thesis using assms(2) q by (cases ws) (auto simp: j_def ps)
  qed
  moreover have "redact_query j = 63 # j"
    using calculation by (simp add: redact_query_def split_j o_def mask_pair_idem) (simp add: j_def)
  moreover have "redact_query q = 63 # j" using assms(1) by (simp add: redact_query_def j_def ps_def)
  moreover have "set j \<subseteq> set q \<union> {42, 38}"
    using set_join [of "lit ''&''" "map mask_pair ps"] mask_pair_chars split_by_chars
    by (fastforce simp: j_def ps_def)
  ultimately show ?thesis using that by blast
qed

lemma rfind_char_Some:
  assumes "rfind_sub [c] s = Some i"
  shows "i < length s \<and> s ! i = c \<and> c \<notin> set (drop (Suc i) s)"
proof -
  obtain j where j: "find_sub [c] (rev s) = Some j" "i = length s - 1 - j"
    using assms by (auto simp: rfind_sub_def)
  have "c \<notin> set (take j (rev s))"
    using split_once_name [of c "rev s" "take j (rev s)"] j(1) by (simp add: split_once_def)
  moreover have "rev s = take j (rev s) @ [c] @ drop (j + 1) (rev s)" "j < length s"
    using find_sub_Some [OF j(1)] by auto
  then have s: "s = rev (drop (j + 1) (rev s)) @ c # rev (take j (rev s))"
    by (metis append.assoc append_Cons append_Nil rev_append rev_rev_ident rev_singleton_conv)
  moreover have "length (rev (drop (j + 1) (rev s))) = i" using j(2) \<open>j < length s\<close> by simp
  ultimately show ?thesis
    by (metis Cons_nth_drop_Suc append_eq_conv_conj drop_Suc length_append length_greater_0_conv
        less_add_same_cancel1 list.distinct(1) list.sel(3) nth_append_length set_rev tl_drop)
qed

lemma rfind_char_last: "c \<notin> set w \<Longrightarrow> rfind_sub [c] (a @ c # w) = Some (length a)"
  using find_sub_char [of c "rev w" "rev a"] by (simp add: rfind_sub_def)

lemma rfind_char_None: "rfind_sub [c] s = None \<Longrightarrow> c \<notin> set s"
  by (auto simp: rfind_sub_def find_sub_None dest!: split_list) (metis rev.simps(2) rev_append append.assoc append_Cons append_Nil)

lemma mask_authority_idem: "mask_authority (mask_authority a) = mask_authority a"
proof (cases "rfind_sub (lit ''@'') a")
  case (Some i)
  then have i: "i < length a" "a ! i = 64" "64 \<notin> set (drop (Suc i) a)"
    using rfind_char_Some [of 64 a i] by auto
  then have d: "drop i a = 64 # drop (Suc i) a" by (metis Cons_nth_drop_Suc)
  have "rfind_sub [64] (MASK @ 64 # drop (Suc i) a) = Some (length MASK)"
    using i(3) by (rule rfind_char_last)
  with Some d show ?thesis by (simp add: mask_authority_def)
qed (simp add: mask_authority_def)

lemma mask_authority_chars: "set (mask_authority a) \<subseteq> set a \<union> {42}"
  by (auto simp: mask_authority_def MASK_def split: option.splits dest: in_set_dropD)

lemma trim_start_chars: "set (trim_start_by P s) \<subseteq> set s"
  by (auto simp: trim_start_by_def dest: set_dropWhileD)

lemma redact_query_trimmed:
  obtains "trim_start_by (\<lambda>c. c = 63) q = []" "redact_query (trim_start_by (\<lambda>c. c = 63) q) = []"
  | j where "redact_query (trim_start_by (\<lambda>c. c = 63) q) = 63 # j" "set j \<subseteq> set q \<union> {42, 38}"
      "redact_query (trim_start_by (\<lambda>c. c = 63) (63 # j)) = 63 # j"
proof (cases "trim_start_by (\<lambda>c. c = 63) q = []")
  case True
  then show ?thesis using that(1) by (simp add: redact_query_def)
next
  case False
  have "hd (trim_start_by (\<lambda>c. c = 63) q) \<noteq> 63"
    using False hd_dropWhile [of "\<lambda>c. c = 63" q] by (simp add: trim_start_by_def)
  from masked_query [OF False this] obtain j where
    j: "redact_query (trim_start_by (\<lambda>c. c = 63) q) = 63 # j" "j \<noteq> []" "hd j \<noteq> 63" "redact_query j = 63 # j"
      "set j \<subseteq> set (trim_start_by (\<lambda>c. c = 63) q) \<union> {42, 38}"
    by metis
  have "trim_start_by (\<lambda>c. c = 63) (63 # j) = j" using j(2,3) by (cases j) (auto simp: trim_start_by_def)
  with j trim_start_chars [of _ q] show ?thesis by (intro that(2) [of j]) auto
qed

text \<open>The parts of a masked body are where they were.\<close>

lemma redact_url_body_parts:
  obtains a p q f where "body = a @ p @ q @ f"
    "\<forall>c\<in>set a. c \<noteq> 47 \<and> c \<noteq> 63 \<and> c \<noteq> 35" "p @ q @ f = [] \<or> hd (p @ q @ f) \<in> {47, 63, 35}"
    "\<forall>c\<in>set p. c \<noteq> 63 \<and> c \<noteq> 35" "q = [] \<or> hd q = 63" "\<forall>c\<in>set q. c \<noteq> 35" "f = [] \<or> hd f = 35"
    "redact_url_body body = mask_authority a @ p @ redact_query (trim_start_by (\<lambda>c. c = 63) q) @ f"
proof -
  obtain a r where 1: "cut_at (\<lambda>c. c = 47 \<or> c = 63 \<or> c = 35) body = (a, r)" by (cases "cut_at (\<lambda>c. c = 47 \<or> c = 63 \<or> c = 35) body")
  obtain p0 f where 2: "cut_at (\<lambda>c. c = 35) r = (p0, f)" by (cases "cut_at (\<lambda>c. c = 35) r")
  obtain p q where 3: "cut_at (\<lambda>c. c = 63) p0 = (p, q)" by (cases "cut_at (\<lambda>c. c = 63) p0")
  note c1 = cut_atD [OF 1] and c2 = cut_atD [OF 2] and c3 = cut_atD [OF 3]
  have b: "body = a @ p @ q @ f" using c1(1) c2(1) c3(1) by simp
  have r: "p @ q @ f = [] \<or> hd (p @ q @ f) \<in> {47, 63, 35}" using c1(3) c2(1) c3(1) by auto
  have ac: "\<forall>c\<in>set a. c \<noteq> 47 \<and> c \<noteq> 63 \<and> c \<noteq> 35" using c1(2) by blast
  have pc: "\<forall>c\<in>set p. c \<noteq> 63 \<and> c \<noteq> 35" and qc: "\<forall>c\<in>set q. c \<noteq> 35" using c2(2) c3(1,2) by simp_all
  have e: "redact_url_body body = mask_authority a @ p @ redact_query (trim_start_by (\<lambda>c. c = 63) q) @ f"
    by (simp add: redact_url_body_def 1 2 3)
  from b ac r pc c3(3) qc c2(3) e show ?thesis by (rule that)
qed

lemma redact_url_body_of_parts:
  assumes "\<forall>c\<in>set a. c \<noteq> 47 \<and> c \<noteq> 63 \<and> c \<noteq> 35" "p @ q @ f = [] \<or> hd (p @ q @ f) \<in> {47, 63, 35}"
    "\<forall>c\<in>set p. c \<noteq> 63 \<and> c \<noteq> 35" "q = [] \<or> hd q = 63" "\<forall>c\<in>set q. c \<noteq> 35" "f = [] \<or> hd f = 35"
  shows "redact_url_body (a @ p @ q @ f) = mask_authority a @ p @ redact_query (trim_start_by (\<lambda>c. c = 63) q) @ f"
proof -
  have 1: "cut_at (\<lambda>c. c = 47 \<or> c = 63 \<or> c = 35) (a @ (p @ q @ f)) = (a, p @ q @ f)"
    by (rule cut_at_append) (use assms in auto)
  have 2: "cut_at (\<lambda>c. c = 35) ((p @ q) @ f) = (p @ q, f)"
    by (rule cut_at_append) (use assms in auto)
  have 3: "cut_at (\<lambda>c. c = 63) (p @ q) = (p, q)"
    by (rule cut_at_append) (use assms in auto)
  show ?thesis using 1 2 3 by (simp add: redact_url_body_def)
qed

lemma redact_url_body_idem: "redact_url_body (redact_url_body body) = redact_url_body body"
proof (rule redact_url_body_parts [of body])
  fix a p q f
  assume a: "\<forall>c\<in>set a. c \<noteq> 47 \<and> c \<noteq> 63 \<and> c \<noteq> 35" and r: "p @ q @ f = [] \<or> hd (p @ q @ f) \<in> {47, 63, 35}"
    and p: "\<forall>c\<in>set p. c \<noteq> 63 \<and> c \<noteq> 35" and q: "q = [] \<or> hd q = 63" "\<forall>c\<in>set q. c \<noteq> 35" and f: "f = [] \<or> hd f = 35"
    and e: "redact_url_body body = mask_authority a @ p @ redact_query (trim_start_by (\<lambda>c. c = 63) q) @ f"
  have ma: "\<forall>c\<in>set (mask_authority a). c \<noteq> 47 \<and> c \<noteq> 63 \<and> c \<noteq> 35"
    using a mask_authority_chars [of a] by force
  show ?thesis
  proof (rule redact_query_trimmed [of q], goal_cases)
    case 1
    have "redact_url_body (mask_authority a @ p @ [] @ f) = mask_authority (mask_authority a) @ p @ redact_query (trim_start_by (\<lambda>c. c = 63) []) @ f"
      by (rule redact_url_body_of_parts) (use ma r p q f in \<open>cases p; auto\<close>)+
    then show ?case unfolding e 1(2) by (simp add: mask_authority_idem trim_start_by_def redact_query_def)
  next
    case (2 j)
    have "redact_url_body (mask_authority a @ p @ (63 # j) @ f) = mask_authority (mask_authority a) @ p @ redact_query (trim_start_by (\<lambda>c. c = 63) (63 # j)) @ f"
      by (rule redact_url_body_of_parts) (use ma r p q f 2(2) in \<open>cases p; auto\<close>)+
    then show ?case unfolding e 2(1) by (simp add: mask_authority_idem 2(3))
  qed
qed

lemma redact_url_body_chars: "set (redact_url_body body) \<subseteq> set body \<union> {42, 38, 63}"
proof (rule redact_url_body_parts [of body])
  fix a p q f
  assume b: "body = a @ p @ q @ f"
    and e: "redact_url_body body = mask_authority a @ p @ redact_query (trim_start_by (\<lambda>c. c = 63) q) @ f"
  have "set (redact_query (trim_start_by (\<lambda>c. c = 63) q)) \<subseteq> set q \<union> {42, 38, 63}"
    by (rule redact_query_trimmed [of q]) auto
  then show ?thesis unfolding e using b mask_authority_chars [of a] by auto
qed

lemma not_ends_url [simp]: "\<not> ends_url 42" "\<not> ends_url 38" "\<not> ends_url 63"
  by (simp_all add: ends_url_def is_ascii_ws_def)

lemma redact_urls_hd: "s \<noteq> [] \<Longrightarrow> redact_urls s \<noteq> [] \<and> hd (redact_urls s) = hd s"
  by (subst (1 2) redact_urls.simps) (cases s, auto simp: Let_def split: option.splits prod.splits)

lemma redact_urls_idem: "redact_urls (redact_urls s) = redact_urls s"
proof (induction s rule: redact_urls.induct)
  case (1 s)
  show ?case
  proof (cases "find_sub (lit ''://'') s")
    case None
    then show ?thesis by (simp add: redact_urls.simps [of s])
  next
    case (Some i)
    obtain b r where c: "cut_at ends_url (drop (i + 3) s) = (b, r)" by (cases "cut_at ends_url (drop (i + 3) s)")
    note cd = cut_atD [OF c]
    define out where "out = redact_url_body b @ redact_urls r"
    have u: "redact_urls s = take (i + 3) s @ out"
      using Some by (subst redact_urls.simps) (simp add: c out_def)
    have ih: "redact_urls (redact_urls r) = redact_urls r" using "1.IH" [OF Some] c by auto
    have le: "i + 3 \<le> length s" using find_sub_Some [OF Some] by simp
    have "find_sub (lit ''://'') (take (i + 3) s @ out) = Some i"
      using find_sub_prefix [OF Some, of out] by (simp add: numeral_eq_Suc)
    moreover have "drop (i + 3) (take (i + 3) s @ out) = out" "take (i + 3) (take (i + 3) s @ out) = take (i + 3) s"
      using le by simp_all
    moreover have "cut_at ends_url out = (redact_url_body b, redact_urls r)"
      unfolding out_def
    proof (rule cut_at_append)
      show "\<forall>c\<in>set (redact_url_body b). \<not> ends_url c" using redact_url_body_chars [of b] cd(2) by auto
      show "redact_urls r = [] \<or> ends_url (hd (redact_urls r))"
        using cd(3) redact_urls_hd [of r] by (cases r) (auto simp: redact_urls.simps [of "[]"])
    qed
    ultimately have "redact_urls (take (i + 3) s @ out) = take (i + 3) s @ redact_url_body (redact_url_body b) @ redact_urls (redact_urls r)"
      by (subst redact_urls.simps) simp
    then show ?thesis unfolding u by (simp add: redact_url_body_idem ih out_def)
  qed
qed

lemma redact_bearer_hd: "s \<noteq> [] \<Longrightarrow> redact_bearer s \<noteq> [] \<and> hd (redact_bearer s) = hd s"
  by (subst (1 2) redact_bearer.simps) (cases s, auto simp: Let_def split: option.splits prod.splits)

lemma redact_bearer_idem: "redact_bearer (redact_bearer s) = redact_bearer s"
proof (induction s rule: redact_bearer.induct)
  case (1 s)
  show ?case
  proof (cases "find_sub (lit ''Bearer '') s")
    case None
    then show ?thesis by (simp add: redact_bearer.simps [of s])
  next
    case (Some i)
    obtain b r where c: "cut_at bearer_end (drop (i + 7) s) = (b, r)" by (cases "cut_at bearer_end (drop (i + 7) s)")
    note cd = cut_atD [OF c]
    define tok where "tok = (if b = [] \<or> b = MASK then b else MASK)"
    define out where "out = tok @ redact_bearer r"
    have u: "redact_bearer s = take (i + 7) s @ out"
      using Some by (subst redact_bearer.simps) (simp add: c out_def tok_def)
    have ih: "redact_bearer (redact_bearer r) = redact_bearer r" using "1.IH" [OF Some] c by auto
    have le: "i + 7 \<le> length s" using find_sub_Some [OF Some] by simp
    have "find_sub (lit ''Bearer '') (take (i + 7) s @ out) = Some i"
      using find_sub_prefix [OF Some, of out] by (simp add: numeral_eq_Suc)
    moreover have "drop (i + 7) (take (i + 7) s @ out) = out" "take (i + 7) (take (i + 7) s @ out) = take (i + 7) s"
      using le by simp_all
    moreover have "cut_at bearer_end out = (tok, redact_bearer r)"
      unfolding out_def
    proof (rule cut_at_append)
      show "\<forall>c\<in>set tok. \<not> bearer_end c" by (auto simp: tok_def MASK_def bearer_end_def is_ws_def)
      show "redact_bearer r = [] \<or> bearer_end (hd (redact_bearer r))"
        using cd(3) redact_bearer_hd [of r] by (cases r) (auto simp: redact_bearer.simps [of "[]"])
    qed
    moreover have "(if tok = [] \<or> tok = MASK then tok else MASK) = tok" by (simp add: tok_def)
    ultimately have "redact_bearer (take (i + 7) s @ out) = take (i + 7) s @ tok @ redact_bearer (redact_bearer r)"
      by (subst redact_bearer.simps) simp
    then show ?thesis unfolding u by (simp add: ih out_def)
  qed
qed

lemmas redact_evals = cut_at_def ends_url_def is_ascii_ws_def bearer_end_def is_ws_def MASK_def
  mask_authority_def redact_query_def trim_start_by_def rfind_sub_def starts_with_def

section \<open>Properties\<close>

text \<open>
  Each of the two masking passes is idempotent.
\<close>

theorem redact_passes_idempotent:
  "redact_urls (redact_urls s) = redact_urls s \<and> redact_bearer (redact_bearer s) = redact_bearer s"
  by (simp add: redact_urls_idem redact_bearer_idem)

text \<open>
  Their composition, which the module states to be idempotent, is not: masking a bearer token
  that ends inside a URL uncovers a URL the first pass did not see, and with it a password that the
  first pass stores and the second masks.
\<close>

theorem redact_not_idempotent:
  "redact (lit ''Bearer a://b)c://u:p@d'') = lit ''Bearer ***)c://u:p@d''
   \<and> redact (redact (lit ''Bearer a://b)c://u:p@d'')) = lit ''Bearer ***)c://***@d''"
proof -
  have 1: "redact_urls (lit ''Bearer a://b)c://u:p@d'') = lit ''Bearer a://b)c://u:p@d''"
    by (subst redact_urls.simps) (simp add: redact_url_body_def redact_evals redact_urls.simps [of "[]"])
  have 2: "redact_bearer (lit ''Bearer a://b)c://u:p@d'') = lit ''Bearer ***)c://u:p@d''"
    by (subst redact_bearer.simps) (simp add: redact_evals redact_bearer.simps [of "lit '')c://u:p@d''", simplified])
  have 3: "redact_urls (lit ''Bearer ***)c://u:p@d'') = lit ''Bearer ***)c://***@d''"
    by (subst redact_urls.simps) (simp add: redact_url_body_def redact_evals redact_urls.simps [of "[]"])
  have 4: "redact_bearer (lit ''Bearer ***)c://***@d'') = lit ''Bearer ***)c://***@d''"
    by (subst redact_bearer.simps) (simp add: redact_evals redact_bearer.simps [of "lit '')c://***@d''", simplified])
  from 1 2 3 4 show ?thesis by (simp only: redact_def simp_thms)
qed

end
