(* ===== verification/Tables.thy ===== *)
theory Tables
  imports Redact Json
begin

text \<open>
  The tables of the store (\<open>crates/qdrust-server/src/model.rs\<close>, \<open>store.rs\<close>) that the run queue, the
  scheduler and the notifications work on.  A table is the list of its rows in insertion order; an
  \<open>i64\<close> column is an \<open>int\<close>, a nullable column an \<open>option\<close>.

  Every SQL statement is one state change: \<open>UPDATE t SET f WHERE P\<close> is \<open>update_where P f\<close>, its
  \<open>rows_affected\<close> is \<open>affected P\<close>, \<open>DELETE FROM t WHERE P\<close> is \<open>delete_where P\<close>.  \<open>AUTOINCREMENT\<close> is a
  counter beside the table, so an id is never given twice.  SQLite enforces the declared foreign
  keys and MySQL does not; \<open>foreign_keys\<close> says which of the two the store runs on.
\<close>

section \<open>Statements\<close>

definition update_where :: "('r \<Rightarrow> bool) \<Rightarrow> ('r \<Rightarrow> 'r) \<Rightarrow> 'r list \<Rightarrow> 'r list" where
  "update_where P f rs = map (\<lambda>r. if P r then f r else r) rs"

definition affected :: "('r \<Rightarrow> bool) \<Rightarrow> 'r list \<Rightarrow> nat" where
  "affected P rs = length (filter P rs)"

definition delete_where :: "('r \<Rightarrow> bool) \<Rightarrow> 'r list \<Rightarrow> 'r list" where
  "delete_where P rs = filter (\<lambda>r. \<not> P r) rs"

text \<open>\<open>keyed key n rs\<close>: the primary keys are distinct and below the counter.\<close>

definition keyed :: "('r \<Rightarrow> int) \<Rightarrow> int \<Rightarrow> 'r list \<Rightarrow> bool" where
  "keyed key n rs \<longleftrightarrow> distinct (map key rs) \<and> (\<forall>r\<in>set rs. key r < n)"

lemma set_update_where: "set (update_where P f rs) = (\<lambda>r. if P r then f r else r) ` set rs"
  by (simp add: update_where_def)

lemma set_delete_where [simp]: "set (delete_where P rs) = {r \<in> set rs. \<not> P r}"
  by (simp add: delete_where_def)

lemma delete_where_append [simp]: "delete_where P (xs @ ys) = delete_where P xs @ delete_where P ys"
  by (simp add: delete_where_def)

lemma affected_pos: "0 < affected P rs \<longleftrightarrow> (\<exists>r\<in>set rs. P r)"
  by (auto simp: affected_def filter_empty_conv)

lemma affected_delete: "affected P rs + length (delete_where P rs) = length rs"
  by (simp add: affected_def delete_where_def sum_length_filter_compl)

lemma map_update_where: "(\<And>r. P r \<Longrightarrow> g (f r) = g r) \<Longrightarrow> map g (update_where P f rs) = map g rs"
  by (simp add: update_where_def)

lemma keyed_Nil [simp]: "keyed key n []"
  by (simp add: keyed_def)

lemma keyed_update [inv_intros]:
  assumes "\<And>r. P r \<Longrightarrow> key (f r) = key r" "keyed key n rs"
  shows "keyed key n (update_where P f rs)"
  using assms by (auto simp: keyed_def map_update_where set_update_where)

lemma keyed_delete [inv_intros]: "keyed key n rs \<Longrightarrow> keyed key n (delete_where P rs)"
  by (auto simp: keyed_def delete_where_def distinct_map_filter)

lemma keyed_insert [inv_intros]: "keyed key n rs \<Longrightarrow> key r = n \<Longrightarrow> keyed key (n + 1) (rs @ [r])"
  by (fastforce simp: keyed_def)

lemma keyed_eq: "keyed key n rs \<Longrightarrow> r \<in> set rs \<Longrightarrow> r2 \<in> set rs \<Longrightarrow> key r = key r2 \<Longrightarrow> r = r2"
  by (auto simp: keyed_def distinct_map dest: inj_onD)

lemma find_keyed:
  assumes "keyed key n rs" "r \<in> set rs"
  shows "find (\<lambda>x. key x = key r) rs = Some r"
proof (cases "find (\<lambda>x. key x = key r) rs")
  case None
  with assms(2) show ?thesis by (auto simp: find_None_iff)
next
  case (Some x)
  then have "x \<in> set rs" "key x = key r" by (auto simp: find_Some_iff)
  with assms Some show ?thesis by (auto dest: keyed_eq)
qed

section \<open>Rows\<close>

datatype run_status = Pending | Leased | Running | Succeeded | Failed | Cancelled

definition status_str :: "run_status \<Rightarrow> ustr" where
  "status_str st = (case st of Pending \<Rightarrow> lit ''pending'' | Leased \<Rightarrow> lit ''leased'' | Running \<Rightarrow> lit ''running''
     | Succeeded \<Rightarrow> lit ''succeeded'' | Failed \<Rightarrow> lit ''failed'' | Cancelled \<Rightarrow> lit ''cancelled'')"

text \<open>\<open>status IN ('pending','leased','running')\<close>\<close>

definition active :: "run_status \<Rightarrow> bool" where
  "active st \<longleftrightarrow> st \<in> {Pending, Leased, Running}"

record run_row =
  run_id :: int
  run_task_id :: int
  run_status :: run_status
  run_http_status :: "int option"
  run_error :: "ustr option"
  run_log :: "ustr option"
  failure_trace :: "ustr option"
  run_started_at :: "int option"
  run_finished_at :: "int option"
  run_created_at :: int
  lease_owner :: "ustr option"
  lease_expires_at :: "int option"
  attempt :: int
  cancel_requested :: bool
  run_after :: "int option"
  retry_of :: "int option"
  run_trigger :: ustr

record run_step =
  step_id :: int
  step_run_id :: int
  step_index :: int
  step_name :: ustr
  step_status :: ustr
  step_http_status :: "int option"
  step_body_size :: int
  step_error :: "ustr option"
  step_started_at :: int
  step_finished_at :: int

text \<open>
  \<open>Task\<close>; its \<open>notification_action_count\<close> is computed when a task is read and no column.  The
  stored row also carries the owner.
\<close>

record task =
  task_id :: int
  task_name :: ustr
  cron :: ustr
  task_method :: ustr
  task_url :: ustr
  task_headers :: json
  task_body :: "ustr option"
  disabled :: bool
  task_created_at :: int
  task_updated_at :: int
  last_run_at :: "int option"
  last_status :: "int option"
  last_error :: "ustr option"
  task_template_id :: "int option"
  grp :: "ustr option"
  timeout_seconds :: "int option"
  retry_count :: "int option"
  retry_interval_seconds :: "int option"
  priority :: "int option"
  timezone :: "ustr option"
  random_delay_max_seconds :: "int option"
  task_variables_json :: "json option"

record task_row = task +
  owner_id :: "int option"

record notification_channel =
  channel_id :: int
  channel_owner :: int
  channel_name :: ustr
  channel_kind :: ustr
  channel_config :: json
  channel_enabled :: bool
  channel_created_at :: int
  channel_updated_at :: int

record notification_action =
  action_id :: int
  action_task_id :: int
  action_channel_id :: int
  action_event :: ustr
  failure_threshold :: int
  automatic_only :: bool
  title_template :: "ustr option"
  body_template :: "ustr option"
  action_created_at :: int

record delivery_record =
  delivery_id :: int
  delivery_run_id :: int
  delivery_task_id :: int
  delivery_action_id :: "int option"
  delivery_channel_id :: "int option"
  delivery_channel_kind :: ustr
  delivery_event :: ustr
  delivery_attempt :: int
  delivery_status :: ustr
  delivery_http_status :: "int option"
  delivery_error :: "ustr option"
  delivery_created_at :: int

record db =
  foreign_keys :: bool
  tasks :: "task_row list"
  runs :: "run_row list"
  next_run :: int
  steps :: "run_step list"
  next_step :: int
  channels :: "notification_channel list"
  next_channel :: int
  actions :: "notification_action list"
  next_action :: int
  deliveries :: "delivery_record list"
  next_delivery :: int

definition empty_db :: "bool \<Rightarrow> task_row list \<Rightarrow> db" where
  "empty_db fk ts = \<lparr>foreign_keys = fk, tasks = ts, runs = [], next_run = 1, steps = [], next_step = 1,
     channels = [], next_channel = 1, actions = [], next_action = 1, deliveries = [], next_delivery = 1\<rparr>"

text \<open>\<open>x IN (SELECT id FROM tasks WHERE owner_id=?)\<close>\<close>

definition owns_task :: "db \<Rightarrow> int \<Rightarrow> int \<Rightarrow> bool" where
  "owns_task db owner tid \<longleftrightarrow> (\<exists>t\<in>set (tasks db). task_id t = tid \<and> owner_id t = Some owner)"

end
