(* ===== verification/RunQueue.thy ===== *)
theory RunQueue
  imports Tables "HOL-Library.Product_Lexorder"
begin

text \<open>
  The run queue of the store (\<open>crates/qdrust-server/src/store.rs\<close>): enqueuing, claiming under a lease,
  renewing, cancelling, recovering, finishing and deleting runs, and the rows written beside them.

  \<open>now\<close> is \<open>Utc::now().timestamp()\<close> at the call.  An operation returns its result and the database
  after it; a constraint the database enforces is an \<open>Inl\<close> that leaves the database as it was.
  Transactions run alone.  \<open>queue_step\<close> is one such call, by any process that shares the database;
  its claim is the two statements of \<open>claim_run\<close> apart, with any row for the first one's answer.
\<close>

section \<open>Reading\<close>

definition get_run_row :: "int \<Rightarrow> db \<Rightarrow> run_row option" where
  "get_run_row rid db = find (\<lambda>r. run_id r = rid) (runs db)"

text \<open>\<open>RUN_FIELDS\<close> selects \<open>NULL AS failure_trace\<close>.\<close>

definition without_trace :: "run_row \<Rightarrow> run_row" where
  "without_trace r = r\<lparr>failure_trace := None\<rparr>"

definition get_run :: "int \<Rightarrow> db \<Rightarrow> run_row option" where
  "get_run rid db = map_option without_trace (get_run_row rid db)"

definition get_for_owner :: "int \<Rightarrow> int \<Rightarrow> db \<Rightarrow> task_row option" where
  "get_for_owner rid owner db = find (\<lambda>t. task_id t = rid \<and> owner_id t = Some owner) (tasks db)"

definition list_task_runs :: "int \<Rightarrow> db \<Rightarrow> run_row list" where
  "list_task_runs tid db = map without_trace
     (sort_key (\<lambda>r. (- run_created_at r, - run_id r)) (filter (\<lambda>r. run_task_id r = tid) (runs db)))"

definition list_task_runs_for_owner :: "int \<Rightarrow> int \<Rightarrow> db \<Rightarrow> run_row list option" where
  "list_task_runs_for_owner tid owner db =
     (if get_for_owner tid owner db = None then None else Some (list_task_runs tid db))"

definition latest_failed_run_trace_for_owner :: "int \<Rightarrow> int \<Rightarrow> db \<Rightarrow> run_row option" where
  "latest_failed_run_trace_for_owner tid owner db =
     (if get_for_owner tid owner db = None then None
      else case sort_key (\<lambda>r. - run_id r)
          (filter (\<lambda>r. run_task_id r = tid \<and> run_status r = Failed \<and> failure_trace r \<noteq> None) (runs db)) of
        [] \<Rightarrow> None | r # _ \<Rightarrow> Some r)"

record run_filter =
  filter_status :: "ustr option"
  filter_task_id :: "int option"
  filter_from :: "int option"
  filter_to :: "int option"
  filter_before_id :: "int option"
  filter_limit :: int

text \<open>A condition that is only pushed when the filter has the field.\<close>

definition when_set :: "'a option \<Rightarrow> ('a \<Rightarrow> bool) \<Rightarrow> bool" where
  "when_set x P = (case x of None \<Rightarrow> True | Some v \<Rightarrow> P v)"

definition matches_filter :: "run_filter \<Rightarrow> run_row \<Rightarrow> bool" where
  "matches_filter f r \<longleftrightarrow>
     when_set (filter_status f) (\<lambda>s. status_str (run_status r) = s) \<and> when_set (filter_task_id f) (\<lambda>t. run_task_id r = t)
     \<and> when_set (filter_from f) (\<lambda>t. t \<le> run_created_at r) \<and> when_set (filter_to f) (\<lambda>t. run_created_at r < t)
     \<and> when_set (filter_before_id f) (\<lambda>i. run_id r < i)"

definition search_runs_for_owner :: "int \<Rightarrow> run_filter \<Rightarrow> db \<Rightarrow> run_row list" where
  "search_runs_for_owner owner f db = map without_trace
     (take (nat (max 1 (min 500 (filter_limit f)) + 1))
       (sort_key (\<lambda>r. - run_id r)
         (filter (\<lambda>r. owns_task db owner (run_task_id r) \<and> matches_filter f r) (runs db))))"

definition list_run_steps :: "int \<Rightarrow> db \<Rightarrow> run_step list" where
  "list_run_steps rid db = sort_key step_index (filter (\<lambda>s. step_run_id s = rid) (steps db))"

definition list_run_steps_for_owner :: "int \<Rightarrow> int \<Rightarrow> db \<Rightarrow> run_step list option" where
  "list_run_steps_for_owner rid owner db =
     (let owns_run = list_ex (\<lambda>r. run_id r = rid \<and> owns_task db owner (run_task_id r)) (runs db) in
      if owns_run then Some (list_run_steps rid db) else None)"

definition count_retries :: "int \<Rightarrow> db \<Rightarrow> int" where
  "count_retries original db = int (affected (\<lambda>r. retry_of r = Some original) (runs db))"

text \<open>\<open>COALESCE((SELECT MAX(created_at) ...), 0)\<close>\<close>

definition last_success :: "int \<Rightarrow> db \<Rightarrow> int" where
  "last_success tid db =
     (case map run_created_at (filter (\<lambda>r. run_task_id r = tid \<and> run_status r = Succeeded) (runs db)) of
        [] \<Rightarrow> 0 | t # ts \<Rightarrow> fold max ts t)"

definition count_recent_failures :: "int \<Rightarrow> db \<Rightarrow> int" where
  "count_recent_failures tid db =
     int (affected (\<lambda>r. run_task_id r = tid \<and> run_status r = Failed \<and> last_success tid db \<le> run_created_at r) (runs db))"

section \<open>Enqueuing\<close>

definition fk_error :: error where
  "fk_error = [lit ''FOREIGN KEY constraint failed'']"

definition unique_error :: error where
  "unique_error = [lit ''UNIQUE constraint failed'']"

definition task_exists :: "db \<Rightarrow> int \<Rightarrow> bool" where
  "task_exists db tid = list_ex (\<lambda>t. task_id t = tid) (tasks db)"

definition run_exists :: "db \<Rightarrow> int \<Rightarrow> bool" where
  "run_exists db rid = list_ex (\<lambda>r. run_id r = rid) (runs db)"

text \<open>The columns an \<open>INSERT INTO runs\<close> does not name have their default.\<close>

definition new_run :: "int \<Rightarrow> int \<Rightarrow> int \<Rightarrow> run_row" where
  "new_run rid tid now = \<lparr>run_id = rid, run_task_id = tid, run_status = Pending, run_http_status = None,
     run_error = None, run_log = None, failure_trace = None, run_started_at = None, run_finished_at = None,
     run_created_at = now, lease_owner = None, lease_expires_at = None, attempt = 0,
     cancel_requested = False, run_after = None, retry_of = None, run_trigger = lit ''manual''\<rparr>"

definition insert_run :: "run_row \<Rightarrow> db \<Rightarrow> (error + int) \<times> db" where
  "insert_run r db =
     (if foreign_keys db \<and> \<not> task_exists db (run_task_id r) then (Inl fk_error, db)
      else (Inr (next_run db), db\<lparr>runs := runs db @ [r\<lparr>run_id := next_run db\<rparr>], next_run := next_run db + 1\<rparr>))"

text \<open>\<open>INSERT ... SELECT ... WHERE NOT EXISTS (an active run of the task)\<close>, then \<open>get_run\<close> of the new id.\<close>

definition insert_unless_active :: "run_row \<Rightarrow> db \<Rightarrow> (error + run_row option) \<times> db" where
  "insert_unless_active r db =
     (if list_ex (\<lambda>x. run_task_id x = run_task_id r \<and> active (run_status x)) (runs db) then (Inr None, db)
      else case insert_run r db of (Inl e, db1) \<Rightarrow> (Inl e, db1) | (Inr rid, db1) \<Rightarrow> (Inr (get_run rid db1), db1))"

definition enqueue_run_with_trigger :: "int \<Rightarrow> int \<Rightarrow> ustr \<Rightarrow> db \<Rightarrow> (error + run_row option) \<times> db" where
  "enqueue_run_with_trigger now tid trig db =
     insert_unless_active ((new_run 0 tid now)\<lparr>run_trigger := trig\<rparr>) db"

definition enqueue_run :: "int \<Rightarrow> int \<Rightarrow> db \<Rightarrow> (error + run_row option) \<times> db" where
  "enqueue_run now tid db = enqueue_run_with_trigger now tid (lit ''manual'') db"

definition enqueue_delayed_run :: "int \<Rightarrow> int \<Rightarrow> int \<Rightarrow> db \<Rightarrow> (error + run_row option) \<times> db" where
  "enqueue_delayed_run now tid delay_seconds db =
     insert_unless_active ((new_run 0 tid now)\<lparr>run_after := Some (now + max delay_seconds 0),
       run_trigger := lit ''scheduled''\<rparr>) db"

definition schedule_retry :: "int \<Rightarrow> int \<Rightarrow> int \<Rightarrow> int \<Rightarrow> db \<Rightarrow> (error + run_row option) \<times> db" where
  "schedule_retry now tid original delay_seconds db =
     insert_unless_active ((new_run 0 tid now)\<lparr>run_after := Some (now + max delay_seconds 1),
       retry_of := Some original, run_trigger := lit ''retry''\<rparr>) db"

text \<open>A running run without a lease; only tests call it, and it has no guard.\<close>

definition start_run :: "int \<Rightarrow> int \<Rightarrow> db \<Rightarrow> (error + run_row) \<times> db" where
  "start_run now tid db =
     (case insert_run ((new_run 0 tid now)\<lparr>run_status := Running, run_started_at := Some now, attempt := 1\<rparr>) db of
        (Inl e, db1) \<Rightarrow> (Inl e, db1)
      | (Inr rid, db1) \<Rightarrow> (case get_run rid db1 of
            None \<Rightarrow> (Inl [lit ''created run disappeared''], db1) | Some r \<Rightarrow> (Inr r, db1)))"

section \<open>Claiming and working\<close>

text \<open>\<open>UPDATE runs SET f WHERE P\<close> and its \<open>rows_affected\<close>.\<close>

definition update_runs :: "(run_row \<Rightarrow> bool) \<Rightarrow> (run_row \<Rightarrow> run_row) \<Rightarrow> db \<Rightarrow> nat \<times> db" where
  "update_runs P f db = (affected P (runs db), db\<lparr>runs := update_where P f (runs db)\<rparr>)"

definition lease_held :: "run_status \<Rightarrow> bool" where
  "lease_held st \<longleftrightarrow> st = Leased \<or> st = Running"

definition lease_expired :: "int \<Rightarrow> run_row \<Rightarrow> bool" where
  "lease_expired now r \<longleftrightarrow> lease_held (run_status r)
     \<and> (case lease_expires_at r of None \<Rightarrow> False | Some e \<Rightarrow> e \<le> now)"

definition claimable :: "int \<Rightarrow> run_row \<Rightarrow> bool" where
  "claimable now r \<longleftrightarrow> \<not> cancel_requested r \<and> (run_status r = Pending \<or> lease_expired now r)"

definition due_run :: "int \<Rightarrow> run_row \<Rightarrow> bool" where
  "due_run now r \<longleftrightarrow> (case run_after r of None \<Rightarrow> True | Some t \<Rightarrow> t \<le> now)"

text \<open>\<open>COALESCE(t.priority,0)\<close> under the \<open>LEFT JOIN\<close>.\<close>

definition run_priority :: "db \<Rightarrow> run_row \<Rightarrow> int" where
  "run_priority db r = (case find (\<lambda>t. task_id t = run_task_id r) (tasks db) of
      None \<Rightarrow> 0 | Some t \<Rightarrow> (case priority t of None \<Rightarrow> 0 | Some p \<Rightarrow> p))"

definition claim_key :: "db \<Rightarrow> run_row \<Rightarrow> int \<times> int \<times> int" where
  "claim_key db r = (- run_priority db r, run_created_at r, run_id r)"

definition claim_select :: "int \<Rightarrow> db \<Rightarrow> int option" where
  "claim_select now db =
     (case sort_key (claim_key db) (filter (\<lambda>r. claimable now r \<and> due_run now r) (runs db)) of
        [] \<Rightarrow> None | r # _ \<Rightarrow> Some (run_id r))"

definition claim_update :: "int \<Rightarrow> ustr \<Rightarrow> int \<Rightarrow> int \<Rightarrow> db \<Rightarrow> nat \<times> db" where
  "claim_update now worker expires rid db =
     update_runs (\<lambda>r. run_id r = rid \<and> claimable now r)
       (\<lambda>r. r\<lparr>run_status := Leased, lease_owner := Some worker, lease_expires_at := Some expires,
          attempt := attempt r + 1\<rparr>) db"

definition claim_run :: "int \<Rightarrow> ustr \<Rightarrow> int \<Rightarrow> db \<Rightarrow> run_row option \<times> db" where
  "claim_run now worker lease_seconds db =
     (let expires = now + max lease_seconds 1 in
      case claim_select now db of None \<Rightarrow> (None, db)
      | Some rid \<Rightarrow> (let (n, db1) = claim_update now worker expires rid db in
          if n = 0 then (None, db1) else (get_run rid db1, db1)))"

definition start_leased_run :: "int \<Rightarrow> int \<Rightarrow> ustr \<Rightarrow> db \<Rightarrow> bool \<times> db" where
  "start_leased_run now rid worker db =
     (let (n, db1) = update_runs (\<lambda>r. run_id r = rid \<and> run_status r = Leased \<and> lease_owner r = Some worker
          \<and> \<not> cancel_requested r) (\<lambda>r. r\<lparr>run_status := Running, run_started_at := Some now\<rparr>) db
      in (0 < n, db1))"

definition renew_run :: "int \<Rightarrow> int \<Rightarrow> ustr \<Rightarrow> int \<Rightarrow> db \<Rightarrow> bool \<times> db" where
  "renew_run now rid worker lease_seconds db =
     (let (n, db1) = update_runs (\<lambda>r. run_id r = rid \<and> lease_held (run_status r) \<and> lease_owner r = Some worker)
          (\<lambda>r. r\<lparr>lease_expires_at := Some (now + max lease_seconds 1)\<rparr>) db
      in (0 < n, db1))"

definition cancel_run :: "int \<Rightarrow> int \<Rightarrow> db \<Rightarrow> bool \<times> db" where
  "cancel_run now rid db =
     (let (n, db1) = update_runs (\<lambda>r. run_id r = rid \<and> active (run_status r))
          (\<lambda>r. r\<lparr>run_status := if run_status r = Pending then Cancelled else run_status r,
             cancel_requested := True,
             run_finished_at := if run_status r = Pending then Some now else run_finished_at r\<rparr>) db
      in (0 < n, db1))"

definition recover_expired_runs :: "int \<Rightarrow> db \<Rightarrow> nat \<times> db" where
  "recover_expired_runs now db = update_runs (lease_expired now)
     (\<lambda>r. r\<lparr>run_status := if cancel_requested r then Cancelled else Pending, lease_owner := None,
        lease_expires_at := None, run_finished_at := if cancel_requested r then Some now else run_finished_at r\<rparr>) db"

definition finish_run :: "int \<Rightarrow> int \<Rightarrow> int option \<Rightarrow> ustr option \<Rightarrow> db \<Rightarrow> db" where
  "finish_run now rid http err db =
     (let st = if err \<noteq> None then Failed else Succeeded in
      snd (update_runs (\<lambda>r. run_id r = rid \<and> lease_held (run_status r))
        (\<lambda>r. r\<lparr>run_status := if cancel_requested r then Cancelled else st, run_http_status := http,
           run_error := map_option redact err, run_finished_at := Some now, lease_owner := None,
           lease_expires_at := None\<rparr>) db))"

definition record_run_log :: "int \<Rightarrow> ustr \<Rightarrow> db \<Rightarrow> db" where
  "record_run_log rid msg db = snd (update_runs (\<lambda>r. run_id r = rid) (\<lambda>r. r\<lparr>run_log := Some (redact msg)\<rparr>) db)"

definition record_latest_failed_run_trace :: "int \<Rightarrow> int \<Rightarrow> ustr \<Rightarrow> db \<Rightarrow> db" where
  "record_latest_failed_run_trace tid rid trace db =
     snd (update_runs (\<lambda>r. run_id r = rid \<and> run_task_id r = tid) (\<lambda>r. r\<lparr>failure_trace := Some (redact trace)\<rparr>)
       (snd (update_runs (\<lambda>r. run_task_id r = tid \<and> run_id r \<noteq> rid) (\<lambda>r. r\<lparr>failure_trace := None\<rparr>) db)))"

text \<open>The task's own last-run columns; the error is stored as given.\<close>

definition record_run :: "int \<Rightarrow> int \<Rightarrow> int option \<Rightarrow> ustr option \<Rightarrow> db \<Rightarrow> db" where
  "record_run now tid status err db = db\<lparr>tasks := update_where (\<lambda>t. task_id t = tid)
     (\<lambda>t. t\<lparr>last_run_at := Some now, last_status := status, last_error := err\<rparr>) (tasks db)\<rparr>"

text \<open>\<open>UNIQUE(run_id, step_index)\<close>, and the reference to the run where it is enforced.\<close>

definition record_run_step :: "run_step \<Rightarrow> db \<Rightarrow> (error + unit) \<times> db" where
  "record_run_step s db =
     (if list_ex (\<lambda>x. step_run_id x = step_run_id s \<and> step_index x = step_index s) (steps db) then (Inl unique_error, db)
      else if foreign_keys db \<and> \<not> run_exists db (step_run_id s) then (Inl fk_error, db)
      else (Inr (), db\<lparr>steps := steps db @ [s\<lparr>step_id := next_step db, step_error := map_option redact (step_error s)\<rparr>],
             next_step := next_step db + 1\<rparr>))"

section \<open>Deleting\<close>

text \<open>Delete the runs that satisfy \<open>R\<close> after their deliveries and steps.\<close>

definition delete_runs_where :: "(run_row \<Rightarrow> bool) \<Rightarrow> (delivery_record \<Rightarrow> bool) \<Rightarrow> (run_step \<Rightarrow> bool) \<Rightarrow> db \<Rightarrow> nat \<times> db" where
  "delete_runs_where R D S db = (affected R (runs db),
     db\<lparr>deliveries := delete_where D (deliveries db), steps := delete_where S (steps db),
        runs := delete_where R (runs db)\<rparr>)"

definition run_in :: "(run_row \<Rightarrow> bool) \<Rightarrow> db \<Rightarrow> int \<Rightarrow> bool" where
  "run_in R db rid = list_ex (\<lambda>r. run_id r = rid \<and> R r) (runs db)"

definition delete_run :: "int \<Rightarrow> db \<Rightarrow> bool \<times> db" where
  "delete_run rid db =
     (let (n, db1) = delete_runs_where (\<lambda>r. run_id r = rid) (\<lambda>d. delivery_run_id d = rid) (\<lambda>s. step_run_id s = rid) db
      in (0 < n, db1))"

definition delete_runs_for_owner :: "int \<Rightarrow> db \<Rightarrow> nat \<times> db" where
  "delete_runs_for_owner owner db =
     (let mine = run_in (\<lambda>r. owns_task db owner (run_task_id r)) db in
      delete_runs_where (\<lambda>r. owns_task db owner (run_task_id r)) (\<lambda>d. mine (delivery_run_id d))
        (\<lambda>s. mine (step_run_id s)) db)"

definition delete_all_runs :: "db \<Rightarrow> nat \<times> db" where
  "delete_all_runs db = delete_runs_where (\<lambda>r. True) (\<lambda>d. True) (\<lambda>s. True) db"

definition delete_runs_for_task :: "int \<Rightarrow> db \<Rightarrow> nat \<times> db" where
  "delete_runs_for_task tid db =
     delete_runs_where (\<lambda>r. run_task_id r = tid) (\<lambda>d. delivery_task_id d = tid)
       (\<lambda>s. run_in (\<lambda>r. run_task_id r = tid) db (step_run_id s)) db"

definition delete_task_rows :: "int \<Rightarrow> int option \<Rightarrow> db \<Rightarrow> bool \<times> db" where
  "delete_task_rows rid owner db =
     (let mine = (\<lambda>t. task_id t = rid \<and> (case owner of None \<Rightarrow> True | Some u \<Rightarrow> owner_id t = Some u)) in
      if \<not> list_ex mine (tasks db) then (False, db)
      else let (_, db1) = delete_runs_for_task rid db in
        (0 < affected (\<lambda>t. task_id t = rid) (tasks db1),
         db1\<lparr>actions := delete_where (\<lambda>a. action_task_id a = rid) (actions db1),
             tasks := delete_where (\<lambda>t. task_id t = rid) (tasks db1)\<rparr>))"

text \<open>One batch of the retention sweep, and the sweep.\<close>

definition BATCH :: nat where "BATCH = 500"

definition finished_before :: "int \<Rightarrow> run_row \<Rightarrow> bool" where
  "finished_before before r = (case run_finished_at r of None \<Rightarrow> False | Some t \<Rightarrow> t < before)"

definition count_old_runs :: "int \<Rightarrow> db \<Rightarrow> int" where
  "count_old_runs before db = int (affected (finished_before before) (runs db))"

definition old_run_ids :: "int \<Rightarrow> db \<Rightarrow> int list" where
  "old_run_ids before db = take BATCH (sort (map run_id (filter (finished_before before) (runs db))))"

definition prune_batch :: "int list \<Rightarrow> db \<Rightarrow> db" where
  "prune_batch ids db = snd (delete_runs_where (\<lambda>r. run_id r \<in> set ids) (\<lambda>d. delivery_run_id d \<in> set ids)
     (\<lambda>s. step_run_id s \<in> set ids) db)"

lemma old_run_ids_shrink:
  assumes "old_run_ids before db \<noteq> []"
  shows "length (runs (prune_batch (old_run_ids before db) db)) < length (runs db)"
proof -
  obtain i where i: "i \<in> set (old_run_ids before db)" using assms by (cases "old_run_ids before db") auto
  then have "i \<in> run_id ` set (runs db)" by (auto simp: old_run_ids_def dest!: in_set_takeD)
  with i have "0 < affected (\<lambda>r. run_id r \<in> set (old_run_ids before db)) (runs db)"
    by (auto simp: affected_pos)
  then show ?thesis
    using affected_delete [of "\<lambda>r. run_id r \<in> set (old_run_ids before db)" "runs db"]
    by (simp add: prune_batch_def delete_runs_where_def)
qed

function prune_run_logs :: "int \<Rightarrow> nat \<Rightarrow> db \<Rightarrow> nat \<times> db" where
  "prune_run_logs before n db =
     (let ids = old_run_ids before db in
      if ids = [] then (n, db)
      else let db1 = prune_batch ids db; n = n + length ids in
        if length ids < BATCH then (n, db1) else prune_run_logs before n db1)"
  by pat_completeness auto
termination
  by (relation "measure (\<lambda>(_, _, db). length (runs db))") (auto intro: old_run_ids_shrink)

declare prune_run_logs.simps [simp del]

end
