(* ===== verification/RunQueueProps.thy ===== *)
theory RunQueueProps
  imports RunQueue
begin

text \<open>
  What the run queue keeps.  \<open>queue_ok\<close> is its invariant; the locale \<open>run_update\<close> says what an
  \<open>UPDATE runs\<close> has to respect and is interpreted on each of the eight updates of the store; the lease
  lock \<open>lock_step\<close> is the specification that the calls refine, task by task.
\<close>

section \<open>Invariant\<close>

definition masked :: "ustr option \<Rightarrow> bool" where
  "masked x \<longleftrightarrow> x \<in> range (map_option redact)"

definition row_ok :: "run_row \<Rightarrow> bool" where
  "row_ok r \<longleftrightarrow> (lease_held (run_status r) \<longleftrightarrow> lease_owner r \<noteq> None)
     \<and> (lease_owner r = None \<longleftrightarrow> lease_expires_at r = None)
     \<and> (active (run_status r) \<longleftrightarrow> run_finished_at r = None)
     \<and> (cancel_requested r \<longrightarrow> run_status r \<in> {Leased, Running, Cancelled})
     \<and> (run_status r = Cancelled \<longrightarrow> cancel_requested r)
     \<and> (run_status r = Running \<longrightarrow> run_started_at r \<noteq> None)
     \<and> 0 \<le> attempt r \<and> (lease_held (run_status r) \<longrightarrow> 0 < attempt r)
     \<and> (run_error r \<noteq> None \<longrightarrow> run_status r \<in> {Failed, Cancelled}) \<and> (run_status r = Failed \<longrightarrow> run_error r \<noteq> None)
     \<and> masked (run_error r) \<and> masked (run_log r) \<and> masked (failure_trace r)"

definition one_active :: "run_row list \<Rightarrow> bool" where
  "one_active rs \<longleftrightarrow> (\<forall>r\<in>set rs. \<forall>q\<in>set rs. run_task_id r = run_task_id q \<and> active (run_status r)
     \<and> active (run_status q) \<longrightarrow> r = q)"

definition steps_ok :: "db \<Rightarrow> bool" where
  "steps_ok db \<longleftrightarrow> distinct (map (\<lambda>s. (step_run_id s, step_index s)) (steps db))
     \<and> (\<forall>s\<in>set (steps db). masked (step_error s))
     \<and> (foreign_keys db \<longrightarrow> (\<forall>s\<in>set (steps db). run_exists db (step_run_id s)))"

definition queue_ok :: "db \<Rightarrow> bool" where
  "queue_ok db \<longleftrightarrow> keyed run_id (next_run db) (runs db) \<and> (\<forall>r\<in>set (runs db). row_ok r)
     \<and> one_active (runs db) \<and> steps_ok db"

lemmas status_simps = active_def lease_held_def lease_expired_def claimable_def

lemma masked_redact [simp]: "masked None" "masked (Some (redact s))" "masked (map_option redact x)"
  by (auto simp: masked_def image_iff intro: exI [of _ None] exI [of _ "Some s"])

section \<open>The lease lock of a task\<close>

datatype lock = Free | Queued int | Held int ustr int

inductive lock_step :: "int \<Rightarrow> lock \<Rightarrow> lock \<Rightarrow> bool" for now where
  stay: "lock_step now a a"
| request: "lock_step now Free (Queued i)"
| grab: "now < e \<Longrightarrow> lock_step now (Queued i) (Held i w e)"
| steal: "e \<le> now \<Longrightarrow> now < e2 \<Longrightarrow> lock_step now (Held i w e) (Held i w2 e2)"
| renew: "now < e2 \<Longrightarrow> lock_step now (Held i w e) (Held i w e2)"
| requeue: "e \<le> now \<Longrightarrow> lock_step now (Held i w e) (Queued i)"
| release: "lock_step now a Free"

inductive_cases held_cases [elim]: "lock_step now (Held i w e) b"

inductive_simps lock_simps [simp]:
  "lock_step now (Held i w e) (Held j w2 e2)"
  "lock_step now (Held i w e) (Queued j)"
  "lock_step now (Queued i) (Held j w e)"
  "lock_step now (Queued i) (Queued j)"
  "lock_step now Free (Queued j)"
  "lock_step now a Free"

definition row_lock :: "run_row \<Rightarrow> lock" where
  "row_lock r = (case run_status r of Pending \<Rightarrow> Queued (run_id r)
     | Leased \<Rightarrow> Held (run_id r) (the (lease_owner r)) (the (lease_expires_at r))
     | Running \<Rightarrow> Held (run_id r) (the (lease_owner r)) (the (lease_expires_at r))
     | _ \<Rightarrow> Free)"

definition task_lock :: "db \<Rightarrow> int \<Rightarrow> lock" where
  "task_lock db tid = (case find (\<lambda>r. run_task_id r = tid \<and> active (run_status r)) (runs db) of
      None \<Rightarrow> Free | Some r \<Rightarrow> row_lock r)"

lemma row_lock_inactive: "\<not> active (run_status r) \<Longrightarrow> row_lock r = Free"
  by (cases "run_status r") (simp_all add: row_lock_def active_def)

lemma task_lock_row:
  assumes "one_active (runs db)" "r \<in> set (runs db)" "active (run_status r)"
  shows "task_lock db (run_task_id r) = row_lock r"
proof (cases "find (\<lambda>q. run_task_id q = run_task_id r \<and> active (run_status q)) (runs db)")
  case None
  with assms show ?thesis by (auto simp: find_None_iff)
next
  case (Some q)
  then have "q \<in> set (runs db)" "run_task_id q = run_task_id r" "active (run_status q)"
    by (auto simp: find_Some_iff)
  with assms have "q = r" by (auto simp: one_active_def)
  with Some show ?thesis by (simp add: task_lock_def)
qed

lemma task_lock_Free: "(\<And>r. r \<in> set (runs db) \<Longrightarrow> run_task_id r = tid \<Longrightarrow> \<not> active (run_status r)) \<Longrightarrow> task_lock db tid = Free"
  by (auto simp: task_lock_def find_None_iff split: option.splits dest: find_Some_iff [THEN iffD1])

lemma task_lock_cases:
  obtains "task_lock db tid = Free" "\<And>r. r \<in> set (runs db) \<Longrightarrow> run_task_id r = tid \<Longrightarrow> \<not> active (run_status r)"
  | r where "r \<in> set (runs db)" "run_task_id r = tid" "active (run_status r)" "task_lock db tid = row_lock r"
proof (cases "find (\<lambda>r. run_task_id r = tid \<and> active (run_status r)) (runs db)")
  case None
  then have "task_lock db tid = Free" by (simp add: task_lock_def)
  with None show ?thesis by (intro that(1)) (auto simp: find_None_iff)
next
  case (Some r)
  then have "r \<in> set (runs db)" "run_task_id r = tid" "active (run_status r)" by (auto simp: find_Some_iff)
  with Some show ?thesis using that(2) by (simp add: task_lock_def)
qed

section \<open>Updates of the run table\<close>

text \<open>What a finished run reports.\<close>

definition verdict :: "run_row \<Rightarrow> run_status \<times> int option \<times> ustr option \<times> int option" where
  "verdict r = (run_status r, run_http_status r, run_error r, run_finished_at r)"

locale run_update =
  fixes now :: int and P :: "run_row \<Rightarrow> bool" and f :: "run_row \<Rightarrow> run_row"
  assumes same_id: "P r \<Longrightarrow> run_id (f r) = run_id r"
    and same_task: "P r \<Longrightarrow> run_task_id (f r) = run_task_id r"
    and row: "row_ok r \<Longrightarrow> P r \<Longrightarrow> row_ok (f r)"
    and not_revived: "P r \<Longrightarrow> active (run_status (f r)) \<Longrightarrow> active (run_status r)"
    and verdict_kept: "P r \<Longrightarrow> \<not> active (run_status r) \<Longrightarrow> verdict (f r) = verdict r"
    and lease: "row_ok r \<Longrightarrow> P r \<Longrightarrow> lock_step now (row_lock r) (row_lock (f r))"
begin

lemma runs_after: "runs (snd (update_runs P f db)) = map (\<lambda>r. if P r then f r else r) (runs db)"
  by (simp add: update_runs_def update_where_def)

lemma run_exists_after: "run_exists (snd (update_runs P f db)) rid = run_exists db rid"
proof -
  have "run_id (if P r then f r else r) = run_id r" for r by (simp add: same_id)
  then show ?thesis by (simp only: run_exists_def runs_after list_ex_iff set_map bex_simps)
qed

lemma one_active_after: "one_active (runs db) \<Longrightarrow> one_active (runs (snd (update_runs P f db)))"
proof -
  assume a: "one_active (runs db)"
  have t: "run_task_id (if P r then f r else r) = run_task_id r" for r by (simp add: same_task)
  have v: "active (run_status (if P r then f r else r)) \<Longrightarrow> active (run_status r)" for r
    by (cases "P r") (simp_all add: not_revived)
  have "(if P r then f r else r) = (if P q then f q else q)"
    if "r \<in> set (runs db)" "q \<in> set (runs db)" "run_task_id (if P r then f r else r) = run_task_id (if P q then f q else q)"
      "active (run_status (if P r then f r else r))" "active (run_status (if P q then f q else q))" for r q
  proof -
    have "r = q" using a that(1,2) v [OF that(4)] v [OF that(5)] that(3) unfolding one_active_def t by blast
    then show ?thesis by simp
  qed
  then show ?thesis unfolding one_active_def runs_after set_map by blast
qed

lemma queue_ok_after: "queue_ok db \<Longrightarrow> queue_ok (snd (update_runs P f db))"
  unfolding queue_ok_def
proof (elim conjE, intro conjI)
  assume k: "keyed run_id (next_run db) (runs db)" and r: "\<forall>r\<in>set (runs db). row_ok r"
    and a: "one_active (runs db)" and st: "steps_ok db"
  show "keyed run_id (next_run (snd (update_runs P f db))) (runs (snd (update_runs P f db)))"
    using keyed_update [OF same_id k] by (simp add: update_runs_def)
  show "\<forall>r\<in>set (runs (snd (update_runs P f db))). row_ok r" using r by (auto simp: runs_after row)
  show "one_active (runs (snd (update_runs P f db)))" using a by (rule one_active_after)
  show "steps_ok (snd (update_runs P f db))"
    using st by (simp add: steps_ok_def run_exists_after) (simp add: update_runs_def)
qed

lemma verdicts_after:
  assumes "r \<in> set (runs db)" "\<not> active (run_status r)"
  shows "\<exists>q\<in>set (runs (snd (update_runs P f db))). run_id q = run_id r \<and> verdict q = verdict r"
  using assms by (intro bexI [of _ "if P r then f r else r"]) (auto simp: runs_after same_id verdict_kept)

lemma lease_after:
  assumes ok: "queue_ok db"
  shows "lock_step now (task_lock db tid) (task_lock (snd (update_runs P f db)) tid)"
proof (cases rule: task_lock_cases [of "snd (update_runs P f db)" tid])
  case 1
  then show ?thesis by (simp add: lock_step.release)
next
  case (2 q)
  then obtain r where r: "r \<in> set (runs db)" "q = (if P r then f r else r)" by (auto simp: runs_after)
  then have t: "run_task_id r = tid" "active (run_status r)"
    using 2 by (auto simp: same_task not_revived split: if_splits)
  have "task_lock db tid = row_lock r" using task_lock_row [of db r] ok r(1) t by (simp add: queue_ok_def)
  moreover have "row_ok r" using ok r(1) by (simp add: queue_ok_def)
  ultimately show ?thesis using 2(4) r(2) lease by (auto intro: lock_step.stay)
qed

end

interpretation claim: run_update now "\<lambda>r. run_id r = rid \<and> claimable now r"
  "\<lambda>r. r\<lparr>run_status := Leased, lease_owner := Some worker, lease_expires_at := Some (now + max secs 1), attempt := attempt r + 1\<rparr>"
  for now rid worker secs
  by (unfold_locales; case_tac "run_status r"; auto simp: row_ok_def status_simps verdict_def row_lock_def split: option.splits)

interpretation start: run_update now "\<lambda>r. run_id r = rid \<and> run_status r = Leased \<and> lease_owner r = Some worker \<and> \<not> cancel_requested r"
  "\<lambda>r. r\<lparr>run_status := Running, run_started_at := Some now\<rparr>"
  for now rid worker
  by (unfold_locales; case_tac "run_status r"; auto simp: row_ok_def status_simps verdict_def row_lock_def split: option.splits)

interpretation renewal: run_update now "\<lambda>r. run_id r = rid \<and> lease_held (run_status r) \<and> lease_owner r = Some worker"
  "\<lambda>r. r\<lparr>lease_expires_at := Some (now + max secs 1)\<rparr>"
  for now rid worker secs
  by (unfold_locales; case_tac "run_status r"; auto simp: row_ok_def status_simps verdict_def row_lock_def split: option.splits)

interpretation cancellation: run_update now "\<lambda>r. run_id r = rid \<and> active (run_status r)"
  "\<lambda>r. r\<lparr>run_status := if run_status r = Pending then Cancelled else run_status r, cancel_requested := True,
     run_finished_at := if run_status r = Pending then Some now else run_finished_at r\<rparr>"
  for now rid
  by (unfold_locales; case_tac "run_status r"; auto simp: row_ok_def status_simps verdict_def row_lock_def split: option.splits)

interpretation recovery: run_update now "lease_expired now"
  "\<lambda>r. r\<lparr>run_status := if cancel_requested r then Cancelled else Pending, lease_owner := None,
     lease_expires_at := None, run_finished_at := if cancel_requested r then Some now else run_finished_at r\<rparr>"
  for now
  by (unfold_locales; case_tac "run_status r"; auto simp: row_ok_def status_simps verdict_def row_lock_def split: option.splits)

interpretation finish: run_update now "\<lambda>r. run_id r = rid \<and> lease_held (run_status r)"
  "\<lambda>r. r\<lparr>run_status := if cancel_requested r then Cancelled else if err \<noteq> None then Failed else Succeeded,
     run_http_status := http, run_error := map_option redact err, run_finished_at := Some now,
     lease_owner := None, lease_expires_at := None\<rparr>"
  for now rid http err
  by (unfold_locales; case_tac "run_status r"; auto simp: row_ok_def status_simps verdict_def row_lock_def split: option.splits)

text \<open>The two texts stored after the fact touch neither the life cycle nor the verdict.\<close>

interpretation log_text: run_update now "\<lambda>r. run_id r = rid" "\<lambda>r. r\<lparr>run_log := Some (redact msg)\<rparr>"
  for now rid msg
  by (unfold_locales; case_tac "run_status r"; auto simp: row_ok_def status_simps verdict_def row_lock_def split: option.splits)

interpretation trace_text: run_update now P "\<lambda>r. r\<lparr>failure_trace := map_option redact tr\<rparr>"
  for now P tr
  by (unfold_locales; case_tac "run_status r"; auto simp: row_ok_def status_simps verdict_def row_lock_def split: option.splits)

section \<open>Insertions and deletions\<close>

lemma find_append: "find P (xs @ ys) = (case find P xs of None \<Rightarrow> find P ys | Some x \<Rightarrow> Some x)"
  by (induction xs) simp_all

lemma snd_insert_unless_active:
  "snd (insert_unless_active r db) =
     (if (\<exists>x\<in>set (runs db). run_task_id x = run_task_id r \<and> active (run_status x))
         \<or> foreign_keys db \<and> \<not> task_exists db (run_task_id r) then db
      else db\<lparr>runs := runs db @ [r\<lparr>run_id := next_run db\<rparr>], next_run := next_run db + 1\<rparr>)"
  by (simp add: insert_unless_active_def insert_run_def list_ex_iff)

lemma insert_unless_active_cases:
  obtains "snd (insert_unless_active r db) = db"
  | "\<And>x. x \<in> set (runs db) \<Longrightarrow> run_task_id x = run_task_id r \<Longrightarrow> \<not> active (run_status x)"
    "snd (insert_unless_active r db) = db\<lparr>runs := runs db @ [r\<lparr>run_id := next_run db\<rparr>], next_run := next_run db + 1\<rparr>"
proof (cases "(\<exists>x\<in>set (runs db). run_task_id x = run_task_id r \<and> active (run_status x))
         \<or> foreign_keys db \<and> \<not> task_exists db (run_task_id r)")
  case True
  then show ?thesis using that(1) by (simp add: snd_insert_unless_active)
next
  case False
  then show ?thesis using that(2) by (auto simp: snd_insert_unless_active)
qed

lemma queue_ok_insert [inv_intros]:
  assumes "queue_ok db" "row_ok r"
  shows "queue_ok (snd (insert_unless_active r db))"
proof (cases rule: insert_unless_active_cases [of r db])
  case 2
  have "row_ok (r\<lparr>run_id := next_run db\<rparr>)" using assms(2) by (auto simp: row_ok_def)
  moreover have "one_active (runs db @ [r\<lparr>run_id := next_run db\<rparr>])"
    using assms(1) 2(1) by (auto simp: queue_ok_def one_active_def)
  moreover have "keyed run_id (next_run db + 1) (runs db @ [r\<lparr>run_id := next_run db\<rparr>])"
    using assms(1) by (intro keyed_insert) (simp_all add: queue_ok_def)
  ultimately show ?thesis
    using assms(1) unfolding 2(2) by (auto simp: queue_ok_def steps_ok_def run_exists_def list_ex_iff)
qed (simp add: assms)

lemma lease_insert [inv_intros]:
  assumes "queue_ok db" "run_status r = Pending"
  shows "lock_step now (task_lock db tid) (task_lock (snd (insert_unless_active r db)) tid)"
proof (cases rule: insert_unless_active_cases [of r db])
  case 2
  then show ?thesis
  proof (cases "run_task_id r = tid")
    case True
    then have "find (\<lambda>x. run_task_id x = tid \<and> active (run_status x)) (runs db) = None"
      using 2(1) by (auto simp: find_None_iff)
    then have "task_lock db tid = Free"
      "task_lock (snd (insert_unless_active r db)) tid = Queued (next_run db)"
      unfolding 2(2) using True assms(2) by (simp_all add: task_lock_def find_append active_def row_lock_def)
    then show ?thesis by simp
  next
    case False
    then have "task_lock (snd (insert_unless_active r db)) tid = task_lock db tid"
      unfolding 2(2) by (simp add: task_lock_def find_append split: option.splits)
    then show ?thesis by (simp add: lock_step.stay)
  qed
qed (simp add: lock_step.stay)

lemma row_ok_new [simp]: "row_ok (new_run rid tid now)"
  "row_ok ((new_run rid tid now)\<lparr>run_trigger := trig\<rparr>)"
  "row_ok ((new_run rid tid now)\<lparr>run_after := ra, run_trigger := trig\<rparr>)"
  "row_ok ((new_run rid tid now)\<lparr>run_after := ra, retry_of := ro, run_trigger := trig\<rparr>)"
  by (simp_all add: row_ok_def new_run_def status_simps)

lemma queue_ok_delete [inv_intros]:
  assumes ok: "queue_ok db"
    and S: "\<And>r s. r \<in> set (runs db) \<Longrightarrow> R r \<Longrightarrow> s \<in> set (steps db) \<Longrightarrow> step_run_id s = run_id r \<Longrightarrow> S s"
  shows "queue_ok (snd (delete_runs_where R D S db))"
proof -
  have k: "keyed run_id (next_run db) (delete_where R (runs db))"
    using ok by (intro keyed_delete) (simp add: queue_ok_def)
  have e: "\<exists>r\<in>set (runs db). run_id r = step_run_id s \<and> \<not> R r"
    if s: "foreign_keys db" "s \<in> set (steps db)" "\<not> S s" for s
  proof -
    obtain r where "r \<in> set (runs db)" "run_id r = step_run_id s"
      using ok s(1,2) by (auto simp: queue_ok_def steps_ok_def run_exists_def list_ex_iff)
    with S [of r s] s show ?thesis by auto
  qed
  have d: "distinct (map (\<lambda>s. (step_run_id s, step_index s)) (delete_where S (steps db)))"
    using ok by (simp add: queue_ok_def steps_ok_def delete_where_def distinct_map_filter)
  show ?thesis
    using ok k d by (auto simp: queue_ok_def steps_ok_def delete_runs_where_def one_active_def run_exists_def
        list_ex_iff dest!: e)
qed

lemma lease_subset:
  assumes "one_active (runs db)" "set (runs db2) \<subseteq> set (runs db)"
  shows "lock_step now (task_lock db tid) (task_lock db2 tid)"
proof (cases rule: task_lock_cases [of db2 tid])
  case (2 r)
  have "r \<in> set (runs db)" using 2(1) assms(2) by blast
  with 2 assms(1) task_lock_row [of db r] show ?thesis by (auto intro: lock_step.stay)
qed simp

lemma runs_deleted: "set (runs (snd (delete_runs_where R D S db))) \<subseteq> set (runs db)"
  by (auto simp: delete_runs_where_def)

section \<open>Calls\<close>

inductive queue_step :: "int \<Rightarrow> db \<Rightarrow> db \<Rightarrow> bool" for now where
  enqueue: "queue_step now db (snd (enqueue_run_with_trigger now tid trig db))"
| delayed: "queue_step now db (snd (enqueue_delayed_run now tid secs db))"
| retry: "queue_step now db (snd (schedule_retry now tid original secs db))"
| claim: "queue_step now db (snd (claim_update now worker (now + max secs 1) rid db))"
| start: "queue_step now db (snd (start_leased_run now rid worker db))"
| renew: "queue_step now db (snd (renew_run now rid worker secs db))"
| cancel: "queue_step now db (snd (cancel_run now rid db))"
| recover: "queue_step now db (snd (recover_expired_runs now db))"
| finish: "queue_step now db (finish_run now rid http err db)"
| run_log: "queue_step now db (record_run_log rid msg db)"
| trace: "queue_step now db (record_latest_failed_run_trace tid rid tr db)"
| last_run: "queue_step now db (record_run now tid http err db)"
| run_step: "queue_step now db (snd (record_run_step s db))"
| delete_run: "queue_step now db (snd (delete_run rid db))"
| delete_owner: "queue_step now db (snd (delete_runs_for_owner owner db))"
| delete_all: "queue_step now db (snd (delete_all_runs db))"
| delete_runs_of: "queue_step now db (snd (delete_runs_for_task tid db))"
| delete_task: "queue_step now db (snd (delete_task_rows tid mine db))"
| prune: "queue_step now db (prune_batch (old_run_ids before db) db)"
| other: "queue_step now db (db\<lparr>tasks := ts, channels := cs, next_channel := nc, actions := bs, next_action := na,
     deliveries := ds, next_delivery := nd\<rparr>)"

inductive reachable :: "db \<Rightarrow> bool" where
  init: "reachable (empty_db fk ts)"
| call: "reachable db \<Longrightarrow> queue_step now db db2 \<Longrightarrow> reachable db2"

lemmas enqueue_defs = enqueue_run_with_trigger_def enqueue_delayed_run_def schedule_retry_def

text \<open>A call is an insertion, one of the updates, a deletion, or leaves the runs alone.\<close>

lemma snd_split_if: "snd (let (n, d) = x in (f n, d)) = snd x"
  by (simp add: split_beta)

lemmas update_call_defs = claim_update_def start_leased_run_def renew_run_def cancel_run_def
  recover_expired_runs_def finish_run_def record_run_log_def snd_split_if Let_def

lemma snd_delete_run: "snd (delete_run rid db) =
    snd (delete_runs_where (\<lambda>r. run_id r = rid) (\<lambda>d. delivery_run_id d = rid) (\<lambda>s. step_run_id s = rid) db)"
  by (simp add: delete_run_def split_beta)

lemmas delete_call_defs = snd_delete_run delete_runs_for_owner_def delete_all_runs_def delete_runs_for_task_def
  prune_batch_def snd_split_if Let_def

lemma queue_ok_step:
  assumes "queue_step now db db2" "queue_ok db"
  shows "queue_ok db2"
  using assms
proof (induction rule: queue_step.induct)
  case (claim db worker secs rid)
  then show ?case unfolding claim_update_def by (rule claim.queue_ok_after)
next
  case (start db rid worker)
  then show ?case unfolding start_leased_run_def snd_split_if by (rule start.queue_ok_after)
next
  case (renew db rid worker secs)
  then show ?case unfolding renew_run_def snd_split_if by (rule renewal.queue_ok_after)
next
  case (cancel db rid)
  then show ?case unfolding cancel_run_def snd_split_if by (rule cancellation.queue_ok_after)
next
  case recover
  then show ?case unfolding recover_expired_runs_def by (rule recovery.queue_ok_after)
next
  case (finish db rid http err)
  then show ?case unfolding finish_run_def Let_def by (rule finish.queue_ok_after)
next
  case (run_log db rid msg)
  then show ?case unfolding record_run_log_def by (rule log_text.queue_ok_after)
next
  case (trace db tid rid tr)
  then show ?case unfolding record_latest_failed_run_trace_def
    using trace_text.queue_ok_after [where tr = None] trace_text.queue_ok_after [where tr = "Some tr"] by simp
next
  case (run_step db s)
  then show ?case by (auto simp: record_run_step_def queue_ok_def steps_ok_def list_ex_iff run_exists_def)
next
  case (delete_run db rid)
  then show ?case by (auto simp: delete_call_defs intro: queue_ok_delete)
next
  case (delete_owner db owner)
  then show ?case unfolding delete_runs_for_owner_def Let_def
    by (auto simp: run_in_def list_ex_iff intro!: queue_ok_delete)
next
  case delete_all
  then show ?case by (auto simp: delete_call_defs intro: queue_ok_delete)
next
  case (delete_runs_of db tid)
  then show ?case unfolding delete_runs_for_task_def by (auto simp: run_in_def list_ex_iff intro!: queue_ok_delete)
next
  case (delete_task db tid mine)
  have "queue_ok (snd (delete_runs_for_task tid db))"
    unfolding delete_runs_for_task_def using delete_task by (auto simp: run_in_def list_ex_iff intro!: queue_ok_delete)
  with delete_task show ?case
    by (auto simp: delete_task_rows_def split_beta Let_def queue_ok_def steps_ok_def run_exists_def)
next
  case (prune db before)
  then show ?case by (auto simp: delete_call_defs intro: queue_ok_delete)
next
  case (last_run db t http err)
  then show ?case by (simp add: record_run_def queue_ok_def steps_ok_def run_exists_def)
next
  case (other db)
  then show ?case by (simp add: queue_ok_def steps_ok_def run_exists_def)
qed (simp_all add: enqueue_defs queue_ok_insert)

lemma reachable_ok: "reachable db \<Longrightarrow> queue_ok db"
proof (induction rule: reachable.induct)
  case (init fk ts)
  then show ?case by (simp add: empty_db_def queue_ok_def one_active_def steps_ok_def)
qed (rule queue_ok_step)

lemma snd_delete_task: "set (runs (snd (delete_task_rows tid mine db))) \<subseteq> set (runs db)"
  by (auto simp: delete_task_rows_def delete_runs_for_task_def delete_runs_where_def Let_def split_beta)

lemma find_map_conv: "find P (map g xs) = map_option g (find (\<lambda>x. P (g x)) xs)"
  by (induction xs) simp_all

lemma lease_same: "runs db2 = runs db \<Longrightarrow> lock_step now (task_lock db tid) (task_lock db2 tid)"
  by (simp add: task_lock_def lock_step.stay)

lemma queue_ok_one_active: "queue_ok db \<Longrightarrow> one_active (runs db)"
  by (simp add: queue_ok_def)

lemma lease_two_updates:
  assumes "queue_ok db"
  shows "lock_step now (task_lock db tid) (task_lock (record_latest_failed_run_trace t rid tr db) tid)"
proof -
  let ?db1 = "snd (update_runs (\<lambda>r. run_task_id r = t \<and> run_id r \<noteq> rid) (\<lambda>r. r\<lparr>failure_trace := None\<rparr>) db)"
  let ?db2 = "record_latest_failed_run_trace t rid tr db"
  have ids: "map (\<lambda>r. (run_task_id r, active (run_status r), row_lock r)) (runs ?db2) =
      map (\<lambda>r. (run_task_id r, active (run_status r), row_lock r)) (runs db)"
    by (simp add: record_latest_failed_run_trace_def update_runs_def update_where_def row_lock_def cong: run_status.case_cong)
  have "task_lock d tid = (case find (\<lambda>(k, a, l). k = tid \<and> a) (map (\<lambda>r. (run_task_id r, active (run_status r), row_lock r)) (runs d)) of
      None \<Rightarrow> Free | Some (_, _, l) \<Rightarrow> l)" for d
    unfolding task_lock_def find_map_conv by (auto split: option.splits)
  then show ?thesis using ids by (simp add: lock_step.stay)
qed

lemma lease_step:
  assumes "queue_step now db db2" "queue_ok db"
  shows "lock_step now (task_lock db tid) (task_lock db2 tid)"
  using assms
proof (induction rule: queue_step.induct)
  case (claim db worker secs rid)
  then show ?case unfolding claim_update_def by (rule claim.lease_after)
next
  case (start db rid worker)
  then show ?case unfolding start_leased_run_def snd_split_if by (rule start.lease_after)
next
  case (renew db rid worker secs)
  then show ?case unfolding renew_run_def snd_split_if by (rule renewal.lease_after)
next
  case (cancel db rid)
  then show ?case unfolding cancel_run_def snd_split_if by (rule cancellation.lease_after)
next
  case (recover db)
  then show ?case unfolding recover_expired_runs_def by (rule recovery.lease_after)
next
  case (finish db rid http err)
  then show ?case unfolding finish_run_def Let_def by (rule finish.lease_after)
next
  case (run_log db rid msg)
  then show ?case unfolding record_run_log_def by (rule log_text.lease_after)
next
  case (trace db t rid tr)
  then show ?case by (intro lease_two_updates)
next
  case (delete_task db t mine)
  then show ?case by (intro lease_subset snd_delete_task queue_ok_one_active)
next
  case (run_step db s)
  then show ?case by (intro lease_same) (simp add: record_run_step_def)
next
  case (last_run db t http err)
  then show ?case by (intro lease_same) (simp add: record_run_def)
next
  case (other db)
  then show ?case by (intro lease_same) simp
qed (auto simp: enqueue_defs delete_call_defs new_run_def
    intro!: lease_subset runs_deleted lease_insert queue_ok_one_active)


section \<open>Verdicts\<close>

lemma verdict_trace:
  assumes "r \<in> set (runs db)"
  shows "\<exists>q\<in>set (runs (snd (update_runs P (\<lambda>r. r\<lparr>failure_trace := tr\<rparr>) db))). run_id q = run_id r \<and> verdict q = verdict r"
  using assms by (intro bexI [of _ "if P r then r\<lparr>failure_trace := tr\<rparr> else r"])
    (auto simp: update_runs_def update_where_def verdict_def)

lemma verdict_two_updates:
  assumes "r \<in> set (runs db)"
  shows "\<exists>q\<in>set (runs (record_latest_failed_run_trace t rid tr db)). run_id q = run_id r \<and> verdict q = verdict r"
proof -
  obtain q where q: "q \<in> set (runs (snd (update_runs (\<lambda>r. run_task_id r = t \<and> run_id r \<noteq> rid)
      (\<lambda>r. r\<lparr>failure_trace := None\<rparr>) db)))" "run_id q = run_id r" "verdict q = verdict r"
    using verdict_trace [OF assms] by blast
  show ?thesis unfolding record_latest_failed_run_trace_def using verdict_trace [OF q(1)] q(2,3) by simp
qed

lemma verdict_insert: "r \<in> set (runs db) \<Longrightarrow> r \<in> set (runs (snd (insert_unless_active x db)))"
  by (simp add: snd_insert_unless_active)

lemma runs_kept_or_deleted:
  assumes "set (runs db2) \<subseteq> set (runs db)" "queue_ok db" "r \<in> set (runs db)"
  shows "(\<forall>q\<in>set (runs db2). run_id q \<noteq> run_id r) \<or> r \<in> set (runs db2)"
  using assms keyed_eq [of run_id "next_run db" "runs db"] by (auto simp: queue_ok_def)

lemma verdict_step:
  assumes "queue_step now db db2" "queue_ok db" "r \<in> set (runs db)" "\<not> active (run_status r)"
  shows "(\<forall>q\<in>set (runs db2). run_id q \<noteq> run_id r) \<or> (\<exists>q\<in>set (runs db2). run_id q = run_id r \<and> verdict q = verdict r)"
  using assms
proof (induction rule: queue_step.induct)
  case (claim db worker secs rid)
  then show ?case unfolding claim_update_def by (intro disjI2 claim.verdicts_after)
next
  case (start db rid worker)
  then show ?case unfolding start_leased_run_def snd_split_if by (intro disjI2 start.verdicts_after)
next
  case (renew db rid worker secs)
  then show ?case unfolding renew_run_def snd_split_if by (intro disjI2 renewal.verdicts_after)
next
  case (cancel db rid)
  then show ?case unfolding cancel_run_def snd_split_if by (intro disjI2 cancellation.verdicts_after)
next
  case (recover db)
  then show ?case unfolding recover_expired_runs_def by (intro disjI2 recovery.verdicts_after)
next
  case (finish db rid http err)
  then show ?case unfolding finish_run_def Let_def by (intro disjI2 finish.verdicts_after)
next
  case (run_log db rid msg)
  then show ?case unfolding record_run_log_def by (intro disjI2 log_text.verdicts_after)
next
  case (trace db t rid tr)
  then show ?case by (intro disjI2 verdict_two_updates)
next
  case (run_step db s)
  then show ?case by (auto simp: record_run_step_def)
next
  case (last_run db t http err)
  then show ?case by (auto simp: record_run_def)
next
  case (delete_task db t mine)
  with runs_kept_or_deleted [OF snd_delete_task delete_task(1,2)] show ?case by blast
next
  case (delete_run db rid)
  with runs_kept_or_deleted [OF runs_deleted delete_run(1,2)] show ?case unfolding delete_call_defs by blast
next
  case (delete_owner db owner)
  with runs_kept_or_deleted [OF runs_deleted delete_owner(1,2)] show ?case unfolding delete_call_defs by blast
next
  case (delete_all db)
  with runs_kept_or_deleted [OF runs_deleted delete_all(1,2)] show ?case unfolding delete_call_defs by blast
next
  case (delete_runs_of db t)
  with runs_kept_or_deleted [OF runs_deleted delete_runs_of(1,2)] show ?case unfolding delete_call_defs by blast
next
  case (prune db before)
  with runs_kept_or_deleted [OF runs_deleted prune(1,2)] show ?case unfolding delete_call_defs by blast
qed (auto simp: enqueue_defs intro: verdict_insert)

section \<open>Claims\<close>

lemma sort_key_head:
  fixes k :: "'a \<Rightarrow> 'k :: linorder"
  assumes "sort_key k xs = x # ys"
  shows "x \<in> set xs" "\<forall>y\<in>set xs. k x \<le> k y"
proof -
  have "set (sort_key k xs) = set xs" by simp
  then show "x \<in> set xs" using assms by auto
  have "sorted (map k (x # ys))" using sorted_sort_key [of k xs] assms by simp
  then show "\<forall>y\<in>set xs. k x \<le> k y" using assms \<open>set (sort_key k xs) = set xs\<close> by auto
qed

lemma claim_select_None:
  "claim_select now db = None \<longleftrightarrow> \<not> (\<exists>r\<in>set (runs db). claimable now r \<and> due_run now r)"
proof -
  have "set (sort_key (claim_key db) (filter (\<lambda>r. claimable now r \<and> due_run now r) (runs db)))
      = {r \<in> set (runs db). claimable now r \<and> due_run now r}" by simp
  then show ?thesis unfolding claim_select_def
    by (cases "sort_key (claim_key db) (filter (\<lambda>r. claimable now r \<and> due_run now r) (runs db))") auto
qed

lemma claim_select_Some:
  assumes "claim_select now db = Some i"
  obtains r where "r \<in> set (runs db)" "run_id r = i" "claimable now r" "due_run now r"
    "\<And>q. q \<in> set (runs db) \<Longrightarrow> claimable now q \<Longrightarrow> due_run now q \<Longrightarrow> claim_key db r \<le> claim_key db q"
proof -
  obtain r rs where s: "sort_key (claim_key db) (filter (\<lambda>r. claimable now r \<and> due_run now r) (runs db)) = r # rs"
      "run_id r = i"
    using assms by (auto simp: claim_select_def split: list.splits)
  show ?thesis using that [of r] sort_key_head [OF s(1)] s(2) by auto
qed

lemma filter_only: "distinct xs \<Longrightarrow> r \<in> set xs \<Longrightarrow> filter (\<lambda>q. q = r) xs = [r]"
  by (induction xs) (auto simp: filter_empty_conv)

text \<open>The row that a claim leaves in place of \<open>r\<close>.\<close>

definition claimed :: "int \<Rightarrow> ustr \<Rightarrow> int \<Rightarrow> run_row \<Rightarrow> run_row" where
  "claimed now worker secs r = r\<lparr>run_status := Leased, lease_owner := Some worker,
     lease_expires_at := Some (now + max secs 1), attempt := attempt r + 1\<rparr>"

lemma claim_update_row:
  assumes "queue_ok db" "r \<in> set (runs db)" "claimable now r"
  shows "claim_update now worker (now + max secs 1) (run_id r) db
    = (1, db\<lparr>runs := map (\<lambda>q. if q = r then claimed now worker secs r else q) (runs db)\<rparr>)"
proof -
  have k: "keyed run_id (next_run db) (runs db)" using assms(1) by (simp add: queue_ok_def)
  have e: "(run_id q = run_id r \<and> claimable now q) = (q = r)" if "q \<in> set (runs db)" for q
    using keyed_eq [OF k that assms(2)] assms(3) by auto
  have "distinct (runs db)" using k by (auto simp: keyed_def distinct_map)
  then have "filter (\<lambda>q. q = r) (runs db) = [r]"
    using assms(2) by (rule filter_only)
  then have "affected (\<lambda>q. run_id q = run_id r \<and> claimable now q) (runs db) = 1"
    using filter_cong [OF refl e, of "runs db"] by (simp add: affected_def)
  moreover have "update_where (\<lambda>q. run_id q = run_id r \<and> claimable now q) (claimed now worker secs) (runs db)
      = map (\<lambda>q. if q = r then claimed now worker secs r else q) (runs db)"
    using e by (simp add: update_where_def)
  ultimately show ?thesis by (simp add: claim_update_def update_runs_def claimed_def [abs_def])
qed

end
