(* ===== verification/RunQueueThms.thy ===== *)
theory RunQueueThms
  imports RunQueueProps
begin

text \<open>
  The properties of the run queue, over the lemmas of \<open>RunQueueProps\<close>, and the retention sweep.
\<close>

section \<open>Retention\<close>

lemma delete_where_twice: "delete_where P (delete_where Q xs) = delete_where (\<lambda>x. Q x \<or> P x) xs"
  by (induction xs) (auto simp: delete_where_def)

lemma delete_where_cong: "(\<And>x. x \<in> set xs \<Longrightarrow> P x = Q x) \<Longrightarrow> delete_where P xs = delete_where Q xs"
  by (simp add: delete_where_def cong: filter_cong)

definition old_ids :: "int \<Rightarrow> db \<Rightarrow> int list" where
  "old_ids before db = map run_id (filter (finished_before before) (runs db))"

definition prune_result :: "int \<Rightarrow> db \<Rightarrow> db" where
  "prune_result before db = db\<lparr>deliveries := delete_where (\<lambda>d. delivery_run_id d \<in> set (old_ids before db)) (deliveries db),
     steps := delete_where (\<lambda>s. step_run_id s \<in> set (old_ids before db)) (steps db),
     runs := delete_where (finished_before before) (runs db)\<rparr>"

lemma old_run_ids_eq: "old_run_ids before db = take BATCH (sort (old_ids before db))"
  by (simp add: old_run_ids_def old_ids_def)

lemma old_run_ids_subset: "set (old_run_ids before db) \<subseteq> set (old_ids before db)"
  using set_take_subset [of BATCH "sort (old_ids before db)"] by (simp add: old_run_ids_eq)

lemma old_ids_distinct: "queue_ok db \<Longrightarrow> distinct (old_ids before db)"
  by (simp add: queue_ok_def keyed_def old_ids_def distinct_map_filter)

text \<open>An old run is known by its id.\<close>

lemma old_ids_iff:
  assumes "queue_ok db" "r \<in> set (runs db)"
  shows "run_id r \<in> set (old_ids before db) \<longleftrightarrow> finished_before before r"
  using assms keyed_eq [of run_id "next_run db" "runs db" r] by (auto simp: queue_ok_def old_ids_def)

lemma prune_batch_eq:
  "prune_batch is db = db\<lparr>deliveries := delete_where (\<lambda>d. delivery_run_id d \<in> set is) (deliveries db),
     steps := delete_where (\<lambda>s. step_run_id s \<in> set is) (steps db),
     runs := delete_where (\<lambda>r. run_id r \<in> set is) (runs db)\<rparr>"
  by (simp add: prune_batch_def delete_runs_where_def)

lemma old_ids_after:
  "old_ids before (prune_batch is db) = filter (\<lambda>i. i \<notin> set is) (old_ids before db)"
  by (simp add: prune_batch_eq old_ids_def delete_where_def filter_map o_def conj_commute)

lemma prune_result_last:
  assumes "queue_ok db" "set is = set (old_ids before db)"
  shows "prune_batch is db = prune_result before db"
  using assms old_ids_iff [OF assms(1)] by (simp add: prune_batch_eq prune_result_def cong: delete_where_cong)

lemma prune_result_step:
  assumes ok: "queue_ok db" and sub: "set is \<subseteq> set (old_ids before db)"
  shows "prune_result before (prune_batch is db) = prune_result before db"
proof -
  have "(x \<in> set is \<or> x \<in> set (old_ids before (prune_batch is db))) = (x \<in> set (old_ids before db))" for x
    using sub by (auto simp: old_ids_after)
  moreover have "delete_where (\<lambda>r. run_id r \<in> set is \<or> finished_before before r) (runs db)
      = delete_where (finished_before before) (runs db)"
    using sub old_ids_iff [OF ok] by (intro delete_where_cong) auto
  ultimately show ?thesis by (simp add: prune_result_def prune_batch_eq delete_where_twice)
qed

lemma queue_ok_prune: "queue_ok db \<Longrightarrow> queue_ok (prune_batch is db)"
  by (auto simp: delete_call_defs intro: queue_ok_delete)

lemma length_filter_notin:
  assumes "distinct xs" "distinct is" "set is \<subseteq> set xs"
  shows "length (filter (\<lambda>i. i \<notin> set is) xs) + length is = length xs"
proof -
  have "{i \<in> set xs. i \<in> set is} = set is" using assms(3) by auto
  then have "length (filter (\<lambda>i. i \<in> set is) xs) = length is"
    using assms(1,2) by (metis distinct_card distinct_filter set_filter)
  then show ?thesis using sum_length_filter_compl [of "\<lambda>i. i \<in> set is" xs] by simp
qed

lemma prune_run_logs_result:
  "queue_ok db \<Longrightarrow> prune_run_logs before n db = (n + length (old_ids before db), prune_result before db)"
proof (induction before n db rule: prune_run_logs.induct)
  case (1 before n db)
  let ?is = "old_run_ids before db"
  have d: "distinct (sort (old_ids before db))" using old_ids_distinct [OF "1.prems"] by simp
  then have di: "distinct ?is" by (simp add: old_run_ids_eq)
  have len: "length (old_ids before (prune_batch ?is db)) + length ?is = length (old_ids before db)"
    unfolding old_ids_after
    by (rule length_filter_notin [OF old_ids_distinct [OF "1.prems"] di old_run_ids_subset])
  show ?case
  proof (cases "?is = []")
    case True
    then have "old_ids before db = []" by (auto simp: old_run_ids_eq BATCH_def dest: arg_cong [of _ _ set])
    moreover from this have "prune_result before db = db"
      using prune_result_last [OF "1.prems", of "[]" before]
      by (simp add: prune_batch_eq delete_where_def)
    ultimately show ?thesis using True by (subst prune_run_logs.simps) simp
  next
    case ne: False
    show ?thesis
    proof (cases "length ?is < BATCH")
      case True
      then have "?is = sort (old_ids before db)" by (simp add: old_run_ids_eq min_def split: if_splits)
      then have "set ?is = set (old_ids before db)" "length ?is = length (old_ids before db)" by simp_all
      with prune_result_last [OF "1.prems" this(1)] ne True show ?thesis
        by (subst prune_run_logs.simps) (simp add: Let_def)
    next
      case False
      have "prune_run_logs before (n + length ?is) (prune_batch ?is db)
          = (n + length ?is + length (old_ids before (prune_batch ?is db)), prune_result before (prune_batch ?is db))"
        using "1.IH" [OF refl ne refl refl False] queue_ok_prune [OF "1.prems"] by simp
      then show ?thesis using ne False len prune_result_step [OF "1.prems" old_run_ids_subset]
        by (subst prune_run_logs.simps) (simp add: Let_def)
    qed
  qed
qed

section \<open>A small history\<close>

definition sample_task :: task_row where
  "sample_task = \<lparr>task_id = 1, task_name = lit ''t'', cron = lit ''0 * * * * *'', task_method = lit ''GET'',
     task_url = lit ''https://a'', task_headers = JObj [], task_body = None, disabled = False, task_created_at = 0,
     task_updated_at = 0, last_run_at = None, last_status = None, last_error = None, task_template_id = None,
     grp = None, timeout_seconds = None, retry_count = Some 2, retry_interval_seconds = None, priority = None,
     timezone = None, random_delay_max_seconds = None, task_variables_json = None, owner_id = Some 7\<rparr>"

text \<open>Enqueued at 0, claimed and started by A at 1 for 300 seconds; then claimed by B at 301.\<close>

definition held_by_a :: db where
  "held_by_a = snd (start_leased_run 1 1 (lit ''A'') (snd (claim_update 1 (lit ''A'') (1 + max 300 1) 1
     (snd (enqueue_run_with_trigger 0 1 (lit ''manual'') (empty_db True [sample_task]))))))"

definition held_by_b :: db where
  "held_by_b = snd (start_leased_run 301 1 (lit ''B'') (snd (claim_update 301 (lit ''B'') (301 + max 300 1) 1 held_by_a)))"

lemma reachable_held_by_a: "reachable held_by_a"
  unfolding held_by_a_def
  by (rule reachable.call [OF reachable.call [OF reachable.call [OF reachable.init]]],
      rule queue_step.enqueue, rule queue_step.claim, rule queue_step.start)

lemma reachable_held_by_b: "reachable held_by_b"
  unfolding held_by_b_def
  by (rule reachable.call [OF reachable.call [OF reachable_held_by_a]], rule queue_step.claim, rule queue_step.start)

lemmas queue_evals = held_by_a_def held_by_b_def start_leased_run_def claim_update_def update_runs_def
  update_where_def affected_def enqueue_run_with_trigger_def snd_insert_unless_active empty_db_def
  new_run_def status_simps sample_task_def task_exists_def

lemma runs_held_by_a: "runs held_by_a = [(new_run 1 1 0)\<lparr>run_status := Running, run_started_at := Some 1,
    lease_owner := Some (lit ''A''), lease_expires_at := Some 301, attempt := 1, run_trigger := lit ''manual''\<rparr>]"
  by (simp add: queue_evals)

lemma runs_held_by_b: "runs held_by_b = [(new_run 1 1 0)\<lparr>run_status := Running, run_started_at := Some 301,
    lease_owner := Some (lit ''B''), lease_expires_at := Some 601, attempt := 2, run_trigger := lit ''manual''\<rparr>]"
  unfolding held_by_b_def start_leased_run_def claim_update_def update_runs_def update_where_def
  by (simp add: runs_held_by_a status_simps new_run_def)

section \<open>Properties\<close>



text \<open>
  C2.  The run table refines one lease lock per task: a call at time \<open>now\<close> leaves the lock of a task as
  it is, requests it when it is free, grants a request with an end in the future, extends the holder's
  lease, passes it to another worker or back to the queue only when the lease has run out, or frees it.
\<close>

theorem run_queue_refines_lock:
  "reachable db \<Longrightarrow> queue_step now db db2 \<Longrightarrow> lock_step now (task_lock db tid) (task_lock db2 tid)"
  by (rule lease_step [OF _ reachable_ok])

theorem run_queue_refines_lock_witness:
  "lock_step 301 (task_lock held_by_a 1) (task_lock (snd (claim_update 301 (lit ''B'') (301 + max 300 1) 1 held_by_a)) 1)
   \<and> task_lock held_by_a 1 = Held 1 (lit ''A'') 301"
  using run_queue_refines_lock [OF reachable_held_by_a queue_step.claim [of 301 held_by_a "lit ''B''" 300 1], of 1]
  by (simp add: task_lock_def runs_held_by_a new_run_def active_def row_lock_def)

text \<open>
  C3.  Until a lease ends, no call lets another worker hold a run of that task: whoever holds one
  afterwards is the same worker with the same run.
\<close>

theorem lease_exclusive:
  assumes "reachable db" "queue_step now db db2" "r \<in> set (runs db)" "q \<in> set (runs db2)"
    and "run_task_id q = run_task_id r" "lease_held (run_status r)" "lease_held (run_status q)"
    and "lease_owner r = Some w" "lease_expires_at r = Some e" "now < e"
  shows "run_id q = run_id r \<and> lease_owner q = Some w"
proof -
  have ok: "queue_ok db" "queue_ok db2" using assms(1,2) by (auto intro: reachable_ok reachable.call)
  have l: "task_lock db (run_task_id r) = Held (run_id r) w e"
    using task_lock_row [OF queue_ok_one_active [OF ok(1)] assms(3)] assms(6,8,9)
    by (auto simp: status_simps row_lock_def)
  have lq: "task_lock db2 (run_task_id r) = Held (run_id q) (the (lease_owner q)) (the (lease_expires_at q))"
    using task_lock_row [OF queue_ok_one_active [OF ok(2)] assms(4)] assms(5,7)
    by (auto simp: status_simps row_lock_def)
  have "lease_owner q \<noteq> None" using ok(2) assms(4,7) unfolding queue_ok_def row_ok_def by blast
  moreover have "lock_step now (Held (run_id r) w e) (task_lock db2 (run_task_id r))"
    using lease_step [OF assms(2) ok(1), of "run_task_id r"] l by simp
  ultimately show ?thesis unfolding lq using assms(10) by auto
qed

theorem lease_exclusive_witness:
  "list_all (\<lambda>q. lease_owner q = Some (lit ''A'')) (runs (snd (renew_run 200 1 (lit ''A'') 300 held_by_a)))"
  unfolding list_all_iff
proof
  fix q assume q: "q \<in> set (runs (snd (renew_run 200 1 (lit ''A'') 300 held_by_a)))"
  then have "run_task_id q = 1" "run_status q = Running"
    by (auto simp: renew_run_def update_runs_def update_where_def runs_held_by_a new_run_def)
  then show "lease_owner q = Some (lit ''A'')"
    using lease_exclusive [OF reachable_held_by_a queue_step.renew, of _ q 200 1 "lit ''A''" 300 "lit ''A''" 301] q
    by (simp add: runs_held_by_a status_simps new_run_def)
qed

text \<open>
  C6.  The verdict of a terminal run (status, HTTP status, error, finish time) never changes: a call
  either keeps it or deletes the run.
\<close>

theorem verdict_final:
  assumes "reachable db" "queue_step now db db2" "r \<in> set (runs db)" "\<not> active (run_status r)"
  shows "(\<exists>q\<in>set (runs db2). run_id q = run_id r \<and> verdict q = verdict r) \<or> (\<forall>q\<in>set (runs db2). run_id q \<noteq> run_id r)"
  using verdict_step [OF assms(2) reachable_ok [OF assms(1)] assms(3,4)] by blast

theorem verdict_final_witness:
  "\<exists>q\<in>set (runs (snd (cancel_run 400 1 (finish_run 350 1 (Some 200) None held_by_b)))).
     run_status q = Succeeded"
proof -
  let ?db = "finish_run 350 1 (Some 200) None held_by_b"
  let ?r = "(new_run 1 1 0)\<lparr>run_status := Succeeded, run_http_status := Some 200, run_started_at := Some 301,
    run_finished_at := Some 350, attempt := 2, run_trigger := lit ''manual''\<rparr>"
  have r: "runs ?db = [?r]"
    by (simp add: finish_run_def update_runs_def update_where_def runs_held_by_b status_simps new_run_def)
  have "reachable ?db" by (rule reachable.call [OF reachable_held_by_b queue_step.finish])
  from verdict_final [OF this queue_step.cancel, of ?r 400 1] r show ?thesis
    by (auto simp: verdict_def active_def cancel_run_def update_runs_def update_where_def new_run_def)
qed

text \<open>
  C4.  \<open>claim_run\<close> returns nothing exactly when no run is claimable and due, and otherwise the run that
  comes first by task priority (highest first), age and id, leased to the caller from now for at least
  a second, with its attempt counted; no other run changes.
\<close>

theorem claim_run_correct:
  assumes "queue_ok db"
  shows "case claim_run now worker secs db of
      (None, db2) \<Rightarrow> db2 = db \<and> (\<forall>r\<in>set (runs db). \<not> (claimable now r \<and> due_run now r))
    | (Some q, db2) \<Rightarrow> (\<exists>r\<in>set (runs db). claimable now r \<and> due_run now r
        \<and> q = without_trace (claimed now worker secs r)
        \<and> db2 = db\<lparr>runs := map (\<lambda>x. if x = r then claimed now worker secs r else x) (runs db)\<rparr>
        \<and> (\<forall>x\<in>set (runs db). claimable now x \<and> due_run now x \<longrightarrow>
              run_priority db x < run_priority db r
            \<or> run_priority db x = run_priority db r \<and> (run_created_at r < run_created_at x
                \<or> run_created_at r = run_created_at x \<and> run_id r \<le> run_id x)))"
proof (cases "claim_select now db")
  case None
  then show ?thesis using claim_select_None [of now db] by (simp add: claim_run_def)
next
  case (Some i)
  then obtain r where r: "r \<in> set (runs db)" "run_id r = i" "claimable now r" "due_run now r"
    and least: "\<forall>q\<in>set (runs db). claimable now q \<and> due_run now q \<longrightarrow> claim_key db r \<le> claim_key db q"
    using claim_select_Some by blast
  have order: "run_priority db x < run_priority db r \<or> run_priority db x = run_priority db r
      \<and> (run_created_at r < run_created_at x \<or> run_created_at r = run_created_at x \<and> run_id r \<le> run_id x)"
    if "x \<in> set (runs db)" "claimable now x" "due_run now x" for x
    using least that by (auto simp: claim_key_def)
  let ?db2 = "snd (claim_update now worker (now + max secs 1) (run_id r) db)"
  have u: "claim_update now worker (now + max secs 1) (run_id r) db
      = (1, db\<lparr>runs := map (\<lambda>q. if q = r then claimed now worker secs r else q) (runs db)\<rparr>)"
    by (rule claim_update_row [OF assms r(1,3)])
  have "queue_ok ?db2" using queue_ok_step [OF queue_step.claim assms] by blast
  moreover have "claimed now worker secs r \<in> set (runs ?db2)" using r(1) by (auto simp: u)
  ultimately have "get_run_row (run_id r) ?db2 = Some (claimed now worker secs r)"
    using find_keyed [of run_id "next_run ?db2" "runs ?db2" "claimed now worker secs r"]
    by (simp add: get_run_row_def queue_ok_def claimed_def)
  then have "claim_run now worker secs db = (Some (without_trace (claimed now worker secs r)), snd (claim_update now worker (now + max secs 1) (run_id r) db))"
    using Some u unfolding r(2) [symmetric] by (simp add: claim_run_def get_run_def Let_def)
  then show ?thesis using r(1,3,4) order by (auto simp: u intro!: bexI [of _ r])
qed

theorem claim_run_correct_witness:
  "\<exists>r\<in>set (runs held_by_a). claimable 301 r \<and> fst (claim_run 301 (lit ''B'') 300 held_by_a)
     = Some (without_trace (claimed 301 (lit ''B'') 300 r))"
proof -
  have "claimable 301 (hd (runs held_by_a)) \<and> due_run 301 (hd (runs held_by_a))"
    by (simp add: runs_held_by_a status_simps due_run_def new_run_def)
  with claim_run_correct [OF reachable_ok [OF reachable_held_by_a], of 301 "lit ''B''" 300] show ?thesis
    by (cases "claim_run 301 (lit ''B'') 300 held_by_a") (auto simp: runs_held_by_a split: option.splits)
qed

text \<open>
  C5.  A worker that recovers expired leases and then claims never comes back empty-handed while some
  run that is active, not cancelled and past its delay has no lease that still runs.
\<close>

theorem worker_finds_work:
  assumes "reachable db" "r \<in> set (runs db)" "active (run_status r)" "\<not> cancel_requested r" "due_run now r"
    and "\<And>e. lease_expires_at r = Some e \<Longrightarrow> e \<le> now"
  shows "fst (claim_run now worker secs (snd (recover_expired_runs now db))) \<noteq> None"
proof -
  let ?db = "snd (recover_expired_runs now db)"
  let ?r = "if lease_expired now r then r\<lparr>run_status := Pending, lease_owner := None, lease_expires_at := None\<rparr> else r"
  have "queue_ok db" using assms(1) by (rule reachable_ok)
  then have "queue_ok ?db" by (rule queue_ok_step [OF queue_step.recover])
  moreover have "?r \<in> set (runs ?db)"
    using assms(2,4) by (auto simp: recover_expired_runs_def update_runs_def set_update_where intro!: image_eqI [of _ _ r])
  moreover have "row_ok r" using \<open>queue_ok db\<close> assms(2) by (simp add: queue_ok_def)
  then have "claimable now ?r" "due_run now ?r"
    using assms(3-6) by (auto simp: status_simps row_ok_def due_run_def)
  ultimately show ?thesis
    using claim_run_correct [of ?db now worker secs]
    by (cases "claim_run now worker secs ?db") (auto split: option.splits)
qed

theorem worker_finds_work_witness:
  "fst (claim_run 301 (lit ''B'') 300 (snd (recover_expired_runs 301 held_by_a))) \<noteq> None"
  by (rule worker_finds_work [OF reachable_held_by_a, of "hd (runs held_by_a)"])
    (simp_all add: runs_held_by_a new_run_def active_def due_run_def)

text \<open>
  C23.  The retention sweep ends; it deletes in batches, and what it has deleted in the end is exactly
  the runs that finished before the given time, with their steps and deliveries, which is also the
  number it reports.  No active run is among them.
\<close>

theorem prune_run_logs_correct:
  assumes "reachable db" "prune_run_logs before 0 db = (n, db2)"
  shows "int n = count_old_runs before db
    \<and> runs db2 = delete_where (finished_before before) (runs db)
    \<and> steps db2 = delete_where (\<lambda>s. run_in (finished_before before) db (step_run_id s)) (steps db)
    \<and> deliveries db2 = delete_where (\<lambda>d. run_in (finished_before before) db (delivery_run_id d)) (deliveries db)
    \<and> (\<forall>r\<in>set (runs db). active (run_status r) \<longrightarrow> r \<in> set (runs db2))"
proof -
  have ok: "queue_ok db" using assms(1) by (rule reachable_ok)
  then have r: "n = length (old_ids before db)" "db2 = prune_result before db"
    using prune_run_logs_result [OF ok, of before 0] assms(2) by simp_all
  have i: "run_in (finished_before before) db i = (i \<in> set (old_ids before db))" for i
    by (auto simp: run_in_def list_ex_iff old_ids_def)
  have "int n = count_old_runs before db" using r(1) by (simp add: count_old_runs_def affected_def old_ids_def)
  moreover have "runs db2 = delete_where (finished_before before) (runs db)" using r(2) by (simp add: prune_result_def)
  moreover have "steps db2 = delete_where (\<lambda>s. run_in (finished_before before) db (step_run_id s)) (steps db)"
    "deliveries db2 = delete_where (\<lambda>d. run_in (finished_before before) db (delivery_run_id d)) (deliveries db)"
    using r(2) by (simp_all add: prune_result_def i)
  moreover have "\<forall>r\<in>set (runs db). active (run_status r) \<longrightarrow> r \<in> set (runs db2)"
  proof (intro ballI impI)
    fix q assume q: "q \<in> set (runs db)" "active (run_status q)"
    then have "run_finished_at q = None" using ok by (auto simp: queue_ok_def row_ok_def)
    with q(1) r(2) show "q \<in> set (runs db2)" by (simp add: prune_result_def finished_before_def)
  qed
  ultimately show ?thesis by simp
qed

theorem prune_run_logs_correct_witness:
  "runs (snd (prune_run_logs 1000 0 held_by_b)) = runs held_by_b"
proof -
  obtain n db2 where p: "prune_run_logs 1000 0 held_by_b = (n, db2)" by (cases "prune_run_logs 1000 0 held_by_b")
  from prune_run_logs_correct [OF reachable_held_by_b p] p show ?thesis
    by (simp add: delete_where_def finished_before_def runs_held_by_b new_run_def)
qed

text \<open>
  \<open>finish_run\<close> takes no worker.  A worker that lost its lease still finishes the run: here B holds
  run 1 until 601, the late call of A at 302 makes the run succeed and frees the lock, and B's next
  renewal fails.
\<close>

theorem stale_worker_finishes_run:
  "task_lock held_by_a 1 = Held 1 (lit ''A'') 301 \<and> task_lock held_by_b 1 = Held 1 (lit ''B'') 601
   \<and> task_lock (finish_run 302 1 (Some 200) None held_by_b) 1 = Free
   \<and> map run_status (runs (finish_run 302 1 (Some 200) None held_by_b)) = [Succeeded]
   \<and> \<not> fst (renew_run 303 1 (lit ''B'') 300 (finish_run 302 1 (Some 200) None held_by_b))"
proof -
  have r: "runs (finish_run 302 1 (Some 200) None held_by_b) =
    [(new_run 1 1 0)\<lparr>run_status := Succeeded, run_http_status := Some 200, run_started_at := Some 301,
      run_finished_at := Some 302, attempt := 2, run_trigger := lit ''manual''\<rparr>]"
    by (simp add: finish_run_def update_runs_def update_where_def runs_held_by_b status_simps new_run_def)
  show ?thesis
    by (simp add: task_lock_def r runs_held_by_a runs_held_by_b new_run_def row_lock_def status_simps
        renew_run_def update_runs_def affected_def)
qed

text \<open>
  What a step row keeps at rest: its error goes through the redaction, its name is stored as it
  comes, and the observer names a step by its method and rendered URL.
\<close>

theorem step_name_stored_verbatim:
  "record_run_step s db = (Inr (), db2) \<Longrightarrow>
     \<exists>q\<in>set (steps db2). step_run_id q = step_run_id s \<and> step_index q = step_index s
       \<and> step_error q = map_option redact (step_error s) \<and> step_name q = step_name s"
  by (auto simp: record_run_step_def split: if_splits)

definition sample_step :: run_step where
  "sample_step = \<lparr>step_id = 0, step_run_id = 1, step_index = 0, step_name = lit ''GET https://u:p@a/?token=x'',
     step_status = lit ''failed'', step_http_status = None, step_body_size = 0,
     step_error = None, step_started_at = 1, step_finished_at = 2\<rparr>"

theorem step_name_stored_verbatim_witness:
  "\<exists>q\<in>set (steps (snd (record_run_step sample_step held_by_b))). step_name q = lit ''GET https://u:p@a/?token=x''"
proof -
  have "record_run_step sample_step held_by_b = (Inr (), snd (record_run_step sample_step held_by_b))"
    by (simp add: record_run_step_def run_exists_def runs_held_by_b new_run_def sample_step_def)
      (simp add: queue_evals)
  from step_name_stored_verbatim [OF this] show ?thesis by (auto simp: sample_step_def)
qed

end
