(* ===== verification/Totp.thy ===== *)
theory Totp
  imports Utf8 "HOL-Library.Word"
begin

unbundle bit_operations_syntax

text \<open>
  Time-based one-time passwords: \<open>crates/qdrust-core/src/totp.rs\<close> and the enrolment side in
  \<open>crates/qdrust-server/src/totp.rs\<close>.  A byte is a \<open>nat\<close> below 256, a \<open>u32\<close> is a \<open>32 word\<close>, so the bit
  buffers wrap as they do in a release build.  The three HMACs are parameters.
\<close>

section \<open>Base32\<close>

definition BASE32 :: ustr where
  "BASE32 = lit ''ABCDEFGHIJKLMNOPQRSTUVWXYZ234567''"

text \<open>The inner \<open>while bits >= 5\<close>: the characters pushed and the bits left.\<close>

fun push_quintets :: "32 word \<Rightarrow> nat \<Rightarrow> ustr \<times> nat" where
  "push_quintets buffer bits =
     (if bits < 5 then ([], bits)
      else let bits = bits - 5; (out, rest) = push_quintets buffer bits
        in (BASE32 ! unat (drop_bit bits buffer AND 0x1f) # out, rest))"

declare push_quintets.simps [simp del]

fun encode_loop :: "32 word \<Rightarrow> nat \<Rightarrow> nat list \<Rightarrow> ustr" where
  "encode_loop buffer bits [] =
     (if 0 < bits then [BASE32 ! unat (push_bit (5 - bits) buffer AND 0x1f)] else [])"
| "encode_loop buffer bits (b # bs) =
     (let buffer = push_bit 8 buffer OR of_nat b; (out, rest) = push_quintets buffer (bits + 8)
      in out @ encode_loop buffer rest bs)"

definition encode_base32 :: "nat list \<Rightarrow> ustr" where
  "encode_base32 bytes = encode_loop 0 0 bytes"

definition base32_value :: "nat \<Rightarrow> error + 32 word" where
  "base32_value c =
     (if ch CHR ''A'' \<le> c \<and> c \<le> ch CHR ''Z'' then Inr (of_nat c - of_nat (ch CHR ''A''))
      else if ch CHR ''2'' \<le> c \<and> c \<le> ch CHR ''7'' then Inr (of_nat c - of_nat (ch CHR ''2'') + 26)
      else Inl [lit ''invalid base32 character in totp secret: '' @ [c]])"

fun decode_loop :: "32 word \<Rightarrow> nat \<Rightarrow> ustr \<Rightarrow> error + nat list" where
  "decode_loop buffer bits [] = Inr []"
| "decode_loop buffer bits (c # cs) = rbind (base32_value c) (\<lambda>value.
     let buffer = push_bit 5 buffer OR value; bits = bits + 5 in
     if 8 \<le> bits
     then let bits = bits - 8 in
       rbind (decode_loop buffer bits cs) (\<lambda>out. Inr (unat (drop_bit bits buffer AND 0xff) # out))
     else decode_loop buffer bits cs)"

definition decode_base32 :: "ustr \<Rightarrow> error + nat list" where
  "decode_base32 secret =
     (let cleaned = filter (\<lambda>c. \<not> is_ws c \<and> c \<noteq> ch CHR ''-'') secret;
          cleaned = to_ascii_uppercase (trim_end_by (\<lambda>c. c = ch CHR ''='') cleaned)
      in if cleaned = [] then Inl [lit ''totp secret is empty'']
         else rbind (decode_loop 0 0 cleaned) (\<lambda>out.
           if out = [] then Inl [lit ''totp secret is too short''] else Inr out))"

section \<open>Codes\<close>

record hmac_lib =
  hmac_sha1 :: "nat list \<Rightarrow> nat list \<Rightarrow> nat list"
  hmac_sha256 :: "nat list \<Rightarrow> nat list \<Rightarrow> nat list"
  hmac_sha512 :: "nat list \<Rightarrow> nat list \<Rightarrow> nat list"

definition to_be_bytes :: "nat \<Rightarrow> nat list" where
  "to_be_bytes n = map (\<lambda>i. n div 256 ^ i mod 256) [7, 6, 5, 4, 3, 2, 1, 0]"

text \<open>\<open>format!("{code:0width$}")\<close>\<close>

definition zero_padded :: "nat \<Rightarrow> nat \<Rightarrow> ustr" where
  "zero_padded width n = replicate (width - length (nat_to_str n)) 48 @ nat_to_str n"

definition truncated :: "nat list \<Rightarrow> nat \<Rightarrow> 32 word" where
  "truncated digest offset =
     push_bit 24 (of_nat (digest ! offset) AND 0x7f) OR push_bit 16 (of_nat (digest ! (offset + 1)))
     OR push_bit 8 (of_nat (digest ! (offset + 2))) OR of_nat (digest ! (offset + 3))"

text \<open>An index out of bounds is a panic; \<open>10u32.pow(digits)\<close> wraps (it panics in a debug build).\<close>

definition totp_code :: "hmac_lib \<Rightarrow> ustr \<Rightarrow> nat \<Rightarrow> nat \<Rightarrow> ustr \<Rightarrow> nat \<Rightarrow> error + ustr" where
  "totp_code H secret digits period algorithm at =
     rbind (ensure (6 \<le> digits \<and> digits \<le> 10) [lit ''totp digits must be between 6 and 10'']) (\<lambda>_.
     rbind (ensure (period \<noteq> 0) [lit ''totp period must be positive'']) (\<lambda>_.
     rbind (decode_base32 secret) (\<lambda>key.
     let counter = at div period; name = to_ascii_lowercase algorithm in
     rbind (if name = lit ''sha1'' then Inr (hmac_sha1 H key (to_be_bytes counter))
            else if name = lit ''sha256'' then Inr (hmac_sha256 H key (to_be_bytes counter))
            else if name = lit ''sha512'' then Inr (hmac_sha512 H key (to_be_bytes counter))
            else Inl [lit ''unsupported totp algorithm: '' @ name]) (\<lambda>digest.
     if digest = [] then Inl [lit ''panic: index out of bounds'']
     else let offset = last digest mod 16 in
       if length digest < offset + 4 then Inl [lit ''panic: index out of bounds'']
       else Inr (zero_padded digits (unat (truncated digest offset mod 10 ^ digits)))))))"

section \<open>Enrolment\<close>

definition DIGITS :: nat where "DIGITS = 6"
definition PERIOD :: nat where "PERIOD = 30"
definition ALGORITHM :: ustr where "ALGORITHM = lit ''sha1''"
definition SKEW_STEPS :: int where "SKEW_STEPS = 1"

definition hex_upper :: "nat \<Rightarrow> ustr" where
  "hex_upper b = [lit ''0123456789ABCDEF'' ! (b div 16 mod 16), lit ''0123456789ABCDEF'' ! (b mod 16)]"

definition encode_uri_component :: "ustr \<Rightarrow> ustr" where
  "encode_uri_component v = concat (map (\<lambda>b.
     if is_ascii_alpha b \<or> is_ascii_digit b \<or> b \<in> {45, 95, 46, 126} then [b] else lit ''%'' @ hex_upper b) (utf8_encode v))"

definition otpauth_uri :: "ustr \<Rightarrow> ustr \<Rightarrow> ustr \<Rightarrow> ustr" where
  "otpauth_uri issuer account secret =
     (let issuer = if trim_by is_ws issuer = [] then lit ''qdrust'' else trim_by is_ws issuer in
      lit ''otpauth://totp/'' @ encode_uri_component issuer @ lit '':'' @ encode_uri_component account
      @ lit ''?secret='' @ secret @ lit ''&issuer='' @ encode_uri_component issuer
      @ lit ''&algorithm='' @ to_ascii_uppercase ALGORITHM @ lit ''&digits='' @ nat_to_str DIGITS
      @ lit ''&period='' @ nat_to_str PERIOD)"

text \<open>The steps of the window, in order; the first error or match ends the loop.\<close>

fun verify_steps :: "hmac_lib \<Rightarrow> ustr \<Rightarrow> ustr \<Rightarrow> nat \<Rightarrow> int list \<Rightarrow> error + bool" where
  "verify_steps H secret submitted now [] = Inr False"
| "verify_steps H secret submitted now (step # rest) =
     (let offset = step * int PERIOD; at = nat (max (int now + offset) 0) in
      rbind (totp_code H secret DIGITS PERIOD ALGORITHM at) (\<lambda>expected.
      if expected = submitted then Inr True else verify_steps H secret submitted now rest))"

definition verify_totp :: "hmac_lib \<Rightarrow> ustr \<Rightarrow> ustr \<Rightarrow> nat \<Rightarrow> error + bool" where
  "verify_totp H secret submitted now =
     (let submitted = filter (\<lambda>c. \<not> is_ws c \<and> c \<noteq> ch CHR ''-'') submitted in
      rbind (ensure (submitted \<noteq> []) [lit ''totp code is empty'']) (\<lambda>_.
      rbind (ensure (byte_len submitted = DIGITS \<and> list_all is_ascii_digit submitted)
        [lit ''totp code must be 6 digits'']) (\<lambda>_.
      verify_steps H secret submitted now [- SKEW_STEPS .. SKEW_STEPS])))"

definition normalize_secret :: "ustr \<Rightarrow> ustr" where
  "normalize_secret secret =
     map upper1 (filter (\<lambda>c. \<not> is_ws c \<and> c \<noteq> ch CHR ''-'' \<and> c \<noteq> ch CHR ''='') secret)"

section \<open>The bits of a buffer\<close>

text \<open>The low \<open>n\<close> bits, most significant first.\<close>

definition low :: "nat \<Rightarrow> 'a :: semiring_bits \<Rightarrow> bool list" where
  "low n w = rev (map (bit w) [0..<n])"

lemma length_low [simp]: "length (low n w) = n"
  by (simp add: low_def)

lemma low_eqI: "(\<And>i. i < n \<Longrightarrow> bit v i = bit w i) \<Longrightarrow> low n v = low n w"
  by (simp add: low_def)

lemma low_split: "low (m + n) w = low m (drop_bit n w) @ low n w"
proof -
  have "map (bit w) [n..<m + n] = map (bit (drop_bit n w)) [0..<m]"
    by (rule nth_equalityI) (simp_all add: bit_drop_bit_eq)
  moreover have "[0..<m + n] = [0..<n] @ [n..<m + n]" using upt_add_eq_append [of 0 n m] by (simp add: add.commute)
  ultimately show ?thesis by (simp add: low_def)
qed

lemma low_shift_in:
  fixes w :: "32 word"
  assumes "n + k \<le> 32" "\<And>i. k \<le> i \<Longrightarrow> \<not> bit v i"
  shows "low (n + k) (push_bit k w OR v) = low n w @ low k v"
proof -
  have "low n (drop_bit k (push_bit k w OR v)) = low n w"
    using assms by (intro low_eqI) (auto simp: bit_simps)
  moreover have "low k (push_bit k w OR v) = low k v"
    by (intro low_eqI) (auto simp: bit_simps)
  ultimately show ?thesis by (simp add: low_split)
qed

lemma low_zero: "low n 0 = replicate n False"
  by (rule replicate_eqI) (auto simp: low_def)

lemma low_inj:
  fixes a b :: nat
  assumes "low n a = low n b" "a < 2 ^ n" "b < 2 ^ n"
  shows "a = b"
proof (rule bit_eqI)
  fix i
  have "map (bit a) [0..<n] = map (bit b) [0..<n]" using assms(1) by (simp add: low_def)
  then have "i < n \<Longrightarrow> bit a i = bit b i" by (metis add_0 diff_zero length_upt nth_map nth_upt)
  moreover have "\<not> i < n \<Longrightarrow> \<not> bit a i \<and> \<not> bit b i"
    using assms(2,3) by (metis bit_take_bit_iff take_bit_nat_eq_self)
  ultimately show "bit a i = bit b i" by blast
qed

section \<open>Base32 read back\<close>

definition quintets :: "nat list \<Rightarrow> bool" where
  "quintets ds \<longleftrightarrow> (\<forall>d\<in>set ds. d < 32)"

abbreviation chars32 :: "nat list \<Rightarrow> ustr" where
  "chars32 ds \<equiv> map (\<lambda>d. BASE32 ! d) ds"

lemma masked_quintet:
  fixes w :: "32 word"
  shows "unat (w AND 0x1f) < 32" "low 5 (unat (w AND 0x1f)) = low 5 w"
proof -
  have t: "w AND 0x1f = take_bit 5 w" by (simp add: take_bit_eq_mask mask_eq_exp_minus_1)
  show "unat (w AND 0x1f) < 32" unfolding t using take_bit_nat_less_exp [of 5 "unat w"] by (simp add: unsigned_take_bit_eq)
  show "low 5 (unat (w AND 0x1f)) = low 5 w" unfolding t by (intro low_eqI) (simp add: bit_simps unsigned_take_bit_eq)
qed

lemma masked_octet:
  fixes w :: "32 word"
  shows "unat (w AND 0xff) < 256" "low 8 (unat (w AND 0xff)) = low 8 w"
proof -
  have t: "w AND 0xff = take_bit 8 w" by (simp add: take_bit_eq_mask mask_eq_exp_minus_1)
  show "unat (w AND 0xff) < 256" unfolding t using take_bit_nat_less_exp [of 8 "unat w"] by (simp add: unsigned_take_bit_eq)
  show "low 8 (unat (w AND 0xff)) = low 8 w" unfolding t by (intro low_eqI) (simp add: bit_simps unsigned_take_bit_eq)
qed

lemma push_quintets_bits:
  "push_quintets w n = (out, r) \<Longrightarrow> \<exists>ds. out = chars32 ds \<and> quintets ds \<and> r < 5
     \<and> concat (map (low 5) ds) @ low r w = low n w"
proof (induction w n arbitrary: out r rule: push_quintets.induct)
  case (1 w n)
  show ?case
  proof (cases "n < 5")
    case True
    then show ?thesis using "1.prems" by (intro exI [of _ "[]"]) (auto simp: push_quintets.simps [of w n] quintets_def)
  next
    case False
    obtain out1 where o: "push_quintets w (n - 5) = (out1, r)"
        "out = BASE32 ! unat (drop_bit (n - 5) w AND 0x1f) # out1"
      using "1.prems" False by (auto simp: push_quintets.simps [of w n] Let_def split: prod.splits)
    obtain ds where ds: "out1 = chars32 ds" "quintets ds" "r < 5" "concat (map (low 5) ds) @ low r w = low (n - 5) w"
      using "1.IH" [OF False refl o(1)] by auto
    have "low n w = low 5 (drop_bit (n - 5) w) @ low (n - 5) w" using low_split [of 5 "n - 5" w] False by simp
    then show ?thesis using ds o(2) masked_quintet [of "drop_bit (n - 5) w"]
      by (intro exI [of _ "unat (drop_bit (n - 5) w AND 0x1f) # ds"]) (simp add: quintets_def)
  qed
qed

lemma bit_small: "(n :: nat) < 2 ^ k \<Longrightarrow> k \<le> i \<Longrightarrow> \<not> bit n i"
  by (metis bit_take_bit_iff leD take_bit_nat_eq_self)

lemma low_of_nat: "k \<le> 32 \<Longrightarrow> low k (of_nat b :: 32 word) = low k b"
  by (intro low_eqI) (simp add: bit_simps)

lemma encode_loop_bits:
  "bits < 5 \<Longrightarrow> \<forall>b\<in>set bs. b < 256 \<Longrightarrow> \<exists>ds pad. encode_loop w bits bs = chars32 ds \<and> quintets ds \<and> pad < 5
     \<and> concat (map (low 5) ds) = low bits w @ concat (map (low 8) bs) @ replicate pad False"
proof (induction w bits bs rule: encode_loop.induct)
  case (1 w bits)
  show ?case
  proof (cases "bits = 0")
    case True
    then show ?thesis by (intro exI [of _ "[]"] exI [of _ 0]) (simp add: quintets_def low_def)
  next
    case False
    let ?v = "push_bit (5 - bits) w"
    have "low 5 ?v = low bits w @ replicate (5 - bits) False"
      using low_shift_in [of bits "5 - bits" 0 w] 1 by (simp add: low_zero)
    then show ?thesis using False masked_quintet [of ?v]
      by (intro exI [of _ "[unat (?v AND 0x1f)]"] exI [of _ "5 - bits"]) (simp add: quintets_def)
  qed
next
  case (2 w bits b bs)
  let ?v = "push_bit 8 w OR of_nat b"
  obtain out r where q: "push_quintets ?v (bits + 8) = (out, r)" by (cases "push_quintets ?v (bits + 8)")
  obtain d1 where d1: "out = chars32 d1" "quintets d1" "r < 5" "concat (map (low 5) d1) @ low r ?v = low (bits + 8) ?v"
    using push_quintets_bits [OF q] by auto
  obtain d2 pad where d2: "encode_loop ?v r bs = chars32 d2" "quintets d2" "pad < 5"
      "concat (map (low 5) d2) = low r ?v @ concat (map (low 8) bs) @ replicate pad False"
    using "2.IH" [OF refl q [symmetric] refl d1(3)] "2.prems" by auto
  have "low (bits + 8) ?v = low bits w @ low 8 b"
    using low_shift_in [of bits 8 "of_nat b" w] "2.prems" low_of_nat [of 8 b]
    by (simp add: bit_simps bit_small [of b 8])
  then show ?case using d1 d2
    by (intro exI [of _ "d1 @ d2"] exI [of _ pad]) (auto simp: q Let_def quintets_def)
qed

lemma base32_value_char:
  assumes "d < 32"
  shows "base32_value (BASE32 ! d) = Inr (of_nat d)"
proof -
  have "list_all (\<lambda>d. base32_value (BASE32 ! d) = Inr (of_nat d)) [0..<32]"
    by (simp add: upt_rec BASE32_def base32_value_def)
  with assms show ?thesis by (simp add: list_all_iff)
qed

lemma decode_loop_bits:
  "bits < 8 \<Longrightarrow> quintets ds \<Longrightarrow> \<exists>out rest. decode_loop w bits (chars32 ds) = Inr out \<and> length rest < 8
     \<and> (\<forall>b\<in>set out. b < 256) \<and> low bits w @ concat (map (low 5) ds) = concat (map (low 8) out) @ rest"
proof (induction ds arbitrary: w bits)
  case Nil
  then show ?case by (intro exI [of _ "[]"] exI [of _ "low bits w"]) simp
next
  case (Cons d ds)
  let ?v = "push_bit 5 w OR of_nat d"
  have d: "d < 32" "quintets ds" using Cons.prems by (auto simp: quintets_def)
  have l: "low (bits + 5) ?v = low bits w @ low 5 d"
    using low_shift_in [of bits 5 "of_nat d" w] Cons.prems d low_of_nat [of 5 d]
    by (simp add: bit_simps bit_small [of d 5])
  show ?case
  proof (cases "8 \<le> bits + 5")
    case True
    obtain out rest where o: "decode_loop ?v (bits + 5 - 8) (chars32 ds) = Inr out" "length rest < 8"
        "\<forall>b\<in>set out. b < 256" "low (bits + 5 - 8) ?v @ concat (map (low 5) ds) = concat (map (low 8) out) @ rest"
      using Cons.IH [OF _ d(2), of "bits + 5 - 8" ?v] Cons.prems(1) by fastforce
    have "low (bits + 5) ?v = low 8 (drop_bit (bits + 5 - 8) ?v) @ low (bits + 5 - 8) ?v"
      using low_split [of 8 "bits + 5 - 8" ?v] True by (simp add: add.commute)
    with l have e: "low bits w @ low 5 d = low 8 (drop_bit (bits + 5 - 8) ?v) @ low (bits + 5 - 8) ?v" by simp
    have "low bits w @ concat (map (low 5) (d # ds)) = (low bits w @ low 5 d) @ concat (map (low 5) ds)" by simp
    also have "\<dots> = low 8 (drop_bit (bits + 5 - 8) ?v) @ concat (map (low 8) out) @ rest"
      unfolding e append_assoc o(4) ..
    finally show ?thesis using o(1-3) True masked_octet [of "drop_bit (bits + 5 - 8) ?v"]
      by (intro exI [of _ "unat (drop_bit (bits + 5 - 8) ?v AND 0xff) # out"] exI [of _ rest])
        (simp add: base32_value_char [OF d(1)] Let_def)
  next
    case False
    obtain out rest where o: "decode_loop ?v (bits + 5) (chars32 ds) = Inr out" "length rest < 8"
        "\<forall>b\<in>set out. b < 256" "low (bits + 5) ?v @ concat (map (low 5) ds) = concat (map (low 8) out) @ rest"
      using Cons.IH [OF _ d(2), of "bits + 5" ?v] False by fastforce
    then show ?thesis using l False
      by (intro exI [of _ out] exI [of _ rest])
        (simp add: base32_value_char [OF d(1)] Let_def flip: append_assoc)
  qed
qed

lemma octets_unique:
  assumes "concat (map (low 8) xs) @ r = concat (map (low 8) ys) @ q" "length r < 8" "length q < 8"
    and "\<forall>b\<in>set xs. b < 256" "\<forall>b\<in>set ys. (b :: nat) < 256"
  shows "xs = ys"
  using assms
proof (induction xs arbitrary: ys)
  case Nil
  then show ?case by (cases ys) (auto dest: arg_cong [of _ _ length])
next
  case (Cons x xs)
  then obtain y zs where ys: "ys = y # zs" by (cases ys) (auto dest: arg_cong [of _ _ length])
  have "low 8 x @ (concat (map (low 8) xs) @ r) = low 8 y @ (concat (map (low 8) zs) @ q)"
    using Cons.prems(1) ys by simp
  then have e: "low 8 x = low 8 y" "concat (map (low 8) xs) @ r = concat (map (low 8) zs) @ q"
    using append_eq_append_conv [of "low 8 x" "low 8 y"] by simp_all
  have "x = y" using low_inj [OF e(1)] Cons.prems(4,5) ys by simp
  moreover have "xs = zs" using Cons.IH [OF e(2) Cons.prems(2,3)] Cons.prems(4,5) ys by simp
  ultimately show ?case using ys by simp
qed

lemma chars32_clean:
  assumes "quintets ds"
  shows "filter (\<lambda>c. \<not> is_ws c \<and> c \<noteq> ch CHR ''-'') (chars32 ds) = chars32 ds"
    "trim_end_by (\<lambda>c. c = ch CHR ''='') (chars32 ds) = chars32 ds" "to_ascii_uppercase (chars32 ds) = chars32 ds"
proof -
  have "list_all (\<lambda>d. 50 \<le> BASE32 ! d \<and> BASE32 ! d \<le> 90 \<and> BASE32 ! d \<noteq> 61) [0..<32]"
    by (simp add: upt_rec BASE32_def)
  moreover have "\<not> is_ws c \<and> c \<noteq> 45 \<and> upper1 c = c" if "50 \<le> c" "c \<le> 90" for c
    using that by (simp add: is_ws_def upper1_def)
  ultimately have c: "\<forall>d\<in>set ds. \<not> is_ws (BASE32 ! d) \<and> BASE32 ! d \<noteq> 45 \<and> BASE32 ! d \<noteq> 61 \<and> upper1 (BASE32 ! d) = BASE32 ! d"
    using assms unfolding list_all_iff quintets_def by (metis atLeastLessThan_iff le0 set_upt)
  then show "filter (\<lambda>c. \<not> is_ws c \<and> c \<noteq> ch CHR ''-'') (chars32 ds) = chars32 ds"
    "to_ascii_uppercase (chars32 ds) = chars32 ds"
    by (simp_all add: filter_id_conv to_ascii_uppercase_def map_idI)
  show "trim_end_by (\<lambda>c. c = ch CHR ''='') (chars32 ds) = chars32 ds"
    using c by (cases ds rule: rev_cases) (simp_all add: trim_end_by_def trim_start_by_def)
qed

lemma encode_base32_Nil:
  assumes "encode_base32 bs = []" "\<forall>b\<in>set bs. b < 256"
  shows "bs = []"
proof -
  obtain ds pad where "encode_base32 bs = chars32 ds" "concat (map (low 5) ds) = concat (map (low 8) bs) @ replicate pad False"
    using encode_loop_bits [of 0 bs 0] assms(2) by (auto simp: encode_base32_def low_def)
  with assms(1) have "\<forall>b\<in>set bs. low 8 b = []" by auto
  then show ?thesis by (cases bs) (auto simp: low_def)
qed

lemma base32_read_back:
  assumes "\<forall>b\<in>set bs. b < 256" "bs \<noteq> []"
  shows "decode_base32 (encode_base32 bs) = Inr bs"
proof -
  obtain ds pad where ds: "encode_base32 bs = chars32 ds" "quintets ds" "pad < 5"
      "concat (map (low 5) ds) = concat (map (low 8) bs) @ replicate pad False"
    using encode_loop_bits [of 0 bs 0] assms(1) by (auto simp: encode_base32_def low_def)
  obtain out rest where o: "decode_loop 0 0 (chars32 ds) = Inr out" "length rest < 8" "\<forall>b\<in>set out. b < 256"
      "concat (map (low 5) ds) = concat (map (low 8) out) @ rest"
    using decode_loop_bits [of 0 ds 0] ds(2) by (auto simp: low_def)
  have "out = bs" using octets_unique [of out rest bs "replicate pad False"] o ds assms(1) by simp
  moreover have "chars32 ds \<noteq> []" using encode_base32_Nil [OF _ assms(1)] assms(2) ds(1) by auto
  ultimately show ?thesis using o(1) assms(2)
    by (simp only: decode_base32_def Let_def ds(1) chars32_clean [OF ds(2)] if_False rbind_Inr)
qed

section \<open>Codes as numbers\<close>

lemma or_as_sum:
  fixes a b :: "32 word"
  assumes "\<And>i. bit a i \<Longrightarrow> k \<le> i" "\<And>i. bit b i \<Longrightarrow> i < k"
  shows "a OR b = a + b"
proof -
  have "a AND b = 0" using assms by (intro bit_eqI) (auto simp: bit_simps dest!: assms)
  then show ?thesis by (simp add: disjunctive_add_eq_or)
qed

definition truncated_nat :: "nat list \<Rightarrow> nat \<Rightarrow> nat" where
  "truncated_nat digest offset = (digest ! offset mod 128) * 2 ^ 24 + digest ! (offset + 1) * 2 ^ 16
     + digest ! (offset + 2) * 2 ^ 8 + digest ! (offset + 3)"

lemma bit_of_nat_small: "bit (of_nat n :: 32 word) i \<Longrightarrow> n < 2 ^ k \<Longrightarrow> i < k"
  using bit_small [of n k i] by (cases "i < k") (auto simp: bit_simps)

lemma truncated_sum:
  fixes a b c d :: nat
  assumes "b < 256" "c < 256" "d < 256"
  shows "push_bit 24 (of_nat a :: 32 word) OR (push_bit 16 (of_nat b) OR (push_bit 8 (of_nat c) OR of_nat d))
    = of_nat (a * 2 ^ 24 + b * 2 ^ 16 + c * 2 ^ 8 + d)"
proof -
  have p: "push_bit k (of_nat n :: 32 word) = of_nat (n * 2 ^ k)" for k n by (simp add: push_bit_eq_mult)
  have s: "i < k + 8" if "bit (push_bit k (of_nat n :: 32 word)) i" "n < 256" for i k n
    using that bit_of_nat_small [of n "i - k" 8] by (auto simp: bit_simps)
  have 1: "push_bit 8 (of_nat c :: 32 word) OR of_nat d = push_bit 8 (of_nat c) + of_nat d"
    using bit_of_nat_small [of d _ 8] assms(3) by (intro or_as_sum [of _ 8]) (auto simp: bit_push_bit_iff)
  have 2: "push_bit 16 (of_nat b :: 32 word) OR (push_bit 8 (of_nat c) OR of_nat d)
      = push_bit 16 (of_nat b) + (push_bit 8 (of_nat c) OR of_nat d)"
    using s [of 8 c] bit_of_nat_small [of d _ 8] assms(2,3)
    by (intro or_as_sum [of _ 16]) (fastforce simp: bit_or_iff bit_push_bit_iff)+
  have 3: "push_bit 24 (of_nat a :: 32 word) OR (push_bit 16 (of_nat b) OR (push_bit 8 (of_nat c) OR of_nat d))
      = push_bit 24 (of_nat a) + (push_bit 16 (of_nat b) OR (push_bit 8 (of_nat c) OR of_nat d))"
    using s [of 16 b] s [of 8 c] bit_of_nat_small [of d _ 8] assms
    by (intro or_as_sum [of _ 24]) (fastforce simp: bit_or_iff bit_push_bit_iff)+
  show ?thesis unfolding 3 unfolding 2 unfolding 1 unfolding p by simp
qed

lemma unat_truncated:
  assumes "\<forall>b\<in>set digest. b < 256" "offset + 3 < length digest"
  shows "unat (truncated digest offset) = truncated_nat digest offset" "truncated_nat digest offset < 2 ^ 31"
proof -
  have b: "digest ! (offset + i) < 256" if "i \<le> 3" for i using assms that by simp
  have "of_nat (digest ! offset) AND 0x7f = (take_bit 7 (of_nat (digest ! offset)) :: 32 word)"
    by (simp add: take_bit_eq_mask mask_eq_exp_minus_1)
  then have m: "of_nat (digest ! offset) AND 0x7f = (of_nat (digest ! offset mod 128) :: 32 word)"
    by (simp add: take_bit_of_nat flip: take_bit_eq_mod [of 7 "digest ! offset", simplified])
  show l: "truncated_nat digest offset < 2 ^ 31"
    using b [of 1] b [of 2] b [of 3] mod_less_divisor [of 128 "digest ! offset"]
    unfolding truncated_nat_def by simp
  have "truncated digest offset = of_nat (truncated_nat digest offset)"
    unfolding truncated_def m truncated_nat_def using b [of 1] b [of 2] b [of 3] by (intro truncated_sum) simp_all
  then show "unat (truncated digest offset) = truncated_nat digest offset" using l by (simp add: unat_of_nat)
qed

lemma length_nat_to_str: "0 < w \<Longrightarrow> n < 10 ^ w \<Longrightarrow> length (nat_to_str n) \<le> w"
proof (induction n arbitrary: w rule: nat_to_str.induct)
  case (1 n)
  show ?case
  proof (cases "n < 10")
    case True
    then show ?thesis using "1.prems" by (subst nat_to_str.simps) simp
  next
    case False
    then obtain v where v: "w = Suc v" "0 < v" using "1.prems" by (cases w; cases "w - 1") auto
    then have "n div 10 < 10 ^ v" using "1.prems"(2) by (simp add: less_mult_imp_div_less mult.commute)
    then show ?thesis using "1.IH" [OF False v(2)] v(1) False by (subst nat_to_str.simps) simp
  qed
qed

lemma zero_padded_shape:
  assumes "0 < w" "n < 10 ^ w"
  shows "length (zero_padded w n) = w" "list_all is_ascii_digit (zero_padded w n)"
  using length_nat_to_str [OF assms] nat_to_str_digits [of n]
  by (auto simp: zero_padded_def all_digits_def list_all_iff is_ascii_digit_def)

lemma digits_val_zeros: "digits_val (replicate k 48 @ s) = digits_val s"
  by (induction k) (simp_all add: digits_val_def)

lemma digits_val_zero_padded [simp]: "digits_val (zero_padded w n) = n"
  by (simp add: zero_padded_def digits_val_zeros)

section \<open>The window\<close>

text \<open>What a service whose digests have the documented lengths gives: bytes, and at least twenty of them.\<close>

definition hmac_ok :: "hmac_lib \<Rightarrow> bool" where
  "hmac_ok H \<longleftrightarrow> (\<forall>key msg. \<forall>d\<in>{hmac_sha1 H key msg, hmac_sha256 H key msg, hmac_sha512 H key msg}.
     20 \<le> length d \<and> (\<forall>b\<in>set d. b < 256))"

definition digest_of :: "hmac_lib \<Rightarrow> ustr \<Rightarrow> nat list \<Rightarrow> nat list \<Rightarrow> nat list" where
  "digest_of H algorithm key msg = (if to_ascii_lowercase algorithm = lit ''sha1'' then hmac_sha1 H key msg
     else if to_ascii_lowercase algorithm = lit ''sha256'' then hmac_sha256 H key msg else hmac_sha512 H key msg)"

definition known_algorithm :: "ustr \<Rightarrow> bool" where
  "known_algorithm a \<longleftrightarrow> to_ascii_lowercase a \<in> {lit ''sha1'', lit ''sha256'', lit ''sha512''}"

lemma totp_code_digest:
  assumes H: "hmac_ok H" and d: "6 \<le> digits" "digits \<le> 10" and "0 < period" "known_algorithm algorithm"
    and key: "decode_base32 secret = Inr key"
  shows "totp_code H secret digits period algorithm at =
    (let digest = digest_of H algorithm key (to_be_bytes (at div period))
     in Inr (zero_padded digits (unat (truncated digest (last digest mod 16) mod 10 ^ digits))))"
proof -
  let ?d = "digest_of H algorithm key (to_be_bytes (at div period))"
  have "20 \<le> length ?d" using H by (simp add: hmac_ok_def digest_of_def)
  then have "?d \<noteq> []" "\<not> length ?d < last ?d mod 16 + 4"
    using mod_less_divisor [of 16 "last ?d"] by (auto simp: not_less)
  then show ?thesis using assms(2-5)
    by (auto simp: totp_code_def key digest_of_def known_algorithm_def Let_def)
qed

lemma digest_bytes:
  assumes "hmac_ok H"
  shows "\<forall>b\<in>set (digest_of H a key msg). b < 256" "last (digest_of H a key msg) mod 16 + 3 < length (digest_of H a key msg)"
proof -
  show "\<forall>b\<in>set (digest_of H a key msg). b < 256" using assms by (simp add: hmac_ok_def digest_of_def)
  have "20 \<le> length (digest_of H a key msg)" using assms by (simp add: hmac_ok_def digest_of_def)
  then show "last (digest_of H a key msg) mod 16 + 3 < length (digest_of H a key msg)"
    using mod_less_divisor [of 16 "last (digest_of H a key msg)"] by linarith
qed

lemma verify_steps_iff:
  assumes "\<And>at. \<exists>c. totp_code H secret DIGITS PERIOD ALGORITHM at = Inr c"
  shows "verify_steps H secret submitted now steps =
    Inr (\<exists>step\<in>set steps. totp_code H secret DIGITS PERIOD ALGORITHM (nat (max (int now + step * int PERIOD) 0)) = Inr submitted)"
proof (induction steps)
  case (Cons step steps)
  obtain c where "totp_code H secret DIGITS PERIOD ALGORITHM (nat (max (int now + step * int PERIOD) 0)) = Inr c"
    using assms by blast
  then show ?case using Cons by (auto simp: Let_def)
qed simp

text \<open>A digest of all ones, for the examples.\<close>

definition ones_hmac :: hmac_lib where
  "ones_hmac = \<lparr>hmac_sha1 = \<lambda>_ _. replicate 20 255, hmac_sha256 = \<lambda>_ _. replicate 32 255, hmac_sha512 = \<lambda>_ _. replicate 64 255\<rparr>"

lemma ones_hmac_ok: "hmac_ok ones_hmac"
  by (simp add: hmac_ok_def ones_hmac_def)

text \<open>With that digest every code is 483647.\<close>

lemma ones_code: "totp_code ones_hmac (encode_base32 [1]) 6 30 (lit ''sha1'') at = Inr (lit ''483647'')"
proof -
  have k: "decode_base32 (encode_base32 [1]) = Inr [1]" by (rule base32_read_back) simp_all
  have d: "digest_of ones_hmac (lit ''sha1'') k m = replicate 20 255" for k m
    by (simp add: digest_of_def ones_hmac_def to_ascii_lowercase_def lower1_def)
  have "unat (truncated (replicate 20 255) 15) = 2147483647"
    using unat_truncated [of "replicate 20 255" 15] by (simp add: truncated_nat_def nth_replicate)
  then have "truncated (replicate 20 255) 15 = 2147483647" by (simp add: word_unat_eq_iff)
  then have "unat (truncated (replicate 20 255) 15 mod 10 ^ 6) = 483647" by simp
  moreover have "zero_padded 6 483647 = lit ''483647''" by (simp add: zero_padded_def nat_to_str.simps)
  ultimately show ?thesis
    using totp_code_digest [OF ones_hmac_ok, of 6 30 "lit ''sha1''" _ _ at, OF _ _ _ _ k]
    unfolding d by (simp add: known_algorithm_def to_ascii_lowercase_def lower1_def Let_def last_replicate)
qed

lemma ones_verify: "verify_totp ones_hmac (encode_base32 [1]) (lit ''483647'') now = Inr True"
proof -
  have c: "totp_code ones_hmac (encode_base32 [1]) DIGITS PERIOD ALGORITHM at = Inr (lit ''483647'')" for at
    using ones_code by (simp add: DIGITS_def PERIOD_def ALGORITHM_def)
  have w: "[- SKEW_STEPS .. SKEW_STEPS] = [-1, 0, 1]" by (simp add: SKEW_STEPS_def upto_rec1)
  show ?thesis by (simp add: verify_totp_def w c [simplified DIGITS_def, simplified] Let_def is_ws_def byte_len_def len_utf8_def is_ascii_digit_def DIGITS_def)
qed

section \<open>Properties\<close>

text \<open>
  Base32: decoding what the server encoded gives the bytes back, for every non-empty secret; the
  32-bit buffers may wrap on the way, the bits that are still needed never leave them.
\<close>

theorem base32_round_trip:
  "\<forall>b\<in>set bs. b < 256 \<Longrightarrow> bs \<noteq> [] \<Longrightarrow> decode_base32 (encode_base32 bs) = Inr bs"
  by (rule base32_read_back)

theorem base32_round_trip_witness:
  "decode_base32 (encode_base32 [72, 101, 108, 108, 111, 33]) = Inr [72, 101, 108, 108, 111, 33]"
  by (rule base32_round_trip) simp_all

text \<open>
  C35.  A code with six to nine digits is the one of RFC 6238: the 31-bit truncation of the digest of the
  time step, modulo a power of ten, printed with exactly the asked number of digits.
\<close>

theorem totp_code_rfc6238:
  assumes "hmac_ok H" "6 \<le> digits" "digits \<le> 9" "0 < period" "known_algorithm algorithm"
    and "decode_base32 secret = Inr key"
    and "digest = digest_of H algorithm key (to_be_bytes (at div period))"
  shows "\<exists>code. totp_code H secret digits period algorithm at = Inr code
    \<and> length code = digits \<and> list_all is_ascii_digit code
    \<and> digits_val code = truncated_nat digest (last digest mod 16) mod 10 ^ digits"
proof -
  let ?t = "truncated digest (last digest mod 16)"
  have "digits \<in> {6, 7, 8, 9}" using assms(2,3) by auto
  then have "unat (?t mod 10 ^ digits) = unat ?t mod 10 ^ digits" by (auto simp: unat_mod)
  moreover have "unat ?t = truncated_nat digest (last digest mod 16)"
    using unat_truncated [OF digest_bytes [OF assms(1)], of algorithm key "to_be_bytes (at div period)"] assms(7) by simp
  moreover have "digits \<le> 10" using assms(3) by simp
  ultimately have "totp_code H secret digits period algorithm at
      = Inr (zero_padded digits (truncated_nat digest (last digest mod 16) mod 10 ^ digits))"
    using totp_code_digest [OF assms(1,2) _ assms(4-6)] assms(7) by (simp add: Let_def)
  then show ?thesis using zero_padded_shape [of digits "truncated_nat digest (last digest mod 16) mod 10 ^ digits"] assms(2)
    by (intro exI [of _ "zero_padded digits (truncated_nat digest (last digest mod 16) mod 10 ^ digits)"]) simp
qed

theorem totp_code_rfc6238_witness:
  "\<exists>code. totp_code ones_hmac (encode_base32 [1]) 6 30 (lit ''SHA1'') 59 = Inr code \<and> digits_val code = 483647"
proof -
  have "decode_base32 (encode_base32 [1]) = Inr [1]" by (rule base32_read_back) simp_all
  from totp_code_rfc6238 [OF ones_hmac_ok, of 6 30 "lit ''SHA1''" _ _ _ 59, OF _ _ _ _ this refl] show ?thesis
    by (auto simp: known_algorithm_def to_ascii_lowercase_def lower1_def digest_of_def ones_hmac_def
        truncated_nat_def nth_replicate last_replicate)
qed

text \<open>
  Ten digits are accepted too, but \<open>10u32.pow(10)\<close> does not fit: with a digest that truncates to
  2147483647 the code ought to be 2147483647, and is 0737418239, the remainder modulo 1410065408.
\<close>

theorem ten_digits_overflow:
  "totp_code ones_hmac (encode_base32 [1]) 10 30 (lit ''sha1'') 59 = Inr (zero_padded 10 737418239)
   \<and> truncated_nat (digest_of ones_hmac (lit ''sha1'') [1] (to_be_bytes 1)) 15 mod 10 ^ 10 = 2147483647"
proof -
  have k: "decode_base32 (encode_base32 [1]) = Inr [1]" by (rule base32_read_back) simp_all
  let ?d = "digest_of ones_hmac (lit ''sha1'') [1] (to_be_bytes (59 div 30))"
  have d: "digest_of ones_hmac (lit ''sha1'') k m = replicate 20 255" for k m by (simp add: digest_of_def ones_hmac_def to_ascii_lowercase_def lower1_def)
  have t: "truncated_nat ?d 15 = 2147483647" unfolding d by (simp add: truncated_nat_def nth_replicate)
  have "unat (truncated ?d 15) = 2147483647"
    using unat_truncated [of ?d 15] t unfolding d by simp
  then have "truncated ?d 15 = 2147483647" unfolding d by (simp add: word_unat_eq_iff)
  then have "unat (truncated ?d 15 mod 10 ^ 10) = 737418239" unfolding d by simp
  then show ?thesis
    using totp_code_digest [OF ones_hmac_ok, of 10 30 "lit ''sha1''" _ _ 59, OF _ _ _ _ k]
    unfolding d by (simp add: known_algorithm_def to_ascii_lowercase_def lower1_def Let_def last_replicate
        truncated_nat_def nth_replicate)
qed

text \<open>
  The server accepts a code exactly when, without spaces and hyphens, it is the six-digit code of
  the secret for the current step of thirty seconds or one of its two neighbours; anything that is not
  six digits is an error.
\<close>

theorem verify_totp_window:
  assumes "hmac_ok H" "decode_base32 secret = Inr key"
    and "cleaned = filter (\<lambda>c. \<not> is_ws c \<and> c \<noteq> ch CHR ''-'') submitted"
  shows "verify_totp H secret submitted now =
    (if cleaned = [] then Inl [lit ''totp code is empty'']
     else if \<not> (byte_len cleaned = 6 \<and> list_all is_ascii_digit cleaned) then Inl [lit ''totp code must be 6 digits'']
     else Inr (\<exists>at\<in>{now - 30, now, now + 30}. totp_code H secret 6 30 (lit ''sha1'') at = Inr cleaned))"
proof -
  have total: "\<exists>c. totp_code H secret DIGITS PERIOD ALGORITHM at = Inr c" for at
    using totp_code_digest [OF assms(1) _ _ _ _ assms(2), of DIGITS PERIOD ALGORITHM at]
    by (simp add: DIGITS_def PERIOD_def ALGORITHM_def known_algorithm_def to_ascii_lowercase_def lower1_def Let_def)
  have w: "[- SKEW_STEPS .. SKEW_STEPS] = [-1, 0, 1]" by (simp add: SKEW_STEPS_def upto_rec1)
  have "nat (max (int now - 30) 0) = now - 30" "nat (int now + 30) = now + 30" by (simp_all add: nat_diff_distrib')
  then show ?thesis
    using verify_steps_iff [OF total, of cleaned now "[-1, 0, 1]"] assms(3)
    by (auto simp: verify_totp_def w Let_def ensure_def rbind_def DIGITS_def PERIOD_def ALGORITHM_def)
qed

theorem verify_totp_window_witness:
  "verify_totp ones_hmac (encode_base32 [1]) (lit ''483 647'') 59 = Inr True"
proof -
  have "decode_base32 (encode_base32 [1]) = Inr [1]" by (rule base32_read_back) simp_all
  from verify_totp_window [OF ones_hmac_ok this refl, of "lit ''483 647''" 59] ones_code [of 59] show ?thesis
    by (simp add: is_ws_def byte_len_def len_utf8_def is_ascii_digit_def)
qed

end
