(* ===== verification/Accounts.thy ===== *)
theory Accounts
  imports Totp Tables
begin

text \<open>
  The account side of the store (\<open>crates/qdrust-server/src/store.rs\<close>, \<open>auth.rs\<close>): users, sessions,
  API tokens, password reset tokens and second-factor challenges, with the statements on them.

  The hash of a token is \<open>th\<close> (SHA-256, printed in hex), a fresh token is an argument of the operation
  that would draw it.  The audit log is written and never read here, and is left out.
\<close>

section \<open>Rows\<close>

record user =
  user_id :: int
  username :: ustr
  role :: ustr
  user_disabled :: bool
  avatar_id :: ustr
  email :: "ustr option"
  email_verified :: bool
  user_created_at :: int
  user_updated_at :: int

record user_row = user +
  password_hash :: ustr
  session_version :: int
  totp_secret :: "ustr option"
  totp_enabled :: bool
  totp_confirmed_at :: "int option"

record session_row =
  session_hash :: ustr
  session_user :: int
  session_csrf_hash :: ustr
  session_ver :: int
  session_created_at :: int
  session_last_seen_at :: int
  session_expires_at :: int

record authenticated_session =
  auth_user :: user
  csrf_token_hash :: ustr
  auth_expires_at :: int

record issued_session =
  session_token :: ustr
  csrf_token :: ustr
  issued_expires_at :: int

record totp_challenge =
  challenge_id :: int
  challenge_user :: int
  challenge_hash :: ustr
  challenge_attempts :: int
  challenge_created_at :: int
  challenge_expires_at :: int

record api_token =
  token_id :: int
  token_user :: int
  token_name :: ustr
  api_token_hash :: ustr
  token_created_at :: int
  token_last_used_at :: "int option"
  token_expires_at :: "int option"

record reset_token =
  reset_hash :: ustr
  reset_user :: int
  reset_created_at :: int
  reset_expires_at :: int

record email_token =
  email_hash :: ustr
  email_user :: int
  email_created_at :: int
  email_expires_at :: int

record accounts =
  users :: "user_row list"
  next_user :: int
  sessions :: "session_row list"
  challenges :: "totp_challenge list"
  next_challenge :: int
  api_tokens :: "api_token list"
  next_token :: int
  reset_tokens :: "reset_token list"
  email_tokens :: "email_token list"

text \<open>The columns of \<open>USER_FIELDS\<close>: what leaves the store.\<close>

definition user_of :: "user_row \<Rightarrow> user" where
  "user_of u = user.truncate u"

section \<open>Users\<close>

definition validate_username :: "ustr \<Rightarrow> error + unit" where
  "validate_username name_in =
     (let name = trim_by is_ws name_in in
      rbind (ensure (3 \<le> length name) [lit ''username is too short'']) (\<lambda>_.
      rbind (ensure (length name \<le> 64) [lit ''username is too long'']) (\<lambda>_.
      ensure (list_all (\<lambda>c. is_ascii_digit c \<or> is_ascii_alpha c \<or> c = 95 \<or> c = 45) name)
        [lit ''username contains unsupported characters''])))"

definition new_user :: "int \<Rightarrow> int \<Rightarrow> ustr \<Rightarrow> ustr \<Rightarrow> ustr \<Rightarrow> user_row" where
  "new_user uid now name ph r = \<lparr>user_id = uid, username = name, role = r, user_disabled = False,
     avatar_id = lit ''avatar-01'', email = None, email_verified = False, user_created_at = now, user_updated_at = now,
     password_hash = ph, session_version = 1, totp_secret = None, totp_enabled = False, totp_confirmed_at = None\<rparr>"

definition get_user_row :: "int \<Rightarrow> accounts \<Rightarrow> user_row option" where
  "get_user_row uid a = find (\<lambda>u. user_id u = uid) (users a)"

definition get_user :: "int \<Rightarrow> accounts \<Rightarrow> user option" where
  "get_user uid a = map_option user_of (get_user_row uid a)"

definition create_user :: "(ustr \<Rightarrow> ustr \<Rightarrow> bool) \<Rightarrow> int \<Rightarrow> ustr \<Rightarrow> ustr \<Rightarrow> ustr \<Rightarrow> accounts \<Rightarrow> (error + user) \<times> accounts" where
  "create_user eq now name ph r a =
     (case validate_username name of Inl e \<Rightarrow> (Inl e, a) | Inr _ \<Rightarrow>
      if \<not> starts_with (lit ''$argon2id$'') ph then (Inl [lit ''invalid password hash''], a)
      else if r \<noteq> lit ''admin'' \<and> r \<noteq> lit ''user'' then (Inl [lit ''invalid user role''], a)
      else if list_ex (\<lambda>u. eq (username u) (trim_by is_ws name)) (users a) then (Inl [lit ''UNIQUE constraint failed''], a)
      else let u = new_user (next_user a) now (trim_by is_ws name) ph r;
               a1 = a\<lparr>users := users a @ [u], next_user := next_user a + 1\<rparr>
        in (case get_user (next_user a) a1 of None \<Rightarrow> (Inl [lit ''created user disappeared''], a1)
            | Some u \<Rightarrow> (Inr u, a1)))"

definition create_first_admin :: "int \<Rightarrow> ustr \<Rightarrow> ustr \<Rightarrow> accounts \<Rightarrow> (error + user option) \<times> accounts" where
  "create_first_admin now name ph a =
     (case validate_username name of Inl e \<Rightarrow> (Inl e, a) | Inr _ \<Rightarrow>
      if \<not> starts_with (lit ''$argon2id$'') ph then (Inl [lit ''invalid password hash''], a)
      else if users a \<noteq> [] then (Inr None, a)
      else let u = new_user (next_user a) now (trim_by is_ws name) ph (lit ''admin'');
               a1 = a\<lparr>users := users a @ [u], next_user := next_user a + 1\<rparr>
        in (Inr (get_user (next_user a) a1), a1))"

text \<open>\<open>username = ? COLLATE NOCASE\<close> on SQLite; \<open>eq\<close> is the collation.\<close>

definition credentials_by_username :: "(ustr \<Rightarrow> ustr \<Rightarrow> bool) \<Rightarrow> ustr \<Rightarrow> accounts \<Rightarrow> user_row option" where
  "credentials_by_username eq name a = find (\<lambda>u. eq (username u) (trim_by is_ws name)) (users a)"

definition update_users :: "(user_row \<Rightarrow> bool) \<Rightarrow> (user_row \<Rightarrow> user_row) \<Rightarrow> accounts \<Rightarrow> nat \<times> accounts" where
  "update_users P f a = (affected P (users a), a\<lparr>users := update_where P f (users a)\<rparr>)"

definition change_avatar :: "int \<Rightarrow> int \<Rightarrow> ustr \<Rightarrow> accounts \<Rightarrow> user option \<times> accounts" where
  "change_avatar now uid av a =
     (let (n, a1) = update_users (\<lambda>u. user_id u = uid \<and> \<not> user_disabled u)
          (\<lambda>u. u\<lparr>avatar_id := av, user_updated_at := now\<rparr>) a
      in if n = 0 then (None, a1) else (get_user uid a1, a1))"

definition update_user :: "int \<Rightarrow> int \<Rightarrow> bool option \<Rightarrow> ustr option \<Rightarrow> accounts \<Rightarrow> (error + user option) \<times> accounts" where
  "update_user now uid dis role_in a = (case get_user uid a of None \<Rightarrow> (Inr None, a)
     | Some current \<Rightarrow>
       let r = (case role_in of None \<Rightarrow> role current | Some r \<Rightarrow> r);
           d = (case dis of None \<Rightarrow> user_disabled current | Some d \<Rightarrow> d)
       in if r \<noteq> lit ''admin'' \<and> r \<noteq> lit ''user'' then (Inl [lit ''invalid user role''], a)
          else let (_, a1) = update_users (\<lambda>u. user_id u = uid)
              (\<lambda>u. u\<lparr>role := r, user_disabled := d, user_updated_at := now\<rparr>) a
            in (Inr (get_user uid a1), a1))"

text \<open>The account rows of \<open>delete_user\<close>; what the account owns elsewhere goes in the same transaction.\<close>

definition delete_account_rows :: "int \<Rightarrow> accounts \<Rightarrow> bool \<times> accounts" where
  "delete_account_rows uid a = (if get_user uid a = None then (False, a)
     else (0 < affected (\<lambda>u. user_id u = uid) (users a),
       a\<lparr>challenges := delete_where (\<lambda>c. challenge_user c = uid) (challenges a),
         sessions := delete_where (\<lambda>s. session_user s = uid) (sessions a),
         api_tokens := delete_where (\<lambda>t. token_user t = uid) (api_tokens a),
         reset_tokens := delete_where (\<lambda>t. reset_user t = uid) (reset_tokens a),
         email_tokens := delete_where (\<lambda>t. email_user t = uid) (email_tokens a),
         users := delete_where (\<lambda>u. user_id u = uid) (users a)\<rparr>))"

section \<open>Sessions\<close>

text \<open>A session that expires past \<open>i64::MAX\<close> is refused; the token hash is the primary key.\<close>

definition create_session :: "(ustr \<Rightarrow> ustr) \<Rightarrow> int \<Rightarrow> int \<Rightarrow> nat \<Rightarrow> ustr \<Rightarrow> ustr \<Rightarrow> accounts
    \<Rightarrow> (error + issued_session) \<times> accounts" where
  "create_session th now uid ttl tok csrf a =
     (if ttl = 0 then (Inl [lit ''session TTL must be positive''], a)
      else case get_user_row uid a of None \<Rightarrow> (Inl [lit ''user not found''], a)
      | Some u \<Rightarrow>
        if user_disabled u then (Inl [lit ''user is disabled''], a)
        else if 2 ^ 63 \<le> ttl then (Inl [lit ''session TTL is too large''], a)
        else if 2 ^ 63 \<le> now + int ttl then (Inl [lit ''session expiry overflow''], a)
        else if list_ex (\<lambda>s. session_hash s = th tok) (sessions a) then (Inl [lit ''UNIQUE constraint failed''], a)
        else (Inr \<lparr>session_token = tok, csrf_token = csrf, issued_expires_at = now + int ttl\<rparr>,
          a\<lparr>sessions := sessions a @ [\<lparr>session_hash = th tok, session_user = uid, session_csrf_hash = th csrf,
             session_ver = session_version u, session_created_at = now, session_last_seen_at = now,
             session_expires_at = now + int ttl\<rparr>]\<rparr>))"

text \<open>The join of \<open>sessions\<close> and \<open>users\<close>.\<close>

definition authenticate_session :: "(ustr \<Rightarrow> ustr) \<Rightarrow> int \<Rightarrow> ustr \<Rightarrow> accounts \<Rightarrow> authenticated_session option" where
  "authenticate_session th now tok a =
     (case find (\<lambda>s. session_hash s = th tok) (sessions a) of None \<Rightarrow> None
      | Some s \<Rightarrow> (case find (\<lambda>u. user_id u = session_user s) (users a) of None \<Rightarrow> None
        | Some u \<Rightarrow>
          if now < session_expires_at s \<and> session_ver s = session_version u \<and> \<not> user_disabled u
          then Some \<lparr>auth_user = user_of u, csrf_token_hash = session_csrf_hash s, auth_expires_at = session_expires_at s\<rparr>
          else None))"

definition delete_session :: "(ustr \<Rightarrow> ustr) \<Rightarrow> ustr \<Rightarrow> accounts \<Rightarrow> bool \<times> accounts" where
  "delete_session th tok a = (0 < affected (\<lambda>s. session_hash s = th tok) (sessions a),
     a\<lparr>sessions := delete_where (\<lambda>s. session_hash s = th tok) (sessions a)\<rparr>)"

definition rotate_csrf :: "(ustr \<Rightarrow> ustr) \<Rightarrow> ustr \<Rightarrow> ustr \<Rightarrow> accounts \<Rightarrow> bool \<times> accounts" where
  "rotate_csrf th tok h a = (0 < affected (\<lambda>s. session_hash s = th tok) (sessions a),
     a\<lparr>sessions := update_where (\<lambda>s. session_hash s = th tok) (\<lambda>s. s\<lparr>session_csrf_hash := h\<rparr>) (sessions a)\<rparr>)"

definition revoke_all_sessions :: "int \<Rightarrow> int \<Rightarrow> accounts \<Rightarrow> accounts" where
  "revoke_all_sessions now uid a =
     (let (_, a1) = update_users (\<lambda>u. user_id u = uid)
          (\<lambda>u. u\<lparr>session_version := session_version u + 1, user_updated_at := now\<rparr>) a
      in a1\<lparr>sessions := delete_where (\<lambda>s. session_user s = uid) (sessions a1)\<rparr>)"

definition purge_expired_sessions :: "int \<Rightarrow> accounts \<Rightarrow> accounts" where
  "purge_expired_sessions now a = a\<lparr>sessions := delete_where (\<lambda>s. session_expires_at s \<le> now) (sessions a)\<rparr>"

section \<open>Passwords\<close>

definition validate_password :: "ustr \<Rightarrow> error + unit" where
  "validate_password p =
     rbind (ensure (12 \<le> byte_len p) [lit ''password must be at least 12 bytes'']) (\<lambda>_.
     ensure (byte_len p \<le> 1024) [lit ''password is too long''])"

definition change_password_rows :: "int \<Rightarrow> int \<Rightarrow> ustr \<Rightarrow> accounts \<Rightarrow> (error + bool) \<times> accounts" where
  "change_password_rows now uid ph a =
     (if \<not> starts_with (lit ''$argon2id$'') ph then (Inl [lit ''invalid password hash''], a)
      else let (n, a1) = update_users (\<lambda>u. user_id u = uid \<and> \<not> user_disabled u)
          (\<lambda>u. u\<lparr>password_hash := ph, session_version := session_version u + 1, user_updated_at := now\<rparr>) a
      in if n = 0 then (Inr False, a)
         else (Inr True, a1\<lparr>sessions := delete_where (\<lambda>s. session_user s = uid) (sessions a1)\<rparr>))"

definition create_password_reset_token :: "(ustr \<Rightarrow> ustr) \<Rightarrow> int \<Rightarrow> int \<Rightarrow> int \<Rightarrow> ustr \<Rightarrow> accounts
    \<Rightarrow> (error + ustr \<times> int) \<times> accounts" where
  "create_password_reset_token th now uid ttl tok a =
     (if list_ex (\<lambda>t. reset_hash t = th tok) (reset_tokens a) then (Inl [lit ''UNIQUE constraint failed''], a)
      else (Inr (tok, now + max ttl 60),
        a\<lparr>reset_tokens := reset_tokens a @ [\<lparr>reset_hash = th tok, reset_user = uid, reset_created_at = now,
           reset_expires_at = now + max ttl 60\<rparr>]\<rparr>))"

text \<open>The \<open>bool\<close> of the password change is not looked at.\<close>

definition consume_password_reset_token :: "(ustr \<Rightarrow> ustr) \<Rightarrow> int \<Rightarrow> ustr \<Rightarrow> ustr \<Rightarrow> accounts
    \<Rightarrow> (error + int option) \<times> accounts" where
  "consume_password_reset_token th now tok ph a =
     (case find (\<lambda>t. reset_hash t = th tok \<and> now < reset_expires_at t) (reset_tokens a) of None \<Rightarrow> (Inr None, a)
      | Some t \<Rightarrow> (case change_password_rows now (reset_user t) ph a of
          (Inl e, a1) \<Rightarrow> (Inl e, a1)
        | (Inr _, a1) \<Rightarrow> (Inr (Some (reset_user t)),
            a1\<lparr>reset_tokens := delete_where (\<lambda>t. reset_hash t = th tok) (reset_tokens a1)\<rparr>)))"

definition purge_expired_reset_tokens :: "int \<Rightarrow> accounts \<Rightarrow> accounts" where
  "purge_expired_reset_tokens now a = a\<lparr>reset_tokens := delete_where (\<lambda>t. reset_expires_at t \<le> now) (reset_tokens a)\<rparr>"

section \<open>Email addresses\<close>

text \<open>\<open>lower\<close> is the Unicode \<open>str::to_lowercase\<close>.\<close>

definition set_user_email :: "(ustr \<Rightarrow> ustr) \<Rightarrow> int \<Rightarrow> int \<Rightarrow> ustr \<Rightarrow> accounts \<Rightarrow> (error + bool) \<times> accounts" where
  "set_user_email lower now uid addr a =
     (let e = lower (trim_by is_ws addr) in
      if \<not> (ch CHR ''@'' \<in> set e \<and> byte_len e \<le> 255) then (Inl [lit ''invalid email address''], a)
      else let (n, a1) = update_users (\<lambda>u. user_id u = uid)
          (\<lambda>u. u\<lparr>email := Some e, email_verified := False, user_updated_at := now\<rparr>) a
        in (Inr (0 < n), a1))"

definition create_email_verification_token :: "(ustr \<Rightarrow> ustr) \<Rightarrow> int \<Rightarrow> int \<Rightarrow> int \<Rightarrow> ustr \<Rightarrow> accounts
    \<Rightarrow> (error + ustr \<times> int) \<times> accounts" where
  "create_email_verification_token th now uid ttl tok a =
     (if 2 ^ 63 \<le> now + max ttl 60 then (Inl [lit ''verification token expiry overflow''], a)
      else let rest = delete_where (\<lambda>t. email_user t = uid) (email_tokens a) in
        if list_ex (\<lambda>t. email_hash t = th tok) rest then (Inl [lit ''UNIQUE constraint failed''], a\<lparr>email_tokens := rest\<rparr>)
        else (Inr (tok, now + max ttl 60),
          a\<lparr>email_tokens := rest @ [\<lparr>email_hash = th tok, email_user = uid, email_created_at = now,
             email_expires_at = now + max ttl 60\<rparr>]\<rparr>))"

definition consume_email_verification_token :: "(ustr \<Rightarrow> ustr) \<Rightarrow> int \<Rightarrow> ustr \<Rightarrow> accounts \<Rightarrow> int option \<times> accounts" where
  "consume_email_verification_token th now tok a =
     (case find (\<lambda>t. email_hash t = th tok \<and> now < email_expires_at t) (email_tokens a) of None \<Rightarrow> (None, a)
      | Some t \<Rightarrow>
        let (_, a1) = update_users (\<lambda>u. user_id u = email_user t) (\<lambda>u. u\<lparr>email_verified := True, user_updated_at := now\<rparr>) a
        in (Some (email_user t), a1\<lparr>email_tokens := delete_where (\<lambda>t. email_hash t = th tok) (email_tokens a1)\<rparr>))"

definition purge_expired_email_tokens :: "int \<Rightarrow> accounts \<Rightarrow> accounts" where
  "purge_expired_email_tokens now a = a\<lparr>email_tokens := delete_where (\<lambda>t. email_expires_at t \<le> now) (email_tokens a)\<rparr>"

section \<open>API tokens\<close>

definition create_api_token :: "(ustr \<Rightarrow> ustr) \<Rightarrow> int \<Rightarrow> int \<Rightarrow> ustr \<Rightarrow> int option \<Rightarrow> ustr \<Rightarrow> accounts
    \<Rightarrow> (error + ustr \<times> api_token) \<times> accounts" where
  "create_api_token th now uid name_in days fresh a =
     (let name = trim_by is_ws name_in; tok = lit ''qd_'' @ fresh in
      if name = [] then (Inl [lit ''token name is required''], a)
      else if 128 < length name then (Inl [lit ''token name is too long''], a)
      else if (case days of None \<Rightarrow> False | Some d \<Rightarrow> d \<le> 0) then (Inl [lit ''expires_in_days must be positive''], a)
      else if list_ex (\<lambda>t. api_token_hash t = th tok) (api_tokens a) then (Inl [lit ''UNIQUE constraint failed''], a)
      else let t = \<lparr>token_id = next_token a, token_user = uid, token_name = name, api_token_hash = th tok,
          token_created_at = now, token_last_used_at = None,
          token_expires_at = map_option (\<lambda>d. now + d * 86400) days\<rparr>
        in (Inr (tok, t), a\<lparr>api_tokens := api_tokens a @ [t], next_token := next_token a + 1\<rparr>))"

definition list_api_tokens :: "int \<Rightarrow> accounts \<Rightarrow> api_token list" where
  "list_api_tokens uid a = sort_key (\<lambda>t. - token_id t) (filter (\<lambda>t. token_user t = uid) (api_tokens a))"

definition delete_api_token :: "int \<Rightarrow> int \<Rightarrow> accounts \<Rightarrow> bool \<times> accounts" where
  "delete_api_token tid uid a = (0 < affected (\<lambda>t. token_id t = tid \<and> token_user t = uid) (api_tokens a),
     a\<lparr>api_tokens := delete_where (\<lambda>t. token_id t = tid \<and> token_user t = uid) (api_tokens a)\<rparr>)"

definition authenticate_api_token :: "(ustr \<Rightarrow> ustr) \<Rightarrow> int \<Rightarrow> ustr \<Rightarrow> accounts
    \<Rightarrow> authenticated_session option \<times> accounts" where
  "authenticate_api_token th now tok a =
     (case find (\<lambda>t. api_token_hash t = th tok) (api_tokens a) of None \<Rightarrow> (None, a)
      | Some t \<Rightarrow> (case find (\<lambda>u. user_id u = token_user t) (users a) of None \<Rightarrow> (None, a)
        | Some u \<Rightarrow>
          if user_disabled u then (None, a)
          else if (case token_expires_at t of None \<Rightarrow> False | Some e \<Rightarrow> e \<le> now) then (None, a)
          else (Some \<lparr>auth_user = user_of u, csrf_token_hash = [],
                  auth_expires_at = (case token_expires_at t of None \<Rightarrow> 0 | Some e \<Rightarrow> e)\<rparr>,
            a\<lparr>api_tokens := update_where (\<lambda>t. api_token_hash t = th tok)
               (\<lambda>t. t\<lparr>token_last_used_at := Some now\<rparr>) (api_tokens a)\<rparr>)))"

section \<open>Second factor\<close>

definition user_totp :: "int \<Rightarrow> accounts \<Rightarrow> (ustr option \<times> bool) option" where
  "user_totp uid a = map_option (\<lambda>u. (totp_secret u, totp_enabled u)) (get_user_row uid a)"

definition set_user_totp_secret :: "int \<Rightarrow> int \<Rightarrow> ustr \<Rightarrow> accounts \<Rightarrow> bool \<times> accounts" where
  "set_user_totp_secret now uid secret a =
     (let (n, a1) = update_users (\<lambda>u. user_id u = uid) (\<lambda>u. u\<lparr>totp_secret := Some secret, user_updated_at := now\<rparr>) a
      in (0 < n, a1))"

definition enable_user_totp :: "int \<Rightarrow> int \<Rightarrow> accounts \<Rightarrow> bool \<times> accounts" where
  "enable_user_totp now uid a =
     (let (n, a1) = update_users (\<lambda>u. user_id u = uid \<and> totp_secret u \<noteq> None)
          (\<lambda>u. u\<lparr>totp_enabled := True, totp_confirmed_at := Some now, user_updated_at := now\<rparr>) a
      in (0 < n, a1))"

definition disable_user_totp :: "int \<Rightarrow> int \<Rightarrow> accounts \<Rightarrow> bool \<times> accounts" where
  "disable_user_totp now uid a =
     (let (n, a1) = update_users (\<lambda>u. user_id u = uid)
          (\<lambda>u. u\<lparr>totp_secret := None, totp_enabled := False, totp_confirmed_at := None, user_updated_at := now\<rparr>)
          (a\<lparr>challenges := delete_where (\<lambda>c. challenge_user c = uid) (challenges a)\<rparr>)
      in (0 < n, a1))"

definition create_totp_challenge :: "int \<Rightarrow> int \<Rightarrow> ustr \<Rightarrow> int \<Rightarrow> accounts \<Rightarrow> (error + unit) \<times> accounts" where
  "create_totp_challenge now uid h expires a =
     (if list_ex (\<lambda>c. challenge_hash c = h) (challenges a) then (Inl [lit ''UNIQUE constraint failed''], a)
      else (Inr (), a\<lparr>challenges := challenges a @ [\<lparr>challenge_id = next_challenge a, challenge_user = uid,
        challenge_hash = h, challenge_attempts = 0, challenge_created_at = now, challenge_expires_at = expires\<rparr>],
        next_challenge := next_challenge a + 1\<rparr>))"

definition totp_challenge_by_hash :: "ustr \<Rightarrow> accounts \<Rightarrow> totp_challenge option" where
  "totp_challenge_by_hash h a = find (\<lambda>c. challenge_hash c = h) (challenges a)"

definition record_totp_attempt :: "int \<Rightarrow> accounts \<Rightarrow> int \<times> accounts" where
  "record_totp_attempt cid a =
     (let a1 = a\<lparr>challenges := update_where (\<lambda>c. challenge_id c = cid)
          (\<lambda>c. c\<lparr>challenge_attempts := challenge_attempts c + 1\<rparr>) (challenges a)\<rparr>
      in ((case find (\<lambda>c. challenge_id c = cid) (challenges a1) of None \<Rightarrow> 0 | Some c \<Rightarrow> challenge_attempts c), a1))"

definition delete_totp_challenge :: "int \<Rightarrow> accounts \<Rightarrow> bool \<times> accounts" where
  "delete_totp_challenge cid a = (0 < affected (\<lambda>c. challenge_id c = cid) (challenges a),
     a\<lparr>challenges := delete_where (\<lambda>c. challenge_id c = cid) (challenges a)\<rparr>)"

definition delete_totp_challenges_for_user :: "int \<Rightarrow> accounts \<Rightarrow> nat \<times> accounts" where
  "delete_totp_challenges_for_user uid a = (affected (\<lambda>c. challenge_user c = uid) (challenges a),
     a\<lparr>challenges := delete_where (\<lambda>c. challenge_user c = uid) (challenges a)\<rparr>)"

definition purge_expired_totp_challenges :: "int \<Rightarrow> accounts \<Rightarrow> nat \<times> accounts" where
  "purge_expired_totp_challenges before a = (affected (\<lambda>c. challenge_expires_at c < before) (challenges a),
     a\<lparr>challenges := delete_where (\<lambda>c. challenge_expires_at c < before) (challenges a)\<rparr>)"

end
