(* ===== verification/Sessions.thy ===== *)
theory Sessions
  imports Accounts
begin

text \<open>
  Who a request is: the session cache (\<open>crates/qdrust-server/src/redis_cache.rs\<close>) in front of the
  store, the wrappers of \<open>AppState\<close> that change both, and \<open>require_session\<close> and \<open>require_csrf\<close>
  (\<open>api.rs\<close>).

  The two kinds of Redis keys are two maps: \<open>qdrust:session:<hash>\<close> with its value and the second it
  expires at, \<open>qdrust:session:user:<id>\<close> with its members and expiry (a hash is hex, so the keys do not
  clash).  \<open>up\<close> says whether Redis answers; an error is swallowed by the code.
\<close>

section \<open>The cache\<close>

record session_cache =
  entries :: "ustr \<Rightarrow> (authenticated_session \<times> int) option"
  index :: "int \<Rightarrow> (ustr list \<times> int) option"

definition empty_cache :: session_cache where
  "empty_cache = \<lparr>entries = \<lambda>_. None, index = \<lambda>_. None\<rparr>"

definition cache_get :: "bool \<Rightarrow> int \<Rightarrow> ustr \<Rightarrow> session_cache \<Rightarrow> authenticated_session option" where
  "cache_get up now h c =
     (if \<not> up then None
      else case entries c h of None \<Rightarrow> None
      | Some (s, gone) \<Rightarrow> if gone \<le> now then None else if auth_expires_at s \<le> now then None else Some s)"

text \<open>\<open>SMEMBERS\<close>: an expired or absent key has no members.\<close>

definition members :: "int \<Rightarrow> int \<Rightarrow> session_cache \<Rightarrow> ustr list" where
  "members now uid c = (case index c uid of None \<Rightarrow> [] | Some (hs, gone) \<Rightarrow> if gone \<le> now then [] else hs)"

text \<open>\<open>SETEX\<close> of the entry, \<open>SADD\<close> and \<open>EXPIRE\<close> of the index.\<close>

definition cache_set :: "bool \<Rightarrow> int \<Rightarrow> ustr \<Rightarrow> authenticated_session \<Rightarrow> int \<Rightarrow> session_cache \<Rightarrow> session_cache" where
  "cache_set up now h s ttl c =
     (if \<not> up then c
      else let uid = user_id (auth_user s) in
        c\<lparr>entries := (entries c)(h \<mapsto> (s, now + max ttl 1)),
          index := (index c)(uid \<mapsto> (List.insert h (members now uid c), now + max ttl 1))\<rparr>)"

definition invalidate :: "bool \<Rightarrow> ustr \<Rightarrow> session_cache \<Rightarrow> session_cache" where
  "invalidate up h c = (if \<not> up then c else c\<lparr>entries := (entries c)(h := None)\<rparr>)"

definition invalidate_user :: "bool \<Rightarrow> int \<Rightarrow> int \<Rightarrow> ustr list \<Rightarrow> session_cache \<Rightarrow> session_cache" where
  "invalidate_user up now uid hashes c =
     (let c = fold (invalidate up) hashes c in
      if \<not> up then c
      else c\<lparr>entries := (\<lambda>h. if h \<in> set (members now uid c) then None else entries c h),
             index := (index c)(uid := None)\<rparr>)"

section \<open>Store and cache together\<close>

record app =
  acc :: accounts
  cache :: session_cache

definition app_revoke_session :: "(ustr \<Rightarrow> ustr) \<Rightarrow> bool \<Rightarrow> ustr \<Rightarrow> app \<Rightarrow> bool \<times> app" where
  "app_revoke_session th up tok st =
     (let (existed, a) = delete_session th tok (acc st)
      in (existed, \<lparr>acc = a, cache = invalidate up (th tok) (cache st)\<rparr>))"

definition app_change_password :: "bool \<Rightarrow> int \<Rightarrow> int \<Rightarrow> ustr \<Rightarrow> app \<Rightarrow> (error + bool) \<times> app" where
  "app_change_password up now uid ph st = (case change_password_rows now uid ph (acc st) of
      (Inl e, a) \<Rightarrow> (Inl e, st\<lparr>acc := a\<rparr>)
    | (Inr changed, a) \<Rightarrow> (Inr changed,
        \<lparr>acc = a, cache = if changed then invalidate_user up now uid [] (cache st) else cache st\<rparr>))"

definition app_delete_user :: "bool \<Rightarrow> int \<Rightarrow> int \<Rightarrow> app \<Rightarrow> bool \<times> app" where
  "app_delete_user up now uid st =
     (let (deleted, a) = delete_account_rows uid (acc st)
      in (deleted, \<lparr>acc = a, cache = if deleted then invalidate_user up now uid [] (cache st) else cache st\<rparr>))"

definition app_update_user :: "bool \<Rightarrow> int \<Rightarrow> int \<Rightarrow> bool option \<Rightarrow> ustr option \<Rightarrow> app \<Rightarrow> (error + user option) \<times> app" where
  "app_update_user up now uid dis role_in st = (case update_user now uid dis role_in (acc st) of
      (Inl e, a) \<Rightarrow> (Inl e, st\<lparr>acc := a\<rparr>)
    | (Inr u, a) \<Rightarrow> (Inr u,
        \<lparr>acc = a, cache = if u \<noteq> None then invalidate_user up now uid [] (cache st) else cache st\<rparr>))"

definition app_set_avatar :: "bool \<Rightarrow> int \<Rightarrow> int \<Rightarrow> ustr \<Rightarrow> app \<Rightarrow> user option \<times> app" where
  "app_set_avatar up now uid av st =
     (let (u, a) = change_avatar now uid av (acc st)
      in (u, \<lparr>acc = a, cache = if u \<noteq> None then invalidate_user up now uid [] (cache st) else cache st\<rparr>))"

definition app_consume_email_verification :: "(ustr \<Rightarrow> ustr) \<Rightarrow> bool \<Rightarrow> int \<Rightarrow> ustr \<Rightarrow> app \<Rightarrow> int option \<times> app" where
  "app_consume_email_verification th up now tok st =
     (let (uid, a) = consume_email_verification_token th now tok (acc st)
      in (uid, \<lparr>acc = a, cache = (case uid of None \<Rightarrow> cache st | Some i \<Rightarrow> invalidate_user up now i [] (cache st))\<rparr>))"

definition app_consume_password_reset :: "(ustr \<Rightarrow> ustr) \<Rightarrow> bool \<Rightarrow> int \<Rightarrow> ustr \<Rightarrow> ustr \<Rightarrow> app
    \<Rightarrow> (error + int option) \<times> app" where
  "app_consume_password_reset th up now tok ph st = (case consume_password_reset_token th now tok ph (acc st) of
      (Inl e, a) \<Rightarrow> (Inl e, st\<lparr>acc := a\<rparr>)
    | (Inr None, a) \<Rightarrow> (Inr None, st\<lparr>acc := a\<rparr>)
    | (Inr (Some uid), a) \<Rightarrow> (Inr (Some uid), \<lparr>acc = a, cache = invalidate_user up now uid [] (cache st)\<rparr>))"

section \<open>Requests\<close>

text \<open>An error by its kind and code; the message text belongs to the code.\<close>

datatype api_error = NotFound ustr | Unauthorized ustr | Forbidden ustr | Conflict ustr | TooManyRequests ustr
  | Unprocessable error | Internal error

text \<open>Headers: lower-case names, values that are text, in order.\<close>

type_synonym request_headers = "(ustr \<times> ustr) list"

record auth_origin =
  origin_token :: ustr
  origin_bearer :: bool

definition SESSION_COOKIE :: ustr where "SESSION_COOKIE = lit ''qd_session''"
definition CSRF_COOKIE :: ustr where "CSRF_COOKIE = lit ''qd_csrf''"

definition unauthorized :: api_error where
  "unauthorized = Unauthorized (lit ''authentication_required'')"

definition bearer_token :: "request_headers \<Rightarrow> ustr option" where
  "bearer_token hs = (case map_of hs (lit ''authorization'') of None \<Rightarrow> None
     | Some v \<Rightarrow>
       (case (case strip_prefix (lit ''Bearer '') v of Some t \<Rightarrow> Some t | None \<Rightarrow> strip_prefix (lit ''bearer '') v) of
          None \<Rightarrow> None
        | Some t \<Rightarrow> let token = trim_by is_ws t in if token = [] then None else Some token))"

definition cookie_value :: "request_headers \<Rightarrow> ustr \<Rightarrow> ustr option" where
  "cookie_value hs name =
     map_of (List.map_filter (\<lambda>pair. split_once (lit ''='') (trim_by is_ws pair))
       (concat (map (\<lambda>(_, v). split_by (\<lambda>c. c = ch CHR '';'') v)
         (filter (\<lambda>(n, _). n = lit ''cookie'') hs)))) name"

definition cache_ttl :: "nat \<Rightarrow> int" where
  "cache_ttl session_ttl = int (min session_ttl (86400 * 7))"

definition require_session :: "(ustr \<Rightarrow> ustr) \<Rightarrow> nat \<Rightarrow> bool \<Rightarrow> int \<Rightarrow> request_headers \<Rightarrow> app
    \<Rightarrow> (api_error + auth_origin \<times> authenticated_session) \<times> app" where
  "require_session th ttl up now hs st = (case bearer_token hs of
      Some tok \<Rightarrow> (case authenticate_api_token th now tok (acc st) of
          (None, a) \<Rightarrow> (Inl unauthorized, st\<lparr>acc := a\<rparr>)
        | (Some s, a) \<Rightarrow> (Inr (\<lparr>origin_token = tok, origin_bearer = True\<rparr>, s), st\<lparr>acc := a\<rparr>))
    | None \<Rightarrow> (case cookie_value hs SESSION_COOKIE of None \<Rightarrow> (Inl unauthorized, st)
      | Some tok \<Rightarrow> (case cache_get up now (th tok) (cache st) of
          Some s \<Rightarrow> (Inr (\<lparr>origin_token = tok, origin_bearer = False\<rparr>, s), st)
        | None \<Rightarrow> (case authenticate_session th now tok (acc st) of None \<Rightarrow> (Inl unauthorized, st)
          | Some s \<Rightarrow> (Inr (\<lparr>origin_token = tok, origin_bearer = False\<rparr>, s),
              st\<lparr>cache := cache_set up now (th tok) s (cache_ttl ttl) (cache st)\<rparr>)))))"

definition require_csrf :: "(ustr \<Rightarrow> ustr) \<Rightarrow> request_headers \<Rightarrow> auth_origin \<Rightarrow> authenticated_session \<Rightarrow> api_error + unit" where
  "require_csrf th hs origin s =
     (if origin_bearer origin then Inr ()
      else case (cookie_value hs CSRF_COOKIE, map_of hs (lit ''x-csrf-token'')) of
        (Some c, Some x) \<Rightarrow> if c = x \<and> th x = csrf_token_hash s then Inr () else Inl (Forbidden (lit ''csrf_validation_failed''))
      | _ \<Rightarrow> Inl (Forbidden (lit ''csrf_validation_failed'')))"

text \<open>\<open>POST\<close> of a new CSRF token: the store gets its hash.\<close>

definition rotate_csrf_token :: "(ustr \<Rightarrow> ustr) \<Rightarrow> nat \<Rightarrow> bool \<Rightarrow> int \<Rightarrow> ustr \<Rightarrow> request_headers \<Rightarrow> app \<Rightarrow> (api_error + ustr) \<times> app" where
  "rotate_csrf_token th ttl up now fresh hs st = (case require_session th ttl up now hs st of
      (Inl e, st1) \<Rightarrow> (Inl e, st1)
    | (Inr (origin, _), st1) \<Rightarrow> (Inr fresh, st1\<lparr>acc := snd (rotate_csrf th (origin_token origin) (th fresh) (acc st1))\<rparr>))"

definition logout :: "(ustr \<Rightarrow> ustr) \<Rightarrow> nat \<Rightarrow> bool \<Rightarrow> int \<Rightarrow> request_headers \<Rightarrow> app \<Rightarrow> (api_error + unit) \<times> app" where
  "logout th ttl up now hs st = (case require_session th ttl up now hs st of
      (Inl e, st1) \<Rightarrow> (Inl e, st1)
    | (Inr (origin, s), st1) \<Rightarrow> (case require_csrf th hs origin s of
        Inl e \<Rightarrow> (Inl e, st1)
      | Inr _ \<Rightarrow> (Inr (), snd (app_revoke_session th up (origin_token origin) st1))))"

end
