(* ===== verification/SessionProps.thy ===== *)
theory SessionProps
  imports Sessions
begin

text \<open>
  The session cache agrees with the store.  \<open>backed\<close> says that the store vouches for a cached session;
  \<open>coherent\<close> that every cached session that would still be served is backed and can be found by the
  per-user index.  The locale \<open>user_call\<close> is what a change of one account has to respect before its
  cached sessions are evicted, \<open>store_call\<close> a change that needs no eviction; both are interpreted on
  the statements of the store.
\<close>

section \<open>Agreement\<close>

definition sess_view :: "session_row \<Rightarrow> ustr \<times> int \<times> int \<times> int" where
  "sess_view r = (session_hash r, session_user r, session_ver r, session_expires_at r)"

definition acct_view :: "user_row \<Rightarrow> int \<times> ustr \<times> ustr \<times> bool \<times> int" where
  "acct_view u = (user_id u, username u, role u, user_disabled u, session_version u)"

definition backed :: "accounts \<Rightarrow> authenticated_session \<Rightarrow> ustr \<Rightarrow> bool" where
  "backed a s h \<longleftrightarrow> (\<exists>v.
     (h, user_id (auth_user s), v, auth_expires_at s) \<in> sess_view ` set (sessions a)
     \<and> (user_id (auth_user s), username (auth_user s), role (auth_user s), False, v) \<in> acct_view ` set (users a))"

definition accounts_ok :: "accounts \<Rightarrow> bool" where
  "accounts_ok a \<longleftrightarrow> keyed user_id (next_user a) (users a) \<and> distinct (map session_hash (sessions a))"

definition coherent :: "nat \<Rightarrow> int \<Rightarrow> app \<Rightarrow> bool" where
  "coherent ttl now st \<longleftrightarrow> accounts_ok (acc st) \<and> (\<forall>h s gone.
     entries (cache st) h = Some (s, gone) \<and> now < gone \<and> now < auth_expires_at s \<longrightarrow>
       backed (acc st) s h \<and> gone \<le> now + max (cache_ttl ttl) 1
       \<and> (\<exists>hs x. index (cache st) (user_id (auth_user s)) = Some (hs, x) \<and> h \<in> set hs \<and> gone \<le> x))"

lemma coherentD:
  assumes "coherent ttl now st" "entries (cache st) h = Some (s, gone)" "now < gone" "now < auth_expires_at s"
  obtains hs x where "backed (acc st) s h" "gone \<le> now + max (cache_ttl ttl) 1"
    "index (cache st) (user_id (auth_user s)) = Some (hs, x)" "h \<in> set hs" "gone \<le> x"
  using assms unfolding coherent_def by blast

lemma coherent_later: "coherent ttl now st \<Longrightarrow> now \<le> now2 \<Longrightarrow> coherent ttl now2 st"
  unfolding coherent_def by (meson add_right_mono le_less_trans order_trans)

lemma find_session: "accounts_ok a \<Longrightarrow> r \<in> set (sessions a) \<Longrightarrow> find (\<lambda>x. session_hash x = session_hash r) (sessions a) = Some r"
proof -
  assume a: "accounts_ok a" and r: "r \<in> set (sessions a)"
  have "distinct (map session_hash xs) \<Longrightarrow> r \<in> set xs \<Longrightarrow> find (\<lambda>x. session_hash x = session_hash r) xs = Some r" for xs
    by (induction xs) auto
  with a r show ?thesis by (simp add: accounts_ok_def)
qed

lemma backed_authenticates:
  assumes "accounts_ok a" "backed a s (th tok)" "now < auth_expires_at s"
  shows "\<exists>s2. authenticate_session th now tok a = Some s2 \<and> user_id (auth_user s2) = user_id (auth_user s)
    \<and> username (auth_user s2) = username (auth_user s) \<and> role (auth_user s2) = role (auth_user s)
    \<and> auth_expires_at s2 = auth_expires_at s"
proof -
  obtain r u where r: "r \<in> set (sessions a)" "session_hash r = th tok" "session_user r = user_id (auth_user s)"
      "session_expires_at r = auth_expires_at s"
    and u: "u \<in> set (users a)" "user_id u = user_id (auth_user s)" "username u = username (auth_user s)"
      "role u = role (auth_user s)" "\<not> user_disabled u" "session_ver r = session_version u"
    using assms(2) by (auto simp: backed_def sess_view_def acct_view_def)
  have "find (\<lambda>x. session_hash x = th tok) (sessions a) = Some r" using find_session [OF assms(1) r(1)] r(2) by simp
  moreover have "find (\<lambda>x. user_id x = session_user r) (users a) = Some u"
    using find_keyed [of user_id "next_user a" "users a" u] assms(1) u(1,2) r(3) by (simp add: accounts_ok_def)
  ultimately show ?thesis using r u assms(3)
    by (auto simp: authenticate_session_def user_of_def user.truncate_def)
qed

lemma authenticated_backed:
  assumes "authenticate_session th now tok a = Some s"
  shows "backed a s (th tok)" "now < auth_expires_at s"
proof -
  obtain r u where r: "find (\<lambda>x. session_hash x = th tok) (sessions a) = Some r"
    and u: "find (\<lambda>u. user_id u = session_user r) (users a) = Some u"
    and c: "now < session_expires_at r" "session_ver r = session_version u" "\<not> user_disabled u"
    and s: "s = \<lparr>auth_user = user_of u, csrf_token_hash = session_csrf_hash r, auth_expires_at = session_expires_at r\<rparr>"
    using assms by (auto simp: authenticate_session_def split: option.splits if_splits)
  have "r \<in> set (sessions a)" "session_hash r = th tok" "u \<in> set (users a)" "user_id u = session_user r"
    using r u by (auto simp: find_Some_iff)
  then show "backed a s (th tok)" "now < auth_expires_at s"
    using c by (auto simp: backed_def s user_of_def user.truncate_def sess_view_def acct_view_def image_iff
        intro!: exI [of _ "session_ver r"] bexI [of _ r] bexI [of _ u])
qed

section \<open>Calls that change one account\<close>

lemma invalidate_user_up: "invalidate_user True now uid [] c =
    c\<lparr>entries := (\<lambda>h. if h \<in> set (members now uid c) then None else entries c h), index := (index c)(uid := None)\<rparr>"
  by (simp add: invalidate_user_def Let_def)

locale user_call =
  fixes now :: int and uid :: int and f :: "accounts \<Rightarrow> accounts"
  assumes stays_ok: "accounts_ok a \<Longrightarrow> accounts_ok (f a)"
    and others: "accounts_ok a \<Longrightarrow> backed a s h \<Longrightarrow> now < auth_expires_at s \<Longrightarrow> user_id (auth_user s) \<noteq> uid \<Longrightarrow> backed (f a) s h"
begin

lemma evicted: "coherent ttl now st \<Longrightarrow> coherent ttl now \<lparr>acc = f (acc st), cache = invalidate_user True now uid [] (cache st)\<rparr>"
  unfolding coherent_def [of _ _ "\<lparr>acc = _, cache = _\<rparr>"]
proof (intro conjI allI impI)
  assume c: "coherent ttl now st"
  show "accounts_ok (acc \<lparr>acc = f (acc st), cache = invalidate_user True now uid [] (cache st)\<rparr>)"
    using c stays_ok by (simp add: coherent_def)
  fix h s gone
  assume e: "entries (cache \<lparr>acc = f (acc st), cache = invalidate_user True now uid [] (cache st)\<rparr>) h = Some (s, gone) \<and> now < gone \<and> now < auth_expires_at s"
  then have old: "entries (cache st) h = Some (s, gone)" "h \<notin> set (members now uid (cache st))" "now < gone" "now < auth_expires_at s"
    by (auto simp: invalidate_user_up split: if_splits)
  obtain hs x where o: "backed (acc st) s h" "gone \<le> now + max (cache_ttl ttl) 1"
      "index (cache st) (user_id (auth_user s)) = Some (hs, x)" "h \<in> set hs" "gone \<le> x"
    using coherentD [OF c old(1,3,4)] by blast
  have "user_id (auth_user s) \<noteq> uid" using o old by (auto simp: members_def)
  then show "backed (acc \<lparr>acc = f (acc st), cache = invalidate_user True now uid [] (cache st)\<rparr>) s h"
      "gone \<le> now + max (cache_ttl ttl) 1"
      "\<exists>hs x. index (cache \<lparr>acc = f (acc st), cache = invalidate_user True now uid [] (cache st)\<rparr>) (user_id (auth_user s)) = Some (hs, x) \<and> h \<in> set hs \<and> gone \<le> x"
    using o old others c by (auto simp: invalidate_user_up coherent_def)
qed

end

locale store_call =
  fixes now :: int and f :: "accounts \<Rightarrow> accounts"
  assumes stays_ok: "accounts_ok a \<Longrightarrow> accounts_ok (f a)"
    and kept: "accounts_ok a \<Longrightarrow> backed a s h \<Longrightarrow> now < auth_expires_at s \<Longrightarrow> backed (f a) s h"
begin

lemma unevicted: "coherent ttl now st \<Longrightarrow> coherent ttl now (st\<lparr>acc := f (acc st)\<rparr>)"
  unfolding coherent_def using stays_ok kept by (simp; blast)

end

sublocale store_call \<subseteq> any: user_call now uid f for uid
  by unfold_locales (use stays_ok kept in blast)+

lemma backed_cong:
  "map sess_view (sessions a2) = map sess_view (sessions a) \<Longrightarrow> map acct_view (users a2) = map acct_view (users a)
    \<Longrightarrow> backed a2 = backed a"
  by (simp add: backed_def fun_eq_iff flip: set_map)


section \<open>The calls of the store\<close>

lemma backed_users:
  assumes "\<And>r. r \<in> set (sessions a) \<Longrightarrow> session_user r \<noteq> uid \<Longrightarrow> sess_view r \<in> sess_view ` set (sessions a2)"
    and "\<And>u. u \<in> set (users a) \<Longrightarrow> user_id u \<noteq> uid \<Longrightarrow> acct_view u \<in> acct_view ` set (users a2)"
    and "backed a s h" "user_id (auth_user s) \<noteq> uid"
  shows "backed a2 s h"
proof -
  obtain v r u where "r \<in> set (sessions a)" "sess_view r = (h, user_id (auth_user s), v, auth_expires_at s)"
    "u \<in> set (users a)" "acct_view u = (user_id (auth_user s), username (auth_user s), role (auth_user s), False, v)"
    using assms(3) unfolding backed_def by (metis (no_types, lifting) imageE)
  moreover from this have "session_user r \<noteq> uid" "user_id u \<noteq> uid" using assms(4) by (simp_all add: sess_view_def acct_view_def)
  ultimately show ?thesis unfolding backed_def using assms(1) [of r] assms(2) [of u] by metis
qed

lemma updated_image: "x \<in> set xs \<Longrightarrow> \<not> P x \<Longrightarrow> g x \<in> g ` set (update_where P f xs)"
  by (auto simp: set_update_where image_iff intro!: bexI [of _ x])

lemma deleted_image: "x \<in> set xs \<Longrightarrow> \<not> P x \<Longrightarrow> g x \<in> g ` set (delete_where P xs)"
  by auto

lemma distinct_delete: "distinct (map g xs) \<Longrightarrow> distinct (map g (delete_where P xs))"
  by (simp add: delete_where_def distinct_map_filter)

interpretation password: user_call now uid "\<lambda>a. snd (change_password_rows now uid ph a)" for now uid ph
proof
  fix a show "accounts_ok a \<Longrightarrow> accounts_ok (snd (change_password_rows now uid ph a))"
    by (auto simp: change_password_rows_def update_users_def accounts_ok_def Let_def intro!: keyed_update distinct_delete)
  fix s h assume "backed a s h" "user_id (auth_user s) \<noteq> uid"
  then show "backed (snd (change_password_rows now uid ph a)) s h"
    by (rule backed_users [rotated 2]) (auto simp: change_password_rows_def update_users_def Let_def intro!: updated_image)
qed

interpretation account_update: user_call now uid "\<lambda>a. snd (update_user now uid dis r a)" for now uid dis r
proof
  fix a show "accounts_ok a \<Longrightarrow> accounts_ok (snd (update_user now uid dis r a))"
    by (auto simp: update_user_def update_users_def accounts_ok_def Let_def split: option.splits intro!: keyed_update)
  fix s h assume "backed a s h" "user_id (auth_user s) \<noteq> uid"
  then show "backed (snd (update_user now uid dis r a)) s h"
    by (rule backed_users [rotated 2]) (auto simp: update_user_def update_users_def Let_def split: option.splits intro!: updated_image)
qed

interpretation deletion: user_call now uid "\<lambda>a. snd (delete_account_rows uid a)" for now uid
proof
  fix a show "accounts_ok a \<Longrightarrow> accounts_ok (snd (delete_account_rows uid a))"
    by (auto simp: delete_account_rows_def accounts_ok_def intro: keyed_delete distinct_delete)
  fix s h assume "backed a s h" "user_id (auth_user s) \<noteq> uid"
  then show "backed (snd (delete_account_rows uid a)) s h"
    by (rule backed_users [rotated 2]) (auto simp: delete_account_rows_def)
qed

text \<open>Calls that leave what \<open>backed\<close> looks at as it is.\<close>

lemma same_views:
  assumes "map sess_view (sessions (f a)) = map sess_view (sessions a)"
    "map acct_view (users (f a)) = map acct_view (users a)" "next_user (f a) = next_user a"
  shows "accounts_ok a \<Longrightarrow> accounts_ok (f a)" "backed a s h \<Longrightarrow> backed (f a) s h"
proof -
  have "map user_id us = map fst (map acct_view us)" for us by (simp add: acct_view_def)
  moreover have "map session_hash rs = map fst (map sess_view rs)" for rs by (simp add: sess_view_def)
  moreover have "(\<forall>u\<in>set us. user_id u < n) \<longleftrightarrow> list_all (\<lambda>k. k < n) (map fst (map acct_view us))" for us n
    by (simp add: list_all_iff acct_view_def)
  ultimately show "accounts_ok a \<Longrightarrow> accounts_ok (f a)" using assms by (simp only: accounts_ok_def keyed_def)
  show "backed a s h \<Longrightarrow> backed (f a) s h" using backed_cong [OF assms(1,2)] by simp
qed

lemma store_callI:
  assumes "\<And>a. map sess_view (sessions (f a)) = map sess_view (sessions a)"
    "\<And>a. map acct_view (users (f a)) = map acct_view (users a)" "\<And>a. next_user (f a) = next_user a"
  shows "store_call now f"
  by unfold_locales (use same_views [of f] assms in blast)+

lemmas view_simps = map_update_where sess_view_def acct_view_def update_users_def Let_def split_beta

interpretation avatar: store_call now "\<lambda>a. snd (change_avatar now uid av a)" for now uid av
  by (rule store_callI) (simp_all add: change_avatar_def view_simps)

interpretation csrf: store_call now "\<lambda>a. snd (rotate_csrf th tok h a)" for now th tok h
  by (rule store_callI) (simp_all add: rotate_csrf_def view_simps)

interpretation api_auth: store_call now "\<lambda>a. snd (authenticate_api_token th t tok a)" for now th t tok
  by (rule store_callI) (simp_all add: authenticate_api_token_def view_simps split: option.split)

interpretation api_new: store_call now "\<lambda>a. snd (create_api_token th t uid name days tok a)" for now th t uid name days tok
  by (rule store_callI) (simp_all add: create_api_token_def view_simps)

interpretation api_delete: store_call now "\<lambda>a. snd (delete_api_token tid uid a)" for now tid uid
  by (rule store_callI) (simp_all add: delete_api_token_def)

interpretation totp_secret: store_call now "\<lambda>a. snd (set_user_totp_secret t uid secret a)" for now t uid secret
  by (rule store_callI) (simp_all add: set_user_totp_secret_def view_simps)

interpretation totp_on: store_call now "\<lambda>a. snd (enable_user_totp t uid a)" for now t uid
  by (rule store_callI) (simp_all add: enable_user_totp_def view_simps)

interpretation totp_off: store_call now "\<lambda>a. snd (disable_user_totp t uid a)" for now t uid
  by (rule store_callI) (simp_all add: disable_user_totp_def view_simps)

interpretation challenge_new: store_call now "\<lambda>a. snd (create_totp_challenge t uid h e a)" for now t uid h e
  by (rule store_callI) (simp_all add: create_totp_challenge_def)

interpretation challenge_count: store_call now "\<lambda>a. snd (record_totp_attempt cid a)" for now cid
  by (rule store_callI) (simp_all add: record_totp_attempt_def Let_def)

interpretation challenge_delete: store_call now "\<lambda>a. snd (delete_totp_challenge cid a)" for now cid
  by (rule store_callI) (simp_all add: delete_totp_challenge_def)

interpretation reset_new: store_call now "\<lambda>a. snd (create_password_reset_token th t uid ttl tok a)" for now th t uid ttl tok
  by (rule store_callI) (simp_all add: create_password_reset_token_def)

interpretation reset_purge: store_call now "purge_expired_reset_tokens t" for now t
  by (rule store_callI) (simp_all add: purge_expired_reset_tokens_def)

interpretation email_change: store_call now "\<lambda>a. snd (set_user_email lower t uid e a)" for now lower t uid e
  by (rule store_callI) (simp_all add: set_user_email_def view_simps)

interpretation email_new: store_call now "\<lambda>a. snd (create_email_verification_token th t uid ttl tok a)" for now th t uid ttl tok
  by (rule store_callI) (simp_all add: create_email_verification_token_def Let_def)

interpretation email_consume: store_call now "\<lambda>a. snd (consume_email_verification_token th t tok a)" for now th t tok
  by (rule store_callI) (simp_all add: consume_email_verification_token_def view_simps split: option.split)

interpretation email_purge: store_call now "purge_expired_email_tokens t" for now t
  by (rule store_callI) (simp_all add: purge_expired_email_tokens_def)

text \<open>Calls that add rows, and the sweep of rows whose time has passed.\<close>

lemma backed_mono:
  "set (sessions a) \<subseteq> set (sessions a2) \<Longrightarrow> set (users a) \<subseteq> set (users a2) \<Longrightarrow> backed a s h \<Longrightarrow> backed a2 s h"
  unfolding backed_def by blast

interpretation login: store_call now "\<lambda>a. snd (create_session th t uid ttl tok csrf a)" for now th t uid ttl tok csrf
proof
  fix a show "accounts_ok a \<Longrightarrow> accounts_ok (snd (create_session th t uid ttl tok csrf a))"
    by (auto simp: create_session_def accounts_ok_def list_ex_iff split: option.splits)
  fix s h assume "backed a s h"
  then show "backed (snd (create_session th t uid ttl tok csrf a)) s h"
    by (rule backed_mono [rotated 2]) (auto simp: create_session_def split: option.splits)
qed

lemma accounts_ok_new: "accounts_ok a \<Longrightarrow> accounts_ok (a\<lparr>users := users a @ [new_user (next_user a) now name ph r], next_user := next_user a + 1\<rparr>)"
  by (auto simp: accounts_ok_def new_user_def intro!: keyed_insert)

interpretation registration: store_call now "\<lambda>a. snd (create_user eq t name ph r a)" for now eq t name ph r
proof
  fix a show "accounts_ok a \<Longrightarrow> accounts_ok (snd (create_user eq t name ph r a))"
    by (auto simp: create_user_def Let_def accounts_ok_new split: sum.splits option.splits)
  fix s h assume "backed a s h"
  then show "backed (snd (create_user eq t name ph r a)) s h"
    by (rule backed_mono [rotated 2]) (auto simp: create_user_def Let_def split: sum.splits option.splits)
qed

interpretation bootstrap: store_call now "\<lambda>a. snd (create_first_admin t name ph a)" for now t name ph
proof
  fix a show "accounts_ok a \<Longrightarrow> accounts_ok (snd (create_first_admin t name ph a))"
    using accounts_ok_new [of a] by (auto simp: create_first_admin_def Let_def split: sum.splits)
  fix s h assume "backed a s h"
  then show "backed (snd (create_first_admin t name ph a)) s h"
    by (rule backed_mono [rotated 2]) (auto simp: create_first_admin_def Let_def split: sum.splits)
qed

interpretation session_purge: store_call now "purge_expired_sessions now" for now
proof
  fix a show "accounts_ok a \<Longrightarrow> accounts_ok (purge_expired_sessions now a)"
    by (simp add: purge_expired_sessions_def accounts_ok_def distinct_delete)
  fix s h assume "backed a s h" "now < auth_expires_at s"
  then show "backed (purge_expired_sessions now a) s h"
    by (force simp: backed_def purge_expired_sessions_def sess_view_def image_iff)
qed

interpretation reset: user_call now uid "\<lambda>a. (snd (change_password_rows now uid ph a))\<lparr>reset_tokens := g a\<rparr>" for now uid ph g
proof
  fix a show "accounts_ok a \<Longrightarrow> accounts_ok ((snd (change_password_rows now uid ph a))\<lparr>reset_tokens := g a\<rparr>)"
    using password.stays_ok [of a now uid ph] by (simp add: accounts_ok_def)
  fix s h assume "accounts_ok a" "backed a s h" "now < auth_expires_at s" "user_id (auth_user s) \<noteq> uid"
  then show "backed ((snd (change_password_rows now uid ph a))\<lparr>reset_tokens := g a\<rparr>) s h"
    using password.others [of a s h now uid ph] by (simp add: backed_def)
qed

section \<open>Operations on store and cache keep the agreement\<close>

lemma app_same [simp]: "\<lparr>acc = acc st, cache = cache st\<rparr> = st" "st\<lparr>acc := acc st\<rparr> = st"
  by simp_all

lemma coherent_password:
  assumes c: "coherent ttl now st"
  shows "coherent ttl now (snd (app_change_password True now uid ph st))"
proof (cases "change_password_rows now uid ph (acc st)")
  case (Pair r a)
  then have "r = Inr True \<or> a = acc st"
    by (auto simp: change_password_rows_def update_users_def Let_def split: if_splits)
  with Pair show ?thesis using c password.evicted [OF c, of uid ph]
    by (cases r) (auto simp: app_change_password_def)
qed

lemma coherent_deletion:
  assumes c: "coherent ttl now st"
  shows "coherent ttl now (snd (app_delete_user True now uid st))"
proof (cases "delete_account_rows uid (acc st)")
  case (Pair r a)
  then have "r \<or> a = acc st"
    by (auto simp: delete_account_rows_def get_user_def get_user_row_def affected_pos find_None_iff split: if_splits)
  with Pair show ?thesis using c deletion.evicted [OF c, of uid] by (auto simp: app_delete_user_def)
qed

lemma find_updated:
  "find P xs \<noteq> None \<Longrightarrow> (\<And>x. P x \<Longrightarrow> P (f x)) \<Longrightarrow> find P (update_where P f xs) \<noteq> None"
  by (auto simp: find_None_iff set_update_where)

lemma coherent_account:
  assumes c: "coherent ttl now st"
  shows "coherent ttl now (snd (app_update_user True now uid dis r st))"
proof (cases "update_user now uid dis r (acc st)")
  case (Pair x a)
  then have "(\<exists>u. x = Inr (Some u)) \<or> a = acc st"
    using find_updated [of "\<lambda>u. user_id u = uid" "users (acc st)"]
    by (auto simp: update_user_def update_users_def get_user_def get_user_row_def Let_def split: if_splits option.splits)
  with Pair show ?thesis using c account_update.evicted [OF c, of uid dis r]
    by (cases x) (auto simp: app_update_user_def)
qed

lemma coherent_avatar:
  assumes c: "coherent ttl now st"
  shows "coherent ttl now (snd (app_set_avatar True now uid av st))"
proof -
  have eq: "\<lparr>acc = b, cache = cache st\<rparr> = st\<lparr>acc := b\<rparr>" for b by simp
  show ?thesis using avatar.any.evicted [where uid = uid and uida = uid and av = av, OF c]
    avatar.unevicted [where uid = uid and av = av, OF c]
  by (cases "change_avatar now uid av (acc st)") (auto simp: app_set_avatar_def eq)
qed

lemma coherent_verification:
  assumes c: "coherent ttl now st"
  shows "coherent ttl now (snd (app_consume_email_verification th True now tok st))"
proof (cases "consume_email_verification_token th now tok (acc st)")
  case (Pair r a)
  have eq: "\<lparr>acc = b, cache = cache st\<rparr> = st\<lparr>acc := b\<rparr>" for b by simp
  show ?thesis
    using Pair email_consume.any.evicted [where th = th and t = now and tok = tok, OF c]
      email_consume.unevicted [where th = th and t = now and tok = tok, OF c]
    by (cases r) (auto simp: app_consume_email_verification_def eq)
qed

lemma coherent_reset:
  assumes c: "coherent ttl now st"
  shows "coherent ttl now (snd (app_consume_password_reset th True now tok ph st))"
proof (cases "find (\<lambda>t. reset_hash t = th tok \<and> now < reset_expires_at t) (reset_tokens (acc st))")
  case (Some t)
  obtain r a where ra: "change_password_rows now (reset_user t) ph (acc st) = (r, a)" by fastforce
  then have "(\<exists>b. r = Inr b) \<or> a = acc st" by (auto simp: change_password_rows_def split: if_splits prod.splits)
  with Some ra show ?thesis
    using c reset.evicted [where uid = "reset_user t" and ph = ph
        and g = "\<lambda>_. delete_where (\<lambda>t. reset_hash t = th tok) (reset_tokens a)", OF c]
    by (cases r) (auto simp: app_consume_password_reset_def consume_password_reset_token_def)
qed (use c in \<open>simp add: app_consume_password_reset_def consume_password_reset_token_def\<close>)

lemma coherent_revoked:
  assumes c: "coherent ttl now st"
  shows "coherent ttl now (snd (app_revoke_session th True tok st))"
proof -
  have b: "backed (snd (delete_session th tok (acc st))) s h" if "backed (acc st) s h" "h \<noteq> th tok" for s h
    using that by (force simp: backed_def delete_session_def sess_view_def image_iff)
  have ok: "accounts_ok (snd (delete_session th tok (acc st)))"
    using c by (simp add: coherent_def accounts_ok_def delete_session_def distinct_delete)
  show ?thesis unfolding coherent_def
  proof (intro conjI allI impI)
    let ?st = "snd (app_revoke_session th True tok st)"
    show "accounts_ok (acc ?st)" using ok by (simp add: app_revoke_session_def split_beta)
    fix h s gone
    assume "entries (cache ?st) h = Some (s, gone) \<and> now < gone \<and> now < auth_expires_at s"
    then have e: "entries (cache st) h = Some (s, gone)" "h \<noteq> th tok" "now < gone" "now < auth_expires_at s"
      by (auto simp: app_revoke_session_def split_beta invalidate_def split: if_splits)
    obtain hs x where "backed (acc st) s h" "gone \<le> now + max (cache_ttl ttl) 1"
        "index (cache st) (user_id (auth_user s)) = Some (hs, x)" "h \<in> set hs" "gone \<le> x"
      using coherentD [OF c e(1,3,4)] by blast
    with e b show "backed (acc ?st) s h" "gone \<le> now + max (cache_ttl ttl) 1"
        "\<exists>hs x. index (cache ?st) (user_id (auth_user s)) = Some (hs, x) \<and> h \<in> set hs \<and> gone \<le> x"
      by (simp_all add: app_revoke_session_def split_beta invalidate_def)
  qed
qed

lemma coherent_filled:
  assumes c: "coherent ttl now st" and a: "authenticate_session th now tok (acc st) = Some s"
  shows "coherent ttl now (st\<lparr>cache := cache_set True now (th tok) s (cache_ttl ttl) (cache st)\<rparr>)"
  unfolding coherent_def
proof (intro conjI allI impI)
  let ?c = "cache_set True now (th tok) s (cache_ttl ttl) (cache st)" and ?m = "now + max (cache_ttl ttl) 1"
  show "accounts_ok (acc (st\<lparr>cache := ?c\<rparr>))" using c by (simp add: coherent_def)
  fix h s2 gone
  assume "entries (cache (st\<lparr>cache := ?c\<rparr>)) h = Some (s2, gone) \<and> now < gone \<and> now < auth_expires_at s2"
  then have e: "entries ?c h = Some (s2, gone)" "now < gone" "now < auth_expires_at s2" by simp_all
  let ?ix = "\<exists>hs x. index (cache (st\<lparr>cache := ?c\<rparr>)) (user_id (auth_user s2)) = Some (hs, x) \<and> h \<in> set hs \<and> gone \<le> x"
  have "backed (acc st) s2 h \<and> gone \<le> ?m \<and> ?ix"
  proof (cases "h = th tok")
    case True
    then show ?thesis using e authenticated_backed [OF a] by (auto simp: cache_set_def Let_def)
  next
    case False
    with e have "entries (cache st) h = Some (s2, gone)" by (simp add: cache_set_def Let_def)
    then obtain hs x where "backed (acc st) s2 h" "gone \<le> ?m" "index (cache st) (user_id (auth_user s2)) = Some (hs, x)"
        "h \<in> set hs" "gone \<le> x" using coherentD [OF c _ e(2,3)] by blast
    then show ?thesis using e(2)
      by (cases "user_id (auth_user s2) = user_id (auth_user s)") (simp_all add: cache_set_def Let_def members_def)
  qed
  then show "backed (acc (st\<lparr>cache := ?c\<rparr>)) s2 h" "gone \<le> ?m" ?ix by simp_all
qed

lemma coherent_request:
  assumes c: "coherent ttl now st"
  shows "coherent ttl now (snd (require_session th ttl True now hs st))"
  using c api_auth.unevicted [OF c, of th now] coherent_filled [OF c]
  by (auto simp: require_session_def split_beta split: option.split)

lemma coherent_rotation:
  assumes c: "coherent ttl now st"
  shows "coherent ttl now (snd (rotate_csrf_token th ttl True now fresh hs st))"
  using coherent_request [OF c, of th hs] csrf.unevicted [where th = th]
  by (cases "require_session th ttl True now hs st") (auto simp: rotate_csrf_token_def split: sum.split)

lemma coherent_logout:
  assumes c: "coherent ttl now st"
  shows "coherent ttl now (snd (logout th ttl True now hs st))"
  using coherent_request [OF c, of th hs] coherent_revoked [where th = th]
  by (cases "require_session th ttl True now hs st") (auto simp: logout_def split: sum.split)

section \<open>Runs of the service\<close>

text \<open>
  One call on store and cache at second \<open>now\<close> while Redis answers, each taken as one step: requests,
  the operations of \<open>AppState\<close> that evict, and the statements of the store that need no eviction.
\<close>

inductive app_step :: "(ustr \<Rightarrow> ustr) \<Rightarrow> nat \<Rightarrow> int \<Rightarrow> app \<Rightarrow> app \<Rightarrow> bool" for th ttl now where
  request: "app_step th ttl now st (snd (require_session th ttl True now hs st))"
| log_out: "app_step th ttl now st (snd (logout th ttl True now hs st))"
| csrf_rotation: "app_step th ttl now st (snd (rotate_csrf_token th ttl True now fresh hs st))"
| revocation: "app_step th ttl now st (snd (app_revoke_session th True tok st))"
| password_change: "app_step th ttl now st (snd (app_change_password True now uid ph st))"
| account_change: "app_step th ttl now st (snd (app_update_user True now uid dis r st))"
| account_deletion: "app_step th ttl now st (snd (app_delete_user True now uid st))"
| avatar_change: "app_step th ttl now st (snd (app_set_avatar True now uid av st))"
| password_reset: "app_step th ttl now st (snd (app_consume_password_reset th True now tok ph st))"
| email_verification: "app_step th ttl now st (snd (app_consume_email_verification th True now tok st))"
| email_change: "app_step th ttl now st (st\<lparr>acc := snd (set_user_email lower now uid e (acc st))\<rparr>)"
| email_request: "app_step th ttl now st (st\<lparr>acc := snd (create_email_verification_token th now uid t tok (acc st))\<rparr>)"
| email_sweep: "app_step th ttl now st (st\<lparr>acc := purge_expired_email_tokens now (acc st)\<rparr>)"
| new_session: "app_step th ttl now st (st\<lparr>acc := snd (create_session th now uid n tok csrf (acc st))\<rparr>)"
| new_account: "app_step th ttl now st (st\<lparr>acc := snd (create_user eq now name ph r (acc st))\<rparr>)"
| first_admin: "app_step th ttl now st (st\<lparr>acc := snd (create_first_admin now name ph (acc st))\<rparr>)"
| session_sweep: "app_step th ttl now st (st\<lparr>acc := purge_expired_sessions now (acc st)\<rparr>)"
| reset_request: "app_step th ttl now st (st\<lparr>acc := snd (create_password_reset_token th now uid t tok (acc st))\<rparr>)"
| reset_sweep: "app_step th ttl now st (st\<lparr>acc := purge_expired_reset_tokens now (acc st)\<rparr>)"
| new_api_token: "app_step th ttl now st (st\<lparr>acc := snd (create_api_token th now uid name days tok (acc st))\<rparr>)"
| api_token_deletion: "app_step th ttl now st (st\<lparr>acc := snd (delete_api_token tid uid (acc st))\<rparr>)"
| totp_new_secret: "app_step th ttl now st (st\<lparr>acc := snd (set_user_totp_secret now uid secret (acc st))\<rparr>)"
| totp_enabled_now: "app_step th ttl now st (st\<lparr>acc := snd (enable_user_totp now uid (acc st))\<rparr>)"
| totp_disabled_now: "app_step th ttl now st (st\<lparr>acc := snd (disable_user_totp now uid (acc st))\<rparr>)"
| new_challenge: "app_step th ttl now st (st\<lparr>acc := snd (create_totp_challenge now uid h e (acc st))\<rparr>)"
| challenge_attempt: "app_step th ttl now st (st\<lparr>acc := snd (record_totp_attempt cid (acc st))\<rparr>)"
| challenge_deletion: "app_step th ttl now st (st\<lparr>acc := snd (delete_totp_challenge cid (acc st))\<rparr>)"

inductive app_reach :: "(ustr \<Rightarrow> ustr) \<Rightarrow> nat \<Rightarrow> int \<Rightarrow> app \<Rightarrow> bool" for th ttl where
  start: "accounts_ok a \<Longrightarrow> app_reach th ttl now \<lparr>acc = a, cache = empty_cache\<rparr>"
| wait: "app_reach th ttl now st \<Longrightarrow> now \<le> later \<Longrightarrow> app_reach th ttl later st"
| act: "app_reach th ttl now st \<Longrightarrow> app_step th ttl now st st2 \<Longrightarrow> app_reach th ttl now st2"

lemmas coherent_ops = coherent_request coherent_logout coherent_rotation coherent_revoked coherent_password
  coherent_account coherent_deletion coherent_avatar coherent_reset coherent_verification
  email_change.unevicted email_new.unevicted email_purge.unevicted
  login.unevicted registration.unevicted bootstrap.unevicted session_purge.unevicted reset_new.unevicted reset_purge.unevicted
  api_new.unevicted api_delete.unevicted totp_secret.unevicted totp_on.unevicted totp_off.unevicted
  challenge_new.unevicted challenge_count.unevicted challenge_delete.unevicted

lemma step_coherent: "app_step th ttl now st st2 \<Longrightarrow> coherent ttl now st \<Longrightarrow> coherent ttl now st2"
  by (induction rule: app_step.induct) (erule coherent_ops)+

lemma reach_coherent: "app_reach th ttl now st \<Longrightarrow> coherent ttl now st"
proof (induction rule: app_reach.induct)
  case (start a now)
  then show ?case by (simp add: coherent_def empty_cache_def)
next
  case (wait now st later)
  then show ?case using coherent_later by blast
next
  case (act now st st2)
  then show ?case using step_coherent by blast
qed

lemma cookie_session:
  assumes "coherent ttl now st" "require_session th ttl True now hs st = (Inr (origin, s), st2)" "\<not> origin_bearer origin"
  shows "\<exists>s2. authenticate_session th now (origin_token origin) (acc st) = Some s2
    \<and> user_id (auth_user s2) = user_id (auth_user s) \<and> username (auth_user s2) = username (auth_user s)
    \<and> role (auth_user s2) = role (auth_user s) \<and> auth_expires_at s2 = auth_expires_at s"
proof -
  obtain tok where tok: "bearer_token hs = None" "cookie_value hs SESSION_COOKIE = Some tok" "origin_token origin = tok"
    using assms(2,3) by (auto simp: require_session_def split: option.splits prod.splits)
  show ?thesis
  proof (cases "cache_get True now (th tok) (cache st)")
    case None
    with assms(2) tok show ?thesis by (auto simp: require_session_def split: option.splits)
  next
    case (Some s1)
    then obtain gone where e: "entries (cache st) (th tok) = Some (s1, gone)" "now < gone" "now < auth_expires_at s1"
      by (auto simp: cache_get_def split: option.splits if_splits)
    have "s1 = s" using Some assms(2) tok by (auto simp: require_session_def)
    moreover have "backed (acc st) s1 (th tok)" "accounts_ok (acc st)"
      using coherentD [OF assms(1) e] assms(1) by (auto simp: coherent_def)
    ultimately show ?thesis using backed_authenticates [of "acc st" s1 th tok now] e tok by simp
  qed
qed

end
