(* ===== verification/SessionThms.thy ===== *)
theory SessionThms
  imports SessionProps
begin

text \<open>What the session cache promises, and where it does not keep the promise.\<close>

section \<open>A small deployment\<close>

text \<open>Two users, the first with one session; the token hash is written as the identity.\<close>

definition demo_user :: user_row where
  "demo_user = new_user 1 0 (lit ''ada'') (lit ''$argon2id$x'') (lit ''user'')"

definition demo_accounts :: accounts where
  "demo_accounts = \<lparr>users = [demo_user, new_user 2 0 (lit ''bob'') (lit ''$argon2id$y'') (lit ''user'')], next_user = 3,
     sessions = [\<lparr>session_hash = lit ''tok'', session_user = 1, session_csrf_hash = lit ''old'', session_ver = 1,
       session_created_at = 0, session_last_seen_at = 0, session_expires_at = 1000\<rparr>],
     challenges = [], next_challenge = 1, api_tokens = [], next_token = 1, reset_tokens = [], email_tokens = []\<rparr>"

definition demo_session :: authenticated_session where
  "demo_session = \<lparr>auth_user = user_of demo_user, csrf_token_hash = lit ''old'', auth_expires_at = 1000\<rparr>"

definition demo_app :: app where
  "demo_app = \<lparr>acc = demo_accounts, cache = empty_cache\<rparr>"

definition demo_headers :: "ustr \<Rightarrow> request_headers" where
  "demo_headers csrf = [(lit ''cookie'', lit ''qd_session=tok; qd_csrf='' @ csrf), (lit ''x-csrf-token'', csrf)]"

text \<open>The same after the first request: the session is in the cache.\<close>

definition demo_warm :: app where
  "demo_warm = snd (require_session (\<lambda>t. t) 1000 True 0 (demo_headers (lit ''new'')) demo_app)"

lemma demo_reach: "app_reach (\<lambda>t. t) 1000 0 demo_app"
  unfolding demo_app_def
  by (rule app_reach.start) (simp add: accounts_ok_def keyed_def demo_accounts_def demo_user_def new_user_def)

lemma demo_cookies:
  "cookie_value (demo_headers (lit ''new'')) SESSION_COOKIE = Some (lit ''tok'')"
  "cookie_value (demo_headers (lit ''new'')) CSRF_COOKIE = Some (lit ''new'')"
  by (simp_all add: cookie_value_def demo_headers_def SESSION_COOKIE_def CSRF_COOKIE_def List.map_filter_simps split_once_def
      trim_by_def trim_start_by_def trim_end_by_def is_ws_def starts_with_def)

lemma demo_bearer: "bearer_token (demo_headers h) = None"
  by (simp add: bearer_token_def demo_headers_def)

lemma demo_session_found: "authenticate_session (\<lambda>t. t) 0 (lit ''tok'') demo_accounts = Some demo_session"
  by (simp add: authenticate_session_def demo_accounts_def demo_user_def new_user_def demo_session_def)

lemma demo_request: "require_session (\<lambda>t. t) 1000 True 0 (demo_headers (lit ''new'')) demo_app =
    (Inr (\<lparr>origin_token = lit ''tok'', origin_bearer = False\<rparr>, demo_session), demo_warm)"
  using demo_session_found by (simp add: demo_warm_def require_session_def demo_cookies [simplified] demo_bearer demo_app_def cache_get_def empty_cache_def)

lemma demo_cached: "cache_get True 0 (lit ''tok'') (cache demo_warm) = Some demo_session" "acc demo_warm = demo_accounts"
  using demo_session_found
  by (simp_all add: demo_warm_def require_session_def demo_cookies [simplified] demo_bearer demo_app_def cache_get_def empty_cache_def
      cache_set_def Let_def demo_session_def)

section \<open>What the cache promises\<close>

text \<open>
  C33.  While Redis answers, a request with a session cookie is taken for a user only if the store
  itself authenticates the token at that moment, for the same user, name, role and expiry: the cache
  never outlives a logout, a password change, a reset, a disabled or deleted account.
\<close>

theorem cookie_session_in_store:
  assumes "app_reach th ttl now st"
    and "require_session th ttl True now hs st = (Inr (origin, s), st2)" "\<not> origin_bearer origin"
  shows "\<exists>s2. authenticate_session th now (origin_token origin) (acc st) = Some s2
    \<and> user_id (auth_user s2) = user_id (auth_user s) \<and> username (auth_user s2) = username (auth_user s)
    \<and> role (auth_user s2) = role (auth_user s) \<and> auth_expires_at s2 = auth_expires_at s"
  by (rule cookie_session [OF reach_coherent [OF assms(1)] assms(2,3)])

theorem cookie_session_in_store_witness:
  "\<exists>s2. authenticate_session (\<lambda>t. t) 0 (lit ''tok'') (acc demo_app) = Some s2 \<and> user_id (auth_user s2) = user_id (auth_user demo_session)"
  using cookie_session_in_store [OF demo_reach demo_request] by auto



section \<open>Where it does not\<close>

text \<open>
  After \<open>POST /auth/csrf\<close> of a session that is in the cache, the new CSRF token is refused and
  the old one still passes: the rotation changes the row and leaves the cached copy.
\<close>

theorem rotated_csrf_token_refused:
  assumes "bearer_token hs = None" "cookie_value hs SESSION_COOKIE = Some tok" "cache_get True now (th tok) (cache st) = Some s"
    and "cookie_value hs CSRF_COOKIE = Some fresh" "map_of hs (lit ''x-csrf-token'') = Some fresh" "th fresh \<noteq> csrf_token_hash s"
  shows "\<exists>st2 st3 origin. rotate_csrf_token th ttl True now fresh hs st = (Inr fresh, st2)
    \<and> require_session th ttl True now hs st2 = (Inr (origin, s), st3)
    \<and> require_csrf th hs origin s = Inl (Forbidden (lit ''csrf_validation_failed''))"
  using assms by (simp add: rotate_csrf_token_def require_session_def require_csrf_def)

theorem rotated_csrf_token_refused_witness:
  "\<exists>st2 st3 origin. rotate_csrf_token (\<lambda>t. t) 1000 True 0 (lit ''new'') (demo_headers (lit ''new'')) demo_warm = (Inr (lit ''new''), st2)
    \<and> require_session (\<lambda>t. t) 1000 True 0 (demo_headers (lit ''new'')) st2 = (Inr (origin, demo_session), st3)
    \<and> require_csrf (\<lambda>t. t) (demo_headers (lit ''new'')) origin demo_session = Inl (Forbidden (lit ''csrf_validation_failed''))"
  by (rule rotated_csrf_token_refused [where th = "\<lambda>t. t", OF demo_bearer demo_cookies(1) demo_cached(1) demo_cookies(2)])
    (simp_all add: demo_headers_def demo_session_def)

text \<open>
  A request that read the store before a password change and writes the cache after it puts the
  revoked session back: the token is accepted from the cache although the store refuses it.
\<close>

theorem revoked_session_revived:
  assumes "authenticate_session th now tok (acc st) = Some s" "user_id (auth_user s) = uid" "accounts_ok (acc st)"
    and "app_change_password True now uid ph st = (Inr True, st1)"
    and "st2 = st1\<lparr>cache := cache_set True now (th tok) s (cache_ttl ttl) (cache st1)\<rparr>"
    and "bearer_token hs = None" "cookie_value hs SESSION_COOKIE = Some tok"
  shows "fst (require_session th ttl True now hs st2) = Inr (\<lparr>origin_token = tok, origin_bearer = False\<rparr>, s)
    \<and> authenticate_session th now tok (acc st2) = None"
proof
  have "now < auth_expires_at s" using authenticated_backed(2) [OF assms(1)] .
  then show "fst (require_session th ttl True now hs st2) = Inr (\<lparr>origin_token = tok, origin_bearer = False\<rparr>, s)"
    using assms(5-7) by (simp add: require_session_def cache_get_def cache_set_def Let_def)
  obtain r u where r: "find (\<lambda>r. session_hash r = th tok) (sessions (acc st)) = Some r"
      and u: "find (\<lambda>u. user_id u = session_user r) (users (acc st)) = Some u" "auth_user s = user_of u"
    using assms(1) by (auto simp: authenticate_session_def split: option.splits if_splits)
  have "session_user r = uid" using u assms(2) by (auto simp: find_Some_iff user_of_def user.truncate_def)
  moreover have "r2 = r" if "r2 \<in> set (sessions (acc st))" "session_hash r2 = th tok" for r2
    using find_session [OF assms(3) that(1)] that(2) r by simp
  moreover have "sessions (acc st1) = delete_where (\<lambda>r. session_user r = uid) (sessions (acc st))"
    using assms(4) by (auto simp: app_change_password_def change_password_rows_def update_users_def Let_def split: if_splits)
  ultimately have "find (\<lambda>r. session_hash r = th tok) (sessions (acc st2)) = None"
    using assms(5) by (auto simp: find_None_iff)
  then show "authenticate_session th now tok (acc st2) = None" by (simp add: authenticate_session_def)
qed

theorem revoked_session_revived_witness:
  "\<exists>st1 st2. app_change_password True 0 1 (lit ''$argon2id$z'') demo_app = (Inr True, st1)
    \<and> fst (require_session (\<lambda>t. t) 1000 True 0 (demo_headers (lit ''new'')) st2)
      = Inr (\<lparr>origin_token = lit ''tok'', origin_bearer = False\<rparr>, demo_session)
    \<and> authenticate_session (\<lambda>t. t) 0 (lit ''tok'') (acc st2) = None"
proof -
  have "fst (app_change_password True 0 1 (lit ''$argon2id$z'') demo_app) = Inr True"
    by (simp add: app_change_password_def change_password_rows_def update_users_def Let_def demo_app_def demo_accounts_def
        demo_user_def new_user_def affected_def starts_with_def)
  then obtain st1 where c: "app_change_password True 0 1 (lit ''$argon2id$z'') demo_app = (Inr True, st1)"
    by (metis prod.collapse)
  have a: "authenticate_session (\<lambda>t. t) 0 (lit ''tok'') (acc demo_app) = Some demo_session"
    "user_id (auth_user demo_session) = 1" "accounts_ok (acc demo_app)"
    using demo_session_found by (simp_all add: demo_app_def demo_session_def demo_user_def new_user_def user_of_def user.truncate_def
        accounts_ok_def keyed_def demo_accounts_def)
  show ?thesis using revoked_session_revived [OF a c refl demo_bearer demo_cookies(1)] c by blast
qed

end
