(* ===== verification/Login.thy ===== *)
theory Login
  imports Sessions
begin

text \<open>
  Signing in (\<open>auth.rs\<close>, the \<open>auth\<close> handlers of \<open>api.rs\<close>): the limiter of failed logins, the password
  step, the second factor and its enrolment, and the handlers that change or reset a password.

  Argon2, SHA-256, the HMACs and the collation of the database are fields of \<open>auth_env\<close>; tokens, salts
  and secrets that the code draws at random are arguments.  \<open>tick\<close> is the monotonic clock of the
  limiter, \<open>now\<close> the wall clock.  Each handler is one step: its awaits are not interleaved with others.
\<close>

section \<open>The limiter of failed logins\<close>

record attempt_window =
  started :: nat
  failures :: nat

record login_limiter =
  windows :: "ustr \<Rightarrow> attempt_window option"
  max_attempts :: nat
  window :: nat

definition new_limiter :: "nat \<Rightarrow> nat \<Rightarrow> error + login_limiter" where
  "new_limiter n w =
     rbind (ensure (0 < n) [lit ''login rate limit must allow at least one attempt'']) (\<lambda>_.
     rbind (ensure (w \<noteq> 0) [lit ''login rate limit window cannot be zero'']) (\<lambda>_.
     Inr \<lparr>windows = \<lambda>_. None, max_attempts = n, window = w\<rparr>))"

text \<open>\<open>duration_since\<close> is zero for an earlier instant, as the subtraction of \<open>nat\<close>.\<close>

definition allowed :: "nat \<Rightarrow> ustr \<Rightarrow> login_limiter \<Rightarrow> bool \<times> login_limiter" where
  "allowed tick key l = (case windows l key of None \<Rightarrow> (True, l)
     | Some w \<Rightarrow> if window l \<le> tick - started w then (True, l\<lparr>windows := (windows l)(key := None)\<rparr>)
       else (failures w < max_attempts l, l))"

definition record_failure :: "nat \<Rightarrow> ustr \<Rightarrow> login_limiter \<Rightarrow> login_limiter" where
  "record_failure tick key l =
     (let fresh = \<lparr>started = tick, failures = 0\<rparr>;
          w = (case windows l key of None \<Rightarrow> fresh | Some w \<Rightarrow> w);
          w = (if window l \<le> tick - started w then fresh else w)
      in l\<lparr>windows := (windows l)(key \<mapsto> w\<lparr>failures := min (failures w + 1) (2 ^ 32 - 1)\<rparr>)\<rparr>)"

definition record_success :: "ustr \<Rightarrow> login_limiter \<Rightarrow> login_limiter" where
  "record_success key l = l\<lparr>windows := (windows l)(key := None)\<rparr>"

section \<open>The service\<close>

record auth_env =
  token_hash :: "ustr \<Rightarrow> ustr"
  verify_password :: "ustr \<Rightarrow> ustr \<Rightarrow> bool"
  argon2 :: "ustr \<Rightarrow> ustr \<Rightarrow> error + ustr"
  hmac :: hmac_lib
  nocase :: "ustr \<Rightarrow> ustr \<Rightarrow> bool"
  session_ttl :: nat
  local_login :: bool
  email_required :: bool
  redis_up :: bool
  lower :: "ustr \<Rightarrow> ustr"
  mail_configured :: bool

record site =
  site_app :: app
  limiter :: login_limiter

abbreviation site_acc :: "site \<Rightarrow> accounts" where
  "site_acc s \<equiv> acc (site_app s)"

abbreviation put_acc :: "accounts \<Rightarrow> site \<Rightarrow> site" where
  "put_acc a s \<equiv> s\<lparr>site_app := (site_app s)\<lparr>acc := a\<rparr>\<rparr>"

definition hash_password :: "auth_env \<Rightarrow> ustr \<Rightarrow> ustr \<Rightarrow> error + ustr" where
  "hash_password E salt p = rbind (validate_password p) (\<lambda>_. argon2 E salt p)"

definition ensure_local_login_allowed :: "auth_env \<Rightarrow> api_error + unit" where
  "ensure_local_login_allowed E = (if local_login E then Inr () else Inl (Forbidden (lit ''local_login_disabled'')))"

datatype login_response = LoggedIn user issued_session | TotpRequired ustr int

definition issue_session_response :: "auth_env \<Rightarrow> int \<Rightarrow> ustr \<Rightarrow> ustr \<Rightarrow> user \<Rightarrow> site \<Rightarrow> (api_error + login_response) \<times> site" where
  "issue_session_response E now tok csrf u s =
     (case create_session (token_hash E) now (user_id u) (session_ttl E) tok csrf (site_acc s) of
        (Inl e, a) \<Rightarrow> (Inl (Internal e), put_acc a s)
      | (Inr i, a) \<Rightarrow> (Inr (LoggedIn u i), put_acc a s))"

definition TOTP_CHALLENGE_TTL_SECS :: int where "TOTP_CHALLENGE_TTL_SECS = 300"
definition TOTP_MAX_ATTEMPTS :: int where "TOTP_MAX_ATTEMPTS = 5"

section \<open>The password step\<close>

text \<open>
  A missing account is checked against a dummy hash and refused whatever the check says.
  \<open>fresh\<close> is the challenge token, \<open>tok\<close> and \<open>csrf\<close> those of the session.
\<close>

definition login :: "auth_env \<Rightarrow> int \<Rightarrow> nat \<Rightarrow> ustr \<Rightarrow> ustr \<Rightarrow> ustr \<Rightarrow> ustr \<Rightarrow> ustr \<Rightarrow> site \<Rightarrow> (api_error + login_response) \<times> site" where
  "login E now tick fresh tok csrf name password s = (case ensure_local_login_allowed E of Inl e \<Rightarrow> (Inl e, s) | Inr _ \<Rightarrow>
     let rate_key = to_ascii_lowercase (trim_by is_ws name); (ok, l) = allowed tick rate_key (limiter s); s = s\<lparr>limiter := l\<rparr> in
     if \<not> ok then (Inl (TooManyRequests (lit ''login_rate_limited'')), s)
     else
       let found = credentials_by_username (nocase E) name (site_acc s);
           valid = (case found of None \<Rightarrow> False | Some u \<Rightarrow> verify_password E password (password_hash u) \<and> \<not> user_disabled u)
       in if valid \<and> email_required E \<and> \<not> email_verified (the found) then (Inl (Forbidden (lit ''email_not_verified'')), s)
          else if \<not> valid
          then (Inl (Unauthorized (lit ''invalid_credentials'')), s\<lparr>limiter := record_failure tick rate_key (limiter s)\<rparr>)
          else
            let u = user_of (the found); s = s\<lparr>limiter := record_success rate_key (limiter s)\<rparr> in
            (case user_totp (user_id u) (site_acc s) of
               Some (_, True) \<Rightarrow>
                 (case create_totp_challenge now (user_id u) (token_hash E fresh) (now + TOTP_CHALLENGE_TTL_SECS) (site_acc s) of
                    (Inl e, a) \<Rightarrow> (Inl (Internal e), put_acc a s)
                  | (Inr _, a) \<Rightarrow> (Inr (TotpRequired fresh (now + TOTP_CHALLENGE_TTL_SECS)), put_acc a s))
             | _ \<Rightarrow> issue_session_response E now tok csrf u s))"

section \<open>The second factor\<close>

abbreviation invalid_code :: api_error where
  "invalid_code \<equiv> Unauthorized (lit ''invalid_totp_code'')"

definition login_totp :: "auth_env \<Rightarrow> int \<Rightarrow> ustr \<Rightarrow> ustr \<Rightarrow> ustr \<Rightarrow> ustr \<Rightarrow> site \<Rightarrow> (api_error + login_response) \<times> site" where
  "login_totp E now tok csrf challenge code s = (case ensure_local_login_allowed E of Inl e \<Rightarrow> (Inl e, s) | Inr _ \<Rightarrow>
     case totp_challenge_by_hash (token_hash E challenge) (site_acc s) of None \<Rightarrow> (Inl invalid_code, s) | Some c \<Rightarrow>
     if challenge_expires_at c \<le> now
     then (Inl (Unauthorized (lit ''totp_challenge_expired'')), put_acc (snd (delete_totp_challenge (challenge_id c) (site_acc s))) s)
     else case user_totp (challenge_user c) (site_acc s) of
       None \<Rightarrow> (Inl invalid_code, s)
     | Some (None, _) \<Rightarrow> (Inl invalid_code, s)
     | Some (Some secret, _) \<Rightarrow>
       (case verify_totp (hmac E) secret code (nat (max now 0)) of
          Inl e \<Rightarrow> (Inl (Internal e), s)
        | Inr False \<Rightarrow>
            (let (attempts, a) = record_totp_attempt (challenge_id c) (site_acc s);
                 a = (if TOTP_MAX_ATTEMPTS \<le> attempts then snd (delete_totp_challenge (challenge_id c) a) else a)
             in (Inl invalid_code, put_acc a s))
        | Inr True \<Rightarrow>
            let s = put_acc (snd (delete_totp_challenge (challenge_id c) (site_acc s))) s in
            (case get_user (challenge_user c) (site_acc s) of None \<Rightarrow> (Inl invalid_code, s)
             | Some u \<Rightarrow>
               if user_disabled u then (Inl (Unauthorized (lit ''account_disabled'')), s)
               else issue_session_response E now tok csrf u s)))"

section \<open>Handlers of a signed-in user\<close>

text \<open>\<open>require_session\<close> on the site, and with \<open>require_csrf\<close> behind it.\<close>

definition with_session :: "auth_env \<Rightarrow> int \<Rightarrow> request_headers \<Rightarrow> site
    \<Rightarrow> (auth_origin \<times> authenticated_session \<Rightarrow> site \<Rightarrow> (api_error + 'a) \<times> site) \<Rightarrow> (api_error + 'a) \<times> site" where
  "with_session E now hs s k = (case require_session (token_hash E) (session_ttl E) (redis_up E) now hs (site_app s) of
      (Inl e, st) \<Rightarrow> (Inl e, s\<lparr>site_app := st\<rparr>)
    | (Inr r, st) \<Rightarrow> k r (s\<lparr>site_app := st\<rparr>))"

definition with_csrf :: "auth_env \<Rightarrow> int \<Rightarrow> request_headers \<Rightarrow> site
    \<Rightarrow> (authenticated_session \<Rightarrow> site \<Rightarrow> (api_error + 'a) \<times> site) \<Rightarrow> (api_error + 'a) \<times> site" where
  "with_csrf E now hs s k = with_session E now hs s (\<lambda>(origin, u) s.
     case require_csrf (token_hash E) hs origin u of Inl e \<Rightarrow> (Inl e, s) | Inr _ \<Rightarrow> k u s)"

definition totp_setup :: "auth_env \<Rightarrow> int \<Rightarrow> ustr \<Rightarrow> request_headers \<Rightarrow> site \<Rightarrow> (api_error + ustr \<times> ustr) \<times> site" where
  "totp_setup E now secret hs s = with_csrf E now hs s (\<lambda>u s. let uid = user_id (auth_user u) in
     if (case user_totp uid (site_acc s) of None \<Rightarrow> False | Some (_, on) \<Rightarrow> on)
     then (Inl (Conflict (lit ''totp_already_enabled'')), s)
     else (Inr (secret, otpauth_uri (lit ''qdrust'') (username (auth_user u)) secret),
           put_acc (snd (set_user_totp_secret now uid secret (site_acc s))) s))"

definition totp_enable :: "auth_env \<Rightarrow> int \<Rightarrow> request_headers \<Rightarrow> ustr \<Rightarrow> site \<Rightarrow> (api_error + unit) \<times> site" where
  "totp_enable E now hs code s = with_csrf E now hs s (\<lambda>u s. let uid = user_id (auth_user u) in
     case user_totp uid (site_acc s) of None \<Rightarrow> (Inl (NotFound (lit ''totp_not_started'')), s)
     | Some (secret, on) \<Rightarrow>
       if on then (Inl (Conflict (lit ''totp_already_enabled'')), s)
       else (case secret of None \<Rightarrow> (Inl (NotFound (lit ''totp_not_started'')), s)
         | Some secret \<Rightarrow> (case verify_totp (hmac E) secret code (nat (max now 0)) of
             Inl e \<Rightarrow> (Inl (Internal e), s)
           | Inr False \<Rightarrow> (Inl invalid_code, s)
           | Inr True \<Rightarrow> (Inr (), put_acc (snd (enable_user_totp now uid (site_acc s))) s))))"

definition totp_disable :: "auth_env \<Rightarrow> int \<Rightarrow> request_headers \<Rightarrow> ustr \<Rightarrow> ustr \<Rightarrow> site \<Rightarrow> (api_error + unit) \<times> site" where
  "totp_disable E now hs password code s = with_csrf E now hs s (\<lambda>u s. let uid = user_id (auth_user u) in
     case credentials_by_username (nocase E) (username (auth_user u)) (site_acc s) of None \<Rightarrow> (Inl unauthorized, s)
     | Some row \<Rightarrow>
       if \<not> verify_password E password (password_hash row) then (Inl (Unauthorized (lit ''invalid_credentials'')), s)
       else (case user_totp uid (site_acc s) of
           None \<Rightarrow> (Inl (NotFound (lit ''totp_not_enabled'')), s)
         | Some (None, _) \<Rightarrow> (Inl (NotFound (lit ''totp_not_enabled'')), s)
         | Some (Some secret, _) \<Rightarrow> (case verify_totp (hmac E) secret code (nat (max now 0)) of
             Inl e \<Rightarrow> (Inl (Internal e), s)
           | Inr False \<Rightarrow> (Inl invalid_code, s)
           | Inr True \<Rightarrow> (Inr (), put_acc (snd (disable_user_totp now uid (site_acc s))) s))))"

definition change_password :: "auth_env \<Rightarrow> int \<Rightarrow> ustr \<Rightarrow> request_headers \<Rightarrow> ustr \<Rightarrow> ustr \<Rightarrow> site \<Rightarrow> (api_error + unit) \<times> site" where
  "change_password E now salt hs current fresh s = with_csrf E now hs s (\<lambda>u s.
     case credentials_by_username (nocase E) (username (auth_user u)) (site_acc s) of None \<Rightarrow> (Inl unauthorized, s)
     | Some row \<Rightarrow>
       if \<not> verify_password E current (password_hash row) then (Inl (Unauthorized (lit ''invalid_credentials'')), s)
       else (case hash_password E salt fresh of Inl e \<Rightarrow> (Inl (Internal e), s)
         | Inr ph \<Rightarrow> (case app_change_password (redis_up E) now (user_id (auth_user u)) ph (site_app s) of
             (Inl e, st) \<Rightarrow> (Inl (Internal e), s\<lparr>site_app := st\<rparr>)
           | (Inr changed, st) \<Rightarrow> (if changed then Inr () else Inl unauthorized, s\<lparr>site_app := st\<rparr>))))"

definition BUILTIN_AVATAR_IDS :: "ustr list" where
  "BUILTIN_AVATAR_IDS = map (\<lambda>n. lit ''avatar-'' @ zero_padded 2 n) [1..<11]"

definition change_avatar_handler :: "auth_env \<Rightarrow> int \<Rightarrow> request_headers \<Rightarrow> ustr \<Rightarrow> site \<Rightarrow> (api_error + user) \<times> site" where
  "change_avatar_handler E now hs av s = with_csrf E now hs s (\<lambda>u s.
     if av \<notin> set BUILTIN_AVATAR_IDS then (Inl (Unprocessable [lit ''unknown avatar id'']), s)
     else (case app_set_avatar (redis_up E) now (user_id (auth_user u)) av (site_app s) of
         (None, st) \<Rightarrow> (Inl unauthorized, s\<lparr>site_app := st\<rparr>)
       | (Some v, st) \<Rightarrow> (Inr v, s\<lparr>site_app := st\<rparr>)))"

section \<open>Accounts without a session\<close>

definition bootstrap :: "auth_env \<Rightarrow> int \<Rightarrow> ustr \<Rightarrow> ustr \<Rightarrow> ustr \<Rightarrow> ustr \<Rightarrow> ustr \<Rightarrow> site \<Rightarrow> (api_error + login_response) \<times> site" where
  "bootstrap E now salt tok csrf name password s = (case hash_password E salt password of Inl e \<Rightarrow> (Inl (Internal e), s)
   | Inr ph \<Rightarrow> (case create_first_admin now name ph (site_acc s) of
       (Inl e, a) \<Rightarrow> (Inl (Internal e), put_acc a s)
     | (Inr None, a) \<Rightarrow> (Inl (Conflict (lit ''bootstrap_already_completed'')), put_acc a s)
     | (Inr (Some u), a) \<Rightarrow> issue_session_response E now tok csrf u (put_acc a s)))"

definition classify_create_user_failure :: "error \<Rightarrow> api_error" where
  "classify_create_user_failure e =
     (if e = [lit ''UNIQUE constraint failed''] then Conflict (lit ''username_taken'') else Internal e)"

text \<open>
  The address is stored if it can be, a verification token is made, and the mail is sent if it can be;
  \<open>mail_configured\<close> says whether \<open>EmailClient::new\<close> accepts the configuration.
\<close>

definition register_email :: "auth_env \<Rightarrow> int \<Rightarrow> ustr \<Rightarrow> ustr option \<Rightarrow> int \<Rightarrow> site \<Rightarrow> (api_error + unit) \<times> site" where
  "register_email E now fresh addr uid s = (case addr of None \<Rightarrow> (Inr (), s)
   | Some e \<Rightarrow>
     let s = put_acc (snd (set_user_email (lower E) now uid e (site_acc s))) s in
     (case create_email_verification_token (token_hash E) now uid 3600 fresh (site_acc s) of
        (Inl e, a) \<Rightarrow> (Inl (Internal e), put_acc a s)
      | (Inr _, a) \<Rightarrow> (if mail_configured E then Inr ()
          else Inl (Internal [lit ''email requires QDRUST_SMTP_FROM when SMTP is enabled'']), put_acc a s)))"

definition register :: "auth_env \<Rightarrow> int \<Rightarrow> ustr \<Rightarrow> ustr \<Rightarrow> ustr \<Rightarrow> ustr \<Rightarrow> ustr \<Rightarrow> ustr \<Rightarrow> ustr option \<Rightarrow> site \<Rightarrow> (api_error + login_response) \<times> site" where
  "register E now salt tok csrf fresh name password addr s = (case ensure_local_login_allowed E of Inl e \<Rightarrow> (Inl e, s) | Inr _ \<Rightarrow>
     case validate_username name of Inl e \<Rightarrow> (Inl (Unprocessable (lit ''invalid username'' # e)), s) | Inr _ \<Rightarrow>
     case hash_password E salt password of Inl e \<Rightarrow> (Inl (Internal e), s) | Inr ph \<Rightarrow>
     case create_user (nocase E) now (trim_by is_ws name) ph (lit ''user'') (site_acc s) of
       (Inl e, a) \<Rightarrow> (Inl (classify_create_user_failure e), put_acc a s)
     | (Inr u, a) \<Rightarrow> (case register_email E now fresh addr (user_id u) (put_acc a s) of
           (Inl e, s) \<Rightarrow> (Inl e, s)
         | (Inr _, s) \<Rightarrow> issue_session_response E now tok csrf u s))"

definition verify_email :: "auth_env \<Rightarrow> int \<Rightarrow> ustr \<Rightarrow> site \<Rightarrow> (api_error + int) \<times> site" where
  "verify_email E now token s =
     (let (found, st) = app_consume_email_verification (token_hash E) (redis_up E) now token (site_app s)
      in ((case found of None \<Rightarrow> Inl (Unauthorized (lit ''invalid_or_expired_verification_token'')) | Some uid \<Rightarrow> Inr uid),
          s\<lparr>site_app := st\<rparr>))"

text \<open>The token is part of the answer, whether or not a mail could be sent.\<close>

definition resend_verification :: "auth_env \<Rightarrow> int \<Rightarrow> ustr \<Rightarrow> request_headers \<Rightarrow> site \<Rightarrow> (api_error + int \<times> ustr) \<times> site" where
  "resend_verification E now fresh hs s = with_session E now hs s (\<lambda>(_, u) s. let uid = user_id (auth_user u) in
     case (case get_user uid (site_acc s) of None \<Rightarrow> None | Some w \<Rightarrow> email w) of
       None \<Rightarrow> (Inl (Unprocessable [lit ''no email address on this account'']), s)
     | Some _ \<Rightarrow> (case create_email_verification_token (token_hash E) now uid 3600 fresh (site_acc s) of
         (Inl e, a) \<Rightarrow> (Inl (Internal e), put_acc a s)
       | (Inr (token, expires), a) \<Rightarrow> (if mail_configured E then Inr (expires, token)
           else Inl (Internal [lit ''email requires QDRUST_SMTP_FROM when SMTP is enabled'']), put_acc a s)))"

text \<open>The answer: the token, when no mail server is configured to send it.\<close>

definition forgot_password :: "auth_env \<Rightarrow> bool \<Rightarrow> int \<Rightarrow> ustr \<Rightarrow> ustr \<Rightarrow> site \<Rightarrow> (api_error + (ustr \<times> int) option) \<times> site" where
  "forgot_password E smtp now fresh name s = (case ensure_local_login_allowed E of Inl e \<Rightarrow> (Inl e, s) | Inr _ \<Rightarrow>
     case credentials_by_username (nocase E) (trim_by is_ws name) (site_acc s) of None \<Rightarrow> (Inr None, s)
     | Some u \<Rightarrow>
       if user_disabled u then (Inr None, s)
       else (case create_password_reset_token (token_hash E) now (user_id u) 3600 fresh (site_acc s) of
           (Inl e, a) \<Rightarrow> (Inl (Internal e), put_acc a s)
         | (Inr issued, a) \<Rightarrow> (Inr (if smtp then None else Some issued), put_acc a s)))"

definition reset_password :: "auth_env \<Rightarrow> int \<Rightarrow> ustr \<Rightarrow> ustr \<Rightarrow> ustr \<Rightarrow> site \<Rightarrow> (api_error + unit) \<times> site" where
  "reset_password E now salt token password s = (case hash_password E salt password of Inl e \<Rightarrow> (Inl (Internal e), s)
   | Inr ph \<Rightarrow> (case app_consume_password_reset (token_hash E) (redis_up E) now token ph (site_app s) of
       (Inl e, st) \<Rightarrow> (Inl (Internal e), s\<lparr>site_app := st\<rparr>)
     | (Inr None, st) \<Rightarrow> (Inl (Unauthorized (lit ''invalid_or_expired_reset_token'')), s\<lparr>site_app := st\<rparr>)
     | (Inr (Some _), st) \<Rightarrow> (Inr (), s\<lparr>site_app := st\<rparr>)))"

section \<open>API tokens\<close>

text \<open>The variant that takes the store alone: a cookie is never looked up in the cache.\<close>

definition require_session_from_store :: "(ustr \<Rightarrow> ustr) \<Rightarrow> int \<Rightarrow> request_headers \<Rightarrow> accounts
    \<Rightarrow> (api_error + auth_origin \<times> authenticated_session) \<times> accounts" where
  "require_session_from_store th now hs a = (case bearer_token hs of
      Some tok \<Rightarrow> (case authenticate_api_token th now tok a of
          (None, a) \<Rightarrow> (Inl unauthorized, a)
        | (Some s, a) \<Rightarrow> (Inr (\<lparr>origin_token = tok, origin_bearer = True\<rparr>, s), a))
    | None \<Rightarrow> (case cookie_value hs SESSION_COOKIE of None \<Rightarrow> (Inl unauthorized, a)
      | Some tok \<Rightarrow> (case authenticate_session th now tok a of None \<Rightarrow> (Inl unauthorized, a)
        | Some s \<Rightarrow> (Inr (\<lparr>origin_token = tok, origin_bearer = False\<rparr>, s), a))))"

definition with_store_session :: "auth_env \<Rightarrow> int \<Rightarrow> request_headers \<Rightarrow> site
    \<Rightarrow> (authenticated_session \<Rightarrow> site \<Rightarrow> (api_error + 'a) \<times> site) \<Rightarrow> (api_error + 'a) \<times> site" where
  "with_store_session E now hs s k = (case require_session_from_store (token_hash E) now hs (site_acc s) of
      (Inl e, a) \<Rightarrow> (Inl e, put_acc a s)
    | (Inr (_, u), a) \<Rightarrow> k u (put_acc a s))"

definition create_api_token_handler :: "auth_env \<Rightarrow> int \<Rightarrow> request_headers \<Rightarrow> ustr \<Rightarrow> int option \<Rightarrow> ustr \<Rightarrow> site
    \<Rightarrow> (api_error + ustr \<times> api_token) \<times> site" where
  "create_api_token_handler E now hs name days fresh s = with_store_session E now hs s (\<lambda>u s.
     case create_api_token (token_hash E) now (user_id (auth_user u)) name days fresh (site_acc s) of
       (Inl e, a) \<Rightarrow> (Inl (Unprocessable e), put_acc a s)
     | (Inr issued, a) \<Rightarrow> (Inr issued, put_acc a s))"

definition revoke_api_token :: "auth_env \<Rightarrow> int \<Rightarrow> request_headers \<Rightarrow> int \<Rightarrow> site \<Rightarrow> (api_error + unit) \<times> site" where
  "revoke_api_token E now hs tid s = with_store_session E now hs s (\<lambda>u s.
     let (existed, a) = delete_api_token tid (user_id (auth_user u)) (site_acc s)
     in (if existed then Inr () else Inl (NotFound (lit ''api_token_not_found'')), put_acc a s))"

section \<open>Administration\<close>

definition with_admin :: "auth_env \<Rightarrow> int \<Rightarrow> request_headers \<Rightarrow> site
    \<Rightarrow> (authenticated_session \<Rightarrow> site \<Rightarrow> (api_error + 'a) \<times> site) \<Rightarrow> (api_error + 'a) \<times> site" where
  "with_admin E now hs s k = with_session E now hs s (\<lambda>(_, u) s.
     if role (auth_user u) \<noteq> lit ''admin'' then (Inl (Forbidden (lit ''admin_required'')), s) else k u s)"

definition admin_update_user :: "auth_env \<Rightarrow> int \<Rightarrow> request_headers \<Rightarrow> int \<Rightarrow> bool option \<Rightarrow> ustr option \<Rightarrow> site \<Rightarrow> (api_error + user) \<times> site" where
  "admin_update_user E now hs uid dis role_in s = with_admin E now hs s (\<lambda>adm s.
     if user_id (auth_user adm) = uid then (Inl (Forbidden (lit ''cannot_modify_self'')), s)
     else (case app_update_user (redis_up E) now uid dis role_in (site_app s) of
         (Inl e, st) \<Rightarrow> (Inl (Unprocessable e), s\<lparr>site_app := st\<rparr>)
       | (Inr None, st) \<Rightarrow> (Inl (NotFound (lit ''user_not_found'')), s\<lparr>site_app := st\<rparr>)
       | (Inr (Some u), st) \<Rightarrow> (Inr u, s\<lparr>site_app := st\<rparr>)))"

definition admin_delete_user :: "auth_env \<Rightarrow> int \<Rightarrow> request_headers \<Rightarrow> int \<Rightarrow> site \<Rightarrow> (api_error + unit) \<times> site" where
  "admin_delete_user E now hs uid s = with_admin E now hs s (\<lambda>adm s.
     if user_id (auth_user adm) = uid then (Inl (Forbidden (lit ''cannot_delete_self'')), s)
     else (let (deleted, st) = app_delete_user (redis_up E) now uid (site_app s)
       in (if deleted then Inr () else Inl (NotFound (lit ''user_not_found'')), s\<lparr>site_app := st\<rparr>)))"

definition admin_reset_totp :: "auth_env \<Rightarrow> int \<Rightarrow> request_headers \<Rightarrow> int \<Rightarrow> site \<Rightarrow> (api_error + unit) \<times> site" where
  "admin_reset_totp E now hs uid s = with_session E now hs s (\<lambda>(_, u) s.
     if role (auth_user u) \<noteq> lit ''admin'' then (Inl (Forbidden (lit ''admin_required'')), s)
     else if get_user uid (site_acc s) = None then (Inl (NotFound (lit ''user_not_found'')), s)
     else (Inr (), put_acc (snd (disable_user_totp now uid (site_acc s))) s))"

end
