(* ===== verification/LoginProps.thy ===== *)
theory LoginProps
  imports Login SessionProps
begin

text \<open>
  Signing in: what a new session presupposes, the invariant of the second-factor challenges over all
  handlers, and what the requests of the second factor leave alone.
\<close>

section \<open>Challenges\<close>

definition challenges_ok :: "accounts \<Rightarrow> bool" where
  "challenges_ok a \<longleftrightarrow> keyed challenge_id (next_challenge a) (challenges a)
     \<and> list_all (\<lambda>c. 0 \<le> challenge_attempts c \<and> challenge_attempts c < TOTP_MAX_ATTEMPTS) (challenges a)"

lemma challenges_ok_same:
  "challenges a2 = challenges a \<Longrightarrow> next_challenge a2 = next_challenge a \<Longrightarrow> challenges_ok a2 = challenges_ok a"
  by (simp add: challenges_ok_def)

lemma challenges_ok_delete:
  "challenges a2 = delete_where P (challenges a) \<Longrightarrow> next_challenge a2 = next_challenge a \<Longrightarrow> challenges_ok a \<Longrightarrow> challenges_ok a2"
  by (auto simp: challenges_ok_def list_all_iff intro: keyed_delete)

named_theorems challenge_intros

lemma create_challenge_ok [challenge_intros]: "challenges_ok a \<Longrightarrow> challenges_ok (snd (create_totp_challenge now uid h e a))"
  by (auto simp: challenges_ok_def create_totp_challenge_def TOTP_MAX_ATTEMPTS_def intro!: keyed_insert)

lemma delete_challenge_ok [challenge_intros]: "challenges_ok a \<Longrightarrow> challenges_ok (snd (delete_totp_challenge cid a))"
  by (rule challenges_ok_delete) (auto simp: delete_totp_challenge_def)

lemma disable_challenge_ok [challenge_intros]: "challenges_ok a \<Longrightarrow> challenges_ok (snd (disable_user_totp now uid a))"
  by (rule challenges_ok_delete [where P = "\<lambda>c. challenge_user c = uid"]) (auto simp: disable_user_totp_def update_users_def)

lemma account_rows_challenge_ok [challenge_intros]: "challenges_ok a \<Longrightarrow> challenges_ok (snd (delete_account_rows uid a))"
  by (cases "get_user uid a = None")
    (auto simp: delete_account_rows_def intro: challenges_ok_delete [where P = "\<lambda>c. challenge_user c = uid"])

text \<open>A wrong code is counted, and the fifth one deletes the challenge.\<close>

lemma wrong_code_ok:
  assumes a: "challenges_ok a" and r: "record_totp_attempt cid a = (n, a1)"
  shows "challenges_ok (if TOTP_MAX_ATTEMPTS \<le> n then snd (delete_totp_challenge cid a1) else a1)"
proof -
  let ?up = "\<lambda>c. c\<lparr>challenge_attempts := challenge_attempts c + 1\<rparr>"
  have a1: "a1 = a\<lparr>challenges := update_where (\<lambda>c. challenge_id c = cid) ?up (challenges a)\<rparr>"
    and n: "n = (case find (\<lambda>c. challenge_id c = cid) (challenges a1) of None \<Rightarrow> 0 | Some c \<Rightarrow> challenge_attempts c)"
    using r by (auto simp: record_totp_attempt_def Let_def)
  have k: "keyed challenge_id (next_challenge a1) (challenges a1)"
    using a by (auto simp: a1 challenges_ok_def intro!: keyed_update)
  have bounds: "0 \<le> challenge_attempts c \<and> (challenge_id c \<noteq> cid \<longrightarrow> challenge_attempts c < TOTP_MAX_ATTEMPTS)"
    if "c \<in> set (challenges a1)" for c
    using that a by (auto simp: a1 challenges_ok_def list_all_iff set_update_where)
  have hit: "n = challenge_attempts c" if "c \<in> set (challenges a1)" "challenge_id c = cid" for c
    using find_keyed [OF k that(1)] that(2) n by simp
  show ?thesis
    using k bounds hit by (fastforce simp: challenges_ok_def list_all_iff delete_totp_challenge_def intro: keyed_delete)
qed

lemmas other_rows_defs = create_session_def change_password_rows_def update_user_def change_avatar_def update_users_def
  create_user_def create_first_admin_def consume_password_reset_token_def create_password_reset_token_def
  set_user_email_def create_email_verification_token_def consume_email_verification_token_def
  create_api_token_def delete_api_token_def authenticate_api_token_def set_user_totp_secret_def enable_user_totp_def
  delete_session_def rotate_csrf_def

lemma other_rows_challenge_ok [challenge_intros]:
  "challenges_ok a \<Longrightarrow> challenges_ok (snd (create_session th now uid ttl tok csrf a))"
  "challenges_ok a \<Longrightarrow> challenges_ok (snd (change_password_rows now uid ph a))"
  "challenges_ok a \<Longrightarrow> challenges_ok (snd (update_user now uid dis ro a))"
  "challenges_ok a \<Longrightarrow> challenges_ok (snd (change_avatar now uid av a))"
  "challenges_ok a \<Longrightarrow> challenges_ok (snd (create_user eq now name ph r a))"
  "challenges_ok a \<Longrightarrow> challenges_ok (snd (create_first_admin now name ph a))"
  "challenges_ok a \<Longrightarrow> challenges_ok (snd (create_password_reset_token th now uid t tok a))"
  "challenges_ok a \<Longrightarrow> challenges_ok (snd (create_api_token th now uid name days tok a))"
  "challenges_ok a \<Longrightarrow> challenges_ok (snd (delete_api_token tid uid a))"
  "challenges_ok a \<Longrightarrow> challenges_ok (snd (authenticate_api_token th now tok a))"
  "challenges_ok a \<Longrightarrow> challenges_ok (snd (set_user_totp_secret now uid secret a))"
  "challenges_ok a \<Longrightarrow> challenges_ok (snd (enable_user_totp now uid a))"
  "challenges_ok a \<Longrightarrow> challenges_ok (snd (set_user_email lo now uid e a))"
  "challenges_ok a \<Longrightarrow> challenges_ok (snd (create_email_verification_token th now uid t tok a))"
  "challenges_ok a \<Longrightarrow> challenges_ok (snd (consume_email_verification_token th now tok a))"
  "challenges_ok a \<Longrightarrow> challenges_ok (snd (delete_session th tok a))"
  "challenges_ok a \<Longrightarrow> challenges_ok (snd (rotate_csrf th tok h a))"
  by (auto simp: other_rows_defs Let_def challenges_ok_def split: sum.splits option.splits prod.splits)

lemma consumed_challenge_ok [challenge_intros]:
  "challenges_ok a \<Longrightarrow> challenges_ok (snd (consume_password_reset_token th now tok ph a))"
  by (auto simp: other_rows_defs Let_def challenges_ok_def split: sum.splits option.splits prod.splits)

section \<open>Handlers\<close>

lemma app_challenge_ok [challenge_intros]:
  "challenges_ok (acc st) \<Longrightarrow> challenges_ok (acc (snd (app_revoke_session th up tok st)))"
  "challenges_ok (acc st) \<Longrightarrow> challenges_ok (acc (snd (app_change_password up now uid ph st)))"
  "challenges_ok (acc st) \<Longrightarrow> challenges_ok (acc (snd (app_delete_user up now uid st)))"
  "challenges_ok (acc st) \<Longrightarrow> challenges_ok (acc (snd (app_update_user up now uid dis ro st)))"
  "challenges_ok (acc st) \<Longrightarrow> challenges_ok (acc (snd (app_set_avatar up now uid av st)))"
  "challenges_ok (acc st) \<Longrightarrow> challenges_ok (acc (snd (app_consume_password_reset th up now tok ph st)))"
  "challenges_ok (acc st) \<Longrightarrow> challenges_ok (acc (snd (app_consume_email_verification th up now tok st)))"
  "challenges_ok (acc st) \<Longrightarrow> challenges_ok (acc (snd (require_session th ttl up now hs st)))"
  using other_rows_challenge_ok(16) [of "acc st" th tok] other_rows_challenge_ok(15) [of "acc st" th now tok] other_rows_challenge_ok(2) [of "acc st" now uid ph]
    account_rows_challenge_ok [of "acc st" uid] other_rows_challenge_ok(3) [of "acc st" now uid dis ro]
    other_rows_challenge_ok(4) [of "acc st" now uid av] consumed_challenge_ok [of "acc st" th now tok ph]
    other_rows_challenge_ok(10) [of "acc st" th now]
  by (auto simp: app_revoke_session_def app_change_password_def app_delete_user_def app_update_user_def app_set_avatar_def
      app_consume_password_reset_def app_consume_email_verification_def require_session_def split_beta split: sum.split option.split)

lemma with_session_ok:
  assumes "challenges_ok (site_acc s)" "\<And>r s1. challenges_ok (site_acc s1) \<Longrightarrow> challenges_ok (site_acc (snd (k r s1)))"
  shows "challenges_ok (site_acc (snd (with_session E now hs s k)))"
  using app_challenge_ok(8) [of "site_app s" "token_hash E" "session_ttl E" "redis_up E" now hs] assms
  by (auto simp: with_session_def split_beta split: sum.split)

lemma with_csrf_ok:
  assumes "challenges_ok (site_acc s)" "\<And>r s1. challenges_ok (site_acc s1) \<Longrightarrow> challenges_ok (site_acc (snd (k r s1)))"
  shows "challenges_ok (site_acc (snd (with_csrf E now hs s k)))"
  unfolding with_csrf_def using assms by (intro with_session_ok) (auto split: sum.split)

lemma with_store_session_ok:
  assumes "challenges_ok (site_acc s)" "\<And>r s1. challenges_ok (site_acc s1) \<Longrightarrow> challenges_ok (site_acc (snd (k r s1)))"
  shows "challenges_ok (site_acc (snd (with_store_session E now hs s k)))"
  using other_rows_challenge_ok(10) [OF assms(1), of "token_hash E" now] assms
  by (auto simp: with_store_session_def require_session_from_store_def split_beta split: sum.split option.split)

lemma with_admin_ok:
  assumes "challenges_ok (site_acc s)" "\<And>r s1. challenges_ok (site_acc s1) \<Longrightarrow> challenges_ok (site_acc (snd (k r s1)))"
  shows "challenges_ok (site_acc (snd (with_admin E now hs s k)))"
  unfolding with_admin_def using assms by (intro with_session_ok) auto

lemma issue_session_ok: "challenges_ok (site_acc s) \<Longrightarrow> challenges_ok (site_acc (snd (issue_session_response E now tok csrf u s)))"
  using other_rows_challenge_ok(1) [of "site_acc s" "token_hash E" now "user_id u" "session_ttl E" tok csrf]
  by (auto simp: issue_session_response_def split_beta split: sum.split)

text \<open>One request, at wall clock \<open>now\<close> and monotonic clock \<open>tick\<close>.\<close>

inductive site_step :: "auth_env \<Rightarrow> site \<Rightarrow> site \<Rightarrow> bool" for E where
  login: "site_step E s (snd (login E now tick fresh tok csrf name pw s))"
| login_totp: "site_step E s (snd (login_totp E now tok csrf chal code s))"
| enrolment: "site_step E s (snd (totp_setup E now secret hs s))"
| confirmation: "site_step E s (snd (totp_enable E now hs code s))"
| switch_off: "site_step E s (snd (totp_disable E now hs pw code s))"
| password: "site_step E s (snd (change_password E now salt hs pw pw2 s))"
| avatar: "site_step E s (snd (change_avatar_handler E now hs av s))"
| bootstrap: "site_step E s (snd (bootstrap E now salt tok csrf name pw s))"
| register: "site_step E s (snd (register E now salt tok csrf fresh name pw addr s))"
| verification: "site_step E s (snd (verify_email E now tok s))"
| resend: "site_step E s (snd (resend_verification E now fresh hs s))"
| forgot: "site_step E s (snd (forgot_password E smtp now fresh name s))"
| reset: "site_step E s (snd (reset_password E now salt tok pw s))"
| new_token: "site_step E s (snd (create_api_token_handler E now hs name days fresh s))"
| revoke_token: "site_step E s (snd (revoke_api_token E now hs tid s))"
| admin_update: "site_step E s (snd (admin_update_user E now hs uid dis ro s))"
| admin_delete: "site_step E s (snd (admin_delete_user E now hs uid s))"
| admin_totp: "site_step E s (snd (admin_reset_totp E now hs uid s))"
| sweep: "site_step E s (put_acc (snd (purge_expired_totp_challenges before (site_acc s))) s)"

inductive site_reach :: "auth_env \<Rightarrow> site \<Rightarrow> bool" for E where
  start: "challenges (site_acc s) = [] \<Longrightarrow> site_reach E s"
| act: "site_reach E s \<Longrightarrow> site_step E s s2 \<Longrightarrow> site_reach E s2"

inductive_simps site_step_iff: "site_step E s s2"

lemma login_challenges:
  assumes c: "challenges_ok (site_acc s)"
  shows "challenges_ok (site_acc (snd (login E now tick fresh tok csrf name pw s)))"
proof -
  have l: "challenges_ok (site_acc (s\<lparr>limiter := l\<rparr>))" for l using c by simp
  show ?thesis using c create_challenge_ok [OF c] issue_session_ok [OF l]
    by (auto simp: login_def ensure_local_login_allowed_def Let_def split_beta split: sum.split option.split bool.split)
qed

lemma login_totp_challenges:
  assumes c: "challenges_ok (site_acc s)"
  shows "challenges_ok (site_acc (snd (login_totp E now tok csrf chal code s)))"
proof -
  have d: "challenges_ok (site_acc (put_acc (snd (delete_totp_challenge cid (site_acc s))) s))" for cid
    using delete_challenge_ok [OF c] by simp
  have w: "challenges_ok (if TOTP_MAX_ATTEMPTS \<le> fst (record_totp_attempt cid (site_acc s))
      then snd (delete_totp_challenge cid (snd (record_totp_attempt cid (site_acc s)))) else snd (record_totp_attempt cid (site_acc s)))" for cid
    using wrong_code_ok [OF c prod.collapse [symmetric]] .
  show ?thesis using c d w issue_session_ok [OF d]
    by (simp add: login_totp_def ensure_local_login_allowed_def Let_def split_beta split: sum.split option.split bool.split)
qed

lemmas handler_defs = totp_setup_def totp_enable_def totp_disable_def change_password_def change_avatar_handler_def
  create_api_token_handler_def revoke_api_token_def resend_verification_def admin_update_user_def admin_delete_user_def admin_reset_totp_def

lemma handler_challenges:
  assumes c: "challenges_ok (site_acc s)"
  shows "challenges_ok (site_acc (snd (totp_setup E now secret hs s)))"
    "challenges_ok (site_acc (snd (totp_enable E now hs code s)))"
    "challenges_ok (site_acc (snd (totp_disable E now hs pw code s)))"
    "challenges_ok (site_acc (snd (change_password E now salt hs pw pw2 s)))"
    "challenges_ok (site_acc (snd (change_avatar_handler E now hs av s)))"
    "challenges_ok (site_acc (snd (create_api_token_handler E now hs name days fresh s)))"
    "challenges_ok (site_acc (snd (revoke_api_token E now hs tid s)))"
    "challenges_ok (site_acc (snd (resend_verification E now fresh hs s)))"
    "challenges_ok (site_acc (snd (admin_update_user E now hs uid dis ro s)))"
    "challenges_ok (site_acc (snd (admin_delete_user E now hs uid s)))"
    "challenges_ok (site_acc (snd (admin_reset_totp E now hs uid s)))"
  unfolding handler_defs
  by (rule with_csrf_ok [OF c] with_session_ok [OF c] with_store_session_ok [OF c] with_admin_ok [OF c];
      simp add: Let_def split_beta challenge_intros split: sum.split option.split bool.split)+

lemma register_email_ok:
  assumes c: "challenges_ok (site_acc s)"
  shows "challenges_ok (site_acc (snd (register_email E now fresh addr uid s)))"
proof -
  have "challenges_ok (snd (create_email_verification_token th now uid t tok (snd (set_user_email lo now uid e (site_acc s)))))"
    for th t tok lo e
    by (intro challenge_intros c)
  then show ?thesis using c by (simp add: register_email_def Let_def split_beta split: option.split sum.split)
qed

lemma anonymous_challenges:
  assumes c: "challenges_ok (site_acc s)"
  shows "challenges_ok (site_acc (snd (bootstrap E now salt tok csrf name pw s)))"
    "challenges_ok (site_acc (snd (register E now salt tok csrf fresh name pw addr s)))"
    "challenges_ok (site_acc (snd (forgot_password E smtp now fresh name s)))"
    "challenges_ok (site_acc (snd (reset_password E now salt tok pw s)))"
    "challenges_ok (site_acc (snd (verify_email E now tok s)))"
proof -
  have b: "challenges_ok (snd (create_first_admin now name ph (site_acc s)))"
    "challenges_ok (snd (create_user eq now nm ph r (site_acc s)))" for ph eq r nm
    by (rule challenge_intros, rule c)+
  show "challenges_ok (site_acc (snd (bootstrap E now salt tok csrf name pw s)))"
    using c b issue_session_ok [where s = "put_acc (snd (create_first_admin now name _ (site_acc s))) s"]
    by (simp add: bootstrap_def split_beta split: sum.split option.split)
  have "challenges_ok (site_acc (snd (register_email E now fresh addr uid (put_acc (snd (create_user eq now nm ph r (site_acc s))) s))))"
    for uid ph eq r nm
    using b by (intro register_email_ok) simp
  then show "challenges_ok (site_acc (snd (register E now salt tok csrf fresh name pw addr s)))"
    using c b issue_session_ok by (simp add: register_def split_beta split: sum.split)
  show "challenges_ok (site_acc (snd (forgot_password E smtp now fresh name s)))"
    "challenges_ok (site_acc (snd (reset_password E now salt tok pw s)))"
    "challenges_ok (site_acc (snd (verify_email E now tok s)))"
    using c challenge_intros
    by (simp_all add: forgot_password_def reset_password_def verify_email_def Let_def split_beta split: sum.split option.split)
qed

lemma step_challenges: "site_step E s s2 \<Longrightarrow> challenges_ok (site_acc s) \<Longrightarrow> challenges_ok (site_acc s2)"
proof (induction rule: site_step.induct)
  case (sweep s before)
  then show ?case
    by (auto simp: purge_expired_totp_challenges_def intro: challenges_ok_delete)
qed (rule login_challenges login_totp_challenges handler_challenges anonymous_challenges; assumption)+

lemma reach_challenges: "site_reach E s \<Longrightarrow> challenges_ok (site_acc s)"
proof (induction rule: site_reach.induct)
  case (start s)
  then show ?case by (simp add: challenges_ok_def keyed_def)
next
  case (act s s2)
  then show ?case using step_challenges by blast
qed

section \<open>What a session presupposes\<close>

lemma password_login:
  assumes "login E now tick fresh tok csrf name pw s = (Inr (LoggedIn u i), s2)"
  obtains r where "credentials_by_username (nocase E) name (site_acc s) = Some r" "verify_password E pw (password_hash r)"
    "\<not> user_disabled r" "u = user_of r" "\<And>x. user_totp (user_id u) (site_acc s) \<noteq> Some (x, True)"
proof -
  let ?found = "credentials_by_username (nocase E) name (site_acc s)"
  have ok: "local_login E" "fst (allowed tick (to_ascii_lowercase (trim_by is_ws name)) (limiter s))"
    using assms by (auto simp: login_def ensure_local_login_allowed_def Let_def split_beta split: if_splits)
  obtain r where r: "?found = Some r"
    using assms ok by (cases ?found) (auto simp: login_def ensure_local_login_allowed_def Let_def split_beta)
  have v: "verify_password E pw (password_hash r) \<and> \<not> user_disabled r \<and> \<not> (email_required E \<and> \<not> email_verified r)"
    by (rule ccontr) (use assms ok r in \<open>auto simp: login_def ensure_local_login_allowed_def Let_def split_beta split: if_splits\<close>)
  have t: "user_totp (user_id (user_of r)) (site_acc s) \<noteq> Some (x, True)" for x
  proof
    assume "user_totp (user_id (user_of r)) (site_acc s) = Some (x, True)"
    with assms ok r v show False
      by (simp add: login_def ensure_local_login_allowed_def Let_def split_beta split: sum.splits)
  qed
  have "fst (issue_session_response E now tok csrf (user_of r)
       (s\<lparr>limiter := record_success (to_ascii_lowercase (trim_by is_ws name))
            (snd (allowed tick (to_ascii_lowercase (trim_by is_ws name)) (limiter s)))\<rparr>)) = Inr (LoggedIn u i)"
    using assms ok r v t [of "fst (the (user_totp (user_id (user_of r)) (site_acc s)))"]
    by (auto simp: login_def ensure_local_login_allowed_def Let_def split_beta split: option.splits bool.splits)
  then have "u = user_of r" by (auto simp: issue_session_response_def split_beta split: sum.splits)
  with r v t show thesis using that by blast
qed
section \<open>What the second factor leaves alone\<close>

lemma login_totp_frame:
  "users (site_acc (snd (login_totp E now tok csrf chal code s))) = users (site_acc s)
   \<and> next_user (site_acc (snd (login_totp E now tok csrf chal code s))) = next_user (site_acc s)
   \<and> limiter (snd (login_totp E now tok csrf chal code s)) = limiter s"
  by (auto simp: login_totp_def ensure_local_login_allowed_def issue_session_response_def create_session_def
      delete_totp_challenge_def record_totp_attempt_def Let_def split_beta split: sum.split option.split bool.split)

text \<open>A guess: the clock, two fresh tokens, the challenge and the code.\<close>

type_synonym guess = "int \<times> ustr \<times> ustr \<times> ustr \<times> ustr"

fun guesses :: "auth_env \<Rightarrow> guess list \<Rightarrow> site \<Rightarrow> site" where
  "guesses E [] s = s"
| "guesses E ((now, tok, csrf, chal, code) # gs) s = guesses E gs (snd (login_totp E now tok csrf chal code s))"

lemma guesses_frame: "users (site_acc (guesses E gs s)) = users (site_acc s) \<and> limiter (guesses E gs s) = limiter s"
  by (induction E gs s rule: guesses.induct) (auto simp: login_totp_frame)

lemma login_answer:
  assumes "local_login E" "fst (allowed tick (to_ascii_lowercase (trim_by is_ws name)) (limiter s))"
    and "credentials_by_username (nocase E) name (site_acc s) = Some row" "verify_password E pw (password_hash row)"
    and "\<not> user_disabled row" "email_required E \<Longrightarrow> email_verified row" "get_user_row (user_id row) (site_acc s) = Some row"
  shows "totp_enabled row \<Longrightarrow> list_all (\<lambda>c. challenge_hash c \<noteq> token_hash E fresh) (challenges (site_acc s))
      \<Longrightarrow> fst (login E now tick fresh tok csrf name pw s) = Inr (TotpRequired fresh (now + TOTP_CHALLENGE_TTL_SECS))"
  using assms by (auto simp: login_def ensure_local_login_allowed_def Let_def split_beta user_totp_def user_of_def user.truncate_def
      create_totp_challenge_def list_ex_iff list_all_iff)

end
