(* ===== verification/LoginThms.thy ===== *)
theory LoginThms
  imports LoginProps
begin

text \<open>What a login guarantees, and what its second factor does not.\<close>

lemma found_row: "find P xs = Some x \<Longrightarrow> x \<in> set xs \<and> P x"
  by (auto simp: find_Some_iff)

lemma got_user_id: "get_user uid a = Some u \<Longrightarrow> user_id u = uid"
  by (auto simp: get_user_def get_user_row_def user_of_def user.truncate_def dest!: found_row)

lemma issued_response:
  assumes "issue_session_response E now tok csrf w s = (Inr (LoggedIn u i), s2)"
  shows "w = u \<and> challenges (site_acc s2) = challenges (site_acc s)"
proof (cases "create_session (token_hash E) now (user_id w) (session_ttl E) tok csrf (site_acc s)")
  case (Pair r a)
  moreover from this have "challenges a = challenges (site_acc s)"
    by (auto simp: create_session_def split: option.splits if_splits)
  ultimately show ?thesis using assms by (auto simp: issue_session_response_def split: sum.splits)
qed

section \<open>A small site\<close>

text \<open>
  One administrator with a confirmed second factor and one user without; the password \<open>p\<close> is hashed to
  \<open>$argon2id$p\<close>, every code is 483647.
\<close>

definition demo_env :: auth_env where
  "demo_env = \<lparr>token_hash = \<lambda>t. t, verify_password = \<lambda>p h. h = lit ''$argon2id$'' @ p,
     argon2 = \<lambda>_ p. Inr (lit ''$argon2id$'' @ p), hmac = ones_hmac, nocase = (=), session_ttl = 1000,
     local_login = True, email_required = False, redis_up = True, lower = to_ascii_lowercase, mail_configured = True\<rparr>"

definition root_row :: user_row where
  "root_row = (new_user 1 0 (lit ''root'') (lit ''$argon2id$pw'') (lit ''admin''))
     \<lparr>totp_secret := Some (encode_base32 [1]), totp_enabled := True\<rparr>"

definition user_row2 :: user_row where
  "user_row2 = new_user 2 0 (lit ''bob'') (lit ''$argon2id$bo'') (lit ''user'')"

definition challenge_row :: "int \<Rightarrow> ustr \<Rightarrow> totp_challenge" where
  "challenge_row cid h = \<lparr>challenge_id = cid, challenge_user = 1, challenge_hash = h, challenge_attempts = 0,
     challenge_created_at = 0, challenge_expires_at = 300\<rparr>"

definition demo_site :: "totp_challenge list \<Rightarrow> session_row list \<Rightarrow> site" where
  "demo_site cs rs = \<lparr>site_app = \<lparr>acc = \<lparr>users = [root_row, user_row2], next_user = 3, sessions = rs, challenges = cs,
      next_challenge = 3, api_tokens = [], next_token = 1, reset_tokens = [], email_tokens = []\<rparr>, cache = empty_cache\<rparr>,
    limiter = \<lparr>windows = \<lambda>_. None, max_attempts = 5, window = 60\<rparr>\<rparr>"

lemma demo_env_simps [simp]:
  "token_hash demo_env = (\<lambda>t. t)" "verify_password demo_env p h = (h = lit ''$argon2id$'' @ p)"
  "argon2 demo_env salt p = Inr (lit ''$argon2id$'' @ p)" "hmac demo_env = ones_hmac" "nocase demo_env = (=)"
  "session_ttl demo_env = 1000" "local_login demo_env" "\<not> email_required demo_env" "redis_up demo_env" "mail_configured demo_env"
  by (simp_all add: demo_env_def)

lemma demo_site_simps [simp]:
  "users (site_acc (demo_site cs rs)) = [root_row, user_row2]" "next_user (site_acc (demo_site cs rs)) = 3"
  "sessions (site_acc (demo_site cs rs)) = rs" "challenges (site_acc (demo_site cs rs)) = cs"
  "api_tokens (site_acc (demo_site cs rs)) = []" "reset_tokens (site_acc (demo_site cs rs)) = []"
  "windows (limiter (demo_site cs rs)) k = None" "cache (site_app (demo_site cs rs)) = empty_cache"
  by (simp_all add: demo_site_def)

lemma demo_rows [simp]:
  "user_id root_row = 1" "username root_row = lit ''root''" "role root_row = lit ''admin''" "\<not> user_disabled root_row"
  "password_hash root_row = lit ''$argon2id$pw''" "totp_secret root_row = Some (encode_base32 [1])" "totp_enabled root_row"
  "user_id user_row2 = 2" "username user_row2 = lit ''bob''" "role user_row2 = lit ''user''" "\<not> user_disabled user_row2"
  "password_hash user_row2 = lit ''$argon2id$bo''" "totp_secret user_row2 = None" "\<not> totp_enabled user_row2"
  by (simp_all add: root_row_def user_row2_def new_user_def)

lemma trimmed_names: "trim_by is_ws (lit ''root'') = lit ''root''" "trim_by is_ws (lit ''bob'') = lit ''bob''"
  by (simp_all add: trim_by_def trim_start_by_def trim_end_by_def is_ws_def)

section \<open>Signing in\<close>

text \<open>
  C30.  A login that answers with a session was made with the password of that account, and the account
  is neither disabled nor has its second factor turned on.
\<close>

theorem login_needs_second_factor:
  assumes "accounts_ok (site_acc s)" "login E now tick fresh tok csrf name pw s = (Inr (LoggedIn u i), s2)"
    and "row \<in> set (users (site_acc s))" "user_id row = user_id u"
  shows "verify_password E pw (password_hash row) \<and> \<not> user_disabled row \<and> \<not> totp_enabled row"
proof -
  have key: "find (\<lambda>x. user_id x = user_id row) (users (site_acc s)) = Some row"
    if "row \<in> set (users (site_acc s))" for row
    using find_keyed [of user_id "next_user (site_acc s)" "users (site_acc s)" row] assms(1) that by (simp add: accounts_ok_def)
  obtain r where r: "credentials_by_username (nocase E) name (site_acc s) = Some r" "verify_password E pw (password_hash r)"
      "\<not> user_disabled r" "u = user_of r" "user_totp (user_id u) (site_acc s) \<noteq> Some (totp_secret r, True)"
    by (rule password_login [OF assms(2)]) (rule that; simp)
  have m: "r \<in> set (users (site_acc s))" using found_row r(1) unfolding credentials_by_username_def by fast
  have u: "user_id u = user_id r" using r(4) by (simp add: user_of_def user.truncate_def)
  have "find (\<lambda>x. user_id x = user_id r) (users (site_acc s)) = Some row" using key [OF assms(3)] unfolding assms(4) u .
  then have "row = r" and f: "get_user_row (user_id u) (site_acc s) = Some r"
    using key [OF m] by (simp_all add: get_user_row_def u)
  then show ?thesis using r(2,3,5) by (simp add: user_totp_def)
qed

theorem login_needs_second_factor_witness:
  "\<exists>i s2. login demo_env 0 0 (lit ''c'') (lit ''t'') (lit ''x'') (lit ''bob'') (lit ''bo'') (demo_site [] [])
      = (Inr (LoggedIn (user_of user_row2) i), s2) \<and> \<not> totp_enabled user_row2"
proof -
  have c: "credentials_by_username (nocase demo_env) (lit ''bob'') (site_acc (demo_site [] [])) = Some user_row2"
    using trimmed_names by (simp add: credentials_by_username_def)
  have "\<exists>i s2. login demo_env 0 0 (lit ''c'') (lit ''t'') (lit ''x'') (lit ''bob'') (lit ''bo'') (demo_site [] [])
      = (Inr (LoggedIn (user_of user_row2) i), s2)"
    using c by (simp add: login_def ensure_local_login_allowed_def allowed_def Let_def user_totp_def get_user_row_def
        issue_session_response_def create_session_def record_success_def user_of_def user.truncate_def)
  then obtain i s2 where l: "login demo_env 0 0 (lit ''c'') (lit ''t'') (lit ''x'') (lit ''bob'') (lit ''bo'') (demo_site [] [])
      = (Inr (LoggedIn (user_of user_row2) i), s2)" by blast
  have "accounts_ok (site_acc (demo_site [] []))" by (simp add: accounts_ok_def keyed_def demo_site_def)
  from login_needs_second_factor [OF this l, of user_row2] l show ?thesis by (simp add: user_of_def user.truncate_def)
qed

text \<open>
  C31.  A second step that answers with a session was made with an open, unexpired challenge of that
  account and a valid code for its secret, and the challenge is used up.
\<close>

theorem login_totp_needs_code:
  assumes "login_totp E now tok csrf chal code s = (Inr (LoggedIn u i), s2)"
  shows "\<exists>c secret on. totp_challenge_by_hash (token_hash E chal) (site_acc s) = Some c
    \<and> challenge_user c = user_id u \<and> now < challenge_expires_at c \<and> \<not> user_disabled u
    \<and> user_totp (user_id u) (site_acc s) = Some (Some secret, on)
    \<and> verify_totp (hmac E) secret code (nat (max now 0)) = Inr True
    \<and> list_all (\<lambda>d. challenge_id d \<noteq> challenge_id c) (challenges (site_acc s2))"
proof -
  have lo: "local_login E" using assms by (simp add: login_totp_def ensure_local_login_allowed_def split: if_splits)
  obtain c where c: "totp_challenge_by_hash (token_hash E chal) (site_acc s) = Some c"
    using assms lo by (auto simp: login_totp_def ensure_local_login_allowed_def split: option.splits)
  have e: "\<not> challenge_expires_at c \<le> now"
    using assms lo c by (auto simp: login_totp_def ensure_local_login_allowed_def)
  obtain secret on where t: "user_totp (challenge_user c) (site_acc s) = Some (Some secret, on)"
    using assms lo c e by (auto simp: login_totp_def ensure_local_login_allowed_def split: option.splits)
  have v: "verify_totp (hmac E) secret code (nat (max now 0)) = Inr True"
    using assms lo c e t by (auto simp: login_totp_def ensure_local_login_allowed_def split_beta Let_def split: sum.splits bool.splits)
  let ?s = "put_acc (snd (delete_totp_challenge (challenge_id c) (site_acc s))) s"
  obtain w where g: "get_user (challenge_user c) (site_acc ?s) = Some w"
    using assms lo c e t v by (auto simp: login_totp_def ensure_local_login_allowed_def Let_def split: option.splits)
  have d: "\<not> user_disabled w"
    using assms lo c e t v g by (auto simp: login_totp_def ensure_local_login_allowed_def Let_def)
  have "issue_session_response E now tok csrf w ?s = (Inr (LoggedIn u i), s2)"
    using assms lo c e t v g d by (simp add: login_totp_def ensure_local_login_allowed_def Let_def)
  then have "w = u" "challenges (site_acc s2) = challenges (site_acc ?s)"
    using issued_response by blast+
  moreover have "user_id w = challenge_user c" by (rule got_user_id [OF g])
  ultimately show ?thesis using c e t v d by (auto simp: delete_totp_challenge_def list_all_iff)
qed

lemma demo_second_step:
  assumes "c \<in> set cs" "totp_challenge_by_hash chal (site_acc (demo_site cs rs)) = Some c" "challenge_user c = 1"
    "challenge_expires_at c = 300" "list_all (\<lambda>r. session_hash r \<noteq> tok) rs"
  shows "\<exists>i s2. login_totp demo_env 0 tok csrf chal (lit ''483647'') (demo_site cs rs) = (Inr (LoggedIn (user_of root_row) i), s2)"
  using assms ones_verify [of 0]
  by (simp add: login_totp_def ensure_local_login_allowed_def user_totp_def get_user_row_def get_user_def Let_def
      delete_totp_challenge_def issue_session_response_def create_session_def user_of_def user.truncate_def list_ex_iff list_all_iff)

theorem login_totp_needs_code_witness:
  "\<exists>s2. list_all (\<lambda>d. challenge_id d \<noteq> 1) (challenges (site_acc s2))
    \<and> snd (login_totp demo_env 0 (lit ''t'') (lit ''x'') (lit ''c'') (lit ''483647'') (demo_site [challenge_row 1 (lit ''c'')] [])) = s2"
proof -
  have h: "totp_challenge_by_hash (lit ''c'') (site_acc (demo_site [challenge_row 1 (lit ''c'')] [])) = Some (challenge_row 1 (lit ''c''))"
    by (simp add: totp_challenge_by_hash_def challenge_row_def)
  obtain i s2 where l: "login_totp demo_env 0 (lit ''t'') (lit ''x'') (lit ''c'') (lit ''483647'') (demo_site [challenge_row 1 (lit ''c'')] [])
      = (Inr (LoggedIn (user_of root_row) i), s2)"
    using demo_second_step [OF _ h, of "lit ''t''" "lit ''x''"] by (auto simp: challenge_row_def)
  from login_totp_needs_code [OF this] h l show ?thesis by (auto simp: challenge_row_def)
qed

text \<open>
  C32.  In every state the handlers reach, a challenge that is still open has had fewer than five wrong
  codes: the fifth one deletes it.
\<close>

theorem challenge_attempts_bounded:
  assumes "site_reach E s"
  shows "list_all (\<lambda>c. 0 \<le> challenge_attempts c \<and> challenge_attempts c < TOTP_MAX_ATTEMPTS) (challenges (site_acc s))"
  using reach_challenges [OF assms] by (simp add: challenges_ok_def)

theorem challenge_attempts_bounded_witness:
  "\<exists>s. challenges (site_acc s) \<noteq> [] \<and> list_all (\<lambda>c. challenge_attempts c < TOTP_MAX_ATTEMPTS) (challenges (site_acc s))"
proof -
  let ?s = "snd (login demo_env 0 0 (lit ''c'') (lit ''t'') (lit ''x'') (lit ''root'') (lit ''pw'') (demo_site [] []))"
  have "site_reach demo_env ?s"
    by (rule site_reach.act [OF site_reach.start site_step.login]) simp
  moreover have "challenges (site_acc ?s) \<noteq> []"
    using trimmed_names by (simp add: credentials_by_username_def login_def ensure_local_login_allowed_def allowed_def Let_def
        user_totp_def get_user_row_def record_success_def user_of_def user.truncate_def create_totp_challenge_def)
  ultimately show ?thesis using challenge_attempts_bounded by (fastforce simp: list_all_iff)
qed

section \<open>Where the second factor stops\<close>

text \<open>
  The number of codes that can be tried is not bounded: after any sequence of second steps, right
  or wrong, whoever knows the password gets a fresh challenge.  The limiter does not see wrong codes.
\<close>

theorem guesses_never_lock_out:
  assumes "local_login E" "fst (allowed tick (to_ascii_lowercase (trim_by is_ws name)) (limiter s))"
    and "credentials_by_username (nocase E) name (site_acc s) = Some row" "verify_password E pw (password_hash row)"
    and "\<not> user_disabled row" "email_verified row \<or> \<not> email_required E" "totp_enabled row"
    and "accounts_ok (site_acc s)" "s2 = guesses E gs s"
    and "list_all (\<lambda>c. challenge_hash c \<noteq> token_hash E fresh) (challenges (site_acc s2))"
  shows "fst (login E now tick fresh tok csrf name pw s2) = Inr (TotpRequired fresh (now + TOTP_CHALLENGE_TTL_SECS))"
proof (rule login_answer [OF assms(1)])
  have f: "users (site_acc s2) = users (site_acc s)" "limiter s2 = limiter s" using guesses_frame assms(9) by auto
  show "fst (allowed tick (to_ascii_lowercase (trim_by is_ws name)) (limiter s2))" using assms(2) f by simp
  show "credentials_by_username (nocase E) name (site_acc s2) = Some row" using assms(3) f by (simp add: credentials_by_username_def)
  have "row \<in> set (users (site_acc s))" using assms(3) found_row unfolding credentials_by_username_def by fast
  then show "get_user_row (user_id row) (site_acc s2) = Some row"
    using find_keyed [of user_id "next_user (site_acc s)" "users (site_acc s)" row] assms(8) f
    by (simp add: accounts_ok_def get_user_row_def)
qed (use assms in simp_all)

theorem guesses_never_lock_out_witness:
  "fst (login demo_env 1 1 (lit ''d'') (lit ''t'') (lit ''x'') (lit ''root'') (lit ''pw'')
     (guesses demo_env (replicate 9 (0, lit ''t'', lit ''x'', lit ''c'', lit ''000000'')) (demo_site [] [])))
   = Inr (TotpRequired (lit ''d'') 301)"
proof -
  have g: "guesses demo_env (replicate n (0, lit ''t'', lit ''x'', lit ''c'', lit ''000000'')) (demo_site [] []) = demo_site [] []" for n
    by (induction n) (simp_all add: login_totp_def ensure_local_login_allowed_def totp_challenge_by_hash_def)
  have "credentials_by_username (nocase demo_env) (lit ''root'') (site_acc (demo_site [] [])) = Some root_row"
    using trimmed_names by (simp add: credentials_by_username_def)
  from guesses_never_lock_out [OF _ _ this _ _ _ _ _ g [symmetric, of 9], of 1 "lit ''pw''" "lit ''d''" 1] show ?thesis
    unfolding g by (simp add: allowed_def accounts_ok_def keyed_def demo_site_def TOTP_CHALLENGE_TTL_SECS_def)
qed

text \<open>
  One code opens two sessions: a second challenge of the same account stays open after a successful
  second step, and the code that was just used passes again.
\<close>

theorem code_accepted_twice:
  assumes "local_login E" "totp_challenge_by_hash (token_hash E chal1) (site_acc s) = Some c1"
      "totp_challenge_by_hash (token_hash E chal2) (site_acc s) = Some c2" "challenge_id c1 \<noteq> challenge_id c2"
    and "challenge_user c1 = user_id u" "challenge_user c2 = user_id u" "now < challenge_expires_at c1" "now < challenge_expires_at c2"
    and "get_user_row (user_id u) (site_acc s) = Some row" "u = user_of row" "\<not> user_disabled row" "totp_secret row = Some secret"
    and "verify_totp (hmac E) secret code (nat (max now 0)) = Inr True"
    and "0 < session_ttl E" "session_ttl E < 2 ^ 63" "now + int (session_ttl E) < 2 ^ 63"
    and "list_all (\<lambda>r. session_hash r \<noteq> token_hash E tok1 \<and> session_hash r \<noteq> token_hash E tok2) (sessions (site_acc s))"
      "token_hash E tok1 \<noteq> token_hash E tok2"
  shows "\<exists>i1 i2 s1 s2. login_totp E now tok1 csrf1 chal1 code s = (Inr (LoggedIn u i1), s1)
    \<and> login_totp E now tok2 csrf2 chal2 code s1 = (Inr (LoggedIn u i2), s2)"
proof -
  have step: "\<exists>i s2. login_totp E now tok csrf chal code s = (Inr (LoggedIn u i), s2)
      \<and> users (site_acc s2) = users (site_acc s)
      \<and> challenges (site_acc s2) = delete_where (\<lambda>d. challenge_id d = challenge_id c) (challenges (site_acc s))
      \<and> (\<forall>r\<in>set (sessions (site_acc s2)). r \<in> set (sessions (site_acc s)) \<or> session_hash r = token_hash E tok)"
    if "totp_challenge_by_hash (token_hash E chal) (site_acc s) = Some c" "challenge_user c = user_id u" "now < challenge_expires_at c"
      "get_user_row (user_id u) (site_acc s) = Some row" "list_all (\<lambda>r. session_hash r \<noteq> token_hash E tok) (sessions (site_acc s))"
    for chal c tok csrf s
    using that assms(1,10-16)
    by (simp add: login_totp_def ensure_local_login_allowed_def user_totp_def get_user_row_def get_user_def Let_def
      delete_totp_challenge_def issue_session_response_def create_session_def user_of_def user.truncate_def list_ex_iff list_all_iff)
  obtain i1 s1 where one: "login_totp E now tok1 csrf1 chal1 code s = (Inr (LoggedIn u i1), s1)"
      "users (site_acc s1) = users (site_acc s)"
      "challenges (site_acc s1) = delete_where (\<lambda>d. challenge_id d = challenge_id c1) (challenges (site_acc s))"
      "\<forall>r\<in>set (sessions (site_acc s1)). r \<in> set (sessions (site_acc s)) \<or> session_hash r = token_hash E tok1"
    using step [OF assms(2,5,7,9), of tok1 csrf1] assms(17) by (auto simp: list_all_iff)
  have "find P (delete_where Q xs) = Some x" if "find P xs = Some x" "\<not> Q x" for P Q and x :: totp_challenge and xs
    using that by (induction xs) (auto simp: delete_where_def split: if_splits)
  then have "totp_challenge_by_hash (token_hash E chal2) (site_acc s1) = Some c2"
    using assms(3,4) one(3) by (simp add: totp_challenge_by_hash_def)
  moreover have "get_user_row (user_id u) (site_acc s1) = Some row" using assms(9) one(2) by (simp add: get_user_row_def)
  moreover have "list_all (\<lambda>r. session_hash r \<noteq> token_hash E tok2) (sessions (site_acc s1))"
    using assms(17,18) one(4) by (fastforce simp: list_all_iff)
  ultimately show ?thesis using step [of chal2 s1 c2 tok2 csrf2, OF _ assms(6,8)] one(1) by blast
qed

theorem code_accepted_twice_witness:
  "\<exists>i1 i2 s1 s2. login_totp demo_env 0 (lit ''t1'') (lit ''x'') (lit ''c1'') (lit ''483647'')
      (demo_site [challenge_row 1 (lit ''c1''), challenge_row 2 (lit ''c2'')] []) = (Inr (LoggedIn (user_of root_row) i1), s1)
    \<and> login_totp demo_env 0 (lit ''t2'') (lit ''x'') (lit ''c2'') (lit ''483647'') s1 = (Inr (LoggedIn (user_of root_row) i2), s2)"
  by (rule code_accepted_twice [where row = root_row and secret = "encode_base32 [1]"
        and ?c1.0 = "challenge_row 1 (lit ''c1'')" and ?c2.0 = "challenge_row 2 (lit ''c2'')"])
    (use ones_verify [of 0] in \<open>simp_all add: totp_challenge_by_hash_def challenge_row_def user_of_def user.truncate_def get_user_row_def\<close>)

section \<open>Requests that nobody authorised\<close>

text \<open>
  An administrator's cookie is enough to delete an account: the handler never asks for the CSRF
  token, so a request without one, which \<open>require_csrf\<close> would refuse, goes through.
\<close>

theorem admin_delete_skips_csrf:
  assumes "require_session (token_hash E) (session_ttl E) (redis_up E) now hs (site_app s) = (Inr (origin, adm), st)"
    and "\<not> origin_bearer origin" "map_of hs (lit ''x-csrf-token'') = None"
    and "role (auth_user adm) = lit ''admin''" "user_id (auth_user adm) \<noteq> uid" "get_user uid (acc st) \<noteq> None"
  shows "require_csrf (token_hash E) hs origin adm = Inl (Forbidden (lit ''csrf_validation_failed''))
    \<and> fst (admin_delete_user E now hs uid s) = Inr ()
    \<and> get_user uid (site_acc (snd (admin_delete_user E now hs uid s))) = None"
proof -
  have "fst (app_delete_user (redis_up E) now uid st)"
    using assms(6) by (auto simp: app_delete_user_def delete_account_rows_def get_user_def get_user_row_def affected_pos dest!: found_row)
  moreover have "get_user uid (acc (snd (app_delete_user (redis_up E) now uid st))) = None"
    by (auto simp: app_delete_user_def delete_account_rows_def get_user_def get_user_row_def find_None_iff)
  moreover have "require_csrf (token_hash E) hs origin adm = Inl (Forbidden (lit ''csrf_validation_failed''))"
    using assms(2,3) by (simp add: require_csrf_def split: option.split)
  ultimately show ?thesis using assms(1,4,5)
    by (simp add: admin_delete_user_def with_admin_def with_session_def split_beta)
qed

definition admin_session :: session_row where
  "admin_session = \<lparr>session_hash = lit ''tok'', session_user = 1, session_csrf_hash = lit ''old'', session_ver = 1,
     session_created_at = 0, session_last_seen_at = 0, session_expires_at = 1000\<rparr>"

definition bare_cookie :: request_headers where
  "bare_cookie = [(lit ''cookie'', lit ''qd_session=tok'')]"

lemma bare_request: "cookie_value bare_cookie SESSION_COOKIE = Some (lit ''tok'')" "bearer_token bare_cookie = None"
  by (simp_all add: cookie_value_def bare_cookie_def SESSION_COOKIE_def List.map_filter_simps split_once_def
      trim_by_def trim_start_by_def trim_end_by_def is_ws_def starts_with_def bearer_token_def)

theorem admin_delete_skips_csrf_witness:
  "fst (admin_delete_user demo_env 0 bare_cookie 2 (demo_site [] [admin_session])) = Inr ()"
proof -
  note bare_request
  moreover have "\<exists>adm. authenticate_session (\<lambda>t. t) 0 (lit ''tok'') (site_acc (demo_site [] [admin_session])) = Some adm
      \<and> role (auth_user adm) = lit ''admin'' \<and> user_id (auth_user adm) = 1"
    by (simp add: authenticate_session_def admin_session_def user_of_def user.truncate_def)
      (simp add: root_row_def new_user_def)
  then obtain adm where "authenticate_session (\<lambda>t. t) 0 (lit ''tok'') (site_acc (demo_site [] [admin_session])) = Some adm"
      "role (auth_user adm) = lit ''admin''" "user_id (auth_user adm) = 1" by blast
  ultimately obtain st where "require_session (token_hash demo_env) (session_ttl demo_env) (redis_up demo_env) 0 bare_cookie
      (site_app (demo_site [] [admin_session])) = (Inr (\<lparr>origin_token = lit ''tok'', origin_bearer = False\<rparr>, adm), st)"
      "acc st = site_acc (demo_site [] [admin_session])"
    by (simp add: require_session_def cache_get_def empty_cache_def)
  from admin_delete_skips_csrf [OF this(1), of 2] this(2) \<open>role (auth_user adm) = _\<close> \<open>user_id (auth_user adm) = 1\<close>
  show ?thesis by (simp add: bare_cookie_def get_user_def get_user_row_def)
qed

text \<open>
  Without a mail server anyone who knows a user name can take the account: the reset token is in
  the answer, and it sets the password.
\<close>

theorem forgot_password_takeover:
  assumes "local_login E" "credentials_by_username (nocase E) (trim_by is_ws name) (site_acc s) = Some row" "\<not> user_disabled row"
    and "accounts_ok (site_acc s)" "list_all (\<lambda>t. reset_hash t \<noteq> token_hash E fresh) (reset_tokens (site_acc s))"
    and "hash_password E salt pw = Inr ph" "starts_with (lit ''$argon2id$'') ph" "later < now + 3600"
  shows "\<exists>s1 s2 row2. forgot_password E False now fresh name s = (Inr (Some (fresh, now + 3600)), s1)
    \<and> reset_password E later salt fresh pw s1 = (Inr (), s2)
    \<and> get_user_row (user_id row) (site_acc s2) = Some row2 \<and> password_hash row2 = ph"
proof -
  let ?t = "\<lparr>reset_hash = token_hash E fresh, reset_user = user_id row, reset_created_at = now, reset_expires_at = now + 3600\<rparr>"
  let ?a = "(site_acc s)\<lparr>reset_tokens := reset_tokens (site_acc s) @ [?t]\<rparr>"
  have one: "forgot_password E False now fresh name s = (Inr (Some (fresh, now + 3600)), put_acc ?a s)"
    using assms(1-3,5) by (simp add: forgot_password_def ensure_local_login_allowed_def create_password_reset_token_def list_ex_iff list_all_iff)
  have "find (\<lambda>t. reset_hash t = token_hash E fresh \<and> later < reset_expires_at t) (xs @ [?t]) = Some ?t"
    if "list_all (\<lambda>t. reset_hash t \<noteq> token_hash E fresh) xs" for xs
    using that assms(8) by (induction xs) auto
  then have tok: "find (\<lambda>t. reset_hash t = token_hash E fresh \<and> later < reset_expires_at t) (reset_tokens ?a) = Some ?t"
    using assms(5) by simp
  let ?new = "\<lambda>u. u\<lparr>password_hash := ph, session_version := session_version u + 1, user_updated_at := later\<rparr>"
  let ?us = "update_where (\<lambda>u. user_id u = user_id row \<and> \<not> user_disabled u) ?new (users (site_acc s))"
  have row: "row \<in> set (users (site_acc s))" using assms(2) found_row unfolding credentials_by_username_def by fast
  then have n: "0 < affected (\<lambda>u. user_id u = user_id row \<and> \<not> user_disabled u) (users (site_acc s))"
    using assms(3) by (auto simp: affected_pos)
  have "?new row \<in> set ?us" using row assms(3) by (force simp: set_update_where)
  moreover have "keyed user_id (next_user (site_acc s)) ?us" using assms(4) by (auto simp: accounts_ok_def intro!: keyed_update)
  ultimately have f: "find (\<lambda>u. user_id u = user_id row) ?us = Some (?new row)"
    using find_keyed [of user_id "next_user (site_acc s)" ?us "?new row"] by simp
  have two: "\<exists>s2. reset_password E later salt fresh pw (put_acc ?a s) = (Inr (), s2) \<and> users (site_acc s2) = ?us"
    using tok n assms(6,7) by (simp add: reset_password_def app_consume_password_reset_def consume_password_reset_token_def
        change_password_rows_def update_users_def Let_def)
  then show ?thesis using one f by (fastforce simp: get_user_row_def)
qed

theorem forgot_password_takeover_witness:
  "\<exists>s1 s2 row2. forgot_password demo_env False 0 (lit ''r'') (lit ''bob'') (demo_site [] []) = (Inr (Some (lit ''r'', 3600)), s1)
    \<and> reset_password demo_env 1 (lit ''salt'') (lit ''r'') (lit ''attackerpass'') s1 = (Inr (), s2)
    \<and> get_user_row 2 (site_acc s2) = Some row2 \<and> password_hash row2 = lit ''$argon2id$attackerpass''"
proof -
  have "credentials_by_username (nocase demo_env) (trim_by is_ws (lit ''bob'')) (site_acc (demo_site [] [])) = Some user_row2"
    using trimmed_names by (simp add: credentials_by_username_def)
  from forgot_password_takeover [OF _ this, of "lit ''r''" "lit ''salt''" "lit ''attackerpass''" "lit ''$argon2id$attackerpass''" 1 0]
  show ?thesis by (simp add: accounts_ok_def keyed_def demo_site_def hash_password_def validate_password_def byte_len_def len_utf8_def
      starts_with_def)
qed

text \<open>
  Verifying an address does not need its mailbox: the answer to a repeated request for the mail
  carries the token, and the token marks the address as verified.
\<close>

theorem verification_needs_no_mailbox:
  assumes "require_session (token_hash E) (session_ttl E) (redis_up E) now hs (site_app s) = (Inr (origin, u), st)"
    and "get_user_row (user_id (auth_user u)) (acc st) = Some w" "email w = Some addr" "mail_configured E" "now + 3600 < 2 ^ 63"
    and "list_all (\<lambda>t. email_hash t \<noteq> token_hash E fresh) (email_tokens (acc st))"
  shows "\<exists>s1 s2 w2. resend_verification E now fresh hs s = (Inr (now + 3600, fresh), s1)
    \<and> verify_email E now fresh s1 = (Inr (user_id (auth_user u)), s2)
    \<and> get_user_row (user_id (auth_user u)) (site_acc s2) = Some w2 \<and> email w2 = Some addr \<and> email_verified w2"
proof -
  let ?uid = "user_id (auth_user u)"
  let ?t = "\<lparr>email_hash = token_hash E fresh, email_user = ?uid, email_created_at = now, email_expires_at = now + 3600\<rparr>"
  let ?ts = "delete_where (\<lambda>t. email_user t = ?uid) (email_tokens (acc st)) @ [?t]"
  let ?s1 = "put_acc ((acc st)\<lparr>email_tokens := ?ts\<rparr>) (s\<lparr>site_app := st\<rparr>)"
  have new: "list_all (\<lambda>t. email_hash t \<noteq> token_hash E fresh) (delete_where (\<lambda>t. email_user t = ?uid) (email_tokens (acc st)))"
    using assms(6) by (auto simp: list_all_iff)
  have g: "get_user ?uid (acc st) = Some (user_of w)" "email (user_of w) = Some addr"
    using assms(2,3) by (simp_all add: get_user_def user_of_def user.truncate_def)
  have "\<not> list_ex (\<lambda>t. email_hash t = token_hash E fresh) (delete_where (\<lambda>t. email_user t = ?uid) (email_tokens (acc st)))"
    using new by (auto simp: list_all_iff list_ex_iff)
  then have one: "resend_verification E now fresh hs s = (Inr (now + 3600, fresh), ?s1)"
    using assms(1,4,5) g by (simp add: resend_verification_def with_session_def create_email_verification_token_def Let_def)
  have "find (\<lambda>t. email_hash t = token_hash E fresh \<and> now < email_expires_at t) (xs @ [?t]) = Some ?t"
    if "list_all (\<lambda>t. email_hash t \<noteq> token_hash E fresh) xs" for xs
    using that by (induction xs) auto
  then have t: "find (\<lambda>t. email_hash t = token_hash E fresh \<and> now < email_expires_at t) ?ts = Some ?t" using new by blast
  let ?us = "update_where (\<lambda>x. user_id x = ?uid) (\<lambda>x. x\<lparr>email_verified := True, user_updated_at := now\<rparr>) (users (acc st))"
  have two: "fst (verify_email E now fresh ?s1) = Inr ?uid \<and> users (site_acc (snd (verify_email E now fresh ?s1))) = ?us"
    using t by (simp add: verify_email_def app_consume_email_verification_def consume_email_verification_token_def update_users_def Let_def)
  have "find (\<lambda>x. user_id x = ?uid) (update_where (\<lambda>x. user_id x = ?uid) (\<lambda>x. x\<lparr>email_verified := True, user_updated_at := now\<rparr>) us)
      = Some (w\<lparr>email_verified := True, user_updated_at := now\<rparr>)" if "find (\<lambda>x. user_id x = ?uid) us = Some w" for us
    using that by (induction us) (auto simp: update_where_def split: if_splits)
  then have "get_user_row ?uid (site_acc (snd (verify_email E now fresh ?s1))) = Some (w\<lparr>email_verified := True, user_updated_at := now\<rparr>)"
    using two assms(2) by (simp add: get_user_row_def)
  with one two assms(3) show ?thesis
    by (intro exI [of _ ?s1] exI [of _ "snd (verify_email E now fresh ?s1)"] exI [of _ "w\<lparr>email_verified := True, user_updated_at := now\<rparr>"])
      (simp add: prod_eq_iff)
qed

definition mailing_site :: site where
  "mailing_site = (let s = demo_site [] [admin_session] in
     put_acc ((site_acc s)\<lparr>users := [root_row\<lparr>email := Some (lit ''a@b'')\<rparr>]\<rparr>) s)"

theorem verification_needs_no_mailbox_witness:
  "\<exists>s1 s2 w2. resend_verification demo_env 0 (lit ''v'') bare_cookie mailing_site = (Inr (3600, lit ''v''), s1)
    \<and> verify_email demo_env 0 (lit ''v'') s1 = (Inr 1, s2) \<and> get_user_row 1 (site_acc s2) = Some w2 \<and> email_verified w2"
proof -
  have u: "users (site_acc mailing_site) = [root_row\<lparr>email := Some (lit ''a@b'')\<rparr>]" "sessions (site_acc mailing_site) = [admin_session]"
      "email_tokens (site_acc mailing_site) = []" "cache (site_app mailing_site) = empty_cache"
    by (simp_all add: mailing_site_def demo_site_def)
  have a: "\<exists>adm. authenticate_session (\<lambda>t. t) 0 (lit ''tok'') (site_acc mailing_site) = Some adm \<and> user_id (auth_user adm) = 1"
    by (simp add: authenticate_session_def admin_session_def u user_of_def user.truncate_def) (simp add: root_row_def new_user_def)
  then obtain adm where a: "authenticate_session (\<lambda>t. t) 0 (lit ''tok'') (site_acc mailing_site) = Some adm" "user_id (auth_user adm) = 1"
    by blast
  then obtain st where r: "require_session (token_hash demo_env) (session_ttl demo_env) (redis_up demo_env) 0 bare_cookie
      (site_app mailing_site) = (Inr (\<lparr>origin_token = lit ''tok'', origin_bearer = False\<rparr>, adm), st)" "acc st = site_acc mailing_site"
    using bare_request by (simp add: require_session_def cache_get_def u empty_cache_def)
  from verification_needs_no_mailbox [OF r(1), of "root_row\<lparr>email := Some (lit ''a@b'')\<rparr>" "lit ''a@b''" "lit ''v''"] a(2) r(2)
  show ?thesis by (simp add: u get_user_row_def) blast
qed

end
