(* ===== verification/HarJson.thy ===== *)
theory HarJson
  imports QdProgram HttpForm
begin

text \<open>
  From JSON to a QD HAR document (\<open>crates/qdrust-core/src/qd_har.rs\<close>): the derived readers of the records of
  \<open>QdProgram\<close>, the normalisation of the shapes QD tolerates, and the two entry points \<open>QdHar::parse\<close> and
  \<open>QdHar::parse_qd\<close>; and the variables a template asks for.

  A reader returns \<open>None\<close> where serde refuses; the text of the refusal is the library's and is a parameter.
\<close>

section \<open>Readers\<close>

definition de_bool :: "json \<Rightarrow> bool option" where
  "de_bool v = (case v of JBool b \<Rightarrow> Some b | _ \<Rightarrow> None)"

definition de_list :: "(json \<Rightarrow> 'a option) \<Rightarrow> json \<Rightarrow> 'a list option" where
  "de_list de v = Option.bind (as_array v) (\<lambda>xs. those (map de xs))"

text \<open>A required field, one with \<open>#[serde(default)]\<close>, and one of an \<open>Option\<close> type.\<close>

definition de_req :: "ustr \<Rightarrow> (json \<Rightarrow> 'a option) \<Rightarrow> (ustr \<times> json) list \<Rightarrow> 'a option" where
  "de_req k de m = Option.bind (map_of m k) de"

definition de_or :: "'a \<Rightarrow> ustr \<Rightarrow> (json \<Rightarrow> 'a option) \<Rightarrow> (ustr \<times> json) list \<Rightarrow> 'a option" where
  "de_or d k de m = (case map_of m k of None \<Rightarrow> Some d | Some v \<Rightarrow> de v)"

definition de_opt :: "ustr \<Rightarrow> (json \<Rightarrow> 'a option) \<Rightarrow> (ustr \<times> json) list \<Rightarrow> 'a option option" where
  "de_opt k de m = (case map_of m k of None \<Rightarrow> Some None
     | Some v \<Rightarrow> if v = JNull then Some None else map_option Some (de v))"

text \<open>\<open>#[serde(flatten)]\<close>: what no field of the struct takes.\<close>

definition de_rest :: "ustr list \<Rightarrow> (ustr \<times> json) list \<Rightarrow> (ustr \<times> json) list" where
  "de_rest ks m = filter (\<lambda>(k, _). k \<notin> set ks) m"

definition de_name_value :: "json \<Rightarrow> qd_name_value option" where
  "de_name_value v = Option.bind (as_object v) (\<lambda>m.
     Option.bind (de_req (lit ''name'') as_str m) (\<lambda>n.
     Option.bind (de_req (lit ''value'') as_str m) (\<lambda>x.
     Option.bind (de_or False (lit ''checked'') de_bool m) (\<lambda>b.
     Some \<lparr>nv_name = n, nv_value = x, nv_checked = b,
        nv_extensions = de_rest [lit ''name'', lit ''value'', lit ''checked''] m\<rparr>))))"

definition de_post_data :: "json \<Rightarrow> qd_post_data option" where
  "de_post_data v = Option.bind (as_object v) (\<lambda>m.
     Option.bind (de_opt (lit ''mimeType'') as_str m) (\<lambda>t.
     Option.bind (de_opt (lit ''text'') as_str m) (\<lambda>x.
     Some \<lparr>pd_mime_type = t, pd_text = x, pd_extensions = de_rest [lit ''mimeType'', lit ''text''] m\<rparr>)))"

definition de_request :: "json \<Rightarrow> qd_request option" where
  "de_request v = Option.bind (as_object v) (\<lambda>m.
     Option.bind (de_req (lit ''method'') as_str m) (\<lambda>method.
     Option.bind (de_req (lit ''url'') as_str m) (\<lambda>u.
     Option.bind (de_or [] (lit ''headers'') (de_list de_name_value) m) (\<lambda>hs.
     Option.bind (de_or [] (lit ''cookies'') (de_list de_name_value) m) (\<lambda>cs.
     Option.bind (de_opt (lit ''postData'') de_post_data m) (\<lambda>pd.
     Some \<lparr>rq_method = method, rq_url = u, rq_headers = hs, rq_cookies = cs, rq_post_data = pd,
        rq_extensions = de_rest [lit ''method'', lit ''url'', lit ''headers'', lit ''cookies'', lit ''postData''] m\<rparr>))))))"

definition de_rule_fields :: "(ustr \<times> json) list \<Rightarrow> qd_rule option" where
  "de_rule_fields m =
     Option.bind (de_req (lit ''re'') as_str m) (\<lambda>r.
     Option.bind (de_req (lit ''from'') as_str m) (\<lambda>f.
     Some \<lparr>ru_re = r, ru_from = f, ru_extensions = de_rest [lit ''re'', lit ''from''] m\<rparr>))"

definition de_rule :: "json \<Rightarrow> qd_rule option" where
  "de_rule v = Option.bind (as_object v) de_rule_fields"

definition de_extract_rule :: "json \<Rightarrow> qd_extract_rule option" where
  "de_extract_rule v = Option.bind (as_object v) (\<lambda>m.
     Option.bind (de_req (lit ''name'') as_str m) (\<lambda>n.
     Option.bind (de_rule_fields (de_rest [lit ''name''] m)) (\<lambda>r.
     Some \<lparr>xr_name = n, xr_rule = r\<rparr>)))"

definition entry_fields :: "ustr list" where
  "entry_fields = [lit ''checked'', lit ''comment'', lit ''request'', lit ''success_asserts'', lit ''failed_asserts'',
     lit ''extract_variables'']"

definition de_entry :: "json \<Rightarrow> qd_entry option" where
  "de_entry v = Option.bind (as_object v) (\<lambda>m.
     Option.bind (de_or False (lit ''checked'') de_bool m) (\<lambda>b.
     Option.bind (de_opt (lit ''comment'') as_str m) (\<lambda>c.
     Option.bind (de_req (lit ''request'') de_request m) (\<lambda>r.
     Option.bind (de_or [] (lit ''success_asserts'') (de_list de_rule) m) (\<lambda>s.
     Option.bind (de_or [] (lit ''failed_asserts'') (de_list de_rule) m) (\<lambda>f.
     Option.bind (de_or [] (lit ''extract_variables'') (de_list de_extract_rule) m) (\<lambda>x.
     Some \<lparr>en_checked = b, en_comment = c, en_request = r, en_success = s, en_failed = f, en_extract = x,
        en_extensions = de_rest entry_fields m\<rparr>)))))))"

text \<open>The two structs without flattened fields may also be written as the arrays of their fields.\<close>

definition de_log :: "json \<Rightarrow> har_log option" where
  "de_log v = (case v of
      JObj m \<Rightarrow> Option.bind (de_req (lit ''version'') as_str m) (\<lambda>ver.
        Option.bind (de_req (lit ''entries'') (de_list de_entry) m) (\<lambda>es.
        Some \<lparr>log_version = ver, log_entries = es\<rparr>))
    | JArr [a, b] \<Rightarrow> Option.bind (as_str a) (\<lambda>ver. Option.bind (de_list de_entry b) (\<lambda>es.
        Some \<lparr>log_version = ver, log_entries = es\<rparr>))
    | _ \<Rightarrow> None)"

definition de_document :: "json \<Rightarrow> har_log option" where
  "de_document v = (case v of JObj m \<Rightarrow> de_req (lit ''log'') de_log m | JArr [a] \<Rightarrow> de_log a | _ \<Rightarrow> None)"

section \<open>Normalisation\<close>

text \<open>An unflagged entry, header or cookie of QD is enabled.\<close>

definition enable :: "(ustr \<times> json) list \<Rightarrow> (ustr \<times> json) list" where
  "enable m = bt_or_insert (lit ''checked'') (JBool True) m"

definition enable_items :: "ustr \<Rightarrow> (ustr \<times> json) list \<Rightarrow> (ustr \<times> json) list" where
  "enable_items k m = (case map_of m k of
      Some (JArr items) \<Rightarrow> bt_insert k (JArr (map (\<lambda>i. case i of JObj x \<Rightarrow> JObj (enable x) | _ \<Rightarrow> i) items)) m
    | _ \<Rightarrow> m)"

definition hoisted_keys :: "ustr list" where
  "hoisted_keys = [lit ''success_asserts'', lit ''failed_asserts'', lit ''extract_variables'']"

definition hoist_rule :: "(ustr \<times> json) list \<Rightarrow> (ustr \<times> json) list" where
  "hoist_rule m = (case map_of m (lit ''rule'') of None \<Rightarrow> m
     | Some r \<Rightarrow> fold (\<lambda>k m. case jget k r of None \<Rightarrow> m | Some v \<Rightarrow> bt_or_insert k v m) hoisted_keys
         (bt_remove (lit ''rule'') m))"

text \<open>The bytes RFC 3986 leaves unreserved stay; the others are escaped.\<close>

definition unreserved :: "nat \<Rightarrow> bool" where
  "unreserved b \<longleftrightarrow> is_ascii_alpha b \<or> is_ascii_digit b \<or> b \<in> {ch CHR ''-'', ch CHR ''.'', ch CHR ''_'', ch CHR ''~''}"

definition form_url_encode :: "ustr \<Rightarrow> ustr" where
  "form_url_encode v = concat (map (pct_byte (\<lambda>b. \<not> unreserved b)) (utf8_encode v))"

definition param_pair :: "json \<Rightarrow> ustr option" where
  "param_pair p = Option.bind (jget (lit ''name'') p) (\<lambda>n. Option.bind (as_str n) (\<lambda>name.
     let v = (case Option.bind (jget (lit ''value'') p) as_str of None \<Rightarrow> [] | Some s \<Rightarrow> s)
     in Some (name @ lit ''='' @ form_url_encode v)))"

definition params_body :: "json list \<Rightarrow> ustr" where
  "params_body ps = join (lit ''&'') (List.map_filter param_pair ps)"

definition or_insert_str :: "ustr \<Rightarrow> ustr option \<Rightarrow> (ustr \<times> json) list \<Rightarrow> (ustr \<times> json) list" where
  "or_insert_str k v m = (case v of None \<Rightarrow> m | Some s \<Rightarrow> bt_or_insert k (JStr s) m)"

definition fill_post :: "ustr option \<Rightarrow> ustr option \<Rightarrow> (ustr \<times> json) list \<Rightarrow> (ustr \<times> json) list" where
  "fill_post data mime_type post =
     (let p = or_insert_str (lit ''mimeType'') mime_type (or_insert_str (lit ''text'') data post) in
      if bt_has (lit ''text'') p then p
      else case map_of p (lit ''params'') of
          Some (JArr ps) \<Rightarrow> bt_insert (lit ''text'') (JStr (params_body ps)) p
        | _ \<Rightarrow> p)"

definition add_post_data :: "ustr option \<Rightarrow> ustr option \<Rightarrow> (ustr \<times> json) list \<Rightarrow> (ustr \<times> json) list" where
  "add_post_data data mime_type m =
     (let has_params = (case Option.bind (map_of m (lit ''postData'')) (jget (lit ''params'')) of
             Some v \<Rightarrow> is_array v | None \<Rightarrow> False)
      in if data = None \<and> mime_type = None \<and> \<not> has_params then m
         else case (case map_of m (lit ''postData'') of None \<Rightarrow> JObj [] | Some v \<Rightarrow> v) of
             JObj post \<Rightarrow> bt_insert (lit ''postData'') (JObj (fill_post data mime_type post)) m
           | _ \<Rightarrow> m)"

definition normalize_request :: "(ustr \<times> json) list \<Rightarrow> (ustr \<times> json) list" where
  "normalize_request m0 =
     (let m = enable_items (lit ''cookies'') (enable_items (lit ''headers'') m0)
      in add_post_data (Option.bind (map_of m (lit ''data'')) as_str) (Option.bind (map_of m (lit ''mimeType'')) as_str) m)"

definition normalize_entry :: "json \<Rightarrow> json" where
  "normalize_entry v = (case v of
      JObj m0 \<Rightarrow> let m = hoist_rule (enable m0) in
        (case map_of m (lit ''request'') of
           Some (JObj r) \<Rightarrow> JObj (bt_insert (lit ''request'') (JObj (normalize_request r)) m)
         | _ \<Rightarrow> JObj m)
    | _ \<Rightarrow> v)"

definition qd_entries :: "json \<Rightarrow> json list option" where
  "qd_entries raw = (case raw of JArr items \<Rightarrow> Some items
     | _ \<Rightarrow> Option.bind (Option.bind (jget (lit ''log'') raw) (jget (lit ''entries''))) as_array)"

definition har_of_entries :: "json list \<Rightarrow> json" where
  "har_of_entries es = JObj [(lit ''log'', JObj
     [(lit ''creator'', JObj [(lit ''name'', JStr (lit ''qdrust'')), (lit ''version'', JStr (lit ''1.0''))]),
      (lit ''entries'', JArr es), (lit ''version'', JStr (lit ''1.2''))])]"

definition normalize_qd_document :: "json \<Rightarrow> json" where
  "normalize_qd_document raw = (case qd_entries raw of None \<Rightarrow> raw
     | Some es \<Rightarrow> har_of_entries (map normalize_entry es))"

section \<open>Parsing\<close>

definition har_parse :: "(json \<Rightarrow> ustr) \<Rightarrow> json \<Rightarrow> error + har_log" where
  "har_parse refusal raw = rbind (case de_document raw of
      None \<Rightarrow> Inl [lit ''invalid QD HAR document'', refusal raw] | Some d \<Rightarrow> Inr d) finish_parse"

definition parse_qd :: "(json \<Rightarrow> ustr) \<Rightarrow> json \<Rightarrow> error + har_log" where
  "parse_qd refusal raw = har_parse refusal (normalize_qd_document raw)"

section \<open>The variables of a template\<close>

text \<open>What the expression engine knows of a text: the names it defines, those it reads, and declared defaults.\<close>

record name_lib =
  known_name :: "ustr \<Rightarrow> bool"
  reads_of :: "ustr \<Rightarrow> ustr list"
  defaults_of :: "ustr \<Rightarrow> (ustr \<times> ustr) list"

fun har_variables_from :: "name_lib \<Rightarrow> ustr list \<Rightarrow> ustr list \<Rightarrow> qd_entry list \<Rightarrow> ustr list" where
  "har_variables_from L extracted vs [] = vs"
| "har_variables_from L extracted vs (e # es) =
     (let found = concat (map (reads_of L) (request_fields (en_request e)));
          vs1 = fold (\<lambda>n vs. if known_name L n \<or> n \<in> set extracted \<or> n \<in> set vs then vs else vs @ [n]) found vs
      in har_variables_from L (extracted @ map xr_name (en_extract e)) vs1 es)"

definition har_variables :: "name_lib \<Rightarrow> har_log \<Rightarrow> ustr list" where
  "har_variables L d = har_variables_from L [] [] (log_entries d)"

definition har_defaults :: "name_lib \<Rightarrow> har_log \<Rightarrow> (ustr \<times> ustr) list" where
  "har_defaults L d =
     (let vs = har_variables L d in
      if vs = [] then []
      else fold (\<lambda>(n, v) m. if n \<in> set vs \<and> \<not> bt_has n m then bt_insert n v m else m)
        (concat (map (\<lambda>e. concat (map (defaults_of L) (request_fields (en_request e)))) (log_entries d))) [])"

section \<open>Normalising twice\<close>

lemma bt_insert_same: "bt_wf m \<Longrightarrow> map_of m k = Some v \<Longrightarrow> bt_insert k v m = m"
proof (induction k v m rule: bt_insert.induct)
  case (2 k v k' v' m)
  show ?case
  proof (cases "k < k'")
    case True
    with 2 have "k \<notin> fst ` set m" by (fastforce simp: bt_wf_def)
    then have "map_of m k = None" by (simp add: map_of_eq_None_iff)
    with 2 True show ?thesis by (auto split: if_splits)
  next
    case False
    with 2 show ?thesis by (auto simp: bt_wf_def split: if_splits)
  qed
qed simp

lemma bt_has_insert [simp]: "bt_has k (bt_insert k' v m) \<longleftrightarrow> k = k' \<or> bt_has k m"
  by (simp add: bt_has_def)

lemma json_wf_member: "json_wf (JObj m) \<Longrightarrow> map_of m k = Some v \<Longrightarrow> json_wf v"
  by (auto dest!: map_of_SomeD simp: list_all_iff)

lemma enable_twice: "enable (enable m) = enable m"
  by (simp add: enable_def)

definition enabled_list :: "json list \<Rightarrow> json list" where
  "enabled_list items = map (\<lambda>i. case i of JObj x \<Rightarrow> JObj (enable x) | _ \<Rightarrow> i) items"

lemma enabled_list_twice: "enabled_list (enabled_list items) = enabled_list items"
  by (auto simp: enabled_list_def enable_twice split: json.split)

lemma enable_items_other: "k \<noteq> k' \<Longrightarrow> map_of (enable_items k m) k' = map_of m k'"
  by (auto simp: enable_items_def split: option.split json.split)

lemma enable_items_wf: "bt_wf m \<Longrightarrow> bt_wf (enable_items k m)"
  by (auto simp: enable_items_def bt_wf_insert split: option.split json.split)

text \<open>A list of headers or cookies that is enabled already.\<close>

definition items_on :: "ustr \<Rightarrow> (ustr \<times> json) list \<Rightarrow> bool" where
  "items_on k m \<longleftrightarrow> (\<forall>items. map_of m k = Some (JArr items) \<longrightarrow> enabled_list items = items)"

lemma items_on_enable: "items_on k (enable_items k m)"
  unfolding enable_items_def enabled_list_def [symmetric]
  by (auto simp: items_on_def enabled_list_twice split: option.split json.split)

lemma items_on_same: "bt_wf m \<Longrightarrow> items_on k m \<Longrightarrow> enable_items k m = m"
  unfolding enable_items_def enabled_list_def [symmetric]
  by (auto simp: items_on_def bt_insert_same split: option.split json.split)

lemma items_on_cong: "map_of m k = map_of m' k \<Longrightarrow> items_on k m = items_on k m'"
  by (simp add: items_on_def)

lemma fill_post_twice: "fill_post d t (fill_post d t p) = fill_post d t p"
proof -
  define q where "q = or_insert_str (lit ''mimeType'') t (or_insert_str (lit ''text'') d p)"
  define r where "r = fill_post d t p"
  have q: "(d = None \<or> bt_has (lit ''text'') q) \<and> (t = None \<or> bt_has (lit ''mimeType'') q)"
    by (auto simp: q_def or_insert_str_def split: option.split)
  have r: "r = (if bt_has (lit ''text'') q then q else case map_of q (lit ''params'') of
      Some (JArr ps) \<Rightarrow> bt_insert (lit ''text'') (JStr (params_body ps)) q | _ \<Rightarrow> q)"
    unfolding r_def fill_post_def Let_def q_def [symmetric] ..
  have has: "(d = None \<or> bt_has (lit ''text'') r) \<and> (t = None \<or> bt_has (lit ''mimeType'') r)"
    using q unfolding r by (auto split: option.split json.split)
  then have "or_insert_str (lit ''mimeType'') t (or_insert_str (lit ''text'') d r) = r"
    by (auto simp: or_insert_str_def split: option.split)
  moreover have "bt_has (lit ''text'') r \<or> \<not> (\<exists>ps. map_of r (lit ''params'') = Some (JArr ps))"
    unfolding r by (auto split: option.split json.split)
  ultimately show ?thesis
    unfolding r_def [symmetric] by (auto simp: fill_post_def [of d t r] Let_def split: option.split json.split)
qed

lemma add_post_data_cases:
  obtains "add_post_data d t m = m"
  | post where "add_post_data d t m = bt_insert (lit ''postData'') (JObj (fill_post d t post)) m"
proof -
  have "add_post_data d t m = m \<or> (\<exists>post. add_post_data d t m = bt_insert (lit ''postData'') (JObj (fill_post d t post)) m)"
    by (auto simp: add_post_data_def Let_def split: option.split json.split)
  then show ?thesis using that by blast
qed

lemma add_post_data_twice:
  assumes "bt_wf m"
  shows "add_post_data d t (add_post_data d t m) = add_post_data d t m"
proof (cases rule: add_post_data_cases [of d t m])
  case 1
  then show ?thesis by simp
next
  case (2 post)
  define r where "r = add_post_data d t m"
  have "bt_wf r" using 2 assms by (simp add: r_def bt_wf_insert)
  moreover have "map_of r (lit ''postData'') = Some (JObj (fill_post d t post))" by (simp add: r_def 2)
  ultimately have "add_post_data d t r = r"
    by (simp add: add_post_data_def Let_def fill_post_twice bt_insert_same)
  then show ?thesis by (simp add: r_def)
qed

lemma normalize_request_twice:
  assumes "bt_wf m0"
  shows "bt_wf (normalize_request m0) \<and> normalize_request (normalize_request m0) = normalize_request m0"
proof -
  define m where "m = enable_items (lit ''cookies'') (enable_items (lit ''headers'') m0)"
  define d where "d = Option.bind (map_of m (lit ''data'')) as_str"
  define t where "t = Option.bind (map_of m (lit ''mimeType'')) as_str"
  define r where "r = add_post_data d t m"
  have r: "normalize_request m0 = r"
    unfolding normalize_request_def Let_def m_def [symmetric] d_def [symmetric] t_def [symmetric] r_def ..
  have m: "bt_wf m" using assms by (simp add: m_def enable_items_wf)
  have on: "items_on (lit ''headers'') m" "items_on (lit ''cookies'') m"
    by (simp_all add: m_def items_on_enable items_on_cong [OF enable_items_other])
  have wf: "bt_wf r" and same: "\<And>k. k \<noteq> lit ''postData'' \<Longrightarrow> map_of r k = map_of m k"
    unfolding r_def using m by (cases rule: add_post_data_cases [of d t m]; simp add: bt_wf_insert)+
  have "items_on (lit ''headers'') r" "items_on (lit ''cookies'') r"
    using on same by (auto simp: items_on_def)
  then have again: "enable_items (lit ''cookies'') (enable_items (lit ''headers'') r) = r"
    using items_on_same [OF wf] by simp
  have dt: "Option.bind (map_of r (lit ''data'')) as_str = d" "Option.bind (map_of r (lit ''mimeType'')) as_str = t"
    by (simp_all add: same d_def t_def)
  have "normalize_request r = add_post_data d t r"
    unfolding normalize_request_def Let_def again dt ..
  with wf r show ?thesis using add_post_data_twice [OF m] by (simp add: r_def)
qed

lemma fold_hoist:
  assumes "bt_wf m"
  shows "bt_wf (fold (\<lambda>k m. case jget k r of None \<Rightarrow> m | Some v \<Rightarrow> bt_or_insert k v m) ks m)"
    and "k \<notin> set ks \<Longrightarrow> map_of (fold (\<lambda>k m. case jget k r of None \<Rightarrow> m | Some v \<Rightarrow> bt_or_insert k v m) ks m) k = map_of m k"
  using assms by (induction ks arbitrary: m) (auto simp: inv_intros map_of_bt_or_insert split: option.split)

lemma hoist_rule_keeps:
  assumes "bt_wf m"
  shows "bt_wf (hoist_rule m)" "map_of (hoist_rule m) (lit ''rule'') = None"
    "k \<notin> set hoisted_keys \<Longrightarrow> k \<noteq> lit ''rule'' \<Longrightarrow> map_of (hoist_rule m) k = map_of m k"
proof -
  have "lit ''rule'' \<notin> set hoisted_keys" by (simp add: hoisted_keys_def)
  then show "bt_wf (hoist_rule m)" "map_of (hoist_rule m) (lit ''rule'') = None"
    "k \<notin> set hoisted_keys \<Longrightarrow> k \<noteq> lit ''rule'' \<Longrightarrow> map_of (hoist_rule m) k = map_of m k"
    using assms fold_hoist [OF bt_wf_remove [OF assms, of "lit ''rule''"]]
    by (simp_all add: hoist_rule_def map_of_bt_remove split: option.split)
qed

lemma normalize_entry_twice:
  assumes "json_wf v"
  shows "normalize_entry (normalize_entry v) = normalize_entry v"
proof (cases v)
  case (JObj m0)
  define m where "m = hoist_rule (enable m0)"
  have wf0: "bt_wf (enable m0)" using assms JObj by (simp add: enable_def inv_intros)
  have keys: "k \<notin> set hoisted_keys" if "k \<in> {lit ''checked'', lit ''request''}" for k
    using that by (auto simp: hoisted_keys_def)
  have wf: "bt_wf m" and norule: "map_of m (lit ''rule'') = None"
    and on: "bt_has (lit ''checked'') m" and req: "map_of m (lit ''request'') = map_of m0 (lit ''request'')"
    using hoist_rule_keeps [OF wf0] keys by (simp_all add: m_def bt_has_def enable_def map_of_bt_or_insert)
  have norm: "hoist_rule (enable n) = n" if "bt_has (lit ''checked'') n" "map_of n (lit ''rule'') = None" for n
    using that by (simp add: enable_def hoist_rule_def)
  have v: "normalize_entry (JObj n0) = (case map_of n (lit ''request'') of
      Some (JObj r) \<Rightarrow> JObj (bt_insert (lit ''request'') (JObj (normalize_request r)) n) | _ \<Rightarrow> JObj n)"
    if "n = hoist_rule (enable n0)" for n n0
    unfolding normalize_entry_def json.simps Let_def that ..
  show ?thesis
  proof (cases "\<exists>r. map_of m (lit ''request'') = Some (JObj r)")
    case True
    then obtain r where r: "map_of m (lit ''request'') = Some (JObj r)" by blast
    have "json_wf (JObj r)" by (rule json_wf_member [of m0 "lit ''request''"]) (use r assms JObj req in simp_all)
    then have "bt_wf r" by simp
    note nr = normalize_request_twice [OF this]
    define n where "n = bt_insert (lit ''request'') (JObj (normalize_request r)) m"
    have e: "normalize_entry v = JObj n" unfolding JObj v [OF m_def] r n_def by simp
    have n: "bt_wf n" "n = hoist_rule (enable n)" "map_of n (lit ''request'') = Some (JObj (normalize_request r))"
      using wf on norule by (auto simp: n_def intro!: norm [symmetric] bt_wf_insert)
    have "normalize_entry (JObj n) = JObj n"
      using v [OF n(2)] unfolding n(3) option.case json.case conjunct2 [OF nr] bt_insert_same [OF n(1) n(3)] .
    then show ?thesis by (simp only: e)
  next
    case False
    then have "normalize_entry (JObj n0) = JObj m" if "m = hoist_rule (enable n0)" for n0
      unfolding v [OF that] by (simp split: option.split json.split)
    from this [OF m_def] this [OF norm [OF on norule, symmetric]] show ?thesis by (simp only: JObj)
  qed
qed (simp_all add: normalize_entry_def)

lemma qd_entries_of_har [simp]: "qd_entries (har_of_entries es) = Some es"
  by (simp add: qd_entries_def har_of_entries_def jget_def as_array_def)

lemma json_wf_jget: "json_wf v \<Longrightarrow> jget k v = Some x \<Longrightarrow> json_wf x"
  by (cases v) (auto simp: jget_def dest!: map_of_SomeD simp: list_all_iff)

lemma qd_entries_wf:
  assumes "json_wf raw" "qd_entries raw = Some es"
  shows "list_all json_wf es"
proof (cases "\<exists>items. raw = JArr items")
  case True
  with assms show ?thesis by (auto simp: qd_entries_def)
next
  case False
  with assms(2) obtain l e where "jget (lit ''log'') raw = Some l" "jget (lit ''entries'') l = Some e" "as_array e = Some es"
    unfolding qd_entries_def by (auto simp only: Option.bind_eq_Some_conv split: json.splits)
  moreover from calculation assms(1) have "json_wf e" using json_wf_jget by blast
  ultimately show ?thesis by (cases e) (auto simp: as_array_def)
qed

lemma normalize_twice:
  assumes "json_wf raw"
  shows "normalize_qd_document (normalize_qd_document raw) = normalize_qd_document raw"
proof (cases "qd_entries raw")
  case (Some es)
  then have "list_all json_wf es" using qd_entries_wf [OF assms] by simp
  then have "map normalize_entry (map normalize_entry es) = map normalize_entry es"
    by (simp add: list_all_iff normalize_entry_twice)
  with Some show ?thesis by (simp add: normalize_qd_document_def del: map_map)
qed (simp add: normalize_qd_document_def)

end
