(* ===== verification/HarThms.thy ===== *)
theory HarThms
  imports HarJson
begin

text \<open>
  What the readers of QD HAR documents accept: normalisation is idempotent, the strict reader refuses the
  bare arrays the tolerant one accepts, and which variables a template asks for.
\<close>

section \<open>Variables\<close>

definition entry_reads :: "name_lib \<Rightarrow> qd_entry \<Rightarrow> ustr set" where
  "entry_reads L e = (\<Union>f\<in>set (request_fields (en_request e)). set (reads_of L f))"

definition entry_extracts :: "qd_entry \<Rightarrow> ustr set" where
  "entry_extracts e = xr_name ` set (en_extract e)"

text \<open>\<open>n\<close> is read by an entry before any earlier entry extracted it.\<close>

definition read_first :: "name_lib \<Rightarrow> qd_entry list \<Rightarrow> ustr \<Rightarrow> bool" where
  "read_first L es n \<longleftrightarrow> (\<exists>pre e post. es = pre @ e # post \<and> n \<in> entry_reads L e \<and> (\<forall>p\<in>set pre. n \<notin> entry_extracts p))"

lemma read_first_Nil [simp]: "\<not> read_first L [] n"
  by (simp add: read_first_def)

lemma read_first_Cons: "read_first L (e # es) n \<longleftrightarrow> n \<in> entry_reads L e \<or> (n \<notin> entry_extracts e \<and> read_first L es n)"
proof
  assume "read_first L (e # es) n"
  then obtain pre x post where "e # es = pre @ x # post" "n \<in> entry_reads L x" "\<forall>p\<in>set pre. n \<notin> entry_extracts p"
    by (auto simp: read_first_def)
  then show "n \<in> entry_reads L e \<or> (n \<notin> entry_extracts e \<and> read_first L es n)"
    unfolding read_first_def by (cases pre) auto
next
  assume a: "n \<in> entry_reads L e \<or> (n \<notin> entry_extracts e \<and> read_first L es n)"
  show "read_first L (e # es) n"
  proof (cases "n \<in> entry_reads L e")
    case True
    then show ?thesis unfolding read_first_def by (intro exI [of _ "[]"]) auto
  next
    case False
    with a obtain pre x post where s: "es = pre @ x # post" "n \<in> entry_reads L x" "\<forall>p\<in>set pre. n \<notin> entry_extracts p"
      and "n \<notin> entry_extracts e" by (auto simp: read_first_def)
    then show ?thesis unfolding read_first_def by (intro exI [of _ "e # pre"]) auto
  qed
qed

lemma fold_new:
  assumes "distinct vs"
  shows "distinct (fold (\<lambda>n vs. if P n \<or> n \<in> set vs then vs else vs @ [n]) ns vs)
    \<and> set (fold (\<lambda>n vs. if P n \<or> n \<in> set vs then vs else vs @ [n]) ns vs) = set vs \<union> {n \<in> set ns. \<not> P n}"
  using assms by (induction ns arbitrary: vs) (auto simp: insert_absorb)

lemma har_variables_from_spec:
  assumes "distinct vs"
  shows "distinct (har_variables_from L X vs es)
    \<and> set (har_variables_from L X vs es) = set vs \<union> {n. \<not> known_name L n \<and> n \<notin> set X \<and> read_first L es n}"
  using assms
proof (induction es arbitrary: X vs)
  case (Cons e es)
  define vs1 where "vs1 = fold (\<lambda>n vs. if (known_name L n \<or> n \<in> set X) \<or> n \<in> set vs then vs else vs @ [n])
      (concat (map (reads_of L) (request_fields (en_request e)))) vs"
  have vs1: "distinct vs1" "set vs1 = set vs \<union> {n \<in> entry_reads L e. \<not> known_name L n \<and> n \<notin> set X}"
    using fold_new [OF Cons.prems, of "\<lambda>n. known_name L n \<or> n \<in> set X"] by (auto simp: vs1_def entry_reads_def)
  have "har_variables_from L X vs (e # es) = har_variables_from L (X @ map xr_name (en_extract e)) vs1 es"
    by (simp add: vs1_def Let_def disj_assoc)
  with Cons.IH [OF vs1(1), of "X @ map xr_name (en_extract e)"] vs1(2) show ?case
    by (auto simp: read_first_Cons entry_extracts_def)
qed simp

section \<open>Properties\<close>

text \<open>
  C17.  The variables a template asks for are listed once each, and are exactly the names that the expression
  engine does not define itself and that some entry reads before any earlier entry extracted them.
\<close>

theorem har_variables_correct:
  "distinct (har_variables L d)
   \<and> (n \<in> set (har_variables L d) \<longleftrightarrow> \<not> known_name L n \<and> read_first L (log_entries d) n)"
  using har_variables_from_spec [of "[]" L "[]" "log_entries d"] by (simp add: har_variables_def)


definition bare_document :: json where
  "bare_document = JArr [JObj [(lit ''request'', JObj [(lit ''method'', JStr (lit ''GET'')), (lit ''url'', JStr (lit ''http://a/''))])]]"


section \<open>Bare arrays\<close>

lemma those_all: "those xs = Some ys \<Longrightarrow> x \<in> set xs \<Longrightarrow> x \<noteq> None"
  by (induction xs arbitrary: ys) (auto split: option.splits)

lemma de_entry_object: "de_entry (normalize_entry e) \<noteq> None \<Longrightarrow> \<exists>m. e = JObj m"
  by (cases e) (auto simp: de_entry_def normalize_entry_def as_object_def)

lemma parse_qd_objects:
  assumes "parse_qd r (JArr es) = Inr d" "e \<in> set es"
  shows "\<exists>m. e = JObj m"
proof -
  have "de_document (har_of_entries (map normalize_entry es)) \<noteq> None"
    using assms(1) by (auto simp: parse_qd_def normalize_qd_document_def qd_entries_def har_parse_def split: option.splits)
  then have "those (map de_entry (map normalize_entry es)) \<noteq> None"
    by (auto simp: de_document_def har_of_entries_def de_req_def de_log_def de_list_def as_array_def as_str_def
        Option.bind_eq_Some_conv)
  then obtain ys where "those (map de_entry (map normalize_entry es)) = Some ys" by blast
  from those_all [OF this] assms(2) have "de_entry (normalize_entry e) \<noteq> None" by auto
  then show ?thesis by (rule de_entry_object)
qed

text \<open>
  The bare entry array QD exports: the tolerant reader accepts it, the strict one refuses it unless its
  only entry carries a \<open>version\<close> of its own.
\<close>

lemma bare_array_refused:
  assumes "parse_qd r (JArr es) = Inr d" "\<forall>e\<in>set es. jget (lit ''version'') e = None"
  shows "har_parse r2 (JArr es) = Inl [lit ''invalid QD HAR document'', r2 (JArr es)]"
proof -
  have "de_log e = None" if "e \<in> set es" for e
  proof -
    obtain m where "e = JObj m" using parse_qd_objects [OF assms(1) \<open>e \<in> set es\<close>] by blast
    with assms(2) \<open>e \<in> set es\<close> show ?thesis by (auto simp: de_log_def de_req_def jget_def)
  qed
  then have "de_document (JArr es) = None"
    by (auto simp: de_document_def split: list.split)
  then show ?thesis by (simp add: har_parse_def)
qed

text \<open>A document of this shape, for the examples.\<close>

definition bare_entry :: qd_entry where
  "bare_entry = \<lparr>en_checked = True, en_comment = None,
     en_request = \<lparr>rq_method = lit ''GET'', rq_url = lit ''http://a/'', rq_headers = [], rq_cookies = [],
       rq_post_data = None, rq_extensions = []\<rparr>,
     en_success = [], en_failed = [], en_extract = [], en_extensions = []\<rparr>"

lemma parse_bare: "parse_qd r bare_document = Inr \<lparr>log_version = lit ''1.2'', log_entries = [bare_entry]\<rparr>"
proof -
  define rq where "rq = [(lit ''method'', JStr (lit ''GET'')), (lit ''url'', JStr (lit ''http://a/''))]"
  have n: "normalize_request rq = rq"
    by (simp add: rq_def normalize_request_def enable_items_def add_post_data_def)
  have q: "de_request (JObj rq) = Some (en_request bare_entry)"
    by (simp add: rq_def de_request_def as_object_def de_req_def de_or_def de_opt_def de_rest_def as_str_def bare_entry_def)
  have "enable [(lit ''request'', JObj rq)] = [(lit ''checked'', JBool True), (lit ''request'', JObj rq)]"
    by (simp add: enable_def bt_or_insert_def)
  moreover have "hoist_rule [(lit ''checked'', JBool True), (lit ''request'', JObj rq)]
      = [(lit ''checked'', JBool True), (lit ''request'', JObj rq)]"
    by (simp add: hoist_rule_def)
  ultimately have e: "normalize_entry (JObj [(lit ''request'', JObj rq)]) = JObj [(lit ''checked'', JBool True), (lit ''request'', JObj rq)]"
    unfolding normalize_entry_def by (simp add: n)
  have "de_entry (JObj [(lit ''checked'', JBool True), (lit ''request'', JObj rq)]) = Some bare_entry"
    using q by (simp add: de_entry_def as_object_def de_or_def de_opt_def de_req_def de_bool_def de_rest_def entry_fields_def)
      (simp add: bare_entry_def)
  with e have "de_document (normalize_qd_document bare_document) = Some \<lparr>log_version = lit ''1.2'', log_entries = [bare_entry]\<rparr>"
    unfolding bare_document_def rq_def [symmetric]
    by (simp add: normalize_qd_document_def qd_entries_def har_of_entries_def de_document_def de_req_def de_log_def
        de_list_def as_array_def as_str_def)
  moreover have "validate_entry bare_entry = Inr ()"
    by (simp add: validate_entry_def bare_entry_def trim_by_def trim_start_by_def trim_end_by_def is_ws_def)
  ultimately show ?thesis
    by (simp add: parse_qd_def har_parse_def finish_parse_def)
qed

end
