(* ===== verification/Outbound.thy ===== *)
theory Outbound
  imports Executor
begin

text \<open>
  The server's own requests: the guarded client (\<open>crates/qdrust-server/src/outbound.rs\<close>), the push channels
  (\<open>push_channels.rs\<close>) and mail (\<open>email.rs\<close>).

  A request is a value, and the world it goes to is a type parameter: \<open>outworld\<close> holds the resolver, the HTTP
  exchange and the SMTP exchange, with the parsers and printers of the libraries.
\<close>

section \<open>The guarded client\<close>

record runtime_settings =
  require_email_verification :: bool
  ga_key :: "ustr option"
  log_retention_days :: nat
  allow_private_network :: bool
  allow_invalid_certificates :: bool

record outbound_http =
  oh_settings :: runtime_settings
  oh_timeout :: nat

datatype out_body = NoBody | JsonBody json | TextBody ustr

record out_request =
  or_method :: ustr
  or_url :: ustr
  or_query :: "(ustr \<times> ustr) list"
  or_headers :: "(ustr \<times> ustr) list"
  or_body :: out_body

record out_response =
  os_status :: nat
  os_json :: "error + json"

record mail =
  mail_from :: ustr
  mail_to :: ustr
  mail_subject :: ustr
  mail_body :: ustr

text \<open>
  \<open>ow_status_error\<close> is the text of \<open>error_for_status\<close>, \<open>ow_mail\<close> what \<open>lettre\<close> makes of a message and
  \<open>ow_is_address\<close>, \<open>ow_mailbox\<close> its parsers.
\<close>

record 'w outworld =
  ow_net :: "'w \<Rightarrow> net"
  ow_send :: "client \<Rightarrow> nat \<Rightarrow> out_request \<Rightarrow> ('w, out_response) serr"
  ow_status_error :: "nat \<Rightarrow> ustr \<Rightarrow> ustr"
  ow_method :: "ustr \<Rightarrow> error + ustr"
  ow_json_text :: "json \<Rightarrow> ustr"
  ow_mail :: "ustr \<Rightarrow> nat \<Rightarrow> (ustr \<times> ustr) option \<Rightarrow> mail \<Rightarrow> ('w, unit) serr"
  ow_is_address :: "ustr \<Rightarrow> bool"
  ow_mailbox :: "ustr \<Rightarrow> error + ustr"

definition BLOCKED :: ustr where
  "BLOCKED = lit ''private or special-use network target is blocked''"

definition ALLOW_PRIVATE_NETWORK_SETTING :: ustr where
  "ALLOW_PRIVATE_NETWORK_SETTING = lit ''security.allow_private_network''"

definition http_policy :: "outbound_http \<Rightarrow> outbound_policy" where
  "http_policy h = \<lparr>op_timeout = oh_timeout h, op_allow_private = allow_private_network (oh_settings h),
     op_allow_invalid_certs = allow_invalid_certificates (oh_settings h), op_proxy = None\<rparr>"

definition explain_refusal :: "ustr \<Rightarrow> bool \<Rightarrow> error \<Rightarrow> error" where
  "explain_refusal u private_allowed err =
     (if \<not> private_allowed \<and> contains_sub BLOCKED (full_message err)
      then (u @ lit '' is on a private or special-use network, which the outbound policy blocks; an administrator can allow it with the ''
            @ ALLOW_PRIVATE_NETWORK_SETTING @ lit '' setting'') # err
      else (lit ''cannot reach '' @ u) # err)"

definition outbound_request :: "'w outworld \<Rightarrow> outbound_http \<Rightarrow> ustr \<Rightarrow> ('w, client) serr" where
  "outbound_request W h u = smap_err (explain_refusal u (op_allow_private (http_policy h)))
     (sread (\<lambda>w. guarded_client_for_url (ow_net W w) u (http_policy h) False))"

text \<open>
  \<open>outbound.request(..).await?\<close> followed by \<open>.send().await\<close> with the context a caller gives it; the
  timeout is the client's unless the request sets its own.
\<close>

definition send_with_timeout :: "'w outworld \<Rightarrow> outbound_http \<Rightarrow> nat \<Rightarrow> out_request \<Rightarrow> (error \<Rightarrow> error) \<Rightarrow> ('w, out_response) serr" where
  "send_with_timeout W h t rq f =
     sbind (outbound_request W h (or_url rq)) (\<lambda>cl. smap_err f (ow_send W cl t rq))"

definition send_outbound :: "'w outworld \<Rightarrow> outbound_http \<Rightarrow> out_request \<Rightarrow> ustr \<Rightarrow> ('w, out_response) serr" where
  "send_outbound W h rq msg = send_with_timeout W h (oh_timeout h) rq (\<lambda>e. msg # e)"

definition error_for_status :: "'w outworld \<Rightarrow> ustr \<Rightarrow> ustr \<Rightarrow> out_response \<Rightarrow> error + out_response" where
  "error_for_status W u msg r = with_context msg
     (if 400 \<le> os_status r \<and> os_status r < 600 then Inl [ow_status_error W (os_status r) u] else Inr r)"

definition accepted :: "'w outworld \<Rightarrow> outbound_http \<Rightarrow> out_request \<Rightarrow> ustr \<Rightarrow> ustr \<Rightarrow> ('w, out_response) serr" where
  "accepted W h rq failed rejected =
     sbind (send_outbound W h rq failed) (\<lambda>r. sread (\<lambda>_. error_for_status W (or_url rq) rejected r))"

definition post_json :: "ustr \<Rightarrow> json \<Rightarrow> out_request" where
  "post_json u payload = \<lparr>or_method = lit ''POST'', or_url = u, or_query = [], or_headers = [], or_body = JsonBody payload\<rparr>"

section \<open>Push channels\<close>

definition CHANNEL_KINDS :: "ustr list" where
  "CHANNEL_KINDS = [lit ''bark'', lit ''serverchan'', lit ''telegram'', lit ''dingtalk'', lit ''wxpusher'',
     lit ''wxpusher_spt'', lit ''wecom_app'', lit ''wecom_webhook'']"

definition ALL_CHANNEL_KINDS :: "ustr list" where
  "ALL_CHANNEL_KINDS = [lit ''webhook'', lit ''custom_http'', lit ''email''] @ CHANNEL_KINDS"

definition is_push_channel :: "ustr \<Rightarrow> bool" where
  "is_push_channel kind \<longleftrightarrow> kind \<in> set CHANNEL_KINDS"

definition is_known_channel_kind :: "ustr \<Rightarrow> bool" where
  "is_known_channel_kind kind \<longleftrightarrow> kind \<in> set ALL_CHANNEL_KINDS"

definition jget_str :: "ustr \<Rightarrow> json \<Rightarrow> ustr option" where
  "jget_str k v = Option.bind (jget k v) as_str"

definition cfg_str :: "ustr \<Rightarrow> json \<Rightarrow> ustr option" where
  "cfg_str k config = (case jget_str k config of None \<Rightarrow> None
     | Some v \<Rightarrow> if trim_by is_ws v = [] then None else Some (trim_by is_ws v))"

definition cfg :: "ustr \<Rightarrow> json \<Rightarrow> ustr \<Rightarrow> error + ustr" where
  "cfg k config msg = (case cfg_str k config of None \<Rightarrow> Inl [msg] | Some v \<Rightarrow> Inr v)"

definition ensure_trailing_slash :: "ustr \<Rightarrow> ustr" where
  "ensure_trailing_slash u = (if ends_with (lit ''/'') u then u else u @ lit ''/'')"

definition ensure_scheme :: "ustr \<Rightarrow> ustr" where
  "ensure_scheme u = (if starts_with (lit ''http://'') u \<or> starts_with (lit ''https://'') u then u else lit ''https://'' @ u)"

definition plain_body :: "ustr \<Rightarrow> ustr \<Rightarrow> ustr" where
  "plain_body title body = title @ [10] @ body"

text \<open>\<open>body.replace("\r\n", s)\<close> with the backslashes themselves, not a line end.\<close>

definition unescape_breaks :: "ustr \<Rightarrow> ustr \<Rightarrow> ustr" where
  "unescape_breaks s body = replace_str [92, ch CHR ''r'', 92, ch CHR ''n''] s body"

definition as_i64 :: "json \<Rightarrow> int option" where
  "as_i64 v = (case v of JNum (JInt i) \<Rightarrow> if - (2 ^ 63) \<le> i \<and> i < 2 ^ 63 then Some i else None | _ \<Rightarrow> None)"

definition as_bool :: "json \<Rightarrow> bool option" where
  "as_bool v = (case v of JBool b \<Rightarrow> Some b | _ \<Rightarrow> None)"

definition check_business_code :: "'w outworld \<Rightarrow> out_response \<Rightarrow> ustr \<Rightarrow> int \<Rightarrow> error + unit" where
  "check_business_code W r code_field ok_value =
     rbind (with_context (lit ''cannot decode channel response (HTTP '' @ nat_to_str (os_status r) @ lit '')'') (os_json r)) (\<lambda>payload.
     let code = (case Option.bind (jget code_field payload) as_i64 of None \<Rightarrow> ok_value | Some c \<Rightarrow> c) in
     ensure (code = ok_value) [lit ''channel returned '' @ code_field @ lit '': '' @ ow_json_text W payload])"

definition push_checked :: "'w outworld \<Rightarrow> outbound_http \<Rightarrow> out_request \<Rightarrow> ustr \<Rightarrow> ustr \<Rightarrow> ustr \<Rightarrow> int \<Rightarrow> ('w, unit) serr" where
  "push_checked W h rq failed rejected code_field ok_value =
     sbind (accepted W h rq failed rejected) (\<lambda>r. sread (\<lambda>_. check_business_code W r code_field ok_value))"

definition send_bark :: "'w outworld \<Rightarrow> outbound_http \<Rightarrow> json \<Rightarrow> ustr \<Rightarrow> ustr \<Rightarrow> ('w, unit) serr" where
  "send_bark W h config title body =
     sbind (sread (\<lambda>_. cfg (lit ''url'') config (lit ''bark channel requires a device URL (e.g. https://api.day.app/yourkey)''))) (\<lambda>u.
     let payload = fold (\<lambda>k m. case cfg_str k config of None \<Rightarrow> m | Some v \<Rightarrow> bt_insert k (JStr v) m)
           [lit ''sound'', lit ''group'', lit ''icon'']
           [(lit ''body'', JStr (unescape_breaks [10] body)), (lit ''title'', JStr title)]
     in sbind (accepted W h (post_json (ensure_trailing_slash u) (JObj payload)) (lit ''bark request failed'')
          (lit ''bark rejected the notification'')) (\<lambda>_. sret ()))"

text \<open>\<open>trim_end_matches\<close> of a text.\<close>

fun trim_suffixes :: "ustr \<Rightarrow> nat \<Rightarrow> ustr \<Rightarrow> ustr" where
  "trim_suffixes p 0 s = s"
| "trim_suffixes p (Suc n) s = (if p \<noteq> [] \<and> ends_with p s then trim_suffixes p n (take (length s - length p) s) else s)"

definition trim_end_str :: "ustr \<Rightarrow> ustr \<Rightarrow> ustr" where
  "trim_end_str p s = trim_suffixes p (length s) s"

definition send_serverchan :: "'w outworld \<Rightarrow> outbound_http \<Rightarrow> json \<Rightarrow> ustr \<Rightarrow> ustr \<Rightarrow> ('w, unit) serr" where
  "send_serverchan W h config title body =
     sbind (sread (\<lambda>_. cfg (lit ''sendkey'') config (lit ''serverchan channel requires a SendKey''))) (\<lambda>key.
     sbind (accepted W h (post_json (lit ''https://sctapi.ftqq.com/'' @ trim_end_str (lit ''.send'') key @ lit ''.send'')
          (JObj [(lit ''desp'', JStr (unescape_breaks [10, 10] body)), (lit ''text'', JStr title)]))
        (lit ''serverchan request failed'') (lit ''serverchan rejected the notification'')) (\<lambda>_. sret ()))"

definition send_telegram :: "'w outworld \<Rightarrow> outbound_http \<Rightarrow> json \<Rightarrow> ustr \<Rightarrow> ustr \<Rightarrow> ('w, unit) serr" where
  "send_telegram W h config title body =
     sbind (sread (\<lambda>_. cfg (lit ''token'') config (lit ''telegram channel requires a bot token''))) (\<lambda>token.
     sbind (sread (\<lambda>_. cfg (lit ''chat_id'') config (lit ''telegram channel requires a chat id''))) (\<lambda>chat_id.
     let payload = JObj [(lit ''chat_id'', JStr chat_id), (lit ''disable_web_page_preview'', JBool True),
           (lit ''parse_mode'', JStr (lit ''HTML'')),
           (lit ''text'', JStr (lit ''<b>'' @ title @ lit ''</b>'' @ [10] @ unescape_breaks [10] body))];
         u = (case cfg_str (lit ''host'') config of
             Some host \<Rightarrow> ensure_trailing_slash (ensure_scheme host) @ lit ''bot'' @ token @ lit ''/sendMessage''
           | None \<Rightarrow> lit ''https://api.telegram.org/bot'' @ token @ lit ''/sendMessage'')
     in sbind (accepted W h (post_json u payload) (lit ''telegram request failed'')
          (lit ''telegram rejected the notification'')) (\<lambda>_. sret ())))"

definition send_dingtalk :: "'w outworld \<Rightarrow> outbound_http \<Rightarrow> json \<Rightarrow> ustr \<Rightarrow> ustr \<Rightarrow> ('w, unit) serr" where
  "send_dingtalk W h config title body =
     sbind (sread (\<lambda>_. cfg (lit ''access_token'') config (lit ''dingtalk channel requires a robot access token''))) (\<lambda>token.
     push_checked W h (post_json (lit ''https://oapi.dingtalk.com/robot/send?access_token='' @ token)
       (JObj [(lit ''markdown'', JObj [(lit ''text'', JStr (lit ''#### '' @ title @ [10, 10] @ unescape_breaks [10, 10] body)),
                (lit ''title'', JStr title)]), (lit ''msgtype'', JStr (lit ''markdown''))]))
       (lit ''dingtalk request failed'') (lit ''dingtalk rejected the notification'') (lit ''errcode'') 0)"

text \<open>The two \<open>wxpusher\<close> messages: content, summary and content type around the recipients.\<close>

definition wxpusher_payload :: "ustr \<Rightarrow> (ustr \<times> json) list \<Rightarrow> json" where
  "wxpusher_payload content extra = JObj (fold (\<lambda>(k, v). bt_insert k v) extra
     [(lit ''content'', JStr content), (lit ''contentType'', JNum (JInt 1)), (lit ''summary'', JStr (take 99 content))])"

definition send_wxpusher :: "'w outworld \<Rightarrow> outbound_http \<Rightarrow> json \<Rightarrow> ustr \<Rightarrow> ustr \<Rightarrow> ('w, unit) serr" where
  "send_wxpusher W h config title body =
     sbind (sread (\<lambda>_. cfg (lit ''app_token'') config (lit ''wxpusher channel requires an appToken''))) (\<lambda>app_token.
     sbind (sread (\<lambda>_. cfg (lit ''uid'') config (lit ''wxpusher channel requires a uid''))) (\<lambda>uid.
     sbind (accepted W h (post_json (lit ''https://wxpusher.zjiecode.com/api/send/message'')
         (wxpusher_payload (plain_body title (unescape_breaks [10] body))
           [(lit ''appToken'', JStr app_token), (lit ''uids'', JArr [JStr uid])]))
       (lit ''wxpusher request failed'') (lit ''wxpusher rejected the notification'')) (\<lambda>r.
     sread (\<lambda>_. rbind (with_context (lit ''cannot decode wxpusher response'') (os_json r)) (\<lambda>payload.
       ensure (Option.bind (jget (lit ''success'') payload) as_bool = Some True)
         [lit ''wxpusher returned an error: '' @ ow_json_text W payload])))))"

definition send_wxpusher_spt :: "'w outworld \<Rightarrow> outbound_http \<Rightarrow> json \<Rightarrow> ustr \<Rightarrow> ustr \<Rightarrow> ('w, unit) serr" where
  "send_wxpusher_spt W h config title body =
     sbind (sread (\<lambda>_. cfg (lit ''spt'') config (lit ''wxpusher_spt channel requires an SPT code''))) (\<lambda>raw.
     let spts = take 10 (filter (\<lambda>v. v \<noteq> []) (map (trim_by is_ws) (split_by (\<lambda>c. c = ch CHR '','') raw))) in
     if spts = [] then sfail [lit ''wxpusher_spt channel requires at least one SPT code'']
     else push_checked W h (post_json (lit ''https://wxpusher.zjiecode.com/api/send/message/simple-push'')
         (wxpusher_payload (plain_body title (unescape_breaks [10] body)) [(lit ''sptList'', JArr (map JStr spts))]))
       (lit ''wxpusher request failed'') (lit ''wxpusher rejected the notification'') (lit ''code'') 1000)"

definition send_wecom_app :: "'w outworld \<Rightarrow> outbound_http \<Rightarrow> json \<Rightarrow> ustr \<Rightarrow> ustr \<Rightarrow> ('w, unit) serr" where
  "send_wecom_app W h config title body =
     sbind (sread (\<lambda>_. cfg (lit ''corpid'') config (lit ''wecom_app channel requires a corpid''))) (\<lambda>corpid.
     sbind (sread (\<lambda>_. cfg (lit ''secret'') config (lit ''wecom_app channel requires a secret''))) (\<lambda>secret.
     sbind (sread (\<lambda>_. cfg (lit ''agentid'') config (lit ''wecom_app channel requires an agentid''))) (\<lambda>agentid.
     let to_user = (case cfg_str (lit ''to_user'') config of None \<Rightarrow> lit ''@all'' | Some v \<Rightarrow> v);
         base = (case cfg_str (lit ''proxy'') config of Some p \<Rightarrow> ensure_trailing_slash (ensure_scheme p)
           | None \<Rightarrow> lit ''https://qyapi.weixin.qq.com/'')
     in
     sbind (accepted W h \<lparr>or_method = lit ''GET'', or_url = base @ lit ''cgi-bin/gettoken'',
           or_query = [(lit ''corpid'', corpid), (lit ''corpsecret'', secret)], or_headers = [], or_body = NoBody\<rparr>
         (lit ''cannot fetch wecom access token'') (lit ''wecom rejected the token request'')) (\<lambda>r.
     sbind (sread (\<lambda>_. with_context (lit ''cannot decode wecom token response'') (os_json r))) (\<lambda>token_response.
     sbind (sread (\<lambda>_. case jget_str (lit ''access_token'') token_response of
           None \<Rightarrow> Inl [lit ''cannot fetch wecom access token: '' @ ow_json_text W token_response] | Some t \<Rightarrow> Inr t)) (\<lambda>access_token.
     push_checked W h (post_json (base @ lit ''cgi-bin/message/send?access_token='' @ access_token)
         (JObj [(lit ''agentid'', (case parse_i64 agentid of Some i \<Rightarrow> JNum (JInt i) | None \<Rightarrow> JStr agentid)),
            (lit ''msgtype'', JStr (lit ''text'')),
            (lit ''text'', JObj [(lit ''content'', JStr (plain_body title (unescape_breaks [10] body)))]),
            (lit ''touser'', JStr to_user)]))
       (lit ''wecom message/send request failed'') (lit ''wecom rejected the notification'') (lit ''errcode'') 0))))))"

definition send_wecom_webhook :: "'w outworld \<Rightarrow> outbound_http \<Rightarrow> json \<Rightarrow> ustr \<Rightarrow> ustr \<Rightarrow> ('w, unit) serr" where
  "send_wecom_webhook W h config title body =
     sbind (sread (\<lambda>_. cfg (lit ''key'') config (lit ''wecom_webhook channel requires a webhook key''))) (\<lambda>key.
     push_checked W h (post_json (lit ''https://qyapi.weixin.qq.com/cgi-bin/webhook/send?key='' @ key)
         (JObj [(lit ''msgtype'', JStr (lit ''text'')),
            (lit ''text'', JObj [(lit ''content'', JStr (plain_body title (unescape_breaks [10] body)))])]))
       (lit ''wecom webhook request failed'') (lit ''wecom webhook rejected the notification'') (lit ''errcode'') 0)"

definition push_to_channel :: "'w outworld \<Rightarrow> outbound_http \<Rightarrow> ustr \<Rightarrow> json \<Rightarrow> ustr \<Rightarrow> ustr \<Rightarrow> ('w, unit) serr" where
  "push_to_channel W h kind config title body =
     (if kind = lit ''bark'' then send_bark W h config title body
      else if kind = lit ''serverchan'' then send_serverchan W h config title body
      else if kind = lit ''telegram'' then send_telegram W h config title body
      else if kind = lit ''dingtalk'' then send_dingtalk W h config title body
      else if kind = lit ''wxpusher'' then send_wxpusher W h config title body
      else if kind = lit ''wxpusher_spt'' then send_wxpusher_spt W h config title body
      else if kind = lit ''wecom_app'' then send_wecom_app W h config title body
      else if kind = lit ''wecom_webhook'' then send_wecom_webhook W h config title body
      else sfail [lit ''unsupported push channel kind: '' @ kind])"

section \<open>Mail\<close>

record email_config =
  smtp_host :: "ustr option"
  smtp_port :: "nat option"
  smtp_username :: "ustr option"
  smtp_password :: "ustr option"
  smtp_from :: "ustr option"
  smtp_starttls :: bool

text \<open>\<open>env\<close> is the process environment; the port is a \<open>u16\<close>, the flag \<open>true\<close> or \<open>false\<close>.\<close>

definition email_from_env :: "(ustr \<Rightarrow> ustr option) \<Rightarrow> email_config" where
  "email_from_env env =
     (let set_text = (\<lambda>k. case env k of None \<Rightarrow> None | Some s \<Rightarrow> if s = [] then None else Some s) in
      \<lparr>smtp_host = set_text (lit ''QDRUST_SMTP_HOST''),
       smtp_port = Option.bind (env (lit ''QDRUST_SMTP_PORT'')) (parse_unsigned 16),
       smtp_username = set_text (lit ''QDRUST_SMTP_USERNAME''), smtp_password = set_text (lit ''QDRUST_SMTP_PASSWORD''),
       smtp_from = set_text (lit ''QDRUST_SMTP_FROM''),
       smtp_starttls = (case env (lit ''QDRUST_SMTP_STARTTLS'') of Some s \<Rightarrow> s \<noteq> lit ''false'' | None \<Rightarrow> True)\<rparr>)"

definition email_enabled :: "email_config \<Rightarrow> bool" where
  "email_enabled c \<longleftrightarrow> smtp_host c \<noteq> None"

definition email_client :: "email_config \<Rightarrow> error + email_config" where
  "email_client c = rbind (ensure (\<not> email_enabled c \<or> smtp_from c \<noteq> None)
     [lit ''email requires QDRUST_SMTP_FROM when SMTP is enabled'']) (\<lambda>_. Inr c)"

text \<open>A client with a host has a sender, so the \<open>unwrap\<close> cannot fail on a client \<open>email_client\<close> made.\<close>

definition send_mail :: "'w outworld \<Rightarrow> email_config \<Rightarrow> ustr \<Rightarrow> ustr option \<Rightarrow> ustr \<Rightarrow> ustr \<Rightarrow> ('w, unit) serr" where
  "send_mail W c to_addr from_addr subject body =
     (case smtp_host c of None \<Rightarrow> sfail [lit ''SMTP is not configured (set QDRUST_SMTP_HOST)'']
      | Some host \<Rightarrow>
        sbind (sread (\<lambda>_. case (case from_addr of Some f \<Rightarrow> Some f | None \<Rightarrow> smtp_from c) of
              None \<Rightarrow> Inl [lit ''called Option::unwrap on a None value'']
            | Some f \<Rightarrow> with_context (lit ''invalid from email address'') (ow_mailbox W f))) (\<lambda>sender.
        sbind (sread (\<lambda>_. with_context (lit ''invalid to email address'') (ow_mailbox W to_addr))) (\<lambda>recipient.
        let credentials = (case (smtp_username c, smtp_password c) of (Some u, Some p) \<Rightarrow> Some (u, p) | _ \<Rightarrow> None) in
        scontext (lit ''email delivery failed'')
          (ow_mail W host (case smtp_port c of None \<Rightarrow> 587 | Some p \<Rightarrow> p) credentials
             \<lparr>mail_from = sender, mail_to = recipient, mail_subject = subject, mail_body = body\<rparr>))))"

text \<open>\<open>trim_end_matches('>')\<close>, then \<open>trim\<close>.\<close>

definition normalize_recipient :: "(ustr \<Rightarrow> bool) \<Rightarrow> ustr \<Rightarrow> ustr option" where
  "normalize_recipient is_address v0 =
     (let v = trim_by is_ws v0 in
      if v = [] then None else if is_address v then Some v
      else case rsplit_once (lit ''<'') v of None \<Rightarrow> None
        | Some (_, addr) \<Rightarrow>
          let addr = trim_by is_ws (trim_end_by (\<lambda>c. c = ch CHR ''>'') addr) in
          if is_address addr then Some addr else None)"

end
