(* ===== verification/Notify.thy ===== *)
theory Notify
  imports RunQueue Outbound
begin

text \<open>
  Notifications: the channels, bindings, defaults and delivery ledger of the store (\<open>store.rs\<close>), and the
  choice, rendering and delivery of a message (\<open>crates/qdrust-server/src/delivery.rs\<close>).
\<close>

section \<open>Channels\<close>

text \<open>\<open>scheme_of\<close> is the scheme of a URL that parses; \<open>is_method\<close> whether a method does.\<close>

record url_lib =
  scheme_of :: "ustr \<Rightarrow> ustr option"
  is_method :: "ustr \<Rightarrow> bool"

definition validate_notification :: "url_lib \<Rightarrow> ustr \<Rightarrow> ustr \<Rightarrow> json \<Rightarrow> error + unit" where
  "validate_notification L name kind config =
     rbind (ensure (trim_by is_ws name \<noteq> []) [lit ''notification channel name cannot be empty'']) (\<lambda>_.
     rbind (ensure (as_object config \<noteq> None) [lit ''notification config must be an object'']) (\<lambda>_.
     if kind = lit ''webhook'' then (case jget_str (lit ''url'') config of
         None \<Rightarrow> Inl [lit ''webhook config requires url'']
       | Some url \<Rightarrow> (case scheme_of L url of None \<Rightarrow> Inl [lit ''invalid webhook URL'']
         | Some s \<Rightarrow> ensure (s = lit ''https'') [lit ''webhook URL must use HTTPS'']))
     else if kind = lit ''custom_http'' then (case jget_str (lit ''url'') config of
         None \<Rightarrow> Inl [lit ''custom HTTP config requires url'']
       | Some url \<Rightarrow> (case scheme_of L url of None \<Rightarrow> Inl [lit ''invalid custom HTTP URL'']
         | Some s \<Rightarrow>
           rbind (ensure (s = lit ''http'' \<or> s = lit ''https'') [lit ''custom HTTP URL must use http or https'']) (\<lambda>_.
           rbind (ensure (is_method L (case jget_str (lit ''method'') config of None \<Rightarrow> lit ''POST'' | Some m \<Rightarrow> m))
             [lit ''invalid custom HTTP method'']) (\<lambda>_.
           ensure (case jget (lit ''headers'') config of None \<Rightarrow> True | Some h \<Rightarrow> as_object h \<noteq> None)
             [lit ''custom HTTP headers must be an object'']))))
     else if kind = lit ''email''
     then ensure (jget_str (lit ''to'') config \<noteq> None) [lit ''email config requires to'']
     else ensure (is_push_channel kind) [lit ''unsupported notification channel kind'']))"

definition get_notification_channel :: "int \<Rightarrow> int \<Rightarrow> db \<Rightarrow> notification_channel option" where
  "get_notification_channel cid owner db = find (\<lambda>c. channel_id c = cid \<and> channel_owner c = owner) (channels db)"

definition list_notification_channels :: "int \<Rightarrow> db \<Rightarrow> notification_channel list" where
  "list_notification_channels owner db = sort_key channel_id (filter (\<lambda>c. channel_owner c = owner) (channels db))"

definition create_notification_channel :: "url_lib \<Rightarrow> int \<Rightarrow> int \<Rightarrow> ustr \<Rightarrow> ustr \<Rightarrow> json \<Rightarrow> bool \<Rightarrow> db
    \<Rightarrow> (error + notification_channel) \<times> db" where
  "create_notification_channel L now owner name kind config enabled db =
     (case validate_notification L name kind config of Inl e \<Rightarrow> (Inl e, db)
      | Inr _ \<Rightarrow>
        let c = \<lparr>channel_id = next_channel db, channel_owner = owner, channel_name = trim_by is_ws name, channel_kind = kind,
              channel_config = config, channel_enabled = enabled, channel_created_at = now, channel_updated_at = now\<rparr>;
            db1 = db\<lparr>channels := channels db @ [c], next_channel := next_channel db + 1\<rparr>
        in (case get_notification_channel (next_channel db) owner db1 of
              None \<Rightarrow> (Inl [lit ''created notification channel disappeared''], db1) | Some c \<Rightarrow> (Inr c, db1)))"

definition update_notification_channel :: "url_lib \<Rightarrow> int \<Rightarrow> int \<Rightarrow> int \<Rightarrow> ustr option \<Rightarrow> json option \<Rightarrow> bool option \<Rightarrow> db
    \<Rightarrow> (error + notification_channel option) \<times> db" where
  "update_notification_channel L now cid owner name_in config_in enabled_in db =
     (case get_notification_channel cid owner db of None \<Rightarrow> (Inr None, db)
      | Some current \<Rightarrow>
        let name = (case name_in of None \<Rightarrow> channel_name current | Some n \<Rightarrow> n);
            config = (case config_in of None \<Rightarrow> channel_config current | Some c \<Rightarrow> c)
        in (case validate_notification L name (channel_kind current) config of Inl e \<Rightarrow> (Inl e, db)
            | Inr _ \<Rightarrow>
              let db1 = db\<lparr>channels := update_where (\<lambda>c. channel_id c = cid \<and> channel_owner c = owner)
                  (\<lambda>c. c\<lparr>channel_name := trim_by is_ws name, channel_config := config,
                     channel_enabled := (case enabled_in of None \<Rightarrow> channel_enabled current | Some b \<Rightarrow> b),
                     channel_updated_at := now\<rparr>) (channels db)\<rparr>
              in (Inr (get_notification_channel cid owner db1), db1)))"

definition delete_notification_channel :: "int \<Rightarrow> int \<Rightarrow> db \<Rightarrow> bool \<times> db" where
  "delete_notification_channel cid owner db =
     (if get_notification_channel cid owner db = None then (False, db)
      else (0 < affected (\<lambda>c. channel_id c = cid \<and> channel_owner c = owner) (channels db),
        db\<lparr>actions := delete_where (\<lambda>a. action_channel_id a = cid) (actions db),
           channels := delete_where (\<lambda>c. channel_id c = cid \<and> channel_owner c = owner) (channels db)\<rparr>))"

section \<open>Bindings\<close>

text \<open>The join with \<open>tasks\<close> that scopes a binding to its owner.\<close>

definition get_notification_action :: "int \<Rightarrow> int \<Rightarrow> db \<Rightarrow> notification_action option" where
  "get_notification_action aid owner db =
     find (\<lambda>a. action_id a = aid \<and> owns_task db owner (action_task_id a)) (actions db)"

record create_action =
  new_channel :: int
  new_event :: ustr
  new_threshold :: int
  new_automatic :: bool
  new_title :: "ustr option"
  new_body :: "ustr option"

record update_action =
  up_channel :: "int option"
  up_event :: "ustr option"
  up_threshold :: "int option"
  up_automatic :: "bool option"
  up_title :: "ustr option"
  up_body :: "ustr option"

definition valid_event :: "ustr \<Rightarrow> bool" where
  "valid_event e \<longleftrightarrow> e \<in> {lit ''success'', lit ''failure'', lit ''always''}"

definition create_notification_action :: "int \<Rightarrow> int \<Rightarrow> int \<Rightarrow> create_action \<Rightarrow> db \<Rightarrow> (error + notification_action option) \<times> db" where
  "create_notification_action now tid owner input db =
     (if \<not> valid_event (new_event input) then (Inl [lit ''invalid notification event''], db)
      else if new_threshold input \<le> 0 then (Inl [lit ''failure threshold must be positive''], db)
      else if \<not> list_ex (\<lambda>t. task_id t = tid \<and> owner_id t = Some owner
          \<and> list_ex (\<lambda>c. Some (channel_owner c) = owner_id t \<and> channel_id c = new_channel input) (channels db)) (tasks db)
      then (Inr None, db)
      else let a = \<lparr>action_id = next_action db, action_task_id = tid, action_channel_id = new_channel input,
            action_event = new_event input, failure_threshold = new_threshold input, automatic_only = new_automatic input,
            title_template = new_title input, body_template = new_body input, action_created_at = now\<rparr>;
          db1 = db\<lparr>actions := actions db @ [a], next_action := next_action db + 1\<rparr>
        in (Inr (get_notification_action (next_action db) owner db1), db1))"

fun create_notification_actions_for_tasks :: "int \<Rightarrow> int \<Rightarrow> int list \<Rightarrow> create_action \<Rightarrow> db \<Rightarrow> (error + nat) \<times> db" where
  "create_notification_actions_for_tasks now owner [] input db = (Inr 0, db)"
| "create_notification_actions_for_tasks now owner (tid # tids) input db =
     (case create_notification_action now tid owner input db of
        (Inl e, db1) \<Rightarrow> (Inl e, db1)
      | (Inr a, db1) \<Rightarrow> (case create_notification_actions_for_tasks now owner tids input db1 of
          (Inl e, db2) \<Rightarrow> (Inl e, db2)
        | (Inr n, db2) \<Rightarrow> (Inr (if a = None then n else n + 1), db2)))"

definition list_notification_actions :: "int \<Rightarrow> int \<Rightarrow> db \<Rightarrow> notification_action list option" where
  "list_notification_actions tid owner db =
     (if get_for_owner tid owner db = None then None
      else Some (sort_key action_id (filter (\<lambda>a. action_task_id a = tid) (actions db))))"

text \<open>The join with \<open>tasks\<close>; ordered by the name of the task, then the id.\<close>

definition list_all_notification_actions :: "int \<Rightarrow> db \<Rightarrow> notification_action list" where
  "list_all_notification_actions owner db = map snd (sort_key (\<lambda>(n, a). (n, action_id a))
     (concat (map (\<lambda>a. map (\<lambda>t. (task_name t, a)) (filter (\<lambda>t. task_id t = action_task_id a \<and> owner_id t = Some owner) (tasks db)))
       (actions db))))"

definition delete_actions_where :: "(notification_action \<Rightarrow> bool) \<Rightarrow> db \<Rightarrow> nat \<times> db" where
  "delete_actions_where P db = (affected P (actions db), db\<lparr>actions := delete_where P (actions db)\<rparr>)"

definition delete_notification_action :: "int \<Rightarrow> int \<Rightarrow> db \<Rightarrow> bool \<times> db" where
  "delete_notification_action aid owner db =
     (let (n, db1) = delete_actions_where (\<lambda>a. action_id a = aid \<and> owns_task db owner (action_task_id a)) db in (0 < n, db1))"

definition delete_notification_actions_for_task :: "int \<Rightarrow> int \<Rightarrow> db \<Rightarrow> nat \<times> db" where
  "delete_notification_actions_for_task tid owner db =
     delete_actions_where (\<lambda>a. action_task_id a = tid \<and> owns_task db owner (action_task_id a)) db"

definition blank_to_none :: "ustr \<Rightarrow> ustr option" where
  "blank_to_none v = (if trim_by is_ws v = [] then None else Some v)"

definition update_notification_action :: "int \<Rightarrow> int \<Rightarrow> update_action \<Rightarrow> db \<Rightarrow> (error + notification_action option) \<times> db" where
  "update_notification_action aid owner input db =
     (if (case up_event input of None \<Rightarrow> False | Some e \<Rightarrow> \<not> valid_event e) then (Inl [lit ''invalid notification event''], db)
      else if (case up_threshold input of None \<Rightarrow> False | Some n \<Rightarrow> n \<le> 0) then (Inl [lit ''failure threshold must be positive''], db)
      else case get_notification_action aid owner db of None \<Rightarrow> (Inr None, db)
      | Some current \<Rightarrow>
        let cid = (case up_channel input of None \<Rightarrow> action_channel_id current | Some c \<Rightarrow> c);
            owned = list_ex (\<lambda>c. channel_id c = cid \<and> channel_owner c = owner) (channels db)
        in if cid \<noteq> action_channel_id current \<and> \<not> owned then (Inr None, db)
           else let db1 = db\<lparr>actions := update_where (\<lambda>a. action_id a = aid \<and> owns_task db owner (action_task_id a))
                 (\<lambda>a. a\<lparr>action_channel_id := cid,
                    action_event := (case up_event input of None \<Rightarrow> action_event current | Some e \<Rightarrow> e),
                    failure_threshold := (case up_threshold input of None \<Rightarrow> failure_threshold current | Some n \<Rightarrow> n),
                    automatic_only := (case up_automatic input of None \<Rightarrow> automatic_only current | Some b \<Rightarrow> b),
                    title_template := (case up_title input of None \<Rightarrow> title_template current | Some v \<Rightarrow> blank_to_none v),
                    body_template := (case up_body input of None \<Rightarrow> body_template current | Some v \<Rightarrow> blank_to_none v)\<rparr>)
                 (actions db)\<rparr>
             in (Inr (get_notification_action aid owner db1), db1))"

text \<open>The channels and bindings a finished run has to notify, in the order of the bindings.\<close>

definition notification_channels_for_event :: "int \<Rightarrow> ustr \<Rightarrow> db \<Rightarrow> error + (notification_channel \<times> notification_action) list" where
  "notification_channels_for_event tid event db =
     rbind (ensure (event = lit ''success'' \<or> event = lit ''failure'') [lit ''invalid notification event'']) (\<lambda>_.
     Inr (concat (map (\<lambda>a. map (\<lambda>c. (c, a)) (filter (\<lambda>c. channel_id c = action_channel_id a \<and> channel_enabled c) (channels db)))
       (sort_key action_id (filter (\<lambda>a. action_task_id a = tid \<and> (action_event a = event \<or> action_event a = lit ''always''))
         (actions db))))))"

section \<open>The ledger\<close>

definition record_notification_delivery :: "int \<Rightarrow> int \<Rightarrow> int \<Rightarrow> int option \<Rightarrow> int option \<Rightarrow> ustr \<Rightarrow> ustr \<Rightarrow> int \<Rightarrow> ustr
    \<Rightarrow> int option \<Rightarrow> ustr option \<Rightarrow> db \<Rightarrow> (error + int) \<times> db" where
  "record_notification_delivery now rid tid aid cid kind event n status http err db =
     (if foreign_keys db \<and> \<not> run_exists db rid then (Inl fk_error, db)
      else (Inr (next_delivery db), db\<lparr>deliveries := deliveries db @ [\<lparr>delivery_id = next_delivery db, delivery_run_id = rid,
        delivery_task_id = tid, delivery_action_id = aid, delivery_channel_id = cid, delivery_channel_kind = kind,
        delivery_event = event, delivery_attempt = n, delivery_status = status, delivery_http_status = http,
        delivery_error = err, delivery_created_at = now\<rparr>], next_delivery := next_delivery db + 1\<rparr>))"

definition list_notification_deliveries_for_run :: "int \<Rightarrow> db \<Rightarrow> delivery_record list" where
  "list_notification_deliveries_for_run rid db = sort_key delivery_id (filter (\<lambda>d. delivery_run_id d = rid) (deliveries db))"

definition list_notification_deliveries_for_run_owner :: "int \<Rightarrow> int \<Rightarrow> db \<Rightarrow> delivery_record list option" where
  "list_notification_deliveries_for_run_owner rid owner db =
     (if list_ex (\<lambda>r. run_id r = rid \<and> owns_task db owner (run_task_id r)) (runs db)
      then Some (list_notification_deliveries_for_run rid db) else None)"

definition get_notification_delivery :: "int \<Rightarrow> db \<Rightarrow> delivery_record option" where
  "get_notification_delivery did db = find (\<lambda>d. delivery_id d = did) (deliveries db)"

definition count_notification_attempts :: "int \<Rightarrow> int \<Rightarrow> int \<Rightarrow> ustr \<Rightarrow> db \<Rightarrow> int" where
  "count_notification_attempts rid aid cid event db =
     int (affected (\<lambda>d. delivery_run_id d = rid \<and> delivery_action_id d = Some aid \<and> delivery_channel_id d = Some cid
        \<and> delivery_event d = event) (deliveries db))"

text \<open>\<open>owner_id\<close> of a task; no such task and no owner give the same answer.\<close>

definition task_owner_id :: "int \<Rightarrow> db \<Rightarrow> int option" where
  "task_owner_id tid db = (case find (\<lambda>t. task_id t = tid) (tasks db) of None \<Rightarrow> None | Some t \<Rightarrow> owner_id t)"

section \<open>Defaults of an account\<close>

record notification_default =
  default_owner :: int
  default_event :: ustr
  default_title :: "ustr option"
  default_body :: "ustr option"
  default_updated_at :: int

definition notification_defaults :: "int \<Rightarrow> notification_default list \<Rightarrow> notification_default list" where
  "notification_defaults owner ds = sort_key default_event (filter (\<lambda>d. default_owner d = owner) ds)"

text \<open>The upsert on the primary key \<open>(owner_id, event)\<close>.\<close>

definition set_notification_default :: "int \<Rightarrow> int \<Rightarrow> ustr \<Rightarrow> ustr option \<Rightarrow> ustr option \<Rightarrow> notification_default list
    \<Rightarrow> (error + notification_default) \<times> notification_default list" where
  "set_notification_default now owner event title body ds =
     (if event \<noteq> lit ''success'' \<and> event \<noteq> lit ''failure'' then (Inl [lit ''invalid notification event''], ds)
      else let d = \<lparr>default_owner = owner, default_event = event, default_title = Option.bind title blank_to_none,
             default_body = Option.bind body blank_to_none, default_updated_at = now\<rparr>;
             hit = (\<lambda>x. default_owner x = owner \<and> default_event x = event)
        in (Inr d, if list_ex hit ds then update_where hit (\<lambda>_. d) ds else ds @ [d]))"

section \<open>Messages\<close>

record template_vars =
  tv_event :: ustr
  tv_task_id :: int
  tv_task_name :: ustr
  tv_run_id :: int
  tv_status :: ustr
  tv_error :: ustr
  tv_log :: ustr
  tv_time :: ustr

definition event_label :: "ustr \<Rightarrow> ustr" where
  "event_label e =
     (if e = lit ''success'' then [0x6210, 0x529F] else if e = lit ''failure'' then [0x5931, 0x8D25]
      else if e = lit ''test'' then [0x6D4B, 0x8BD5] else [0x901A, 0x77E5])"

definition render_vars :: "template_vars \<Rightarrow> ustr \<Rightarrow> ustr" where
  "render_vars v s =
     replace_str (lit ''{t}'') (tv_time v) (replace_str (lit ''{log}'') (tv_log v) (replace_str (lit ''{error}'') (tv_error v)
     (replace_str (lit ''{status}'') (tv_status v) (replace_str (lit ''{run_id}'') (int_to_str (tv_run_id v))
     (replace_str (lit ''{task}'') (tv_task_name v) (replace_str (lit ''{task_id}'') (int_to_str (tv_task_id v))
     (replace_str (lit ''{status_cn}'') (event_label (tv_event v)) (replace_str (lit ''{event}'') (tv_event v) s))))))))"

definition BUILTIN_TITLE_TEMPLATE :: ustr where
  "BUILTIN_TITLE_TEMPLATE = lit ''[qdrust] Task '' @ [34] @ lit ''{task}'' @ [34] @ lit '' {event}''"

definition BUILTIN_BODY_TEMPLATE :: ustr where
  "BUILTIN_BODY_TEMPLATE = join [10] [lit ''Task: {task}'', lit ''Event: {event}'', lit ''Run: #{run_id}'',
     lit ''HTTP status: {status}'', lit ''Error: {error}'', lit ''Time: {t}'', lit ''Log: {log}'']"

definition notification_template :: "ustr option \<Rightarrow> ustr option \<Rightarrow> ustr \<Rightarrow> ustr" where
  "notification_template binding owner_default builtin =
     (case Option.bind binding blank_to_none of Some t \<Rightarrow> t
      | None \<Rightarrow> (case Option.bind owner_default blank_to_none of Some t \<Rightarrow> t | None \<Rightarrow> builtin))"

definition preview_event :: "ustr \<Rightarrow> ustr option \<Rightarrow> bool option \<Rightarrow> ustr" where
  "preview_event binding requested run_failed =
     (if binding = lit ''failure'' then lit ''failure''
      else if binding \<noteq> lit ''always'' then lit ''success''
      else if requested = Some (lit ''failure'') then lit ''failure''
      else if requested = Some (lit ''success'') then lit ''success''
      else if run_failed = Some True then lit ''failure'' else lit ''success'')"

section \<open>Delivery\<close>

record message =
  msg_title :: ustr
  msg_body :: ustr
  msg_payload :: json

text \<open>\<open>env\<close> is the environment a delivery without a mail client reads its own from.\<close>

definition deliver_custom :: "'w outworld \<Rightarrow> outbound_http \<Rightarrow> json \<Rightarrow> message \<Rightarrow> (ustr \<Rightarrow> ustr) \<Rightarrow> ('w, unit) serr" where
  "deliver_custom W h config m rendered =
     sbind (sread (\<lambda>_. case jget_str (lit ''url'') config of
         None \<Rightarrow> Inl [lit ''custom HTTP channel requires a url''] | Some u \<Rightarrow> Inr u)) (\<lambda>u.
     let method = (case jget_str (lit ''method'') config of None \<Rightarrow> lit ''POST'' | Some v \<Rightarrow> v) in
     sbind (sread (\<lambda>_. with_context (lit ''custom HTTP channel has an invalid method: '' @ method) (ow_method W method))) (\<lambda>method.
     let hs = (case Option.bind (jget (lit ''headers'') config) as_object of None \<Rightarrow> [] | Some hs \<Rightarrow> hs);
         body = (case jget_str (lit ''body'') config of None \<Rightarrow> [] | Some b \<Rightarrow> b)
     in sbind (accepted W h \<lparr>or_method = method, or_url = rendered u, or_query = [],
          or_headers = List.map_filter (\<lambda>(n, v). map_option (\<lambda>s. (n, rendered s)) (as_str v)) hs,
          or_body = (if body = [] then JsonBody (msg_payload m) else TextBody (rendered body))\<rparr>
          (lit ''custom HTTP delivery failed'') (lit ''custom HTTP delivery failed'')) (\<lambda>_. sret ())))"

definition deliver_mail :: "'w outworld \<Rightarrow> (ustr \<Rightarrow> ustr option) \<Rightarrow> email_config option \<Rightarrow> json \<Rightarrow> message \<Rightarrow> ('w, unit) serr" where
  "deliver_mail W env email config m =
     sbind (sread (\<lambda>_. case Option.bind (jget_str (lit ''to'') config) (normalize_recipient (ow_is_address W)) of
         None \<Rightarrow> Inl [lit ''email channel requires a valid recipient''] | Some a \<Rightarrow> Inr a)) (\<lambda>to_addr.
     sbind (sread (\<lambda>_. case email of Some c \<Rightarrow> Inr c
         | None \<Rightarrow> with_context (lit ''cannot build the mail client for this email channel'') (email_client (email_from_env env)))) (\<lambda>c.
     send_mail W c to_addr (jget_str (lit ''from'') config) (msg_title m) (msg_body m)))"

definition deliver :: "'w outworld \<Rightarrow> outbound_http \<Rightarrow> (ustr \<Rightarrow> ustr option) \<Rightarrow> email_config option \<Rightarrow> ustr \<Rightarrow> json
    \<Rightarrow> message \<Rightarrow> (ustr \<Rightarrow> ustr) \<Rightarrow> ('w, unit) serr" where
  "deliver W h env email kind config m rendered =
     (if kind = lit ''webhook'' then
        sbind (sread (\<lambda>_. case jget_str (lit ''url'') config of
            None \<Rightarrow> Inl [lit ''webhook channel requires a url''] | Some u \<Rightarrow> Inr u)) (\<lambda>u.
        sbind (accepted W h (post_json u (msg_payload m)) (lit ''webhook delivery failed'')
            (lit ''webhook delivery failed'')) (\<lambda>_. sret ()))
      else if kind = lit ''custom_http'' then deliver_custom W h config m rendered
      else if kind = lit ''email'' then deliver_mail W env email config m
      else if is_push_channel kind then push_to_channel W h kind config (msg_title m) (msg_body m)
      else sfail [lit ''unsupported notification channel kind: '' @ kind])"

section \<open>What an account leaves behind\<close>

text \<open>The rows of \<open>delete_user\<close> in these tables, in its order.\<close>

definition delete_owned_rows :: "int \<Rightarrow> db \<Rightarrow> db" where
  "delete_owned_rows uid db =
     (let mine = owns_task db uid;
          owned_channel = (\<lambda>cid. list_ex (\<lambda>c. channel_id c = cid \<and> channel_owner c = uid) (channels db));
          of_run = (\<lambda>rid. list_ex (\<lambda>r. run_id r = rid \<and> mine (run_task_id r)) (runs db))
      in db\<lparr>actions := delete_where (\<lambda>a. owned_channel (action_channel_id a) \<or> mine (action_task_id a)) (actions db),
            channels := delete_where (\<lambda>c. channel_owner c = uid) (channels db),
            deliveries := delete_where (\<lambda>d. of_run (delivery_run_id d)) (deliveries db),
            steps := delete_where (\<lambda>s. of_run (step_run_id s)) (steps db),
            runs := delete_where (\<lambda>r. mine (run_task_id r)) (runs db),
            tasks := delete_where (\<lambda>t. owner_id t = Some uid) (tasks db)\<rparr>)"

end
