(* ===== verification/Catalog.thy ===== *)
theory Catalog
  imports Notify HarJson "HOL-Library.Option_ord"
begin

text \<open>
  Tasks, templates, subscriptions and publication requests in the store (\<open>crates/qdrust-server/src/store.rs\<close>):
  who may bind, change, copy, publish and delete what.

  \<open>catalog\<close> puts these tables beside those of the run queue.  The two JSON columns of a template are one
  value; the list of its variables and the number of its tasks, derived on reading, are left out.  The
  parsers of the libraries are in \<open>catalog_lib\<close>.  References to accounts are not checked: an owner is
  the account of a session.
\<close>

section \<open>Rows\<close>

datatype template_source = Native template_definition | QdHar json

record template_row =
  tpl_id :: int
  tpl_name :: ustr
  tpl_description :: "ustr option"
  tpl_schema_version :: nat
  tpl_source :: template_source
  tpl_created_at :: int
  tpl_updated_at :: int
  tpl_owner :: "int option"
  tpl_grp :: "ustr option"
  tpl_published :: bool

record subscription =
  sub_id :: int
  sub_owner :: int
  sub_name :: ustr
  sub_url :: ustr
  sub_enabled :: bool
  sub_created_at :: int
  sub_updated_at :: int

record template_import =
  imp_subscription :: int
  imp_template :: int
  imp_entry :: ustr
  imp_version :: "ustr option"

record push_request =
  push_id :: int
  push_owner :: int
  push_template :: int
  push_status :: ustr
  push_note :: "ustr option"
  push_reviewed_by :: "int option"
  push_reviewed_at :: "int option"
  push_created_at :: int

record catalog =
  base :: db
  next_task :: int
  templates :: "template_row list"
  next_template :: int
  subscriptions :: "subscription list"
  next_subscription :: int
  template_imports :: "template_import list"
  pushes :: "push_request list"
  next_push :: int

abbreviation tasks_of :: "catalog \<Rightarrow> task_row list" where
  "tasks_of c \<equiv> tasks (base c)"

record catalog_lib =
  parse_cron :: "ustr \<Rightarrow> error + unit"
  parse_task_url :: "ustr \<Rightarrow> error + unit"
  parse_timezone :: "ustr \<Rightarrow> error + unit"
  to_uppercase :: "ustr \<Rightarrow> ustr"
  debug_text :: "ustr \<Rightarrow> ustr"
  sql_like :: "ustr \<Rightarrow> ustr \<Rightarrow> bool"
  har_refusal :: "json \<Rightarrow> ustr"

section \<open>Tasks\<close>

record create_task =
  ct_name :: ustr
  ct_cron :: ustr
  ct_method :: "ustr option"
  ct_url :: ustr
  ct_headers :: "(ustr \<times> json) list"
  ct_body :: "ustr option"
  ct_disabled :: bool
  ct_template_id :: "int option"
  ct_grp :: "ustr option"
  ct_timeout_seconds :: "int option"
  ct_retry_count :: "int option"
  ct_retry_interval_seconds :: "int option"
  ct_priority :: "int option"
  ct_timezone :: "ustr option"
  ct_random_delay_max_seconds :: "int option"
  ct_variables :: "json option"

record update_task =
  ut_name :: "ustr option"
  ut_cron :: "ustr option"
  ut_method :: "ustr option"
  ut_url :: "ustr option"
  ut_headers :: "(ustr \<times> json) list option"
  ut_body :: "ustr option"
  ut_disabled :: "bool option"
  ut_template_id :: "int option"
  ut_grp :: "ustr option option"
  ut_timeout_seconds :: "int option option"
  ut_retry_count :: "int option option"
  ut_retry_interval_seconds :: "int option option"
  ut_priority :: "int option option"
  ut_timezone :: "ustr option option"
  ut_random_delay_max_seconds :: "int option option"
  ut_variables :: "json option option"

definition get_template :: "int \<Rightarrow> catalog \<Rightarrow> template_row option" where
  "get_template i c = find (\<lambda>t. tpl_id t = i) (templates c)"

definition get_template_for_owner :: "int \<Rightarrow> int \<Rightarrow> catalog \<Rightarrow> template_row option" where
  "get_template_for_owner i owner c = find (\<lambda>t. tpl_id t = i \<and> tpl_owner t = Some owner) (templates c)"

definition template_mirror_request :: "catalog_lib \<Rightarrow> template_row \<Rightarrow> (ustr \<times> ustr) option" where
  "template_mirror_request L t = (case tpl_source t of
      QdHar raw \<Rightarrow> (case parse_qd (har_refusal L) raw of Inl _ \<Rightarrow> None
        | Inr har \<Rightarrow> (case enabled_entries har @ log_entries har of [] \<Rightarrow> None
            | e # _ \<Rightarrow> Some (rq_method (en_request e), rq_url (en_request e))))
    | Native d \<Rightarrow> (case List.map_filter (\<lambda>s. case s of SRequest r \<Rightarrow> Some (rs_method r, rs_url r) | _ \<Rightarrow> None) (td_steps d) of
          [] \<Rightarrow> None | p # _ \<Rightarrow> Some p))"

definition find_task_template :: "int option \<Rightarrow> int option \<Rightarrow> catalog \<Rightarrow> error + template_row option" where
  "find_task_template owner template_id c = (case template_id of None \<Rightarrow> Inr None
     | Some i \<Rightarrow> (case (case owner of Some u \<Rightarrow> get_template_for_owner i u c | None \<Rightarrow> get_template i c) of
           None \<Rightarrow> Inl [lit ''template '' @ int_to_str i @ lit '' not found''] | Some t \<Rightarrow> Inr (Some t)))"

definition resolve_task_request :: "catalog_lib \<Rightarrow> int option \<Rightarrow> int option \<Rightarrow> ustr option \<Rightarrow> ustr option
    \<Rightarrow> (ustr \<times> ustr) option \<Rightarrow> catalog \<Rightarrow> error + ustr \<times> ustr" where
  "resolve_task_request L owner template_id requested_method requested_url current c =
     rbind (find_task_template owner template_id c) (\<lambda>tpl.
     let upper = (\<lambda>d. to_uppercase L (case requested_method of None \<Rightarrow> d | Some m \<Rightarrow> m)) in
     case Option.bind (map_option (trim_by is_ws) requested_url) (\<lambda>u. if u = [] then None else Some u) of
       Some u \<Rightarrow> Inr (upper (lit ''GET''), u)
     | None \<Rightarrow> (case Option.bind tpl (template_mirror_request L) of
         Some mirrored \<Rightarrow> Inr mirrored
       | None \<Rightarrow> (case current of
           Some (method, u) \<Rightarrow> Inr (upper method, u)
         | None \<Rightarrow> Inl [if tpl \<noteq> None then lit ''the bound template has no request to mirror, set the task URL explicitly''
                        else lit ''task URL is required when no template is bound''])))"

definition validate_task :: "catalog_lib \<Rightarrow> ustr \<Rightarrow> ustr \<Rightarrow> ustr option \<Rightarrow> ustr option \<Rightarrow> error + unit" where
  "validate_task L name schedule u tz =
     rbind (ensure (trim_by is_ws name \<noteq> []) [lit ''name cannot be empty'']) (\<lambda>_.
     rbind (with_context (lit ''invalid cron expression '' @ debug_text L schedule
         @ lit '': expected 6-7 fields (sec min hour day-of-month month day-of-week [year]) or a shorthand like @daily'')
       (parse_cron L schedule)) (\<lambda>_.
     rbind (case u of None \<Rightarrow> Inr () | Some u \<Rightarrow> with_context (lit ''invalid task URL'') (parse_task_url L u)) (\<lambda>_.
     case tz of None \<Rightarrow> Inr ()
       | Some z \<Rightarrow> if trim_by is_ws z = [] then Inr () else with_context (lit ''invalid timezone'') (parse_timezone L z))))"

definition get_task :: "int \<Rightarrow> catalog \<Rightarrow> task_row option" where
  "get_task i c = find (\<lambda>t. task_id t = i) (tasks_of c)"

definition task_of_input :: "int \<Rightarrow> int \<Rightarrow> int option \<Rightarrow> ustr \<Rightarrow> ustr \<Rightarrow> create_task \<Rightarrow> task_row" where
  "task_of_input now i owner method u input =
     \<lparr>task_id = i, task_name = ct_name input, cron = ct_cron input, task_method = method, task_url = u,
      task_headers = JObj (ct_headers input), task_body = ct_body input, disabled = ct_disabled input,
      task_created_at = now, task_updated_at = now, last_run_at = None, last_status = None, last_error = None,
      task_template_id = ct_template_id input, grp = ct_grp input, timeout_seconds = ct_timeout_seconds input,
      retry_count = ct_retry_count input, retry_interval_seconds = ct_retry_interval_seconds input,
      priority = Some (case ct_priority input of None \<Rightarrow> 0 | Some p \<Rightarrow> p), timezone = ct_timezone input,
      random_delay_max_seconds = Some (case ct_random_delay_max_seconds input of None \<Rightarrow> 0 | Some d \<Rightarrow> d),
      task_variables_json = ct_variables input, owner_id = owner\<rparr>"

definition create_with_owner :: "catalog_lib \<Rightarrow> int \<Rightarrow> int option \<Rightarrow> create_task \<Rightarrow> catalog \<Rightarrow> (error + task_row) \<times> catalog" where
  "create_with_owner L now owner input c =
     (case rbind (resolve_task_request L owner (ct_template_id input) (ct_method input) (Some (ct_url input)) None c)
         (\<lambda>(method, u). rbind (validate_task L (ct_name input) (ct_cron input)
             (if ct_template_id input = None then Some u else None) (ct_timezone input)) (\<lambda>_. Inr (method, u))) of
        Inl e \<Rightarrow> (Inl e, c)
      | Inr (method, u) \<Rightarrow>
        let i = next_task c;
            c1 = c\<lparr>base := (base c)\<lparr>tasks := tasks_of c @ [task_of_input now i owner method u input]\<rparr>, next_task := i + 1\<rparr>
        in (case get_task i c1 of None \<Rightarrow> (Inl [lit ''created task disappeared''], c1) | Some t \<Rightarrow> (Inr t, c1)))"

definition list_tasks :: "catalog \<Rightarrow> task_row list" where
  "list_tasks c = sort_key task_id (tasks_of c)"

definition list_for_owner :: "int \<Rightarrow> catalog \<Rightarrow> task_row list" where
  "list_for_owner owner c = sort_key task_id (filter (\<lambda>t. owner_id t = Some owner) (tasks_of c))"

definition list_for_owner_with_group :: "int \<Rightarrow> ustr option \<Rightarrow> catalog \<Rightarrow> task_row list" where
  "list_for_owner_with_group owner g c = sort_key (\<lambda>t. (grp t, - task_id t))
     (filter (\<lambda>t. owner_id t = Some owner \<and> (g = None \<or> grp t = g)) (tasks_of c))"

definition merge_optional :: "'a option option \<Rightarrow> 'a option \<Rightarrow> 'a option" where
  "merge_optional input current = (case input of None \<Rightarrow> current | Some v \<Rightarrow> v)"

definition or_else :: "'a option \<Rightarrow> 'a \<Rightarrow> 'a" where
  "or_else x d = (case x of None \<Rightarrow> d | Some v \<Rightarrow> v)"

text \<open>\<open>Option::or\<close>\<close>

definition or_opt :: "'a option \<Rightarrow> 'a option \<Rightarrow> 'a option" where
  "or_opt x y = (case x of None \<Rightarrow> y | Some v \<Rightarrow> Some v)"

definition updated_task :: "int \<Rightarrow> update_task \<Rightarrow> task_row \<Rightarrow> ustr \<Rightarrow> ustr \<Rightarrow> task_row \<Rightarrow> task_row" where
  "updated_task now input current method u t = t\<lparr>
     task_name := or_else (ut_name input) (task_name current), cron := or_else (ut_cron input) (cron current),
     task_method := method, task_url := u,
     task_headers := (case ut_headers input of None \<Rightarrow> task_headers current | Some h \<Rightarrow> JObj h),
     task_body := or_opt (ut_body input) (task_body current),
     disabled := or_else (ut_disabled input) (disabled current),
     task_template_id := or_opt (ut_template_id input) (task_template_id current),
     grp := or_else (ut_grp input) (grp current),
     timeout_seconds := merge_optional (ut_timeout_seconds input) (timeout_seconds current),
     retry_count := merge_optional (ut_retry_count input) (retry_count current),
     retry_interval_seconds := merge_optional (ut_retry_interval_seconds input) (retry_interval_seconds current),
     priority := Some (or_else (merge_optional (ut_priority input) (priority current)) 0),
     timezone := merge_optional (ut_timezone input) (timezone current),
     random_delay_max_seconds := Some (or_else (merge_optional (ut_random_delay_max_seconds input) (random_delay_max_seconds current)) 0),
     task_variables_json := merge_optional (ut_variables input) (task_variables_json current),
     task_updated_at := now\<rparr>"

definition update_for_optional_owner :: "catalog_lib \<Rightarrow> int \<Rightarrow> int \<Rightarrow> int option \<Rightarrow> update_task \<Rightarrow> catalog
    \<Rightarrow> (error + task_row option) \<times> catalog" where
  "update_for_optional_owner L now i owner input c =
     (case (case owner of Some u \<Rightarrow> get_for_owner i u (base c) | None \<Rightarrow> get_task i c) of None \<Rightarrow> (Inr None, c)
      | Some current \<Rightarrow>
        let template_id = or_opt (ut_template_id input) (task_template_id current) in
        (case rbind (resolve_task_request L owner template_id (ut_method input) (ut_url input)
                (Some (task_method current, task_url current)) c)
            (\<lambda>(method, u). rbind (validate_task L (or_else (ut_name input) (task_name current))
                (or_else (ut_cron input) (cron current)) (if template_id = None then Some u else None)
                (Option.bind (ut_timezone input) (\<lambda>z. z))) (\<lambda>_. Inr (method, u))) of
           Inl e \<Rightarrow> (Inl e, c)
         | Inr (method, u) \<Rightarrow>
           let c1 = c\<lparr>base := (base c)\<lparr>tasks := update_where (\<lambda>t. task_id t = i)
                 (updated_task now input current method u) (tasks_of c)\<rparr>\<rparr>
           in (Inr (get_task i c1), c1)))"

text \<open>\<open>SELECT DISTINCT grp ... ORDER BY grp\<close>\<close>

definition list_groups_for_owner :: "int \<Rightarrow> catalog \<Rightarrow> ustr list" where
  "list_groups_for_owner owner c = sort (remdups (List.map_filter
     (\<lambda>t. if owner_id t = Some owner \<and> grp t \<noteq> Some [] then grp t else None) (tasks_of c)))"

section \<open>Batches\<close>

definition batch_disable :: "int \<Rightarrow> int \<Rightarrow> int list \<Rightarrow> bool \<Rightarrow> catalog \<Rightarrow> nat \<times> catalog" where
  "batch_disable now owner ids b c =
     (let hit = (\<lambda>t. owner_id t = Some owner \<and> task_id t \<in> set ids) in
      (affected hit (tasks_of c), c\<lparr>base := (base c)\<lparr>tasks := update_where hit
         (\<lambda>t. t\<lparr>disabled := b, task_updated_at := now\<rparr>) (tasks_of c)\<rparr>\<rparr>))"

definition batch_delete :: "int \<Rightarrow> int list \<Rightarrow> catalog \<Rightarrow> nat \<times> catalog" where
  "batch_delete owner ids c =
     (let hit = (\<lambda>t. owner_id t = Some owner \<and> task_id t \<in> set ids);
          mine = (\<lambda>tid. list_ex (\<lambda>t. hit t \<and> task_id t = tid) (tasks_of c));
          db1 = snd (delete_runs_where (\<lambda>r. mine (run_task_id r)) (\<lambda>d. mine (delivery_task_id d))
             (\<lambda>s. run_in (\<lambda>r. mine (run_task_id r)) (base c) (step_run_id s)) (base c))
      in (affected hit (tasks db1), c\<lparr>base := db1\<lparr>actions := delete_where (\<lambda>a. mine (action_task_id a)) (actions db1),
            tasks := delete_where hit (tasks db1)\<rparr>\<rparr>))"

fun batch_run :: "int \<Rightarrow> int \<Rightarrow> int list \<Rightarrow> db \<Rightarrow> (error + nat) \<times> db" where
  "batch_run now owner [] db = (Inr 0, db)"
| "batch_run now owner (i # ids) db =
     (if get_for_owner i owner db = None then batch_run now owner ids db
      else case enqueue_run now i db of
        (Inl e, db1) \<Rightarrow> (Inl e, db1)
      | (Inr r, db1) \<Rightarrow> (case batch_run now owner ids db1 of
          (Inl e, db2) \<Rightarrow> (Inl e, db2)
        | (Inr n, db2) \<Rightarrow> (Inr (if r = None then n else n + 1), db2)))"

definition batch_operations_for_owner :: "int \<Rightarrow> int \<Rightarrow> int list \<Rightarrow> ustr \<Rightarrow> catalog \<Rightarrow> (error + nat) \<times> catalog" where
  "batch_operations_for_owner now owner ids op c =
     (if ids = [] then (Inr 0, c)
      else if op = lit ''enable'' then (let (n, c1) = batch_disable now owner ids False c in (Inr n, c1))
      else if op = lit ''disable'' then (let (n, c1) = batch_disable now owner ids True c in (Inr n, c1))
      else if op = lit ''delete'' then (let (n, c1) = batch_delete owner ids c in (Inr n, c1))
      else if op = lit ''run'' then (let (r, db1) = batch_run now owner ids (base c) in (r, c\<lparr>base := db1\<rparr>))
      else (Inl [lit ''unsupported batch action: '' @ op], c))"

section \<open>Templates\<close>

definition validate_template_name :: "ustr \<Rightarrow> error + unit" where
  "validate_template_name name =
     rbind (ensure (trim_by is_ws name \<noteq> []) [lit ''template name cannot be empty'']) (\<lambda>_.
     ensure (length name \<le> 100) [lit ''template name is too long''])"

text \<open>The columns an \<open>INSERT INTO templates\<close> does not name have their default.\<close>

definition new_template :: "int \<Rightarrow> int option \<Rightarrow> ustr \<Rightarrow> ustr option \<Rightarrow> template_source \<Rightarrow> template_row" where
  "new_template now owner name description source =
     \<lparr>tpl_id = 0, tpl_name = name, tpl_description = description, tpl_schema_version = TEMPLATE_SCHEMA_VERSION,
      tpl_source = source, tpl_created_at = now, tpl_updated_at = now, tpl_owner = owner, tpl_grp = None,
      tpl_published = False\<rparr>"

definition insert_template :: "template_row \<Rightarrow> ustr \<Rightarrow> catalog \<Rightarrow> (error + template_row) \<times> catalog" where
  "insert_template t gone c =
     (let i = next_template c;
          c1 = c\<lparr>templates := templates c @ [t\<lparr>tpl_id := i\<rparr>], next_template := i + 1\<rparr>
      in (case get_template i c1 of None \<Rightarrow> Inl [gone] | Some t \<Rightarrow> Inr t, c1))"

definition create_template_with_owner :: "int \<Rightarrow> int option \<Rightarrow> ustr \<Rightarrow> ustr option \<Rightarrow> template_definition \<Rightarrow> ustr option
    \<Rightarrow> catalog \<Rightarrow> (error + template_row) \<times> catalog" where
  "create_template_with_owner now owner name description d g c =
     (case rbind (validate_template_name name) (\<lambda>_. validate_template d) of Inl e \<Rightarrow> (Inl e, c)
      | Inr _ \<Rightarrow> insert_template ((new_template now owner name description (Native d))\<lparr>tpl_grp := g\<rparr>)
                   (lit ''created template disappeared'') c)"

definition import_qd_har_with_owner :: "catalog_lib \<Rightarrow> int \<Rightarrow> int option \<Rightarrow> ustr \<Rightarrow> ustr option \<Rightarrow> json
    \<Rightarrow> catalog \<Rightarrow> (error + template_row) \<times> catalog" where
  "import_qd_har_with_owner L now owner name description har c =
     (case rbind (validate_template_name name) (\<lambda>_. parse_qd (har_refusal L) har) of Inl e \<Rightarrow> (Inl e, c)
      | Inr _ \<Rightarrow> insert_template (new_template now owner name description (QdHar har)) (lit ''imported template disappeared'') c)"

definition is_har :: "template_row \<Rightarrow> bool" where
  "is_har t = (case tpl_source t of QdHar _ \<Rightarrow> True | Native _ \<Rightarrow> False)"

definition update_qd_har_for_owner :: "catalog_lib \<Rightarrow> int \<Rightarrow> int \<Rightarrow> int \<Rightarrow> ustr \<Rightarrow> ustr option \<Rightarrow> json
    \<Rightarrow> catalog \<Rightarrow> (error + template_row option) \<times> catalog" where
  "update_qd_har_for_owner L now i owner name description har c =
     (case rbind (validate_template_name name) (\<lambda>_. parse_qd (har_refusal L) har) of Inl e \<Rightarrow> (Inl e, c)
      | Inr _ \<Rightarrow>
        let hit = (\<lambda>t. tpl_id t = i \<and> tpl_owner t = Some owner \<and> is_har t);
            c1 = c\<lparr>templates := update_where hit (\<lambda>t. t\<lparr>tpl_name := name, tpl_description := description,
                    tpl_source := QdHar har, tpl_updated_at := now\<rparr>) (templates c)\<rparr>
        in if affected hit (templates c) = 0 then (Inr None, c1) else (Inr (get_template_for_owner i owner c1), c1))"

definition list_templates :: "catalog \<Rightarrow> template_row list" where
  "list_templates c = templates c"

definition list_templates_for_owner :: "int \<Rightarrow> catalog \<Rightarrow> template_row list" where
  "list_templates_for_owner owner c = filter (\<lambda>t. tpl_owner t = Some owner) (templates c)"

definition read_template :: "int \<Rightarrow> int option \<Rightarrow> catalog \<Rightarrow> template_row option" where
  "read_template i owner c = (case owner of Some u \<Rightarrow> get_template_for_owner i u c | None \<Rightarrow> get_template i c)"

definition native_definition :: "template_definition option \<Rightarrow> template_row \<Rightarrow> error + template_definition" where
  "native_definition d current = (case tpl_source current of
      QdHar _ \<Rightarrow> Inl [lit ''QD HAR templates must be edited through the HAR API'']
    | Native d0 \<Rightarrow> Inr (or_else d d0))"

definition update_template_with_owner :: "int \<Rightarrow> int \<Rightarrow> int option \<Rightarrow> ustr option \<Rightarrow> ustr option \<Rightarrow> template_definition option
    \<Rightarrow> ustr option option \<Rightarrow> catalog \<Rightarrow> (error + template_row option) \<times> catalog" where
  "update_template_with_owner now i owner name_in description d g c =
     (case read_template i owner c of None \<Rightarrow> (Inr None, c)
      | Some current \<Rightarrow>
        let name = or_else name_in (tpl_name current) in
        (case rbind (validate_template_name name) (\<lambda>_. rbind (native_definition d current) (\<lambda>d.
            rbind (validate_template d) (\<lambda>_. Inr d))) of Inl e \<Rightarrow> (Inl e, c)
         | Inr d \<Rightarrow>
           let hit = (\<lambda>t. tpl_id t = i \<and> (owner = None \<or> tpl_owner t = owner));
               c1 = c\<lparr>templates := update_where hit (\<lambda>t. t\<lparr>tpl_name := name,
                      tpl_description := or_opt description (tpl_description current),
                      tpl_schema_version := TEMPLATE_SCHEMA_VERSION, tpl_source := Native d,
                      tpl_grp := or_else g (tpl_grp current), tpl_updated_at := now\<rparr>) (templates c)\<rparr>
           in (Inr (if affected hit (templates c) = 0 then None else read_template i owner c1), c1)))"

definition count_tasks_for_template :: "int \<Rightarrow> catalog \<Rightarrow> int" where
  "count_tasks_for_template i c = int (affected (\<lambda>t. task_template_id t = Some i) (tasks_of c))"

text \<open>\<open>ON DELETE RESTRICT\<close> on the tasks of the template, where the reference is enforced.\<close>

definition delete_template_rows :: "int \<Rightarrow> int option \<Rightarrow> catalog \<Rightarrow> (error + bool) \<times> catalog" where
  "delete_template_rows i owner c =
     (if \<not> list_ex (\<lambda>t. tpl_id t = i \<and> (owner = None \<or> tpl_owner t = owner)) (templates c) then (Inr False, c)
      else if foreign_keys (base c) \<and> list_ex (\<lambda>t. task_template_id t = Some i) (tasks_of c) then (Inl fk_error, c)
      else (Inr (0 < affected (\<lambda>t. tpl_id t = i) (templates c)),
        c\<lparr>template_imports := delete_where (\<lambda>m. imp_template m = i) (template_imports c),
          pushes := delete_where (\<lambda>p. push_template p = i) (pushes c),
          templates := delete_where (\<lambda>t. tpl_id t = i) (templates c)\<rparr>))"

datatype delete_answer = NoContent | TemplateNotFound | TemplateInUse int | Failure error

text \<open>The handler \<open>delete_template\<close> after the session is checked.\<close>

definition delete_template :: "int \<Rightarrow> int \<Rightarrow> catalog \<Rightarrow> delete_answer \<times> catalog" where
  "delete_template i uid c =
     (let bound = count_tasks_for_template i c in
      if 0 < bound then
        (if get_template_for_owner i uid c = None then TemplateNotFound else TemplateInUse bound, c)
      else (case delete_template_rows i (Some uid) c of
          (Inr b, c1) \<Rightarrow> (if b then NoContent else TemplateNotFound, c1)
        | (Inl e, c1) \<Rightarrow> (let bound = count_tasks_for_template i c1 in
            if 0 < bound then TemplateInUse bound else Failure e, c1)))"

definition set_template_published :: "int \<Rightarrow> int \<Rightarrow> int \<Rightarrow> bool \<Rightarrow> catalog \<Rightarrow> bool \<times> catalog" where
  "set_template_published now i owner b c =
     (let hit = (\<lambda>t. tpl_id t = i \<and> tpl_owner t = Some owner) in
      (0 < affected hit (templates c), c\<lparr>templates := update_where hit
         (\<lambda>t. t\<lparr>tpl_published := b, tpl_updated_at := now\<rparr>) (templates c)\<rparr>))"

definition list_public_templates :: "catalog \<Rightarrow> template_row list" where
  "list_public_templates c = sort_key (\<lambda>t. (- tpl_updated_at t, - tpl_id t)) (filter tpl_published (templates c))"

definition copy_public_template :: "int \<Rightarrow> int \<Rightarrow> int \<Rightarrow> catalog \<Rightarrow> template_row option \<times> catalog" where
  "copy_public_template now i owner c =
     (case find (\<lambda>t. tpl_id t = i \<and> tpl_published t) (templates c) of None \<Rightarrow> (None, c)
      | Some t \<Rightarrow>
        let n = next_template c;
            c1 = c\<lparr>templates := templates c @ [(new_template now (Some owner) (tpl_name t @ lit '' (copy)'') (tpl_description t)
                    (tpl_source t))\<lparr>tpl_id := n, tpl_schema_version := tpl_schema_version t\<rparr>], next_template := n + 1\<rparr>
        in (get_template_for_owner n owner c1, c1))"

text \<open>The pattern of a search is never empty: blank text becomes two wildcards.\<close>

definition search_templates_for_owner :: "catalog_lib \<Rightarrow> int \<Rightarrow> ustr option \<Rightarrow> ustr option \<Rightarrow> int option \<Rightarrow> int
    \<Rightarrow> catalog \<Rightarrow> template_row list" where
  "search_templates_for_owner L owner query g cursor limit c =
     (let pattern = map_option (\<lambda>q. lit ''%'' @ trim_by is_ws q @ lit ''%'') query in
      take (nat (max 1 (min 200 limit) + 1)) (sort_key (\<lambda>t. - tpl_id t)
        (filter (\<lambda>t. tpl_owner t = Some owner \<and> when_set pattern (\<lambda>p. sql_like L p (tpl_name t))
           \<and> when_set g (\<lambda>x. tpl_grp t = Some x) \<and> when_set cursor (\<lambda>i. tpl_id t < i)) (templates c))))"

definition find_template_by_name :: "int \<Rightarrow> ustr \<Rightarrow> catalog \<Rightarrow> int option" where
  "find_template_by_name owner name c =
     (case sort (map tpl_id (filter (\<lambda>t. tpl_owner t = Some owner \<and> tpl_name t = name \<and> is_har t) (templates c))) of
        [] \<Rightarrow> None | i # _ \<Rightarrow> Some i)"

section \<open>Subscriptions\<close>

definition get_subscription :: "int \<Rightarrow> int \<Rightarrow> catalog \<Rightarrow> subscription option" where
  "get_subscription i owner c = find (\<lambda>s. sub_id s = i \<and> sub_owner s = owner) (subscriptions c)"

definition list_subscriptions :: "int \<Rightarrow> catalog \<Rightarrow> subscription list" where
  "list_subscriptions owner c = sort_key sub_id (filter (\<lambda>s. sub_owner s = owner) (subscriptions c))"

definition check_subscription_url :: "ustr \<Rightarrow> error + unit" where
  "check_subscription_url u = ensure (starts_with (lit ''https://'') u \<or> starts_with (lit ''http://'') u)
     [lit ''subscription URL must be http(s)'']"

definition create_subscription :: "int \<Rightarrow> int \<Rightarrow> ustr \<Rightarrow> ustr \<Rightarrow> catalog \<Rightarrow> (error + subscription) \<times> catalog" where
  "create_subscription now owner name0 url0 c =
     (let name = trim_by is_ws name0; u = trim_by is_ws url0 in
      (case rbind (ensure (name \<noteq> [] \<and> byte_len name \<le> 255) [lit ''invalid subscription name''])
          (\<lambda>_. check_subscription_url u) of Inl e \<Rightarrow> (Inl e, c)
       | Inr _ \<Rightarrow>
         let i = next_subscription c;
             c1 = c\<lparr>subscriptions := subscriptions c @ [\<lparr>sub_id = i, sub_owner = owner, sub_name = name, sub_url = u,
                    sub_enabled = True, sub_created_at = now, sub_updated_at = now\<rparr>], next_subscription := i + 1\<rparr>
         in (case get_subscription i owner c1 of None \<Rightarrow> Inl [lit ''created subscription disappeared''] | Some s \<Rightarrow> Inr s, c1)))"

definition update_subscription :: "int \<Rightarrow> int \<Rightarrow> int \<Rightarrow> ustr option \<Rightarrow> ustr option \<Rightarrow> bool option \<Rightarrow> catalog
    \<Rightarrow> (error + subscription option) \<times> catalog" where
  "update_subscription now i owner name_in url_in enabled_in c =
     (case get_subscription i owner c of None \<Rightarrow> (Inr None, c)
      | Some current \<Rightarrow>
        let name = or_else name_in (sub_name current); u = or_else url_in (sub_url current) in
        (case rbind (ensure (trim_by is_ws name \<noteq> [] \<and> byte_len name \<le> 255) [lit ''invalid subscription name''])
            (\<lambda>_. check_subscription_url u) of Inl e \<Rightarrow> (Inl e, c)
         | Inr _ \<Rightarrow>
           let c1 = c\<lparr>subscriptions := update_where (\<lambda>s. sub_id s = i \<and> sub_owner s = owner)
                 (\<lambda>s. s\<lparr>sub_name := trim_by is_ws name, sub_url := trim_by is_ws u,
                    sub_enabled := or_else enabled_in (sub_enabled current), sub_updated_at := now\<rparr>) (subscriptions c)\<rparr>
           in (Inr (get_subscription i owner c1), c1)))"

definition delete_subscription :: "int \<Rightarrow> int \<Rightarrow> catalog \<Rightarrow> bool \<times> catalog" where
  "delete_subscription i owner c =
     (let hit = (\<lambda>s. sub_id s = i \<and> sub_owner s = owner) in
      if \<not> list_ex hit (subscriptions c) then (False, c)
      else (0 < affected hit (subscriptions c),
        c\<lparr>template_imports := delete_where (\<lambda>m. imp_subscription m = i) (template_imports c),
          subscriptions := delete_where hit (subscriptions c)\<rparr>))"

definition list_template_imports :: "int \<Rightarrow> catalog \<Rightarrow> template_import list" where
  "list_template_imports sid c = sort_key imp_entry (filter (\<lambda>m. imp_subscription m = sid) (template_imports c))"

text \<open>The update, and the insert when it met no row; both rows referred to must exist where that is enforced.\<close>

definition record_template_import :: "int \<Rightarrow> int \<Rightarrow> ustr \<Rightarrow> ustr option \<Rightarrow> catalog \<Rightarrow> (error + unit) \<times> catalog" where
  "record_template_import sid tid entry version c =
     (let hit = (\<lambda>m. imp_subscription m = sid \<and> imp_entry m = entry); changed = affected hit (template_imports c)
      in if foreign_keys (base c) \<and> (get_template tid c = None \<or> changed = 0 \<and> \<not> list_ex (\<lambda>s. sub_id s = sid) (subscriptions c))
         then (Inl fk_error, c)
         else if changed = 0 then (Inr (), c\<lparr>template_imports := template_imports c
           @ [\<lparr>imp_subscription = sid, imp_template = tid, imp_entry = entry, imp_version = version\<rparr>]\<rparr>)
         else (Inr (), c\<lparr>template_imports := update_where hit
           (\<lambda>m. m\<lparr>imp_template := tid, imp_version := version\<rparr>) (template_imports c)\<rparr>))"

section \<open>Publication requests\<close>

definition get_push_request :: "int \<Rightarrow> catalog \<Rightarrow> push_request option" where
  "get_push_request i c = find (\<lambda>p. push_id p = i) (pushes c)"

definition create_push_request :: "int \<Rightarrow> int \<Rightarrow> int \<Rightarrow> ustr option \<Rightarrow> catalog \<Rightarrow> (error + push_request option) \<times> catalog" where
  "create_push_request now owner tid note c =
     (case get_template_for_owner tid owner c of None \<Rightarrow> (Inr None, c)
      | Some t \<Rightarrow>
        if tpl_published t then (Inr None, c)
        else if map_option (trim_by is_ws) note = Some [] then (Inl [lit ''push request note cannot be empty''], c)
        else let i = next_push c;
            c1 = c\<lparr>pushes := pushes c @ [\<lparr>push_id = i, push_owner = owner, push_template = tid, push_status = lit ''pending'',
                   push_note = map_option (trim_by is_ws) note, push_reviewed_by = None, push_reviewed_at = None,
                   push_created_at = now\<rparr>], next_push := i + 1\<rparr>
          in (case get_push_request i c1 of None \<Rightarrow> Inl [lit ''push request disappeared''] | Some p \<Rightarrow> Inr (Some p), c1))"

definition list_push_requests_for_owner :: "int \<Rightarrow> catalog \<Rightarrow> push_request list" where
  "list_push_requests_for_owner owner c =
     sort_key (\<lambda>p. (- push_created_at p, - push_id p)) (filter (\<lambda>p. push_owner p = owner) (pushes c))"

definition list_push_requests :: "ustr option \<Rightarrow> catalog \<Rightarrow> push_request list" where
  "list_push_requests status c =
     sort_key (\<lambda>p. (- push_created_at p, - push_id p)) (filter (\<lambda>p. when_set status (\<lambda>s. push_status p = s)) (pushes c))"

definition decide_push_request :: "int \<Rightarrow> int \<Rightarrow> int \<Rightarrow> bool \<Rightarrow> ustr option \<Rightarrow> catalog \<Rightarrow> push_request option \<times> catalog" where
  "decide_push_request now i reviewer approve note c =
     (case get_push_request i c of None \<Rightarrow> (None, c)
      | Some p \<Rightarrow>
        if push_status p \<noteq> lit ''pending'' then (None, c)
        else let c1 = c\<lparr>pushes := update_where (\<lambda>p. push_id p = i)
              (\<lambda>p. p\<lparr>push_status := (if approve then lit ''approved'' else lit ''rejected''),
                 push_note := or_opt note (push_note p), push_reviewed_by := Some reviewer, push_reviewed_at := Some now\<rparr>) (pushes c)\<rparr>;
            c2 = (if approve then snd (set_template_published now (push_template p) (push_owner p) True c1) else c1)
          in (get_push_request i c2, c2))"

section \<open>Deleting an account\<close>

text \<open>
  The rows of \<open>delete_user\<close> in these tables.  A template of the account that a task of another account
  runs would make the database refuse the transaction, where references are enforced.
\<close>

definition delete_account_catalog :: "int \<Rightarrow> catalog \<Rightarrow> (error + unit) \<times> catalog" where
  "delete_account_catalog uid c =
     (let own_template = (\<lambda>i. list_ex (\<lambda>t. tpl_id t = i \<and> tpl_owner t = Some uid) (templates c));
          own_subscription = (\<lambda>i. list_ex (\<lambda>s. sub_id s = i \<and> sub_owner s = uid) (subscriptions c));
          db1 = delete_owned_rows uid (base c)
      in if foreign_keys (base c) \<and> list_ex (\<lambda>t. case task_template_id t of None \<Rightarrow> False | Some i \<Rightarrow> own_template i) (tasks db1)
         then (Inl fk_error, c)
         else (Inr (), c\<lparr>template_imports := delete_where (\<lambda>m. own_subscription (imp_subscription m) \<or> own_template (imp_template m)) (template_imports c),
           subscriptions := delete_where (\<lambda>s. sub_owner s = uid) (subscriptions c),
           pushes := delete_where (\<lambda>p. push_owner p = uid \<or> push_reviewed_by p = Some uid \<or> own_template (push_template p)) (pushes c),
           base := db1,
           templates := delete_where (\<lambda>t. tpl_owner t = Some uid) (templates c)\<rparr>))"

end
