(* ===== verification/CatalogProps.thy ===== *)
theory CatalogProps
  imports Catalog RunQueueProps
begin

text \<open>
  Accounts do not reach into each other: every call an account makes on tasks, templates, channels,
  bindings and publication requests keeps \<open>isolated\<close>, which says that a task runs a template of its own
  account, a binding leads from a task to a channel of its account, and a publication request is about
  a template of who made it.

  Whether it holds depends on a catalog only through \<open>owners\<close>, the columns that identify rows and link
  them; the locale \<open>linked_table\<close> is what a statement on one of the tables promises about its column.
\<close>

section \<open>The invariant\<close>

definition task_links :: "catalog \<Rightarrow> (int \<times> int option \<times> int option) set" where
  "task_links c = (\<lambda>t. (task_id t, owner_id t, task_template_id t)) ` set (tasks_of c)"

definition template_links :: "catalog \<Rightarrow> (int \<times> int option) set" where
  "template_links c = (\<lambda>t. (tpl_id t, tpl_owner t)) ` set (templates c)"

definition channel_links :: "db \<Rightarrow> (int \<times> int) set" where
  "channel_links db = (\<lambda>h. (channel_id h, channel_owner h)) ` set (channels db)"

definition action_links :: "db \<Rightarrow> (int \<times> int) set" where
  "action_links db = (\<lambda>a. (action_task_id a, action_channel_id a)) ` set (actions db)"

definition push_links :: "catalog \<Rightarrow> (int \<times> int) set" where
  "push_links c = (\<lambda>p. (push_template p, push_owner p)) ` set (pushes c)"

definition ids_fresh :: "catalog \<Rightarrow> bool" where
  "ids_fresh c \<longleftrightarrow> keyed task_id (next_task c) (tasks_of c) \<and> keyed tpl_id (next_template c) (templates c)
     \<and> keyed channel_id (next_channel (base c)) (channels (base c))
     \<and> keyed action_id (next_action (base c)) (actions (base c))"

definition isolated :: "catalog \<Rightarrow> bool" where
  "isolated c \<longleftrightarrow> ids_fresh c
     \<and> (\<forall>(i, u, p) \<in> task_links c. u \<noteq> None \<and> (\<forall>t. p = Some t \<longrightarrow> (t, u) \<in> template_links c))
     \<and> (\<forall>(t, h) \<in> action_links (base c). \<exists>u p. (t, Some u, p) \<in> task_links c \<and> (h, u) \<in> channel_links (base c))
     \<and> (\<forall>(t, u) \<in> push_links c. (t, Some u) \<in> template_links c)"

lemma isolatedI:
  assumes "ids_fresh c" "\<And>i u p. (i, u, p) \<in> task_links c \<Longrightarrow> u \<noteq> None"
    "\<And>i u t. (i, u, Some t) \<in> task_links c \<Longrightarrow> (t, u) \<in> template_links c"
    "\<And>t h. (t, h) \<in> action_links (base c) \<Longrightarrow> \<exists>u p. (t, Some u, p) \<in> task_links c \<and> (h, u) \<in> channel_links (base c)"
    "\<And>t u. (t, u) \<in> push_links c \<Longrightarrow> (t, Some u) \<in> template_links c"
  shows "isolated c"
  unfolding isolated_def using assms by blast

lemma isolated_fresh: "isolated c \<Longrightarrow> ids_fresh c"
  by (simp add: isolated_def)

lemma isolated_owned: "isolated c \<Longrightarrow> (i, u, p) \<in> task_links c \<Longrightarrow> u \<noteq> None"
  by (fastforce simp: isolated_def)

lemma isolated_bound: "isolated c \<Longrightarrow> (i, u, Some t) \<in> task_links c \<Longrightarrow> (t, u) \<in> template_links c"
  by (fastforce simp: isolated_def)

lemma isolated_action:
  "isolated c \<Longrightarrow> (t, h) \<in> action_links (base c) \<Longrightarrow> \<exists>u p. (t, Some u, p) \<in> task_links c \<and> (h, u) \<in> channel_links (base c)"
  unfolding isolated_def by blast

lemma isolated_push: "isolated c \<Longrightarrow> (t, u) \<in> push_links c \<Longrightarrow> (t, Some u) \<in> template_links c"
  by (fastforce simp: isolated_def)

lemmas isolated_dests = isolated_owned isolated_bound isolated_action isolated_push

section \<open>Statements on linked tables\<close>

lemma image_update_where:
  "(\<And>r. P r \<Longrightarrow> g (f r) = g r) \<Longrightarrow> g ` set (update_where P f rs) = g ` set rs"
  by (metis list.set_map map_update_where)

lemma image_delete_where: "g ` set (delete_where P rs) \<subseteq> g ` set rs"
  by auto

lemmas links_defs = task_links_def template_links_def channel_links_def action_links_def push_links_def

text \<open>
  The state of an account's data may change in columns nobody is linked by: \<open>same_links\<close> of two catalogs.
\<close>

definition same_links :: "catalog \<Rightarrow> catalog \<Rightarrow> bool" where
  "same_links c c2 \<longleftrightarrow> task_links c2 = task_links c \<and> template_links c2 = template_links c
     \<and> channel_links (base c2) = channel_links (base c) \<and> action_links (base c2) = action_links (base c)
     \<and> push_links c2 = push_links c"

lemma isolated_same: "isolated c \<Longrightarrow> same_links c c2 \<Longrightarrow> ids_fresh c2 \<Longrightarrow> isolated c2"
  by (simp add: isolated_def same_links_def)

lemma same_links_refl [simp]: "same_links c c"
  by (simp add: same_links_def)

text \<open>The contract of a statement that writes rows of one table in columns nobody is linked by.\<close>

locale quiet_update =
  fixes P :: "'r \<Rightarrow> bool" and f :: "'r \<Rightarrow> 'r" and key :: "'r \<Rightarrow> int" and link :: "'r \<Rightarrow> 'l"
  assumes key_kept: "P r \<Longrightarrow> key (f r) = key r" and link_kept: "P r \<Longrightarrow> link (f r) = link r"
begin

lemma keyed_after: "keyed key n rs \<Longrightarrow> keyed key n (update_where P f rs)"
  by (rule keyed_update) (simp add: key_kept)

lemma links_after: "link ` set (update_where P f rs) = link ` set rs"
  by (rule image_update_where) (simp add: link_kept)

end

interpretation disable: quiet_update "\<lambda>t. owner_id t = Some owner \<and> task_id t \<in> set ids"
    "\<lambda>t. t\<lparr>disabled := b, task_updated_at := now\<rparr>" task_id "\<lambda>t. (task_id t, owner_id t, task_template_id t)"
    for owner ids b now
  by unfold_locales simp_all

interpretation har_edit: quiet_update "\<lambda>t. tpl_id t = i \<and> tpl_owner t = Some owner \<and> is_har t"
    "\<lambda>t. t\<lparr>tpl_name := name, tpl_description := description, tpl_source := source, tpl_updated_at := now\<rparr>"
    tpl_id "\<lambda>t. (tpl_id t, tpl_owner t)" for i owner name description source now
  by unfold_locales simp_all

interpretation native_edit: quiet_update P
    "\<lambda>t. t\<lparr>tpl_name := name, tpl_description := description, tpl_schema_version := v, tpl_source := source,
       tpl_grp := g, tpl_updated_at := now\<rparr>"
    tpl_id "\<lambda>t. (tpl_id t, tpl_owner t)" for P name description v source g now
  by unfold_locales simp_all

interpretation publication: quiet_update "\<lambda>t. tpl_id t = i \<and> tpl_owner t = Some owner"
    "\<lambda>t. t\<lparr>tpl_published := b, tpl_updated_at := now\<rparr>" tpl_id "\<lambda>t. (tpl_id t, tpl_owner t)" for i owner b now
  by unfold_locales simp_all

interpretation channel_edit: quiet_update "\<lambda>h. channel_id h = i \<and> channel_owner h = owner"
    "\<lambda>h. h\<lparr>channel_name := name, channel_config := config, channel_enabled := b, channel_updated_at := now\<rparr>"
    channel_id "\<lambda>h. (channel_id h, channel_owner h)" for i owner name config b now
  by unfold_locales simp_all

interpretation decision: quiet_update "\<lambda>p. push_id p = i"
    "\<lambda>p. p\<lparr>push_status := st, push_note := or_opt remark (push_note p), push_reviewed_by := who, push_reviewed_at := w\<rparr>"
    push_id "\<lambda>p. (push_template p, push_owner p)" for i st remark who w
  by unfold_locales simp_all

lemmas quiet_updates = disable.keyed_after disable.links_after har_edit.keyed_after har_edit.links_after
  native_edit.keyed_after native_edit.links_after publication.keyed_after publication.links_after
  channel_edit.keyed_after channel_edit.links_after decision.links_after

lemma isolated_quiet:
  assumes "isolated c" "same_links c c2" "ids_fresh c \<Longrightarrow> ids_fresh c2"
  shows "isolated c2"
  using isolated_same [OF assms(1,2)] assms(1,3) by (simp add: isolated_def)

lemmas quiet_defs = same_links_def links_defs ids_fresh_def

lemma isolated_batch_disable: "isolated c \<Longrightarrow> isolated (snd (batch_disable now owner ids b c))"
  by (erule isolated_quiet) (simp_all add: quiet_defs batch_disable_def Let_def quiet_updates)

lemma isolated_publish: "isolated c \<Longrightarrow> isolated (snd (set_template_published now i owner b c))"
  by (erule isolated_quiet) (simp_all add: quiet_defs set_template_published_def Let_def quiet_updates)

lemma isolated_update_har: "isolated c \<Longrightarrow> isolated (snd (update_qd_har_for_owner L now i owner name d har c))"
  by (erule isolated_quiet)
    (simp_all add: quiet_defs update_qd_har_for_owner_def Let_def quiet_updates split: sum.split)

lemma isolated_update_template: "isolated c \<Longrightarrow> isolated (snd (update_template_with_owner now i owner name d t g c))"
  by (erule isolated_quiet)
    (simp_all add: quiet_defs update_template_with_owner_def Let_def quiet_updates split: sum.split option.split)

lemma isolated_update_channel:
  "isolated c \<Longrightarrow> isolated (c\<lparr>base := snd (update_notification_channel L now i owner name config b (base c))\<rparr>)"
  by (erule isolated_quiet)
    (simp_all add: quiet_defs update_notification_channel_def Let_def quiet_updates split: sum.split option.split)

lemma isolated_decide: "isolated c \<Longrightarrow> isolated (snd (decide_push_request now i reviewer b remark c))"
  by (erule isolated_quiet)
    (simp_all add: quiet_defs decide_push_request_def set_template_published_def Let_def quiet_updates split: option.split)

section \<open>Insertions\<close>

lemma get_template_links: "get_template_for_owner i u c = Some t \<Longrightarrow> (i, Some u) \<in> template_links c"
  by (auto simp: get_template_for_owner_def template_links_def find_Some_iff intro!: image_eqI)

lemma resolved_template:
  "resolve_task_request L (Some u) p m url cur c = Inr r \<Longrightarrow> p = Some i \<Longrightarrow> (i, Some u) \<in> template_links c"
  by (auto simp: resolve_task_request_def find_task_template_def res_simps get_template_links split: option.splits)

text \<open>More templates and channels, with fresh ids, never hurt.\<close>

lemma isolated_grow:
  assumes "isolated c" "ids_fresh c2" "task_links c2 = task_links c" "action_links (base c2) = action_links (base c)"
    "push_links c2 = push_links c" "template_links c \<subseteq> template_links c2" "channel_links (base c) \<subseteq> channel_links (base c2)"
  shows "isolated c2"
proof (rule isolatedI)
  fix t h assume "(t, h) \<in> action_links (base c2)"
  then have "(t, h) \<in> action_links (base c)" using assms(4) by simp
  from isolated_action [OF assms(1) this] show "\<exists>u p. (t, Some u, p) \<in> task_links c2 \<and> (h, u) \<in> channel_links (base c2)"
    using assms(3,7) by auto
next
  show "u \<noteq> None" if "(i, u, p) \<in> task_links c2" for i u p
    using isolated_owned [OF assms(1)] that assms(3) by auto
  show "(t, u) \<in> template_links c2" if "(i, u, Some t) \<in> task_links c2" for i u t
    using isolated_bound [OF assms(1)] that assms(3,6) by auto
  show "(t, Some u) \<in> template_links c2" if "(t, u) \<in> push_links c2" for t u
    using isolated_push [OF assms(1)] that assms(5,6) by auto
qed (rule assms(2))

lemma isolated_add_template:
  assumes "isolated c" and "tpl_id t = next_template c"
  shows "isolated (c\<lparr>templates := templates c @ [t], next_template := next_template c + 1\<rparr>)"
  using assms by (intro isolated_grow [OF assms(1)]) (auto simp: isolated_def quiet_defs keyed_insert)

lemma isolated_create_template: "isolated c \<Longrightarrow> isolated (snd (create_template_with_owner now owner name d df g c))"
  by (simp add: create_template_with_owner_def insert_template_def Let_def isolated_add_template split: sum.split)

lemma isolated_import: "isolated c \<Longrightarrow> isolated (snd (import_qd_har_with_owner L now owner name d har c))"
  by (simp add: import_qd_har_with_owner_def insert_template_def Let_def isolated_add_template split: sum.split)

lemma isolated_copy: "isolated c \<Longrightarrow> isolated (snd (copy_public_template now i owner c))"
  by (simp add: copy_public_template_def Let_def isolated_add_template split: option.split)

lemma isolated_create_channel:
  "isolated c \<Longrightarrow> isolated (c\<lparr>base := snd (create_notification_channel L now owner name kind config b (base c))\<rparr>)"
  by (simp add: create_notification_channel_def Let_def split: sum.split option.split)
    (intro impI conjI allI; rule isolated_grow; auto simp: isolated_def quiet_defs keyed_insert)

lemma isolated_add_task:
  assumes "isolated c" "task_id t = next_task c" "owner_id t = Some u"
    "\<And>i. task_template_id t = Some i \<Longrightarrow> (i, Some u) \<in> template_links c"
  shows "isolated (c\<lparr>base := (base c)\<lparr>tasks := tasks_of c @ [t]\<rparr>, next_task := next_task c + 1\<rparr>)"
proof (rule isolatedI)
  let ?c = "c\<lparr>base := (base c)\<lparr>tasks := tasks_of c @ [t]\<rparr>, next_task := next_task c + 1\<rparr>"
  have tasks: "task_links ?c = insert (task_id t, Some u, task_template_id t) (task_links c)"
    using assms(3) by (simp add: task_links_def)
  have same: "template_links ?c = template_links c" "channel_links (base ?c) = channel_links (base c)"
    "action_links (base ?c) = action_links (base c)" "push_links ?c = push_links c"
    by (simp_all add: links_defs)
  show "ids_fresh ?c" using assms(1,2) by (simp add: isolated_def ids_fresh_def keyed_insert)
  show "v \<noteq> None" if "(i, v, p) \<in> task_links ?c" for i v p
    using that isolated_owned [OF assms(1), of i v p] unfolding tasks by blast
  show "(q, v) \<in> template_links ?c" if "(i, v, Some q) \<in> task_links ?c" for i v q
    using that isolated_bound [OF assms(1), of i v q] assms(4) [of q] unfolding tasks same by auto
  show "\<exists>v p. (i, Some v, p) \<in> task_links ?c \<and> (h, v) \<in> channel_links (base ?c)"
    if "(i, h) \<in> action_links (base ?c)" for i h
    using that isolated_action [OF assms(1), of i h] unfolding tasks same by blast
  show "(q, Some v) \<in> template_links ?c" if "(q, v) \<in> push_links ?c" for q v
    using that isolated_push [OF assms(1), of q v] unfolding same by blast
qed

lemma isolated_create_task: "isolated c \<Longrightarrow> isolated (snd (create_with_owner L now (Some u) input c))"
  by (auto simp: create_with_owner_def Let_def res_simps task_of_input_def
      split: sum.split option.split intro!: isolated_add_task dest: resolved_template)

lemma isolated_add_action:
  assumes c: "isolated c" and "action_id a = next_action (base c)"
    and link: "(action_task_id a, Some u, p) \<in> task_links c" "(action_channel_id a, u) \<in> channel_links (base c)"
  shows "isolated (c\<lparr>base := (base c)\<lparr>actions := actions (base c) @ [a], next_action := next_action (base c) + 1\<rparr>\<rparr>)"
    (is "isolated ?c")
proof (rule isolatedI)
  have same: "task_links ?c = task_links c" "template_links ?c = template_links c"
    "channel_links (base ?c) = channel_links (base c)" "push_links ?c = push_links c"
    by (simp_all add: links_defs)
  have acts: "action_links (base ?c) = insert (action_task_id a, action_channel_id a) (action_links (base c))"
    by (simp add: action_links_def)
  show "ids_fresh ?c" using assms(1,2) by (simp add: isolated_def ids_fresh_def keyed_insert)
  show "v \<noteq> None" if "(i, v, q) \<in> task_links ?c" for i v q
    using that isolated_owned [OF c, of i v q] unfolding same by blast
  show "(q, v) \<in> template_links ?c" if "(i, v, Some q) \<in> task_links ?c" for i v q
    using that isolated_bound [OF c, of i v q] unfolding same by blast
  show "\<exists>v q. (i, Some v, q) \<in> task_links ?c \<and> (h, v) \<in> channel_links (base ?c)"
    if "(i, h) \<in> action_links (base ?c)" for i h
    using that isolated_action [OF c, of i h] link unfolding acts same by blast
  show "(q, Some v) \<in> template_links ?c" if "(q, v) \<in> push_links ?c" for q v
    using that isolated_push [OF c, of q v] unfolding same by blast
qed

lemma row_links:
  "t \<in> set (tasks_of c) \<Longrightarrow> (task_id t, owner_id t, task_template_id t) \<in> task_links c"
  "h \<in> set (channels db) \<Longrightarrow> (channel_id h, channel_owner h) \<in> channel_links db"
  by (simp_all add: links_defs)

lemma isolated_create_action:
  assumes "isolated c"
  shows "isolated (c\<lparr>base := snd (create_notification_action now tid u input (base c))\<rparr>)"
proof (cases "list_ex (\<lambda>t. task_id t = tid \<and> owner_id t = Some u
    \<and> list_ex (\<lambda>h. Some (channel_owner h) = owner_id t \<and> channel_id h = new_channel input) (channels (base c))) (tasks_of c)")
  case True
  then obtain t h where "t \<in> set (tasks_of c)" "task_id t = tid" "owner_id t = Some u"
    "h \<in> set (channels (base c))" "channel_owner h = u" "channel_id h = new_channel input"
    by (auto simp: list_ex_iff)
  with row_links(1) [of t c] row_links(2) [of h "base c"] assms show ?thesis
    by (auto simp: create_notification_action_def Let_def intro!: isolated_add_action)
next
  case False
  with assms show ?thesis by (simp add: create_notification_action_def)
qed

lemma isolated_create_actions:
  "isolated c \<Longrightarrow> isolated (c\<lparr>base := snd (create_notification_actions_for_tasks now u tids input (base c))\<rparr>)"
proof (induction tids arbitrary: c)
  case (Cons t tids)
  have "isolated (c\<lparr>base := db1\<rparr>)" if "create_notification_action now t u input (base c) = (r, db1)" for r db1
    using isolated_create_action [OF Cons.prems, of now t u input] that by simp
  with Cons.IH show ?case by (fastforce split: prod.split sum.split)
qed simp

section \<open>Deletions\<close>

lemma isolated_shrink:
  assumes c: "isolated c" and "ids_fresh c2" and sub: "task_links c2 \<subseteq> task_links c"
    "action_links (base c2) \<subseteq> action_links (base c)" "push_links c2 \<subseteq> push_links c"
    and tpl: "\<And>i u t. (i, u, Some t) \<in> task_links c2 \<Longrightarrow> (t, u) \<in> template_links c \<Longrightarrow> (t, u) \<in> template_links c2"
    and act: "\<And>t h u p. (t, h) \<in> action_links (base c2) \<Longrightarrow> (t, Some u, p) \<in> task_links c \<Longrightarrow> (h, u) \<in> channel_links (base c)
      \<Longrightarrow> (t, Some u, p) \<in> task_links c2 \<and> (h, u) \<in> channel_links (base c2)"
    and push: "\<And>t u. (t, u) \<in> push_links c2 \<Longrightarrow> (t, Some u) \<in> template_links c \<Longrightarrow> (t, Some u) \<in> template_links c2"
  shows "isolated c2"
proof (rule isolatedI)
  show "u \<noteq> None" if "(i, u, p) \<in> task_links c2" for i u p
    using isolated_owned [OF c] that sub(1) by blast
  show "(t, u) \<in> template_links c2" if "(i, u, Some t) \<in> task_links c2" for i u t
    using isolated_bound [OF c] that sub(1) tpl by blast
  show "\<exists>u p. (t, Some u, p) \<in> task_links c2 \<and> (h, u) \<in> channel_links (base c2)"
    if "(t, h) \<in> action_links (base c2)" for t h
    using isolated_action [OF c, of t h] that sub(2) act [OF that] by blast
  show "(t, Some u) \<in> template_links c2" if "(t, u) \<in> push_links c2" for t u
    using isolated_push [OF c] that sub(3) push by blast
qed (rule assms(2))

lemma isolated_delete_task: "isolated c \<Longrightarrow> isolated (c\<lparr>base := snd (delete_task_rows rid owner (base c))\<rparr>)"
  by (auto simp: delete_task_rows_def delete_runs_for_task_def delete_runs_where_def Let_def split_beta
      intro!: isolated_shrink [of c]) (auto simp: isolated_def ids_fresh_def links_defs keyed_delete)

lemma isolated_batch_delete: "isolated c \<Longrightarrow> isolated (snd (batch_delete owner ids c))"
  by (auto simp: batch_delete_def delete_runs_where_def Let_def list_ex_iff
      intro!: isolated_shrink [of c]) (auto simp: isolated_def ids_fresh_def links_defs keyed_delete)

lemma isolated_delete_channel: "isolated c \<Longrightarrow> isolated (c\<lparr>base := snd (delete_notification_channel i owner (base c))\<rparr>)"
  by (auto simp: delete_notification_channel_def
      intro!: isolated_shrink [of c]) (auto simp: isolated_def ids_fresh_def links_defs keyed_delete)

lemma isolated_delete_actions: "isolated c \<Longrightarrow> isolated (c\<lparr>base := snd (delete_actions_where P (base c))\<rparr>)"
  by (auto simp: delete_actions_where_def
      intro!: isolated_shrink [of c]) (auto simp: isolated_def ids_fresh_def links_defs keyed_delete)

lemma unbound_template:
  "count_tasks_for_template i c = 0 \<Longrightarrow> (t, u, Some i) \<notin> task_links c"
  by (auto simp: count_tasks_for_template_def affected_def links_defs filter_empty_conv)

lemma isolated_delete_template_rows:
  assumes "isolated c" "count_tasks_for_template i c = 0"
  shows "isolated (snd (delete_template_rows i (Some u) c))"
  using assms(1) unbound_template [OF assms(2)]
  by (auto simp: delete_template_rows_def intro!: isolated_shrink [of c])
    (auto simp: isolated_def ids_fresh_def links_defs keyed_delete)

lemma isolated_delete_template: "isolated c \<Longrightarrow> isolated (snd (delete_template i u c))"
  using isolated_delete_template_rows [of c i u]
  by (cases "count_tasks_for_template i c = 0"; cases "delete_template_rows i (Some u) c")
    (auto simp: delete_template_def Let_def count_tasks_for_template_def split: sum.split)

lemma keyed_link:
  assumes "isolated c" "(i, u, p) \<in> task_links c" "(i, v, q) \<in> task_links c"
  shows "u = v \<and> p = q"
proof -
  from assms(2,3) obtain t s where "t \<in> set (tasks_of c)" "s \<in> set (tasks_of c)" "task_id t = i" "task_id s = i"
    "owner_id t = u" "owner_id s = v" "task_template_id t = p" "task_template_id s = q"
    by (auto simp: task_links_def)
  moreover from this have "t = s" using assms(1) keyed_eq [of task_id] by (fastforce simp: isolated_def ids_fresh_def)
  ultimately show ?thesis by simp
qed

lemma keyed_template_link:
  assumes "isolated c" "(i, u) \<in> template_links c" "(i, v) \<in> template_links c"
  shows "u = v"
proof -
  from assms(2,3) obtain t s where "t \<in> set (templates c)" "s \<in> set (templates c)" "tpl_id t = i" "tpl_id s = i"
    "tpl_owner t = u" "tpl_owner s = v"
    by (auto simp: template_links_def)
  moreover from this have "t = s" using assms(1) keyed_eq [of tpl_id] by (fastforce simp: isolated_def ids_fresh_def)
  ultimately show ?thesis by simp
qed

lemma isolated_delete_account_rows:
  assumes c: "isolated c"
  shows "isolated (c\<lparr>template_imports := M, subscriptions := S,
      pushes := delete_where (\<lambda>p. push_owner p = u \<or> push_reviewed_by p = Some u \<or>
        list_ex (\<lambda>t. tpl_id t = push_template p \<and> tpl_owner t = Some u) (templates c)) (pushes c),
      base := delete_owned_rows u (base c), templates := delete_where (\<lambda>t. tpl_owner t = Some u) (templates c)\<rparr>)"
  using c by (intro isolated_shrink [OF c])
    (auto simp: isolated_def ids_fresh_def links_defs keyed_delete delete_owned_rows_def Let_def owns_task_def list_ex_iff)

lemma isolated_delete_account: "isolated c \<Longrightarrow> isolated (snd (delete_account_catalog u c))"
  by (simp add: delete_account_catalog_def Let_def isolated_delete_account_rows)

section \<open>Updates of links\<close>

lemma isolated_rebind:
  assumes c: "isolated c" and own: "\<And>v q. (i, v, q) \<in> task_links c \<Longrightarrow> v = Some u"
    and tpl: "\<And>t. p = Some t \<Longrightarrow> (t, Some u) \<in> template_links c"
    and f: "\<And>t. task_id (f t) = task_id t \<and> owner_id (f t) = owner_id t \<and> task_template_id (f t) = p"
  shows "isolated (c\<lparr>base := (base c)\<lparr>tasks := update_where (\<lambda>t. task_id t = i) f (tasks_of c)\<rparr>\<rparr>)" (is "isolated ?c")
proof (rule isolatedI)
  have tasks: "task_links ?c = (\<lambda>(j, v, q). (j, v, if j = i then p else q)) ` task_links c"
    using f by (simp add: task_links_def set_update_where image_image del: if_image_distrib)
      (rule image_cong, simp_all)
  have same: "template_links ?c = template_links c" "channel_links (base ?c) = channel_links (base c)"
    "action_links (base ?c) = action_links (base c)" "push_links ?c = push_links c"
    by (simp_all add: links_defs)
  show "ids_fresh ?c" using c f by (simp add: isolated_def ids_fresh_def keyed_update)
  show "v \<noteq> None" if "(j, v, q) \<in> task_links ?c" for j v q
    using that isolated_owned [OF c] unfolding tasks by (fastforce split: if_splits)
  show "(q, v) \<in> template_links ?c" if "(j, v, Some q) \<in> task_links ?c" for j v q
    using that isolated_bound [OF c] tpl own unfolding tasks same by (fastforce split: if_splits)
  show "\<exists>v q. (j, Some v, q) \<in> task_links ?c \<and> (h, v) \<in> channel_links (base ?c)"
    if acts: "(j, h) \<in> action_links (base ?c)" for j h
  proof -
    obtain v q where "(j, Some v, q) \<in> task_links c" "(h, v) \<in> channel_links (base c)"
      using acts isolated_action [OF c, of j h] unfolding same by blast
    then show ?thesis unfolding tasks same by (force intro!: image_eqI)
  qed
  show "(q, Some v) \<in> template_links ?c" if "(q, v) \<in> push_links ?c" for q v
    using that isolated_push [OF c, of q v] unfolding same by blast
qed

lemma isolated_update_task:
  assumes "isolated c"
  shows "isolated (snd (update_for_optional_owner L now i (Some u) input c))"
proof (cases "get_for_owner i u (base c)")
  case None
  with assms show ?thesis by (simp add: update_for_optional_owner_def)
next
  case (Some current)
  let ?p = "or_opt (ut_template_id input) (task_template_id current)"
  from Some have "current \<in> set (tasks_of c)" "task_id current = i" "owner_id current = Some u"
    by (auto simp: get_for_owner_def find_Some_iff)
  then have "(i, Some u, task_template_id current) \<in> task_links c" using row_links(1) by metis
  then have own: "v = Some u" if "(i, v, q) \<in> task_links c" for v q
    using keyed_link [OF assms that] by blast
  have "isolated (c\<lparr>base := (base c)\<lparr>tasks := update_where (\<lambda>t. task_id t = i)
      (updated_task now input current mth v) (tasks_of c)\<rparr>\<rparr>)"
    if "resolve_task_request L (Some u) ?p m url cur c = Inr r" for m url cur r mth v
    by (rule isolated_rebind [OF assms own, where p = ?p])
      (auto simp: updated_task_def dest: resolved_template [OF that])
  then show ?thesis
    using Some assms by (auto simp: update_for_optional_owner_def Let_def res_simps split: sum.split)
qed

lemma owns_task_link: "owns_task (base c) u t \<longleftrightarrow> (\<exists>p. (t, Some u, p) \<in> task_links c)"
  by (force simp: owns_task_def task_links_def)

lemma isolated_update_action:
  assumes c: "isolated c"
  shows "isolated (c\<lparr>base := snd (update_notification_action i u input (base c))\<rparr>)"
proof -
  have "isolated (c\<lparr>base := (base c)\<lparr>actions := update_where (\<lambda>a. action_id a = i \<and> owns_task (base c) u (action_task_id a))
      f (actions (base c))\<rparr>\<rparr>)" (is "isolated ?c")
    if cur: "get_notification_action i u (base c) = Some cur"
      and f: "\<And>a. action_id (f a) = action_id a \<and> action_task_id (f a) = action_task_id a \<and> action_channel_id (f a) = h"
      and h: "h = action_channel_id cur \<or> (h, u) \<in> channel_links (base c)" for f h cur
  proof (rule isolatedI)
    have same: "task_links ?c = task_links c" "template_links ?c = template_links c"
      "channel_links (base ?c) = channel_links (base c)" "push_links ?c = push_links c"
      by (simp_all add: links_defs)
    show "ids_fresh ?c" using c f by (simp add: isolated_def ids_fresh_def keyed_update)
    show "v \<noteq> None" if "(j, v, q) \<in> task_links ?c" for j v q
      using that isolated_owned [OF c, of j v q] unfolding same by blast
    show "(q, v) \<in> template_links ?c" if "(j, v, Some q) \<in> task_links ?c" for j v q
      using that isolated_bound [OF c, of j v q] unfolding same by blast
    show "(q, Some v) \<in> template_links ?c" if "(q, v) \<in> push_links ?c" for q v
      using that isolated_push [OF c, of q v] unfolding same by blast
    show "\<exists>v q. (j, Some v, q) \<in> task_links ?c \<and> (k, v) \<in> channel_links (base ?c)"
      if "(j, k) \<in> action_links (base ?c)" for j k
    proof (cases "(j, k) \<in> action_links (base c)")
      case True
      with isolated_action [OF c, of j k] show ?thesis unfolding same by blast
    next
      case False
      with that f obtain a where a: "a \<in> set (actions (base c))" "action_id a = i" "owns_task (base c) u (action_task_id a)"
        "j = action_task_id a" "k = h"
        by (auto simp: action_links_def set_update_where split: if_splits)
      from cur have "cur \<in> set (actions (base c))" "action_id cur = i"
        by (auto simp: get_notification_action_def find_Some_iff)
      with a c keyed_eq [of action_id] have "cur = a" by (fastforce simp: isolated_def ids_fresh_def)
      with a h False have "(k, u) \<in> channel_links (base c)" by (auto simp: action_links_def)
      moreover from a obtain p where "(j, Some u, p) \<in> task_links c" by (auto simp: owns_task_link)
      ultimately show ?thesis unfolding same by blast
    qed
  qed
  then show ?thesis
    using c by (auto simp: update_notification_action_def Let_def list_ex_iff channel_links_def split: option.split)
qed

section \<open>Calls that link nothing new\<close>

lemma isolated_create_push: "isolated c \<Longrightarrow> isolated (snd (create_push_request now u i remark c))"
proof (cases "get_template_for_owner i u c")
  case (Some t)
  have "isolated (c\<lparr>pushes := pushes c @ [p], next_push := n\<rparr>)"
    if c: "isolated c" and p: "push_template p = i" "push_owner p = u" for p n
  proof (rule isolatedI)
    let ?c = "c\<lparr>pushes := pushes c @ [p], next_push := n\<rparr>"
    have same: "task_links ?c = task_links c" "template_links ?c = template_links c" "base ?c = base c"
      "push_links ?c = insert (i, u) (push_links c)"
      using p by (simp_all add: links_defs)
    show "ids_fresh ?c" using c by (simp add: isolated_def ids_fresh_def)
    show "v \<noteq> None" if "(j, v, q) \<in> task_links ?c" for j v q
      using that isolated_owned [OF c, of j v q] unfolding same by blast
    show "(q, v) \<in> template_links ?c" if "(j, v, Some q) \<in> task_links ?c" for j v q
      using that isolated_bound [OF c, of j v q] unfolding same by blast
    show "\<exists>v q. (j, Some v, q) \<in> task_links ?c \<and> (h, v) \<in> channel_links (base ?c)"
      if "(j, h) \<in> action_links (base ?c)" for j h
      using that isolated_action [OF c, of j h] unfolding same by blast
    show "(q, Some v) \<in> template_links ?c" if "(q, v) \<in> push_links ?c" for q v
      using that isolated_push [OF c, of q v] get_template_links [OF Some] unfolding same by blast
  qed
  then show "isolated c \<Longrightarrow> isolated (snd (create_push_request now u i remark c))"
    using Some by (simp add: create_push_request_def Let_def split: option.split)
qed (simp add: create_push_request_def)

lemma isolated_subscription_calls:
  assumes "isolated c"
  shows "isolated (snd (create_subscription now u name url c))" "isolated (snd (update_subscription now i u name_in url_in b c))"
    "isolated (snd (delete_subscription i u c))" "isolated (snd (record_template_import sid tid entry version c))"
  by (rule isolated_quiet [OF assms]; simp add: quiet_defs create_subscription_def update_subscription_def
      delete_subscription_def record_template_import_def Let_def split: sum.split option.split)+

text \<open>A call of the run queue, and the ledger, leave the tables that link accounts alone.\<close>

definition same_owners :: "db \<Rightarrow> db \<Rightarrow> bool" where
  "same_owners db db2 \<longleftrightarrow> map (\<lambda>t. (task_id t, owner_id t, task_template_id t)) (tasks db2)
       = map (\<lambda>t. (task_id t, owner_id t, task_template_id t)) (tasks db)
     \<and> channels db2 = channels db \<and> next_channel db2 = next_channel db \<and> actions db2 = actions db \<and> next_action db2 = next_action db"

lemma keyed_map: "map key rs2 = map key rs \<Longrightarrow> keyed key n rs2 \<longleftrightarrow> keyed key n rs"
proof -
  assume m: "map key rs2 = map key rs"
  then have "key ` set rs2 = key ` set rs" by (metis list.set_map)
  with m show ?thesis unfolding keyed_def by (metis (no_types, lifting) imageE image_eqI)
qed

lemma isolated_same_owners:
  assumes "isolated c" "same_owners (base c) db2"
  shows "isolated (c\<lparr>base := db2\<rparr>)"
proof (rule isolated_quiet [OF assms(1)])
  have m: "map (\<lambda>t. (task_id t, owner_id t, task_template_id t)) (tasks db2)
      = map (\<lambda>t. (task_id t, owner_id t, task_template_id t)) (tasks_of c)"
    using assms(2) by (simp add: same_owners_def)
  have "(\<lambda>t. (task_id t, owner_id t, task_template_id t)) ` set (tasks db2)
      = (\<lambda>t. (task_id t, owner_id t, task_template_id t)) ` set (tasks_of c)"
    using arg_cong [OF m, of set] by (simp only: list.set_map)
  with assms(2) show "same_links c (c\<lparr>base := db2\<rparr>)"
    by (simp add: same_links_def links_defs same_owners_def)
  have "map task_id (tasks db2) = map task_id (tasks_of c)"
    using arg_cong [OF m, of "map fst"] by (simp add: comp_def)
  then have "keyed task_id (next_task c) (tasks db2) = keyed task_id (next_task c) (tasks_of c)"
    by (rule keyed_map)
  with assms(2) show "ids_fresh c \<Longrightarrow> ids_fresh (c\<lparr>base := db2\<rparr>)"
    by (simp add: ids_fresh_def same_owners_def)
qed

lemma same_owners_refl [simp]: "same_owners db db"
  by (simp add: same_owners_def)

lemma same_owners_runs [simp]: "same_owners db (db\<lparr>runs := rs, next_run := n\<rparr>)" "same_owners db (db\<lparr>runs := rs\<rparr>)"
  "same_owners db (db\<lparr>deliveries := ds, steps := ss, runs := rs\<rparr>)" "same_owners db (db\<lparr>steps := ss, next_step := m\<rparr>)"
  "same_owners db (db\<lparr>deliveries := ds, next_delivery := m\<rparr>)"
  by (simp_all add: same_owners_def)

lemma same_owners_trans: "same_owners a b \<Longrightarrow> same_owners b c \<Longrightarrow> same_owners a c"
  by (simp add: same_owners_def)

lemma same_owners_enqueue [simp]: "same_owners db (snd (enqueue_run now t db))"
  by (simp add: enqueue_run_def enqueue_run_with_trigger_def insert_unless_active_def insert_run_def)

lemma same_owners_batch_run: "same_owners db (snd (batch_run now u ids db))"
proof (induction ids arbitrary: db)
  case (Cons i ids)
  have "same_owners db db1" if "enqueue_run now i db = (r, db1)" for r db1
    using same_owners_enqueue [of db now i] that by simp
  moreover have "same_owners db1 db2" if "batch_run now u ids db1 = (r, db2)" for r db1 db2
    using Cons.IH [of db1] that by simp
  ultimately show ?case using Cons.IH
    by (auto split: prod.split sum.split intro: same_owners_trans)
qed simp

section \<open>Reachable catalogs\<close>

text \<open>
  One step is a call for an account \<open>u\<close> (the handlers pass the account of the session), a decision by an
  administrator, the deletion of an account, or any call of the run queue and the ledger.
\<close>

inductive catalog_step :: "catalog \<Rightarrow> catalog \<Rightarrow> bool" where
  task_created: "catalog_step c (snd (create_with_owner L now (Some u) task c))"
| task_updated: "catalog_step c (snd (update_for_optional_owner L now i (Some u) change c))"
| task_deleted: "catalog_step c (c\<lparr>base := snd (delete_task_rows i (Some u) (base c))\<rparr>)"
| task_batch: "catalog_step c (snd (batch_operations_for_owner now u ids op c))"
| template_created: "catalog_step c (snd (create_template_with_owner now (Some u) name d df g c))"
| template_imported: "catalog_step c (snd (import_qd_har_with_owner L now (Some u) name d har c))"
| template_edited: "catalog_step c (snd (update_template_with_owner now i (Some u) name_in d df_in g_in c))"
| har_edited: "catalog_step c (snd (update_qd_har_for_owner L now i u name d har c))"
| template_deleted: "catalog_step c (snd (delete_template i u c))"
| template_published: "catalog_step c (snd (set_template_published now i u b c))"
| template_copied: "catalog_step c (snd (copy_public_template now i u c))"
| subscribed: "catalog_step c (snd (create_subscription now u name url c))"
| subscription_updated: "catalog_step c (snd (update_subscription now i u name_in url_in b_in c))"
| unsubscribed: "catalog_step c (snd (delete_subscription i u c))"
| import_recorded: "catalog_step c (snd (record_template_import sid tid entry version c))"
| push_requested: "catalog_step c (snd (create_push_request now u i remark c))"
| push_decided: "catalog_step c (snd (decide_push_request now i admin b remark c))"
| channel_created: "catalog_step c (c\<lparr>base := snd (create_notification_channel N now u name kind config b (base c))\<rparr>)"
| channel_updated: "catalog_step c (c\<lparr>base := snd (update_notification_channel N now i u name_in config_in b_in (base c))\<rparr>)"
| channel_deleted: "catalog_step c (c\<lparr>base := snd (delete_notification_channel i u (base c))\<rparr>)"
| action_created: "catalog_step c (c\<lparr>base := snd (create_notification_action now tid u act (base c))\<rparr>)"
| actions_created: "catalog_step c (c\<lparr>base := snd (create_notification_actions_for_tasks now u tids act (base c))\<rparr>)"
| action_updated: "catalog_step c (c\<lparr>base := snd (update_notification_action i u act_change (base c))\<rparr>)"
| action_deleted: "catalog_step c (c\<lparr>base := snd (delete_notification_action i u (base c))\<rparr>)"
| actions_deleted: "catalog_step c (c\<lparr>base := snd (delete_notification_actions_for_task tid u (base c))\<rparr>)"
| account_deleted: "catalog_step c (snd (delete_account_catalog u c))"
| run_queue: "same_owners (base c) db2 \<Longrightarrow> catalog_step c (c\<lparr>base := db2\<rparr>)"

definition empty_catalog :: "bool \<Rightarrow> catalog" where
  "empty_catalog fk = \<lparr>base = empty_db fk [], next_task = 1, templates = [], next_template = 1, subscriptions = [],
     next_subscription = 1, template_imports = [], pushes = [], next_push = 1\<rparr>"

inductive catalog_reach :: "catalog \<Rightarrow> bool" where
  fresh: "catalog_reach (empty_catalog fk)"
| step: "catalog_reach c \<Longrightarrow> catalog_step c c2 \<Longrightarrow> catalog_reach c2"

lemma isolated_batch: "isolated c \<Longrightarrow> isolated (snd (batch_operations_for_owner now u ids op c))"
proof -
  assume c: "isolated c"
  have "isolated (c\<lparr>base := snd (batch_run now u ids (base c))\<rparr>)"
    by (rule isolated_same_owners [OF c same_owners_batch_run])
  with c show ?thesis
    by (simp add: batch_operations_for_owner_def split_beta isolated_batch_disable isolated_batch_delete)
qed

lemma isolated_step: "catalog_step c c2 \<Longrightarrow> isolated c \<Longrightarrow> isolated c2"
proof (induction rule: catalog_step.induct)
  case action_deleted
  then show ?case by (simp add: delete_notification_action_def split_beta isolated_delete_actions)
next
  case actions_deleted
  then show ?case by (simp add: delete_notification_actions_for_task_def isolated_delete_actions)
qed (simp_all add: isolated_create_task isolated_update_task isolated_delete_task isolated_batch isolated_create_template
    isolated_import isolated_update_template isolated_update_har isolated_delete_template isolated_publish isolated_copy
    isolated_subscription_calls isolated_create_push isolated_decide isolated_create_channel isolated_update_channel
    isolated_delete_channel isolated_create_action isolated_create_actions isolated_update_action isolated_delete_account
    isolated_same_owners)

lemma reach_isolated: "catalog_reach c \<Longrightarrow> isolated c"
proof (induction rule: catalog_reach.induct)
  case (fresh fk)
  show ?case by (rule isolatedI) (simp_all add: empty_catalog_def empty_db_def ids_fresh_def links_defs)
qed (rule isolated_step)

end
