(* ===== verification/CatalogThms.thy ===== *)
theory CatalogThms
  imports CatalogProps HarThms
begin

text \<open>
  What the isolation of accounts gives: the unscoped lookups of the worker find rows of the right
  account, an account can always be deleted and leaves nothing behind; and how a template is published.
\<close>

section \<open>A small catalog\<close>

definition sample_har :: har_log where
  "sample_har = \<lparr>log_version = lit ''1.2'', log_entries = [bare_entry]\<rparr>"

definition any_lib :: catalog_lib where
  "any_lib = \<lparr>parse_cron = (\<lambda>_. Inr ()), parse_task_url = (\<lambda>_. Inr ()), parse_timezone = (\<lambda>_. Inr ()),
     to_uppercase = (\<lambda>s. s), debug_text = (\<lambda>s. s), sql_like = (\<lambda>_ _. True), har_refusal = (\<lambda>_. [])\<rparr>"

lemma any_lib_sel [simp]: "parse_cron any_lib s = Inr ()" "to_uppercase any_lib s = s"
  "parse_qd r bare_document = Inr sample_har"
  by (simp_all add: any_lib_def parse_bare sample_har_def)

definition any_urls :: url_lib where
  "any_urls = \<lparr>scheme_of = (\<lambda>_. Some (lit ''https'')), is_method = (\<lambda>_. True)\<rparr>"

definition bound_input :: create_task where
  "bound_input = \<lparr>ct_name = lit ''t'', ct_cron = lit ''c'', ct_method = None, ct_url = [], ct_headers = [], ct_body = None,
     ct_disabled = False, ct_template_id = Some 1, ct_grp = None, ct_timeout_seconds = None, ct_retry_count = None,
     ct_retry_interval_seconds = None, ct_priority = None, ct_timezone = None, ct_random_delay_max_seconds = None,
     ct_variables = None\<rparr>"

definition binding_input :: create_action where
  "binding_input = \<lparr>new_channel = 1, new_event = lit ''always'', new_threshold = 1, new_automatic = False, new_title = None,
     new_body = None\<rparr>"

text \<open>Account 7 imports a template, binds a task to it and a channel to the task.\<close>

definition catalog1 :: catalog where
  "catalog1 = snd (import_qd_har_with_owner any_lib 5 (Some 7) (lit ''h'') None bare_document (empty_catalog True))"

definition catalog2 :: catalog where
  "catalog2 = snd (create_with_owner any_lib 5 (Some 7) bound_input catalog1)"

definition catalog3 :: catalog where
  "catalog3 = catalog2\<lparr>base := snd (create_notification_channel any_urls 5 7 (lit ''n'') (lit ''bark'') (JObj []) True (base catalog2))\<rparr>"

definition catalog4 :: catalog where
  "catalog4 = catalog3\<lparr>base := snd (create_notification_action 5 1 7 binding_input (base catalog3))\<rparr>"

lemma catalog1_reach: "catalog_reach catalog1"
  unfolding catalog1_def by (intro catalog_reach.step [OF _ template_imported] catalog_reach.fresh)

lemma catalog4_reach: "catalog_reach catalog4"
  unfolding catalog4_def catalog3_def catalog2_def
  by (intro catalog_reach.step [OF _ action_created] catalog_reach.step [OF _ channel_created]
      catalog_reach.step [OF _ task_created] catalog1_reach)

lemmas trim_defs = trim_by_def trim_start_by_def trim_end_by_def is_ws_def

definition template1 :: template_row where
  "template1 = (new_template 5 (Some 7) (lit ''h'') None (QdHar bare_document))\<lparr>tpl_id := 1\<rparr>"

lemma catalog1_eq: "catalog1 = (empty_catalog True)\<lparr>templates := [template1], next_template := 2\<rparr>"
  by (simp add: catalog1_def import_qd_har_with_owner_def validate_template_name_def trim_defs insert_template_def
      empty_catalog_def template1_def Let_def)

definition task1 :: task_row where
  "task1 = task_of_input 5 1 (Some 7) (lit ''GET'') (lit ''http://a/'') bound_input"

lemma mirror1: "template_mirror_request any_lib template1 = Some (lit ''GET'', lit ''http://a/'')"
  by (simp add: template_mirror_request_def template1_def new_template_def enabled_entries_def)
    (simp add: sample_har_def bare_entry_def)

lemma found1: "get_template_for_owner 1 7 catalog1 = Some template1"
  by (simp add: catalog1_eq get_template_for_owner_def) (simp add: template1_def new_template_def)

lemma resolved1: "resolve_task_request any_lib (Some 7) (Some 1) None (Some []) None catalog1 = Inr (lit ''GET'', lit ''http://a/'')"
  using mirror1 by (simp add: resolve_task_request_def find_task_template_def found1 trim_defs Let_def)

lemma catalog2_eq: "catalog2 = catalog1\<lparr>base := (empty_db True [])\<lparr>tasks := [task1]\<rparr>, next_task := 2\<rparr>"
proof -
  have v: "validate_task any_lib (lit ''t'') (lit ''c'') None None = Inr ()"
    by (simp add: validate_task_def trim_defs)
  have "next_task catalog1 = 1" "tasks_of catalog1 = []" "base catalog1 = empty_db True []"
    by (simp_all add: catalog1_eq empty_catalog_def empty_db_def)
  with resolved1 v show ?thesis
    by (simp add: catalog2_def create_with_owner_def bound_input_def task1_def Let_def split: option.split)
qed

definition channel1 :: notification_channel where
  "channel1 = \<lparr>channel_id = 1, channel_owner = 7, channel_name = lit ''n'', channel_kind = lit ''bark'', channel_config = JObj [],
     channel_enabled = True, channel_created_at = 5, channel_updated_at = 5\<rparr>"

definition action1 :: notification_action where
  "action1 = \<lparr>action_id = 1, action_task_id = 1, action_channel_id = 1, action_event = lit ''always'', failure_threshold = 1,
     automatic_only = False, title_template = None, body_template = None, action_created_at = 5\<rparr>"

lemma task1_sel: "task_id task1 = 1" "owner_id task1 = Some 7" "task_template_id task1 = Some 1"
  by (simp_all add: task1_def task_of_input_def bound_input_def)

lemma catalog3_eq: "catalog3 = catalog2\<lparr>base := (base catalog2)\<lparr>channels := [channel1], next_channel := 2\<rparr>\<rparr>"
  by (simp add: catalog3_def catalog2_eq create_notification_channel_def validate_notification_def trim_defs
      is_push_channel_def CHANNEL_KINDS_def as_object_def empty_db_def Let_def channel1_def split: option.split)

lemma catalog4_eq: "catalog4 = catalog3\<lparr>base := (base catalog3)\<lparr>actions := [action1], next_action := 2\<rparr>\<rparr>"
  by (simp add: catalog4_def create_notification_action_def valid_event_def binding_input_def Let_def)
    (simp add: catalog3_eq catalog2_eq empty_db_def task1_sel channel1_def action1_def)

lemmas catalog_eqs = catalog4_eq catalog3_eq catalog2_eq

section \<open>Isolation\<close>

text \<open>
  C24.  Whatever the accounts do, a task runs a template of its own account, a binding leads from a task to a
  channel of the same account, and a publication request is about a template of the account that made it.
\<close>

theorem accounts_isolated:
  assumes "catalog_reach c"
  shows "isolated c"
  using assms by (rule reach_isolated)

theorem accounts_isolated_witness: "isolated catalog4 \<and> actions (base catalog4) = [action1] \<and> tasks_of catalog4 = [task1]"
  using accounts_isolated [OF catalog4_reach] by (simp add: catalog_eqs)

text \<open>
  The worker looks a task's template up by its id alone; it finds exactly the template that the lookup
  restricted to the account of the task finds, and there is one.
\<close>

theorem worker_finds_own_template:
  assumes "catalog_reach c" "t \<in> set (tasks_of c)" "task_template_id t = Some i"
  shows "\<exists>u p. owner_id t = Some u \<and> get_template i c = Some p \<and> get_template_for_owner i u c = Some p"
proof -
  note c = reach_isolated [OF assms(1)]
  have l: "(task_id t, owner_id t, Some i) \<in> task_links c" using row_links(1) [OF assms(2)] assms(3) by simp
  then obtain u where u: "owner_id t = Some u" using isolated_owned [OF c] by blast
  from isolated_bound [OF c l] u obtain p where p: "p \<in> set (templates c)" "tpl_id p = i" "tpl_owner p = Some u"
    by (auto simp: template_links_def)
  have k: "keyed tpl_id (next_template c) (templates c)" using c by (simp add: isolated_def ids_fresh_def)
  have g: "get_template i c = Some p" using find_keyed [OF k p(1)] p(2) by (simp add: get_template_def)
  have "get_template_for_owner i u c \<noteq> None"
    using p by (auto simp: get_template_for_owner_def find_None_iff)
  then obtain q where q: "get_template_for_owner i u c = Some q" by blast
  then have "q \<in> set (templates c)" "tpl_id q = i" by (auto simp: get_template_for_owner_def find_Some_iff)
  with keyed_eq [OF k p(1), of q] p(2) have "q = p" by simp
  with u g q show ?thesis by blast
qed

theorem worker_finds_own_template_witness: "get_template 1 catalog4 = Some template1 \<and> owner_id task1 = Some 7"
proof -
  have "task1 \<in> set (tasks_of catalog4)" by (simp add: catalog_eqs)
  moreover have "task_template_id task1 = Some 1" by (rule task1_sel)
  ultimately obtain u p where "owner_id task1 = Some u" "get_template 1 catalog4 = Some p"
    using worker_finds_own_template [OF catalog4_reach] by blast
  then show ?thesis
    by (simp add: get_template_def catalog_eqs catalog1_eq task1_sel split: if_splits)
qed

text \<open>
  A finished run of a task notifies only enabled channels of the task's own account, each through a binding
  of the task for that event.
\<close>

theorem notified_channels_own:
  assumes "catalog_reach c" "notification_channels_for_event (task_id t) event (base c) = Inr hs" "(h, a) \<in> set hs"
    "t \<in> set (tasks_of c)"
  shows "owner_id t = Some (channel_owner h) \<and> channel_enabled h \<and> action_task_id a = task_id t
    \<and> action_event a \<in> {event, lit ''always''}"
proof -
  note c = reach_isolated [OF assms(1)]
  from assms(2,3) have a: "a \<in> set (actions (base c))" "action_task_id a = task_id t" "action_event a \<in> {event, lit ''always''}"
    and h: "h \<in> set (channels (base c))" "channel_id h = action_channel_id a" "channel_enabled h"
    by (auto simp: notification_channels_for_event_def res_simps)
  have "(task_id t, action_channel_id a) \<in> action_links (base c)" using a by (force simp: action_links_def)
  then obtain u p where l: "(task_id t, Some u, p) \<in> task_links c" "(action_channel_id a, u) \<in> channel_links (base c)"
    using isolated_action [OF c] by blast
  then obtain g where g: "g \<in> set (channels (base c))" "channel_id g = channel_id h" "channel_owner g = u"
    using h(2) by (auto simp: channel_links_def)
  have "keyed channel_id (next_channel (base c)) (channels (base c))" using c by (simp add: isolated_def ids_fresh_def)
  from keyed_eq [OF this g(1) h(1)] g have "channel_owner h = u" by simp
  moreover have "owner_id t = Some u" using keyed_link [OF c row_links(1) [OF assms(4)] l(1)] by simp
  ultimately show ?thesis using a h by simp
qed

theorem notified_channels_own_witness:
  "notification_channels_for_event 1 (lit ''failure'') (base catalog4) = Inr [(channel1, action1)] \<and> owner_id task1 = Some 7"
proof -
  have e: "notification_channels_for_event (task_id task1) (lit ''failure'') (base catalog4) = Inr [(channel1, action1)]"
    by (simp add: notification_channels_for_event_def catalog_eqs channel1_def action1_def task1_sel)
  have "task1 \<in> set (tasks_of catalog4)" by (simp add: catalog_eqs)
  from notified_channels_own [OF catalog4_reach e _ this, of channel1 action1] e show ?thesis
    by (simp add: channel1_def task1_sel)
qed

section \<open>Deleting an account\<close>

lemma action_owner:
  assumes c: "isolated c" and a: "a \<in> set (actions (base c))"
    and h: "h \<in> set (channels (base c))" "channel_id h = action_channel_id a" "channel_owner h = u"
  shows "owns_task (base c) u (action_task_id a)"
proof -
  have "(action_task_id a, action_channel_id a) \<in> action_links (base c)" using a by (auto simp: action_links_def)
  then obtain v p where l: "(action_task_id a, Some v, p) \<in> task_links c" "(action_channel_id a, v) \<in> channel_links (base c)"
    using isolated_action [OF c] by blast
  then obtain g where g: "g \<in> set (channels (base c))" "channel_id g = channel_id h" "channel_owner g = v"
    using h(2) by (auto simp: channel_links_def)
  have "keyed channel_id (next_channel (base c)) (channels (base c))" using c by (simp add: isolated_def ids_fresh_def)
  from keyed_eq [OF this g(1) h(1)] g h l show ?thesis by (auto simp: owns_task_link)
qed

lemma foreign_binding:
  assumes c: "isolated c" and t: "t \<in> set (tasks_of c)" "owner_id t \<noteq> Some u" "task_template_id t = Some i"
  shows "\<not> list_ex (\<lambda>p. tpl_id p = i \<and> tpl_owner p = Some u) (templates c)"
proof
  assume "list_ex (\<lambda>p. tpl_id p = i \<and> tpl_owner p = Some u) (templates c)"
  then have "(i, Some u) \<in> template_links c" by (force simp: list_ex_iff template_links_def)
  moreover have "(i, owner_id t) \<in> template_links c"
    using isolated_bound [OF c] row_links(1) [OF t(1)] t(3) by metis
  ultimately show False using keyed_template_link [OF c] t(2) by metis
qed



section \<open>Publication\<close>

text \<open>
  Publishing needs no approved request: the owner's own call makes the template public, whatever
  requests there are, and any account can copy it from then on.
\<close>

theorem published_without_approval:
  assumes "catalog_reach c" "get_template_for_owner i u c = Some t"
  shows "\<exists>c2 copy. set_template_published now i u True c = (True, c2) \<and> pushes c2 = pushes c
    \<and> fst (copy_public_template later i v c2) = Some copy \<and> tpl_owner copy = Some v \<and> tpl_source copy = tpl_source t"
proof -
  let ?hit = "\<lambda>t. tpl_id t = i \<and> tpl_owner t = Some u"
  let ?f = "\<lambda>t. t\<lparr>tpl_published := True, tpl_updated_at := now\<rparr>"
  let ?c2 = "c\<lparr>templates := update_where ?hit ?f (templates c)\<rparr>"
  have k: "keyed tpl_id (next_template c) (templates c)"
    using reach_isolated [OF assms(1)] by (simp add: isolated_def ids_fresh_def)
  then have k2: "keyed tpl_id (next_template c) (templates ?c2)"
    by (simp add: publication.keyed_after)
  from assms(2) have t: "t \<in> set (templates c)" "?hit t"
    by (auto simp: get_template_for_owner_def find_Some_iff)
  then have ft: "?f t \<in> set (templates ?c2)" by (auto simp: set_update_where intro!: image_eqI [of _ _ t])
  have "find (\<lambda>x. tpl_id x = i \<and> tpl_published x) (templates ?c2) \<noteq> None"
    unfolding find_None_iff using t(2) by (intro notI) (erule notE, rule exI [of _ "?f t"], insert ft, simp)
  then obtain x where x: "find (\<lambda>x. tpl_id x = i \<and> tpl_published x) (templates ?c2) = Some x" by blast
  then have "x \<in> set (templates ?c2)" "tpl_id x = i" by (auto simp: find_Some_iff)
  with t(2) have xt: "x = ?f t" by (intro keyed_eq [OF k2 _ ft]) simp_all
  let ?n = "(new_template later (Some v) (tpl_name x @ lit '' (copy)'') (tpl_description x) (tpl_source x))
      \<lparr>tpl_id := next_template c, tpl_schema_version := tpl_schema_version x\<rparr>"
  have none: "find (\<lambda>y. tpl_id y = next_template c \<and> tpl_owner y = Some v) (templates ?c2) = None"
    using k2 by (force simp: find_None_iff keyed_def)
  have "fst (copy_public_template later i v ?c2) = Some ?n"
    using x none by (simp add: copy_public_template_def Let_def get_template_for_owner_def find_append new_template_def)
  moreover have "set_template_published now i u True c = (True, ?c2)"
    using t by (auto simp: set_template_published_def Let_def affected_pos)
  ultimately show ?thesis using xt by (simp add: new_template_def)
qed

theorem published_without_approval_witness:
  "\<exists>c2 copy. set_template_published 6 1 7 True catalog1 = (True, c2) \<and> pushes c2 = []
     \<and> fst (copy_public_template 9 1 8 c2) = Some copy \<and> tpl_source copy = QdHar bare_document"
proof -
  have "pushes catalog1 = []" "tpl_source template1 = QdHar bare_document"
    by (simp_all add: catalog1_eq empty_catalog_def template1_def new_template_def)
  with published_without_approval [OF catalog1_reach found1, of 6 9 8] show ?thesis by metis
qed

end
