(* ===== verification/Scheduler.thy ===== *)
theory Scheduler
  imports Catalog
begin

text \<open>
  The scheduler (\<open>crates/qdrust-server/src/scheduler.rs\<close>): which tasks are due, what a claimed run executes,
  how its events become steps and a trace, what its outcome writes to the store, whom it notifies, and
  when it is tried again.

  \<open>server\<close> is what a run changes: the catalog, the defaults of the accounts, the events broadcast, and the
  world outside.  \<open>scheduler\<close> holds what does not change during a run: the expression engine, the
  executor's and the server's view of the world, settings, mail, and the clock's printers and parsers.
  An instant is passed for each \<open>Utc::now()\<close>; the calls of one conclusion share theirs.  The plugins and the
  notepad of a run depend on the owner of its task alone, so \<open>sc_outside\<close> takes the owner.
\<close>

section \<open>Texts\<close>

text \<open>
  \<open>valid_time\<close>: the seconds \<open>timestamp_opt\<close> accepts; \<open>local_text\<close>: a moment in a zone, to the second;
  \<open>schedule_of\<close>: a cron expression that parses, as the next moment strictly after one in a zone.
\<close>

record clock_lib =
  valid_time :: "int \<Rightarrow> bool"
  zone_of :: "ustr \<Rightarrow> ustr option"
  local_text :: "ustr \<Rightarrow> int \<Rightarrow> ustr"
  schedule_of :: "ustr \<Rightarrow> (ustr \<Rightarrow> int \<Rightarrow> int option) option"

definition UTC :: ustr where "UTC = lit ''UTC''"

definition format_trace_time :: "clock_lib \<Rightarrow> int \<Rightarrow> ustr" where
  "format_trace_time C t = (if valid_time C t then local_text C UTC t @ lit '' UTC'' else int_to_str t)"

definition format_notification_time :: "clock_lib \<Rightarrow> int \<Rightarrow> ustr option \<Rightarrow> ustr" where
  "format_notification_time C t tz =
     (let zone = (case Option.bind tz (zone_of C) of Some z \<Rightarrow> z | None \<Rightarrow> UTC) in
      if valid_time C t then local_text C zone t else [])"

definition MAX_ERROR_CHARS :: nat where "MAX_ERROR_CHARS = 4096"

definition bounded_error :: "ustr \<Rightarrow> ustr" where
  "bounded_error msg = take MAX_ERROR_CHARS msg @ (if MAX_ERROR_CHARS < length msg then lit ''...'' else [])"

definition truncate_name :: "ustr \<Rightarrow> nat \<Rightarrow> ustr" where
  "truncate_name name n = take n name @ (if n < length name then lit ''...'' else [])"

definition step_outcome :: "execution_event \<Rightarrow> ustr" where
  "step_outcome e = (case ev_error e of
      Some err \<Rightarrow> lit ''failed'' @ (case ev_status e of None \<Rightarrow> [] | Some v \<Rightarrow> lit '' (HTTP '' @ nat_to_str v @ lit '')'') @ lit '': '' @ err
    | None \<Rightarrow> (case ev_status e of None \<Rightarrow> [] | Some v \<Rightarrow> lit ''HTTP '' @ nat_to_str v @ [32, 0xB7, 32])
        @ nat_to_str (ev_body_size e) @ lit '' bytes '' @ [0xB7] @ lit '' succeeded'')"

definition indent :: ustr where "indent = [10] @ replicate 8 32"

definition format_trace_step :: "clock_lib \<Rightarrow> execution_event \<Rightarrow> int \<Rightarrow> int \<Rightarrow> ustr" where
  "format_trace_step C e started_at finished_at =
     lit ''step '' @ nat_to_str (ev_step_index e + 1) @ lit ''  '' @ ev_method e @ lit '' '' @ redact (ev_url e)
     @ indent @ lit ''started:  '' @ format_trace_time C started_at
     @ indent @ lit ''finished: '' @ format_trace_time C finished_at
     @ indent @ step_outcome e"

definition MAX_TRACE_BYTES :: nat where "MAX_TRACE_BYTES = 256 * 1024"

text \<open>\<open>truncate\<close> at the last character boundary that is not beyond the limit.\<close>

fun take_bytes :: "nat \<Rightarrow> ustr \<Rightarrow> ustr" where
  "take_bytes n [] = []"
| "take_bytes n (c # s) = (if len_utf8 c \<le> n then c # take_bytes (n - len_utf8 c) s else [])"

definition format_trace :: "ustr list \<Rightarrow> ustr \<Rightarrow> ustr" where
  "format_trace ss err =
     (let trace = (if ss = [] then lit ''No request step completed before the failure.'' @ [10, 10] @ err
                   else join [10, 10] ss @ [10, 10] @ lit ''error:'' @ [10] @ err)
      in if MAX_TRACE_BYTES < byte_len trace then take_bytes MAX_TRACE_BYTES trace @ [10, 10] @ lit ''[trace truncated]'' else trace)"

section \<open>Due tasks\<close>

definition due :: "clock_lib \<Rightarrow> int \<Rightarrow> int \<Rightarrow> ustr \<Rightarrow> task_row \<Rightarrow> bool" where
  "due C now interval default_tz t =
     (if disabled t then False
      else case schedule_of C (cron t) of None \<Rightarrow> False
      | Some next_after \<Rightarrow>
        let zone = (case Option.bind (timezone t) (zone_of C) of Some z \<Rightarrow> z | None \<Rightarrow> default_tz);
            since = (case last_run_at t of
               Some s \<Rightarrow> if 0 < s \<and> valid_time C s then s else now - interval
             | None \<Rightarrow> now - interval)
        in (case next_after zone since of None \<Rightarrow> False | Some m \<Rightarrow> m \<le> now))"

definition MAX_RANDOM_DELAY :: int where "MAX_RANDOM_DELAY = 604800"

text \<open>\<open>jitter t m\<close> is the delay drawn from \<open>0..=m\<close> for a task.  The error of an enqueue is dropped.\<close>

definition enqueue_due :: "(task_row \<Rightarrow> int \<Rightarrow> int) \<Rightarrow> int \<Rightarrow> task_row \<Rightarrow> db \<Rightarrow> db" where
  "enqueue_due jitter now t db =
     (let max_delay = or_else (random_delay_max_seconds t) 0 in
      snd (if 0 < max_delay then enqueue_delayed_run now (task_id t) (jitter t (min max_delay MAX_RANDOM_DELAY)) db
           else enqueue_run_with_trigger now (task_id t) (lit ''scheduled'') db))"

definition scheduler_tick :: "clock_lib \<Rightarrow> (task_row \<Rightarrow> int \<Rightarrow> int) \<Rightarrow> int \<Rightarrow> int \<Rightarrow> ustr \<Rightarrow> db \<Rightarrow> db" where
  "scheduler_tick C jitter now interval default_tz db =
     fold (enqueue_due jitter now) (filter (due C now interval default_tz) (sort_key task_id (tasks db))) db"

text \<open>The retention of the logs: a positive site setting wins over the environment.\<close>

definition retention_days :: "json option \<Rightarrow> nat \<Rightarrow> nat" where
  "retention_days setting env_days = (case Option.bind setting as_i64 of
      Some d \<Rightarrow> if 0 < d then nat d else env_days | None \<Rightarrow> env_days)"

definition maintain_logs :: "int \<Rightarrow> json option \<Rightarrow> nat \<Rightarrow> db \<Rightarrow> db" where
  "maintain_logs now setting env_days db =
     (let n = retention_days setting env_days in
      if 0 < n then snd (prune_run_logs (now - int n * 86400) 0 db) else db)"

section \<open>What a run executes\<close>

record run_policy =
  rp_timeout :: nat
  rp_private :: bool
  rp_certs :: bool

definition run_policy_of :: "int option \<Rightarrow> runtime_settings \<Rightarrow> run_policy" where
  "run_policy_of timeout st =
     \<lparr>rp_timeout = (case timeout of Some v \<Rightarrow> if 0 < v then nat v else 30 | None \<Rightarrow> 30),
      rp_private = allow_private_network st, rp_certs = allow_invalid_certificates st\<rparr>"

definition scalar_text :: "json \<Rightarrow> json option" where
  "scalar_text v = (case v of JStr s \<Rightarrow> Some (JStr s) | JNum n \<Rightarrow> Some (JStr (jnum_to_str n))
     | JBool b \<Rightarrow> Some (JStr (if b then lit ''true'' else lit ''false'')) | _ \<Rightarrow> None)"

definition task_variables :: "task_row \<Rightarrow> vars" where
  "task_variables t = (case task_variables_json t of
      Some (JObj m) \<Rightarrow> (\<lambda>k. Option.bind (map_of m k) scalar_text) | _ \<Rightarrow> (\<lambda>_. None))"

definition render_plain :: "engine \<Rightarrow> ustr \<Rightarrow> vars \<Rightarrow> error + ustr" where
  "render_plain en source vs = (if \<not> contains_sub (lit ''{{'') source then Inr source else en_render en source vs)"

definition render_or_keep :: "engine \<Rightarrow> vars \<Rightarrow> ustr \<Rightarrow> ustr" where
  "render_or_keep en vs v = (case render_plain en v vs of Inr s \<Rightarrow> s | Inl _ \<Rightarrow> v)"

definition execute_plain_task :: "engine \<Rightarrow> 'w outworld \<Rightarrow> outbound_http \<Rightarrow> task_row \<Rightarrow> vars \<Rightarrow> run_policy \<Rightarrow> ('w, nat) serr" where
  "execute_plain_task en W h t vs policy =
     sbind (sread (\<lambda>_. ow_method W (task_method t))) (\<lambda>method.
     sbind (sread (\<lambda>_. render_plain en (task_url t) vs)) (\<lambda>target.
     sbind (send_with_timeout W h (rp_timeout policy) \<lparr>or_method = method, or_url = target, or_query = [],
         or_headers = (case as_object (task_headers t) of None \<Rightarrow> []
           | Some hs \<Rightarrow> List.map_filter (\<lambda>(n, v). map_option (\<lambda>s. (n, render_or_keep en vs s)) (as_str v)) hs),
         or_body = (case task_body t of None \<Rightarrow> NoBody | Some b \<Rightarrow> TextBody (render_or_keep en vs b))\<rparr> (\<lambda>e. e)) (\<lambda>r.
     sret (os_status r))))"

text \<open>
  A cancelled or overdue execution is dropped where it waits: its error, the events it had sent, and the world
  it leaves.
\<close>

record 'w halt =
  ht_cancelled :: bool
  ht_events :: nat
  ht_world :: 'w

definition interruptible :: "'w halt option \<Rightarrow> ('w run, 'a) serr \<Rightarrow> ('w run, 'a) serr" where
  "interruptible halt m s = (case halt of None \<Rightarrow> m s
     | Some h \<Rightarrow> (Inl [if ht_cancelled h then lit ''execution cancelled'' else lit ''execution deadline exceeded''],
         s\<lparr>rn_events := take (ht_events h) (rn_events (snd (m s))), rn_world := ht_world h\<rparr>))"

definition run_options :: "run_policy \<Rightarrow> executor_options" where
  "run_options policy = default_options\<lparr>eo_timeout := rp_timeout policy, eo_allow_private := rp_private policy,
     eo_allow_invalid_certs := rp_certs policy\<rparr>"

text \<open>\<open>QdProgram::compile\<close> always returns (\<open>compile_program_total\<close>), so its fuel is never used up.\<close>

definition compile_har :: "har_log \<Rightarrow> error + qd_block list" where
  "compile_har d = (case compile_program d of Some r \<Rightarrow> r | None \<Rightarrow> Inl [])"

definition run_template :: "(json \<Rightarrow> ustr) \<Rightarrow> 'w halt option \<Rightarrow> ('w, 'enc) executor \<Rightarrow> template_source \<Rightarrow> ('w run, step_result list) serr" where
  "run_template refusal halt X source = (case source of
      QdHar raw \<Rightarrow> sbind (sread (\<lambda>_. rbind (har_parse refusal raw) compile_har)) (\<lambda>blocks. interruptible halt (execute X blocks))
    | Native d \<Rightarrow> interruptible halt (execute_template X d))"

definition execute_template_with_observer :: "engine \<Rightarrow> ('w, 'enc) outside \<Rightarrow> (json \<Rightarrow> ustr) \<Rightarrow> run_policy \<Rightarrow> bool
    \<Rightarrow> 'w halt option \<Rightarrow> template_row \<Rightarrow> vars \<Rightarrow> 'w \<Rightarrow> (error + step_result list \<times> vars) \<times> 'w run" where
  "execute_template_with_observer en out refusal policy observed halt p vs w =
     (case executor_with_options en out (run_options policy) of
        Inl e \<Rightarrow> (Inl e, initial_run (context_new vs) 0 w)
      | Inr X \<Rightarrow> sbind (run_template refusal halt (X\<lparr>ex_observed := observed\<rparr>) (tpl_source p))
          (\<lambda>results. sread (\<lambda>s. Inr (results, vars_of s))) (initial_run (context_new vs) 0 w))"

section \<open>Observing a run\<close>

record run_observation =
  ob_steps :: "run_step list"
  ob_current :: "(nat \<times> int) option"
  ob_trace :: "ustr list"

datatype step_view = StepStarted nat ustr int | StepDone run_step

record run_event =
  re_run_id :: int
  re_kind :: ustr
  re_status :: "ustr option"
  re_step :: "step_view option"
  re_error :: "ustr option"

record 'w server =
  sv_catalog :: catalog
  sv_defaults :: "notification_default list"
  sv_events :: "run_event list"
  sv_world :: 'w

abbreviation db_of :: "'w server \<Rightarrow> db" where
  "db_of sv \<equiv> base (sv_catalog sv)"

definition on_db :: "(db \<Rightarrow> db) \<Rightarrow> 'w server \<Rightarrow> 'w server" where
  "on_db f sv = sv\<lparr>sv_catalog := (sv_catalog sv)\<lparr>base := f (db_of sv)\<rparr>\<rparr>"

definition broadcast :: "run_event \<Rightarrow> 'w server \<Rightarrow> 'w server" where
  "broadcast e sv = sv\<lparr>sv_events := sv_events sv @ [e]\<rparr>"

definition status_event :: "int \<Rightarrow> ustr \<Rightarrow> ustr option \<Rightarrow> run_event" where
  "status_event rid st err = \<lparr>re_run_id = rid, re_kind = lit ''status'', re_status = Some st, re_step = None, re_error = err\<rparr>"

definition event_name :: "execution_event \<Rightarrow> ustr" where
  "event_name e = truncate_name (ev_method e @ lit '' '' @ ev_url e) 200"

definition step_record :: "int \<Rightarrow> execution_event \<Rightarrow> int \<Rightarrow> int \<Rightarrow> run_step" where
  "step_record rid e started_at finished_at =
     \<lparr>step_id = 0, step_run_id = rid, step_index = int (ev_step_index e), step_name = event_name e,
      step_status = (if ev_error e \<noteq> None then lit ''failed'' else lit ''succeeded''),
      step_http_status = map_option int (ev_status e), step_body_size = int (ev_body_size e), step_error = ev_error e,
      step_started_at = started_at, step_finished_at = finished_at\<rparr>"

definition observe_event :: "clock_lib \<Rightarrow> int \<Rightarrow> int \<Rightarrow> execution_event \<Rightarrow> run_observation \<times> 'w server \<Rightarrow> run_observation \<times> 'w server" where
  "observe_event C rid now e = (\<lambda>(ob, sv). case ev_phase e of
      Started \<Rightarrow> (ob\<lparr>ob_current := Some (ev_step_index e, now)\<rparr>,
        broadcast \<lparr>re_run_id = rid, re_kind = lit ''step'', re_status = Some (lit ''running''),
          re_step = Some (StepStarted (ev_step_index e) (event_name e) now), re_error = None\<rparr> sv)
    | Finished \<Rightarrow>
        let started_at = (case ob_current ob of Some (i, at) \<Rightarrow> if i = ev_step_index e then at else now | None \<Rightarrow> now);
            ob1 = ob\<lparr>ob_current := None\<rparr>
        in if 2 ^ 63 \<le> ev_step_index e \<or> 2 ^ 63 \<le> ev_body_size e then (ob1, sv)
           else let s = step_record rid e started_at now;
                    ob2 = ob1\<lparr>ob_trace := ob_trace ob @ [format_trace_step C e started_at now]\<rparr>
                in (case record_run_step s (db_of sv) of
                      (Inl _, db1) \<Rightarrow> (ob2, on_db (\<lambda>_. db1) sv)
                    | (Inr _, db1) \<Rightarrow> (ob2\<lparr>ob_steps := ob_steps ob @ [s]\<rparr>,
                        broadcast \<lparr>re_run_id = rid, re_kind = lit ''step'', re_status = None, re_step = Some (StepDone s),
                          re_error = None\<rparr> (on_db (\<lambda>_. db1) sv))))"

text \<open>\<open>at k\<close> is when the observer takes the \<open>k\<close>-th event from its channel.\<close>

fun observe :: "clock_lib \<Rightarrow> int \<Rightarrow> (nat \<Rightarrow> int) \<Rightarrow> nat \<Rightarrow> execution_event list \<Rightarrow> run_observation \<times> 'w server \<Rightarrow> run_observation \<times> 'w server" where
  "observe C rid at k [] st = st"
| "observe C rid at k (e # es) st = observe C rid at (k + 1) es (observe_event C rid (at k) e st)"

definition no_observation :: run_observation where
  "no_observation = \<lparr>ob_steps = [], ob_current = None, ob_trace = []\<rparr>"

section \<open>Notifying\<close>

record ('w, 'enc) scheduler =
  sc_engine :: engine
  sc_outside :: "int option \<Rightarrow> ('w, 'enc) outside"
  sc_net :: "'w outworld"
  sc_http :: outbound_http
  sc_email :: email_config
  sc_env :: "ustr \<Rightarrow> ustr option"
  sc_clock :: clock_lib
  sc_refusal :: "json \<Rightarrow> ustr"

definition error_text :: "error \<Rightarrow> ustr" where
  "error_text e = (case e of [] \<Rightarrow> [] | m # _ \<Rightarrow> m)"

definition opt_int :: "int option \<Rightarrow> json" where
  "opt_int x = (case x of None \<Rightarrow> JNull | Some i \<Rightarrow> JNum (JInt i))"

definition opt_str :: "ustr option \<Rightarrow> json" where
  "opt_str x = (case x of None \<Rightarrow> JNull | Some s \<Rightarrow> JStr s)"

definition notification_payload :: "ustr \<Rightarrow> task_row \<Rightarrow> int \<Rightarrow> int option \<Rightarrow> ustr option \<Rightarrow> (ustr \<times> json) list" where
  "notification_payload event t rid http err =
     [(lit ''error'', opt_str err), (lit ''event'', JStr event), (lit ''http_status'', opt_int http),
      (lit ''run_id'', JNum (JInt rid)), (lit ''task_id'', JNum (JInt (task_id t))), (lit ''task_name'', JStr (task_name t))]"

text \<open>The default of the task's account for an event.\<close>

definition default_for :: "task_row \<Rightarrow> ustr \<Rightarrow> 'w server \<Rightarrow> notification_default option" where
  "default_for t event sv = (case task_owner_id (task_id t) (db_of sv) of None \<Rightarrow> None
     | Some u \<Rightarrow> find (\<lambda>d. default_event d = event) (notification_defaults u (sv_defaults sv)))"

definition notification_message :: "notification_action \<Rightarrow> notification_default option \<Rightarrow> template_vars \<Rightarrow> json \<Rightarrow> message" where
  "notification_message a dflt vars payload =
     \<lparr>msg_title = render_vars vars (notification_template (title_template a) (Option.bind dflt default_title) BUILTIN_TITLE_TEMPLATE),
      msg_body = render_vars vars (notification_template (body_template a) (Option.bind dflt default_body) BUILTIN_BODY_TEMPLATE),
      msg_payload = payload\<rparr>"

text \<open>The attempt is numbered and recorded after it was made; a ledger that cannot be written is ignored.\<close>

definition record_attempt :: "int \<Rightarrow> int \<Rightarrow> task_row \<Rightarrow> notification_action \<Rightarrow> notification_channel \<Rightarrow> ustr
    \<Rightarrow> error + unit \<Rightarrow> db \<Rightarrow> db" where
  "record_attempt now rid t a h event result db =
     (let n = count_notification_attempts rid (action_id a) (channel_id h) event db + 1;
          (st, err) = (case result of Inr _ \<Rightarrow> (lit ''succeeded'', None) | Inl e \<Rightarrow> (lit ''failed'', Some (error_text e)))
      in snd (record_notification_delivery now rid (task_id t) (Some (action_id a)) (Some (channel_id h)) (channel_kind h) event n
           st None err db))"

definition send_one :: "('w, 'enc) scheduler \<Rightarrow> int \<Rightarrow> task_row \<Rightarrow> notification_action \<Rightarrow> notification_channel \<Rightarrow> ustr
    \<Rightarrow> template_vars \<Rightarrow> json \<Rightarrow> notification_default option \<Rightarrow> 'w server \<Rightarrow> (error + unit) \<times> 'w server" where
  "send_one S now t a h event vars payload dflt sv =
     (let (result, w1) = deliver (sc_net S) (sc_http S) (sc_env S) (Some (sc_email S)) (channel_kind h) (channel_config h)
            (notification_message a dflt vars payload) (render_vars vars) (sv_world sv)
      in (result, on_db (record_attempt now (tv_run_id vars) t a h event result) (sv\<lparr>sv_world := w1\<rparr>)))"

definition run_time :: "int \<Rightarrow> run_row option \<Rightarrow> int" where
  "run_time now run = (case run of None \<Rightarrow> now | Some r \<Rightarrow> or_else (run_finished_at r) (run_created_at r))"

definition run_vars :: "clock_lib \<Rightarrow> int \<Rightarrow> task_row \<Rightarrow> int \<Rightarrow> run_row option \<Rightarrow> ustr \<Rightarrow> int option \<Rightarrow> ustr option \<Rightarrow> ustr option \<Rightarrow> template_vars" where
  "run_vars C now t rid run event http err log =
     \<lparr>tv_event = event, tv_task_id = task_id t, tv_task_name = task_name t, tv_run_id = rid,
      tv_status = (case http of None \<Rightarrow> [] | Some v \<Rightarrow> int_to_str v), tv_error = or_else err [],
      tv_log = or_else (or_opt log (Option.bind run run_log)) [],
      tv_time = format_notification_time C (run_time now run) (timezone t)\<rparr>"

text \<open>The gates of a binding: only automatic runs, and only after enough failures in a row.\<close>

definition gate_open :: "bool \<Rightarrow> ustr \<Rightarrow> int \<Rightarrow> notification_action \<Rightarrow> bool" where
  "gate_open automatic event failures a \<longleftrightarrow> (automatic_only a \<longrightarrow> automatic)
     \<and> (event = lit ''failure'' \<longrightarrow> failure_threshold a \<le> failures)"

definition send_notifications :: "('w, 'enc) scheduler \<Rightarrow> int \<Rightarrow> task_row \<Rightarrow> int \<Rightarrow> ustr \<Rightarrow> int option \<Rightarrow> ustr option \<Rightarrow> ustr option
    \<Rightarrow> 'w server \<Rightarrow> 'w server" where
  "send_notifications S now t rid event http err log sv =
     (case notification_channels_for_event (task_id t) event (db_of sv) of Inl _ \<Rightarrow> sv
      | Inr bindings \<Rightarrow>
        let payload = JObj (notification_payload event t rid http err);
            dflt = default_for t event sv;
            run = get_run rid (db_of sv);
            automatic = (case run of None \<Rightarrow> False | Some r \<Rightarrow> run_trigger r \<noteq> lit ''manual'');
            failures = (if event = lit ''failure'' then count_recent_failures (task_id t) (db_of sv) else 0);
            vars = run_vars (sc_clock S) now t rid run event http err log
        in fold (\<lambda>(h, a) sv. if gate_open automatic event failures a
             then snd (send_one S now t a h event vars payload dflt sv) else sv) bindings sv)"

definition retry_delivery :: "('w, 'enc) scheduler \<Rightarrow> int \<Rightarrow> delivery_record \<Rightarrow> task_row \<Rightarrow> notification_action
    \<Rightarrow> notification_channel \<Rightarrow> 'w server \<Rightarrow> (error + unit) \<times> 'w server" where
  "retry_delivery S now d t a h sv =
     (case get_run (delivery_run_id d) (db_of sv) of
        None \<Rightarrow> (Inl [lit ''the run this delivery belongs to no longer exists''], sv)
      | Some r \<Rightarrow>
        let event = delivery_event d;
            vars = run_vars (sc_clock S) now t (run_id r) (Some r) event (run_http_status r) (run_error r) None;
            payload = JObj (bt_insert (lit ''retry'') (JBool True)
              (notification_payload event t (run_id r) (run_http_status r) (run_error r)))
        in send_one S now t a h event vars payload (default_for t event sv) sv)"

section \<open>What a run leaves\<close>

definition schedule_retry_after :: "int \<Rightarrow> task_row \<Rightarrow> run_row \<Rightarrow> db \<Rightarrow> db" where
  "schedule_retry_after now t r db =
     (let rc = or_else (retry_count t) 0 in
      if rc = 0 then db
      else let original = or_else (retry_of r) (run_id r) in
        if rc = -1 \<or> count_retries original db < rc
        then snd (schedule_retry now (task_id t) original
               (case retry_interval_seconds t of Some v \<Rightarrow> if 0 < v then v else 60 | None \<Rightarrow> 60) db)
        else db)"

definition conclude_success :: "('w, 'enc) scheduler \<Rightarrow> int \<Rightarrow> task_row \<Rightarrow> run_row \<Rightarrow> nat \<Rightarrow> ustr option \<Rightarrow> 'w server \<Rightarrow> 'w server" where
  "conclude_success S now t r st log sv =
     (let sv = on_db (record_run now (task_id t) (Some (int st)) None) sv;
          sv = on_db (finish_run now (run_id r) (Some (int st)) None) sv;
          sv = (case log of None \<Rightarrow> sv | Some l \<Rightarrow> on_db (record_run_log (run_id r) l) sv);
          sv = broadcast (status_event (run_id r) (lit ''succeeded'') None) sv
      in send_notifications S now t (run_id r) (lit ''success'') (Some (int st)) None log sv)"

definition failed_execution_step :: "int \<Rightarrow> int \<Rightarrow> ustr \<Rightarrow> run_step" where
  "failed_execution_step now rid msg =
     \<lparr>step_id = 0, step_run_id = rid, step_index = 0, step_name = lit ''execution'', step_status = lit ''failed'',
      step_http_status = None, step_body_size = 0, step_error = Some msg, step_started_at = now, step_finished_at = now\<rparr>"

definition conclude_failure :: "('w, 'enc) scheduler \<Rightarrow> int \<Rightarrow> task_row \<Rightarrow> run_row \<Rightarrow> run_observation \<Rightarrow> ustr \<Rightarrow> 'w server \<Rightarrow> 'w server" where
  "conclude_failure S now t r ob msg sv =
     (let rid = run_id r;
          sv = (if ob_steps ob = [] then on_db (\<lambda>db. snd (record_run_step (failed_execution_step now rid msg) db)) sv else sv);
          sv = on_db (record_run now (task_id t) None (Some msg)) sv;
          sv = on_db (record_latest_failed_run_trace (task_id t) rid (format_trace (ob_trace ob) msg)) sv;
          sv = on_db (finish_run now rid None (Some msg)) sv;
          sv = broadcast (status_event rid (lit ''failed'') (Some msg)) sv;
          sv = send_notifications S now t rid (lit ''failure'') None (Some msg) None sv
      in on_db (schedule_retry_after now t r) sv)"

definition conclude_cancelled :: "int \<Rightarrow> run_row \<Rightarrow> 'w server \<Rightarrow> 'w server" where
  "conclude_cancelled now r sv =
     broadcast (status_event (run_id r) (lit ''cancelled'') None) (on_db (finish_run now (run_id r) None None) sv)"

definition conclude_run :: "('w, 'enc) scheduler \<Rightarrow> int \<Rightarrow> task_row \<Rightarrow> run_row \<Rightarrow> run_observation
    \<Rightarrow> error + nat \<times> ustr option \<Rightarrow> 'w server \<Rightarrow> 'w server" where
  "conclude_run S now t r ob result sv = (case result of
      Inr (st, log) \<Rightarrow> conclude_success S now t r st log sv
    | Inl e \<Rightarrow> (let msg = bounded_error (full_message e) in
        if contains_sub (lit ''execution cancelled'') msg then conclude_cancelled now r sv
        else conclude_failure S now t r ob msg sv))"

definition log_message :: "vars \<Rightarrow> ustr option" where
  "log_message vs = (case Option.bind (vs (lit ''__log__'')) as_str of None \<Rightarrow> None
     | Some s \<Rightarrow> if trim_by is_ws s = [] then None else Some (trim_by is_ws s))"

text \<open>The result of a run, the events of its execution, and the world after it.\<close>

definition run_task :: "('w, 'enc) scheduler \<Rightarrow> 'w halt option \<Rightarrow> task_row \<Rightarrow> catalog \<Rightarrow> 'w
    \<Rightarrow> (error + nat \<times> ustr option) \<times> execution_event list \<times> 'w" where
  "run_task S halt t c w =
     (let vs = task_variables t; policy = run_policy_of (timeout_seconds t) (oh_settings (sc_http S)) in
      case task_template_id t of
        Some i \<Rightarrow> (case get_template i c of None \<Rightarrow> (Inl [lit ''task template not found''], [], w)
          | Some p \<Rightarrow>
            let (result, s) = execute_template_with_observer (sc_engine S) (sc_outside S (task_owner_id (task_id t) (base c)))
                  (sc_refusal S) policy True halt p vs w
            in (rbind result (\<lambda>(steps, final). Inr (if steps = [] then 204 else sr_status (last steps), log_message final)),
                rn_events s, rn_world s))
      | None \<Rightarrow> (let (result, w1) = execute_plain_task (sc_engine S) (sc_net S) (sc_http S) t vs policy w
          in (rbind result (\<lambda>st. Inr (st, None)), [], w1)))"

definition execute_with_run :: "('w, 'enc) scheduler \<Rightarrow> 'w halt option \<Rightarrow> (nat \<Rightarrow> int) \<Rightarrow> int \<Rightarrow> task_row \<Rightarrow> run_row \<Rightarrow> 'w server \<Rightarrow> 'w server" where
  "execute_with_run S halt at now t r sv =
     (let (result, events, w1) = run_task S halt t (sv_catalog sv) (sv_world sv);
          (ob, sv1) = observe (sc_clock S) (run_id r) at 0 events (no_observation, sv\<lparr>sv_world := w1\<rparr>)
      in conclude_run S now t r ob result sv1)"

section \<open>The worker\<close>

text \<open>One tick of the supervisor of a template run: whether it cancels the execution.\<close>

definition supervise :: "int \<Rightarrow> int \<Rightarrow> ustr \<Rightarrow> nat \<Rightarrow> db \<Rightarrow> bool \<times> db" where
  "supervise now rid worker ticks db =
     (if (case get_run rid db of None \<Rightarrow> False | Some r \<Rightarrow> cancel_requested r) then (True, db)
      else (False, if ticks mod 60 = 0 then snd (renew_run now rid worker 300 db) else db))"

text \<open>What the worker does before it executes: the task and the run it will work on.\<close>

definition take_work :: "int \<Rightarrow> ustr \<Rightarrow> 'w server \<Rightarrow> (task_row \<times> run_row) option \<times> 'w server" where
  "take_work now worker sv =
     (let (claimed, db1) = claim_run now worker 300 (snd (recover_expired_runs now (db_of sv))) in
      case claimed of None \<Rightarrow> (None, on_db (\<lambda>_. db1) sv)
      | Some r \<Rightarrow>
        let (started, db2) = start_leased_run now (run_id r) worker db1; sv = on_db (\<lambda>_. db2) sv in
        if \<not> started then (None, sv)
        else (case get_task (run_task_id r) (sv_catalog sv) of None \<Rightarrow> (None, sv)
          | Some t \<Rightarrow> (Some (t, r), broadcast (status_event (run_id r) (lit ''running'') None) sv)))"

definition work :: "('w, 'enc) scheduler \<Rightarrow> 'w halt option \<Rightarrow> (nat \<Rightarrow> int) \<Rightarrow> int \<Rightarrow> int \<Rightarrow> ustr \<Rightarrow> 'w server \<Rightarrow> 'w server" where
  "work S halt at now done_at worker sv =
     (case take_work now worker sv of (None, sv1) \<Rightarrow> sv1
      | (Some (t, r), sv1) \<Rightarrow> execute_with_run S halt at done_at t r sv1)"

end
