(* ===== verification/SchedulerProps.thy ===== *)
theory SchedulerProps
  imports Scheduler CatalogProps
begin

text \<open>
  What the scheduler's composed operations preserve.  The locales \<open>attempt_calls\<close>, \<open>scheduler_calls\<close> and
  \<open>worker_calls\<close> are the contract of a relation between databases with the store calls of a notification, of a
  concluded run, and of the worker: a relation that each single call respects is respected by the whole.
  They are interpreted with the reachable states of the run queue, the ownership of rows, and the numbering
  of the delivery ledger.
\<close>

section \<open>State\<close>

lemma db_of_on_db [simp]: "db_of (on_db f sv) = f (db_of sv)"
  by (simp add: on_db_def)

lemma on_db_sel [simp]: "sv_defaults (on_db f sv) = sv_defaults sv" "sv_events (on_db f sv) = sv_events sv"
  "sv_world (on_db f sv) = sv_world sv"
  by (simp_all add: on_db_def)

lemma broadcast_sel [simp]: "sv_catalog (broadcast e sv) = sv_catalog sv" "sv_defaults (broadcast e sv) = sv_defaults sv"
  "sv_world (broadcast e sv) = sv_world sv" "sv_events (broadcast e sv) = sv_events sv @ [e]"
  by (simp_all add: broadcast_def)

text \<open>The catalog around the database of the run queue.\<close>

definition around :: "catalog \<Rightarrow> db \<Rightarrow> catalog" where
  "around c db = c\<lparr>base := db\<rparr>"

lemma around_on_db [simp]: "sv_catalog (on_db f sv) = around (sv_catalog sv) (f (db_of sv))"
  by (simp add: on_db_def around_def)

lemma around_sel [simp]: "base (around c db) = db" "around (around c db) db2 = around c db2" "around c (base c) = c"
  by (simp_all add: around_def)

section \<open>Notifications\<close>

text \<open>The gate, then the sending, as one step of the loop over the bindings.\<close>

definition notify_binding :: "('w, 'enc) scheduler \<Rightarrow> int \<Rightarrow> task_row \<Rightarrow> ustr \<Rightarrow> template_vars \<Rightarrow> json
    \<Rightarrow> notification_default option \<Rightarrow> bool \<Rightarrow> int \<Rightarrow> notification_channel \<times> notification_action \<Rightarrow> 'w server \<Rightarrow> 'w server" where
  "notify_binding S now t event vars payload dflt automatic failures = (\<lambda>(h, a) sv.
     if gate_open automatic event failures a then snd (send_one S now t a h event vars payload dflt sv) else sv)"

lemma send_one_db:
  "\<exists>result. db_of (snd (send_one S now t a h event vars payload dflt sv)) = record_attempt now (tv_run_id vars) t a h event result (db_of sv)
     \<and> sv_catalog (snd (send_one S now t a h event vars payload dflt sv))
         = around (sv_catalog sv) (record_attempt now (tv_run_id vars) t a h event result (db_of sv))
     \<and> sv_events (snd (send_one S now t a h event vars payload dflt sv)) = sv_events sv"
  by (simp add: send_one_def split: prod.split) blast

lemma send_notifications_fold:
  obtains "send_notifications S now t rid event http err log sv = sv"
  | bindings vars payload dflt automatic failures where "tv_run_id vars = rid"
    "send_notifications S now t rid event http err log sv
       = fold (notify_binding S now t event vars payload dflt automatic failures) bindings sv"
proof (cases "notification_channels_for_event (task_id t) event (db_of sv)")
  case (Inl e)
  then show ?thesis using that(1) by (simp add: send_notifications_def)
next
  case (Inr bindings)
  show ?thesis
    by (rule that(2)) (simp_all add: send_notifications_def Inr notify_binding_def Let_def run_vars_def)
qed

locale attempt_calls =
  fixes R :: "db \<Rightarrow> db \<Rightarrow> bool"
  assumes R_refl: "R db db"
    and R_trans: "R db db1 \<Longrightarrow> R db1 db2 \<Longrightarrow> R db db2"
    and attempt: "R db (record_attempt now rid t a h event result db)"
begin

lemma send_one_keeps: "R (db_of sv) (db_of (snd (send_one S now t a h event vars payload dflt sv)))"
  using send_one_db [of S now t a h event vars payload dflt sv] attempt by auto

lemma notify_keeps: "R (db_of sv) (db_of (fold (notify_binding S now t event vars payload dflt automatic failures) bindings sv))"
proof (induction bindings arbitrary: sv)
  case (Cons b bs)
  have "R (db_of sv) (db_of (notify_binding S now t event vars payload dflt automatic failures b sv))"
    by (simp add: notify_binding_def send_one_keeps R_refl split: prod.split)
  then show ?case using Cons.IH by (auto intro: R_trans)
qed (simp add: R_refl)

lemma send_notifications_keeps: "R (db_of sv) (db_of (send_notifications S now t rid event http err log sv))"
  by (cases rule: send_notifications_fold [of S now t rid event http err log sv]) (simp_all add: R_refl notify_keeps)

lemma retry_delivery_keeps: "R (db_of sv) (db_of (snd (retry_delivery S now d t a h sv)))"
  by (simp add: retry_delivery_def R_refl send_one_keeps Let_def split: option.split)

end

locale scheduler_calls = attempt_calls R for R +
  assumes finish: "R db (finish_run now rid http err db)"
    and last_run: "R db (record_run now tid http err db)"
    and run_log: "R db (record_run_log rid msg db)"
    and trace: "R db (record_latest_failed_run_trace tid rid tr db)"
    and step: "R db (snd (record_run_step s db))"
    and retry: "R db (snd (schedule_retry now tid original secs db))"
begin

lemma observe_event_keeps: "R (db_of (snd st)) (db_of (snd (observe_event C rid now e st)))"
proof (cases st)
  case (Pair ob sv)
  show ?thesis
    using step [of "db_of sv"]
    by (auto simp: Pair observe_event_def R_refl Let_def split: execution_phase.split prod.split sum.split)
      (metis snd_conv)+
qed

lemma observe_keeps: "R (db_of (snd st)) (db_of (snd (observe C rid at k es st)))"
proof (induction es arbitrary: k st)
  case (Cons e es)
  show ?case using R_trans [OF observe_event_keeps Cons.IH] by simp
qed (simp add: R_refl)

lemma retry_after_keeps: "R db (schedule_retry_after now t r db)"
  by (simp add: schedule_retry_after_def R_refl retry Let_def)

lemma success_keeps: "R (db_of sv) (db_of (conclude_success S now t r st log sv))"
proof -
  let ?sv = "on_db (finish_run now (run_id r) (Some (int st)) None) (on_db (record_run now (task_id t) (Some (int st)) None) sv)"
  have 1: "R (db_of sv) (db_of ?sv)" using R_trans [OF last_run finish] by simp
  have "R (db_of sv) (db_of (case log of None \<Rightarrow> ?sv | Some l \<Rightarrow> on_db (record_run_log (run_id r) l) ?sv))" (is "R _ (db_of ?sv2)")
    using 1 R_trans [OF 1] run_log by (auto split: option.split)
  then have "R (db_of sv) (db_of (broadcast (status_event (run_id r) (lit ''succeeded'') None) ?sv2))" by simp
  then show ?thesis unfolding conclude_success_def Let_def by (rule R_trans [OF _ send_notifications_keeps])
qed

lemma failure_keeps: "R (db_of sv) (db_of (conclude_failure S now t r ob msg sv))"
proof -
  let ?sv = "if ob_steps ob = [] then on_db (\<lambda>db. snd (record_run_step (failed_execution_step now (run_id r) msg) db)) sv else sv"
  let ?sv2 = "on_db (finish_run now (run_id r) None (Some msg)) (on_db (record_latest_failed_run_trace (task_id t) (run_id r)
      (format_trace (ob_trace ob) msg)) (on_db (record_run now (task_id t) None (Some msg)) ?sv))"
  have "R (db_of sv) (db_of ?sv)" by (simp add: R_refl step)
  moreover have "R (db_of ?sv) (db_of ?sv2)" using R_trans [OF last_run R_trans [OF trace finish]] by simp
  ultimately have "R (db_of sv) (db_of (broadcast (status_event (run_id r) (lit ''failed'') (Some msg)) ?sv2))"
    by (auto intro: R_trans)
  note R_trans [OF R_trans [OF this send_notifications_keeps] retry_after_keeps]
  then show ?thesis unfolding conclude_failure_def Let_def db_of_on_db .
qed

lemma conclude_keeps: "R (db_of sv) (db_of (conclude_run S now t r ob result sv))"
  by (simp add: conclude_run_def conclude_cancelled_def success_keeps failure_keeps finish Let_def split: sum.split)

lemma execute_with_run_keeps: "R (db_of sv) (db_of (execute_with_run S halt at now t r sv))"
proof -
  obtain result events w1 where x: "run_task S halt t (sv_catalog sv) (sv_world sv) = (result, events, w1)"
    by (metis prod_cases3)
  obtain ob sv1 where o: "observe (sc_clock S) (run_id r) at 0 events (no_observation, sv\<lparr>sv_world := w1\<rparr>) = (ob, sv1)"
    by (metis surj_pair)
  have "R (db_of sv) (db_of sv1)"
    using observe_keeps [of "(no_observation, sv\<lparr>sv_world := w1\<rparr>)" "sc_clock S" "run_id r" at 0 events] by (simp add: o)
  then show ?thesis by (simp add: execute_with_run_def x o R_trans [OF _ conclude_keeps])
qed

end

locale worker_calls = scheduler_calls R for R +
  assumes claim: "R db (snd (claim_update now worker (now + max secs 1) rid db))"
    and start: "R db (snd (start_leased_run now rid worker db))"
    and recover: "R db (snd (recover_expired_runs now db))"
    and renew: "R db (snd (renew_run now rid worker secs db))"
    and enqueue: "R db (snd (enqueue_run_with_trigger now tid trig db))"
    and delayed: "R db (snd (enqueue_delayed_run now tid secs db))"
begin

lemma claim_run_keeps: "R db (snd (claim_run now worker secs db))"
proof (cases "claim_select now db")
  case (Some rid)
  have "snd (claim_run now worker secs db) = snd (claim_update now worker (now + max secs 1) rid db)"
    by (simp add: claim_run_def Some Let_def split: prod.split)
  then show ?thesis by (simp add: claim)
qed (simp add: claim_run_def R_refl)

lemma take_work_keeps: "R (db_of sv) (db_of (snd (take_work now worker sv)))"
proof -
  let ?db = "snd (recover_expired_runs now (db_of sv))"
  obtain claimed db1 where c: "claim_run now worker 300 ?db = (claimed, db1)" by (metis surj_pair)
  have 1: "R (db_of sv) db1" using R_trans [OF recover claim_run_keeps [of ?db now worker 300]] by (simp add: c)
  show ?thesis
  proof (cases claimed)
    case None
    then show ?thesis by (simp add: take_work_def c 1)
  next
    case (Some r)
    obtain started db2 where s: "start_leased_run now (run_id r) worker db1 = (started, db2)" by (metis surj_pair)
    have "R (db_of sv) db2" using R_trans [OF 1 start [of db1 now "run_id r" worker]] by (simp add: s)
    then show ?thesis by (simp add: take_work_def c Some s Let_def split: option.split)
  qed
qed

lemma work_keeps: "R (db_of sv) (db_of (work S halt at now done_at worker sv))"
  using take_work_keeps [of sv now worker] execute_with_run_keeps R_trans
  by (simp add: work_def split: prod.split option.split) fastforce

lemma supervise_keeps: "R db (snd (supervise now rid worker ticks db))"
  by (simp add: supervise_def R_refl renew)

lemma enqueue_due_keeps: "R db (enqueue_due jitter now t db)"
  by (simp add: enqueue_due_def Let_def enqueue delayed)

lemma tick_keeps: "R db (scheduler_tick C jitter now interval tz db)"
proof -
  have "R db (fold (enqueue_due jitter now) ts db)" for ts
    by (induction ts arbitrary: db) (auto intro: R_refl R_trans enqueue_due_keeps)
  then show ?thesis by (simp add: scheduler_tick_def)
qed

end

section \<open>The relations\<close>

text \<open>Every call of the scheduler is a call of the run queue.\<close>

definition queue_follows :: "db \<Rightarrow> db \<Rightarrow> bool" where
  "queue_follows db db2 \<longleftrightarrow> (reachable db \<longrightarrow> reachable db2)"

lemma queue_follows_step: "queue_step now db db2 \<Longrightarrow> queue_follows db db2"
  by (auto simp: queue_follows_def intro: reachable.call)

text \<open>The ledger row of an attempt.\<close>

definition ledger_key :: "int \<Rightarrow> int \<Rightarrow> int \<Rightarrow> ustr \<Rightarrow> delivery_record \<Rightarrow> bool" where
  "ledger_key rid aid cid event d \<longleftrightarrow> delivery_run_id d = rid \<and> delivery_action_id d = Some aid
     \<and> delivery_channel_id d = Some cid \<and> delivery_event d = event"

definition attempt_row :: "int \<Rightarrow> int \<Rightarrow> task_row \<Rightarrow> notification_action \<Rightarrow> notification_channel \<Rightarrow> ustr
    \<Rightarrow> error + unit \<Rightarrow> db \<Rightarrow> delivery_record" where
  "attempt_row now rid t a h event result db = \<lparr>delivery_id = next_delivery db, delivery_run_id = rid,
     delivery_task_id = task_id t, delivery_action_id = Some (action_id a), delivery_channel_id = Some (channel_id h),
     delivery_channel_kind = channel_kind h, delivery_event = event,
     delivery_attempt = int (length (filter (ledger_key rid (action_id a) (channel_id h) event) (deliveries db))) + 1,
     delivery_status = (case result of Inr _ \<Rightarrow> lit ''succeeded'' | Inl _ \<Rightarrow> lit ''failed''), delivery_http_status = None,
     delivery_error = (case result of Inr _ \<Rightarrow> None | Inl e \<Rightarrow> Some (error_text e)), delivery_created_at = now\<rparr>"

lemma record_attempt_row:
  "record_attempt now rid t a h event result db =
     (if foreign_keys db \<and> \<not> run_exists db rid then db
      else db\<lparr>deliveries := deliveries db @ [attempt_row now rid t a h event result db], next_delivery := next_delivery db + 1\<rparr>)"
proof -
  have "count_notification_attempts rid (action_id a) (channel_id h) event db
      = int (length (filter (ledger_key rid (action_id a) (channel_id h) event) (deliveries db)))"
    by (simp add: count_notification_attempts_def affected_def ledger_key_def [abs_def])
  then show ?thesis
    by (cases result) (simp_all add: record_attempt_def record_notification_delivery_def attempt_row_def)
qed

lemma attempt_row_key [simp]: "ledger_key rid (action_id a) (channel_id h) event (attempt_row now rid t a h event result db)"
  by (simp add: ledger_key_def attempt_row_def)

lemma record_attempt_eq:
  "\<exists>ds n. record_attempt now rid t a h event result db = db\<lparr>deliveries := ds, next_delivery := n\<rparr>"
proof (cases "foreign_keys db \<and> \<not> run_exists db rid")
  case True
  then show ?thesis
    by (intro exI [of _ "deliveries db"] exI [of _ "next_delivery db"]) (simp add: record_attempt_row)
next
  case False
  then show ?thesis unfolding record_attempt_row by simp blast
qed

lemma queue_follows_attempt: "queue_follows db (record_attempt now rid t a h event result db)"
proof -
  obtain ds n where "record_attempt now rid t a h event result db = db\<lparr>deliveries := ds, next_delivery := n\<rparr>"
    using record_attempt_eq by blast
  moreover have "queue_step now db (db\<lparr>tasks := tasks db, channels := channels db, next_channel := next_channel db,
      actions := actions db, next_action := next_action db, deliveries := ds, next_delivery := n\<rparr>)"
    by (rule queue_step.other)
  ultimately show ?thesis by (simp add: queue_follows_step)
qed

interpretation queue: worker_calls queue_follows
proof unfold_locales
  show "queue_follows db db" for db by (simp add: queue_follows_def)
  show "queue_follows db db1 \<Longrightarrow> queue_follows db1 db2 \<Longrightarrow> queue_follows db db2" for db db1 db2
    by (simp add: queue_follows_def)
qed (auto simp: queue_follows_attempt intro: queue_follows_step queue_step.intros)

interpretation owners: worker_calls same_owners
proof unfold_locales
  fix db rid aid t a h event result now
  obtain ds n where "record_attempt now rid t a h event result db = db\<lparr>deliveries := ds, next_delivery := n\<rparr>"
    using record_attempt_eq by blast
  then show "same_owners db (record_attempt now rid t a h event result db)" by simp
next
  fix db now tid http err show "same_owners db (record_run now tid http err db)"
    by (auto simp: record_run_def same_owners_def update_where_def)
qed (auto simp: finish_run_def record_run_log_def record_latest_failed_run_trace_def record_run_step_def schedule_retry_def
    snd_insert_unless_active claim_update_def start_leased_run_def recover_expired_runs_def renew_run_def update_runs_def
    enqueue_run_with_trigger_def enqueue_delayed_run_def Let_def intro: same_owners_trans)

text \<open>The ledger numbers the attempts of a binding for a run and an event from one.\<close>

definition numbered :: "db \<Rightarrow> bool" where
  "numbered db \<longleftrightarrow> (\<forall>rid aid cid event. let ds = filter (ledger_key rid aid cid event) (deliveries db)
     in map delivery_attempt ds = [1..int (length ds)])"

definition stays_numbered :: "db \<Rightarrow> db \<Rightarrow> bool" where
  "stays_numbered db db2 \<longleftrightarrow> (numbered db \<longrightarrow> numbered db2)"

lemma numbered_same: "deliveries db2 = deliveries db \<Longrightarrow> stays_numbered db db2"
  by (simp add: stays_numbered_def numbered_def)

lemma stays_numbered_attempt: "stays_numbered db (record_attempt now rid t a h event result db)"
proof (cases "foreign_keys db \<and> \<not> run_exists db rid")
  case True
  then show ?thesis by (simp add: record_attempt_row stays_numbered_def)
next
  case False
  define d where "d = attempt_row now rid t a h event result db"
  have d: "deliveries (record_attempt now rid t a h event result db) = deliveries db @ [d]"
    using False by (simp add: record_attempt_row d_def)
  have n: "delivery_attempt d = int (length (filter (ledger_key rid (action_id a) (channel_id h) event) (deliveries db))) + 1"
    by (simp add: d_def attempt_row_def)
  have "let ds = filter (ledger_key r i c e) (deliveries db @ [d]) in map delivery_attempt ds = [1..int (length ds)]"
    if num: "numbered db" for r i c e
  proof (cases "(r, i, c, e) = (rid, action_id a, channel_id h, event)")
    case True
    then have "ledger_key r i c e d" by (simp add: d_def)
    with True n num show ?thesis by (simp add: numbered_def Let_def upto_rec2)
  next
    case False
    then have "\<not> ledger_key r i c e d" by (auto simp: d_def ledger_key_def attempt_row_def)
    with num show ?thesis by (simp add: numbered_def)
  qed
  then show ?thesis by (simp add: stays_numbered_def numbered_def d)
qed

lemmas queue_call_defs = finish_run_def record_run_def record_run_log_def record_latest_failed_run_trace_def
  record_run_step_def schedule_retry_def snd_insert_unless_active claim_update_def start_leased_run_def
  recover_expired_runs_def renew_run_def update_runs_def enqueue_run_with_trigger_def enqueue_delayed_run_def Let_def

interpretation ledger: worker_calls stays_numbered
proof unfold_locales
  show "stays_numbered db db" for db by (simp add: stays_numbered_def)
  show "stays_numbered db db1 \<Longrightarrow> stays_numbered db1 db2 \<Longrightarrow> stays_numbered db db2" for db db1 db2
    by (simp add: stays_numbered_def)
qed (auto simp: stays_numbered_attempt queue_call_defs intro: numbered_same)

section \<open>The rest of the catalog\<close>

text \<open>Only the database of the run queue changes.\<close>

definition around_db :: "'w server \<Rightarrow> 'w server \<Rightarrow> bool" where
  "around_db sv sv2 \<longleftrightarrow> sv_catalog sv2 = around (sv_catalog sv) (db_of sv2)"

lemma around_refl [simp]: "around_db sv sv"
  by (simp add: around_db_def)

lemma around_trans: "around_db a b \<Longrightarrow> around_db b c \<Longrightarrow> around_db a c"
  unfolding around_db_def by (metis around_sel(2))

lemma around_calls [simp]: "around_db sv (on_db f sv2) = around_db sv sv2" "around_db sv (broadcast e sv2) = around_db sv sv2"
  "around_db sv (sv\<lparr>sv_world := w\<rparr>)"
  by (cases "sv_catalog sv", cases "sv_catalog sv2", auto simp: around_db_def around_def)+

lemma around_send_one: "around_db sv (snd (send_one S now t a h event vars payload dflt sv))"
  using send_one_db [of S now t a h event vars payload dflt sv] by (auto simp: around_db_def)

lemma around_notify: "around_db sv (fold (notify_binding S now t event vars payload dflt automatic failures) bs sv)"
proof (induction bs arbitrary: sv)
  case (Cons b bs)
  have "around_db sv (notify_binding S now t event vars payload dflt automatic failures b sv)"
    by (simp add: notify_binding_def around_send_one split: prod.split)
  from around_trans [OF this Cons.IH] show ?case by simp
qed simp

lemma around_notifications: "around_db sv (send_notifications S now t rid event http err log sv)"
  by (cases rule: send_notifications_fold [of S now t rid event http err log sv]) (simp_all add: around_notify)

lemma around_observe: "around_db (snd st) (snd (observe C rid at k es st))"
proof (induction es arbitrary: k st)
  case (Cons e es)
  obtain ob sv where st: "st = (ob, sv)" by (cases st)
  have "around_db sv (snd (observe_event C rid (at k) e (ob, sv)))"
    by (simp add: observe_event_def Let_def split: execution_phase.split prod.split sum.split)
  from around_trans [OF this Cons.IH] show ?case by (simp add: st)
qed simp

lemma around_conclude: "around_db sv (conclude_run S now t r ob result sv)"
  unfolding conclude_run_def conclude_cancelled_def conclude_success_def conclude_failure_def Let_def
  by (auto split: sum.split option.split intro!: around_trans [OF _ around_notifications])

lemma around_execute: "around_db sv (execute_with_run S halt at now t r sv)"
proof -
  obtain result events w1 where x: "run_task S halt t (sv_catalog sv) (sv_world sv) = (result, events, w1)"
    by (metis prod_cases3)
  obtain ob sv1 where o: "observe (sc_clock S) (run_id r) at 0 events (no_observation, sv\<lparr>sv_world := w1\<rparr>) = (ob, sv1)"
    by (metis surj_pair)
  have "around_db (sv\<lparr>sv_world := w1\<rparr>) sv1"
    using around_observe [of "(no_observation, sv\<lparr>sv_world := w1\<rparr>)" "sc_clock S" "run_id r" at 0 events] by (simp add: o)
  with around_calls(3) have "around_db sv sv1" by (rule around_trans)
  then show ?thesis by (simp add: execute_with_run_def x o around_trans [OF _ around_conclude])
qed

lemma around_take: "around_db sv (snd (take_work now worker sv))"
  by (simp add: take_work_def Let_def split: prod.split option.split)

lemma around_work: "around_db sv (work S halt at now done_at worker sv)"
  using around_take [of sv now worker] around_execute around_trans
  by (simp add: work_def split: prod.split option.split) fastforce

lemma catalog_follows:
  assumes "catalog_reach c" "same_owners (base c) db"
  shows "catalog_reach (around c db)"
  using catalog_reach.step [OF assms(1) run_queue [OF assms(2)]] by (simp add: around_def)

section \<open>The row of a concluded run\<close>

lemma update_where_find:
  assumes "find (\<lambda>r. run_id r = rid) rs = Some r" "\<And>r. run_id (f r) = run_id r"
  shows "find (\<lambda>r. run_id r = rid) (update_where P f rs) = Some (if P r then f r else r)"
  using assms by (induction rs) (auto simp: update_where_def split: if_splits)

lemma get_row_update:
  assumes "get_run_row rid db = Some r" "\<And>r. run_id (f r) = run_id r"
  shows "get_run_row rid (snd (update_runs P f db)) = Some (if P r then f r else r)"
  using update_where_find [of rid "runs db" r f P] assms by (simp add: get_run_row_def update_runs_def)

lemma get_row_id: "get_run_row rid db = Some r \<Longrightarrow> run_id r = rid \<and> r \<in> set (runs db)"
  by (auto simp: get_run_row_def find_Some_iff)

lemma get_row_same: "runs db2 = runs db \<Longrightarrow> get_run_row rid db2 = get_run_row rid db"
  by (simp add: get_run_row_def)

lemma get_row_insert: "get_run_row rid db = Some r \<Longrightarrow> get_run_row rid (snd (insert_unless_active x db)) = Some r"
  by (simp add: get_run_row_def snd_insert_unless_active find_append)

text \<open>Notifications leave everything but the ledger alone.\<close>

definition ledger_only :: "db \<Rightarrow> db \<Rightarrow> bool" where
  "ledger_only db db2 \<longleftrightarrow> (\<exists>ds n. db2 = db\<lparr>deliveries := ds, next_delivery := n\<rparr>)"

interpretation silent: attempt_calls ledger_only
proof unfold_locales
  fix db show "ledger_only db db"
    unfolding ledger_only_def by (intro exI [of _ "deliveries db"] exI [of _ "next_delivery db"]) simp
next
  fix a b c assume "ledger_only a b" "ledger_only b c"
  then obtain ds n where "c = a\<lparr>deliveries := ds, next_delivery := n\<rparr>" by (auto simp: ledger_only_def)
  then show "ledger_only a c" unfolding ledger_only_def by blast
qed (simp add: ledger_only_def record_attempt_eq)

lemma notifications_runs [simp]: "runs (db_of (send_notifications S now t rid event http err log sv)) = runs (db_of sv)"
  "tasks (db_of (send_notifications S now t rid event http err log sv)) = tasks (db_of sv)"
  "foreign_keys (db_of (send_notifications S now t rid event http err log sv)) = foreign_keys (db_of sv)"
  "next_run (db_of (send_notifications S now t rid event http err log sv)) = next_run (db_of sv)"
  using silent.send_notifications_keeps [of sv S now t rid event http err log] by (auto simp: ledger_only_def)

lemma get_row_notified [simp]:
  "get_run_row i (db_of (send_notifications S now t rid event http err log sv)) = get_run_row i (db_of sv)"
  by (rule get_row_same) simp

lemma get_row_step [simp]: "get_run_row i (snd (record_run_step s db)) = get_run_row i db"
  "get_run_row i (record_run now tid http err db) = get_run_row i db"
  by (simp_all add: get_run_row_def record_run_step_def record_run_def)

lemma get_row_finish:
  assumes "get_run_row rid db = Some r" "lease_held (run_status r)"
  shows "get_run_row rid (finish_run now rid http err db) = Some (r\<lparr>run_status := if cancel_requested r then Cancelled
      else if err \<noteq> None then Failed else Succeeded, run_http_status := http, run_error := map_option redact err,
      run_finished_at := Some now, lease_owner := None, lease_expires_at := None\<rparr>)"
  using assms get_row_id [OF assms(1)] by (simp add: finish_run_def Let_def get_row_update)

lemma get_row_log:
  assumes "get_run_row rid db = Some r"
  shows "get_run_row rid (record_run_log rid msg db) = Some (r\<lparr>run_log := Some (redact msg)\<rparr>)"
  using assms get_row_id [OF assms] by (simp add: record_run_log_def get_row_update)

lemma get_row_trace:
  assumes "get_run_row rid db = Some r" "run_task_id r = tid"
  shows "get_run_row rid (record_latest_failed_run_trace tid rid trace db) = Some (r\<lparr>failure_trace := Some (redact trace)\<rparr>)"
proof -
  let ?db = "snd (update_runs (\<lambda>r. run_task_id r = tid \<and> run_id r \<noteq> rid) (\<lambda>r. r\<lparr>failure_trace := None\<rparr>) db)"
  have "get_run_row rid ?db = Some r" using assms get_row_id [OF assms(1)] by (simp add: get_row_update)
  then show ?thesis
    using assms get_row_id [OF assms(1)] by (simp add: record_latest_failed_run_trace_def get_row_update)
qed

lemma get_row_retry: "get_run_row i db = Some x \<Longrightarrow> get_run_row i (schedule_retry_after now t r db) = Some x"
  by (simp add: schedule_retry_after_def schedule_retry_def Let_def get_row_insert)

text \<open>What a held run's row becomes.\<close>

definition cancelled_text :: "error \<Rightarrow> bool" where
  "cancelled_text e \<longleftrightarrow> contains_sub (lit ''execution cancelled'') (bounded_error (full_message e))"

definition settled :: "int \<Rightarrow> run_observation \<Rightarrow> error + nat \<times> ustr option \<Rightarrow> run_row \<Rightarrow> run_row" where
  "settled now ob result r =
     (let ended = (\<lambda>st http err. r\<lparr>run_status := if cancel_requested r then Cancelled else st, run_http_status := http,
            run_error := err, run_finished_at := Some now, lease_owner := None, lease_expires_at := None\<rparr>)
      in case result of
        Inr (st, log) \<Rightarrow> (ended Succeeded (Some (int st)) None)
          \<lparr>run_log := (case log of None \<Rightarrow> run_log r | Some l \<Rightarrow> Some (redact l))\<rparr>
      | Inl e \<Rightarrow> (let msg = bounded_error (full_message e) in
          if cancelled_text e then ended Succeeded None None
          else (ended Failed None (Some (redact msg)))\<lparr>failure_trace := Some (redact (format_trace (ob_trace ob) msg))\<rparr>))"

lemma conclude_settles:
  assumes "get_run_row (run_id r) (db_of sv) = Some r0" "lease_held (run_status r0)" "run_task_id r0 = task_id t"
  shows "get_run_row (run_id r) (db_of (conclude_run S now t r ob result sv)) = Some (settled now ob result r0)"
proof (cases result)
  case (Inr x)
  obtain st log where x: "x = (st, log)" by (cases x)
  have "get_run_row (run_id r) (record_run now (task_id t) (Some (int st)) None (db_of sv)) = Some r0" using assms(1) by simp
  note f = get_row_finish [OF this assms(2)]
  show ?thesis
    using f get_row_log [OF f]
    by (simp add: conclude_run_def conclude_success_def Let_def Inr x settled_def split: option.split)
next
  case (Inl e)
  define msg where "msg = bounded_error (full_message e)"
  show ?thesis
  proof (cases "cancelled_text e")
    case True
    then show ?thesis
      using get_row_finish [OF assms(1,2)]
      by (simp add: conclude_run_def conclude_cancelled_def Inl cancelled_text_def settled_def Let_def)
  next
    case False
    have held: "lease_held (run_status (r0\<lparr>failure_trace := x\<rparr>))" for x using assms(2) by simp
    have fin: "get_run_row (run_id r) (finish_run now (run_id r) None (Some msg) (record_latest_failed_run_trace (task_id t) (run_id r)
        trace (record_run now (task_id t) None (Some msg) db))) = Some (r0\<lparr>failure_trace := Some (redact trace),
          run_status := if cancel_requested r0 then Cancelled else Failed, run_http_status := None,
          run_error := Some (redact msg), run_finished_at := Some now, lease_owner := None, lease_expires_at := None\<rparr>)"
      if "get_run_row (run_id r) db = Some r0" for trace db
      using get_row_finish [OF get_row_trace [OF _ assms(3)] held, of "run_id r"] that by simp
    have c: "conclude_run S now t r ob result sv = conclude_failure S now t r ob msg sv"
      using False by (simp add: conclude_run_def Inl cancelled_text_def msg_def)
    have s: "settled now ob result r0 = r0\<lparr>run_status := if cancel_requested r0 then Cancelled else Failed,
        run_http_status := None, run_error := Some (redact msg), run_finished_at := Some now, lease_owner := None,
        lease_expires_at := None, failure_trace := Some (redact (format_trace (ob_trace ob) msg))\<rparr>"
      using False by (simp add: settled_def Inl msg_def [symmetric] Let_def)
    show ?thesis
      unfolding c s conclude_failure_def Let_def db_of_on_db
      by (rule get_row_retry, cases "ob_steps ob = []") (simp_all add: fin assms(1))
  qed
qed

end
