(* ===== verification/SchedulerGuard.thy ===== *)
theory SchedulerGuard
  imports SchedulerProps ExecProps
begin

text \<open>
  What a run and its notifications do to the world: with private targets refused, an invariant that mail
  and every request of a guarded client keep is kept by a delivery, a plain task, a template run and the
  whole conclusion of a run.
\<close>

section \<open>The server's own requests\<close>

definition holds_on :: "('w \<Rightarrow> bool) \<Rightarrow> 'w \<Rightarrow> 'w \<Rightarrow> bool" where
  "holds_on Inv w w1 \<longleftrightarrow> (Inv w \<longrightarrow> Inv w1)"

definition net_safe :: "'w outworld \<Rightarrow> ('w \<Rightarrow> bool) \<Rightarrow> bool" where
  "net_safe W Inv \<longleftrightarrow>
     (\<forall>w w0 cl t rq. Inv w \<longrightarrow> client_guarded (ow_net W w0) cl \<longrightarrow> Inv (snd (ow_send W cl t rq w)))
     \<and> (\<forall>w host port credentials m. Inv w \<longrightarrow> Inv (snd (ow_mail W host port credentials m w)))"

interpretation ho: run_relation "holds_on Inv" "holds_on Inv" for Inv
  by unfold_locales (auto simp: holds_on_def)

abbreviation safe_out :: "('w \<Rightarrow> bool) \<Rightarrow> ('w, 'a) serr \<Rightarrow> bool" where
  "safe_out Inv m \<equiv> outcome (holds_on Inv) (holds_on Inv) m"

lemma outbound_request_guarded:
  assumes "outbound_request W h u w = (Inr cl, w1)" "\<not> allow_private_network (oh_settings h)"
  shows "w1 = w \<and> client_guarded (ow_net W w) cl"
proof -
  from assms(1) have "guarded_client_for_url (ow_net W w) u (http_policy h) False = Inr cl" "w1 = w"
    by (auto simp: outbound_request_def smap_err_def sread_def split: sum.splits)
  with guarded_client_guarded assms(2) show ?thesis by (simp add: http_policy_def)
qed

text \<open>Such a world, with private targets refused.\<close>

definition guarded_net :: "'w outworld \<Rightarrow> outbound_http \<Rightarrow> ('w \<Rightarrow> bool) \<Rightarrow> bool" where
  "guarded_net W h Inv \<longleftrightarrow> net_safe W Inv \<and> \<not> allow_private_network (oh_settings h)"

lemma safe_send:
  assumes "guarded_net W h Inv"
  shows "safe_out Inv (send_with_timeout W h t rq f)"
proof (rule outcome_sameI)
  fix w
  show "holds_on Inv w (snd (send_with_timeout W h t rq f w))"
  proof (cases "outbound_request W h (or_url rq) w")
    case (Pair r w1)
    show ?thesis
    proof (cases r)
      case (Inl e)
      then have "w1 = w" using Pair by (auto simp: outbound_request_def smap_err_def sread_def split: sum.splits)
      then show ?thesis by (simp add: send_with_timeout_def sbind_def Pair Inl holds_on_def)
    next
      case (Inr cl)
      with Pair outbound_request_guarded [of W h "or_url rq" w cl w1] assms
      have "w1 = w" "client_guarded (ow_net W w) cl" by (auto simp: guarded_net_def)
      then have "holds_on Inv w (snd (ow_send W cl t rq w))"
        using assms by (auto simp: guarded_net_def net_safe_def holds_on_def)
      then show ?thesis
        by (simp add: send_with_timeout_def sbind_def Pair Inr \<open>w1 = w\<close> smap_err_def split: prod.split sum.split) auto
    qed
  qed
qed

lemma safe_accepted: "guarded_net W h Inv \<Longrightarrow> safe_out Inv (accepted W h rq f rej)"
  unfolding accepted_def send_outbound_def by (intro ho.outcome_intros safe_send)

lemma safe_push_checked: "guarded_net W h Inv \<Longrightarrow> safe_out Inv (push_checked W h rq f rej k v)"
  unfolding push_checked_def by (intro ho.outcome_intros safe_accepted)

lemmas safe_intros = ho.outcome_intros safe_accepted safe_push_checked safe_send

lemma safe_push:
  assumes "guarded_net W h Inv"
  shows "safe_out Inv (push_to_channel W h kind config title body)"
proof -
  note i = safe_intros assms
  have "safe_out Inv (send_bark W h config title body)" unfolding send_bark_def Let_def by (intro i)
  moreover have "safe_out Inv (send_serverchan W h config title body)" unfolding send_serverchan_def by (intro i)
  moreover have "safe_out Inv (send_telegram W h config title body)" unfolding send_telegram_def Let_def by (intro i)
  moreover have "safe_out Inv (send_dingtalk W h config title body)" unfolding send_dingtalk_def by (intro i)
  moreover have "safe_out Inv (send_wxpusher W h config title body)" unfolding send_wxpusher_def by (intro i)
  moreover have "safe_out Inv (send_wxpusher_spt W h config title body)"
    unfolding send_wxpusher_spt_def Let_def by (intro i ho.outcome_if)
  moreover have "safe_out Inv (send_wecom_app W h config title body)" unfolding send_wecom_app_def Let_def by (intro i)
  moreover have "safe_out Inv (send_wecom_webhook W h config title body)" unfolding send_wecom_webhook_def by (intro i)
  ultimately show ?thesis unfolding push_to_channel_def by (intro ho.outcome_if ho.outcome_sfail)
qed

lemma safe_mail:
  assumes "net_safe W Inv"
  shows "safe_out Inv (send_mail W c to_addr from_addr subject body)"
proof -
  have "safe_out Inv (ow_mail W host port credentials m)" for host port credentials m
    using assms by (intro outcome_sameI) (auto simp: net_safe_def holds_on_def)
  then show ?thesis
    by (auto simp: send_mail_def Let_def intro!: ho.outcome_intros split: option.split)
qed

lemma safe_deliver:
  assumes "guarded_net W h Inv"
  shows "safe_out Inv (deliver W h env email kind config m rendered)"
proof -
  note i = safe_intros assms
  have "net_safe W Inv" using assms by (simp add: guarded_net_def)
  then have "safe_out Inv (deliver_mail W env email config m)"
    unfolding deliver_mail_def by (intro i safe_mail)
  moreover have "safe_out Inv (deliver_custom W h config m rendered)" unfolding deliver_custom_def Let_def by (intro i)
  ultimately show ?thesis unfolding deliver_def by (intro ho.outcome_if i safe_push)
qed

lemma safe_plain: "guarded_net W h Inv \<Longrightarrow> safe_out Inv (execute_plain_task en W h t vs policy)"
  unfolding execute_plain_task_def by (intro safe_intros)

section \<open>A run\<close>

text \<open>
  The executors of all owners keep the invariant too (\<open>world_safe\<close> depends on the outside of an executor
  only), and an interrupted execution left a world that has it.
\<close>

definition run_safe :: "('w, 'enc) scheduler \<Rightarrow> 'w halt option \<Rightarrow> ('w \<Rightarrow> bool) \<Rightarrow> bool" where
  "run_safe S halt Inv \<longleftrightarrow> guarded_net (sc_net S) (sc_http S) Inv
     \<and> (\<forall>owner X. ex_out X = sc_outside S owner \<longrightarrow> world_safe X Inv)
     \<and> (case halt of None \<Rightarrow> True | Some h \<Rightarrow> Inv (ht_world h))"

lemma safe_send_one:
  assumes "guarded_net (sc_net S) (sc_http S) Inv" "Inv (sv_world sv)"
  shows "Inv (sv_world (snd (send_one S now t a h event vars payload dflt sv)))"
  using outcome_same [OF safe_deliver [OF assms(1)]] assms(2) by (simp add: send_one_def holds_on_def split_beta)

lemma safe_notify:
  assumes "guarded_net (sc_net S) (sc_http S) Inv" "Inv (sv_world sv)"
  shows "Inv (sv_world (send_notifications S now t rid event http err log sv))"
proof -
  have "Inv (sv_world (fold (notify_binding S now t event vars payload dflt automatic failures) bs sv))"
    for vars payload dflt automatic failures bs
    using assms(2)
    by (induction bs arbitrary: sv) (auto simp: notify_binding_def safe_send_one [OF assms(1)])
  then show ?thesis
    by (cases rule: send_notifications_fold [of S now t rid event http err log sv]) (simp_all add: assms(2))
qed

lemma world_observe [simp]: "sv_world (snd (observe C rid at k es st)) = sv_world (snd st)"
proof (induction es arbitrary: k st)
  case (Cons e es)
  then show ?case
    by (simp add: observe_event_def Let_def split: prod.split execution_phase.split sum.split)
qed simp

lemma world_log: "sv_world (case log of None \<Rightarrow> sv | Some l \<Rightarrow> on_db (f l) sv) = sv_world sv"
  by (simp split: option.split)

lemma safe_conclude:
  assumes "guarded_net (sc_net S) (sc_http S) Inv" "Inv (sv_world sv)"
  shows "Inv (sv_world (conclude_run S now t r ob result sv))"
proof -
  have "Inv (sv_world (conclude_success S now t r st log sv))" for st log
    unfolding conclude_success_def Let_def
    by (rule safe_notify [OF assms(1)]) (simp only: broadcast_sel world_log on_db_sel assms(2))
  moreover have "Inv (sv_world (conclude_failure S now t r ob msg sv))" for msg
    unfolding conclude_failure_def Let_def on_db_sel
    by (rule safe_notify [OF assms(1)], cases "ob_steps ob = []") (simp_all add: assms(2))
  moreover have "Inv (sv_world (conclude_cancelled now r sv))" using assms(2) by (simp add: conclude_cancelled_def)
  ultimately show ?thesis by (simp add: conclude_run_def Let_def split: sum.split)
qed

lemma executor_built:
  assumes "executor_with_options en out (run_options policy) = Inr X"
  shows "ex_out X = out \<and> op_allow_private (ex_policy X) = rp_private policy"
  using assms by (auto simp: executor_with_options_def res_simps run_options_def options_policy_def)

lemma safe_template:
  assumes "\<And>X. ex_out X = out \<Longrightarrow> world_safe X Inv" "\<not> rp_private policy" "Inv w"
    and "case halt of None \<Rightarrow> True | Some h \<Rightarrow> Inv (ht_world h)"
  shows "Inv (rn_world (snd (execute_template_with_observer en out refusal policy observed halt p vs w)))"
proof (cases "executor_with_options en out (run_options policy)")
  case (Inl e)
  then show ?thesis using assms(3) by (simp add: execute_template_with_observer_def initial_run_def)
next
  case (Inr X)
  let ?X = "X\<lparr>ex_observed := observed\<rparr>"
  have X: "world_safe ?X Inv" "\<not> op_allow_private (ex_policy ?X)"
    using executor_built [OF Inr] assms(1,2) by simp_all
  have i: "outcome (carries Inv) (carries Inv) (interruptible halt m)" if "outcome (carries Inv) (carries Inv) m" for m :: "('a run, step_result list) serr"
    using assms(4) that by (cases halt) (auto simp: interruptible_def outcome_def carries_def)
  have "outcome (carries Inv) (carries Inv) (execute ?X blocks)" "outcome (carries Inv) (carries Inv) (execute_template ?X d)" for blocks d
    using execution_guarded_run [OF X] by auto
  then have "outcome (carries Inv) (carries Inv) (sbind (run_template refusal halt ?X (tpl_source p)) (\<lambda>results. sread (\<lambda>s. Inr (results, vars_of s))))"
    by (auto simp: run_template_def intro!: cw.outcome_intros i split: template_source.split)
  from outcome_same [OF this] show ?thesis
    using assms(3) by (simp add: execute_template_with_observer_def Inr carries_def initial_run_def)
qed

lemma run_task_world:
  "snd (snd (run_task S halt t c w)) = (let policy = run_policy_of (timeout_seconds t) (oh_settings (sc_http S)) in
     case task_template_id t of
       None \<Rightarrow> snd (execute_plain_task (sc_engine S) (sc_net S) (sc_http S) t (task_variables t) policy w)
     | Some i \<Rightarrow> (case get_template i c of None \<Rightarrow> w
         | Some p \<Rightarrow> rn_world (snd (execute_template_with_observer (sc_engine S) (sc_outside S (task_owner_id (task_id t) (base c)))
             (sc_refusal S) policy True halt p (task_variables t) w))))"
  by (cases "task_template_id t"; cases "get_template (the (task_template_id t)) c") (simp_all add: run_task_def Let_def split_beta)

lemma safe_run_task:
  assumes "run_safe S halt Inv" "Inv w"
  shows "Inv (snd (snd (run_task S halt t c w)))"
proof -
  define policy where "policy = run_policy_of (timeout_seconds t) (oh_settings (sc_http S))"
  have g: "guarded_net (sc_net S) (sc_http S) Inv" using assms(1) by (simp add: run_safe_def)
  then have p: "\<not> rp_private policy"
    by (simp add: guarded_net_def run_policy_of_def policy_def)
  have "Inv (rn_world (snd (execute_template_with_observer (sc_engine S) (sc_outside S owner) (sc_refusal S) policy True halt p
      (task_variables t) w)))" for owner p
    by (rule safe_template [where Inv = Inv]) (use p assms in \<open>auto simp: run_safe_def\<close>)
  moreover have "Inv (snd (execute_plain_task (sc_engine S) (sc_net S) (sc_http S) t (task_variables t) policy w))"
    using outcome_same [OF safe_plain [OF g]] assms(2) by (simp add: holds_on_def)
  ultimately show ?thesis
    using assms(2) unfolding run_task_world Let_def policy_def [symmetric] by (simp split: option.split)
qed

lemma safe_execute:
  assumes "run_safe S halt Inv" "Inv (sv_world sv)"
  shows "Inv (sv_world (execute_with_run S halt at now t r sv))"
proof -
  obtain result events w1 where x: "run_task S halt t (sv_catalog sv) (sv_world sv) = (result, events, w1)"
    by (metis prod_cases3)
  with safe_run_task [OF assms, of t "sv_catalog sv"] have "Inv w1" by simp
  moreover obtain ob sv1 where o: "observe (sc_clock S) (run_id r) at 0 events (no_observation, sv\<lparr>sv_world := w1\<rparr>) = (ob, sv1)"
    by (metis surj_pair)
  moreover from o have "sv_world sv1 = w1"
    using world_observe [of "sc_clock S" "run_id r" at 0 events "(no_observation, sv\<lparr>sv_world := w1\<rparr>)"] by simp
  moreover have "guarded_net (sc_net S) (sc_http S) Inv" using assms(1) by (simp add: run_safe_def)
  ultimately show ?thesis by (simp add: execute_with_run_def x safe_conclude)
qed

lemma safe_work:
  assumes "run_safe S halt Inv" "Inv (sv_world sv)"
  shows "Inv (sv_world (work S halt at now done_at worker sv))"
proof -
  have "sv_world (snd (take_work now worker sv)) = sv_world sv"
    by (simp add: take_work_def Let_def split: prod.split option.split)
  with assms(2) show ?thesis
    using safe_execute [OF assms(1)] by (simp add: work_def split: prod.split option.split) fastforce
qed

end
