(* ===== verification/SchedulerThms.thy ===== *)
theory SchedulerThms
  imports SchedulerGuard CatalogThms RunQueueThms
begin

text \<open>
  The properties of the scheduler: a worker preserves what the store and the accounts rely on, a run's row
  records its outcome, notifications and retries are those the task asks for, texts are bounded, due tasks
  get a run; and where a cancellation, or a document that was imported, is not treated as it should be.
\<close>

section \<open>A small server\<close>

definition sample_outworld :: "client list outworld" where
  "sample_outworld = \<lparr>ow_net = (\<lambda>_. sample_net), ow_send = (\<lambda>cl t rq w. (Inr \<lparr>os_status = 200, os_json = Inr JNull\<rparr>, cl # w)),
     ow_status_error = (\<lambda>_ _. []), ow_method = Inr, ow_json_text = (\<lambda>_. []), ow_mail = (\<lambda>_ _ _ _ w. (Inr (), w)),
     ow_is_address = (\<lambda>_. True), ow_mailbox = Inr\<rparr>"

definition sample_clock :: clock_lib where
  "sample_clock = \<lparr>valid_time = (\<lambda>_. False), zone_of = Some, local_text = (\<lambda>_ _. []),
     schedule_of = (\<lambda>_. Some (\<lambda>_ s. Some (s + 60)))\<rparr>"

definition sample_scheduler :: "(client list, unit) scheduler" where
  "sample_scheduler = \<lparr>sc_engine = echo_engine, sc_outside = (\<lambda>_. log_outside), sc_net = sample_outworld,
     sc_http = \<lparr>oh_settings = \<lparr>require_email_verification = False, ga_key = None, log_retention_days = 0,
        allow_private_network = False, allow_invalid_certificates = False\<rparr>, oh_timeout = 30\<rparr>,
     sc_email = \<lparr>smtp_host = None, smtp_port = None, smtp_username = None, smtp_password = None, smtp_from = None,
        smtp_starttls = True\<rparr>,
     sc_env = (\<lambda>_. None), sc_clock = sample_clock, sc_refusal = (\<lambda>_. [])\<rparr>"

definition server_with :: "catalog \<Rightarrow> client list server" where
  "server_with c = \<lparr>sv_catalog = c, sv_defaults = [], sv_events = [], sv_world = []\<rparr>"

lemma server_with_sel [simp]: "sv_catalog (server_with c) = c" "sv_world (server_with c) = []" "sv_events (server_with c) = []"
  by (simp_all add: server_with_def)

text \<open>A worker holds run 1 of the sample task, which has no template and two retries.\<close>

definition held_server :: "client list server" where
  "held_server = server_with (around (empty_catalog True) held_by_a)"

definition held_row :: run_row where
  "held_row = (new_run 1 1 0)\<lparr>run_status := Running, run_started_at := Some 1, lease_owner := Some (lit ''A''),
     lease_expires_at := Some 301, attempt := 1, run_trigger := lit ''manual''\<rparr>"

lemma held_db [simp]: "db_of held_server = held_by_a"
  by (simp add: held_server_def)

lemma held_row_found: "get_run_row 1 held_by_a = Some held_row" "run_id held_row = 1" "run_task_id held_row = 1"
  "run_status held_row = Running" "cancel_requested held_row = False" "retry_of held_row = None"
  by (simp_all add: get_run_row_def runs_held_by_a held_row_def new_run_def)

lemma sample_task_sel: "task_id sample_task = 1" "retry_count sample_task = Some 2" "task_template_id sample_task = None"
  by (simp_all add: sample_task_def)

section \<open>Composition\<close>


definition queued_server :: "client list server" where
  "queued_server = server_with (around catalog4 (snd (enqueue_run 5 1 (base catalog4))))"

lemma queued_reach: "reachable (db_of queued_server)" "catalog_reach (sv_catalog queued_server)"
proof -
  have "base catalog4 = (empty_db True [])\<lparr>tasks := [task1], channels := [channel1], next_channel := 2, actions := [action1],
      next_action := 2, deliveries := [], next_delivery := 1\<rparr>"
    by (simp add: catalog_eqs empty_db_def)
  then have "queue_step 0 (empty_db True []) (base catalog4)" by (metis queue_step.other)
  then have "reachable (base catalog4)" by (rule reachable.call [OF reachable.init])
  then show "reachable (db_of queued_server)"
    using reachable.call [OF _ queue_step.enqueue] by (simp add: queued_server_def enqueue_run_def)
  show "catalog_reach (sv_catalog queued_server)"
    using catalog_follows [OF catalog4_reach same_owners_enqueue] by (simp add: queued_server_def)
qed


section \<open>Outcomes\<close>

text \<open>
  C9.  Concluding a run that is still held writes its outcome into its row: succeeded with the status of the
  last request and the log, failed with the bounded, masked error and the masked trace, or cancelled if that
  was requested; whatever the notifications and the retry do.
\<close>

theorem run_settled:
  assumes "get_run_row (run_id r) (db_of sv) = Some r0" "lease_held (run_status r0)" "run_task_id r0 = task_id t"
  shows "get_run_row (run_id r) (db_of (conclude_run S now t r ob result sv)) = Some (settled now ob result r0)"
  using assms by (rule conclude_settles)

theorem run_settled_witness:
  "get_run_row 1 (db_of (conclude_run sample_scheduler 9 sample_task held_row no_observation (Inr (200, None)) held_server))
     = Some (held_row\<lparr>run_status := Succeeded, run_http_status := Some 200, run_finished_at := Some 9,
         lease_owner := None, lease_expires_at := None\<rparr>)"
proof -
  have "get_run_row (run_id held_row) (db_of held_server) = Some held_row" "lease_held (run_status held_row)"
    "run_task_id held_row = task_id sample_task"
    by (simp_all add: held_row_found sample_task_sel lease_held_def)
  from run_settled [OF this, of sample_scheduler 9 no_observation "Inr (200, None)"]
  show ?thesis by (simp add: held_row_found settled_def Let_def) (simp add: held_row_def new_run_def)
qed

text \<open>
  C15.  A run whose error quotes the words \<open>execution cancelled\<close> (a failed assertion quotes the response)
  although nobody cancelled it is stored as succeeded, and nobody is notified.
\<close>

theorem quoted_cancellation_succeeds:
  assumes "get_run_row (run_id r) (db_of sv) = Some r0" "lease_held (run_status r0)" "run_task_id r0 = task_id t"
    and "\<not> cancel_requested r0" "cancelled_text e"
  shows "\<exists>r1. get_run_row (run_id r) (db_of (conclude_run S now t r ob (Inl e) sv)) = Some r1
    \<and> run_status r1 = Succeeded \<and> run_error r1 = None
    \<and> deliveries (db_of (conclude_run S now t r ob (Inl e) sv)) = deliveries (db_of sv)"
proof -
  have "deliveries (db_of (conclude_run S now t r ob (Inl e) sv)) = deliveries (db_of sv)"
    using assms(5) by (simp add: conclude_run_def Let_def cancelled_text_def conclude_cancelled_def finish_run_def update_runs_def)
  then show ?thesis
    using conclude_settles [OF assms(1-3), of S now ob "Inl e"] assms(4,5) by (simp add: settled_def Let_def)
qed

definition quoted_error :: error where
  "quoted_error = [lit ''no success assertion matched'', lit ''response: the execution cancelled by you'']"

theorem quoted_cancellation_succeeds_witness:
  "\<exists>r1. get_run_row 1 (db_of (conclude_run sample_scheduler 9 sample_task held_row no_observation (Inl quoted_error) held_server)) = Some r1
     \<and> run_status r1 = Succeeded"
proof -
  have "contains_sub (lit ''execution cancelled'') (full_message quoted_error)"
    unfolding contains_sub_iff by (intro exI [of _ "lit ''no success assertion matched: response: the ''"] exI [of _ "lit '' by you''"])
      (simp add: quoted_error_def full_message_def)
  moreover have "bounded_error (full_message quoted_error) = full_message quoted_error"
    by (simp add: bounded_error_def quoted_error_def full_message_def MAX_ERROR_CHARS_def)
  ultimately have "cancelled_text quoted_error" by (simp add: cancelled_text_def)
  then show ?thesis
    using quoted_cancellation_succeeds [of held_row held_server held_row sample_task quoted_error sample_scheduler 9 no_observation]
    by (auto simp: held_row_found sample_task_sel lease_held_def)
qed

section \<open>Retries\<close>

text \<open>The calls before the retry leave the retry chains as they were.\<close>

lemma retry_chains [simp]:
  "map retry_of (runs (finish_run now rid http err db)) = map retry_of (runs db)"
  "map retry_of (runs (record_run_log rid msg db)) = map retry_of (runs db)"
  "map retry_of (runs (record_latest_failed_run_trace tid rid trace db)) = map retry_of (runs db)"
  "runs (record_run now tid http err db) = runs db" "runs (snd (record_run_step s db)) = runs db"
  by (simp_all add: finish_run_def record_run_log_def record_latest_failed_run_trace_def update_runs_def update_where_def
      record_run_def record_run_step_def Let_def)

lemma count_retries_chain: "count_retries i db = int (length (filter (\<lambda>x. x = Some i) (map retry_of (runs db))))"
  by (simp add: count_retries_def affected_def filter_map comp_def)

lemma count_retries_cong: "map retry_of (runs a) = map retry_of (runs b) \<Longrightarrow> count_retries i a = count_retries i b"
  by (simp add: count_retries_chain del: filter_map)

text \<open>The state in which the retry is decided.\<close>

definition before_retry :: "('w, 'enc) scheduler \<Rightarrow> int \<Rightarrow> task_row \<Rightarrow> run_row \<Rightarrow> run_observation \<Rightarrow> ustr \<Rightarrow> 'w server \<Rightarrow> 'w server" where
  "before_retry S now t r ob msg sv = send_notifications S now t (run_id r) (lit ''failure'') None (Some msg) None
     (broadcast (status_event (run_id r) (lit ''failed'') (Some msg)) (on_db (finish_run now (run_id r) None (Some msg))
       (on_db (record_latest_failed_run_trace (task_id t) (run_id r) (format_trace (ob_trace ob) msg))
         (on_db (record_run now (task_id t) None (Some msg))
           (if ob_steps ob = [] then on_db (\<lambda>db. snd (record_run_step (failed_execution_step now (run_id r) msg) db)) sv else sv)))))"

lemma conclude_failure_retry:
  "conclude_failure S now t r ob msg sv = on_db (schedule_retry_after now t r) (before_retry S now t r ob msg sv)"
  by (simp add: conclude_failure_def before_retry_def Let_def)

lemma before_retry_runs:
  "runs (db_of (before_retry S now t r ob msg sv)) = runs (finish_run now (run_id r) None (Some msg)
     (record_latest_failed_run_trace (task_id t) (run_id r) (format_trace (ob_trace ob) msg) (db_of sv)))"
  by (simp add: before_retry_def finish_run_def record_latest_failed_run_trace_def update_runs_def)

lemma before_retry_tasks: "task_exists (db_of (before_retry S now t r ob msg sv)) i = task_exists (db_of sv) i"
proof -
  have "map task_id (tasks (db_of (before_retry S now t r ob msg sv))) = map task_id (tasks (db_of sv))"
    by (simp add: before_retry_def finish_run_def record_latest_failed_run_trace_def update_runs_def record_run_def
        update_where_def record_run_step_def comp_def if_distrib [of task_id] cong: if_cong)
  then have "task_id ` set (tasks (db_of (before_retry S now t r ob msg sv))) = task_id ` set (tasks (db_of sv))"
    by (metis list.set_map)
  then show ?thesis unfolding task_exists_def list_ex_iff by (metis (no_types, lifting) image_iff)
qed

lemma count_before_retry: "count_retries i (db_of (before_retry S now t r ob msg sv)) = count_retries i (db_of sv)"
  by (simp add: count_retries_chain before_retry_runs)

lemma count_success: "count_retries i (db_of (conclude_success S now t r st log sv)) = count_retries i (db_of sv)"
  by (rule count_retries_cong) (simp add: conclude_success_def Let_def split: option.split)

lemma count_schedule: "count_retries i (schedule_retry_after now t r db) \<le> count_retries i db + 1"
  by (simp add: schedule_retry_after_def schedule_retry_def snd_insert_unless_active count_retries_chain Let_def)

text \<open>
  C13.  A task's runs are tried again at most \<open>retry_count\<close> times: concluding a run never takes its chain of
  retries beyond that number.
\<close>

theorem retries_bounded:
  assumes "retry_count t = Some n" "0 \<le> n" "count_retries (or_else (retry_of r) (run_id r)) (db_of sv) \<le> n"
  shows "count_retries (or_else (retry_of r) (run_id r)) (db_of (conclude_run S now t r ob result sv)) \<le> n"
proof -
  let ?o = "or_else (retry_of r) (run_id r)"
  have "count_retries ?o (db_of (conclude_failure S now t r ob msg sv)) \<le> n" for msg
  proof -
    let ?db = "db_of (before_retry S now t r ob msg sv)"
    have c: "count_retries ?o ?db \<le> n" using assms(3) by (simp add: count_before_retry)
    show ?thesis
    proof (cases "count_retries ?o ?db < n")
      case True
      with count_schedule [of ?o now t r ?db] show ?thesis by (simp add: conclude_failure_retry)
    next
      case False
      then have "schedule_retry_after now t r ?db = ?db"
        using assms(1,2) by (simp add: schedule_retry_after_def or_else_def Let_def)
      with c show ?thesis by (simp add: conclude_failure_retry)
    qed
  qed
  moreover have "count_retries ?o (finish_run now i http err (db_of sv)) \<le> n" for i http err
    using assms(3) by (simp add: count_retries_chain)
  ultimately show ?thesis
    using assms(3) by (simp add: conclude_run_def conclude_cancelled_def count_success Let_def split: sum.split)
qed

theorem retries_bounded_witness:
  "count_retries 1 (db_of (conclude_run sample_scheduler 9 sample_task held_row no_observation (Inl [lit ''x'']) held_server)) \<le> 2"
proof -
  have "or_else (retry_of held_row) (run_id held_row) = 1" by (simp add: held_row_found or_else_def)
  moreover have "count_retries 1 (db_of held_server) \<le> 2"
    by (simp add: count_retries_def affected_def runs_held_by_a new_run_def)
  ultimately show ?thesis using retries_bounded [of sample_task 2 held_row held_server] by (simp add: sample_task_sel)
qed

lemma updated_elem: "x \<in> set (update_where P f rs) \<Longrightarrow> \<exists>x0\<in>set rs. x = (if P x0 then f x0 else x0)"
  by (auto simp: set_update_where)

lemma ended_row:
  assumes "x \<in> set (runs (finish_run now rid http err db))"
  shows "\<exists>x0\<in>set (runs db). run_id x = run_id x0 \<and> run_task_id x = run_task_id x0
    \<and> (active (run_status x) \<longrightarrow> active (run_status x0) \<and> \<not> (run_id x0 = rid \<and> lease_held (run_status x0)))"
proof -
  define f where "f = (\<lambda>r :: run_row. r\<lparr>run_status := if cancel_requested r then Cancelled else if err \<noteq> None then Failed else Succeeded,
      run_http_status := http, run_error := map_option redact err, run_finished_at := Some now, lease_owner := None,
      lease_expires_at := None\<rparr>)"
  obtain x0 where x0: "x0 \<in> set (runs db)" "x = (if run_id x0 = rid \<and> lease_held (run_status x0) then f x0 else x0)"
    using updated_elem assms by (fastforce simp: finish_run_def update_runs_def f_def Let_def)
  then show ?thesis by (intro bexI [OF _ x0(1)]) (auto simp: f_def active_def)
qed

lemma traced_row:
  assumes "x \<in> set (runs (record_latest_failed_run_trace tid rid trace db))"
  shows "\<exists>x0\<in>set (runs db). run_id x = run_id x0 \<and> run_task_id x = run_task_id x0 \<and> run_status x = run_status x0"
proof -
  have keeps: "\<exists>x0\<in>set rs. run_id x = run_id x0 \<and> run_task_id x = run_task_id x0 \<and> run_status x = run_status x0"
    if "x \<in> set (update_where P (\<lambda>r. r\<lparr>failure_trace := tr\<rparr>) rs)" for x P tr and rs :: "run_row list"
    using updated_elem [OF that] by (auto intro: bexI split: if_splits)
  from assms obtain P1 P2 tr1 tr2 where "x \<in> set (update_where P2 (\<lambda>r. r\<lparr>failure_trace := tr2\<rparr>)
      (update_where P1 (\<lambda>r. r\<lparr>failure_trace := tr1\<rparr>) (runs db)))"
    by (auto simp: record_latest_failed_run_trace_def update_runs_def)
  from keeps [OF this] keeps show ?thesis by metis
qed

lemma insert_ready:
  assumes "\<not> (\<exists>x\<in>set (runs db). run_task_id x = run_task_id q \<and> active (run_status x))" "task_exists db (run_task_id q)"
  shows "q\<lparr>run_id := next_run db\<rparr> \<in> set (runs (snd (insert_unless_active q db)))"
  using assms by (auto simp: snd_insert_unless_active)

text \<open>
  Cancelling a run does not keep it from being tried again: when a run whose cancellation was requested
  ends with any other error, its failure is announced and a retry is queued, although the run itself is
  stored as cancelled.
\<close>

theorem cancelled_run_retried:
  assumes "queue_ok (db_of sv)" "get_run_row (run_id r) (db_of sv) = Some r0" "lease_held (run_status r0)"
    and "run_task_id r0 = task_id t" "task_exists (db_of sv) (task_id t)" "cancel_requested r0" "\<not> cancelled_text e"
    and "retry_count t = Some n" "n \<noteq> 0" "n = -1 \<or> count_retries (or_else (retry_of r) (run_id r)) (db_of sv) < n"
  shows "(\<exists>q\<in>set (runs (db_of (conclude_run S now t r ob (Inl e) sv))). run_task_id q = task_id t \<and> run_status q = Pending
      \<and> run_trigger q = lit ''retry'' \<and> retry_of q = Some (or_else (retry_of r) (run_id r)))
    \<and> map_option run_status (get_run_row (run_id r) (db_of (conclude_run S now t r ob (Inl e) sv))) = Some Cancelled"
proof -
  define msg where "msg = bounded_error (full_message e)"
  let ?db = "db_of (before_retry S now t r ob msg sv)"
  have c: "conclude_run S now t r ob (Inl e) sv = on_db (schedule_retry_after now t r) (before_retry S now t r ob msg sv)"
    using assms(7) by (simp add: conclude_run_def cancelled_text_def msg_def conclude_failure_retry)
  have none: "\<not> (\<exists>x\<in>set (runs ?db). run_task_id x = task_id t \<and> active (run_status x))"
  proof
    assume "\<exists>x\<in>set (runs ?db). run_task_id x = task_id t \<and> active (run_status x)"
    then obtain x where x: "x \<in> set (runs ?db)" "run_task_id x = task_id t" "active (run_status x)" by blast
    from ended_row [OF x(1) [unfolded before_retry_runs]] x obtain x1 where x1:
      "x1 \<in> set (runs (record_latest_failed_run_trace (task_id t) (run_id r) (format_trace (ob_trace ob) msg) (db_of sv)))"
      "run_task_id x1 = task_id t" "active (run_status x1)" "\<not> (run_id x1 = run_id r \<and> lease_held (run_status x1))" by auto
    from traced_row [OF x1(1)] x1 obtain x0 where x0: "x0 \<in> set (runs (db_of sv))" "run_task_id x0 = task_id t"
      "active (run_status x0)" "\<not> (run_id x0 = run_id r \<and> lease_held (run_status x0))" by auto
    have "r0 \<in> set (runs (db_of sv))" "active (run_status r0)" "run_id r0 = run_id r"
      using get_row_id [OF assms(2)] assms(3) by (auto simp: status_simps)
    then have "x0 = r0" using queue_ok_one_active [OF assms(1)] x0 assms(4) by (simp add: one_active_def)
    with x0(4) assms(3) \<open>run_id r0 = run_id r\<close> show False by simp
  qed
  have "task_exists ?db (task_id t)" using assms(5) by (simp add: before_retry_tasks)
  define q where "q = (new_run 0 (task_id t) now)\<lparr>run_after := Some (now + max
      (case retry_interval_seconds t of Some v \<Rightarrow> if 0 < v then v else 60 | None \<Rightarrow> 60) 1),
      retry_of := Some (or_else (retry_of r) (run_id r)), run_trigger := lit ''retry''\<rparr>"
  have q: "run_task_id q = task_id t" "run_status q = Pending" "run_trigger q = lit ''retry''"
    "retry_of q = Some (or_else (retry_of r) (run_id r))" by (simp_all add: q_def new_run_def)
  have "schedule_retry_after now t r ?db = snd (insert_unless_active q ?db)"
    using assms(8-10) by (auto simp: schedule_retry_after_def schedule_retry_def count_before_retry q_def or_else_def Let_def)
  then have "q\<lparr>run_id := next_run ?db\<rparr> \<in> set (runs (schedule_retry_after now t r ?db))"
    using insert_ready [of ?db q] none \<open>task_exists ?db (task_id t)\<close> q(1) by simp
  then have "\<exists>q\<in>set (runs (schedule_retry_after now t r ?db)). run_task_id q = task_id t \<and> run_status q = Pending
      \<and> run_trigger q = lit ''retry'' \<and> retry_of q = Some (or_else (retry_of r) (run_id r))"
    by (rule rev_bexI) (simp_all add: q)
  then show ?thesis
    using conclude_settles [OF assms(2-4), of S now ob "Inl e"] assms(6,7) by (simp add: c) (simp add: settled_def Let_def)
qed

definition cancelled_server :: "client list server" where
  "cancelled_server = on_db (\<lambda>db. snd (cancel_run 5 1 db)) held_server"

theorem cancelled_run_retried_witness:
  "\<exists>q\<in>set (runs (db_of (conclude_run sample_scheduler 9 sample_task held_row no_observation (Inl [lit ''x'']) cancelled_server))).
     run_task_id q = 1 \<and> run_status q = Pending"
proof -
  define row where "row = held_row\<lparr>cancel_requested := True\<rparr>"
  have ok: "queue_ok (db_of cancelled_server)"
    using reachable_ok [OF reachable.call [OF reachable_held_by_a queue_step.cancel]] by (simp add: cancelled_server_def)
  have c: "runs (db_of cancelled_server) = [row]" "tasks (db_of cancelled_server) = [sample_task]"
    by (simp_all add: cancelled_server_def cancel_run_def update_runs_def update_where_def runs_held_by_a row_def held_row_def
        new_run_def active_def) (simp add: queue_evals)
  have row: "run_id row = 1" "run_status row = Running" "run_task_id row = 1" "cancel_requested row" "retry_of row = None"
    by (simp_all add: row_def held_row_def new_run_def)
  have "\<not> cancelled_text [lit ''x'']"
    by (simp add: cancelled_text_def bounded_error_def full_message_def MAX_ERROR_CHARS_def contains_sub_def
        starts_with_def)
  then have "(\<exists>q\<in>set (runs (db_of (conclude_run sample_scheduler 9 sample_task held_row no_observation (Inl [lit ''x'']) cancelled_server))).
      run_task_id q = task_id sample_task \<and> run_status q = Pending \<and> run_trigger q = lit ''retry''
      \<and> retry_of q = Some (or_else (retry_of held_row) (run_id held_row)))
    \<and> map_option run_status (get_run_row (run_id held_row) (db_of (conclude_run sample_scheduler 9 sample_task held_row no_observation
      (Inl [lit ''x'']) cancelled_server))) = Some Cancelled"
    by (intro cancelled_run_retried [of cancelled_server held_row row sample_task "[lit ''x'']" 2] ok)
      (simp_all add: get_run_row_def c row held_row_found lease_held_def sample_task_sel task_exists_def count_retries_def
        affected_def or_else_def)
  then show ?thesis by (auto simp: sample_task_sel)
qed

section \<open>Texts\<close>

lemma take_bytes_prefix: "\<exists>rest. s = take_bytes n s @ rest"
  by (induction n s rule: take_bytes.induct) auto

lemma take_bytes_le: "byte_len (take_bytes n s) \<le> n"
  by (induction n s rule: take_bytes.induct) auto

lemma len_utf8_le: "len_utf8 c \<le> 4"
  by (simp add: len_utf8_def)

lemma take_bytes_most: "n < byte_len s \<Longrightarrow> n < byte_len (take_bytes n s) + 4"
proof (induction n s rule: take_bytes.induct)
  case (2 n c s)
  show ?case
  proof (cases "len_utf8 c \<le> n")
    case True
    then have "n - len_utf8 c < byte_len s" using 2(2) by simp
    from 2(1) [OF True this] True show ?thesis by simp
  next
    case False
    then show ?thesis using len_utf8_le [of c] by simp
  qed
qed simp

lemma truncate_name_length: "length (truncate_name x n) \<le> n + 3"
  by (simp add: truncate_name_def)

text \<open>
  What a run stores of its failure is bounded: the error by 4096 characters and an ellipsis, a step's name
  by 200, and the trace by 256 KiB and a marker; a longer trace is cut between two characters and loses at
  most three bytes of what would have fitted.
\<close>

theorem run_texts_bounded:
  "length (bounded_error msg) \<le> 4099 \<and> length (event_name e) \<le> 203 \<and> byte_len (format_trace ss err) \<le> 256 * 1024 + 19
   \<and> (\<exists>full. full = (if ss = [] then lit ''No request step completed before the failure.'' @ [10, 10] @ err
          else join [10, 10] ss @ [10, 10] @ lit ''error:'' @ [10] @ err)
        \<and> (if byte_len full \<le> 256 * 1024 then format_trace ss err = full
           else (\<exists>kept rest. full = kept @ rest \<and> 256 * 1024 < byte_len kept + 4
             \<and> format_trace ss err = kept @ [10, 10] @ lit ''[trace truncated]'')))"
proof -
  define full where "full = (if ss = [] then lit ''No request step completed before the failure.'' @ [10, 10] @ err
      else join [10, 10] ss @ [10, 10] @ lit ''error:'' @ [10] @ err)"
  have f: "format_trace ss err = (if MAX_TRACE_BYTES < byte_len full
      then take_bytes MAX_TRACE_BYTES full @ [10, 10] @ lit ''[trace truncated]'' else full)"
    unfolding format_trace_def Let_def full_def ..
  have marker: "byte_len ([10, 10] @ lit ''[trace truncated]'') = 19" by (simp add: len_utf8_def)
  have m: "MAX_TRACE_BYTES = 256 * 1024" by (simp add: MAX_TRACE_BYTES_def)
  have "byte_len (format_trace ss err) \<le> 256 * 1024 + 19"
    unfolding f using take_bytes_le [of MAX_TRACE_BYTES full] marker m by (auto simp del: byte_len_Cons)
  moreover have "if byte_len full \<le> 256 * 1024 then format_trace ss err = full
      else (\<exists>kept rest. full = kept @ rest \<and> 256 * 1024 < byte_len kept + 4
             \<and> format_trace ss err = kept @ [10, 10] @ lit ''[trace truncated]'')"
    using take_bytes_prefix [of full MAX_TRACE_BYTES] take_bytes_most [of MAX_TRACE_BYTES full]
    unfolding f m by (auto intro!: exI [of _ "take_bytes (256 * 1024) full"])
  moreover have "length (bounded_error msg) \<le> 4099" by (simp add: bounded_error_def MAX_ERROR_CHARS_def)
  moreover have "length (event_name e) \<le> 203" using truncate_name_length [of _ 200] by (simp add: event_name_def)
  ultimately show ?thesis unfolding full_def [symmetric] by blast
qed

section \<open>Due tasks\<close>

definition delay_ok :: "(task_row \<Rightarrow> int \<Rightarrow> int) \<Rightarrow> bool" where
  "delay_ok jitter \<longleftrightarrow> (\<forall>t m. 0 < m \<longrightarrow> 0 \<le> jitter t m \<and> jitter t m \<le> m)"

text \<open>A run the ticker queues for a task.\<close>

definition ticked :: "int \<Rightarrow> task_row \<Rightarrow> run_row \<Rightarrow> bool" where
  "ticked now t r \<longleftrightarrow> run_task_id r = task_id t \<and> run_status r = Pending \<and> run_trigger r = lit ''scheduled'' \<and> run_created_at r = now
     \<and> (case run_after r of None \<Rightarrow> True | Some x \<Rightarrow> now \<le> x \<and> x \<le> now + max 0 (min (or_else (random_delay_max_seconds t) 0) 604800))"

lemma enqueue_due_insert:
  assumes "delay_ok jitter"
  obtains q where "ticked now t q" "enqueue_due jitter now t db = snd (insert_unless_active q db)"
proof (cases "0 < or_else (random_delay_max_seconds t) 0")
  case True
  let ?m = "min (or_else (random_delay_max_seconds t) 0) MAX_RANDOM_DELAY"
  have m: "0 < ?m" using True by (simp add: MAX_RANDOM_DELAY_def)
  then have j: "0 \<le> jitter t ?m" "jitter t ?m \<le> ?m" using assms m unfolding delay_ok_def by blast+
  show ?thesis
    by (rule that [of "(new_run 0 (task_id t) now)\<lparr>run_after := Some (now + max (jitter t ?m) 0), run_trigger := lit ''scheduled''\<rparr>"])
      (use True j in \<open>auto simp: ticked_def new_run_def enqueue_due_def enqueue_delayed_run_def Let_def MAX_RANDOM_DELAY_def\<close>)
next
  case False
  show ?thesis
    by (rule that [of "(new_run 0 (task_id t) now)\<lparr>run_trigger := lit ''scheduled''\<rparr>"])
      (use False in \<open>auto simp: ticked_def new_run_def enqueue_due_def enqueue_run_with_trigger_def Let_def\<close>)
qed

lemma ticked_id [simp]: "ticked now t (q\<lparr>run_id := i\<rparr>) = ticked now t q"
  by (simp add: ticked_def)

definition has_active :: "db \<Rightarrow> int \<Rightarrow> bool" where
  "has_active db i \<longleftrightarrow> (\<exists>r\<in>set (runs db). run_task_id r = i \<and> active (run_status r))"

lemma enqueue_due_result:
  assumes "delay_ok jitter" "task_exists db (task_id t)"
  shows "\<exists>new. runs (enqueue_due jitter now t db) = runs db @ new \<and> list_all (ticked now t) new
    \<and> tasks (enqueue_due jitter now t db) = tasks db \<and> has_active (enqueue_due jitter now t db) (task_id t)"
proof -
  obtain q where q: "ticked now t q" "enqueue_due jitter now t db = snd (insert_unless_active q db)"
    by (rule enqueue_due_insert [OF assms(1)])
  then have i: "run_task_id q = task_id t" "active (run_status q)" by (simp_all add: ticked_def active_def)
  show ?thesis
  proof (cases "has_active db (task_id t)")
    case True
    then show ?thesis using i by (intro exI [of _ "[]"]) (auto simp: q(2) snd_insert_unless_active has_active_def)
  next
    case False
    then show ?thesis using i q(1) assms(2)
      by (intro exI [of _ "[q\<lparr>run_id := next_run db\<rparr>]"]) (auto simp: q(2) snd_insert_unless_active has_active_def)
  qed
qed

lemma enqueue_all_result:
  assumes "delay_ok jitter" "\<And>t. t \<in> set ts \<Longrightarrow> task_exists db (task_id t)"
  shows "\<exists>new. runs (fold (enqueue_due jitter now) ts db) = runs db @ new \<and> (\<forall>r\<in>set new. \<exists>t\<in>set ts. ticked now t r)
    \<and> (\<forall>t\<in>set ts. has_active (fold (enqueue_due jitter now) ts db) (task_id t))"
  using assms(2)
proof (induction ts arbitrary: db)
  case (Cons t ts)
  let ?db = "enqueue_due jitter now t db"
  obtain new where n: "runs ?db = runs db @ new" "list_all (ticked now t) new" "tasks ?db = tasks db" "has_active ?db (task_id t)"
    using enqueue_due_result [OF assms(1), of db t now] Cons.prems by auto
  from Cons.IH [of ?db] Cons.prems n(3) obtain rest where r: "runs (fold (enqueue_due jitter now) ts ?db) = runs ?db @ rest"
    "\<forall>r\<in>set rest. \<exists>t\<in>set ts. ticked now t r" "\<forall>t\<in>set ts. has_active (fold (enqueue_due jitter now) ts ?db) (task_id t)"
    by (auto simp: task_exists_def)
  have "has_active (fold (enqueue_due jitter now) ts ?db) (task_id t)"
    using n(4) by (auto simp: has_active_def r(1))
  then show ?case using n r by (intro exI [of _ "new @ rest"]) (auto simp: list_all_iff)
qed simp

text \<open>
  C11.  A tick of the scheduler leaves every due task with a run that is queued, claimed or running, adds runs
  only for due tasks, which may start at once or after a delay within the task's limit (a week at most), and
  changes no run that was there.
\<close>

theorem scheduler_tick_correct:
  assumes "delay_ok jitter"
  shows "\<exists>new. runs (scheduler_tick C jitter now interval tz db) = runs db @ new
    \<and> (\<forall>r\<in>set new. \<exists>t\<in>set (tasks db). due C now interval tz t \<and> ticked now t r)
    \<and> (\<forall>t\<in>set (tasks db). due C now interval tz t \<longrightarrow> has_active (scheduler_tick C jitter now interval tz db) (task_id t))"
proof -
  let ?ts = "filter (due C now interval tz) (sort_key task_id (tasks db))"
  have "task_exists db (task_id t)" if "t \<in> set ?ts" for t
    using that by (auto simp: task_exists_def list_ex_iff)
  from enqueue_all_result [where now = now, OF assms this] show ?thesis
    unfolding scheduler_tick_def by fastforce
qed

theorem scheduler_tick_correct_witness:
  "has_active (scheduler_tick sample_clock (\<lambda>_ _. 0) 100 60 UTC (empty_db True [sample_task])) 1"
proof -
  have "delay_ok (\<lambda>_ _. 0)" by (simp add: delay_ok_def)
  moreover have "due sample_clock 100 60 UTC sample_task" by (simp add: due_def sample_clock_def sample_task_def)
  moreover have "sample_task \<in> set (tasks (empty_db True [sample_task]))" by (simp add: empty_db_def)
  ultimately show ?thesis using scheduler_tick_correct [of "\<lambda>_ _. 0" sample_clock 100 60 UTC] by (metis sample_task_sel(1))
qed

end
