(* ===== verification/RunThms.thy ===== *)
theory RunThms
  imports SchedulerThms
begin

text \<open>
  What a run sends: only through guarded clients when private targets are refused; nothing at all when its
  template is a document the strict reader refuses; and exactly the notifications its bindings ask for, each
  numbered in the ledger.
\<close>

section \<open>Guarded runs\<close>

text \<open>
  C10.  With private targets refused, everything a worker sends (the requests of a template, the request of a
  plain task, webhooks and push messages; mail apart) goes through a client the guard let through, whatever
  the answers are: an invariant of the world that such sends keep is kept by the worker.
\<close>

theorem worker_guarded:
  assumes "run_safe S halt Inv" "Inv (sv_world sv)"
  shows "Inv (sv_world (work S halt at now done_at worker sv))"
  using assms by (rule safe_work)

theorem worker_guarded_witness:
  "no_redirects (sv_world (work sample_scheduler None int 6 7 (lit ''A'') queued_server))"
proof -
  have "guarded_net (sc_net sample_scheduler) (sc_http sample_scheduler) no_redirects"
    by (auto simp: guarded_net_def net_safe_def sample_scheduler_def sample_outworld_def no_redirects_def client_guarded_def)
  moreover have "world_safe X no_redirects" if "ex_out X = log_outside" for X
    using that by (auto simp: world_safe_def log_outside_def no_redirects_def client_guarded_def)
  ultimately have "run_safe sample_scheduler None no_redirects" by (simp add: run_safe_def sample_scheduler_def)
  moreover have "no_redirects (sv_world queued_server)" by (simp add: queued_server_def no_redirects_def)
  ultimately show ?thesis by (rule worker_guarded)
qed

section \<open>Bare arrays\<close>

text \<open>
  C14.  A template may be imported as the bare array of entries QD exports, and is stored as it came; but a run
  reads it with the strict reader.  Every run of such a template fails before it sends anything.
\<close>

theorem bare_array_never_runs:
  assumes "catalog_reach c0" "import_qd_har_with_owner L now (Some u) name descr (JArr es) c0 = (Inr p, c1)"
    and "\<forall>e\<in>set es. jget (lit ''version'') e = None"
    and "task_template_id t = Some i" "get_template i c = Some p"
  shows "run_task S halt t c w = (Inl [lit ''invalid QD HAR document'', sc_refusal S (JArr es)], [], w)"
proof -
  from assms(2) obtain d where d: "parse_qd (har_refusal L) (JArr es) = Inr d"
    by (auto simp: import_qd_har_with_owner_def split: sum.splits) (auto simp: res_simps)
  have "find (\<lambda>x. tpl_id x = next_template c0) (templates c0) = None"
    using reach_isolated [OF assms(1)] by (fastforce simp: isolated_def ids_fresh_def keyed_def find_None_iff)
  then have p: "tpl_source p = QdHar (JArr es)"
    using assms(2) by (auto simp: import_qd_har_with_owner_def insert_template_def get_template_def find_append new_template_def
        Let_def split: sum.splits)
  have "har_parse (sc_refusal S) (JArr es) = Inl [lit ''invalid QD HAR document'', sc_refusal S (JArr es)]"
    using bare_array_refused [OF d assms(3)] by simp
  then have x: "run_template (sc_refusal S) halt X (tpl_source p) s = (Inl [lit ''invalid QD HAR document'', sc_refusal S (JArr es)], s)" for X s
    by (simp add: run_template_def p sbind_def sread_def)
  have "\<exists>X. executor_with_options (sc_engine S) (sc_outside S owner) (run_options policy) = Inr X" for owner policy
    by (simp add: executor_with_options_def run_options_def default_options_def DEFAULT_REQUEST_LIMIT_def MAX_LOOP_ITERATIONS_def)
  then have "execute_template_with_observer (sc_engine S) (sc_outside S owner) (sc_refusal S) policy True halt p vs w
      = (Inl [lit ''invalid QD HAR document'', sc_refusal S (JArr es)], initial_run (context_new vs) 0 w)" for owner policy vs
    by (auto simp: execute_template_with_observer_def sbind_def x split: sum.split)
      (metis Inr_Inl_False)
  then show ?thesis
    by (simp add: run_task_def assms(4,5) initial_run_def Let_def)
qed

theorem bare_array_never_runs_witness:
  "run_task sample_scheduler None task1 catalog4 [] = (Inl [lit ''invalid QD HAR document'', []], [], [])"
proof -
  obtain es where es: "bare_document = JArr es" "\<forall>e\<in>set es. jget (lit ''version'') e = None"
    by (simp add: bare_document_def jget_def)
  have "get_template 1 catalog1 = Some template1"
    by (simp add: get_template_def catalog1_eq) (simp add: template1_def new_template_def)
  then have "import_qd_har_with_owner any_lib 5 (Some 7) (lit ''h'') None (JArr es) (empty_catalog True) = (Inr template1, catalog1)"
    using es(1) by (simp add: catalog1_def import_qd_har_with_owner_def insert_template_def Let_def validate_template_name_def
        trim_defs) (simp add: parse_bare empty_catalog_def)
  moreover have "get_template 1 catalog4 = Some template1"
    using \<open>get_template 1 catalog1 = Some template1\<close> by (simp add: catalog_eqs get_template_def)
  moreover have "sc_refusal sample_scheduler (JArr es) = []" by (simp add: sample_scheduler_def)
  ultimately show ?thesis
    using bare_array_never_runs [OF catalog_reach.fresh _ es(2) task1_sel(3)] by metis
qed

section \<open>Notifications\<close>

text \<open>
  The ledger numbers the attempts of a binding for a run and an event one, two, three ...: the worker and
  the retries asked for by hand continue the sequence.
\<close>

theorem ledger_numbered:
  assumes "numbered (db_of sv)"
  shows "numbered (db_of (work S halt at now done_at worker sv))
    \<and> numbered (db_of (snd (retry_delivery S now d t a h sv)))"
  using assms ledger.work_keeps [of sv S halt at now done_at worker] ledger.retry_delivery_keeps [of sv S now d t a h]
  by (simp add: stays_numbered_def)

theorem ledger_numbered_witness:
  "numbered (db_of (work sample_scheduler None int 6 7 (lit ''A'') queued_server))"
proof -
  have "deliveries (db_of queued_server) = []"
    by (simp add: queued_server_def enqueue_run_def enqueue_run_with_trigger_def snd_insert_unless_active catalog_eqs empty_db_def)
  then have "numbered (db_of queued_server)" by (simp add: numbered_def)
  then show ?thesis using ledger_numbered by blast
qed

text \<open>The bindings whose gates a run passes.\<close>

definition open_bindings :: "int \<Rightarrow> int \<Rightarrow> ustr \<Rightarrow> db \<Rightarrow> (notification_channel \<times> notification_action) list
    \<Rightarrow> (notification_channel \<times> notification_action) list" where
  "open_bindings tid rid event db = filter (\<lambda>(h, a). gate_open
     (case get_run rid db of None \<Rightarrow> False | Some r \<Rightarrow> run_trigger r \<noteq> lit ''manual'') event
     (if event = lit ''failure'' then count_recent_failures tid db else 0) a)"

lemma notify_ledger:
  assumes "run_exists (db_of sv) (tv_run_id vars)"
  shows "\<exists>new. deliveries (db_of (fold (notify_binding S now t event vars payload dflt automatic failures) bs sv)) = deliveries (db_of sv) @ new
    \<and> map (\<lambda>d. (delivery_run_id d, delivery_action_id d, delivery_channel_id d, delivery_event d)) new
      = map (\<lambda>(h, a). (tv_run_id vars, Some (action_id a), Some (channel_id h), event))
          (filter (\<lambda>(h, a). gate_open automatic event failures a) bs)"
  using assms
proof (induction bs arbitrary: sv)
  case (Cons b bs)
  obtain h a where b: "b = (h, a)" by (cases b)
  show ?case
  proof (cases "gate_open automatic event failures a")
    case False
    then show ?thesis using Cons by (simp add: b notify_binding_def)
  next
    case True
    let ?sv = "snd (send_one S now t a h event vars payload dflt sv)"
    obtain result where r: "db_of ?sv = record_attempt now (tv_run_id vars) t a h event result (db_of sv)"
      using send_one_db by blast
    define d where "d = attempt_row now (tv_run_id vars) t a h event result (db_of sv)"
    have d: "deliveries (db_of ?sv) = deliveries (db_of sv) @ [d]" and e: "run_exists (db_of ?sv) (tv_run_id vars)"
      using Cons.prems by (simp_all add: r record_attempt_row d_def run_exists_def)
    from Cons.IH [OF e] obtain new where n: "deliveries (db_of (fold (notify_binding S now t event vars payload dflt automatic failures) bs ?sv))
        = deliveries (db_of ?sv) @ new"
      "map (\<lambda>d. (delivery_run_id d, delivery_action_id d, delivery_channel_id d, delivery_event d)) new
        = map (\<lambda>(h, a). (tv_run_id vars, Some (action_id a), Some (channel_id h), event))
            (filter (\<lambda>(h, a). gate_open automatic event failures a) bs)" by blast
    have "notify_binding S now t event vars payload dflt automatic failures b sv = ?sv" using True by (simp add: b notify_binding_def)
    then show ?thesis
      using n d True by (intro exI [of _ "d # new"]) (simp add: b d_def attempt_row_def)
  qed
qed simp

text \<open>
  C12.  A run notifies through exactly the bindings of its task for the event, to enabled channels, whose gates
  it passes (only automatic runs, enough failures since the last success), once each and in their order.
\<close>

theorem notified_exactly:
  assumes "notification_channels_for_event (task_id t) event (db_of sv) = Inr bindings" "run_exists (db_of sv) rid"
  shows "\<exists>new. deliveries (db_of (send_notifications S now t rid event http err log sv)) = deliveries (db_of sv) @ new
    \<and> map (\<lambda>d. (delivery_run_id d, delivery_action_id d, delivery_channel_id d, delivery_event d)) new
      = map (\<lambda>(h, a). (rid, Some (action_id a), Some (channel_id h), event)) (open_bindings (task_id t) rid event (db_of sv) bindings)"
proof -
  let ?vars = "run_vars (sc_clock S) now t rid (get_run rid (db_of sv)) event http err log"
  let ?auto = "case get_run rid (db_of sv) of None \<Rightarrow> False | Some r \<Rightarrow> run_trigger r \<noteq> lit ''manual''"
  let ?failures = "if event = lit ''failure'' then count_recent_failures (task_id t) (db_of sv) else 0"
  have v: "tv_run_id ?vars = rid" by (simp add: run_vars_def)
  have f: "send_notifications S now t rid event http err log sv = fold (notify_binding S now t event ?vars
      (JObj (notification_payload event t rid http err)) (default_for t event sv) ?auto ?failures) bindings sv"
    unfolding send_notifications_def assms(1) sum.case Let_def notify_binding_def ..
  from notify_ledger [of sv ?vars S now t event "JObj (notification_payload event t rid http err)" "default_for t event sv"
      ?auto ?failures bindings] assms(2)
  show ?thesis unfolding v f open_bindings_def by blast
qed

theorem notified_exactly_witness:
  "\<exists>d. deliveries (db_of (send_notifications sample_scheduler 9 task1 1 (lit ''success'') (Some 200) None None queued_server)) = [d]
     \<and> delivery_action_id d = Some 1"
proof -
  have db: "db_of queued_server = (base catalog4)\<lparr>runs := [new_run 1 1 5], next_run := 2\<rparr>"
    by (simp add: queued_server_def enqueue_run_def enqueue_run_with_trigger_def snd_insert_unless_active catalog_eqs empty_db_def
        task1_sel task_exists_def new_run_def)
  have "notification_channels_for_event (task_id task1) (lit ''success'') (db_of queued_server) = Inr [(channel1, action1)]"
    by (simp add: notification_channels_for_event_def db catalog_eqs channel1_def action1_def task1_sel)
  moreover have "run_exists (db_of queued_server) 1" by (simp add: db run_exists_def new_run_def)
  moreover have "open_bindings (task_id task1) 1 (lit ''success'') (db_of queued_server) [(channel1, action1)] = [(channel1, action1)]"
    by (simp add: open_bindings_def gate_open_def action1_def)
  moreover have "deliveries (db_of queued_server) = []" by (simp add: db catalog_eqs empty_db_def)
  ultimately show ?thesis
    using notified_exactly [of task1 "lit ''success''" queued_server "[(channel1, action1)]" 1 sample_scheduler 9 "Some 200" None None]
    by (fastforce simp: action1_def)
qed

end
