(* ===== verification/PyText.thy ===== *)
theory PyText
  imports RustStr
begin

text \<open>
  Python's text operations as the expression language offers them
  (\<open>crates/qdrust-core/src/expression.rs\<close>): slices, splitting, padding, wrapping and escaping.

  A text is a list of code points, so \<open>chars().count()\<close> is its length.
\<close>

section \<open>Slices\<close>

definition resolve_bound :: "int \<Rightarrow> int option \<Rightarrow> int \<Rightarrow> int" where
  "resolve_bound len bound fallback = (case bound of
      Some b \<Rightarrow> if b < 0 then max (len + b) 0 else min b len
    | None \<Rightarrow> fallback)"

definition char_slice :: "ustr \<Rightarrow> int option \<Rightarrow> int option \<Rightarrow> ustr" where
  "char_slice s start stop =
     (let len = int (length s); a = resolve_bound len start 0; b = resolve_bound len stop len
      in if b \<le> a then [] else take (nat b - nat a) (drop (nat a) s))"

definition clamp_index :: "int \<Rightarrow> nat \<Rightarrow> nat" where
  "clamp_index index len = (if index < 0 then len - nat (- index) else min (nat index) len)"

section \<open>Splitting\<close>

text \<open>The words cut off by \<open>split(None, n)\<close>, and what is left of the text.\<close>

fun split_words :: "nat \<Rightarrow> ustr \<Rightarrow> ustr list \<times> ustr" where
  "split_words 0 rest = ([], rest)"
| "split_words (Suc n) rest =
     (let trimmed = trim_start rest in
      case find_by is_ws trimmed of None \<Rightarrow> ([], trimmed)
      | Some i \<Rightarrow> let (parts, r) = split_words n (drop i trimmed) in (take i trimmed # parts, r))"

text \<open>\<open>rsplitn\<close> with a character class, in the order it yields its pieces.\<close>

fun splitn_by :: "nat \<Rightarrow> ('a \<Rightarrow> bool) \<Rightarrow> 'a list \<Rightarrow> 'a list list" where
  "splitn_by 0 P s = []"
| "splitn_by (Suc 0) P s = [s]"
| "splitn_by (Suc (Suc n)) P s = (case find_by P s of None \<Rightarrow> [s]
     | Some i \<Rightarrow> take i s # splitn_by (Suc n) P (drop (Suc i) s))"

definition rsplitn_by :: "nat \<Rightarrow> ('a \<Rightarrow> bool) \<Rightarrow> 'a list \<Rightarrow> 'a list list" where
  "rsplitn_by n P s = map rev (splitn_by n P (rev s))"

definition python_split :: "ustr \<Rightarrow> ustr option \<Rightarrow> int option \<Rightarrow> bool \<Rightarrow> error + ustr list" where
  "python_split s separator maxsplit from_right =
     (let m = (case maxsplit of Some i \<Rightarrow> if 0 \<le> i then Some (nat i) else None | None \<Rightarrow> None) in
      case separator of
        Some sep \<Rightarrow>
          if sep = [] then Inl [lit ''empty separator'']
          else Inr (case (m, from_right) of
              (Some n, False) \<Rightarrow> splitn_str (n + 1) sep s
            | (Some n, True) \<Rightarrow> rev (rsplitn_str (n + 1) sep s)
            | (None, False) \<Rightarrow> split_str sep s
            | (None, True) \<Rightarrow> rsplit_str sep s)
      | None \<Rightarrow> Inr (case m of
          Some 0 \<Rightarrow> [trim_start s]
        | Some n \<Rightarrow>
            if from_right then rev (filter (\<lambda>p. p \<noteq> []) (rsplitn_by (n + 1) is_ws (trim_end s)))
            else let (parts, r) = split_words n (trim_start s) in parts @ [trim r]
        | None \<Rightarrow> split_whitespace s))"

definition is_line_boundary :: "nat \<Rightarrow> bool" where
  "is_line_boundary c \<longleftrightarrow> c \<in> {0xA, 0xD, 0xB, 0xC, 0x1C, 0x1D, 0x1E, 0x85, 0x2028, 0x2029}"

text \<open>The lines from \<open>s\<close> on, \<open>current\<close> being the line so far.\<close>

fun lines_from :: "bool \<Rightarrow> ustr \<Rightarrow> ustr \<Rightarrow> ustr list" where
  "lines_from keepends current [] = (if current = [] then [] else [current])"
| "lines_from keepends current (c # s) =
     (if \<not> is_line_boundary c then lines_from keepends (current @ [c]) s
      else let crlf = (c = 0xD \<and> starts_with [0xA] s);
               boundary = (if crlf then [c, 0xA] else [c])
        in (current @ (if keepends then boundary else [])) # lines_from keepends [] (drop (if crlf then 1 else 0) s))"

definition python_splitlines :: "ustr \<Rightarrow> bool \<Rightarrow> ustr list" where
  "python_splitlines s keepends = lines_from keepends [] s"

definition collapse_whitespace :: "ustr \<Rightarrow> ustr" where
  "collapse_whitespace s = join (lit '' '') (split_whitespace s)"

section \<open>Padding and wrapping\<close>

definition pad :: "ustr \<Rightarrow> int \<Rightarrow> nat \<Rightarrow> ustr \<Rightarrow> ustr" where
  "pad s width fill kind =
     (if width \<le> int (length s) then s
      else let padding = nat (width - int (length s)) in
        if kind = lit ''ljust'' then s @ replicate padding fill
        else if kind = lit ''rjust'' then replicate padding fill @ s
        else if kind = lit ''center'' then
          let left = padding div 2 in replicate left fill @ s @ replicate (padding - left) fill
        else (case s of
            c # rest \<Rightarrow> if c = ch CHR ''-'' \<or> c = ch CHR ''+'' then c # replicate padding (ch CHR ''0'') @ rest
              else replicate padding (ch CHR ''0'') @ s
          | [] \<Rightarrow> replicate padding (ch CHR ''0'')))"

definition center :: "ustr \<Rightarrow> nat \<Rightarrow> ustr" where
  "center s width =
     (if width \<le> length s then s
      else let padding = width - length s; left = padding div 2
        in replicate left 32 @ s @ replicate (padding - left) 32)"

definition truncate_text :: "ustr \<Rightarrow> int \<Rightarrow> bool \<Rightarrow> ustr \<Rightarrow> int \<Rightarrow> ustr" where
  "truncate_text s len killwords ending leeway =
     (if length s \<le> nat len + nat leeway then s
      else let keep = min (nat len - length ending) (length s);
               head = take keep s;
               head = (if killwords then head else case rsplit_once (lit '' '') head of Some (before, _) \<Rightarrow> before | None \<Rightarrow> head)
        in head @ ending)"

text \<open>The pieces \<open>width\<close> wide cut off a long word, and its last piece; with a width of zero the loop never ends.\<close>

partial_function (option) break_word :: "bool \<Rightarrow> nat \<Rightarrow> ustr \<Rightarrow> (ustr list \<times> ustr) option" where
  "break_word breaks width word =
     (if breaks \<and> width < length word then
        Option.bind (break_word breaks width (drop width word)) (\<lambda>(pieces, r). Some (take width word # pieces, r))
      else Some ([], word))"

fun wrap_words :: "nat \<Rightarrow> bool \<Rightarrow> ustr \<Rightarrow> ustr list \<Rightarrow> ustr list option" where
  "wrap_words width breaks current [] = Some (if current = [] then [] else [current])"
| "wrap_words width breaks current (word # ws) =
     (let full = current \<noteq> [] \<and> width < length current + 1 + length word;
          done = (if full then [current] else []);
          current = (if full then [] else current)
      in Option.bind (break_word breaks width word) (\<lambda>(pieces, word).
         map_option (\<lambda>ls. done @ pieces @ ls)
           (wrap_words width breaks (if current = [] then word else current @ [32] @ word) ws)))"

definition wordwrap :: "ustr \<Rightarrow> nat \<Rightarrow> bool \<Rightarrow> ustr \<Rightarrow> ustr option" where
  "wordwrap s width breaks wrapstring = map_option (join wrapstring) (wrap_words width breaks [] (split_whitespace s))"

text \<open>\<open>expandtabs\<close> from a column on.\<close>

fun expand_from :: "nat \<Rightarrow> nat \<Rightarrow> ustr \<Rightarrow> ustr" where
  "expand_from tab column [] = []"
| "expand_from tab column (c # s) =
     (if c = 9 then
        if 0 < tab then let padding = tab - column mod tab in replicate padding 32 @ expand_from tab (column + padding) s
        else expand_from tab (column + 1) s
      else if c = 10 \<or> c = 13 then c # expand_from tab 0 s
      else c # expand_from tab (column + 1) s)"

definition escape_char :: "nat \<Rightarrow> ustr" where
  "escape_char c = (if c = ch CHR ''&'' then lit ''&amp;'' else if c = ch CHR ''<'' then lit ''&lt;''
     else if c = ch CHR ''>'' then lit ''&gt;'' else if c = 34 then lit ''&#34;'' else if c = 39 then lit ''&#39;'' else [c])"

definition escape_attribute :: "ustr \<Rightarrow> ustr" where
  "escape_attribute s = concat (map escape_char s)"

end
