(* ===== verification/PyCodecs.thy ===== *)
theory PyCodecs
  imports HttpForm "HOL-Library.Word"
begin

text \<open>
  The codecs and checksums of the expression language (\<open>crates/qdrust-core/src/expression.rs\<close>):
  hexadecimal with separators, uuencoding, quoted-printable, CRCs, escapes and URL quoting.

  A byte is an \<open>8 word\<close>; arithmetic on bytes wraps, as in a release build.
\<close>

unbundle bit_operations_syntax

type_synonym byte = "8 word"

text \<open>\<open>slice::chunks\<close>, which panics for a width of zero.\<close>

function chunks :: "nat \<Rightarrow> 'a list \<Rightarrow> 'a list list" where
  "chunks n xs = (if n = 0 \<or> xs = [] then [] else take n xs # chunks n (drop n xs))"
  by auto

termination by (relation "measure (\<lambda>(n, xs). length xs)") auto

declare chunks.simps [simp del]

lemma chunks_Nil [simp]: "chunks n [] = []"
  by (simp add: chunks.simps)

lemma concat_chunks: "0 < n \<Longrightarrow> concat (chunks n xs) = xs"
  by (induction n xs rule: chunks.induct) (subst chunks.simps, auto)

section \<open>Hexadecimal\<close>

definition hex_encode :: "byte list \<Rightarrow> ustr" where
  "hex_encode data = concat (map (\<lambda>b. let n = unat b; digit = (\<lambda>d. if d < 10 then 48 + d else 87 + d) in
     [digit (n div 16), digit (n mod 16)]) data)"

text \<open>The pieces from the right, last first; \<open>group\<close> is positive.\<close>

function right_parts :: "nat \<Rightarrow> nat \<Rightarrow> ustr \<Rightarrow> ustr list" where
  "right_parts width stop s = (if stop = 0 \<or> width = 0 then []
     else let start = stop - width in take (stop - start) (drop start s) # right_parts width start s)"
  by auto

termination by (relation "measure (\<lambda>(width, stop, s). stop)") auto

declare right_parts.simps [simp del]

text \<open>The count of bytes per group is not the least \<open>i64\<close>, whose double overflows.\<close>

definition hex_with_sep :: "byte list \<Rightarrow> ustr \<Rightarrow> int \<Rightarrow> ustr" where
  "hex_with_sep data sep bytes_per_sep =
     (let encoded = hex_encode data; width = nat \<bar>bytes_per_sep\<bar> * 2 in
      if bytes_per_sep = 0 \<or> encoded = [] then encoded
      else if 0 < bytes_per_sep then join sep (rev (right_parts width (length encoded) encoded))
      else join sep (chunks width encoded))"

section \<open>Uuencoding\<close>

definition byte_at :: "nat \<Rightarrow> byte list \<Rightarrow> byte" where
  "byte_at i chunk = (if i < length chunk then chunk ! i else 0)"

definition uu_char :: "byte \<Rightarrow> nat" where
  "uu_char b = unat (32 + b)"

definition uu_group :: "byte list \<Rightarrow> ustr" where
  "uu_group chunk = (let b0 = byte_at 0 chunk; b1 = byte_at 1 chunk; b2 = byte_at 2 chunk in
     [uu_char (drop_bit 2 b0),
      uu_char (push_bit 4 (b0 AND 0x03) OR drop_bit 4 b1),
      uu_char (push_bit 2 (b1 AND 0x0F) OR drop_bit 6 b2),
      uu_char (b2 AND 0x3F)])"

definition uuencode_line :: "byte list \<Rightarrow> ustr" where
  "uuencode_line data = (if data = [] then [96, 10]
     else uu_char (of_nat (length data)) # concat (map uu_group (chunks 3 data)) @ [10])"

text \<open>A character as six bits: \<open>saturating_sub\<close> and \<open>min\<close>.\<close>

definition uu_bits :: "nat \<Rightarrow> byte" where
  "uu_bits c = of_nat (min (c - 32) 63)"

definition uu_ungroup :: "byte list \<Rightarrow> byte list" where
  "uu_ungroup chunk = (let g = (\<lambda>i. byte_at i chunk) in
     [push_bit 2 (g 0) OR drop_bit 4 (g 1),
      push_bit 4 (g 1 AND 0x0F) OR drop_bit 2 (g 2),
      push_bit 6 (g 2 AND 0x03) OR g 3])"

definition uudecode_line :: "ustr \<Rightarrow> error + byte list" where
  "uudecode_line line = (case line of [] \<Rightarrow> Inr []
     | first # rest \<Rightarrow>
       let len = (of_nat first - 32 :: 32 word);
           bytes = map uu_bits (filter (\<lambda>c. c < 128) rest)
       in Inr (take (unat len) (concat (map uu_ungroup (chunks 4 bytes)))))"

section \<open>Quoted-printable\<close>

definition hex_escape :: "byte \<Rightarrow> ustr" where
  "hex_escape b = [61, hex_digit_upper (unat b div 16), hex_digit_upper (unat b mod 16)]"

text \<open>The encoder's state: the text so far, the length of its line, blanks held back.\<close>

record qp_state =
  qp_out :: ustr
  qp_line :: nat
  qp_pending :: "ustr list"

definition flush_pending :: "qp_state \<Rightarrow> qp_state" where
  "flush_pending s =
     (let blanks = (if qp_pending s = [lit '' ''] then [lit ''=20''] else if qp_pending s = [[9]] then [lit ''=09''] else qp_pending s)
      in \<lparr>qp_out = qp_out s @ concat blanks, qp_line = qp_line s + length (concat blanks), qp_pending = []\<rparr>)"

definition qp_token :: "bool \<Rightarrow> byte \<Rightarrow> ustr" where
  "qp_token istext b = (if b = 61 then lit ''=3D'' else if b = 13 \<and> istext then [13]
     else if 0x21 \<le> b \<and> b \<le> 0x7E then [unat b] else hex_escape b)"

definition qp_step :: "bool \<Rightarrow> bool \<Rightarrow> byte \<Rightarrow> qp_state \<Rightarrow> qp_state" where
  "qp_step quotetabs istext b s =
     (if b = 10 \<and> istext then let s = flush_pending s in s\<lparr>qp_line := 0, qp_out := qp_out s @ [10]\<rparr>
      else if (b = 32 \<or> b = 9) \<and> \<not> quotetabs then s\<lparr>qp_pending := qp_pending s @ [[unat b]]\<rparr>
      else let token = qp_token istext b;
               s = (if 75 < qp_line s + length token
                 then let s = flush_pending s in s\<lparr>qp_out := qp_out s @ [61, 13, 10], qp_line := 0\<rparr> else s)
        in s\<lparr>qp_line := qp_line s + length token, qp_out := qp_out s @ token\<rparr>)"

definition qp_encode :: "byte list \<Rightarrow> bool \<Rightarrow> bool \<Rightarrow> ustr" where
  "qp_encode data quotetabs istext =
     qp_out (flush_pending (fold (qp_step quotetabs istext) data \<lparr>qp_out = [], qp_line = 0, qp_pending = []\<rparr>))"

text \<open>\<open>u8::from_str_radix\<close> on two bytes, which takes a sign.\<close>

definition hex_pair :: "nat \<Rightarrow> nat \<Rightarrow> nat option" where
  "hex_pair h l = (case hex_val l of None \<Rightarrow> None
     | Some y \<Rightarrow> if h = ch CHR ''+'' then Some y else map_option (\<lambda>x. 16 * x + y) (hex_val h))"

fun qp_bytes :: "nat list \<Rightarrow> nat list" where
  "qp_bytes [] = []"
| "qp_bytes (c # rest) =
     (if c \<noteq> 61 then c # qp_bytes rest
      else case rest of
        d # rest2 \<Rightarrow>
          if d = 10 \<or> d = 13 then qp_bytes (drop (if d = 13 \<and> starts_with [10] rest2 then 1 else 0) rest2)
          else (case rest2 of
              e # rest3 \<Rightarrow> (case hex_pair d e of Some b \<Rightarrow> b # qp_bytes rest3 | None \<Rightarrow> 61 # qp_bytes rest)
            | [] \<Rightarrow> 61 # qp_bytes rest)
      | [] \<Rightarrow> [61])"

definition qp_decode :: "ustr \<Rightarrow> error + nat list" where
  "qp_decode s = Inr (qp_bytes (utf8_encode s))"

section \<open>Checksums\<close>

definition crc32_shift :: "32 word \<Rightarrow> 32 word" where
  "crc32_shift crc = (if crc AND 1 \<noteq> 0 then 0xEDB88320 XOR drop_bit 1 crc else drop_bit 1 crc)"

definition crc32_table :: "32 word list" where
  "crc32_table = map (\<lambda>i. (crc32_shift ^^ 8) (of_nat i)) [0..<256]"

definition crc32 :: "byte list \<Rightarrow> 32 word" where
  "crc32 data = fold (\<lambda>b crc. crc32_table ! unat ((crc XOR ucast b) AND 0xFF) XOR drop_bit 8 crc) data 0xFFFFFFFF XOR 0xFFFFFFFF"

definition hqx_shift :: "16 word \<Rightarrow> 16 word" where
  "hqx_shift crc = (if crc AND 0x8000 \<noteq> 0 then push_bit 1 crc XOR 0x1021 else push_bit 1 crc)"

definition crc_hqx :: "byte list \<Rightarrow> 16 word \<Rightarrow> 16 word" where
  "crc_hqx data initial = fold (\<lambda>b crc. (hqx_shift ^^ 8) (crc XOR push_bit 8 (ucast b))) data initial"

section \<open>Escapes\<close>

text \<open>A replacement of \<open>re.sub\<close> in the syntax of the \<open>regex\<close> crate.\<close>

function python_replacement :: "ustr \<Rightarrow> ustr" where
  "python_replacement [] = []"
| "python_replacement (c # s) =
     (if c \<noteq> 92 then (if c = ch CHR ''$'' then [c, c] else [c]) @ python_replacement s
      else case s of [] \<Rightarrow> [92]
      | d # t \<Rightarrow>
        if d = ch CHR ''g'' then
          (if starts_with (lit ''<'') t
           then let name = takeWhile (\<lambda>x. x \<noteq> ch CHR ''>'') (tl t)
             in lit ''${'' @ name @ lit ''}'' @ python_replacement (drop (Suc (length name)) (tl t))
           else [92, ch CHR ''g''] @ python_replacement t)
        else if is_ascii_digit d then [ch CHR ''$'', d] @ python_replacement t
        else if d = 92 then [ch CHR ''$'', ch CHR ''$'', 92] @ python_replacement t
        else 92 # python_replacement s)"
  by pat_completeness auto

termination by (relation "measure length") auto

text \<open>\<open>u32::from_str_radix(_, 16)\<close> on at most four characters.\<close>

definition parse_hex :: "ustr \<Rightarrow> nat option" where
  "parse_hex s = (let d = (if starts_with (lit ''+'') s then tl s else s) in
     if d = [] then None
     else foldl (\<lambda>acc c. Option.bind acc (\<lambda>n. map_option (\<lambda>x. 16 * n + x) (hex_val c))) (Some 0) d)"

function conver2unicode :: "ustr \<Rightarrow> ustr" where
  "conver2unicode [] = []"
| "conver2unicode (c # s) =
     (if c \<noteq> 92 then c # conver2unicode s
      else case s of [] \<Rightarrow> [c]
      | d # t \<Rightarrow>
        if d = ch CHR ''u'' then
          let hex = take 4 t in
          (case parse_hex hex of
             Some code \<Rightarrow> if is_scalar code then [code] else [92, d] @ hex
           | None \<Rightarrow> [92, d] @ hex) @ conver2unicode (drop 4 t)
        else if d = ch CHR ''x'' then
          let hex = take 2 t in
          (case parse_hex hex of Some code \<Rightarrow> [code] | None \<Rightarrow> [92, d] @ hex) @ conver2unicode (drop 2 t)
        else if d = ch CHR ''n'' then 10 # conver2unicode t
        else if d = ch CHR ''r'' then 13 # conver2unicode t
        else if d = ch CHR ''t'' then 9 # conver2unicode t
        else if d = 92 then 92 # conver2unicode t
        else c # conver2unicode s)"
  by pat_completeness auto

termination by (relation "measure length") auto

definition py_list_repr :: "ustr list \<Rightarrow> ustr" where
  "py_list_repr items = lit ''['' @ join (lit '', '') (map (\<lambda>i. [39] @ i @ [39]) items) @ lit '']''"

definition py_tuple_repr :: "ustr list \<Rightarrow> ustr" where
  "py_tuple_repr items =
     (let rendered = map (\<lambda>i. [39] @ i @ [39]) items in
      if length rendered = 1 then lit ''('' @ hd rendered @ lit '',)''
      else lit ''('' @ join (lit '', '') rendered @ lit '')'')"

section \<open>URLs\<close>

definition unreserved_mark :: "nat \<Rightarrow> bool" where
  "unreserved_mark c \<longleftrightarrow> c \<in> {45, 95, 46, 126}"

definition url_quote :: "percent_lib \<Rightarrow> ustr \<Rightarrow> bool \<Rightarrow> ustr" where
  "url_quote L v for_qs =
     pl_encode L (\<lambda>c. NON_ALPHANUMERIC c \<and> \<not> unreserved_mark c \<and> (c = 47 \<longrightarrow> for_qs)) v"

definition quote_chinese :: "ustr \<Rightarrow> ustr" where
  "quote_chinese s = concat (map (\<lambda>c. if c < 128 then [c]
     else concat (map (\<lambda>b. [37, hex_digit_upper (b div 16), hex_digit_upper (b mod 16)]) (utf8_char c))) s)"

text \<open>Base64 in lines of 76 characters, as \<open>encodebytes\<close> writes it.\<close>

definition wrap_lines :: "ustr \<Rightarrow> ustr" where
  "wrap_lines encoded = (let wrapped = concat (map (\<lambda>l. l @ [10]) (chunks 76 encoded)) in
     if wrapped = [] then [10] else wrapped)"

end
