(* ===== verification/PyValue.thy ===== *)
theory PyValue
  imports PyText PyCodecs
begin

text \<open>
  The values of the expression engine and the Python operations on them
  (\<open>crates/qdrust-core/src/expression.rs\<close>): formatting, methods of texts, lists and mappings, and the lists a
  template may change.

  The engine (MiniJinja) is not part of the program: \<open>jinja\<close> holds what the code asks of its values, of the
  Unicode tables and of 64-bit floats.
\<close>

datatype value_kind = KUndefined | KNone | KBool | KNumber | KString | KBytes | KSeq | KMap | KIterable | KOther

text \<open>
  \<open>jv_iter\<close> and \<open>jv_item\<close> are \<open>try_iter\<close> and \<open>get_item\<close> without the error they give, \<open>jv_kwargs\<close> the
  content of a value that carries keyword arguments; \<open>show_debug\<close> is the \<open>{:?}\<close> of a text.  An error the
  engine raises itself is the empty chain.
\<close>

record ('v, 'f) jinja =
  jv_kind :: "'v \<Rightarrow> value_kind"
  jv_kind_name :: "'v \<Rightarrow> ustr"
  jv_text :: "'v \<Rightarrow> ustr"
  jv_true :: "'v \<Rightarrow> bool"
  jv_iter :: "'v \<Rightarrow> 'v list option"
  jv_item :: "'v \<Rightarrow> 'v \<Rightarrow> 'v option"
  jv_i64 :: "'v \<Rightarrow> int option"
  jv_same :: "'v \<Rightarrow> 'v \<Rightarrow> bool"
  jv_bytes :: "'v \<Rightarrow> nat list option"
  jv_kwargs :: "'v \<Rightarrow> (ustr \<times> 'v) list option"
  jv_debug :: "'v \<Rightarrow> ustr"
  of_text :: "ustr \<Rightarrow> 'v"
  of_i64 :: "int \<Rightarrow> 'v"
  of_truth :: "bool \<Rightarrow> 'v"
  of_items :: "'v list \<Rightarrow> 'v"
  of_none :: 'v
  of_undefined :: 'v
  to_upper :: "nat \<Rightarrow> ustr"
  to_lower :: "nat \<Rightarrow> ustr"
  text_lower :: "ustr \<Rightarrow> ustr"
  upper_case :: "nat \<Rightarrow> bool"
  lower_case :: "nat \<Rightarrow> bool"
  alphabetic :: "nat \<Rightarrow> bool"
  numeric :: "nat \<Rightarrow> bool"
  show_debug :: "ustr \<Rightarrow> ustr"
  f_parse :: "ustr \<Rightarrow> 'f option"
  f_zero :: 'f
  f_is_zero :: "'f \<Rightarrow> bool"
  f_trunc :: "'f \<Rightarrow> int"
  f_fixed :: "nat \<Rightarrow> 'f \<Rightarrow> ustr"
  f_exp :: "nat option \<Rightarrow> bool \<Rightarrow> 'f \<Rightarrow> ustr"
  f_magnitude :: "'f \<Rightarrow> int"
  f_add :: "'f \<Rightarrow> 'f \<Rightarrow> 'f"
  f_sub :: "'f \<Rightarrow> 'f \<Rightarrow> 'f"
  f_mul :: "'f \<Rightarrow> 'f \<Rightarrow> 'f"
  f_div :: "'f \<Rightarrow> 'f \<Rightarrow> 'f"

definition is_undefined :: "('v, 'f) jinja \<Rightarrow> 'v \<Rightarrow> bool" where
  "is_undefined J v \<longleftrightarrow> jv_kind J v = KUndefined"

definition is_none :: "('v, 'f) jinja \<Rightarrow> 'v \<Rightarrow> bool" where
  "is_none J v \<longleftrightarrow> jv_kind J v = KNone"

section \<open>Arguments\<close>

definition argument_count :: "ustr \<Rightarrow> nat \<Rightarrow> nat \<Rightarrow> error" where
  "argument_count name got want = [name @ lit ''() takes '' @ nat_to_str want @ lit '' argument(s), got '' @ nat_to_str got]"

definition not_a_list :: "('v, 'f) jinja \<Rightarrow> ustr \<Rightarrow> 'v \<Rightarrow> error" where
  "not_a_list J name v = [name @ lit ''() argument is not iterable: '' @ jv_debug J v]"

text \<open>A text as an integer, by way of a float if need be.\<close>

definition integer_of :: "('v, 'f) jinja \<Rightarrow> ustr \<Rightarrow> int option" where
  "integer_of J s = (case parse_i64 s of Some i \<Rightarrow> Some i | None \<Rightarrow> map_option (f_trunc J) (f_parse J s))"

definition int_argument :: "('v, 'f) jinja \<Rightarrow> 'v \<Rightarrow> int option" where
  "int_argument J v = (case jv_i64 J v of Some i \<Rightarrow> Some i | None \<Rightarrow> integer_of J (jv_text J v))"

definition arg :: "'v list \<Rightarrow> nat \<Rightarrow> 'v option" where
  "arg args i = (if i < length args then Some (args ! i) else None)"

definition int_arg :: "('v, 'f) jinja \<Rightarrow> 'v list \<Rightarrow> nat \<Rightarrow> int option" where
  "int_arg J args i = Option.bind (arg args i) (int_argument J)"

text \<open>The optional arguments of a helper, by position or by name.\<close>

record 'v qd_call =
  qc_positional :: "'v list"
  qc_kwargs :: "(ustr \<times> 'v) list option"

definition qd_call_new :: "('v, 'f) jinja \<Rightarrow> 'v list \<Rightarrow> 'v qd_call" where
  "qd_call_new J args =
     (let positional = takeWhile (\<lambda>v. jv_kwargs J v = None) args
      in \<lparr>qc_positional = positional, qc_kwargs = Option.bind (arg args (length positional)) (jv_kwargs J)\<rparr>)"

definition qd_call_next :: "('v, 'f) jinja \<Rightarrow> ustr \<Rightarrow> 'v qd_call \<Rightarrow> 'v option \<times> 'v qd_call" where
  "qd_call_next J name call = (case qc_positional call of
      v # vs \<Rightarrow> (Some v, call\<lparr>qc_positional := vs\<rparr>)
    | [] \<Rightarrow> (case Option.bind (qc_kwargs call) (\<lambda>m. map_of m name) of
          Some v \<Rightarrow> (if is_undefined J v then None else Some v, call)
        | None \<Rightarrow> (None, call)))"

definition qd_call_finish :: "('v, 'f) jinja \<Rightarrow> ustr list \<Rightarrow> ustr \<Rightarrow> 'v qd_call \<Rightarrow> error + unit" where
  "qd_call_finish J accepted accepted_text call =
     rbind (ensure (qc_positional call = []) [lit ''expected at most '' @ nat_to_str (length accepted)
         @ lit '' argument(s), got '' @ nat_to_str (length (qc_positional call)) @ lit '' more'']) (\<lambda>_.
     case qc_kwargs call of None \<Rightarrow> Inr ()
     | Some m \<Rightarrow> (case find (\<lambda>(k, _). k \<notin> set accepted) m of None \<Rightarrow> Inr ()
         | Some (k, _) \<Rightarrow> Inl [lit ''unexpected keyword argument '' @ show_debug J k @ lit '' (accepted: '' @ accepted_text @ lit '')'']))"

text \<open>\<open>default\<close> and \<open>urlencode\<close>, the helpers that read their arguments this way.\<close>

definition default_filter :: "('v, 'f) jinja \<Rightarrow> 'v \<Rightarrow> 'v list \<Rightarrow> error + 'v" where
  "default_filter J v args =
     (let (d, call) = qd_call_next J (lit ''default_value'') (qd_call_new J args);
          (b, call) = qd_call_next J (lit ''boolean'') call;
          default_value = (case d of Some x \<Rightarrow> x | None \<Rightarrow> of_text J []);
          boolean = (case b of Some x \<Rightarrow> jv_true J x | None \<Rightarrow> False)
      in rbind (qd_call_finish J [lit ''default_value'', lit ''boolean'']
            (lit ''['' @ [34] @ lit ''default_value'' @ [34] @ lit '', '' @ [34] @ lit ''boolean'' @ [34] @ lit '']'') call) (\<lambda>_.
         Inr (if is_undefined J v \<or> is_none J v \<or> (boolean \<and> \<not> jv_true J v) then default_value else v)))"

definition check_urlencode_encoding :: "('v, 'f) jinja \<Rightarrow> 'v \<Rightarrow> error + unit" where
  "check_urlencode_encoding J v =
     (if is_none J v \<or> is_undefined J v then Inr ()
      else let normalized = to_ascii_lowercase (trim (jv_text J v)) in
        ensure (normalized = [] \<or> normalized = lit ''utf-8'' \<or> normalized = lit ''utf8'')
          [lit ''urlencode only supports utf-8, got '' @ show_debug J (jv_text J v)])"

definition urlencode_pairs :: "('v, 'f) jinja \<Rightarrow> 'v \<Rightarrow> (error + ('v \<times> 'v) list) option" where
  "urlencode_pairs J v = (case jv_kind J v of
      KMap \<Rightarrow> Some (case jv_iter J v of None \<Rightarrow> Inl []
        | Some keys \<Rightarrow> rmap (\<lambda>k. case jv_item J v k of None \<Rightarrow> Inl [] | Some x \<Rightarrow> Inr (k, x)) keys)
    | KSeq \<Rightarrow> Some (case jv_iter J v of None \<Rightarrow> Inl []
        | Some items \<Rightarrow> rmap (\<lambda>p. case jv_iter J p of None \<Rightarrow> Inl []
            | Some [k, x] \<Rightarrow> Inr (k, x)
            | Some _ \<Rightarrow> Inl [lit ''urlencode expects an iterable of (key, value) pairs'']) items)
    | _ \<Rightarrow> None)"

definition urlencode_value :: "percent_lib \<Rightarrow> ('v, 'f) jinja \<Rightarrow> 'v \<Rightarrow> bool \<Rightarrow> error + ustr" where
  "urlencode_value L J v for_qs = (case urlencode_pairs J v of
      None \<Rightarrow> Inr (url_quote L (jv_text J v) for_qs)
    | Some r \<Rightarrow> rbind r (\<lambda>pairs. Inr (join (lit ''&'')
        (map (\<lambda>(k, x). url_quote L (jv_text J k) True @ lit ''='' @ url_quote L (jv_text J x) True) pairs))))"

definition urlencode :: "percent_lib \<Rightarrow> ('v, 'f) jinja \<Rightarrow> 'v \<Rightarrow> 'v list \<Rightarrow> error + ustr" where
  "urlencode L J v args =
     (let (encoding, call) = qd_call_next J (lit ''encoding'') (qd_call_new J args);
          (q, call) = qd_call_next J (lit ''for_qs'') call;
          for_qs = (case q of Some x \<Rightarrow> jv_true J x | None \<Rightarrow> False)
      in rbind (qd_call_finish J [lit ''encoding'', lit ''for_qs'']
            (lit ''['' @ [34] @ lit ''encoding'' @ [34] @ lit '', '' @ [34] @ lit ''for_qs'' @ [34] @ lit '']'') call) (\<lambda>_.
         rbind (case encoding of Some e \<Rightarrow> check_urlencode_encoding J e | None \<Rightarrow> Inr ()) (\<lambda>_.
         urlencode_value L J v for_qs)))"

section \<open>Numbers\<close>

definition value_bytes :: "('v, 'f) jinja \<Rightarrow> 'v \<Rightarrow> nat list" where
  "value_bytes J v = (case jv_bytes J v of Some bs \<Rightarrow> bs | None \<Rightarrow> utf8_encode (jv_text J v))"

definition qd_is_num :: "('v, 'f) jinja \<Rightarrow> 'v \<Rightarrow> bool" where
  "qd_is_num J v =
     (let s = jv_text J v; minus = trim_start_by (\<lambda>c. c = ch CHR ''-'') in
      if length (filter (\<lambda>c. c = ch CHR ''.'') s) = 1 then
        (case split_once (lit ''.'') s of Some (a, b) \<Rightarrow> all_digits (minus a) \<and> all_digits b | None \<Rightarrow> False)
      else all_digits (minus s))"

definition qd_bool :: "('v, 'f) jinja \<Rightarrow> 'v \<Rightarrow> bool" where
  "qd_bool J v =
     (if is_none J v \<or> is_undefined J v then False
      else if jv_kind J v = KBool then jv_true J v
      else text_lower J (jv_text J v) \<in> {lit ''yes'', lit ''on'', lit ''1'', lit ''true''})"

datatype qd_arith_op = Add | Sub | Mul | Div

definition f_of :: "('v, 'f) jinja \<Rightarrow> 'v \<Rightarrow> 'f" where
  "f_of J v = (case f_parse J (jv_text J v) of Some x \<Rightarrow> x | None \<Rightarrow> f_zero J)"

fun qd_arith_from :: "('v, 'f) jinja \<Rightarrow> qd_arith_op \<Rightarrow> 'f \<Rightarrow> 'v list \<Rightarrow> 'f option" where
  "qd_arith_from J op acc [] = Some acc"
| "qd_arith_from J op acc (v # vs) =
     (if \<not> qd_is_num J v then None
      else let x = f_of J v in case op of
        Add \<Rightarrow> qd_arith_from J op (f_add J acc x) vs
      | Sub \<Rightarrow> qd_arith_from J op (f_sub J acc x) vs
      | Mul \<Rightarrow> qd_arith_from J op (f_mul J acc x) vs
      | Div \<Rightarrow> if f_is_zero J x then None else qd_arith_from J op (f_div J acc x) vs)"

definition qd_arith :: "('v, 'f) jinja \<Rightarrow> 'v list \<Rightarrow> qd_arith_op \<Rightarrow> 'v" where
  "qd_arith J vs op = (case vs of [] \<Rightarrow> of_i64 J 0
     | v # rest \<Rightarrow>
       if \<not> qd_is_num J v then of_i64 J 0
       else case qd_arith_from J op (f_of J v) rest of None \<Rightarrow> of_none J | Some x \<Rightarrow> of_text J (f_fixed J 6 x))"

fun nat_radix :: "nat \<Rightarrow> nat \<Rightarrow> nat \<Rightarrow> ustr" where
  "nat_radix base alpha n =
     (let digit = (\<lambda>d. if d < 10 then 48 + d else alpha + (d - 10)) in
      if base < 2 \<or> n < base then [digit n] else nat_radix base alpha (n div base) @ [digit (n mod base)])"

declare nat_radix.simps [simp del]

text \<open>\<open>{:x}\<close> and its like of an \<open>i64\<close>: a negative number as its two's complement.\<close>

definition int_radix :: "nat \<Rightarrow> nat \<Rightarrow> int \<Rightarrow> ustr" where
  "int_radix base alpha i = nat_radix base alpha (nat (i mod 2 ^ 64))"

definition general_float :: "('v, 'f) jinja \<Rightarrow> 'f \<Rightarrow> nat \<Rightarrow> ustr" where
  "general_float J x precision =
     (if f_is_zero J x then lit ''0''
      else let precision = max precision 1; exponent = f_magnitude J x;
               strip = (\<lambda>s. trim_end_by (\<lambda>c. c = ch CHR ''.'') (trim_end_by (\<lambda>c. c = ch CHR ''0'') s));
               rendered = (if exponent < -4 \<or> int precision \<le> exponent then f_exp J (Some (precision - 1)) False x
                 else f_fixed J (nat (int precision - 1 - exponent)) x)
        in case find_by (\<lambda>c. c = ch CHR ''e'' \<or> c = ch CHR ''E'') rendered of
            Some i \<Rightarrow> strip (take i rendered) @ drop i rendered
          | None \<Rightarrow> strip rendered)"

end
