(* ===== verification/PyMethods.thy ===== *)
theory PyMethods
  imports PyValue
begin

text \<open>
  Python's formatting and the methods of texts, lists and mappings
  (\<open>crates/qdrust-core/src/expression.rs\<close>).  Keyword arguments are what \<open>Kwargs::get\<close> finds under a name.
\<close>

section \<open>Formatting\<close>

definition sign_first :: "nat \<Rightarrow> ustr \<Rightarrow> ustr" where
  "sign_first padding body = (case body of
      c # rest \<Rightarrow> if c = ch CHR ''-'' \<or> c = ch CHR ''+'' then c # replicate padding 48 @ rest else replicate padding 48 @ body
    | [] \<Rightarrow> replicate padding 48)"

record format_spec =
  fs_align :: "nat option"
  fs_zero :: bool
  fs_width :: "nat option"
  fs_precision :: "nat option"
  fs_type :: "nat option"

definition is_align :: "nat \<Rightarrow> bool" where
  "is_align c \<longleftrightarrow> c \<in> set (lit ''<>^'')"

text \<open>An alignment after a fill character of one byte, or alone.\<close>

definition take_align :: "ustr \<Rightarrow> nat option \<times> ustr" where
  "take_align s = (case s of
      c # d # t \<Rightarrow> if c < 128 \<and> is_align d then (Some d, t) else if is_align c then (Some c, d # t) else (None, s)
    | [c] \<Rightarrow> if is_align c then (Some c, []) else (None, s)
    | [] \<Rightarrow> (None, s))"

definition parse_spec :: "ustr \<Rightarrow> error + format_spec" where
  "parse_spec spec =
     (let (align, s) = take_align spec;
          s = (case s of c # t \<Rightarrow> if c \<in> set (lit ''+- '') then t else s | [] \<Rightarrow> s);
          zero = starts_with (lit ''0'') s;
          s = (if zero then tl s else s);
          w = takeWhile is_ascii_digit s;
          s = drop (length w) s
      in rbind (if w = [] then Inr None
           else case parse_usize w of Some n \<Rightarrow> Inr (Some n) | None \<Rightarrow> Inl [lit ''invalid format width'']) (\<lambda>width.
         rbind (case strip_prefix (lit ''.'') s of None \<Rightarrow> Inr (None, s)
           | Some t \<Rightarrow> let p = takeWhile is_ascii_digit t in
               (case parse_usize p of Some n \<Rightarrow> Inr (Some n, drop (length p) t) | None \<Rightarrow> Inl [lit ''invalid format precision''])) (\<lambda>(precision, s).
         Inr \<lparr>fs_align = align, fs_zero = zero, fs_width = width, fs_precision = precision,
           fs_type = (case s of [] \<Rightarrow> None | c # _ \<Rightarrow> Some c)\<rparr>)))"

definition format_body :: "('v, 'f) jinja \<Rightarrow> 'v \<Rightarrow> format_spec \<Rightarrow> error + ustr" where
  "format_body J v fs =
     (let s = jv_text J v; precision = (case fs_precision fs of Some p \<Rightarrow> p | None \<Rightarrow> 6);
          float = (case f_parse J s of Some x \<Rightarrow> Inr x | None \<Rightarrow> Inl [lit ''invalid float format value'']);
          int = (case parse_i64 s of Some i \<Rightarrow> Inr i | None \<Rightarrow> Inl [lit ''invalid int format value'']) in
      case fs_type fs of
        None \<Rightarrow> Inr (if jv_kind J v = KNumber \<and> fs_precision fs \<noteq> None then f_fixed J precision (f_of J v) else s)
      | Some c \<Rightarrow>
        if c = ch CHR ''s'' then Inr (if jv_kind J v = KNumber \<and> fs_precision fs \<noteq> None then f_fixed J precision (f_of J v) else s)
        else if c = ch CHR ''f'' then rbind float (\<lambda>x. Inr (f_fixed J precision x))
        else if c = ch CHR ''d'' then rbind int (\<lambda>i. Inr (int_to_str i))
        else if c = ch CHR ''x'' then rbind int (\<lambda>i. Inr (int_radix 16 97 i))
        else if c = ch CHR ''X'' then rbind int (\<lambda>i. Inr (int_radix 16 65 i))
        else if c = ch CHR ''o'' then rbind int (\<lambda>i. Inr (int_radix 8 97 i))
        else if c = ch CHR ''b'' then rbind int (\<lambda>i. Inr (int_radix 2 97 i))
        else if c = ch CHR ''e'' then rbind float (\<lambda>x. Inr (f_exp J None False x))
        else Inl [lit ''unsupported format spec: '' @ [c]])"

definition format_pad :: "format_spec \<Rightarrow> ustr \<Rightarrow> ustr" where
  "format_pad fs body = (case fs_width fs of None \<Rightarrow> body
     | Some width \<Rightarrow>
       if width \<le> byte_len body then body
       else let padding = width - byte_len body; left = padding div 2 in
         if fs_align fs = Some (ch CHR ''<'') then body @ replicate padding 32
         else if fs_align fs = Some (ch CHR ''^'') then replicate left 32 @ body @ replicate (padding - left) 32
         else if fs_zero fs \<and> fs_align fs = None then
           (if starts_with (lit ''-'') body then ch CHR ''-'' # replicate (padding - 1) 48 @ tl body else replicate padding 48 @ body)
         else replicate padding 32 @ body)"

definition python_format :: "('v, 'f) jinja \<Rightarrow> 'v \<Rightarrow> ustr \<Rightarrow> error + ustr" where
  "python_format J v spec =
     (if spec = [] then Inr (jv_text J v)
      else rbind (parse_spec spec) (\<lambda>fs. rbind (format_body J v fs) (\<lambda>body. Inr (format_pad fs body))))"

text \<open>\<open>depth\<close> bounds the nesting of lists.\<close>

fun python_repr :: "('v, 'f) jinja \<Rightarrow> nat \<Rightarrow> 'v \<Rightarrow> ustr" where
  "python_repr J depth v = (case jv_kind J v of
      KString \<Rightarrow> [39] @ replace_str [39] [92, 39] (replace_str [92] [92, 92] (jv_text J v)) @ [39]
    | KNone \<Rightarrow> lit ''None''
    | KBool \<Rightarrow> (if jv_true J v then lit ''True'' else lit ''False'')
    | KSeq \<Rightarrow> (case depth of 0 \<Rightarrow> [] | Suc d \<Rightarrow> lit ''['' @ join (lit '', '')
        (map (python_repr J d) (case jv_iter J v of Some items \<Rightarrow> items | None \<Rightarrow> [])) @ lit '']'')
    | KIterable \<Rightarrow> (case depth of 0 \<Rightarrow> [] | Suc d \<Rightarrow> lit ''['' @ join (lit '', '')
        (map (python_repr J d) (case jv_iter J v of Some items \<Rightarrow> items | None \<Rightarrow> [])) @ lit '']'')
    | _ \<Rightarrow> jv_text J v)"

definition require_item :: "('v, 'f) jinja \<Rightarrow> 'v \<Rightarrow> 'v \<Rightarrow> ustr \<Rightarrow> error + 'v" where
  "require_item J v key what = (case jv_item J v key of
      Some x \<Rightarrow> if is_undefined J x then Inl [what @ lit '' is not defined''] else Inr x
    | None \<Rightarrow> Inl [what @ lit '' is not defined''])"

section \<open>Printf formatting\<close>

record conversion =
  cv_flags :: ustr
  cv_width :: "nat option"
  cv_precision :: "nat option"
  cv_kind :: nat

text \<open>One conversion, and the text after it.\<close>

definition read_conversion :: "ustr \<Rightarrow> error + conversion \<times> ustr" where
  "read_conversion s =
     (let flags = takeWhile (\<lambda>c. c \<in> set (lit ''-+ 0#'')) s; s = drop (length flags) s;
          width = takeWhile is_ascii_digit s; s = drop (length width) s;
          (precision, s) = (case strip_prefix (lit ''.'') s of None \<Rightarrow> (None, s)
            | Some t \<Rightarrow> let p = takeWhile is_ascii_digit t in
                (Some (case parse_usize p of Some n \<Rightarrow> n | None \<Rightarrow> 0), drop (length p) t))
      in case s of [] \<Rightarrow> Inl [lit ''incomplete format'']
        | kind # rest \<Rightarrow> Inr (\<lparr>cv_flags = flags, cv_width = parse_usize width, cv_precision = precision, cv_kind = kind\<rparr>, rest))"

definition conversion_body :: "('v, 'f) jinja \<Rightarrow> nat \<Rightarrow> 'v \<Rightarrow> conversion \<Rightarrow> error + ustr" where
  "conversion_body J depth v cv =
     (let s = jv_text J v; k = cv_kind cv;
          integer = (case integer_of J s of Some i \<Rightarrow> Inr i | None \<Rightarrow> Inl [lit ''a number is required for this conversion'']);
          float = (case f_parse J s of Some x \<Rightarrow> Inr x | None \<Rightarrow> Inl [lit ''a number is required for this conversion'']);
          precision = (case cv_precision cv of Some p \<Rightarrow> p | None \<Rightarrow> 6) in
      if k = ch CHR ''s'' then Inr (case cv_precision cv of Some p \<Rightarrow> take p s | None \<Rightarrow> s)
      else if k \<in> set (lit ''ra'') then Inr (python_repr J depth v)
      else if k \<in> set (lit ''diu'') then rbind integer (\<lambda>i. Inr (int_to_str i))
      else if k \<in> set (lit ''fF'') then rbind float (\<lambda>x. Inr (f_fixed J precision x))
      else if k \<in> set (lit ''eE'') then rbind float (\<lambda>x. Inr (f_exp J (Some precision) (k = ch CHR ''E'') x))
      else if k \<in> set (lit ''gG'') then rbind float (\<lambda>x. let r = general_float J x precision
        in Inr (if k = ch CHR ''G'' then concat (map (to_upper J) r) else r))
      else if k = ch CHR ''x'' then rbind integer (\<lambda>i. Inr (int_radix 16 97 i))
      else if k = ch CHR ''X'' then rbind integer (\<lambda>i. Inr (int_radix 16 65 i))
      else if k = ch CHR ''o'' then rbind integer (\<lambda>i. Inr (int_radix 8 97 i))
      else if k = ch CHR ''c'' then
        (if jv_kind J v = KNumber then rbind integer (\<lambda>i. let c = nat (max i 0) mod 2 ^ 32 in
           if is_scalar c then Inr [c] else Inl [lit ''not a valid character code''])
         else Inr (take 1 s))
      else Inl [lit ''unsupported format character '' @ show_debug J [k]])"

definition conversion_pad :: "conversion \<Rightarrow> ustr \<Rightarrow> ustr" where
  "conversion_pad cv body = (case cv_width cv of None \<Rightarrow> body
     | Some width \<Rightarrow>
       if width \<le> length body then body
       else let padding = width - length body in
         if ch CHR ''-'' \<in> set (cv_flags cv) then body @ replicate padding 32
         else if ch CHR ''0'' \<in> set (cv_flags cv) \<and> cv_kind cv \<in> set (lit ''diufFeEgGxXo'') then sign_first padding body
         else replicate padding 32 @ body)"

definition percent_conversion :: "('v, 'f) jinja \<Rightarrow> nat \<Rightarrow> 'v \<Rightarrow> conversion \<Rightarrow> error + ustr" where
  "percent_conversion J depth v cv = rbind (conversion_body J depth v cv) (\<lambda>body. Inr (conversion_pad cv body))"

lemma read_conversion_shorter: "read_conversion s = Inr (cv, t) \<Longrightarrow> length t < length s"
proof -
  assume a: "read_conversion s = Inr (cv, t)"
  define s1 where "s1 = drop (length (takeWhile (\<lambda>c. c \<in> set (lit ''-+ 0#'')) s)) s"
  define s2 where "s2 = drop (length (takeWhile is_ascii_digit s1)) s1"
  define s3 where "s3 = (case strip_prefix (lit ''.'') s2 of None \<Rightarrow> s2 | Some t \<Rightarrow> drop (length (takeWhile is_ascii_digit t)) t)"
  from a obtain k where k: "s3 = k # t"
    unfolding read_conversion_def Let_def s1_def [symmetric] s2_def [symmetric]
    by (auto simp: s3_def split: option.splits list.splits)
  have "length s3 \<le> length s2" by (auto simp: s3_def strip_prefix_eq_Some split: option.split)
  also have "\<dots> \<le> length s" by (simp add: s1_def s2_def)
  finally show ?thesis by (simp add: k)
qed

text \<open>The text from \<open>s\<close> on, with the arguments that are left.\<close>

function percent_rest :: "('v, 'f) jinja \<Rightarrow> nat \<Rightarrow> 'v option \<Rightarrow> 'v list \<Rightarrow> ustr \<Rightarrow> error + ustr" where
  "percent_rest J depth mapping args [] = Inr []"
| "percent_rest J depth mapping args (c # s) =
     (if c \<noteq> ch CHR ''%'' then rbind (percent_rest J depth mapping args s) (\<lambda>out. Inr (c # out))
      else if starts_with (lit ''%'') s then rbind (percent_rest J depth mapping args (drop 1 s)) (\<lambda>out. Inr (c # out))
      else if starts_with (lit ''('') s then
        (let name = takeWhile (\<lambda>d. d \<noteq> ch CHR '')'') (drop 1 s); t = drop (length name + 2) s in
         case mapping of None \<Rightarrow> Inl [lit ''format requires a mapping'']
         | Some m \<Rightarrow>
           rbind (require_item J m (of_text J name) (lit ''KeyError: '' @ show_debug J name)) (\<lambda>v.
           case read_conversion t of Inl e \<Rightarrow> Inl e
           | Inr (cv, rest) \<Rightarrow> rbind (percent_conversion J depth v cv) (\<lambda>piece.
             rbind (percent_rest J depth mapping args rest) (\<lambda>out. Inr (piece @ out)))))
      else case read_conversion s of Inl e \<Rightarrow> Inl e
        | Inr (cv, rest) \<Rightarrow> (case args of [] \<Rightarrow> Inl [lit ''not enough arguments for format string'']
            | v # vs \<Rightarrow> rbind (percent_conversion J depth v cv) (\<lambda>piece.
                rbind (percent_rest J depth mapping vs rest) (\<lambda>out. Inr (piece @ out)))))"
  by pat_completeness auto

termination
proof (relation "measure (\<lambda>(J, depth, mapping, args, s). length s)", goal_cases)
  case (4 J depth mapping args c s name t m v x cv rest piece)
  then have "length rest < length t" by (auto dest: read_conversion_shorter)
  with 4 show ?case by simp
next
  case (5 J depth mapping args c s x cv rest v vs piece)
  then show ?case by (auto dest: read_conversion_shorter)
qed auto

definition format_percent :: "('v, 'f) jinja \<Rightarrow> nat \<Rightarrow> ustr \<Rightarrow> 'v \<Rightarrow> error + ustr" where
  "format_percent J depth template vs =
     (if jv_kind J vs = KMap then percent_rest J depth (Some vs) [] template
      else if jv_kind J vs \<in> {KSeq, KIterable} then
        (case jv_iter J vs of None \<Rightarrow> Inl [] | Some items \<Rightarrow> percent_rest J depth None items template)
      else percent_rest J depth None [vs] template)"

section \<open>The format method\<close>

text \<open>The value a field's name stands for, and the next automatic index.\<close>

definition out_of_range :: "nat \<Rightarrow> error" where
  "out_of_range i = [lit ''Replacement index '' @ nat_to_str i @ lit '' out of range for positional args tuple'']"

definition field_value :: "('v, 'f) jinja \<Rightarrow> 'v list \<Rightarrow> (ustr \<Rightarrow> 'v option) \<Rightarrow> nat \<Rightarrow> ustr \<Rightarrow> error + 'v \<times> nat" where
  "field_value J args kwargs automatic name =
     (if name = [] then (case arg args automatic of None \<Rightarrow> Inl (out_of_range automatic) | Some v \<Rightarrow> Inr (v, automatic + 1))
      else case parse_usize name of
        Some i \<Rightarrow> (case arg args i of None \<Rightarrow> Inl (out_of_range i) | Some v \<Rightarrow> Inr (v, i + 1))
      | None \<Rightarrow> (case kwargs name of None \<Rightarrow> Inl [lit ''KeyError: '' @ show_debug J name] | Some v \<Rightarrow> Inr (v, automatic)))"

definition is_accessor :: "nat \<Rightarrow> bool" where
  "is_accessor c \<longleftrightarrow> c = ch CHR ''.'' \<or> c = ch CHR ''[''"

function access_path :: "('v, 'f) jinja \<Rightarrow> 'v \<Rightarrow> ustr \<Rightarrow> error + 'v" where
  "access_path J v [] = Inr v"
| "access_path J v (c # rest) =
     (if c = ch CHR ''.'' then
        let name = takeWhile (\<lambda>d. \<not> is_accessor d) rest in
        rbind (require_item J v (of_text J name) (lit ''attribute '' @ show_debug J name)) (\<lambda>x.
        access_path J x (drop (length name) rest))
      else if c = ch CHR ''['' then
        (case find_by (\<lambda>d. d = ch CHR '']'') rest of None \<Rightarrow> Inl [lit ''unclosed '' @ [39] @ lit ''['' @ [39] @ lit '' in format field'']
         | Some stop \<Rightarrow>
           let inside = take stop rest; key = trim_by (\<lambda>d. d = 39 \<or> d = 34) inside;
               key = (case parse_usize key of Some i \<Rightarrow> of_i64 J (int i) | None \<Rightarrow> of_text J key)
           in rbind (require_item J v key (lit ''KeyError: '' @ show_debug J inside)) (\<lambda>x.
              access_path J x (drop (stop + 1) rest)))
      else Inl [lit ''invalid format field''])"
  by pat_completeness auto

termination by (relation "measure (\<lambda>(J, v, s). length s)") auto

definition format_field :: "('v, 'f) jinja \<Rightarrow> nat \<Rightarrow> 'v list \<Rightarrow> (ustr \<Rightarrow> 'v option) \<Rightarrow> nat \<Rightarrow> ustr \<Rightarrow> error + ustr \<times> nat" where
  "format_field J depth args kwargs automatic field =
     (let (field, spec) = (case split_once (lit '':'') field of Some (a, b) \<Rightarrow> (a, Some b) | None \<Rightarrow> (field, None));
          (field, conv) = (case split_once (lit ''!'') field of Some (a, b) \<Rightarrow> (a, Some b) | None \<Rightarrow> (field, None));
          name = takeWhile (\<lambda>d. \<not> is_accessor d) field
      in rbind (field_value J args kwargs automatic name) (\<lambda>(v, automatic).
         rbind (access_path J v (drop (length name) field)) (\<lambda>v.
         if conv = Some (lit ''r'') \<or> conv = Some (lit ''a'') then Inr (python_repr J depth v, automatic)
         else rbind (case spec of Some sp \<Rightarrow> python_format J v sp | None \<Rightarrow> Inr (jv_text J v)) (\<lambda>s. Inr (s, automatic)))))"

function str_format_from :: "('v, 'f) jinja \<Rightarrow> nat \<Rightarrow> 'v list \<Rightarrow> (ustr \<Rightarrow> 'v option) \<Rightarrow> nat \<Rightarrow> ustr \<Rightarrow> error + ustr" where
  "str_format_from J depth args kwargs automatic [] = Inr []"
| "str_format_from J depth args kwargs automatic (c # s) =
     (if (c = ch CHR ''{'' \<or> c = ch CHR ''}'') \<and> starts_with [c] s then
        rbind (str_format_from J depth args kwargs automatic (drop 1 s)) (\<lambda>out. Inr (c # out))
      else if c = ch CHR ''{'' then
        (case find_by (\<lambda>d. d = ch CHR ''}'') s of
           None \<Rightarrow> Inl [lit ''expected '' @ [39] @ lit ''}'' @ [39] @ lit '' before end of string'']
         | Some stop \<Rightarrow>
           rbind (format_field J depth args kwargs automatic (take stop s)) (\<lambda>(piece, automatic).
           rbind (str_format_from J depth args kwargs automatic (drop (stop + 1) s)) (\<lambda>out. Inr (piece @ out))))
      else if c = ch CHR ''}'' then Inl [lit ''single '' @ [39] @ lit ''}'' @ [39] @ lit '' encountered in format string'']
      else rbind (str_format_from J depth args kwargs automatic s) (\<lambda>out. Inr (c # out)))"
  by pat_completeness auto

termination by (relation "measure (\<lambda>(J, depth, args, kwargs, automatic, s). length s)") auto

definition python_str_format :: "('v, 'f) jinja \<Rightarrow> nat \<Rightarrow> ustr \<Rightarrow> 'v list \<Rightarrow> (ustr \<Rightarrow> 'v option) \<Rightarrow> error + 'v" where
  "python_str_format J depth template args kwargs = rbind (str_format_from J depth args kwargs 0 template) (\<lambda>out. Inr (of_text J out))"

section \<open>Methods of mappings and lists\<close>

definition mapping_method :: "('v, 'f) jinja \<Rightarrow> 'v \<Rightarrow> ustr \<Rightarrow> 'v list \<Rightarrow> (error + 'v) option" where
  "mapping_method J receiver name args =
     (if name = lit ''get'' \<or> name = lit ''setdefault'' then
        Some (case args of [] \<Rightarrow> Inl (argument_count name 0 1)
          | key # _ \<Rightarrow> (case jv_item J receiver key of
              Some v \<Rightarrow> if is_undefined J v then Inr (case arg args 1 of Some d \<Rightarrow> d | None \<Rightarrow> of_none J) else Inr v
            | None \<Rightarrow> Inr (case arg args 1 of Some d \<Rightarrow> d | None \<Rightarrow> of_none J)))
      else if name = lit ''keys'' then map_option (\<lambda>keys. Inr (of_items J keys)) (jv_iter J receiver)
      else if name = lit ''values'' then
        map_option (\<lambda>keys. Inr (of_items J (List.map_filter (jv_item J receiver) keys))) (jv_iter J receiver)
      else if name = lit ''items'' then
        map_option (\<lambda>keys. Inr (of_items J (List.map_filter (\<lambda>k. map_option (\<lambda>v. of_items J [k, v]) (jv_item J receiver k)) keys)))
          (jv_iter J receiver)
      else if name = lit ''copy'' then Some (Inr receiver)
      else None)"

definition sequence_method :: "('v, 'f) jinja \<Rightarrow> 'v \<Rightarrow> ustr \<Rightarrow> 'v list \<Rightarrow> (error + 'v) option" where
  "sequence_method J receiver name args = (case jv_iter J receiver of None \<Rightarrow> None
     | Some items \<Rightarrow>
       if name = lit ''index'' then
         Some (case args of [] \<Rightarrow> Inl (argument_count name 0 1)
           | needle # _ \<Rightarrow> (case find_by (\<lambda>i. jv_same J i needle) items of
               Some i \<Rightarrow> Inr (of_i64 J (int i)) | None \<Rightarrow> Inl [lit ''list.index(x): x not in list'']))
       else if name = lit ''count'' then
         Some (case args of [] \<Rightarrow> Inl (argument_count name 0 1)
           | needle # _ \<Rightarrow> Inr (of_i64 J (int (length (filter (\<lambda>i. jv_same J i needle) items)))))
       else if name = lit ''copy'' then Some (Inr (of_items J items))
       else None)"

section \<open>Methods of texts\<close>

definition capitalize :: "('v, 'f) jinja \<Rightarrow> ustr \<Rightarrow> ustr" where
  "capitalize J s = (case s of [] \<Rightarrow> [] | c # t \<Rightarrow> to_upper J c @ text_lower J t)"

definition title_case :: "('v, 'f) jinja \<Rightarrow> ustr \<Rightarrow> ustr" where
  "title_case J s = join (lit '' '') (map (\<lambda>w. case w of [] \<Rightarrow> [] | c # t \<Rightarrow> to_upper J c @ t) (split_whitespace s))"

definition swap_case :: "('v, 'f) jinja \<Rightarrow> ustr \<Rightarrow> ustr" where
  "swap_case J s = concat (map (\<lambda>c. if upper_case J c then to_lower J c else to_upper J c) s)"

definition strip_text :: "ustr \<Rightarrow> ustr option \<Rightarrow> ustr \<Rightarrow> ustr" where
  "strip_text name chars s =
     (let P = (case chars of Some cs \<Rightarrow> (\<lambda>c. c \<in> set cs) | None \<Rightarrow> is_ws) in
      if name = lit ''strip'' then trim_by P s else if name = lit ''lstrip'' then trim_start_by P s else trim_end_by P s)"

text \<open>\<open>find\<close> and its like: the position in the whole text.\<close>

definition find_position :: "ustr \<Rightarrow> ustr \<Rightarrow> ustr \<Rightarrow> int option \<Rightarrow> int option \<Rightarrow> int option" where
  "find_position name s needle start stop =
     (let window = char_slice s start stop; offset = resolve_bound (int (length s)) start 0;
          found = (if starts_with (lit ''r'') name then rfind_sub needle window else find_sub needle window)
      in map_option (\<lambda>i. offset + int i) found)"

definition partition_text :: "ustr \<Rightarrow> ustr \<Rightarrow> ustr \<Rightarrow> ustr list" where
  "partition_text name s separator =
     (let found = (if name = lit ''partition'' then find_sub separator s else rfind_sub separator s) in
      case found of Some i \<Rightarrow> [take i s, separator, drop (i + length separator) s]
      | None \<Rightarrow> if name = lit ''partition'' then [s, [], []] else [[], [], s])"

definition char_test :: "('v, 'f) jinja \<Rightarrow> ustr \<Rightarrow> ustr \<Rightarrow> bool option" where
  "char_test J name s =
     (if name \<in> {lit ''isdigit'', lit ''isdecimal'', lit ''isnumeric''} then Some (s \<noteq> [] \<and> list_all (numeric J) s)
      else if name = lit ''isalpha'' then Some (s \<noteq> [] \<and> list_all (alphabetic J) s)
      else if name = lit ''isalnum'' then Some (s \<noteq> [] \<and> list_all (\<lambda>c. alphabetic J c \<or> numeric J c) s)
      else if name = lit ''isspace'' then Some (s \<noteq> [] \<and> list_all is_ws s)
      else if name = lit ''islower'' then Some (list_ex (lower_case J) s \<and> \<not> list_ex (upper_case J) s)
      else if name = lit ''isupper'' then Some (list_ex (upper_case J) s \<and> \<not> list_ex (lower_case J) s)
      else if name = lit ''istitle'' then
        Some (s \<noteq> [] \<and> list_all (\<lambda>w. case w of c # _ \<Rightarrow> upper_case J c | [] \<Rightarrow> False) (split_whitespace s))
      else None)"

text \<open>The methods whose first argument is required.\<close>

definition needing_method :: "('v, 'f) jinja \<Rightarrow> ustr \<Rightarrow> ustr \<Rightarrow> 'v \<Rightarrow> 'v list \<Rightarrow> (error + 'v) option" where
  "needing_method J s name first args =
     (let window = char_slice s (int_arg J args 1) (int_arg J args 2) in
      if name = lit ''join'' then
        Some (case jv_iter J first of Some items \<Rightarrow> Inr (of_text J (join s (map (jv_text J) items)))
          | None \<Rightarrow> Inl (not_a_list J (lit ''join'') first))
      else if name = lit ''startswith'' \<or> name = lit ''endswith'' then
        let candidates = (case jv_iter J first of Some items \<Rightarrow> map (jv_text J) items | None \<Rightarrow> [jv_text J first]) in
        Some (Inr (of_truth J (list_ex (\<lambda>c. if name = lit ''startswith'' then starts_with c window else ends_with c window) candidates)))
      else if name \<in> {lit ''find'', lit ''rfind'', lit ''index'', lit ''rindex''} then
        Some (case find_position name s (jv_text J first) (int_arg J args 1) (int_arg J args 2) of
            Some i \<Rightarrow> Inr (of_i64 J i)
          | None \<Rightarrow> if ends_with (lit ''index'') name then Inl [lit ''substring not found''] else Inr (of_i64 J (-1)))
      else if name = lit ''count'' then
        Some (Inr (of_i64 J (int (length (match_indices (jv_text J first) window)))))
      else if name = lit ''removeprefix'' then
        Some (Inr (of_text J (case strip_prefix (jv_text J first) s of Some t \<Rightarrow> t | None \<Rightarrow> s)))
      else if name = lit ''removesuffix'' then
        Some (Inr (of_text J (case strip_suffix (jv_text J first) s of Some t \<Rightarrow> t | None \<Rightarrow> s)))
      else if name = lit ''partition'' \<or> name = lit ''rpartition'' then
        Some (Inr (of_items J (map (of_text J) (partition_text name s (jv_text J first)))))
      else None)"

definition needing_names :: "ustr set" where
  "needing_names = {lit ''join'', lit ''startswith'', lit ''endswith'', lit ''find'', lit ''rfind'', lit ''index'', lit ''rindex'',
     lit ''count'', lit ''removeprefix'', lit ''removesuffix'', lit ''partition'', lit ''rpartition''}"

definition string_method :: "('v, 'f) jinja \<Rightarrow> nat \<Rightarrow> 'v \<Rightarrow> ustr \<Rightarrow> 'v list \<Rightarrow> (ustr \<Rightarrow> 'v option) \<Rightarrow> (error + 'v) option" where
  "string_method J depth receiver name args kwargs =
     (let s = jv_text J receiver; txt = (\<lambda>t. Some (Inr (of_text J t))) in
      if name = lit ''upper'' then txt (concat (map (to_upper J) s))
      else if name = lit ''lower'' \<or> name = lit ''casefold'' then txt (text_lower J s)
      else if name = lit ''capitalize'' then txt (capitalize J s)
      else if name = lit ''title'' then txt (title_case J s)
      else if name = lit ''swapcase'' then txt (swap_case J s)
      else if name \<in> {lit ''strip'', lit ''lstrip'', lit ''rstrip''} then txt (strip_text name (map_option (jv_text J) (arg args 0)) s)
      else if name = lit ''split'' \<or> name = lit ''rsplit'' then
        Some (rbind (python_split s (map_option (jv_text J) (arg args 0)) (int_arg J args 1) (name = lit ''rsplit'')) (\<lambda>parts.
          Inr (of_items J (map (of_text J) parts))))
      else if name = lit ''splitlines'' then
        Some (Inr (of_items J (map (of_text J) (python_splitlines s (case arg args 0 of Some v \<Rightarrow> jv_true J v | None \<Rightarrow> False)))))
      else if name = lit ''replace'' then
        Some (case args of old # new # _ \<Rightarrow>
            Inr (of_text J (case int_arg J args 2 of
                Some count \<Rightarrow> if 0 \<le> count then replacen_str (jv_text J old) (jv_text J new) (nat count) s
                  else replace_str (jv_text J old) (jv_text J new) s
              | None \<Rightarrow> replace_str (jv_text J old) (jv_text J new) s))
          | _ \<Rightarrow> Inl (argument_count (lit ''replace'') (length args) 2))
      else if name \<in> needing_names then
        (case args of [] \<Rightarrow> Some (Inl (argument_count name 0 1)) | first # _ \<Rightarrow> needing_method J s name first args)
      else if name \<in> {lit ''zfill'', lit ''ljust'', lit ''rjust'', lit ''center''} then
        Some (case int_arg J args 0 of None \<Rightarrow> Inl (argument_count name (length args) 1)
          | Some width \<Rightarrow>
            let fill = (case map_option (jv_text J) (arg args 1) of Some (c # _) \<Rightarrow> c | _ \<Rightarrow> 32)
            in Inr (of_text J (pad s width fill name)))
      else if name = lit ''format'' then Some (python_str_format J depth s args kwargs)
      else if name = lit ''expandtabs'' then
        txt (expand_from (nat (case int_arg J args 0 of Some n \<Rightarrow> n | None \<Rightarrow> 8)) 0 s)
      else map_option (\<lambda>b. Inr (of_truth J b)) (char_test J name s))"

definition python_method :: "('v, 'f) jinja \<Rightarrow> nat \<Rightarrow> 'v \<Rightarrow> ustr \<Rightarrow> 'v list \<Rightarrow> (ustr \<Rightarrow> 'v option) \<Rightarrow> error + 'v" where
  "python_method J depth receiver name args kwargs =
     (case (if jv_kind J receiver = KMap then mapping_method J receiver name args else None) of Some r \<Rightarrow> r
      | None \<Rightarrow>
        (case (if jv_kind J receiver \<in> {KSeq, KIterable} then sequence_method J receiver name args else None) of Some r \<Rightarrow> r
         | None \<Rightarrow>
           (case string_method J depth receiver name args kwargs of Some r \<Rightarrow> r
            | None \<Rightarrow> Inl [jv_kind_name J receiver @ lit '' has no method named '' @ name])))"

section \<open>Lists a template changes\<close>

definition list_index :: "('v, 'f) jinja \<Rightarrow> 'v \<Rightarrow> nat \<Rightarrow> nat" where
  "list_index J v len = clamp_index (case parse_i64 (jv_text J v) of Some i \<Rightarrow> i | None \<Rightarrow> 2 ^ 63 - 1) len"

definition remove_at :: "nat \<Rightarrow> 'a list \<Rightarrow> 'a list" where
  "remove_at i xs = take i xs @ drop (Suc i) xs"

definition mutable_call :: "('v, 'f) jinja \<Rightarrow> ustr \<Rightarrow> 'v list \<Rightarrow> 'v list \<Rightarrow> (error + 'v) \<times> 'v list" where
  "mutable_call J name args items =
     (let one = (length args = 1) in
      if name = lit ''append'' then
        (if one then (Inr (of_undefined J), items @ args) else (Inl (argument_count name (length args) 1), items))
      else if name = lit ''extend'' then
        (if one then (case jv_iter J (hd args) of Some added \<Rightarrow> (Inr (of_undefined J), items @ added)
             | None \<Rightarrow> (Inl (not_a_list J name (hd args)), items))
         else (Inl (argument_count name (length args) 1), items))
      else if name = lit ''insert'' then
        (case args of [i, v] \<Rightarrow> let k = list_index J i (length items) in (Inr (of_undefined J), take k items @ v # drop k items)
         | _ \<Rightarrow> (Inl (argument_count name (length args) 2), items))
      else if name = lit ''pop'' then
        (if 1 < length args then (Inl (argument_count name (length args) 1), items)
         else let k = (case args of i # _ \<Rightarrow> list_index J i (length items) | [] \<Rightarrow> length items - 1) in
           if k < length items then (Inr (items ! k), remove_at k items) else (Inl [lit ''pop from empty list''], items))
      else if name = lit ''remove'' then
        (if one then (case find_by (\<lambda>x. jv_same J x (hd args)) items of Some k \<Rightarrow> (Inr (of_undefined J), remove_at k items)
             | None \<Rightarrow> (Inl [lit ''remove(x): x not in list''], items))
         else (Inl (argument_count name (length args) 1), items))
      else if name = lit ''clear'' then (Inr (of_undefined J), [])
      else (Inl [lit ''sequence has no method named '' @ name
          @ lit '' (mutable lists support append, extend, insert, pop, remove, clear)''], items))"

end
