(* ===== verification/PyRewrite.thy ===== *)
theory PyRewrite
  imports RustStr
begin

text \<open>
  How a QD template, which is written in Python's dialect of Jinja, is rewritten before the engine parses it
  (\<open>crates/qdrust-core/src/expression.rs\<close>): method calls, printf formatting, and literal lists that are changed.

  The scanners of the code return a position in the text; here they return how many characters they pass,
  and the text is what is left of it.  Two classes of characters are the library's: \<open>A\<close> holds of the
  alphanumeric characters outside ASCII, \<open>W\<close> of those \<open>\w\<close> matches.
\<close>

section \<open>Scanners\<close>

fun string_len :: "nat \<Rightarrow> bool \<Rightarrow> ustr \<Rightarrow> nat option" where
  "string_len q escaped [] = None"
| "string_len q escaped (c # s) =
     (if escaped then map_option Suc (string_len q False s)
      else if c = 92 then map_option Suc (string_len q True s)
      else if c = q then Some 1
      else map_option Suc (string_len q False s))"

definition is_quote :: "nat \<Rightarrow> bool" where
  "is_quote c \<longleftrightarrow> c = 39 \<or> c = 34"

text \<open>Past the quoted string the text starts with.\<close>

definition string_end :: "ustr \<Rightarrow> nat option" where
  "string_end s = (case s of [] \<Rightarrow> None | q # t \<Rightarrow> map_option Suc (string_len q False t))"

function (sequential) group_len :: "nat \<Rightarrow> nat \<Rightarrow> nat \<Rightarrow> ustr \<Rightarrow> nat option" where
  "group_len lb rb depth [] = None"
| "group_len lb rb depth (c # s) =
     (if is_quote c then
        (case string_len c False s of None \<Rightarrow> None
         | Some n \<Rightarrow> map_option ((+) (Suc n)) (group_len lb rb depth (drop n s)))
      else if c = lb then map_option Suc (group_len lb rb (depth + 1) s)
      else if c = rb then
        (if depth - 1 = 0 then Some 1 else map_option Suc (group_len lb rb (depth - 1) s))
      else map_option Suc (group_len lb rb depth s))"
  by pat_completeness auto

termination by (relation "measure (\<lambda>(lb, rb, depth, s). length s)") auto

definition closing_of :: "nat \<Rightarrow> nat option" where
  "closing_of c = (if c = ch CHR ''('' then Some (ch CHR '')'') else if c = ch CHR ''['' then Some (ch CHR '']'')
     else if c = ch CHR ''{'' then Some (ch CHR ''}'') else None)"

definition group_end :: "ustr \<Rightarrow> nat option" where
  "group_end s = (case s of [] \<Rightarrow> None
     | c # _ \<Rightarrow> Option.bind (closing_of c) (\<lambda>rb. group_len c rb 0 s))"

definition word_char :: "(nat \<Rightarrow> bool) \<Rightarrow> nat \<Rightarrow> bool" where
  "word_char A c \<longleftrightarrow> is_alnum A c \<or> c = ch CHR ''_''"

definition identifier_end :: "(nat \<Rightarrow> bool) \<Rightarrow> ustr \<Rightarrow> nat" where
  "identifier_end A s = length (takeWhile (word_char A) s)"

definition skip_spaces :: "ustr \<Rightarrow> nat" where
  "skip_spaces s = length (takeWhile is_ws s)"

lemma group_len_pos: "group_len lb rb depth s = Some k \<Longrightarrow> 0 < k"
  by (induction lb rb depth s arbitrary: k rule: group_len.induct) (auto split: if_splits option.splits)

lemma group_end_pos: "group_end s = Some k \<Longrightarrow> 0 < k"
  unfolding group_end_def by (auto simp: bind_eq_Some_conv simp del: group_len.simps dest: group_len_pos split: list.splits)

text \<open>Past the rb delimiter's place: where it starts, string literals skipped.\<close>

function (sequential) find_delimiter :: "ustr \<Rightarrow> ustr \<Rightarrow> nat option" where
  "find_delimiter stop [] = None"
| "find_delimiter stop (c # s) =
     (if is_quote c then
        (case string_len c False s of None \<Rightarrow> None | Some n \<Rightarrow> map_option ((+) (Suc n)) (find_delimiter stop (drop n s)))
      else if starts_with stop (c # s) then Some 0
      else map_option Suc (find_delimiter stop s))"
  by pat_completeness auto

termination by (relation "measure (\<lambda>(stop, s). length s)") auto

text \<open>Past the calls, indexes and attributes that follow a primary.\<close>

function postfix_end :: "(nat \<Rightarrow> bool) \<Rightarrow> ustr \<Rightarrow> nat option" where
  "postfix_end A s =
     (let n = skip_spaces s in
      case drop n s of [] \<Rightarrow> Some 0
      | c # r \<Rightarrow>
        if c = ch CHR ''('' \<or> c = ch CHR ''['' then
          (case group_end (c # r) of None \<Rightarrow> None
           | Some k \<Rightarrow> map_option ((+) (n + k)) (postfix_end A (drop (n + k) s)))
        else if c = ch CHR ''.'' then
          let m = identifier_end A r in
          if m = 0 then Some 0 else map_option ((+) (n + 1 + m)) (postfix_end A (drop (n + 1 + m) s))
        else Some 0)"
  by auto

termination
proof (relation "measure (\<lambda>(A, s). length s)", goal_cases)
  case (2 A s n c r k)
  then have "length s \<noteq> 0" "0 < k" by (auto dest: group_end_pos)
  then show ?case by simp
next
  case (3 A s n c r m)
  then have "length s \<noteq> 0" by auto
  then show ?case by simp
qed simp

declare postfix_end.simps [simp del]

definition primary_end :: "(nat \<Rightarrow> bool) \<Rightarrow> ustr \<Rightarrow> nat option" where
  "primary_end A s =
     (let n = skip_spaces s; t = drop n s in
      case t of [] \<Rightarrow> None
      | c # _ \<Rightarrow>
        Option.bind (if is_quote c then string_end t
          else if closing_of c \<noteq> None then group_end t
          else if word_char A c then Some (identifier_end A t) else None)
        (\<lambda>k. map_option ((+) (n + k)) (postfix_end A (drop k t))))"

section \<open>Printf formatting\<close>

function (sequential) percent_from :: "(nat \<Rightarrow> bool) \<Rightarrow> ustr \<Rightarrow> ustr \<times> bool" where
  "percent_from A [] = ([], False)"
| "percent_from A (c # s) =
     (if \<not> is_quote c then let (out, changed) = percent_from A s in (c # out, changed)
      else case string_len c False s of None \<Rightarrow> (c # s, False)
      | Some n \<Rightarrow>
        let literal = c # take n s; rest = drop n s; remainder = drop (skip_spaces rest) rest;
            keep = (let (out, changed) = percent_from A rest in (literal @ out, changed)) in
        if \<not> starts_with (lit ''%'') remainder \<or> starts_with (lit ''%%'') remainder \<or> starts_with (lit ''%='') remainder then keep
        else case primary_end A (tl remainder) of None \<Rightarrow> keep
          | Some m \<Rightarrow>
            let (out, changed) = percent_from A (drop m (tl remainder)) in
            (lit ''__qdm_percent('' @ literal @ lit '', '' @ trim (take m (tl remainder)) @ lit '')'' @ out, True))"
  by pat_completeness auto

termination
  by (relation "measure (\<lambda>(A, s). length s)") auto

definition rewrite_percent :: "(nat \<Rightarrow> bool) \<Rightarrow> ustr \<Rightarrow> ustr option" where
  "rewrite_percent A s = (let (out, changed) = percent_from A s in if changed then Some out else None)"

section \<open>Method calls\<close>

definition PYTHON_METHODS :: "ustr list" where
  "PYTHON_METHODS = [lit ''capitalize'', lit ''casefold'', lit ''center'', lit ''count'', lit ''endswith'', lit ''expandtabs'',
     lit ''find'', lit ''format'', lit ''index'', lit ''isalnum'', lit ''isalpha'', lit ''isdecimal'', lit ''isdigit'', lit ''islower'',
     lit ''isnumeric'', lit ''isspace'', lit ''istitle'', lit ''isupper'', lit ''join'', lit ''ljust'', lit ''lower'', lit ''lstrip'',
     lit ''partition'', lit ''removeprefix'', lit ''removesuffix'', lit ''replace'', lit ''rfind'', lit ''rindex'', lit ''rjust'',
     lit ''rpartition'', lit ''rsplit'', lit ''rstrip'', lit ''split'', lit ''splitlines'', lit ''startswith'', lit ''strip'',
     lit ''swapcase'', lit ''title'', lit ''upper'', lit ''zfill'',
     lit ''copy'', lit ''get'', lit ''items'', lit ''keys'', lit ''setdefault'', lit ''values'', lit ''index'', lit ''count'']"

definition method_call :: "ustr \<Rightarrow> ustr \<Rightarrow> ustr \<Rightarrow> ustr" where
  "method_call receiver name args =
     lit ''__qdm_call('' @ receiver @ lit '', '' @ [34] @ name @ [34]
       @ (if trim args = [] then [] else lit '', '' @ args) @ lit '')''"

text \<open>
  The scan: \<open>out\<close> is the text so far, \<open>start\<close> where the last primary begins in it, and \<open>live\<close> whether
  that primary ends here.
\<close>

function methods_from :: "(nat \<Rightarrow> bool) \<Rightarrow> ustr \<Rightarrow> nat \<Rightarrow> bool \<Rightarrow> bool \<Rightarrow> ustr \<Rightarrow> ustr \<times> bool" where
  "methods_from A out start live changed s0 =
     (case s0 of [] \<Rightarrow> (out, changed)
      | c # s \<Rightarrow>
        if is_quote c then
          (case string_len c False s of None \<Rightarrow> (out @ s0, changed)
           | Some n \<Rightarrow> methods_from A (out @ c # take n s) (length out) True changed (drop n s))
        else if closing_of c \<noteq> None then
          (case group_end s0 of None \<Rightarrow> (out @ s0, changed)
           | Some k \<Rightarrow>
             let interior = take (k - 2) s; (inner, inner_changed) = methods_from A [] 0 False False interior;
                 piece = [c] @ (if inner_changed then inner else interior) @ take 1 (drop (k - 1) s0)
             in methods_from A (out @ piece) (if live then start else length out) True (changed \<or> inner_changed) (drop k s0))
        else if c = ch CHR ''.'' \<and> live then
          (let name = takeWhile (word_char A) s; rest = drop (length name) s; call_at = drop (skip_spaces rest) rest in
           case (if name \<noteq> [] \<and> name \<in> set PYTHON_METHODS \<and> starts_with (lit ''('') call_at then group_end call_at else None) of
             Some k \<Rightarrow>
               let args = take (k - 2) (tl call_at); (inner, inner_changed) = methods_from A [] 0 False False args;
                   call = method_call (drop start out) name (if inner_changed then inner else args)
               in methods_from A (take start out @ call) start True True (drop k call_at)
           | None \<Rightarrow>
               if name \<noteq> [] then methods_from A (out @ c # name) start True changed rest
               else methods_from A (out @ [c]) start False changed s)
        else if word_char A c then
          let n = identifier_end A s in
          methods_from A (out @ c # take n s) (length out) True changed (drop n s)
        else methods_from A (out @ [c]) start False changed s)"
  by auto

termination
  by (relation "measure (\<lambda>(A, out, start, live, changed, s0). length s0)")
    (simp_all split: if_splits, (auto dest!: group_end_pos)+)

declare methods_from.simps [simp del]

definition rewrite_methods :: "(nat \<Rightarrow> bool) \<Rightarrow> ustr \<Rightarrow> ustr option" where
  "rewrite_methods A s = (let (out, changed) = methods_from A [] 0 False False s in if changed then Some out else None)"

definition rewrite_expression :: "(nat \<Rightarrow> bool) \<Rightarrow> ustr \<Rightarrow> ustr option" where
  "rewrite_expression A s =
     (let percent = rewrite_percent A s; methods = rewrite_methods A (case percent of Some p \<Rightarrow> p | None \<Rightarrow> s)
      in case methods of Some m \<Rightarrow> Some m | None \<Rightarrow> percent)"

section \<open>Literal lists that are changed\<close>

definition MUTATOR_CALLS :: "ustr list" where
  "MUTATOR_CALLS = [lit ''append('', lit ''extend('', lit ''insert('', lit ''pop('', lit ''remove('', lit ''clear('']"

definition looks_mutating :: "ustr \<Rightarrow> bool" where
  "looks_mutating s \<longleftrightarrow> ch CHR ''.'' \<in> set s \<and> list_ex (\<lambda>call. contains_sub call s) MUTATOR_CALLS"

record set_list =
  sl_dash :: ustr
  sl_name :: ustr
  sl_list :: ustr
  sl_last_dash :: ustr
  sl_rest :: ustr

text \<open>An optional hyphen.\<close>

definition take_dash :: "ustr \<Rightarrow> ustr \<times> ustr" where
  "take_dash s = (case s of c # t \<Rightarrow> if c = ch CHR ''-'' then ([c], t) else ([], s) | [] \<Rightarrow> ([], s))"

definition pass_spaces :: "ustr \<Rightarrow> ustr" where
  "pass_spaces s = dropWhile is_ws s"

text \<open>The parts of \<open>SET_LIST_LITERAL\<close>; none of them can match in two ways.\<close>

definition match_open :: "ustr \<Rightarrow> (ustr \<times> ustr) option" where
  "match_open s = Option.bind (strip_prefix (lit ''{%'') s) (\<lambda>s. let (dash, s) = take_dash s in
     map_option (Pair dash) (strip_prefix (lit ''set'') (pass_spaces s)))"

definition match_name :: "(nat \<Rightarrow> bool) \<Rightarrow> ustr \<Rightarrow> (ustr \<times> ustr) option" where
  "match_name W s = (if skip_spaces s = 0 then None else case pass_spaces s of [] \<Rightarrow> None
     | c # t \<Rightarrow> if is_ascii_alpha c \<or> c = ch CHR ''_'' then Some (c # takeWhile W t, dropWhile W t) else None)"

definition match_literal :: "ustr \<Rightarrow> (ustr \<times> ustr) option" where
  "match_literal s = Option.bind (strip_prefix (lit ''['') s) (\<lambda>s.
     let items = takeWhile (\<lambda>d. d \<notin> set (lit ''[]{}'')) s in
     map_option (Pair (lit ''['' @ items @ lit '']'')) (strip_prefix (lit '']'') (drop (length items) s)))"

definition match_close :: "ustr \<Rightarrow> (ustr \<times> ustr) option" where
  "match_close s = (let (dash, s) = take_dash (pass_spaces s) in map_option (Pair dash) (strip_prefix (lit ''%}'') s))"

definition match_set_list :: "(nat \<Rightarrow> bool) \<Rightarrow> ustr \<Rightarrow> set_list option" where
  "match_set_list W s =
     Option.bind (match_open s) (\<lambda>(dash, s).
     Option.bind (match_name W s) (\<lambda>(name, s).
     Option.bind (strip_prefix (lit ''='') (pass_spaces s)) (\<lambda>s.
     Option.bind (match_literal (pass_spaces s)) (\<lambda>(items, s).
     Option.bind (match_close s) (\<lambda>(last_dash, s).
     Some \<lparr>sl_dash = dash, sl_name = name, sl_list = items, sl_last_dash = last_dash, sl_rest = s\<rparr>)))))"

definition set_list_call :: "set_list \<Rightarrow> ustr" where
  "set_list_call m = lit ''{%'' @ sl_dash m @ lit '' set '' @ sl_name m @ lit '' = __qd_list('' @ sl_list m @ lit '') ''
     @ sl_last_dash m @ lit ''%}''"

lemma length_dropWhile_le: "length (dropWhile P s) \<le> length s"
  by (induction s) auto

lemma take_dash_length: "take_dash s = (d, t) \<Longrightarrow> length t \<le> length s"
  by (auto simp: take_dash_def split: list.splits if_splits)

lemma strip_prefix_length: "strip_prefix p s = Some t \<Longrightarrow> length s = length p + length t"
  by (auto simp: strip_prefix_eq_Some)

lemma pass_spaces_length: "length (pass_spaces s) \<le> length s"
  by (simp add: pass_spaces_def length_dropWhile_le)

lemma match_open_length:
  assumes "match_open s = Some (d, t)"
  shows "length t < length s"
proof -
  from assms obtain s1 where *: "strip_prefix (lit ''{%'') s = Some s1"
    "strip_prefix (lit ''set'') (pass_spaces (snd (take_dash s1))) = Some t"
    unfolding match_open_def Let_def by (auto simp: bind_eq_Some_conv split_beta)
  have "length (snd (take_dash s1)) \<le> length s1" by (rule take_dash_length [OF prod.collapse [symmetric]])
  then show ?thesis
    using strip_prefix_length [OF *(1)] strip_prefix_length [OF *(2)] pass_spaces_length [of "snd (take_dash s1)"] by simp
qed

lemma match_name_length: "match_name W s = Some (n, t) \<Longrightarrow> length t \<le> length s"
proof -
  assume "match_name W s = Some (n, t)"
  then obtain c u where "pass_spaces s = c # u" "t = dropWhile W u"
    by (auto simp: match_name_def split: if_splits list.splits)
  then show ?thesis using pass_spaces_length [of s] length_dropWhile_le [of W u] by simp
qed

lemma match_literal_length: "match_literal s = Some (n, t) \<Longrightarrow> length t \<le> length s"
  unfolding match_literal_def Let_def by (fastforce simp: bind_eq_Some_conv dest!: strip_prefix_length)

lemma match_close_length:
  assumes "match_close s = Some (d, t)"
  shows "length t \<le> length s"
proof -
  from assms obtain s1 where *: "take_dash (pass_spaces s) = (d, s1)" "strip_prefix (lit ''%}'') s1 = Some t"
    unfolding match_close_def Let_def by (auto split: prod.splits)
  show ?thesis using take_dash_length [OF *(1)] strip_prefix_length [OF *(2)] pass_spaces_length [of s] by simp
qed

lemma match_set_list_shorter:
  assumes "match_set_list W s = Some m"
  shows "length (sl_rest m) < length s"
proof -
  from assms obtain d s1 n s2 s3 l s4 e where *: "match_open s = Some (d, s1)" "match_name W s1 = Some (n, s2)"
    "strip_prefix (lit ''='') (pass_spaces s2) = Some s3" "match_literal (pass_spaces s3) = Some (l, s4)"
    "match_close s4 = Some (e, sl_rest m)"
    unfolding match_set_list_def by (auto simp: bind_eq_Some_conv)
  show ?thesis
    using match_open_length [OF *(1)] match_name_length [OF *(2)] strip_prefix_length [OF *(3)]
      match_literal_length [OF *(4)] match_close_length [OF *(5)] pass_spaces_length [of s2] pass_spaces_length [of s3]
    by simp
qed

function (sequential) replace_lists :: "(nat \<Rightarrow> bool) \<Rightarrow> ustr \<Rightarrow> ustr \<times> bool" where
  "replace_lists W [] = ([], False)"
| "replace_lists W (c # s) = (case match_set_list W (c # s) of
      Some m \<Rightarrow> let (out, changed) = replace_lists W (sl_rest m) in (set_list_call m @ out, True)
    | None \<Rightarrow> let (out, changed) = replace_lists W s in (c # out, changed))"
  by pat_completeness auto

termination
  by (relation "measure (\<lambda>(W, s). length s)") (auto dest: match_set_list_shorter)

definition rewrite_literal_lists :: "(nat \<Rightarrow> bool) \<Rightarrow> ustr \<Rightarrow> ustr \<times> bool" where
  "rewrite_literal_lists W s = (if looks_mutating s then replace_lists W s else (s, False))"

section \<open>Whole templates\<close>

text \<open>The end of the tag a text starts with, and whether the tag holds an expression.\<close>

definition tag_of :: "ustr \<Rightarrow> (ustr \<times> bool) option" where
  "tag_of s = (if starts_with (lit ''{{'') s then Some (lit ''}}'', True)
     else if starts_with (lit ''{%'') s then Some (lit ''%}'', True)
     else if starts_with (lit ''{#'') s then Some (lit ''#}'', False) else None)"

function (sequential) template_from :: "(nat \<Rightarrow> bool) \<Rightarrow> ustr \<Rightarrow> ustr \<times> bool" where
  "template_from A [] = ([], False)"
| "template_from A (c # s) =
     (if c \<noteq> ch CHR ''{'' then let (out, changed) = template_from A s in (c # out, changed)
      else case tag_of (c # s) of
        None \<Rightarrow> let (out, changed) = template_from A s in (c # out, changed)
      | Some (stop, expression) \<Rightarrow>
          (case find_delimiter stop (drop 1 s) of None \<Rightarrow> (c # s, False)
           | Some offset \<Rightarrow>
             let inner = take offset (drop 1 s);
                 rewritten = (if expression then rewrite_expression A inner else None);
                 (out, changed) = template_from A (drop (offset + 3) s)
             in (take 2 (c # s) @ (case rewritten of Some r \<Rightarrow> r | None \<Rightarrow> inner) @ stop @ out, changed \<or> rewritten \<noteq> None)))"
  by pat_completeness auto

termination by (relation "measure (\<lambda>(A, s). length s)") auto

definition rewrite_template :: "(nat \<Rightarrow> bool) \<Rightarrow> (nat \<Rightarrow> bool) \<Rightarrow> ustr \<Rightarrow> ustr option" where
  "rewrite_template A W s =
     (let (declared, declared_changed) = rewrite_literal_lists W s; (out, changed) = template_from A declared
      in if changed \<or> declared_changed then Some out else None)"

definition compat_python_template :: "(nat \<Rightarrow> bool) \<Rightarrow> (nat \<Rightarrow> bool) \<Rightarrow> ustr \<Rightarrow> ustr" where
  "compat_python_template A W s = (case rewrite_template A W s of Some r \<Rightarrow> r | None \<Rightarrow> s)"

definition compat_python_expression :: "(nat \<Rightarrow> bool) \<Rightarrow> ustr \<Rightarrow> ustr" where
  "compat_python_expression A s = (case rewrite_expression A s of Some r \<Rightarrow> r | None \<Rightarrow> s)"

section \<open>Declared defaults\<close>

text \<open>The first argument of \<open>default(...)\<close> where it is a literal; \<open>F\<close> holds of the texts that parse as \<open>f64\<close>.\<close>

definition unescape_char :: "nat \<Rightarrow> nat" where
  "unescape_char c = (if c = ch CHR ''n'' then 10 else if c = ch CHR ''t'' then 9 else if c = ch CHR ''r'' then 13 else c)"

fun string_literal :: "nat \<Rightarrow> bool \<Rightarrow> ustr \<Rightarrow> ustr option" where
  "string_literal q escaped [] = None"
| "string_literal q escaped (c # s) =
     (if escaped then map_option ((#) (unescape_char c)) (string_literal q False s)
      else if c = 92 then string_literal q True s
      else if c = q then Some []
      else map_option ((#) c) (string_literal q False s))"

definition first_literal_argument :: "(ustr \<Rightarrow> bool) \<Rightarrow> ustr \<Rightarrow> ustr option" where
  "first_literal_argument F rest = (case trim_start rest of [] \<Rightarrow> None
     | q # s \<Rightarrow>
       if is_quote q then string_literal q False s
       else let token = takeWhile (\<lambda>c. \<not> is_ws c \<and> c \<noteq> ch CHR '','' \<and> c \<noteq> ch CHR '')'') (q # s) in
         if token = lit ''true'' \<or> token = lit ''false'' \<or> F token then Some token else None)"

end
