(* ===== verification/PyEngine.thy ===== *)
theory PyEngine
  imports PyMethods PyRewrite HarJson
begin

text \<open>
  The expression engine around the library (\<open>crates/qdrust-core/src/expression.rs\<close>): the functions and filters
  registered with it, its entry points, and what it reports of a text: the variables read and their defaults.
\<close>

section \<open>Functions and filters\<close>

definition hash_filter :: "(ustr \<Rightarrow> ustr) \<Rightarrow> (ustr \<Rightarrow> ustr) \<Rightarrow> (ustr \<Rightarrow> ustr) \<Rightarrow> (ustr \<Rightarrow> ustr) \<Rightarrow> ustr \<Rightarrow> ustr option \<Rightarrow> error + ustr" where
  "hash_filter md5 sha1 sha256 sha512 s hashtype =
     (let t = (case hashtype of Some h \<Rightarrow> h | None \<Rightarrow> lit ''sha1'') in
      if t = lit ''md5'' then Inr (md5 s) else if t = lit ''sha1'' then Inr (sha1 s)
      else if t = lit ''sha256'' then Inr (sha256 s) else if t = lit ''sha512'' then Inr (sha512 s)
      else Inl [lit ''unsupported hash type: '' @ t])"

text \<open>A date and a time of day, formatted by the library with \<open>fmt\<close>.\<close>

definition date_time :: "(ustr \<Rightarrow> int \<Rightarrow> ustr) \<Rightarrow> bool option \<Rightarrow> bool option \<Rightarrow> ustr option \<Rightarrow> ustr" where
  "date_time fmt date time difference =
     (let show_date = (case date of Some b \<Rightarrow> b | None \<Rightarrow> True); show_time = (case time of Some b \<Rightarrow> b | None \<Rightarrow> True);
          hours = (case Option.bind difference parse_i64 of Some h \<Rightarrow> h | None \<Rightarrow> 0)
      in if show_date then (if show_time then fmt (lit ''%Y-%m-%d %H:%M:%S'') hours else fmt (lit ''%Y-%m-%d'') hours)
         else if show_time then fmt (lit ''%H:%M:%S'') hours else [])"

definition regex_flags :: "bool \<Rightarrow> bool \<Rightarrow> ustr" where
  "regex_flags ignorecase multiline = (if ignorecase then if multiline then lit ''(?im)'' else lit ''(?i)''
     else if multiline then lit ''(?m)'' else [])"

text \<open>\<open>R\<close> compiles a pattern; an error is the text the library gives.\<close>

definition qd_regex :: "(ustr \<Rightarrow> ustr + 'r) \<Rightarrow> ustr \<Rightarrow> bool \<Rightarrow> bool \<Rightarrow> error + 'r" where
  "qd_regex R pattern ignorecase multiline = (case R (regex_flags ignorecase multiline @ pattern) of
      Inl e \<Rightarrow> Inl [lit ''invalid regex: '' @ e] | Inr r \<Rightarrow> Inr r)"

text \<open>What the code asks of a compiled pattern: the groups of the first match and of all matches, and their number.\<close>

record 'r regex_lib =
  rx_compile :: "ustr \<Rightarrow> ustr + 'r"
  rx_captures :: "'r \<Rightarrow> ustr \<Rightarrow> ustr option list option"
  rx_all :: "'r \<Rightarrow> ustr \<Rightarrow> ustr option list list"
  rx_named :: "'r \<Rightarrow> ustr \<Rightarrow> nat option"
  rx_groups :: "'r \<Rightarrow> nat"
  rx_replace :: "'r \<Rightarrow> nat option \<Rightarrow> ustr \<Rightarrow> ustr \<Rightarrow> ustr"

definition group_text :: "ustr option list \<Rightarrow> nat \<Rightarrow> ustr" where
  "group_text gs i = (if i < length gs then case gs ! i of Some t \<Rightarrow> t | None \<Rightarrow> [] else [])"

definition regex_replace :: "'r regex_lib \<Rightarrow> ustr \<Rightarrow> ustr \<Rightarrow> ustr \<Rightarrow> int option \<Rightarrow> bool \<Rightarrow> bool \<Rightarrow> error + ustr" where
  "regex_replace X subject pattern replacement count ignorecase multiline =
     rbind (qd_regex (rx_compile X) pattern ignorecase multiline) (\<lambda>re.
     let n = (case count of Some c \<Rightarrow> c | None \<Rightarrow> 0) in
     Inr (rx_replace X re (if 0 < n then Some (nat n) else None) subject (python_replacement replacement)))"

definition backref_text :: "'r regex_lib \<Rightarrow> 'r \<Rightarrow> ustr option list \<Rightarrow> ustr \<Rightarrow> error + ustr" where
  "backref_text X re gs backref = (case strip_prefix (92 # lit ''g<'') backref of
      Some name \<Rightarrow>
        let name = trim_end_by (\<lambda>c. c = ch CHR ''>'') name in
        (case parse_usize name of Some i \<Rightarrow> Inr (group_text gs i)
         | None \<Rightarrow> (case rx_named X re name of Some i \<Rightarrow> Inr (group_text gs i) | None \<Rightarrow> Inr []))
    | None \<Rightarrow>
        (case strip_prefix [92] backref of
           Some i \<Rightarrow> Inr (group_text gs (case parse_usize i of Some n \<Rightarrow> n | None \<Rightarrow> 0))
         | None \<Rightarrow> Inl [lit ''Unknown argument: '' @ backref]))"

definition regex_search :: "'r regex_lib \<Rightarrow> ustr \<Rightarrow> ustr \<Rightarrow> ustr list \<Rightarrow> bool \<Rightarrow> bool \<Rightarrow> error + ustr option" where
  "regex_search X subject pattern backrefs ignorecase multiline =
     rbind (qd_regex (rx_compile X) pattern ignorecase multiline) (\<lambda>re.
     case rx_captures X re subject of None \<Rightarrow> Inr None
     | Some gs \<Rightarrow>
       if backrefs = [] then Inr (Some (group_text gs 0))
       else rbind (rmap (backref_text X re gs) backrefs) (\<lambda>items. Inr (Some (py_list_repr items))))"

definition regex_findall :: "'r regex_lib \<Rightarrow> ustr \<Rightarrow> ustr \<Rightarrow> bool \<Rightarrow> bool \<Rightarrow> error + ustr" where
  "regex_findall X subject pattern ignorecase multiline =
     rbind (qd_regex (rx_compile X) pattern ignorecase multiline) (\<lambda>re.
     let n = rx_groups X re - 1 in
     Inr (py_list_repr (map (\<lambda>gs. if n = 0 then group_text gs 0 else if n = 1 then group_text gs 1
       else py_tuple_repr (map (group_text gs) [1..<n + 1])) (rx_all X re subject))))"

text \<open>\<open>random\<close>: \<open>pick n\<close> draws below \<open>n\<close>, \<open>draw\<close> between two floats; \<open>f_le\<close> compares them.\<close>

definition random_choice :: "('v, 'f) jinja \<Rightarrow> ('f \<Rightarrow> 'f \<Rightarrow> bool) \<Rightarrow> ('f \<Rightarrow> 'f \<Rightarrow> 'f) \<Rightarrow> (nat \<Rightarrow> nat) \<Rightarrow> 'v list \<Rightarrow> error + 'v" where
  "random_choice J f_le draw pick vs =
     (let bad = [lit ''random expects numbers'']; float = (\<lambda>v. case f_parse J (jv_text J v) of Some x \<Rightarrow> Inr x | None \<Rightarrow> Inl bad) in
      case vs of
        [a, b, u] \<Rightarrow> rbind (float a) (\<lambda>lo. rbind (float b) (\<lambda>hi.
          case parse_i64 (jv_text J u) of None \<Rightarrow> Inl bad
          | Some unit \<Rightarrow> Inr (of_text J (f_fixed J (nat unit) (if f_le lo hi then draw lo hi else draw hi lo)))))
      | [v] \<Rightarrow>
          if jv_kind J v = KString then
            (let s = jv_text J v in if s = [] then Inl [lit ''random choice from an empty string''] else Inr (of_text J [s ! pick (length s)]))
          else (case jv_iter J v of None \<Rightarrow> Inl [lit ''random expects a sequence'']
            | Some items \<Rightarrow> if items = [] then Inl [lit ''random choice from an empty sequence''] else Inr (items ! pick (length items)))
      | _ \<Rightarrow> Inl [lit ''random expects (min, max, unit) or a single sequence''])"

text \<open>The seeded shuffle: \<open>draw i\<close> is the position drawn for \<open>i\<close>, from the last item down.\<close>

fun swap_down :: "(nat \<Rightarrow> nat) \<Rightarrow> nat \<Rightarrow> 'v list \<Rightarrow> 'v list" where
  "swap_down draw 0 items = items"
| "swap_down draw (Suc i) items =
     (let k = draw (Suc i) in swap_down draw i (items[Suc i := items ! k, k := items ! Suc i]))"

definition shuffle_seeded :: "(nat \<Rightarrow> nat) \<Rightarrow> 'v list \<Rightarrow> 'v list" where
  "shuffle_seeded draw items = swap_down draw (length items - 1) items"

definition ternary :: "('v, 'f) jinja \<Rightarrow> 'v \<Rightarrow> 'v \<Rightarrow> 'v \<Rightarrow> 'v option \<Rightarrow> 'v" where
  "ternary J v true_val false_val none_val = (case none_val of
      Some n \<Rightarrow> if is_undefined J v \<or> is_none J v then n else if jv_true J v then true_val else false_val
    | None \<Rightarrow> if jv_true J v then true_val else false_val)"

definition mandatory :: "('v, 'f) jinja \<Rightarrow> 'v \<Rightarrow> ustr option \<Rightarrow> error + 'v" where
  "mandatory J v msg = (if is_undefined J v \<or> is_none J v
     then Inl [case msg of Some m \<Rightarrow> m | None \<Rightarrow> lit ''Mandatory variable is undefined''] else Inr v)"

definition type_debug :: "('v, 'f) jinja \<Rightarrow> 'v \<Rightarrow> ustr" where
  "type_debug J v = (case jv_kind J v of KUndefined \<Rightarrow> lit ''undefined'' | KNone \<Rightarrow> lit ''none'' | KBool \<Rightarrow> lit ''bool''
     | KNumber \<Rightarrow> (if ch CHR ''.'' \<in> set (jv_text J v) then lit ''float'' else lit ''int'')
     | KString \<Rightarrow> lit ''string'' | KSeq \<Rightarrow> lit ''list'' | KMap \<Rightarrow> lit ''object'' | _ \<Rightarrow> lit ''unknown'')"

text \<open>The sequence filters.\<close>

definition iterable :: "('v, 'f) jinja \<Rightarrow> ustr \<Rightarrow> 'v \<Rightarrow> error + 'v list" where
  "iterable J name v = (case jv_iter J v of Some items \<Rightarrow> Inr items | None \<Rightarrow> Inl [name @ lit '' requires an iterable''])"

definition split_filter :: "ustr \<Rightarrow> ustr option \<Rightarrow> ustr list" where
  "split_filter s sep = split_str (case sep of Some p \<Rightarrow> p | None \<Rightarrow> lit '' '') s"

definition join_filter :: "('v, 'f) jinja \<Rightarrow> 'v \<Rightarrow> ustr option \<Rightarrow> error + ustr" where
  "join_filter J v sep = rbind (iterable J (lit ''join'') v) (\<lambda>items.
     Inr (join (case sep of Some p \<Rightarrow> p | None \<Rightarrow> []) (map (jv_text J) items)))"

definition first_filter :: "('v, 'f) jinja \<Rightarrow> 'v \<Rightarrow> error + 'v" where
  "first_filter J v = rbind (iterable J (lit ''first'') v) (\<lambda>items. case items of [] \<Rightarrow> Inl [lit ''sequence is empty''] | x # _ \<Rightarrow> Inr x)"

definition last_filter :: "('v, 'f) jinja \<Rightarrow> 'v \<Rightarrow> error + 'v" where
  "last_filter J v = rbind (iterable J (lit ''last'') v) (\<lambda>items. if items = [] then Inl [lit ''sequence is empty''] else Inr (last items))"

definition reverse_filter :: "('v, 'f) jinja \<Rightarrow> 'v \<Rightarrow> error + 'v" where
  "reverse_filter J v = rbind (iterable J (lit ''reverse'') v) (\<lambda>items. Inr (of_items J (rev items)))"

definition sort_filter :: "('v, 'f) jinja \<Rightarrow> 'v \<Rightarrow> error + 'v" where
  "sort_filter J v = rbind (iterable J (lit ''sort'') v) (\<lambda>items. Inr (of_items J (map (of_text J) (sort (map (jv_text J) items)))))"

fun keep_first :: "('v \<Rightarrow> 'k) \<Rightarrow> 'k list \<Rightarrow> 'v list \<Rightarrow> 'v list" where
  "keep_first key seen [] = []"
| "keep_first key seen (v # vs) = (if key v \<in> set seen then keep_first key seen vs else v # keep_first key (key v # seen) vs)"

definition unique_filter :: "('v, 'f) jinja \<Rightarrow> 'v \<Rightarrow> error + 'v" where
  "unique_filter J v = rbind (iterable J (lit ''unique'') v) (\<lambda>items. Inr (of_items J (keep_first (jv_text J) [] items)))"

definition slice_items :: "'v list \<Rightarrow> int option \<Rightarrow> int option \<Rightarrow> 'v list" where
  "slice_items items start stop =
     (let len = int (length items); a = nat (case start of Some i \<Rightarrow> max i 0 | None \<Rightarrow> 0);
          b = min (nat (case stop of Some e \<Rightarrow> if e < 0 then max (len + e) 0 else e | None \<Rightarrow> len)) (length items)
      in if a \<le> b then take (b - a) (drop a items) else [])"

definition slice_filter :: "('v, 'f) jinja \<Rightarrow> 'v \<Rightarrow> int option \<Rightarrow> int option \<Rightarrow> error + 'v" where
  "slice_filter J v start stop = rbind (iterable J (lit ''slice'') v) (\<lambda>items. Inr (of_items J (slice_items items start stop)))"

text \<open>The filters whose arguments have defaults; a keyword wins over a position.\<close>

definition first_of :: "'a option \<Rightarrow> 'a option \<Rightarrow> 'a \<Rightarrow> 'a" where
  "first_of kw positional d = (case kw of Some x \<Rightarrow> x | None \<Rightarrow> (case positional of Some x \<Rightarrow> x | None \<Rightarrow> d))"

definition truncate_filter :: "ustr \<Rightarrow> int option \<Rightarrow> bool option \<Rightarrow> int option \<Rightarrow> bool option \<Rightarrow> ustr option \<Rightarrow> int option \<Rightarrow> ustr" where
  "truncate_filter s len killwords kw_len kw_killwords kw_end kw_leeway =
     truncate_text s (first_of kw_len len 255) (first_of kw_killwords killwords False) (first_of kw_end None (lit ''...''))
       (first_of kw_leeway None 5)"

definition wordwrap_filter :: "ustr \<Rightarrow> int option \<Rightarrow> bool option \<Rightarrow> ustr option \<Rightarrow> int option \<Rightarrow> bool option \<Rightarrow> ustr option \<Rightarrow> ustr option" where
  "wordwrap_filter s width breaks wrapstring kw_width kw_breaks kw_wrapstring =
     wordwrap s (nat (max (first_of kw_width width 79) 1)) (first_of kw_breaks breaks True) (first_of kw_wrapstring wrapstring [10])"

definition center_filter :: "ustr \<Rightarrow> int option \<Rightarrow> ustr" where
  "center_filter s width = center s (nat (max (case width of Some w \<Rightarrow> w | None \<Rightarrow> 80) 0))"

definition xmlattr :: "('v, 'f) jinja \<Rightarrow> 'v \<Rightarrow> bool \<Rightarrow> ustr" where
  "xmlattr J v autospace = (case jv_iter J v of None \<Rightarrow> []
     | Some keys \<Rightarrow>
       let rendered = List.map_filter (\<lambda>k. case jv_item J v k of None \<Rightarrow> None
             | Some x \<Rightarrow> if is_none J x \<or> is_undefined J x then None
                 else Some (jv_text J k @ lit ''='' @ [34] @ escape_attribute (jv_text J x) @ [34])) keys
       in if rendered = [] then [] else (if autospace then [32] else []) @ join [32] rendered)"

section \<open>Encryption\<close>

text \<open>\<open>aes\<close> takes the key, the initial vector of CBC, the data and the direction; only decryption may fail.\<close>

definition aes_key_size :: "ustr \<Rightarrow> error + unit" where
  "aes_key_size key = ensure (byte_len key \<in> {16, 24, 32}) [lit ''invalid aes key length: '' @ nat_to_str (byte_len key)]"

definition aes_apply :: "(ustr \<Rightarrow> ustr option \<Rightarrow> nat list \<Rightarrow> bool \<Rightarrow> ustr + nat list) \<Rightarrow> ustr \<Rightarrow> ustr \<Rightarrow> ustr option \<Rightarrow> nat list
    \<Rightarrow> bool \<Rightarrow> ustr \<Rightarrow> bool \<Rightarrow> (ustr \<Rightarrow> ustr) \<Rightarrow> error + nat list" where
  "aes_apply aes key mode iv data padding padding_style encrypt upper =
     rbind (ensure padding [lit ''aes without pkcs7 padding is not supported by qdrust'']) (\<lambda>_.
     rbind (ensure (eq_ignore_ascii_case padding_style (lit ''pkcs7'')) [lit ''unsupported aes padding style: '' @ padding_style]) (\<lambda>_.
     let m = upper mode; run = (\<lambda>iv. rbind (aes_key_size key) (\<lambda>_. case aes key iv data encrypt of
           Inr out \<Rightarrow> Inr out | Inl e \<Rightarrow> Inl [lit ''aes decrypt failed: '' @ e])) in
     if m = lit ''CBC'' then
       (case iv of None \<Rightarrow> Inl [lit ''aes CBC requires an iv (QD generates a random one)'']
        | Some v \<Rightarrow> rbind (ensure (byte_len v = 16) [lit ''invalid aes iv length: '' @ nat_to_str (byte_len v)]) (\<lambda>_. run (Some v)))
     else if m = lit ''ECB'' then run None
     else Inl [lit ''unsupported aes mode: '' @ m @ lit '' (qdrust supports CBC and ECB)'']))"

definition aes_format_output :: "(nat list \<Rightarrow> ustr) \<Rightarrow> (ustr \<Rightarrow> ustr) \<Rightarrow> nat list \<Rightarrow> ustr \<Rightarrow> ustr" where
  "aes_format_output base64 lower data output_format =
     (if lower output_format = lit ''hex'' then hex_encode (map of_nat data) else wrap_lines (base64 data))"

section \<open>Variables and defaults\<close>

definition ident_start :: "nat \<Rightarrow> bool" where
  "ident_start c \<longleftrightarrow> is_ascii_alpha c \<or> c = ch CHR ''_''"

definition ident_char :: "nat \<Rightarrow> bool" where
  "ident_char c \<longleftrightarrow> ident_start c \<or> is_ascii_digit c"

text \<open>The matches of \<open>IDENTIFIER\<close>, in order.\<close>

function identifiers :: "ustr \<Rightarrow> ustr list" where
  "identifiers [] = []"
| "identifiers (c # s) = (if ident_start c then (c # takeWhile ident_char s) # identifiers (dropWhile ident_char s) else identifiers s)"
  by pat_completeness auto

termination by (relation "measure length") (auto simp: le_imp_less_Suc length_dropWhile_le)

text \<open>\<open>U\<close> is the names the parser reports of a text, \<open>known\<close> those the engine defines.\<close>

definition undeclared_variables :: "(ustr \<Rightarrow> ustr list) \<Rightarrow> (ustr \<Rightarrow> bool) \<Rightarrow> ustr \<Rightarrow> ustr list" where
  "undeclared_variables U known source =
     (let undeclared = filter (\<lambda>n. \<not> known n) (U source);
          ordered = keep_first id [] (filter (\<lambda>n. n \<in> set undeclared) (identifiers source))
      in ordered @ sort (keep_first id [] (filter (\<lambda>n. n \<notin> set ordered) undeclared)))"

text \<open>\<open>DEFAULT_FILTER\<close> from a name on: the name and the text after the parenthesis.\<close>

definition match_default :: "ustr \<Rightarrow> (ustr \<times> ustr) option" where
  "match_default s = (case s of [] \<Rightarrow> None
     | c # t \<Rightarrow>
       if \<not> ident_start c then None
       else Option.bind (strip_prefix (lit ''|'') (pass_spaces (dropWhile ident_char t))) (\<lambda>s.
         Option.bind (strip_prefix (lit ''default'') (pass_spaces s)) (\<lambda>s.
         map_option (Pair (c # takeWhile ident_char t)) (strip_prefix (lit ''('') (pass_spaces s)))))"

lemma match_default_shorter:
  assumes "match_default s = Some (name, r)"
  shows "length r < length s"
proof -
  from assms obtain c t u v where *: "s = c # t" "strip_prefix (lit ''|'') (pass_spaces (dropWhile ident_char t)) = Some u"
    "strip_prefix (lit ''default'') (pass_spaces u) = Some v" "strip_prefix (lit ''('') (pass_spaces v) = Some r"
    unfolding match_default_def by (auto simp: bind_eq_Some_conv split: list.splits if_splits)
  show ?thesis
    using strip_prefix_length [OF *(2)] strip_prefix_length [OF *(3)] strip_prefix_length [OF *(4)]
      pass_spaces_length [of "dropWhile ident_char t"] pass_spaces_length [of u] pass_spaces_length [of v]
      length_dropWhile_le [of ident_char t]
    by (simp add: *(1))
qed

text \<open>The matches from \<open>s\<close> on, \<open>before\<close> being the text passed.\<close>

function defaults_from :: "(ustr \<Rightarrow> bool) \<Rightarrow> ustr \<Rightarrow> ustr \<Rightarrow> (ustr \<times> ustr) list" where
  "defaults_from F before [] = []"
| "defaults_from F before (c # s) =
     (let lead = (if before = [] \<and> match_default (c # s) \<noteq> None then [] else [c]);
          found = (if before = [] \<and> match_default (c # s) \<noteq> None then match_default (c # s)
            else if ident_char c \<or> c = ch CHR ''.'' then None else match_default s)
      in case found of
           None \<Rightarrow> defaults_from F (before @ [c]) s
         | Some (name, rest) \<Rightarrow>
             (if ends_with (lit ''|'') (trim_end (before @ lead)) then []
              else case first_literal_argument F rest of Some v \<Rightarrow> [(name, v)] | None \<Rightarrow> [])
             @ defaults_from F (before @ take (length (c # s) - length rest) (c # s)) rest)"
  by pat_completeness auto

termination
  by (relation "measure (\<lambda>(F, before, s). length s)") (auto dest!: sym [THEN match_default_shorter] match_default_shorter split: if_splits)

definition declared_defaults :: "(ustr \<Rightarrow> bool) \<Rightarrow> ustr \<Rightarrow> (ustr \<times> ustr) list" where
  "declared_defaults F source = defaults_from F [] source"

text \<open>What the variables of a template are asked from.\<close>

definition engine_names :: "(ustr \<Rightarrow> ustr list) \<Rightarrow> (ustr \<Rightarrow> bool) \<Rightarrow> (ustr \<Rightarrow> bool) \<Rightarrow> name_lib" where
  "engine_names U known F = \<lparr>known_name = known, reads_of = undeclared_variables U known, defaults_of = declared_defaults F\<rparr>"

section \<open>Entry points\<close>

text \<open>The library: rendering a text, and compiling and evaluating an expression; errors are its texts.\<close>

record ('e, 'x, 'v) environment =
  ev_render :: "ustr \<Rightarrow> 'e \<Rightarrow> ustr + ustr"
  ev_compile :: "ustr \<Rightarrow> ustr + 'x"
  ev_eval :: "'x \<Rightarrow> 'e \<Rightarrow> ustr + 'v"
  ev_json :: "'v \<Rightarrow> ustr + json"
  ev_true :: "'v \<Rightarrow> bool"

definition lib_call :: "ustr \<Rightarrow> ustr + 'a \<Rightarrow> error + 'a" where
  "lib_call ctx r = (case r of Inl e \<Rightarrow> Inl [ctx, e] | Inr x \<Rightarrow> Inr x)"

definition render_template :: "(nat \<Rightarrow> bool) \<Rightarrow> (nat \<Rightarrow> bool) \<Rightarrow> ('e, 'x, 'v) environment \<Rightarrow> ustr \<Rightarrow> 'e \<Rightarrow> error + ustr" where
  "render_template A W E template vs = lib_call (lit ''cannot render QD template value'') (ev_render E (compat_python_template A W template) vs)"

definition evaluate_expression :: "(nat \<Rightarrow> bool) \<Rightarrow> ('e, 'x, 'v) environment \<Rightarrow> ustr \<Rightarrow> 'e \<Rightarrow> error + json" where
  "evaluate_expression A E expression vs =
     rbind (lib_call (lit ''invalid QD expression'') (ev_compile E (compat_python_expression A expression))) (\<lambda>x.
     rbind (lib_call (lit ''cannot evaluate QD expression'') (ev_eval E x vs)) (\<lambda>v.
     lib_call (lit ''cannot convert QD expression result'') (ev_json E v)))"

definition evaluate_bool :: "(nat \<Rightarrow> bool) \<Rightarrow> ('e, 'x, 'v) environment \<Rightarrow> ustr \<Rightarrow> 'e \<Rightarrow> error + bool" where
  "evaluate_bool A E expression vs =
     rbind (lib_call (lit ''invalid QD condition'') (ev_compile E (compat_python_expression A expression))) (\<lambda>x.
     rbind (lib_call (lit ''cannot evaluate QD condition'') (ev_eval E x vs)) (\<lambda>v. Inr (ev_true E v)))"

end
