(* ===== verification/PyTextProps.thy ===== *)
theory PyTextProps
  imports PyText
begin

text \<open>
  Laws of the text operations: a slice and its complement make up the text, the pieces of a split
  joined by the separator give the text back (and where they do not), lines with their ends
  concatenate to the text, padding reaches the width, wrapped lines stay within it.
\<close>

section \<open>Slices\<close>

lemma slice_splits: "char_slice s None (Some k) @ char_slice s (Some k) None = s"
  by (auto simp: char_slice_def resolve_bound_def Let_def)

lemma length_char_slice: "length (char_slice s a b) \<le> length s"
  by (auto simp: char_slice_def Let_def)

lemma char_slice_infix: "\<exists>u v. s = u @ char_slice s a b @ v"
proof (cases "char_slice s a b = []")
  case False
  then obtain i n where "char_slice s a b = take n (drop i s)" by (auto simp: char_slice_def Let_def split: if_splits)
  then have "s = take i s @ char_slice s a b @ drop (n + i) s"
    by (simp add: drop_drop [symmetric] del: drop_drop)
  then show ?thesis by blast
qed auto

section \<open>Splitting\<close>

lemma join_rev_rsplit_str: "join p (rev (rsplit_str p s)) = s"
proof -
  have "rev (join p (rev (rsplit_str p s))) = join (rev p) (split_str (rev p) (rev s))"
    by (simp add: rev_join rsplit_str_def rev_map comp_def)
  then have "rev (join p (rev (rsplit_str p s))) = rev s" by (simp only: join_split_str)
  then show ?thesis by simp
qed

lemma length_cut_pieces: "length (cut_pieces w is st s) = Suc (length is)"
  by (induction "is" arbitrary: st) auto

lemma length_splitn_str: "length (splitn_str (Suc n) p s) \<le> Suc n"
  by (simp add: splitn_str_def length_cut_pieces)

lemma find_by_Some: "find_by P s = Some i \<Longrightarrow> i < length s \<and> P (s ! i) \<and> list_all (\<lambda>c. \<not> P c) (take i s)"
  by (induction s arbitrary: i) (auto split: if_splits)

lemma split_words_pieces:
  "split_words n s = (ps, r) \<Longrightarrow> length ps \<le> n \<and> (\<forall>p\<in>set ps. p \<noteq> [] \<and> list_all (\<lambda>c. \<not> is_ws c) p)"
proof (induction n arbitrary: s ps r)
  case (Suc n)
  show ?case
  proof (cases "find_by is_ws (trim_start s)")
    case (Some i)
    obtain qs r' where q: "split_words n (drop i (trim_start s)) = (qs, r')" by fastforce
    from Suc.prems Some q have ps: "ps = take i (trim_start s) # qs" by (simp add: Let_def)
    note i = find_by_Some [OF Some]
    have "\<not> is_ws (hd (trim_start s))" if "trim_start s \<noteq> []"
      using that by (simp add: trim_start_by_def hd_dropWhile)
    with i have "take i (trim_start s) \<noteq> []" by (cases "trim_start s"; cases i) auto
    with i Suc.IH [OF q] show ?thesis by (auto simp: ps)
  qed (use Suc.prems in \<open>auto simp: Let_def\<close>)
qed auto

section \<open>Lines\<close>

lemma concat_lines_from: "concat (lines_from True current s) = current @ s"
  by (induction "True" current s rule: lines_from.induct) (auto simp: Let_def starts_with_iff)

definition line_free :: "ustr \<Rightarrow> bool" where
  "line_free l \<longleftrightarrow> list_all (\<lambda>c. \<not> is_line_boundary c) l"

text \<open>A line without its end.\<close>

definition chomp :: "ustr \<Rightarrow> ustr" where
  "chomp l = takeWhile (\<lambda>c. \<not> is_line_boundary c) l"

lemma chomp_line: "line_free l \<Longrightarrow> is_line_boundary c \<Longrightarrow> chomp (l @ c # t) = l"
  by (simp add: chomp_def line_free_def list_all_iff takeWhile_append)

lemma chomp_free: "line_free l \<Longrightarrow> chomp l = l"
  by (simp add: chomp_def line_free_def list_all_iff)

lemma boundary_lf [simp]: "is_line_boundary 10"
  by (simp add: is_line_boundary_def)

lemma line_free_Nil [simp]: "line_free []"
  by (simp add: line_free_def)

lemma line_free_snoc: "line_free l \<Longrightarrow> \<not> is_line_boundary c \<Longrightarrow> line_free (l @ [c])"
  by (simp add: line_free_def)

lemma lines_from_chomp: "line_free current \<Longrightarrow> lines_from False current s = map chomp (lines_from True current s)"
  by (induction False current s rule: lines_from.induct)
    (auto simp: Let_def chomp_free chomp_line line_free_snoc)

lemma lines_from_free: "line_free current \<Longrightarrow> l \<in> set (lines_from False current s) \<Longrightarrow> line_free l"
  by (induction False current s arbitrary: l rule: lines_from.induct)
    (auto simp: Let_def line_free_snoc split: if_splits)

section \<open>Padding and wrapping\<close>

lemma length_pad: "int (length (pad s width fill kind)) = max width (int (length s))"
  by (auto simp: pad_def Let_def split: list.split)

lemma length_center: "length (center s width) = max width (length s)"
  by (auto simp: center_def Let_def)

lemma length_rsplit_once: "rsplit_once p s = Some (a, b) \<Longrightarrow> length a \<le> length s"
  by (auto simp: rsplit_once_def split: option.splits)

lemma length_before_space: "length (case rsplit_once p h of Some (before, _) \<Rightarrow> before | None \<Rightarrow> h) \<le> length h"
  by (auto split: option.split dest: length_rsplit_once)

lemma length_truncate_text:
  "length (truncate_text s len killwords ending leeway) \<le> max (nat len + nat leeway) (length ending)"
proof (cases "length s \<le> nat len + nat leeway")
  case False
  define h where "h = take (min (nat len - length ending) (length s)) s"
  define g where "g = (if killwords then h else case rsplit_once [32] h of Some (before, _) \<Rightarrow> before | None \<Rightarrow> h)"
  have "truncate_text s len killwords ending leeway = g @ ending"
    using False by (simp add: truncate_text_def Let_def g_def h_def cong: if_cong option.case_cong)
  moreover have "length g \<le> length h" by (simp add: g_def length_before_space)
  moreover have "length h \<le> nat len - length ending" by (simp add: h_def)
  ultimately show ?thesis by simp
qed (simp add: truncate_text_def)

lemma break_word_end:
  assumes "break_word breaks width word = Some y"
  shows "\<not> (breaks \<and> width = 0 \<and> word \<noteq> [])"
proof (rule break_word.raw_induct [OF _ assms])
  fix f :: "bool \<Rightarrow> nat \<Rightarrow> ustr \<Rightarrow> (ustr list \<times> ustr) option" and breaks width word y
  assume IH: "\<And>breaks width word y. f breaks width word = Some y \<Longrightarrow> \<not> (breaks \<and> width = 0 \<and> word \<noteq> [])"
    and step: "(if breaks \<and> width < length word
      then Option.bind (f breaks width (drop width word)) (\<lambda>(pieces, r). Some (take width word # pieces, r))
      else Some ([], word)) = Some y"
  show "\<not> (breaks \<and> width = 0 \<and> word \<noteq> [])"
  proof
    assume a: "breaks \<and> width = 0 \<and> word \<noteq> []"
    with step obtain z where "f True 0 word = Some z" by (auto simp: bind_eq_Some_conv)
    from IH [OF this] a show False by blast
  qed
qed

lemma break_word_zero: "word \<noteq> [] \<Longrightarrow> break_word True 0 word = None"
  using break_word_end [of True 0 word] by (cases "break_word True 0 word") auto

lemma break_word_total:
  assumes "0 < width"
  shows "\<exists>pieces r. break_word breaks width word = Some (pieces, r) \<and> concat pieces @ r = word
    \<and> (breaks \<longrightarrow> length r \<le> width) \<and> (\<forall>p\<in>set pieces. length p = width) \<and> (word \<noteq> [] \<longrightarrow> r \<noteq> [])"
proof (induction word rule: length_induct)
  case (1 word)
  show ?case
  proof (cases "breaks \<and> width < length word")
    case True
    with assms have "length (drop width word) < length word" by (auto intro!: diff_less)
    with "1.IH" obtain pieces r where pr: "break_word breaks width (drop width word) = Some (pieces, r)"
      "concat pieces @ r = drop width word" "breaks \<longrightarrow> length r \<le> width" "\<forall>p\<in>set pieces. length p = width"
      "drop width word \<noteq> [] \<longrightarrow> r \<noteq> []" by blast
    have "break_word breaks width word = Some (take width word # pieces, r)"
      by (subst break_word.simps) (use True pr(1) in simp)
    with pr True show ?thesis by simp
  next
    case False
    then show ?thesis by (auto simp: break_word.simps [of breaks width word])
  qed
qed

definition unspaced :: "ustr \<Rightarrow> ustr" where
  "unspaced s = filter (\<lambda>c. \<not> is_ws c) s"

lemma unspaced_append: "unspaced (a @ b) = unspaced a @ unspaced b"
  by (simp add: unspaced_def)

lemma unspaced_Nil: "unspaced [] = []"
  by (simp add: unspaced_def)

lemma unspaced_space: "unspaced (32 # b) = unspaced b"
  by (simp add: unspaced_def is_ws_def)

lemma wrap_words_total:
  assumes "0 < width" "\<forall>w\<in>set ws. w \<noteq> [] \<and> unspaced w = w"
    and "breaks \<longrightarrow> length current \<le> width"
  shows "\<exists>ls. wrap_words width breaks current ws = Some ls
    \<and> unspaced (concat ls) = unspaced current @ concat ws
    \<and> (breaks \<longrightarrow> (\<forall>l\<in>set ls. length l \<le> width))"
  using assms(2,3)
proof (induction ws arbitrary: current)
  case (Cons word ws)
  define full where "full \<longleftrightarrow> current \<noteq> [] \<and> width < length current + 1 + length word"
  define cur where "cur = (if full then [] else current)"
  obtain pieces r where pr: "break_word breaks width word = Some (pieces, r)" "concat pieces @ r = word"
    "breaks \<longrightarrow> length r \<le> width" "\<forall>p\<in>set pieces. length p = width" "word \<noteq> [] \<longrightarrow> r \<noteq> []"
    using break_word_total [OF assms(1)] by blast
  define nxt where "nxt = (if cur = [] then r else cur @ [32] @ r)"
  have lr: "length r \<le> length word" using arg_cong [OF pr(2), of length] by simp
  have "length nxt \<le> width" if breaks
    using that pr(3) lr Cons.prems(2) by (auto simp: nxt_def cur_def full_def not_less split: if_splits)
  then obtain ls where ls: "wrap_words width breaks nxt ws = Some ls" "unspaced (concat ls) = unspaced nxt @ concat ws"
    "breaks \<longrightarrow> (\<forall>l\<in>set ls. length l \<le> width)"
    using Cons.IH [of nxt] Cons.prems(1) by (cases breaks) auto
  have "wrap_words width breaks current (word # ws) = Some ((if full then [current] else []) @ pieces @ ls)"
    unfolding wrap_words.simps Let_def full_def [symmetric] cur_def [symmetric] pr(1)
    using ls(1) by (simp add: nxt_def)
  moreover have "unspaced (concat ((if full then [current] else []) @ pieces @ ls)) = unspaced current @ concat (word # ws)"
  proof -
    have w: "unspaced word = word" using Cons.prems by simp
    then have f: "\<forall>c\<in>set word. \<not> is_ws c" by (simp add: unspaced_def filter_id_conv)
    then have p: "unspaced (concat pieces) = concat pieces" "unspaced r = r"
      unfolding pr(2) [symmetric] by (simp_all add: unspaced_def filter_id_conv)
    have "pieces = [] \<or> cur = []"
    proof (rule ccontr)
      assume a: "\<not> (pieces = [] \<or> cur = [])"
      then have "breaks \<and> width < length word"
        using pr(1) by (subst (asm) break_word.simps) (simp split: if_splits)
      with a show False by (auto simp: cur_def full_def split: if_splits)
    qed
    then have a: "unspaced (concat pieces) @ unspaced nxt = unspaced cur @ word"
      using p by (auto simp: nxt_def unspaced_append unspaced_space pr(2) [symmetric] unspaced_Nil)
    have b: "unspaced (concat (if full then [current] else [])) @ unspaced cur = unspaced current"
      by (simp add: cur_def unspaced_def)
    have "unspaced (concat ((if full then [current] else []) @ pieces @ ls))
        = unspaced (concat (if full then [current] else [])) @ (unspaced (concat pieces) @ unspaced nxt) @ concat ws"
      by (simp only: concat_append unspaced_append ls(2) append_assoc)
    then show ?thesis unfolding a append_assoc [symmetric] b by simp
  qed
  moreover have "\<forall>l\<in>set ((if full then [current] else []) @ pieces @ ls). length l \<le> width" if breaks
    using that ls(3) pr(4) Cons.prems(2) by auto
  ultimately show ?case by blast
qed (auto simp: unspaced_def)

section \<open>Escaping\<close>

lemma escape_char_safe: "\<forall>d\<in>set (escape_char c). d \<noteq> 60 \<and> d \<noteq> 62 \<and> d \<noteq> 34 \<and> d \<noteq> 39"
proof -
  consider "c = 38" | "c = 60" | "c = 62" | "c = 34" | "c = 39" | "c \<notin> {38, 60, 62, 34, 39}" by blast
  then show ?thesis by cases (simp_all add: escape_char_def)
qed

lemma escape_safe: "c \<in> set (escape_attribute s) \<Longrightarrow> c \<noteq> 60 \<and> c \<noteq> 62 \<and> c \<noteq> 34 \<and> c \<noteq> 39"
  using escape_char_safe by (auto simp: escape_attribute_def)

end
