(* ===== verification/PyCodecProps.thy ===== *)
theory PyCodecProps
  imports PyCodecs
begin

text \<open>
  What the codecs keep: uuencoded and quoted-printable data decode to themselves (with the exceptions the
  code makes), grouped hexadecimal loses nothing, and the table of the CRC is the shift register it stands for.
\<close>

unbundle bit_operations_syntax

section \<open>Uuencoding\<close>

lemma unat_lt: "unat (b :: byte) < 256"
  using unsigned_less [of b] by simp

lemma uu_bits_char: "x < 64 \<Longrightarrow> uu_bits (uu_char x) = x"
proof -
  assume "x < (64 :: byte)"
  then have x: "unat x < 64" by (simp add: word_less_nat_alt)
  have "unat (32 + x) = 32 + unat x" using x by (simp add: unat_word_ariths)
  then show ?thesis using x by (simp add: uu_bits_def uu_char_def min_def)
qed

lemma uu_char_ascii: "x < 64 \<Longrightarrow> uu_char x < 128"
proof -
  assume "x < (64 :: byte)"
  then have x: "unat x < 64" by (simp add: word_less_nat_alt)
  then show ?thesis by (simp add: uu_char_def unat_word_ariths)
qed

lemma uu_sextets:
  fixes b0 b1 b2 :: byte
  shows "drop_bit 2 b0 < 64" "push_bit 4 (b0 AND 0x03) OR drop_bit 4 b1 < 64"
    "push_bit 2 (b1 AND 0x0F) OR drop_bit 6 b2 < 64" "b2 AND 0x3F < 64"
proof -
  have small: "x < 64" if "drop_bit 6 x = 0" for x :: byte
    using that by (simp add: drop_bit_eq_div word_less_nat_alt unat_div word_unat_eq_iff)
  show "drop_bit 2 b0 < 64" "push_bit 4 (b0 AND 0x03) OR drop_bit 4 b1 < 64"
    "push_bit 2 (b1 AND 0x0F) OR drop_bit 6 b2 < 64" "b2 AND 0x3F < 64"
    by (rule small, rule bit_word_eqI, auto simp: bit_simps bit_numeral_rec)+
qed

lemma byte_bits: "n < LENGTH(8) \<Longrightarrow> n \<in> {0, 1, 2, 3, 4, 5, 6, 7}"
  by auto

lemma uu_triple:
  fixes b0 b1 b2 :: byte
  shows "push_bit 2 (drop_bit 2 b0) OR drop_bit 4 (push_bit 4 (b0 AND 0x03) OR drop_bit 4 b1) = b0"
    "push_bit 4 ((push_bit 4 (b0 AND 0x03) OR drop_bit 4 b1) AND 0x0F) OR drop_bit 2 (push_bit 2 (b1 AND 0x0F) OR drop_bit 6 b2) = b1"
    "push_bit 6 ((push_bit 2 (b1 AND 0x0F) OR drop_bit 6 b2) AND 0x03) OR (b2 AND 0x3F) = b2"
  by (rule bit_word_eqI, drule byte_bits, elim insertE emptyE; simp add: bit_simps bit_numeral_rec)+

lemma uu_ungroup_four: "uu_ungroup [s0, s1, s2, s3] =
    [push_bit 2 s0 OR drop_bit 4 s1, push_bit 4 (s1 AND 0x0F) OR drop_bit 2 s2, push_bit 6 (s2 AND 0x03) OR s3]"
  by (simp add: uu_ungroup_def byte_at_def)

lemma uu_group_decodes:
  "uu_ungroup (map uu_bits (uu_group chunk)) = [byte_at 0 chunk, byte_at 1 chunk, byte_at 2 chunk]"
  unfolding uu_group_def Let_def list.map
  by (simp only: uu_bits_char uu_sextets uu_ungroup_four uu_triple)

lemma length_uu_group [simp]: "length (uu_group chunk) = 4"
  by (simp add: uu_group_def Let_def)

lemma uu_group_ascii: "filter (\<lambda>c. c < 128) (uu_group chunk) = uu_group chunk"
  unfolding uu_group_def Let_def filter.simps by (simp only: uu_char_ascii uu_sextets if_True)

lemma chunks_append: "length xs = n \<Longrightarrow> 0 < n \<Longrightarrow> chunks n (xs @ ys) = xs # chunks n ys"
  by (subst chunks.simps) auto

lemma chunks_blocks:
  "\<forall>g\<in>set gs. length g = n \<Longrightarrow> 0 < n \<Longrightarrow> chunks n (concat gs @ ys) = gs @ chunks n ys"
  by (induction gs) (simp_all add: chunks_append)

lemma chunks_short: "xs \<noteq> [] \<Longrightarrow> length xs \<le> n \<Longrightarrow> chunks n xs = [xs]"
  by (subst chunks.simps) (cases n, auto)

definition padded :: "byte list \<Rightarrow> byte list" where
  "padded chunk = [byte_at 0 chunk, byte_at 1 chunk, byte_at 2 chunk]"

lemma take_padded: "take (length d) (concat (map padded (chunks 3 d)) @ z) = d"
proof (induction d rule: length_induct)
  case (1 d)
  show ?case
  proof (cases "length d \<le> 3")
    case True
    then consider "d = []" | a where "d = [a]" | a b where "d = [a, b]" | a b c where "d = [a, b, c]"
      by (cases d; cases "tl d"; cases "tl (tl d)") auto
    then show ?thesis by cases (simp_all add: chunks_short padded_def byte_at_def)
  next
    case False
    then obtain a b c r where d: "d = [a, b, c] @ r" "r \<noteq> []"
      by (cases d; cases "tl d"; cases "tl (tl d)"; cases "tl (tl (tl d))") auto
    have "padded [a, b, c] = [a, b, c]" by (simp add: padded_def byte_at_def)
    then show ?thesis using "1.IH" unfolding d(1) by (subst chunks_append) simp_all
  qed
qed

lemma uu_round_trip:
  assumes "d \<noteq> []" "length d \<le> 223"
  shows "uudecode_line (uuencode_line d) = Inr d"
proof -
  define gs where "gs = map (\<lambda>c. map uu_bits (uu_group c)) (chunks 3 d)"
  have len: "(of_nat (uu_char (of_nat (length d))) - 32 :: 32 word) = of_nat (length d)"
    using assms(2) by (simp add: uu_char_def unat_word_ariths unat_of_nat)
  have filt: "filter (\<lambda>c. c < 128) (concat (map uu_group cs)) = concat (map uu_group cs)" for cs
    by (induction cs) (simp_all add: uu_group_ascii)
  have bytes: "map uu_bits (filter (\<lambda>c. c < 128) (concat (map uu_group (chunks 3 d)) @ [10])) = concat gs @ [0]"
    by (simp add: filt gs_def map_concat comp_def uu_bits_def)
  have gs: "chunks 4 (concat gs @ [0]) = gs @ [[0]]"
    by (subst chunks_blocks) (auto simp: gs_def chunks_short)
  have "concat (map uu_ungroup (gs @ [[0]])) = concat (map padded (chunks 3 d)) @ uu_ungroup [0]"
    by (simp add: gs_def comp_def uu_group_decodes padded_def [abs_def])
  moreover have "unat (of_nat (length d) :: 32 word) = length d"
    using assms(2) by (simp add: unat_of_nat)
  ultimately show ?thesis
    using assms(1) by (simp add: uuencode_line_def uudecode_line_def Let_def bytes len gs take_padded del: filter_append map_append take_append)
qed

text \<open>The encoder writes no data as a grave accent, which the decoder reads as sixty-four.\<close>

lemma uu_empty: "uudecode_line (uuencode_line []) = Inr [0, 0, 0]"
proof -
  have "unat (64 :: 32 word) = 64" by simp
  then show ?thesis
    by (simp add: uuencode_line_def uudecode_line_def uu_bits_def chunks_short uu_ungroup_def Let_def byte_at_def)
qed

section \<open>Hexadecimal\<close>

lemma concat_right_parts: "0 < n \<Longrightarrow> stop \<le> length s \<Longrightarrow> concat (rev (right_parts n stop s)) = take stop s"
proof (induction n stop s rule: right_parts.induct)
  case (1 n stop s)
  show ?case
  proof (cases "stop = 0")
    case False
    define start where "start = stop - n"
    from False 1 have "concat (rev (right_parts n stop s)) = take start s @ take (stop - start) (drop start s)"
      by (subst right_parts.simps) (simp add: start_def Let_def)
    also have "\<dots> = take stop s"
      using take_add [of start "stop - start" s] by (simp add: start_def)
    finally show ?thesis .
  qed (simp add: right_parts.simps)
qed

section \<open>The CRC table\<close>

lemma crc32_shift_bit: "crc32_shift x = (if bit x 0 then 0xEDB88320 XOR drop_bit 1 x else drop_bit 1 x)"
  by (simp add: crc32_shift_def and_one_eq bit_0 even_iff_mod_2_eq_zero)

lemma crc32_shift_xor: "crc32_shift (a XOR b) = crc32_shift a XOR crc32_shift b"
  unfolding crc32_shift_bit by (rule bit_word_eqI) (auto simp: bit_simps)

lemma crc32_shifts_xor: "(crc32_shift ^^ n) (a XOR b) = (crc32_shift ^^ n) a XOR (crc32_shift ^^ n) b"
  by (induction n arbitrary: a b) (simp_all add: crc32_shift_xor)

lemma crc32_shifts_high: "take_bit n x = 0 \<Longrightarrow> (crc32_shift ^^ n) x = drop_bit n x"
proof (induction n arbitrary: x)
  case (Suc n)
  have bits: "\<not> bit x m" if "m < Suc n" for m
    using arg_cong [OF Suc.prems, of "\<lambda>y. bit y m"] that by (simp add: bit_take_bit_iff)
  have "crc32_shift x = drop_bit 1 x" using bits [of 0] by (simp add: crc32_shift_bit)
  moreover have "take_bit n (drop_bit 1 x) = 0"
    by (rule bit_word_eqI) (use bits in \<open>auto simp: bit_simps\<close>)
  ultimately show ?case using Suc.IH [of "drop_bit 1 x"] by (simp add: funpow_Suc_right del: funpow.simps)
qed simp

text \<open>One byte by the table is eight turns of the shift register.\<close>

lemma crc32_byte:
  "crc32_table ! unat ((crc XOR ucast (b :: byte)) AND 0xFF) XOR drop_bit 8 crc = (crc32_shift ^^ 8) (crc XOR ucast b)"
proof -
  define y where "y = crc XOR (ucast b :: 32 word)"
  have low: "y AND 0xFF = take_bit 8 y" by (simp add: take_bit_eq_mask mask_eq_exp_minus_1 and.commute)
  then have "unat (y AND 0xFF) < 256" using take_bit_nat_less_exp [of 8 "unat y"] by (simp add: unsigned_take_bit_eq)
  then have table: "crc32_table ! unat (y AND 0xFF) = (crc32_shift ^^ 8) (y AND 0xFF)"
    by (simp add: crc32_table_def)
  have split: "y = (y AND 0xFF) XOR push_bit 8 (drop_bit 8 y)"
    unfolding low by (rule bit_word_eqI) (auto simp: bit_simps)
  have "take_bit 8 (push_bit 8 (drop_bit 8 y)) = 0" by (rule bit_word_eqI) (auto simp: bit_simps)
  then have "(crc32_shift ^^ 8) (push_bit 8 (drop_bit 8 y)) = drop_bit 8 (push_bit 8 (drop_bit 8 y))"
    by (rule crc32_shifts_high)
  also have "\<dots> = drop_bit 8 crc"
    unfolding y_def by (rule bit_word_eqI) (auto simp: bit_simps dest: bit_imp_le_length)
  finally have "(crc32_shift ^^ 8) y = (crc32_shift ^^ 8) (y AND 0xFF) XOR drop_bit 8 crc"
    by (subst split) (simp only: crc32_shifts_xor)
  then show ?thesis using table by (simp only: y_def)
qed

definition crc32_register :: "byte list \<Rightarrow> 32 word" where
  "crc32_register data = fold (\<lambda>b crc. (crc32_shift ^^ 8) (crc XOR ucast b)) data 0xFFFFFFFF XOR 0xFFFFFFFF"

lemma crc32_is_register: "crc32 data = crc32_register data"
  unfolding crc32_def crc32_register_def crc32_byte ..

section \<open>Quoted-printable\<close>

text \<open>A text decodes to some bytes whatever follows it.\<close>

definition qp_reads :: "ustr \<Rightarrow> nat list \<Rightarrow> bool" where
  "qp_reads s bs \<longleftrightarrow> (\<forall>rest. qp_bytes (s @ rest) = bs @ qp_bytes rest)"

lemma qp_reads_Nil: "qp_reads [] []"
  by (simp add: qp_reads_def)

lemma qp_reads_append: "qp_reads s bs \<Longrightarrow> qp_reads t cs \<Longrightarrow> qp_reads (s @ t) (bs @ cs)"
  by (simp add: qp_reads_def)

lemma qp_reads_bytes: "qp_reads s bs \<Longrightarrow> qp_bytes s = bs"
  by (auto simp: qp_reads_def dest: spec [of _ "[]"])

lemma qp_reads_plain: "c \<noteq> 61 \<Longrightarrow> qp_reads [c] [c]"
  by (simp add: qp_reads_def)

lemma qp_reads_break: "qp_reads [61, 13, 10] []"
  by (simp add: qp_reads_def starts_with_def)

lemma hex_pair_digits: "h < 16 \<Longrightarrow> l < 16 \<Longrightarrow> hex_pair (hex_digit_upper h) (hex_digit_upper l) = Some (16 * h + l)"
  by (auto simp: hex_pair_def hex_val_digit) (simp_all add: hex_digit_upper_def split: if_splits)

lemma qp_reads_escape: "qp_reads (hex_escape b) [unat b]"
proof -
  have b: "unat b div 16 < 16" using unat_lt [of b] by simp
  have "hex_digit_upper n \<noteq> 10 \<and> hex_digit_upper n \<noteq> 13" for n by (simp add: hex_digit_upper_def)
  with hex_pair_digits [OF b, of "unat b mod 16"] show ?thesis by (simp add: qp_reads_def hex_escape_def)
qed

lemma qp_reads_token: "qp_reads (qp_token istext b) [unat b]"
proof -
  have "lit ''=3D'' = hex_escape 61" by (simp add: hex_escape_def hex_digit_upper_def)
  moreover have "unat b \<noteq> 61" if "b \<noteq> 61"
    using that by (simp add: word_unat_eq_iff)
  ultimately show ?thesis
    using qp_reads_escape [of 61] qp_reads_escape [of b] by (auto simp: qp_token_def intro!: qp_reads_plain)
qed

text \<open>The encoder holds no blank back and its output reads as the data so far.\<close>

definition qp_inv :: "nat list \<Rightarrow> qp_state \<Rightarrow> bool" where
  "qp_inv bs s \<longleftrightarrow> qp_pending s = [] \<and> qp_reads (qp_out s) bs \<and> list_all (\<lambda>c. c < 128) (qp_out s)"

lemma flush_nothing: "qp_pending s = [] \<Longrightarrow> flush_pending s = s"
  by (simp add: flush_pending_def)

lemma hex_digit_ascii: "n < 16 \<Longrightarrow> hex_digit_upper n < 128"
  by (simp add: hex_digit_upper_def)

lemma qp_token_ascii: "list_all (\<lambda>c. c < 128) (qp_token istext b)"
proof -
  have "unat b div 16 < 16" using unat_lt [of b] by simp
  moreover have "unat b < 128" if "b \<le> 0x7E" using that by (simp add: word_le_nat_alt)
  ultimately show ?thesis by (auto simp: qp_token_def hex_escape_def hex_digit_ascii)
qed

lemma qp_step_inv:
  assumes "qp_inv bs s" "quotetabs \<or> b \<noteq> 32 \<and> b \<noteq> 9"
  shows "qp_inv (bs @ [unat b]) (qp_step quotetabs istext b s)"
proof (cases "b = 10 \<and> istext")
  case True
  then show ?thesis using assms qp_reads_append [OF _ qp_reads_plain [of 10]]
    by (simp add: qp_step_def qp_inv_def flush_nothing)
next
  case False
  define s1 where "s1 = (if 75 < qp_line s + length (qp_token istext b) then s\<lparr>qp_out := qp_out s @ [61, 13, 10], qp_line := 0\<rparr> else s)"
  have step: "qp_step quotetabs istext b s
      = s1\<lparr>qp_line := qp_line s1 + length (qp_token istext b), qp_out := qp_out s1 @ qp_token istext b\<rparr>"
    using False assms by (auto simp: qp_step_def s1_def Let_def flush_nothing qp_inv_def)
  have "qp_inv bs s1"
    using assms(1) qp_reads_append [OF _ qp_reads_break] by (fastforce simp: qp_inv_def s1_def)
  then show ?thesis
    unfolding step using qp_reads_append [OF _ qp_reads_token] by (simp add: qp_inv_def qp_token_ascii)
qed

lemma qp_fold_inv:
  "qp_inv bs s \<Longrightarrow> quotetabs \<or> (\<forall>b\<in>set data. b \<noteq> 32 \<and> b \<noteq> 9)
    \<Longrightarrow> qp_inv (bs @ map unat data) (fold (qp_step quotetabs istext) data s)"
proof (induction data arbitrary: bs s)
  case (Cons b data)
  then have "qp_inv (bs @ [unat b]) (qp_step quotetabs istext b s)" by (intro qp_step_inv) auto
  from Cons.IH [OF this] Cons.prems(2) show ?case by auto
qed simp

lemma qp_round_trip:
  assumes "quotetabs \<or> (\<forall>b\<in>set data. b \<noteq> 32 \<and> b \<noteq> 9)"
  shows "qp_decode (qp_encode data quotetabs istext) = Inr (map unat data)"
proof -
  define s where "s = fold (qp_step quotetabs istext) data \<lparr>qp_out = [], qp_line = 0, qp_pending = []\<rparr>"
  have "qp_inv ([] @ map unat data) s"
    unfolding s_def by (rule qp_fold_inv [OF _ assms]) (simp add: qp_inv_def qp_reads_Nil)
  then have "qp_pending s = []" "qp_reads (qp_out s) (map unat data)" "\<forall>c\<in>set (qp_out s). c < 128"
    by (simp_all add: qp_inv_def list_all_iff)
  then show ?thesis
    by (simp add: qp_decode_def qp_encode_def s_def [symmetric] flush_nothing utf8_encode_ascii qp_reads_bytes)
qed

text \<open>A blank inside a line is held back until the line ends, and lands there.\<close>

lemma qp_plain_fold:
  assumes "\<forall>b\<in>set data. 0x21 \<le> b \<and> b \<le> 0x7E \<and> b \<noteq> 61" "qp_line s + length data \<le> 75"
  shows "fold (qp_step False istext) data s = s\<lparr>qp_out := qp_out s @ map unat data, qp_line := qp_line s + length data\<rparr>"
  using assms
proof (induction data arbitrary: s)
  case (Cons b data)
  have b: "b \<noteq> 10" "b \<noteq> 32" "b \<noteq> 9" "b \<noteq> 13" using Cons.prems by (auto simp: word_le_nat_alt)
  then have "qp_step False istext b s = s\<lparr>qp_line := qp_line s + 1, qp_out := qp_out s @ [unat b]\<rparr>"
    using Cons.prems by (simp add: qp_step_def qp_token_def Let_def)
  then show ?case using Cons by simp
qed simp

lemma qp_blank_moved:
  assumes "\<forall>b\<in>set u \<union> set v. 0x21 \<le> b \<and> b \<le> 0x7E \<and> b \<noteq> 61" "length u + length v \<le> 75"
  shows "qp_encode (u @ [32] @ v) False istext = map unat u @ map unat v @ lit ''=20''"
proof -
  define s0 where "s0 = \<lparr>qp_out = [], qp_line = 0, qp_pending = []\<rparr>"
  have 1: "fold (qp_step False istext) u s0 = \<lparr>qp_out = map unat u, qp_line = length u, qp_pending = []\<rparr>"
    using qp_plain_fold [of u s0 istext] assms by (simp add: s0_def)
  have 2: "qp_step False istext 32 \<lparr>qp_out = map unat u, qp_line = length u, qp_pending = []\<rparr>
      = \<lparr>qp_out = map unat u, qp_line = length u, qp_pending = [[32]]\<rparr>"
    by (simp add: qp_step_def)
  have "fold (qp_step False istext) (u @ [32] @ v) s0
      = \<lparr>qp_out = map unat u @ map unat v, qp_line = length u + length v, qp_pending = [[32]]\<rparr>"
    using qp_plain_fold [of v "\<lparr>qp_out = map unat u, qp_line = length u, qp_pending = [[32]]\<rparr>" istext] assms
    by (simp add: 1 2)
  then show ?thesis unfolding qp_encode_def s0_def [symmetric] by (simp add: flush_pending_def)
qed

section \<open>Lines, URLs and escapes\<close>

lemma wrap_lines_content: "filter (\<lambda>c. c \<noteq> 10) (wrap_lines e) = filter (\<lambda>c. c \<noteq> 10) e"
proof -
  have "filter (\<lambda>c. c \<noteq> 10) (concat (map (\<lambda>l. l @ [10]) ls)) = filter (\<lambda>c. c \<noteq> 10) (concat ls)" for ls :: "ustr list"
    by (induction ls) simp_all
  from this [of "chunks 76 e"] show ?thesis
    by (cases "e = []") (auto simp: wrap_lines_def Let_def concat_chunks chunks.simps [of 76 e])
qed

lemma url_quote_decodes: "list_all is_scalar s \<Longrightarrow> pl_decode std_percent (url_quote std_percent s for_qs) = s"
  unfolding url_quote_def
  by (rule std.decode_encode) (simp_all add: NON_ALPHANUMERIC_def unreserved_mark_def is_ascii_digit_def is_ascii_alpha_def)

lemma conver2unicode_plain: "92 \<notin> set s \<Longrightarrow> conver2unicode s = s"
  by (induction s) auto

end
