(* ===== verification/PyRewriteProps.thy ===== *)
theory PyRewriteProps
  imports PyRewrite
begin

text \<open>
  What the rewriting keeps: the scanners stay inside the text, a text without Python spellings is left alone,
  and of a template only the inside of its tags changes.
\<close>

section \<open>Scanners\<close>

lemma string_len_bound: "string_len q e s = Some n \<Longrightarrow> n \<le> length s \<and> 0 < n \<and> s ! (n - 1) = q"
proof (induction q e s arbitrary: n rule: string_len.induct)
  case (2 q e c s)
  then show ?case by (fastforce split: if_splits simp: nth_Cons')
qed simp

lemma group_len_bound: "group_len lb rb depth s = Some k \<Longrightarrow> k \<le> length s \<and> s ! (k - 1) = rb"
proof (induction lb rb depth s arbitrary: k rule: group_len.induct)
  case (2 lb rb depth c s)
  note pos = group_len_pos
  show ?case
  proof (cases "is_quote c")
    case True
    with "2.prems" obtain n j where n: "string_len c False s = Some n" "group_len lb rb depth (drop n s) = Some j" "k = Suc n + j"
      by (auto split: option.splits)
    with "2.IH"(1) [OF True n(1) n(2)] string_len_bound [OF n(1)] pos [OF n(2)] show ?thesis by (auto simp: nth_Cons')
  next
    case False
    show ?thesis
    proof (cases "c \<noteq> lb \<and> c = rb \<and> depth - 1 = 0")
      case True
      with False "2.prems" show ?thesis by simp
    next
      case no: False
      then obtain d j where j: "group_len lb rb d s = Some j" "k = Suc j" "d \<in> {depth + 1, depth - 1, depth}"
        "j \<le> length s \<and> s ! (j - 1) = rb"
        using "2.prems" False "2.IH"(2-4) [OF False] by (auto split: if_splits)
      with pos [OF j(1)] show ?thesis by (simp add: nth_Cons')
    qed
  qed
qed simp

lemma group_end_bound:
  assumes "group_end s = Some k"
  shows "2 \<le> k \<and> k \<le> length s \<and> (\<exists>rb. closing_of (hd s) = Some rb \<and> s ! (k - 1) = rb)"
proof -
  from assms obtain c t rb where s: "s = c # t" "closing_of c = Some rb" "group_len c rb 0 s = Some k"
    by (auto simp: group_end_def bind_eq_Some_conv split: list.splits simp del: group_len.simps)
  have "\<not> is_quote c \<and> c \<noteq> rb" using s(2) by (auto simp: closing_of_def is_quote_def split: if_splits)
  with s obtain j where "k = Suc j" "group_len c rb 1 t = Some j" by auto
  with group_len_pos [OF this(2)] group_len_bound [OF s(3)] s(1,2) show ?thesis by auto
qed

section \<open>Nothing to rewrite\<close>

lemma percent_from_same: "percent_from A s = (out, False) \<Longrightarrow> out = s"
proof (induction A s arbitrary: out rule: percent_from.induct)
  case (2 A c s)
  show ?case
  proof (cases "is_quote c")
    case False
    with 2 show ?thesis by (auto split: prod.splits)
  next
    case True
    with "2.prems" "2.IH"(2) show ?thesis
      by (fastforce simp: Let_def split: option.splits prod.splits if_splits)
  qed
qed simp

lemma split_group: "group_end (c # s) = Some k \<Longrightarrow> c # take (k - 2) s @ take 1 (drop (k - 1) (c # s)) = take k (c # s)"
proof -
  assume "group_end (c # s) = Some k"
  from group_end_bound [OF this] obtain j where "k = Suc (Suc j)" "j < length s"
    by (cases k; cases "k - 1") auto
  then show ?thesis by (simp add: take_Suc_conv_app_nth Cons_nth_drop_Suc [symmetric])
qed

lemmas methods_step = methods_from.simps [of A out start live changed "c # s" for A out start live changed c s, simplified list.case]

lemma methods_from_same: "methods_from A out start live changed s0 = (r, False) \<Longrightarrow> r = out @ s0 \<and> \<not> changed"
proof (induction s0 arbitrary: out start live changed r rule: length_induct)
  case (1 s0)
  have IH: "r = out @ t \<and> \<not> changed" if "methods_from A out start live changed t = (r, False)" "length t < length s0"
    for t out start live changed r
    using "1.IH" that by blast
  show ?case
  proof (cases s0)
    case Nil
    with "1.prems" show ?thesis by (simp add: methods_from.simps)
  next
    case (Cons c s)
    note prem = "1.prems" [unfolded Cons methods_step]
    consider (quote) "is_quote c" | (bracket) "\<not> is_quote c" "closing_of c \<noteq> None"
      | (dot) "\<not> is_quote c" "closing_of c = None" "c = ch CHR ''.'' \<and> live"
      | (rest) "\<not> is_quote c" "closing_of c = None" "\<not> (c = ch CHR ''.'' \<and> live)" by blast
    then show ?thesis
    proof cases
      case quote
      show ?thesis
      proof (cases "string_len c False s")
        case (Some n)
        with quote prem have "methods_from A (out @ c # take n s) (length out) True changed (drop n s) = (r, False)" by simp
        from IH [OF this] show ?thesis by (simp add: Cons less_Suc_eq_le)
      qed (use quote prem in \<open>auto simp: Cons\<close>)
    next
      case bracket
      show ?thesis
      proof (cases "group_end s0")
        case None
        with bracket prem show ?thesis by (simp add: Cons)
      next
        case (Some k)
        obtain inner ic where m: "methods_from A [] 0 False False (take (k - 2) s) = (inner, ic)" by fastforce
        from prem bracket Some m have
          "methods_from A (out @ [c] @ (if ic then inner else take (k - 2) s) @ take 1 (drop (k - 1) (c # s)))
             (if live then start else length out) True (changed \<or> ic) (drop k (c # s)) = (r, False)"
          by (simp add: Cons del: take_Suc_Cons drop_Suc_Cons)
        moreover have "length (drop k (c # s)) < length s0" using group_end_pos [OF Some] by (simp add: Cons)
        ultimately have e: "r = (out @ [c] @ take (k - 2) s @ take 1 (drop (k - 1) (c # s))) @ drop k (c # s)" "\<not> changed"
          by (auto dest!: IH)
        with split_group [of c s k] Some show ?thesis by (simp add: Cons)
      qed
    next
      case dot
      define name where "name = takeWhile (word_char A) s"
      define rest where "rest = drop (length name) s"
      have s: "s = name @ rest" unfolding name_def rest_def by (simp add: dropWhile_eq_drop [symmetric])
      show ?thesis
      proof (cases "if name \<noteq> [] \<and> name \<in> set PYTHON_METHODS \<and> starts_with (lit ''('') (drop (skip_spaces rest) rest)
          then group_end (drop (skip_spaces rest) rest) else None")
        case (Some k)
        define call_at where "call_at = drop (skip_spaces rest) rest"
        obtain p q where "methods_from A p start True True (drop k call_at) = (r, False)"
          using prem dot Some unfolding Let_def name_def [symmetric] rest_def [symmetric] call_at_def [symmetric]
          by (auto split: prod.splits)
        moreover have "length (drop k call_at) < length s0" by (simp add: Cons call_at_def rest_def)
        ultimately show ?thesis using IH by blast
      next
        case None
        with prem dot have "methods_from A (out @ c # name) start True changed rest = (r, False)
            \<or> name = [] \<and> methods_from A (out @ [c]) start False changed s = (r, False)"
          unfolding Let_def name_def [symmetric] rest_def [symmetric] by (auto split: if_splits)
        moreover have "length rest < length s0" "length s < length s0" by (simp_all add: Cons rest_def)
        ultimately have "r = (out @ c # name) @ rest \<and> \<not> changed" using s by (auto dest: IH)
        then show ?thesis by (simp add: Cons) (simp add: s)
      qed
    next
      case rest
      define n where "n = (if word_char A c then identifier_end A s else 0)"
      from prem rest obtain start' live' where
        "methods_from A (out @ c # take n s) start' live' changed (drop n s) = (r, False)"
        by (auto simp: n_def Let_def split: if_splits)
      from IH [OF this] show ?thesis by (simp add: Cons less_Suc_eq_le)
    qed
  qed
qed

lemma methods_from_quiet: "46 \<notin> set s0 \<Longrightarrow> snd (methods_from A out start live changed s0) = changed"
proof (induction s0 arbitrary: out start live changed rule: length_induct)
  case (1 s0)
  have IH: "snd (methods_from A out start live changed t) = changed" if "length t < length s0" "set t \<subseteq> set s0"
    for t out start live changed
    using "1.IH" "1.prems" that by blast
  have sub: "set (drop n t) \<subseteq> set t" "set (take n t) \<subseteq> set t" for n and t :: ustr
    by (simp_all add: set_drop_subset set_take_subset)
  show ?case
  proof (cases s0)
    case Nil
    then show ?thesis by (simp add: methods_from.simps)
  next
    case (Cons c s)
    have dot: "c \<noteq> ch CHR ''.''" using "1.prems" Cons by auto
    have dropped: "snd (methods_from A out start live changed (drop n s)) = changed" for n out start live changed
      by (rule IH) (use sub(1) [of n s] in \<open>auto simp: Cons\<close>)
    have group: "snd (methods_from A out start live changed (drop k (c # s))) = changed" if "0 < k" for k out start live changed
      by (rule IH) (use that sub(1) [of k "c # s"] in \<open>auto simp: Cons\<close>)
    have inner: "snd (methods_from A [] 0 False False (take k s)) = False" for k
      by (rule IH) (use sub(2) [of k s] in \<open>auto simp: Cons\<close>)
    have "\<not> snd (methods_from A [] 0 False False (take (k - 2) s))" for k using inner by simp
    then show ?thesis
      using dot dropped dropped [of _ _ _ _ 0] group group_end_pos
      by (auto simp: Cons methods_step Let_def split_beta split: option.splits)
  qed
qed

lemma percent_from_quiet: "list_all (\<lambda>c. \<not> is_quote c) s \<Longrightarrow> snd (percent_from A s) = False"
  by (induction s) (simp_all add: split_beta)

lemma rewrite_expression_quiet:
  "46 \<notin> set s \<Longrightarrow> list_all (\<lambda>c. \<not> is_quote c) s \<Longrightarrow> rewrite_expression A s = None"
  by (simp add: rewrite_expression_def rewrite_percent_def rewrite_methods_def Let_def split_beta
      percent_from_quiet methods_from_quiet)

section \<open>Only the inside of tags changes\<close>

text \<open>A template is text and tags; a tag has its delimiters and what is between them.\<close>

datatype piece = Plain ustr | Tag ustr ustr ustr

definition raw :: "piece \<Rightarrow> ustr" where
  "raw p = (case p of Plain t \<Rightarrow> t | Tag a inner b \<Rightarrow> a @ inner @ b)"

definition rewritten :: "(nat \<Rightarrow> bool) \<Rightarrow> piece \<Rightarrow> ustr" where
  "rewritten A p = (case p of Plain t \<Rightarrow> t
     | Tag a inner b \<Rightarrow> a @ (if a = lit ''{#'' then inner else compat_python_expression A inner) @ b)"

definition tag_ok :: "piece \<Rightarrow> bool" where
  "tag_ok p = (case p of Plain _ \<Rightarrow> True
     | Tag a _ b \<Rightarrow> (a, b) \<in> {(lit ''{{'', lit ''}}''), (lit ''{%'', lit ''%}''), (lit ''{#'', lit ''#}'')})"

definition pieces_of :: "(nat \<Rightarrow> bool) \<Rightarrow> ustr \<Rightarrow> piece list \<Rightarrow> bool" where
  "pieces_of A s ps \<longleftrightarrow> s = concat (map raw ps) \<and> fst (template_from A s) = concat (map (rewritten A) ps) \<and> list_all tag_ok ps"

lemma find_delimiter_at: "find_delimiter stop s = Some n \<Longrightarrow> starts_with stop (drop n s) \<and> n \<le> length s"
proof (induction stop s arbitrary: n rule: find_delimiter.induct)
  case (2 stop c s)
  show ?case
  proof (cases "is_quote c")
    case True
    with "2.prems" obtain k j where "string_len c False s = Some k" "find_delimiter stop (drop k s) = Some j" "n = Suc k + j"
      by (auto split: option.splits)
    with "2.IH"(1) [OF True this(1) this(2)] string_len_bound [OF this(1)] show ?thesis by (simp add: add.commute le_diff_conv2)
  next
    case False
    with 2 show ?thesis by (auto split: if_splits)
  qed
qed simp

lemma tag_of_cases:
  assumes "tag_of (c # s) = Some (stop, e)"
  obtains d t where "s = d # t" "tag_ok (Tag [c, d] inner stop)" "e \<longleftrightarrow> [c, d] \<noteq> lit ''{#''" "length stop = 2"
proof -
  from assms have "\<exists>d t. s = d # t \<and> tag_ok (Tag [c, d] inner stop) \<and> (e \<longleftrightarrow> [c, d] \<noteq> lit ''{#'') \<and> length stop = 2"
    by (auto simp: tag_of_def starts_with_iff tag_ok_def split: if_splits)
  then show ?thesis using that by blast
qed

lemma tag_split:
  assumes "tag_of (c # s) = Some (stop, e)" "find_delimiter stop (drop 1 s) = Some n"
  shows "c # s = take 2 (c # s) @ take n (drop 1 s) @ stop @ drop (n + 3) s"
proof -
  from assms(1) obtain d u where d: "s = d # u" "length stop = 2"
    by (rule tag_of_cases [where inner = "[]"])
  from find_delimiter_at [OF assms(2)] obtain r where r: "drop n u = stop @ r" by (auto simp: starts_with_iff d(1))
  have "r = drop (length stop) (drop n u)" by (simp add: r)
  also have "\<dots> = drop (n + 3) s" by (simp add: d eval_nat_numeral)
  finally show ?thesis using append_take_drop_id [of n u] by (simp add: r d(1) eval_nat_numeral)
qed

lemma template_pieces: "\<exists>ps. pieces_of A s ps"
proof (induction A s rule: template_from.induct)
  case (1 A)
  have "pieces_of A [] []" by (simp add: pieces_of_def)
  then show ?case ..
next
  case (2 A c s)
  have plain: "\<exists>ps. pieces_of A (c # s) ps"
    if "fst (template_from A (c # s)) = c # fst (template_from A s)" "\<exists>ps. pieces_of A s ps"
  proof -
    from that(2) obtain ps where "pieces_of A s ps" by blast
    with that(1) have "pieces_of A (c # s) (Plain [c] # ps)"
      by (auto simp: pieces_of_def raw_def rewritten_def tag_ok_def simp del: template_from.simps)
    then show ?thesis ..
  qed
  show ?case
  proof (cases "c = ch CHR ''{'' \<and> tag_of (c # s) \<noteq> None")
    case False
    then show ?thesis
    proof (cases "c = ch CHR ''{''")
      case True
      with False have none: "tag_of (c # s) = None" by blast
      with True "2.IH"(2) show ?thesis by (intro plain) (simp_all add: split_beta)
    next
      case no: False
      with "2.IH"(1) show ?thesis by (intro plain) (auto simp: split_beta)
    qed
  next
    case True
    then obtain stop e where t: "tag_of (c # s) = Some (stop, e)" by (cases "tag_of (c # s)") auto
    show ?thesis
    proof (cases "find_delimiter stop (drop 1 s)")
      case None
      with True t have "pieces_of A (c # s) [Plain (c # s)]" by (simp add: pieces_of_def raw_def rewritten_def tag_ok_def)
      then show ?thesis ..
    next
      case (Some n)
      define inner where "inner = take n (drop 1 s)"
      from t obtain d u where d: "s = d # u" "tag_ok (Tag [c, d] inner stop)" "e \<longleftrightarrow> [c, d] \<noteq> lit ''{#''" "length stop = 2"
        by (rule tag_of_cases)
      have s: "c # s = [c, d] @ inner @ stop @ drop (n + 3) s"
        using tag_split [OF t Some] d(1) by (simp add: inner_def)
      have out: "fst (template_from A (c # s)) = [c, d] @ (if e then compat_python_expression A inner else inner) @ stop
          @ fst (template_from A (drop (n + 3) s))"
        using True t Some d(1) unfolding inner_def
        by (simp add: Let_def split_beta compat_python_expression_def split: option.split)
      obtain ps where "pieces_of A (drop (n + 3) s) ps"
        using "2.IH"(3) [OF _ t refl Some refl refl] True by auto
      then have "pieces_of A (c # s) (Tag [c, d] inner stop # ps)"
        using s out d(2,3) by (auto simp: pieces_of_def raw_def rewritten_def)
      then show ?thesis ..
    qed
  qed
qed

section \<open>Nothing to rewrite in a template\<close>

lemma replace_lists_same: "replace_lists W s = (r, False) \<Longrightarrow> r = s"
proof (induction W s arbitrary: r rule: replace_lists.induct)
  case (2 W c s)
  show ?case
  proof (cases "match_set_list W (c # s)")
    case None
    obtain o' b where o': "replace_lists W s = (o', b)" by fastforce
    have "replace_lists W (c # s) = (c # o', b)" by (simp only: replace_lists.simps(2) None o' option.case Let_def prod.case)
    then show ?thesis using "2.IH"(1) [OF None, of o'] "2.prems" o' by auto
  next
    case (Some m)
    obtain o' b where o': "replace_lists W (sl_rest m) = (o', b)" by fastforce
    have "replace_lists W (c # s) = (set_list_call m @ o', True)"
      by (simp only: replace_lists.simps(2) Some o' option.case Let_def prod.case)
    then show ?thesis using "2.prems" by simp
  qed
qed simp

lemma template_from_same: "template_from A s = (r, False) \<Longrightarrow> r = s"
proof (induction A s arbitrary: r rule: template_from.induct)
  case (2 A c s)
  show ?case
  proof (cases "c = ch CHR ''{'' \<and> tag_of (c # s) \<noteq> None")
    case False
    then have none: "c = ch CHR ''{'' \<Longrightarrow> tag_of (c # s) = None" by blast
    with "2.prems" have "snd (template_from A s) = False" "r = c # fst (template_from A s)"
      by (cases "c = ch CHR ''{''"; simp add: split_beta)+
    then show ?thesis using "2.IH"(1,2) none by (metis prod.collapse)
  next
    case True
    then obtain stop e where t: "tag_of (c # s) = Some (stop, e)" by (cases "tag_of (c # s)") auto
    show ?thesis
    proof (cases "find_delimiter stop (drop 1 s)")
      case None
      with "2.prems" True t show ?thesis by simp
    next
      case (Some n)
      with "2.prems" True t have out: "snd (template_from A (drop (n + 3) s)) = False"
        "r = take 2 (c # s) @ take n (drop 1 s) @ stop @ fst (template_from A (drop (n + 3) s))"
        by (auto simp: Let_def split_beta split: if_splits)
      then have "fst (template_from A (drop (n + 3) s)) = drop (n + 3) s"
        using "2.IH"(3) [OF _ t refl Some refl refl] True by (metis prod.collapse)
      with out(2) tag_split [OF t Some] show ?thesis by simp
    qed
  qed
qed simp

end
