(* ===== verification/Identity.thy ===== *)
theory Identity
  imports Login
begin

text \<open>
  Logins through somebody else: OpenID Connect and the headers of a trusted proxy
  (\<open>crates/qdrust-server/src/oidc.rs\<close>, \<open>header_auth.rs\<close>, the handlers in \<open>api.rs\<close>, the statements in
  \<open>store.rs\<close>).  The audit log is left out; what the provider answers is an argument.
\<close>

section \<open>Rows and claims\<close>

record external_identity =
  ei_id :: int
  ei_user :: int
  ei_provider :: ustr
  ei_issuer :: ustr
  ei_subject :: ustr
  ei_email :: "ustr option"
  ei_created_at :: int
  ei_last_login_at :: int

record external_claim =
  xc_provider :: ustr
  xc_issuer :: ustr
  xc_subject :: ustr
  xc_email :: "ustr option"
  xc_username_hint :: "ustr option"
  xc_groups :: "ustr list"

record resolution =
  rs_user :: "user option"
  rs_created :: bool
  rs_refusal :: "ustr option"

record oidc_login_state =
  os_state_hash :: ustr
  os_nonce_hash :: ustr
  os_verifier_hash :: ustr
  os_redirect_uri :: ustr
  os_created_at :: int
  os_expires_at :: int

text \<open>The site with the two tables of external logins.\<close>

record idp =
  idp_site :: site
  identities :: "external_identity list"
  next_identity :: int
  login_states :: "oidc_login_state list"

abbreviation idp_acc :: "idp \<Rightarrow> accounts" where
  "idp_acc i \<equiv> site_acc (idp_site i)"

section \<open>Resolving an identity\<close>

definition UNUSABLE_PASSWORD_HASH :: ustr where
  "UNUSABLE_PASSWORD_HASH = lit ''$argon2id$v=19$m=0,t=0,p=0$unusable-sentinel$unusable-sentinel-external-user''"

definition groups_overlap :: "ustr list \<Rightarrow> ustr list \<Rightarrow> bool" where
  "groups_overlap claim_groups admin_groups \<longleftrightarrow>
     list_ex (\<lambda>wanted. let w = trim wanted in w \<noteq> [] \<and> list_ex (\<lambda>g. trim g = w) claim_groups) admin_groups"

definition linked_to :: "ustr \<Rightarrow> ustr \<Rightarrow> ustr \<Rightarrow> external_identity \<Rightarrow> bool" where
  "linked_to provider issuer subject e \<longleftrightarrow>
     ei_provider e = trim provider \<and> ei_issuer e = trim issuer \<and> ei_subject e = subject"

definition external_identity_for :: "ustr \<Rightarrow> ustr \<Rightarrow> ustr \<Rightarrow> idp \<Rightarrow> external_identity option" where
  "external_identity_for provider issuer subject i = find (linked_to provider issuer subject) (identities i)"

definition user_id_by_email :: "(ustr \<Rightarrow> ustr) \<Rightarrow> ustr \<Rightarrow> accounts \<Rightarrow> int option" where
  "user_id_by_email lc addr a =
     (let normalized = lc (trim addr) in
      if normalized = [] then None else map_option user_id (find (\<lambda>u. email u = Some normalized) (users a)))"

definition username_exists :: "(ustr \<Rightarrow> ustr \<Rightarrow> bool) \<Rightarrow> ustr \<Rightarrow> accounts \<Rightarrow> bool" where
  "username_exists eq name a \<longleftrightarrow> find (\<lambda>u. eq (username u) name) (users a) \<noteq> None"

definition name_char :: "nat \<Rightarrow> bool" where
  "name_char c \<longleftrightarrow> is_ascii_digit c \<or> is_ascii_alpha c \<or> c = ch CHR ''_'' \<or> c = ch CHR ''-''"

definition username_base :: "ustr option \<Rightarrow> ustr \<Rightarrow> ustr" where
  "username_base hint subject =
     (let sanitized = trim_by (\<lambda>c. c = ch CHR ''_'' \<or> c = ch CHR ''-'')
          (filter name_char (trim (case hint of Some h \<Rightarrow> h | None \<Rightarrow> subject)))
      in if 3 \<le> length sanitized then take (min (length sanitized) 48) sanitized
         else lit ''user_'' @ (if sanitized = [] then lit ''ext'' else sanitized))"

definition unique_external_username :: "(ustr \<Rightarrow> ustr \<Rightarrow> bool) \<Rightarrow> ustr option \<Rightarrow> ustr \<Rightarrow> accounts \<Rightarrow> error + ustr" where
  "unique_external_username eq hint subject a =
     (let base = username_base hint subject in
      if username_exists eq base a then
        (case find (\<lambda>n. \<not> username_exists eq (base @ nat_to_str n) a) [2..<10000] of
           Some n \<Rightarrow> Inr (base @ nat_to_str n)
         | None \<Rightarrow> Inl [lit ''unable to allocate a unique external username''])
      else Inr base)"

definition refused :: "ustr \<Rightarrow> resolution" where
  "refused reason = \<lparr>rs_user = None, rs_created = False, rs_refusal = Some reason\<rparr>"

definition external_email :: "auth_env \<Rightarrow> external_claim \<Rightarrow> ustr option" where
  "external_email E claim = map_option (\<lambda>e. lower E (trim e)) (xc_email claim)"

definition external_user :: "auth_env \<Rightarrow> int \<Rightarrow> external_claim \<Rightarrow> ustr \<Rightarrow> ustr \<Rightarrow> int \<Rightarrow> user_row" where
  "external_user E now claim name r uid =
     (new_user uid now name UNUSABLE_PASSWORD_HASH r)\<lparr>email := external_email E claim, email_verified := True\<rparr>"

definition external_link :: "auth_env \<Rightarrow> int \<Rightarrow> external_claim \<Rightarrow> int \<Rightarrow> int \<Rightarrow> external_identity" where
  "external_link E now claim uid eid = \<lparr>ei_id = eid, ei_user = uid, ei_provider = trim (xc_provider claim),
     ei_issuer = trim (xc_issuer claim), ei_subject = xc_subject claim, ei_email = external_email E claim,
     ei_created_at = now, ei_last_login_at = now\<rparr>"

text \<open>The transaction that adds both rows: nothing is kept when one of them is refused.\<close>

definition add_external_user :: "auth_env \<Rightarrow> int \<Rightarrow> external_claim \<Rightarrow> ustr \<Rightarrow> ustr \<Rightarrow> idp \<Rightarrow> (error + int) \<times> idp" where
  "add_external_user E now claim name r i =
     (let a = idp_acc i; uid = next_user a in
      if list_ex (\<lambda>w. nocase E (username w) name) (users a)
      then (Inl [lit ''failed to provision external user: UNIQUE constraint failed''], i)
      else if list_ex (linked_to (xc_provider claim) (xc_issuer claim) (xc_subject claim)) (identities i)
      then (Inl [lit ''failed to link external identity: UNIQUE constraint failed''], i)
      else (Inr uid,
        i\<lparr>idp_site := put_acc (a\<lparr>users := users a @ [external_user E now claim name r uid], next_user := uid + 1\<rparr>) (idp_site i),
          identities := identities i @ [external_link E now claim uid (next_identity i)], next_identity := next_identity i + 1\<rparr>))"

definition provision_external_user :: "auth_env \<Rightarrow> int \<Rightarrow> external_claim \<Rightarrow> bool \<Rightarrow> ustr \<Rightarrow> ustr list \<Rightarrow> idp
    \<Rightarrow> (error + resolution) \<times> idp" where
  "provision_external_user E now claim auto_create default_role admin_groups i =
     (if \<not> auto_create then (Inr (refused (lit ''provisioning_disabled'')), i)
      else
        let r = (if groups_overlap (xc_groups claim) admin_groups then lit ''admin'' else default_role) in
        (case unique_external_username (nocase E) (xc_username_hint claim) (xc_subject claim) (idp_acc i) of
          Inl e \<Rightarrow> (Inl e, i)
        | Inr name \<Rightarrow> (case add_external_user E now claim name r i of
            (Inl e, i) \<Rightarrow> (Inl e, i)
          | (Inr uid, i) \<Rightarrow> (case get_user uid (idp_acc i) of
              None \<Rightarrow> (Inl [lit ''provisioned user disappeared''], i)
            | Some w \<Rightarrow> (Inr \<lparr>rs_user = Some w, rs_created = True, rs_refusal = None\<rparr>, i)))))"

definition touch_external_identity :: "int \<Rightarrow> int \<Rightarrow> idp \<Rightarrow> idp" where
  "touch_external_identity now eid i =
     i\<lparr>identities := update_where (\<lambda>e. ei_id e = eid) (\<lambda>e. e\<lparr>ei_last_login_at := now\<rparr>) (identities i)\<rparr>"

definition resolve_external_identity :: "auth_env \<Rightarrow> int \<Rightarrow> external_claim \<Rightarrow> bool \<Rightarrow> ustr \<Rightarrow> ustr list \<Rightarrow> idp
    \<Rightarrow> (error + resolution) \<times> idp" where
  "resolve_external_identity E now claim auto_create default_role admin_groups i =
     (if default_role \<noteq> lit ''admin'' \<and> default_role \<noteq> lit ''user'' then (Inl [lit ''invalid default role''], i)
      else case external_identity_for (xc_provider claim) (xc_issuer claim) (xc_subject claim) i of
        Some e \<Rightarrow> (case get_user (ei_user e) (idp_acc i) of
            None \<Rightarrow> provision_external_user E now claim auto_create default_role admin_groups i
          | Some u \<Rightarrow>
              if user_disabled u then (Inr (refused (lit ''user_disabled'')), i)
              else (Inr \<lparr>rs_user = Some u, rs_created = False, rs_refusal = None\<rparr>, touch_external_identity now (ei_id e) i))
      | None \<Rightarrow>
          if (case xc_email claim of None \<Rightarrow> False | Some addr \<Rightarrow> user_id_by_email (lower E) addr (idp_acc i) \<noteq> None)
          then (Inr (refused (lit ''external_identity_conflict'')), i)
          else provision_external_user E now claim auto_create default_role admin_groups i)"

section \<open>Login states\<close>

definition insert_oidc_login_state :: "int \<Rightarrow> ustr \<Rightarrow> ustr \<Rightarrow> ustr \<Rightarrow> ustr \<Rightarrow> int \<Rightarrow> idp \<Rightarrow> (error + unit) \<times> idp" where
  "insert_oidc_login_state now state_hash nonce_hash verifier redirect_uri expires_at i =
     (if list_ex (\<lambda>r. os_state_hash r = state_hash) (login_states i) then (Inl [lit ''UNIQUE constraint failed''], i)
      else (Inr (), i\<lparr>login_states := login_states i @ [\<lparr>os_state_hash = state_hash, os_nonce_hash = nonce_hash,
        os_verifier_hash = verifier, os_redirect_uri = redirect_uri, os_created_at = now, os_expires_at = expires_at\<rparr>]\<rparr>))"

definition take_oidc_login_state :: "int \<Rightarrow> ustr \<Rightarrow> idp \<Rightarrow> oidc_login_state option \<times> idp" where
  "take_oidc_login_state now state_hash i = (case find (\<lambda>r. os_state_hash r = state_hash) (login_states i) of
      None \<Rightarrow> (None, i)
    | Some r \<Rightarrow> (if os_expires_at r \<le> now then None else Some r,
        i\<lparr>login_states := delete_where (\<lambda>r. os_state_hash r = state_hash) (login_states i)\<rparr>))"

definition purge_expired_oidc_login_states :: "int \<Rightarrow> idp \<Rightarrow> nat \<times> idp" where
  "purge_expired_oidc_login_states now i = (affected (\<lambda>r. os_expires_at r \<le> now) (login_states i),
     i\<lparr>login_states := delete_where (\<lambda>r. os_expires_at r \<le> now) (login_states i)\<rparr>)"

section \<open>Headers of a trusted proxy\<close>

record 'ip header_config =
  hc_user_header :: ustr
  hc_email_header :: ustr
  hc_groups_header :: ustr
  hc_groups_separator :: ustr
  hc_trusted_proxies :: "'ip list"
  hc_trusted_proxy_required :: bool
  hc_auto_create_users :: bool
  hc_default_role :: ustr
  hc_admin_groups :: "ustr list"

record header_identity =
  hi_username :: ustr
  hi_email :: "ustr option"
  hi_groups :: "ustr list"

definition parse_groups :: "ustr \<Rightarrow> ustr \<Rightarrow> ustr list" where
  "parse_groups v separator = filter (\<lambda>s. s \<noteq> []) (map trim (split_str separator v))"

definition source_is_trusted :: "'ip \<Rightarrow> 'ip list \<Rightarrow> bool" where
  "source_is_trusted remote trusted \<longleftrightarrow> remote \<in> set trusted"

text \<open>\<open>HN\<close> reads a header name as \<open>HeaderName::from_bytes\<close> does: lower case, nothing for a text that is no name.\<close>

definition header_value :: "(ustr \<Rightarrow> ustr option) \<Rightarrow> request_headers \<Rightarrow> ustr \<Rightarrow> ustr option" where
  "header_value HN hs name = Option.bind (HN name) (map_of hs)"

definition extract_header_identity :: "(ustr \<Rightarrow> ustr option) \<Rightarrow> request_headers \<Rightarrow> 'ip header_config \<Rightarrow> header_identity option" where
  "extract_header_identity HN hs cfg = Option.bind (header_value HN hs (hc_user_header cfg)) (\<lambda>v.
     let name = trim v in
     if name = [] then None
     else Some \<lparr>hi_username = name,
       hi_email = (case header_value HN hs (hc_email_header cfg) of
           Some s \<Rightarrow> if trim s = [] then None else Some (trim s) | None \<Rightarrow> None),
       hi_groups = (case header_value HN hs (hc_groups_header cfg) of
           Some v \<Rightarrow> parse_groups v (hc_groups_separator cfg) | None \<Rightarrow> [])\<rparr>)"

definition strip_identity_headers :: "(ustr \<Rightarrow> ustr option) \<Rightarrow> 'ip header_config \<Rightarrow> request_headers \<Rightarrow> request_headers" where
  "strip_identity_headers HN cfg hs =
     fold (\<lambda>name hs. case HN name of Some n \<Rightarrow> filter (\<lambda>(k, _). k \<noteq> n) hs | None \<Rightarrow> hs)
       [hc_user_header cfg, hc_email_header cfg, hc_groups_header cfg] hs"

text \<open>The revocation of the old session is not looked at.\<close>

definition establish_header_session :: "auth_env \<Rightarrow> int \<Rightarrow> ustr \<Rightarrow> ustr \<Rightarrow> user \<Rightarrow> ustr option \<Rightarrow> idp
    \<Rightarrow> (error + issued_session) \<times> idp" where
  "establish_header_session E now tok csrf u old i =
     (let i = (case old of None \<Rightarrow> i
        | Some t \<Rightarrow> i\<lparr>idp_site := (idp_site i)\<lparr>site_app := snd (app_revoke_session (token_hash E) (redis_up E) t (site_app (idp_site i)))\<rparr>\<rparr>);
          (r, a) = create_session (token_hash E) now (user_id u) (session_ttl E) tok csrf (idp_acc i)
      in (r, i\<lparr>idp_site := put_acc a (idp_site i)\<rparr>))"

text \<open>The session is appended to the first cookie header, which replaces all of them.\<close>

definition inject_session_cookies :: "issued_session \<Rightarrow> request_headers \<Rightarrow> request_headers" where
  "inject_session_cookies issued hs =
     (let combined = SESSION_COOKIE @ lit ''='' @ session_token issued @ lit ''; '' @ CSRF_COOKIE @ lit ''='' @ csrf_token issued;
          merged = (case map_of hs (lit ''cookie'') of
              Some existing \<Rightarrow> if existing = [] then combined else existing @ lit ''; '' @ combined
            | None \<Rightarrow> combined)
      in (lit ''cookie'', merged) # filter (\<lambda>(k, _). k \<noteq> lit ''cookie'') hs)"

definition header_claim :: "header_identity \<Rightarrow> external_claim" where
  "header_claim h = \<lparr>xc_provider = lit ''header'', xc_issuer = lit ''header'', xc_subject = hi_username h, xc_email = hi_email h,
     xc_username_hint = Some (hi_username h), xc_groups = hi_groups h\<rparr>"

definition idp_session :: "auth_env \<Rightarrow> int \<Rightarrow> request_headers \<Rightarrow> idp \<Rightarrow> (api_error + auth_origin \<times> authenticated_session) \<times> idp" where
  "idp_session E now hs i =
     (let (r, st) = require_session (token_hash E) (session_ttl E) (redis_up E) now hs (site_app (idp_site i))
      in (r, i\<lparr>idp_site := (idp_site i)\<lparr>site_app := st\<rparr>\<rparr>))"

text \<open>
  \<open>handler\<close> is the rest of the server: it gets the headers the middleware leaves.  The answer carries the
  session whose cookies are set with it.
\<close>

definition header_auth_middleware :: "auth_env \<Rightarrow> (ustr \<Rightarrow> ustr option) \<Rightarrow> int \<Rightarrow> ustr \<Rightarrow> ustr \<Rightarrow> 'ip header_config option
    \<Rightarrow> 'ip option \<Rightarrow> ustr \<Rightarrow> request_headers \<Rightarrow> (request_headers \<Rightarrow> idp \<Rightarrow> 'r \<times> idp) \<Rightarrow> idp
    \<Rightarrow> (api_error + 'r \<times> issued_session option) \<times> idp" where
  "header_auth_middleware E HN now tok csrf config remote path hs handler i =
     (let run = (\<lambda>hs issued i. let (r, i) = handler hs i in (Inr (r, issued), i)) in
      case config of None \<Rightarrow> run hs None i
      | Some cfg \<Rightarrow>
        if starts_with (lit ''/api/v1/auth'') path then run hs None i
        else case extract_header_identity HN hs cfg of None \<Rightarrow> run hs None i
        | Some h \<Rightarrow>
          if \<not> (case remote of None \<Rightarrow> False | Some ip \<Rightarrow> source_is_trusted ip (hc_trusted_proxies cfg)) then
            if hc_trusted_proxy_required cfg then (Inl (Forbidden (lit ''untrusted_proxy_header'')), i)
            else run (strip_identity_headers HN cfg hs) None i
          else
            let (existing, i) = idp_session E now hs i;
                existing = (case existing of Inl _ \<Rightarrow> None | Inr x \<Rightarrow> Some x);
                (r, i) = resolve_external_identity E now (header_claim h) (hc_auto_create_users cfg) (hc_default_role cfg) (hc_admin_groups cfg) i
            in case r of Inl _ \<Rightarrow> (Inl (Internal [lit ''header auth resolution failed'']), i)
               | Inr res \<Rightarrow> (case rs_user res of
                   Some u \<Rightarrow>
                     if (case existing of None \<Rightarrow> False | Some (_, s) \<Rightarrow> user_id (auth_user s) = user_id u) then run hs None i
                     else (case establish_header_session E now tok csrf u (map_option (\<lambda>(o', _). origin_token o') existing) i of
                         (Inl _, i) \<Rightarrow> (Inl (Internal [lit ''header auth session creation failed'']), i)
                       | (Inr issued, i) \<Rightarrow> run (inject_session_cookies issued hs) (Some issued) i)
                 | None \<Rightarrow>
                     if existing \<noteq> None then run hs None i
                     else (Inl (Forbidden (lit ''header_identity_refused'')), i)))"

section \<open>OpenID Connect\<close>

text \<open>
  The configuration, and what the code has of the library: digests, the authorization URL, the exchange of
  a code for a verified ID token (with the claims that are read typed and the payload that is read again),
  and the user information of the provider, asked with the access token.
\<close>

record oidc_config =
  oc_issuer :: ustr
  oc_client_secret :: ustr
  oc_redirect_uri :: ustr
  oc_scopes :: ustr
  oc_auto_create_users :: bool
  oc_default_role :: ustr
  oc_admin_groups :: "ustr list"
  oc_groups_claim :: ustr

record user_info_profile =
  ui_preferred_username :: "ustr option"
  ui_nickname :: "ustr option"
  ui_name :: "ustr option"
  ui_email :: "ustr option"

record id_claims =
  ic_subject :: ustr
  ic_preferred_username :: "ustr option"
  ic_email :: "ustr option"
  ic_payload :: "json option"

record oidc_lib =
  ol_digest :: "ustr \<Rightarrow> ustr"
  ol_hash :: "ustr \<Rightarrow> ustr"
  ol_client :: "ustr \<Rightarrow> error + unit"
  ol_authorize_url :: "ustr \<Rightarrow> ustr \<Rightarrow> ustr \<Rightarrow> ustr list \<Rightarrow> ustr"
  ol_exchange :: "ustr \<Rightarrow> ustr \<Rightarrow> ustr \<Rightarrow> error + id_claims"
  ol_user_info :: "ustr \<Rightarrow> user_info_profile option"

definition OIDC_STATE_COOKIE :: ustr where "OIDC_STATE_COOKIE = lit ''qd_oidc_state''"
definition OIDC_CALLBACK_PATH :: ustr where "OIDC_CALLBACK_PATH = lit ''/api/v1/auth/oidc/callback''"
definition OIDC_STATE_TTL_SECS :: int where "OIDC_STATE_TTL_SECS = 300"

definition derive_pkce_verifier :: "oidc_lib \<Rightarrow> ustr \<Rightarrow> ustr \<Rightarrow> ustr" where
  "derive_pkce_verifier L st secret = ol_digest L (st @ secret)"

definition derive_nonce :: "oidc_lib \<Rightarrow> ustr \<Rightarrow> ustr \<Rightarrow> ustr" where
  "derive_nonce L st secret = ol_digest L (lit ''nonce'' @ st @ secret)"

definition parse_scopes :: "ustr \<Rightarrow> ustr list" where
  "parse_scopes s = filter (\<lambda>p. p \<noteq> []) (split_by (\<lambda>c. is_ws c \<or> c = ch CHR '','' \<or> c = ch CHR '';'') s)"

text \<open>The scopes passed on: each once, and never \<open>openid\<close>, which the library adds.\<close>

fun extra_scopes :: "ustr list \<Rightarrow> ustr list \<Rightarrow> ustr list" where
  "extra_scopes seen [] = []"
| "extra_scopes seen (s # ss) = (if s = lit ''openid'' \<or> s \<in> set seen then extra_scopes seen ss else s # extra_scopes (s # seen) ss)"

definition groups_from_payload :: "json option \<Rightarrow> ustr \<Rightarrow> ustr list" where
  "groups_from_payload payload claim = (case Option.bind payload (jget claim) of
      Some (JArr items) \<Rightarrow> filter (\<lambda>s. s \<noteq> []) (map trim (List.map_filter as_str items))
    | Some (JStr s) \<Rightarrow> filter (\<lambda>s. s \<noteq> []) (map trim (split_by (\<lambda>c. c = ch CHR '','') s))
    | _ \<Rightarrow> [])"

definition is_hex :: "nat \<Rightarrow> bool" where
  "is_hex c \<longleftrightarrow> is_ascii_digit c \<or> (65 \<le> c \<and> c \<le> 70) \<or> (97 \<le> c \<and> c \<le> 102)"

definition looks_like_opaque_id :: "ustr \<Rightarrow> bool" where
  "looks_like_opaque_id s =
     (let t = trim s in
      t = [] \<or>
      (let long_hex = (16 \<le> byte_len t \<and> list_all is_hex t);
           parts = split_by (\<lambda>c. c = ch CHR ''-'') t;
           uuid_form = (length parts = 5 \<and> list_all (\<lambda>p. p \<noteq> [] \<and> list_all is_hex p) parts \<and> byte_len t = 36);
           long_digits = (8 \<le> byte_len t \<and> list_all is_ascii_digit t)
       in long_hex \<or> uuid_form \<or> long_digits))"

definition preferred_name :: "ustr \<Rightarrow> ustr option" where
  "preferred_name s = (let v = trim s in if v = [] \<or> looks_like_opaque_id v then None else Some v)"

text \<open>The set of values seen matters for nothing: the first value that is taken ends the search.\<close>

definition username_hint_from_candidates :: "ustr option \<Rightarrow> ustr option \<Rightarrow> ustr option \<Rightarrow> ustr option \<Rightarrow> ustr option" where
  "username_hint_from_candidates preferred nickname name addr =
     (case List.map_filter (\<lambda>c. Option.bind c preferred_name) [preferred, nickname, name] of
        v # _ \<Rightarrow> Some v
      | [] \<Rightarrow> Option.bind addr (\<lambda>e. preferred_name (hd (split_by (\<lambda>c. c = ch CHR ''@'') e))))"

definition pick_claim :: "json option \<Rightarrow> ustr \<Rightarrow> ustr option" where
  "pick_claim payload key =
     (let text_of = (\<lambda>s. if trim s = [] then None else Some (trim s)) in
      case Option.bind payload (jget key) of
        Some (JStr s) \<Rightarrow> text_of s
      | Some (JObj m) \<Rightarrow> Option.bind (Option.bind (map_of m (lit ''value'')) as_str) text_of
      | _ \<Rightarrow> None)"

definition username_hint_from_payload :: "ustr option \<Rightarrow> json option \<Rightarrow> ustr option" where
  "username_hint_from_payload typed payload =
     username_hint_from_candidates
       (case typed of Some t \<Rightarrow> Some t | None \<Rightarrow> pick_claim payload (lit ''preferred_username''))
       (pick_claim payload (lit ''nickname'')) (pick_claim payload (lit ''name'')) (pick_claim payload (lit ''email''))"

definition username_fallback_from_subject :: "ustr \<Rightarrow> ustr" where
  "username_fallback_from_subject subject =
     (let cleaned = filter (\<lambda>c. is_ascii_digit c \<or> is_ascii_alpha c) (trim subject)
      in if cleaned = [] then lit ''user'' else lit ''user-'' @ take 8 cleaned)"

text \<open>The fields of the user information, without blanks around them and without empty ones.\<close>

definition fetch_user_info :: "oidc_lib \<Rightarrow> ustr \<Rightarrow> user_info_profile option" where
  "fetch_user_info L subject =
     (let tidy = (\<lambda>f. case f of Some s \<Rightarrow> if trim s = [] then None else Some (trim s) | None \<Rightarrow> None) in
      map_option (\<lambda>p. \<lparr>ui_preferred_username = tidy (ui_preferred_username p), ui_nickname = tidy (ui_nickname p),
        ui_name = tidy (ui_name p), ui_email = tidy (ui_email p)\<rparr>) (ol_user_info L subject))"

text \<open>The address of the callback; \<open>scheme\<close> and \<open>authority\<close> are those of the request, if it names them.\<close>

definition derive_redirect_uri :: "ustr \<Rightarrow> request_headers \<Rightarrow> ustr option \<Rightarrow> ustr option \<Rightarrow> ustr" where
  "derive_redirect_uri base_path hs scheme authority =
     (let or_else = (\<lambda>a b. case a of Some s \<Rightarrow> if s = [] then b else Some s | None \<Rightarrow> b);
          sch = (case or_else (map_of hs (lit ''x-forwarded-proto'')) scheme of Some s \<Rightarrow> s | None \<Rightarrow> lit ''https'');
          host = (case or_else (map_of hs (lit ''x-forwarded-host'')) authority of Some h \<Rightarrow> h | None \<Rightarrow> lit ''localhost'')
      in sch @ lit ''://'' @ host @ trim_end_by (\<lambda>c. c = ch CHR ''/'') base_path @ OIDC_CALLBACK_PATH)"

definition effective_redirect_uri :: "oidc_config \<Rightarrow> ustr \<Rightarrow> request_headers \<Rightarrow> ustr option \<Rightarrow> ustr option \<Rightarrow> ustr" where
  "effective_redirect_uri C base_path hs scheme authority =
     (let configured = trim (oc_redirect_uri C) in
      if configured \<noteq> [] then configured else derive_redirect_uri base_path hs scheme authority)"

text \<open>The answer: the address redirected to, and the raw state for the cookie.\<close>

definition oidc_login_start :: "oidc_config \<Rightarrow> oidc_lib \<Rightarrow> int \<Rightarrow> ustr \<Rightarrow> ustr \<Rightarrow> request_headers \<Rightarrow> ustr option \<Rightarrow> ustr option \<Rightarrow> idp
    \<Rightarrow> (api_error + ustr \<times> ustr) \<times> idp" where
  "oidc_login_start C L now fresh base_path hs scheme authority i =
     (if trim (oc_issuer C) = [] then (Inl (NotFound (lit ''oidc_not_configured'')), i)
      else
        let redirect_uri = effective_redirect_uri C base_path hs scheme authority in
        (case ol_client L redirect_uri of Inl e \<Rightarrow> (Inl (Internal e), i)
         | Inr _ \<Rightarrow>
           let verifier = derive_pkce_verifier L fresh (oc_client_secret C); nonce = derive_nonce L fresh (oc_client_secret C) in
           (case insert_oidc_login_state now (ol_hash L fresh) (ol_hash L nonce) (ol_hash L verifier) redirect_uri
                (now + OIDC_STATE_TTL_SECS) i of
              (Inl e, i) \<Rightarrow> (Inl (Internal e), i)
            | (Inr _, i) \<Rightarrow>
                (Inr (ol_authorize_url L fresh nonce verifier (extra_scopes [] (parse_scopes (oc_scopes C))), fresh), i))))"

definition oidc_callback_redirect :: "ustr \<Rightarrow> ustr option \<Rightarrow> ustr" where
  "oidc_callback_redirect base_path reason =
     trim_end_by (\<lambda>c. c = ch CHR ''/'') base_path @ lit ''/'' @ (case reason of Some code \<Rightarrow> lit ''?login_error='' @ code | None \<Rightarrow> [])"

text \<open>The claim made of a verified ID token and, where it says too little, of the user information.\<close>

definition oidc_claim :: "oidc_config \<Rightarrow> oidc_lib \<Rightarrow> id_claims \<Rightarrow> external_claim" where
  "oidc_claim C L c =
     (let hint = username_hint_from_payload (ic_preferred_username c) (ic_payload c);
          profile = (if hint = None \<or> ic_email c = None then fetch_user_info L (ic_subject c) else None);
          addr = (case (ic_email c, profile) of (None, Some p) \<Rightarrow> ui_email p | (e, _) \<Rightarrow> e);
          hint = (case (hint, profile) of
              (None, Some p) \<Rightarrow> username_hint_from_candidates (ui_preferred_username p) (ui_nickname p) (ui_name p) (ui_email p)
            | (h, _) \<Rightarrow> h);
          hint = (case hint of None \<Rightarrow> username_fallback_from_subject (ic_subject c) | Some h \<Rightarrow> h)
      in \<lparr>xc_provider = lit ''oidc'', xc_issuer = oc_issuer C, xc_subject = ic_subject c, xc_email = addr,
        xc_username_hint = Some hint, xc_groups = groups_from_payload (ic_payload c) (oc_groups_claim C)\<rparr>)"

text \<open>What follows once the state is taken: integrity, exchange, resolution, session.\<close>

definition oidc_complete :: "auth_env \<Rightarrow> oidc_config \<Rightarrow> oidc_lib \<Rightarrow> int \<Rightarrow> ustr \<Rightarrow> ustr \<Rightarrow> ustr \<Rightarrow> ustr \<Rightarrow> ustr \<Rightarrow> ustr
    \<Rightarrow> oidc_login_state \<Rightarrow> idp \<Rightarrow> (api_error + ustr \<times> issued_session option) \<times> idp" where
  "oidc_complete E C L now tok csrf base_path redirect_uri state_param code stored i =
     (let verifier = derive_pkce_verifier L state_param (oc_client_secret C); nonce = derive_nonce L state_param (oc_client_secret C);
          refuse = (\<lambda>code. Inr (oidc_callback_redirect base_path (Some code), None)) in
      if ol_hash L verifier \<noteq> os_verifier_hash stored \<or> ol_hash L nonce \<noteq> os_nonce_hash stored
      then (refuse (lit ''oidc_integrity_failed''), i)
      else if redirect_uri \<noteq> os_redirect_uri stored then (refuse (lit ''oidc_redirect_mismatch''), i)
      else case rbind (ol_client L redirect_uri) (\<lambda>_. ol_exchange L code verifier nonce) of
        Inl e \<Rightarrow> (Inl (Internal e), i)
      | Inr claims \<Rightarrow>
        (case resolve_external_identity E now (oidc_claim C L claims) (oc_auto_create_users C) (oc_default_role C) (oc_admin_groups C) i of
           (Inl e, i) \<Rightarrow> (Inl (Internal e), i)
         | (Inr res, i) \<Rightarrow> (case rs_user res of
             None \<Rightarrow> (refuse (case rs_refusal res of Some reason \<Rightarrow> reason | None \<Rightarrow> lit ''oidc_refused''), i)
           | Some u \<Rightarrow> (case create_session (token_hash E) now (user_id u) (session_ttl E) tok csrf (idp_acc i) of
               (Inl e, a) \<Rightarrow> (Inl (Internal e), i\<lparr>idp_site := put_acc a (idp_site i)\<rparr>)
             | (Inr issued, a) \<Rightarrow> (Inr (oidc_callback_redirect base_path None, Some issued), i\<lparr>idp_site := put_acc a (idp_site i)\<rparr>)))))"

definition oidc_login_callback :: "auth_env \<Rightarrow> oidc_config \<Rightarrow> oidc_lib \<Rightarrow> int \<Rightarrow> ustr \<Rightarrow> ustr \<Rightarrow> ustr \<Rightarrow> request_headers
    \<Rightarrow> ustr option \<Rightarrow> ustr option \<Rightarrow> (ustr \<Rightarrow> ustr option) \<Rightarrow> idp \<Rightarrow> (api_error + ustr \<times> issued_session option) \<times> idp" where
  "oidc_login_callback E C L now tok csrf base_path hs scheme authority params i =
     (let refuse = (\<lambda>code. Inr (oidc_callback_redirect base_path (Some code), None)) in
      if trim (oc_issuer C) = [] then (Inl (NotFound (lit ''oidc_not_configured'')), i)
      else if params (lit ''error'') \<noteq> None then (refuse (lit ''oidc_provider_error''), i)
      else case params (lit ''code'') of None \<Rightarrow> (refuse (lit ''oidc_missing_code''), i)
      | Some code \<Rightarrow>
        (case params (lit ''state'') of None \<Rightarrow> (refuse (lit ''oidc_missing_state''), i)
         | Some state_param \<Rightarrow>
           (case cookie_value hs OIDC_STATE_COOKIE of None \<Rightarrow> (refuse (lit ''oidc_state_cookie_missing''), i)
            | Some cookie_state \<Rightarrow>
              if cookie_state \<noteq> state_param then (refuse (lit ''oidc_state_mismatch''), i)
              else (case take_oidc_login_state now (ol_hash L state_param) i of
                  (None, i) \<Rightarrow> (refuse (lit ''oidc_state_invalid''), i)
                | (Some stored, i) \<Rightarrow> oidc_complete E C L now tok csrf base_path
                    (effective_redirect_uri C base_path hs scheme authority) state_param code stored i))))"

end
