(* ===== verification/IdentityThms.thy ===== *)
theory IdentityThms
  imports Identity LoginThms
begin

text \<open>
  What a login through somebody else can do: to which account it leads, how often a state can be redeemed,
  whose headers are believed.
\<close>

section \<open>The name of a new account\<close>

lemma name_char_not_ws: "name_char c \<Longrightarrow> \<not> is_ws c"
  by (auto simp: name_char_def is_ws_def is_ascii_digit_def is_ascii_alpha_def)

lemma valid_name:
  assumes "list_all name_char s" "3 \<le> length s" "length s \<le> 64"
  shows "validate_username s = Inr ()"
proof -
  from assms have "s \<noteq> []" by auto
  with assms(1) have "trimmed is_ws s"
    using name_char_not_ws by (auto simp: trimmed_def list_all_iff)
  with assms show ?thesis
    by (auto simp: validate_username_def ensure_def name_char_def list_all_iff)
qed

lemma set_trim_by: "set (trim_by P s) \<subseteq> set s"
  by (auto simp: trim_by_def trim_start_by_def trim_end_by_def dest!: set_dropWhileD)

lemma username_base_ok: "list_all name_char (username_base hint subject) \<and> 3 \<le> length (username_base hint subject)
    \<and> length (username_base hint subject) \<le> 60"
proof -
  define t where "t = trim_by (\<lambda>c. c = ch CHR ''_'' \<or> c = ch CHR ''-'')
      (filter name_char (trim (case hint of Some h \<Rightarrow> h | None \<Rightarrow> subject)))"
  have t: "list_all name_char t"
    using set_trim_by [of "\<lambda>c. c = ch CHR ''_'' \<or> c = ch CHR ''-''" "filter name_char (trim (case hint of Some h \<Rightarrow> h | None \<Rightarrow> subject))"]
    by (auto simp: t_def list_all_iff)
  have b: "username_base hint subject = (if 3 \<le> length t then take (min (length t) 48) t
      else lit ''user_'' @ (if t = [] then lit ''ext'' else t))"
    by (simp add: username_base_def t_def Let_def)
  from t show ?thesis unfolding b
    by (auto simp: list_all_iff name_char_def is_ascii_alpha_def dest: in_set_takeD)
qed

lemma unique_external_username_ok:
  assumes "unique_external_username eq hint subject a = Inr name"
  shows "validate_username name = Inr () \<and> \<not> username_exists eq name a"
proof -
  let ?b = "username_base hint subject"
  note b = username_base_ok [of hint subject]
  show ?thesis
  proof (cases "username_exists eq ?b a")
    case False
    with assms have "name = ?b" by (simp add: unique_external_username_def)
    with b False show ?thesis by (auto intro!: valid_name)
  next
    case True
    define xs :: "nat list" where "xs = [2..<10000]"
    note u = assms [unfolded unique_external_username_def Let_def xs_def [symmetric]]
    obtain n where n: "find (\<lambda>n. \<not> username_exists eq (?b @ nat_to_str n) a) xs = Some n" "name = ?b @ nat_to_str n"
      using u True by (auto split: option.splits)
    from found_row [OF n(1)] n(2) have "n \<in> set xs" and free: "\<not> username_exists eq name a" by simp_all
    then have "n \<in> {2..<10000}" unfolding xs_def set_upt by blast
    then have "n < 10 ^ 4" by simp
    from length_nat_to_str [OF _ this] have "length (nat_to_str n) \<le> 4" by simp
    moreover have "list_all name_char (nat_to_str n)"
      using nat_to_str_digits [of n] by (auto simp: all_digits_def list_all_iff name_char_def)
    ultimately show ?thesis using b free n(2) by (auto intro!: valid_name)
  qed
qed

section \<open>Where an external login leads\<close>

lemma find_snoc: "find P xs = None \<Longrightarrow> find P (xs @ [x]) = (if P x then Some x else None)"
  by (induction xs) auto

lemma get_new_user:
  assumes "accounts_ok a" "user_id w = next_user a"
  shows "get_user (next_user a) a = None" "get_user (next_user a) (a\<lparr>users := users a @ [w], next_user := n\<rparr>) = Some (user_of w)"
proof -
  have "find (\<lambda>u. user_id u = next_user a) (users a) = None"
    using assms(1) by (fastforce simp: accounts_ok_def keyed_def find_None_iff)
  then show "get_user (next_user a) a = None" "get_user (next_user a) (a\<lparr>users := users a @ [w], next_user := n\<rparr>) = Some (user_of w)"
    using assms(2) find_snoc [of "\<lambda>u. user_id u = next_user a" "users a" w] by (simp_all add: get_user_def get_user_row_def)
qed

lemma provisioned:
  assumes "provision_external_user E now claim auto_create def adm i = (Inr res, i2)" "rs_user res = Some u" "accounts_ok (idp_acc i)"
  shows "rs_created res \<and> auto_create \<and> get_user (user_id u) (idp_acc i) = None
    \<and> (\<exists>w. user_of w = u \<and> password_hash w = UNUSABLE_PASSWORD_HASH \<and> users (idp_acc i2) = users (idp_acc i) @ [w])
    \<and> role u = (if groups_overlap (xc_groups claim) adm then lit ''admin'' else def)
    \<and> validate_username (username u) = Inr () \<and> \<not> username_exists (nocase E) (username u) (idp_acc i)
    \<and> \<not> list_ex (linked_to (xc_provider claim) (xc_issuer claim) (xc_subject claim)) (identities i)"
proof -
  let ?a = "idp_acc i" and ?r = "if groups_overlap (xc_groups claim) adm then lit ''admin'' else def"
  have auto_create using assms(1,2) by (cases auto_create) (auto simp: provision_external_user_def refused_def)
  obtain name where name: "unique_external_username (nocase E) (xc_username_hint claim) (xc_subject claim) ?a = Inr name"
    using assms(1) \<open>auto_create\<close> by (cases "unique_external_username (nocase E) (xc_username_hint claim) (xc_subject claim) ?a")
      (auto simp: provision_external_user_def)
  obtain uid j where add: "add_external_user E now claim name ?r i = (Inr uid, j)"
    using assms(1) \<open>auto_create\<close> name by (cases "add_external_user E now claim name ?r i"; cases "fst (add_external_user E now claim name ?r i)")
      (simp_all add: provision_external_user_def)
  define w where "w = external_user E now claim name ?r uid"
  have w: "user_id w = uid" "username w = name" "role w = ?r" "password_hash w = UNUSABLE_PASSWORD_HASH"
    by (simp_all add: w_def external_user_def new_user_def)
  have j: "uid = next_user ?a" "idp_acc j = ?a\<lparr>users := users ?a @ [w], next_user := uid + 1\<rparr>"
    and l: "\<not> list_ex (linked_to (xc_provider claim) (xc_issuer claim) (xc_subject claim)) (identities i)"
    using add by (auto simp: add_external_user_def Let_def w_def split: if_splits)
  note g = get_new_user [OF assms(3), of w, folded j(1)]
  have "get_user uid (idp_acc j) = Some (user_of w)" using g(2) w(1) j by simp
  then have res: "res = \<lparr>rs_user = Some (user_of w), rs_created = True, rs_refusal = None\<rparr>" "i2 = j"
    using assms(1) \<open>auto_create\<close> name add by (simp_all add: provision_external_user_def)
  have u: "u = user_of w" using assms(2) res by simp
  then have "user_id u = uid" "username u = name" "role u = ?r"
    using w by (simp_all add: user_of_def user.truncate_def)
  moreover have "users (idp_acc i2) = users ?a @ [w]" using res j by simp
  ultimately show ?thesis using \<open>auto_create\<close> g(1) w l res u unique_external_username_ok [OF name] by auto
qed

text \<open>
  C38.  An external login leads to the account its identity is linked to, if that is not disabled, and
  changes no account; or, where accounts may be created and the claimed address is nobody's, to a new account
  with an unusable password, a valid name nobody has, and the administrator's role only for a member of an
  administrators' group (or by default).  Accounts that exist are never changed.
\<close>

theorem external_login_safe:
  assumes "resolve_external_identity E now claim auto_create def adm i = (Inr res, i2)" "rs_user res = Some u" "accounts_ok (idp_acc i)"
  shows "(\<not> rs_created res \<and> \<not> user_disabled u \<and> users (idp_acc i2) = users (idp_acc i)
      \<and> (\<exists>e\<in>set (identities i). linked_to (xc_provider claim) (xc_issuer claim) (xc_subject claim) e
          \<and> get_user (ei_user e) (idp_acc i) = Some u))
    \<or> (rs_created res \<and> auto_create \<and> get_user (user_id u) (idp_acc i) = None
      \<and> (\<exists>w. user_of w = u \<and> password_hash w = UNUSABLE_PASSWORD_HASH \<and> users (idp_acc i2) = users (idp_acc i) @ [w])
      \<and> role u = (if groups_overlap (xc_groups claim) adm then lit ''admin'' else def)
      \<and> validate_username (username u) = Inr () \<and> \<not> username_exists (nocase E) (username u) (idp_acc i)
      \<and> (\<forall>addr. xc_email claim = Some addr \<longrightarrow> user_id_by_email (lower E) addr (idp_acc i) = None))"
proof (cases "external_identity_for (xc_provider claim) (xc_issuer claim) (xc_subject claim) i")
  case None
  then have "provision_external_user E now claim auto_create def adm i = (Inr res, i2)"
    "\<forall>addr. xc_email claim = Some addr \<longrightarrow> user_id_by_email (lower E) addr (idp_acc i) = None"
    using assms(1,2) by (auto simp: resolve_external_identity_def refused_def split: if_splits option.splits)
  then show ?thesis using provisioned [OF _ assms(2,3)] by blast
next
  case (Some e)
  then have e: "e \<in> set (identities i)" "linked_to (xc_provider claim) (xc_issuer claim) (xc_subject claim) e"
    by (auto simp: external_identity_for_def dest: found_row)
  then have "provision_external_user E now claim auto_create def adm i \<noteq> (Inr res, i2)"
    using provisioned [OF _ assms(2,3)] by (auto simp: list_ex_iff)
  then show ?thesis using assms(1,2) Some e
    by (auto simp: resolve_external_identity_def refused_def touch_external_identity_def split: if_splits option.splits)
qed

section \<open>A state is redeemed once\<close>

lemma provision_keeps_states: "login_states (snd (provision_external_user E now claim auto_create def adm i)) = login_states i"
  by (auto simp: provision_external_user_def add_external_user_def Let_def split: sum.split option.split)

lemma resolve_keeps_states: "login_states (snd (resolve_external_identity E now claim auto_create def adm i)) = login_states i"
  by (auto simp: resolve_external_identity_def touch_external_identity_def provision_keeps_states split: option.split)

lemma completed:
  assumes "oidc_complete E C L now tok csrf bp uri st code stored i = (Inr (loc, Some issued), i2)"
  shows "uri = os_redirect_uri stored \<and> login_states i2 = login_states i
    \<and> (\<exists>claims res i3 u. ol_exchange L code (derive_pkce_verifier L st (oc_client_secret C)) (derive_nonce L st (oc_client_secret C)) = Inr claims
      \<and> resolve_external_identity E now (oidc_claim C L claims) (oc_auto_create_users C) (oc_default_role C) (oc_admin_groups C) i = (Inr res, i3)
      \<and> rs_user res = Some u
      \<and> create_session (token_hash E) now (user_id u) (session_ttl E) tok csrf (idp_acc i3) = (Inr issued, idp_acc i2))"
proof -
  let ?v = "derive_pkce_verifier L st (oc_client_secret C)" and ?n = "derive_nonce L st (oc_client_secret C)"
  let ?res = "\<lambda>c. resolve_external_identity E now (oidc_claim C L c) (oc_auto_create_users C) (oc_default_role C) (oc_admin_groups C) i"
  note def = assms [unfolded oidc_complete_def Let_def]
  have uri: "uri = os_redirect_uri stored" using def by (auto split: if_splits)
  obtain claims where x: "rbind (ol_client L uri) (\<lambda>_. ol_exchange L code ?v ?n) = Inr claims"
    using def by (auto split: if_splits sum.splits)
  obtain res i3 where r: "?res claims = (Inr res, i3)"
    using def x by (cases "?res claims"; cases "fst (?res claims)") (auto split: if_splits)
  obtain u where u: "rs_user res = Some u" using def x r by (auto split: if_splits option.splits)
  obtain a where s: "create_session (token_hash E) now (user_id u) (session_ttl E) tok csrf (idp_acc i3) = (Inr issued, a)"
      and i2: "i2 = i3\<lparr>idp_site := put_acc a (idp_site i3)\<rparr>"
    using def x r u by (auto split: if_splits sum.splits prod.splits)
  have "login_states i3 = login_states i"
    using resolve_keeps_states [of E now "oidc_claim C L claims" "oc_auto_create_users C" "oc_default_role C" "oc_admin_groups C" i] r by simp
  moreover have "ol_exchange L code ?v ?n = Inr claims" using x by (cases "ol_client L uri") (auto simp: rbind_def)
  ultimately show ?thesis using uri r u s i2 by auto
qed

lemma called_back:
  assumes "oidc_login_callback E C L now tok csrf bp hs sch auth params i = (Inr (loc, Some issued), i2)"
  obtains code st stored where "params (lit ''code'') = Some code" "params (lit ''state'') = Some st"
    "cookie_value hs OIDC_STATE_COOKIE = Some st" "take_oidc_login_state now (ol_hash L st) i = (Some stored, snd (take_oidc_login_state now (ol_hash L st) i))"
    "oidc_complete E C L now tok csrf bp (effective_redirect_uri C bp hs sch auth) st code stored
      (snd (take_oidc_login_state now (ol_hash L st) i)) = (Inr (loc, Some issued), i2)"
  using assms by (auto simp: oidc_login_callback_def split: if_splits option.splits prod.splits)

lemma taken:
  assumes "take_oidc_login_state now h i = (Some stored, i2)"
  shows "stored \<in> set (login_states i) \<and> os_state_hash stored = h \<and> now < os_expires_at stored
    \<and> login_states i2 = delete_where (\<lambda>r. os_state_hash r = h) (login_states i)"
  using assms by (auto simp: take_oidc_login_state_def split: option.splits if_splits dest!: found_row)

lemma not_taken: "list_all (\<lambda>r. os_state_hash r \<noteq> h) (login_states i) \<Longrightarrow> fst (take_oidc_login_state now h i) = None"
  by (auto simp: take_oidc_login_state_def list_all_iff split: option.split dest!: found_row)

text \<open>
  C39.  A callback from the provider signs somebody in only if the state it carries is the state of the
  browser's cookie and of a stored row that has not expired and was made for the same redirect address, and
  the provider exchanges the code for claims whose identity is resolved to the account the session is for.
  The row is used up: no later callback with that state, whatever else it carries, signs anybody in.
\<close>

theorem oidc_state_single_use:
  assumes "oidc_login_callback E C L now tok csrf bp hs sch auth params i = (Inr (loc, Some issued), i2)"
  shows "\<exists>st stored. params (lit ''state'') = Some st \<and> cookie_value hs OIDC_STATE_COOKIE = Some st
    \<and> stored \<in> set (login_states i) \<and> os_state_hash stored = ol_hash L st \<and> now < os_expires_at stored
    \<and> os_redirect_uri stored = effective_redirect_uri C bp hs sch auth
    \<and> (\<exists>code claims res j k u. params (lit ''code'') = Some code
        \<and> ol_exchange L code (derive_pkce_verifier L st (oc_client_secret C)) (derive_nonce L st (oc_client_secret C)) = Inr claims
        \<and> resolve_external_identity E now (oidc_claim C L claims) (oc_auto_create_users C) (oc_default_role C) (oc_admin_groups C) j = (Inr res, k)
        \<and> idp_acc j = idp_acc i \<and> identities j = identities i \<and> rs_user res = Some u
        \<and> create_session (token_hash E) now (user_id u) (session_ttl E) tok csrf (idp_acc k) = (Inr issued, idp_acc i2))
    \<and> (\<forall>now2 tok2 csrf2 hs2 params2 loc2 issued2. fst (oidc_login_callback E C L now2 tok2 csrf2 bp hs2 sch auth
        (params2(lit ''state'' \<mapsto> st)) i2) \<noteq> Inr (loc2, Some issued2))"
proof -
  obtain code st stored where p: "params (lit ''code'') = Some code" "params (lit ''state'') = Some st"
    "cookie_value hs OIDC_STATE_COOKIE = Some st"
    and t: "take_oidc_login_state now (ol_hash L st) i = (Some stored, snd (take_oidc_login_state now (ol_hash L st) i))"
    and c: "oidc_complete E C L now tok csrf bp (effective_redirect_uri C bp hs sch auth) st code stored
      (snd (take_oidc_login_state now (ol_hash L st) i)) = (Inr (loc, Some issued), i2)"
    using called_back [OF assms] by metis
  let ?j = "snd (take_oidc_login_state now (ol_hash L st) i)"
  note t2 = taken [OF t] and c2 = completed [OF c]
  have j: "idp_acc ?j = idp_acc i" "identities ?j = identities i"
    by (simp_all add: take_oidc_login_state_def split: option.split)
  have gone: "list_all (\<lambda>r. os_state_hash r \<noteq> ol_hash L st) (login_states i2)"
    using t2 c2 by (auto simp: list_all_iff)
  have "fst (oidc_login_callback E C L now2 tok2 csrf2 bp hs2 sch auth (params2(lit ''state'' \<mapsto> st)) i2) \<noteq> Inr (loc2, Some issued2)"
    for now2 tok2 csrf2 hs2 params2 loc2 issued2
  proof
    assume "fst (oidc_login_callback E C L now2 tok2 csrf2 bp hs2 sch auth (params2(lit ''state'' \<mapsto> st)) i2) = Inr (loc2, Some issued2)"
    then obtain i3 where "oidc_login_callback E C L now2 tok2 csrf2 bp hs2 sch auth (params2(lit ''state'' \<mapsto> st)) i2
        = (Inr (loc2, Some issued2), i3)" by (metis prod.collapse)
    from called_back [OF this] not_taken [OF gone, of now2] show False by (metis fst_conv fun_upd_same option.distinct(1) option.inject)
  qed
  moreover obtain claims res k u where "ol_exchange L code (derive_pkce_verifier L st (oc_client_secret C)) (derive_nonce L st (oc_client_secret C)) = Inr claims"
    "resolve_external_identity E now (oidc_claim C L claims) (oc_auto_create_users C) (oc_default_role C) (oc_admin_groups C) ?j = (Inr res, k)"
    "rs_user res = Some u" "create_session (token_hash E) now (user_id u) (session_ttl E) tok csrf (idp_acc k) = (Inr issued, idp_acc i2)"
    using c2 by blast
  ultimately show ?thesis using p t2 c2 j
    by (intro exI [of _ st] exI [of _ stored] conjI exI [of _ code] exI [of _ claims] exI [of _ res] exI [of _ ?j] exI [of _ k]
        exI [of _ u] allI) simp_all
qed

definition demo_lib :: oidc_lib where
  "demo_lib = \<lparr>ol_digest = \<lambda>s. s, ol_hash = \<lambda>s. s, ol_client = \<lambda>_. Inr (), ol_authorize_url = \<lambda>s _ _ _. s,
     ol_exchange = \<lambda>_ _ _. Inr \<lparr>ic_subject = lit ''bob'', ic_preferred_username = None, ic_email = None, ic_payload = None\<rparr>,
     ol_user_info = \<lambda>_. None\<rparr>"

definition demo_oidc :: oidc_config where
  "demo_oidc = \<lparr>oc_issuer = lit ''op'', oc_client_secret = [], oc_redirect_uri = lit ''qd'', oc_scopes = lit ''openid'',
     oc_auto_create_users = False, oc_default_role = lit ''user'', oc_admin_groups = [], oc_groups_claim = lit ''groups''\<rparr>"

definition demo_idp :: idp where
  "demo_idp = \<lparr>idp_site = demo_site [] [],
     identities = [\<lparr>ei_id = 1, ei_user = 2, ei_provider = lit ''oidc'', ei_issuer = lit ''op'', ei_subject = lit ''bob'',
       ei_email = None, ei_created_at = 0, ei_last_login_at = 0\<rparr>],
     next_identity = 2,
     login_states = [\<lparr>os_state_hash = lit ''s'', os_nonce_hash = lit ''nonces'', os_verifier_hash = lit ''s'',
       os_redirect_uri = lit ''qd'', os_created_at = 0, os_expires_at = 300\<rparr>]\<rparr>"

definition demo_params :: "ustr \<Rightarrow> ustr option" where
  "demo_params = [lit ''code'' \<mapsto> lit ''c'', lit ''state'' \<mapsto> lit ''s'']"

definition demo_back :: request_headers where
  "demo_back = [(lit ''cookie'', lit ''qd_oidc_state=s'')]"

lemma demo_back_state: "cookie_value demo_back OIDC_STATE_COOKIE = Some (lit ''s'')"
  by (simp add: cookie_value_def demo_back_def OIDC_STATE_COOKIE_def List.map_filter_simps split_once_def
      trim_by_def trim_start_by_def trim_end_by_def is_ws_def starts_with_def)

lemma demo_resolution: "\<exists>k. resolve_external_identity demo_env 0 (oidc_claim demo_oidc demo_lib c) False (lit ''user'') [] j
    = (Inr \<lparr>rs_user = Some (user_of user_row2), rs_created = False, rs_refusal = None\<rparr>, k) \<and> idp_acc k = idp_acc j"
  if "ic_subject c = lit ''bob''" "idp_acc j = idp_acc demo_idp" "identities j = identities demo_idp"
proof -
  have "xc_provider (oidc_claim demo_oidc demo_lib c) = lit ''oidc''" "xc_issuer (oidc_claim demo_oidc demo_lib c) = lit ''op''"
    "xc_subject (oidc_claim demo_oidc demo_lib c) = lit ''bob''"
    using that by (simp_all add: oidc_claim_def Let_def demo_oidc_def)
  then have "external_identity_for (xc_provider (oidc_claim demo_oidc demo_lib c)) (xc_issuer (oidc_claim demo_oidc demo_lib c))
      (xc_subject (oidc_claim demo_oidc demo_lib c)) j = Some (hd (identities demo_idp))"
    using that by (simp add: external_identity_for_def demo_idp_def linked_to_def trim_by_def trim_start_by_def trim_end_by_def is_ws_def)
  moreover have "get_user 2 (idp_acc demo_idp) = Some (user_of user_row2)" "\<not> user_disabled (user_of user_row2)"
    by (simp_all add: get_user_def get_user_row_def demo_idp_def user_row2_def root_row_def new_user_def user_of_def user.truncate_def)
  moreover have "ei_user (hd (identities demo_idp)) = 2" by (simp add: demo_idp_def)
  ultimately show ?thesis using that(2) by (simp add: resolve_external_identity_def touch_external_identity_def)
qed

lemma demo_callback: "\<exists>issued i2. oidc_login_callback demo_env demo_oidc demo_lib 0 (lit ''t'') (lit ''x'') [] demo_back None None demo_params demo_idp
    = (Inr (lit ''/'', Some issued), i2)"
proof -
  let ?i = "demo_idp\<lparr>login_states := []\<rparr>"
  let ?c = "\<lparr>ic_subject = lit ''bob'', ic_preferred_username = None, ic_email = None, ic_payload = None\<rparr>"
  have uri: "effective_redirect_uri demo_oidc [] demo_back None None = lit ''qd''" "trim (oc_issuer demo_oidc) \<noteq> []"
    by (simp_all add: effective_redirect_uri_def demo_oidc_def trim_by_def trim_start_by_def trim_end_by_def is_ws_def)
  have t: "take_oidc_login_state 0 (lit ''s'') demo_idp = (Some (hd (login_states demo_idp)), ?i)"
    by (simp add: take_oidc_login_state_def demo_idp_def delete_where_def)
  obtain k where k: "resolve_external_identity demo_env 0 (oidc_claim demo_oidc demo_lib ?c) False (lit ''user'') [] ?i
      = (Inr \<lparr>rs_user = Some (user_of user_row2), rs_created = False, rs_refusal = None\<rparr>, k)" "idp_acc k = idp_acc demo_idp"
    using demo_resolution [of ?c ?i] by auto
  have u: "user_id (user_of user_row2) = 2" by (simp add: user_row2_def new_user_def user_of_def user.truncate_def)
  obtain issued a where s: "create_session (\<lambda>t. t) 0 2 1000 (lit ''t'') (lit ''x'') (idp_acc demo_idp) = (Inr issued, a)"
    by (simp add: create_session_def get_user_row_def demo_idp_def user_row2_def root_row_def new_user_def)
  have g: "ol_hash demo_lib = (\<lambda>s. s)" "ol_digest demo_lib = (\<lambda>s. s)" "ol_client demo_lib = (\<lambda>_. Inr ())" "ol_exchange demo_lib c v n = Inr ?c"
    "oc_client_secret demo_oidc = []" "oc_auto_create_users demo_oidc = False" "oc_default_role demo_oidc = lit ''user''"
    "oc_admin_groups demo_oidc = []" for c v n
    by (simp_all add: demo_lib_def demo_oidc_def)
  have row: "os_verifier_hash (hd (login_states demo_idp)) = lit ''s''" "os_nonce_hash (hd (login_states demo_idp)) = lit ''nonces''"
    "os_redirect_uri (hd (login_states demo_idp)) = lit ''qd''" by (simp_all add: demo_idp_def)
  show ?thesis
    using t uri demo_back_state k s u
    by (simp add: oidc_login_callback_def oidc_complete_def g demo_params_def rbind_def derive_pkce_verifier_def derive_nonce_def
        oidc_callback_redirect_def trim_end_by_def row Let_def)
qed

theorem oidc_state_single_use_witness:
  "\<exists>issued i2. oidc_login_callback demo_env demo_oidc demo_lib 0 (lit ''t'') (lit ''x'') [] demo_back None None demo_params demo_idp
      = (Inr (lit ''/'', Some issued), i2)
    \<and> (\<forall>now tok csrf hs params loc issued. fst (oidc_login_callback demo_env demo_oidc demo_lib now tok csrf [] hs None None
        (params(lit ''state'' \<mapsto> lit ''s'')) i2) \<noteq> Inr (loc, Some issued))"
proof -
  obtain issued i2 where c: "oidc_login_callback demo_env demo_oidc demo_lib 0 (lit ''t'') (lit ''x'') [] demo_back None None demo_params demo_idp
    = (Inr (lit ''/'', Some issued), i2)" using demo_callback by blast
  have "demo_params (lit ''state'') = Some (lit ''s'')" by (simp add: demo_params_def)
  with c oidc_state_single_use [OF c] show ?thesis by (metis option.inject)
qed

theorem external_login_safe_witness:
  "\<exists>res i2. resolve_external_identity demo_env 0 (oidc_claim demo_oidc demo_lib \<lparr>ic_subject = lit ''bob'', ic_preferred_username = None,
      ic_email = None, ic_payload = None\<rparr>) False (lit ''user'') [] demo_idp = (Inr res, i2)
    \<and> \<not> rs_created res \<and> rs_user res = Some (user_of user_row2) \<and> users (idp_acc i2) = users (idp_acc demo_idp)"
proof -
  let ?c = "\<lparr>ic_subject = lit ''bob'', ic_preferred_username = None, ic_email = None, ic_payload = None\<rparr>"
  obtain k where k: "resolve_external_identity demo_env 0 (oidc_claim demo_oidc demo_lib ?c) False (lit ''user'') [] demo_idp
      = (Inr \<lparr>rs_user = Some (user_of user_row2), rs_created = False, rs_refusal = None\<rparr>, k)"
    using demo_resolution [of ?c demo_idp] by auto
  have "accounts_ok (idp_acc demo_idp)" by (simp add: demo_idp_def accounts_ok_def keyed_def demo_site_def)
  from external_login_safe [OF k _ this] k show ?thesis by simp
qed

section \<open>Headers of a proxy\<close>

text \<open>
  Headers that come from anywhere else than a trusted proxy sign nobody in: the request is refused
  with the state as it was, or goes on without the identity headers, whoever they name.
\<close>

theorem untrusted_headers_ignored:
  assumes "extract_header_identity HN hs cfg = Some h" "\<not> starts_with (lit ''/api/v1/auth'') path"
    and "\<forall>ip. remote = Some ip \<longrightarrow> ip \<notin> set (hc_trusted_proxies cfg)"
  shows "header_auth_middleware E HN now tok csrf (Some cfg) remote path hs handler i =
      (if hc_trusted_proxy_required cfg then (Inl (Forbidden (lit ''untrusted_proxy_header'')), i)
       else (Inr (fst (handler (strip_identity_headers HN cfg hs) i), None), snd (handler (strip_identity_headers HN cfg hs) i)))
    \<and> extract_header_identity HN (strip_identity_headers HN cfg hs) cfg = None"
proof
  have t: "\<not> (case remote of None \<Rightarrow> False | Some ip \<Rightarrow> source_is_trusted ip (hc_trusted_proxies cfg))"
    using assms(3) by (auto simp: source_is_trusted_def split: option.split)
  show "header_auth_middleware E HN now tok csrf (Some cfg) remote path hs handler i =
      (if hc_trusted_proxy_required cfg then (Inl (Forbidden (lit ''untrusted_proxy_header'')), i)
       else (Inr (fst (handler (strip_identity_headers HN cfg hs) i), None), snd (handler (strip_identity_headers HN cfg hs) i)))"
    using assms(1,2) t by (simp add: header_auth_middleware_def split_beta)
  have gone: "map_of (filter (\<lambda>(k, _). k \<noteq> n) xs) n = None" for n :: ustr and xs :: request_headers
    by (auto simp: map_of_eq_None_iff)
  have keep: "map_of (filter (\<lambda>(k, _). k \<noteq> m) xs) n = None" if "map_of xs n = None" for m n :: ustr and xs :: request_headers
    using that by (auto simp: map_of_eq_None_iff)
  obtain n where "HN (hc_user_header cfg) = Some n"
    using assms(1) by (auto simp: extract_header_identity_def header_value_def bind_eq_Some_conv)
  then have "header_value HN (strip_identity_headers HN cfg hs) (hc_user_header cfg) = None"
    by (auto simp: header_value_def strip_identity_headers_def gone keep simp del: filter_filter split: option.split)
  then show "extract_header_identity HN (strip_identity_headers HN cfg hs) cfg = None"
    by (simp add: extract_header_identity_def)
qed

definition demo_header_config :: "nat header_config" where
  "demo_header_config = \<lparr>hc_user_header = lit ''remote-user'', hc_email_header = lit ''remote-email'', hc_groups_header = lit ''remote-groups'',
     hc_groups_separator = lit '','', hc_trusted_proxies = [1], hc_trusted_proxy_required = False, hc_auto_create_users = True,
     hc_default_role = lit ''user'', hc_admin_groups = []\<rparr>"

lemma demo_identity: "extract_header_identity Some [(lit ''remote-user'', lit ''root''), (lit ''cookie'', lit ''qd_session=tok'')] demo_header_config
    = Some \<lparr>hi_username = lit ''root'', hi_email = None, hi_groups = []\<rparr>"
  by (simp add: extract_header_identity_def header_value_def demo_header_config_def trim_by_def trim_start_by_def trim_end_by_def is_ws_def)

theorem untrusted_headers_ignored_witness:
  "header_auth_middleware demo_env Some 0 (lit ''t'') (lit ''x'') (Some demo_header_config) (Some 2) (lit ''/api/v1/tasks'')
      [(lit ''remote-user'', lit ''root''), (lit ''cookie'', lit ''qd_session=tok'')] (\<lambda>hs i. (map fst hs, i)) demo_idp
    = (Inr ([lit ''cookie''], None), demo_idp)"
  using untrusted_headers_ignored [OF demo_identity, of "lit ''/api/v1/tasks''" "Some 2" demo_env 0 "lit ''t''" "lit ''x''" "\<lambda>hs i. (map fst hs, i)" demo_idp]
  by (simp add: starts_with_def demo_header_config_def strip_identity_headers_def)

section \<open>The first request after the account behind a proxy has changed\<close>

lemma split_by_app: "P c \<Longrightarrow> split_by P (a @ c # b) = split_by P a @ split_by P b"
  by (induction a) (auto split: list.splits)

lemma map_filter_app: "List.map_filter f (xs @ ys) = List.map_filter f xs @ List.map_filter f ys"
  by (simp add: List.map_filter_def)

definition cookie_headers :: "request_headers \<Rightarrow> ustr list" where
  "cookie_headers hs = map snd (filter (\<lambda>(n, _). n = lit ''cookie'') hs)"

lemma cookie_value_alt: "cookie_value hs name =
    map_of (List.map_filter (\<lambda>pair. split_once (lit ''='') (trim_by is_ws pair)) (concat (map (split_by (\<lambda>c. c = ch CHR '';'')) (cookie_headers hs)))) name"
  by (simp add: cookie_value_def cookie_headers_def split_beta' comp_def)

lemma first_cookie: "cookie_headers hs = [v] \<Longrightarrow> map_of hs (lit ''cookie'') = Some v"
  by (induction hs) (auto simp: cookie_headers_def split: if_splits)

lemma injected_cookie:
  assumes "cookie_headers hs = [v]" "cookie_value hs name = Some t"
  shows "cookie_value (inject_session_cookies issued hs) name = Some t"
proof -
  define rest where "rest = ch CHR '' '' # SESSION_COOKIE @ lit ''='' @ session_token issued @ lit ''; '' @ CSRF_COOKIE @ lit ''='' @ csrf_token issued"
  have "v \<noteq> []" using assms by (auto simp: cookie_value_alt map_filter_simps split_once_def starts_with_def)
  then have "cookie_headers (inject_session_cookies issued hs) = [v @ ch CHR '';'' # rest]"
    using first_cookie [OF assms(1)] by (auto simp: inject_session_cookies_def Let_def cookie_headers_def rest_def filter_False case_prod_beta')
  then show ?thesis using assms by (simp add: cookie_value_alt split_by_app map_filter_app map_add_def split: option.split)
qed

text \<open>
  C40.  When the proxy names another account than the session of the browser's cookie, the old session is
  revoked and a new one is made, whose cookies are appended to the request so that the handler is
  authenticated; but the handler reads the first session cookie, the revoked one, and answers 401.
\<close>

theorem changed_account_refused_once:
  assumes "extract_header_identity HN hs cfg = Some h" "\<not> starts_with (lit ''/api/v1/auth'') path" "ip \<in> set (hc_trusted_proxies cfg)"
    and "cookie_headers hs = [v]" "redis_up E"
    and "idp_session E now hs i = (Inr (origin, s), i1)" "\<not> origin_bearer origin"
    and "resolve_external_identity E now (header_claim h) (hc_auto_create_users cfg) (hc_default_role cfg) (hc_admin_groups cfg) i1 = (Inr res, i2)"
    and "rs_user res = Some u" "user_id u \<noteq> user_id (auth_user s)"
    and "establish_header_session E now tok csrf u (Some (origin_token origin)) i2 = (Inr issued, i3)"
    and "token_hash E tok \<noteq> token_hash E (origin_token origin)"
  shows "\<exists>i4. header_auth_middleware E HN now tok csrf (Some cfg) (Some ip) path hs (idp_session E now) i = (Inr (Inl unauthorized, Some issued), i4)"
proof -
  let ?old = "origin_token origin" and ?hs = "inject_session_cookies issued hs"
  have old: "bearer_token hs = None" "cookie_value hs SESSION_COOKIE = Some ?old"
    using assms(6,7) by (auto simp: idp_session_def require_session_def split: option.splits prod.splits)
  have "map_of ?hs (lit ''authorization'') = map_of hs (lit ''authorization'')"
    by (induction hs) (auto simp: inject_session_cookies_def Let_def)
  with old(1) have b: "bearer_token ?hs = None" by (simp add: bearer_token_def)
  have c: "cookie_value ?hs SESSION_COOKIE = Some ?old" by (rule injected_cookie [OF assms(4) old(2)])
  have "list_all (\<lambda>r. session_hash r \<noteq> token_hash E ?old) (sessions (idp_acc i3))"
    and e: "entries (cache (site_app (idp_site i3))) (token_hash E ?old) = None"
    using assms(5,11,12)
    by (auto simp: establish_header_session_def create_session_def app_revoke_session_def delete_session_def invalidate_def
        list_all_iff Let_def split: if_splits option.splits)
  then have "authenticate_session (token_hash E) now ?old (idp_acc i3) = None"
    by (auto simp: authenticate_session_def list_all_iff split: option.split dest!: found_row)
  with b c e have r: "fst (idp_session E now ?hs i3) = Inl unauthorized"
    by (simp add: idp_session_def require_session_def cache_get_def split_beta)
  have "source_is_trusted ip (hc_trusted_proxies cfg)" using assms(3) by (simp add: source_is_trusted_def)
  then show ?thesis using assms(1,2,6,8-11) r by (simp add: header_auth_middleware_def split_beta)
qed

definition proxied :: request_headers where
  "proxied = [(lit ''remote-user'', lit ''root''), (lit ''cookie'', lit ''qd_session=tok'')]"

definition drifting_idp :: idp where
  "drifting_idp = \<lparr>idp_site = demo_site [] [admin_session],
     identities = [\<lparr>ei_id = 1, ei_user = 2, ei_provider = lit ''header'', ei_issuer = lit ''header'', ei_subject = lit ''root'',
       ei_email = None, ei_created_at = 0, ei_last_login_at = 0\<rparr>],
     next_identity = 2, login_states = []\<rparr>"

lemma proxied_cookie: "cookie_headers proxied = [lit ''qd_session=tok'']" "cookie_value proxied SESSION_COOKIE = Some (lit ''tok'')" "bearer_token proxied = None"
  by (simp_all add: cookie_headers_def proxied_def cookie_value_def SESSION_COOKIE_def List.map_filter_simps split_once_def
      trim_by_def trim_start_by_def trim_end_by_def is_ws_def starts_with_def bearer_token_def)

lemma drifting_session: "\<exists>s i1. idp_session demo_env 0 proxied drifting_idp = (Inr (\<lparr>origin_token = lit ''tok'', origin_bearer = False\<rparr>, s), i1)
    \<and> user_id (auth_user s) = 1 \<and> idp_acc i1 = idp_acc drifting_idp \<and> identities i1 = identities drifting_idp"
proof -
  have "\<exists>adm. authenticate_session (\<lambda>t. t) 0 (lit ''tok'') (idp_acc drifting_idp) = Some adm \<and> user_id (auth_user adm) = 1"
    by (simp add: authenticate_session_def admin_session_def drifting_idp_def user_of_def user.truncate_def) (simp add: root_row_def new_user_def)
  moreover have "cache_get True 0 (lit ''tok'') (cache (site_app (idp_site drifting_idp))) = None"
    by (simp add: drifting_idp_def cache_get_def empty_cache_def)
  ultimately show ?thesis using proxied_cookie by (auto simp: idp_session_def require_session_def)
qed

theorem changed_account_refused_once_witness:
  "\<exists>issued i4. header_auth_middleware demo_env Some 0 (lit ''t'') (lit ''x'') (Some demo_header_config) (Some 1) (lit ''/api/v1/tasks'')
      proxied (idp_session demo_env 0) drifting_idp = (Inr (Inl unauthorized, Some issued), i4)"
proof -
  obtain s i1 where i1: "idp_session demo_env 0 proxied drifting_idp = (Inr (\<lparr>origin_token = lit ''tok'', origin_bearer = False\<rparr>, s), i1)"
    "user_id (auth_user s) = 1" "idp_acc i1 = idp_acc drifting_idp" "identities i1 = identities drifting_idp"
    using drifting_session by blast
  let ?h = "\<lparr>hi_username = lit ''root'', hi_email = None, hi_groups = []\<rparr>"
  have "external_identity_for (lit ''header'') (lit ''header'') (lit ''root'') i1 = Some (hd (identities drifting_idp))"
    by (simp add: external_identity_for_def i1(4) drifting_idp_def linked_to_def trim_by_def trim_start_by_def trim_end_by_def is_ws_def)
  moreover have "get_user 2 (idp_acc drifting_idp) = Some (user_of user_row2)" "\<not> user_disabled (user_of user_row2)"
    by (simp_all add: get_user_def get_user_row_def drifting_idp_def user_row2_def root_row_def new_user_def user_of_def user.truncate_def)
  moreover have "ei_user (hd (identities drifting_idp)) = 2" by (simp add: drifting_idp_def)
  ultimately obtain i2 where i2: "resolve_external_identity demo_env 0 (header_claim ?h) True (lit ''user'') [] i1
      = (Inr \<lparr>rs_user = Some (user_of user_row2), rs_created = False, rs_refusal = None\<rparr>, i2)" "idp_acc i2 = idp_acc drifting_idp"
    by (simp add: resolve_external_identity_def touch_external_identity_def header_claim_def i1(3))
  have u: "user_id (user_of user_row2) = 2" by (simp add: user_row2_def new_user_def user_of_def user.truncate_def)
  have "\<exists>issued i3. establish_header_session demo_env 0 (lit ''t'') (lit ''x'') (user_of user_row2) (Some (lit ''tok'')) i2 = (Inr issued, i3)"
    by (simp add: establish_header_session_def app_revoke_session_def delete_session_def create_session_def get_user_row_def i2(2) u
        drifting_idp_def delete_where_def admin_session_def)
  then obtain issued i3 where i3: "establish_header_session demo_env 0 (lit ''t'') (lit ''x'') (user_of user_row2) (Some (lit ''tok'')) i2 = (Inr issued, i3)"
    by blast
  have cfg: "hc_trusted_proxies demo_header_config = [1]" "hc_auto_create_users demo_header_config" "hc_default_role demo_header_config = lit ''user''"
    "hc_admin_groups demo_header_config = []" by (simp_all add: demo_header_config_def)
  from changed_account_refused_once [OF demo_identity [folded proxied_def], of "lit ''/api/v1/tasks''" 1 "lit ''qd_session=tok''" demo_env 0
      drifting_idp "\<lparr>origin_token = lit ''tok'', origin_bearer = False\<rparr>" s i1 "\<lparr>rs_user = Some (user_of user_row2), rs_created = False, rs_refusal = None\<rparr>"
      i2 "user_of user_row2" "lit ''t''" "lit ''x''" issued i3]
  show ?thesis using i1(1,2) i2(1) i3 u by (intro exI [of _ issued]) (simp add: cfg starts_with_def proxied_cookie(1) [simplified])
qed

end
