(* ===== verification/SiteRows.thy ===== *)
theory SiteRows
  imports Plugin Outbound RunQueue
begin

text \<open>
  Settings, notepads and plugin manifests in the store (\<open>crates/qdrust-server/src/store.rs\<close>), what is read
  from them (\<open>api.rs\<close>, \<open>model.rs\<close>, \<open>scheduler.rs\<close>, \<open>main.rs\<close>), and the counts for \<open>/metrics\<close>
  (\<open>metrics.rs\<close>).
\<close>

section \<open>Rows\<close>

record site_setting =
  setting_key :: ustr
  setting_value :: json
  setting_updated_at :: int

record notepad_row =
  notepad_owner :: int
  notepad_id :: int
  notepad_content :: "ustr option"
  notepad_updated_at :: int

datatype notepad_slot = Missing | Stored "ustr option"

record plugin_row =
  plugin_id :: int
  plugin_owner :: int
  plugin_name :: ustr
  plugin_command :: ustr
  plugin_config :: json
  plugin_enabled :: bool
  plugin_created_at :: int
  plugin_updated_at :: int

record site_rows =
  settings :: "site_setting list"
  notepads :: "notepad_row list"
  plugins :: "plugin_row list"
  next_plugin :: int

section \<open>Settings\<close>

definition get_setting :: "ustr \<Rightarrow> site_rows \<Rightarrow> site_setting option" where
  "get_setting key x = find (\<lambda>s. setting_key s = key) (settings x)"

definition set_setting :: "int \<Rightarrow> ustr \<Rightarrow> json \<Rightarrow> site_rows \<Rightarrow> site_setting \<times> site_rows" where
  "set_setting now key v x =
     (let s = \<lparr>setting_key = key, setting_value = v, setting_updated_at = now\<rparr>; hit = (\<lambda>s. setting_key s = key) in
      (s, x\<lparr>settings := if list_ex hit (settings x) then update_where hit (\<lambda>_. s) (settings x) else settings x @ [s]\<rparr>))"

definition list_settings :: "site_rows \<Rightarrow> site_setting list" where
  "list_settings x = sort_key setting_key (settings x)"

definition ALLOW_INVALID_CERTIFICATES_SETTING :: ustr where
  "ALLOW_INVALID_CERTIFICATES_SETTING = lit ''security.allow_invalid_certificates''"

definition apply_runtime_setting :: "ustr \<Rightarrow> json \<Rightarrow> runtime_settings \<Rightarrow> runtime_settings" where
  "apply_runtime_setting key v r =
     (if key = lit ''require_email_verification''
        then (case as_bool v of Some b \<Rightarrow> r\<lparr>require_email_verification := b\<rparr> | None \<Rightarrow> r)
      else if key = lit ''ga_key'' then (case as_str v of Some s \<Rightarrow> r\<lparr>ga_key := Some s\<rparr> | None \<Rightarrow> r)
      else if key = lit ''logs.retention_days''
        then (case as_i64 v of Some n \<Rightarrow> r\<lparr>log_retention_days := nat (max n 0)\<rparr> | None \<Rightarrow> r)
      else if key = ALLOW_PRIVATE_NETWORK_SETTING
        then (case as_bool v of Some b \<Rightarrow> r\<lparr>allow_private_network := b\<rparr> | None \<Rightarrow> r)
      else if key = ALLOW_INVALID_CERTIFICATES_SETTING
        then (case as_bool v of Some b \<Rightarrow> r\<lparr>allow_invalid_certificates := b\<rparr> | None \<Rightarrow> r)
      else r)"

text \<open>The watcher: the configuration file, when it has changed, and then the table.\<close>

definition RUNTIME_KEYS :: "ustr list" where
  "RUNTIME_KEYS = [lit ''require_email_verification'', lit ''ga_key'', lit ''logs.retention_days'',
     ALLOW_PRIVATE_NETWORK_SETTING, ALLOW_INVALID_CERTIFICATES_SETTING]"

definition apply_config_file :: "json \<Rightarrow> runtime_settings \<Rightarrow> runtime_settings" where
  "apply_config_file file r =
     fold (\<lambda>(name, key) r. case jget name file of Some v \<Rightarrow> apply_runtime_setting key v r | None \<Rightarrow> r)
       [(lit ''require_email_verification'', lit ''require_email_verification''),
        (lit ''log_retention_days'', lit ''logs.retention_days''), (lit ''ga_key'', lit ''ga_key''),
        (lit ''allow_private_network'', ALLOW_PRIVATE_NETWORK_SETTING),
        (lit ''allow_invalid_certificates'', ALLOW_INVALID_CERTIFICATES_SETTING)] r"

definition apply_settings_table :: "site_rows \<Rightarrow> runtime_settings \<Rightarrow> runtime_settings" where
  "apply_settings_table x r =
     fold (\<lambda>key r. case get_setting key x of Some s \<Rightarrow> apply_runtime_setting key (setting_value s) r | None \<Rightarrow> r) RUNTIME_KEYS r"

definition settings_watcher :: "json option \<Rightarrow> site_rows \<Rightarrow> runtime_settings \<Rightarrow> runtime_settings" where
  "settings_watcher changed_file x r =
     apply_settings_table x (case changed_file of Some file \<Rightarrow> apply_config_file file r | None \<Rightarrow> r)"

section \<open>Notepads\<close>

definition NOTEPAD_LIMIT :: nat where "NOTEPAD_LIMIT = 20"

definition is_slot :: "int \<Rightarrow> int \<Rightarrow> notepad_row \<Rightarrow> bool" where
  "is_slot owner slot n \<longleftrightarrow> notepad_owner n = owner \<and> notepad_id n = slot"

definition notepad_slot :: "int \<Rightarrow> int \<Rightarrow> site_rows \<Rightarrow> notepad_slot" where
  "notepad_slot owner slot x = (case find (is_slot owner slot) (notepads x) of None \<Rightarrow> Missing | Some n \<Rightarrow> Stored (notepad_content n))"

definition notepad_write :: "int \<Rightarrow> int \<Rightarrow> int \<Rightarrow> ustr option \<Rightarrow> site_rows \<Rightarrow> site_rows" where
  "notepad_write now owner slot content x =
     (let n = \<lparr>notepad_owner = owner, notepad_id = slot, notepad_content = content, notepad_updated_at = now\<rparr> in
      x\<lparr>notepads := if list_ex (is_slot owner slot) (notepads x) then update_where (is_slot owner slot) (\<lambda>_. n) (notepads x)
        else notepads x @ [n]\<rparr>)"

definition notepad_rows :: "int \<Rightarrow> site_rows \<Rightarrow> notepad_row list" where
  "notepad_rows owner x = sort_key notepad_id (filter (\<lambda>n. notepad_owner n = owner) (notepads x))"

definition notepad_slots :: "int \<Rightarrow> site_rows \<Rightarrow> int list" where
  "notepad_slots owner x = map notepad_id (notepad_rows owner x)"

definition notepad_remove :: "int \<Rightarrow> int \<Rightarrow> site_rows \<Rightarrow> bool \<times> site_rows" where
  "notepad_remove owner slot x = (0 < affected (is_slot owner slot) (notepads x),
     x\<lparr>notepads := delete_where (is_slot owner slot) (notepads x)\<rparr>)"

section \<open>Plugins\<close>

text \<open>\<open>refusal\<close> is the text of serde for a value that is no list of capabilities.\<close>

definition capability_of :: "json \<Rightarrow> plugin_capability option" where
  "capability_of v = (case v of JStr s \<Rightarrow> find (\<lambda>c. capability_str c = s) [Network, ReadFile, WriteFile, Environment] | _ \<Rightarrow> None)"

definition plugin_capabilities :: "(json \<Rightarrow> ustr) \<Rightarrow> json \<Rightarrow> error + plugin_capability list" where
  "plugin_capabilities refusal config = (case jget (lit ''capabilities'') config of
      None \<Rightarrow> Inr []
    | Some v \<Rightarrow>
        (case (case v of JArr vs \<Rightarrow> those (map capability_of vs) | _ \<Rightarrow> None) of
           Some cs \<Rightarrow> Inr cs | None \<Rightarrow> Inl [lit ''invalid plugin capabilities: '' @ refusal v]))"

definition validate_plugin :: "(json \<Rightarrow> ustr) \<Rightarrow> ustr \<Rightarrow> ustr \<Rightarrow> json \<Rightarrow> error + unit" where
  "validate_plugin refusal name command config =
     rbind (ensure (trim name \<noteq> []) [lit ''plugin name cannot be empty'']) (\<lambda>_.
     rbind (ensure (trim command \<noteq> []) [lit ''plugin command cannot be empty'']) (\<lambda>_.
     rbind (ensure (\<not> list_ex (\<lambda>c. c \<in> set (lit ''|&;><'') \<or> c = 10 \<or> c = 13) command)
       [lit ''plugin command must not contain shell operators'']) (\<lambda>_.
     rbind (ensure (as_object config \<noteq> None) [lit ''plugin config must be an object'']) (\<lambda>_.
     rbind (plugin_capabilities refusal config) (\<lambda>_. Inr ())))))"

definition get_plugin :: "int \<Rightarrow> int \<Rightarrow> site_rows \<Rightarrow> plugin_row option" where
  "get_plugin pid owner x = find (\<lambda>p. plugin_id p = pid \<and> plugin_owner p = owner) (plugins x)"

definition list_plugins :: "int \<Rightarrow> site_rows \<Rightarrow> plugin_row list" where
  "list_plugins owner x = sort_key plugin_id (filter (\<lambda>p. plugin_owner p = owner) (plugins x))"

definition list_enabled_plugins :: "int \<Rightarrow> site_rows \<Rightarrow> plugin_row list" where
  "list_enabled_plugins owner x = filter plugin_enabled (list_plugins owner x)"

definition create_plugin :: "(json \<Rightarrow> ustr) \<Rightarrow> int \<Rightarrow> int \<Rightarrow> ustr \<Rightarrow> ustr \<Rightarrow> json \<Rightarrow> bool \<Rightarrow> site_rows \<Rightarrow> (error + plugin_row) \<times> site_rows" where
  "create_plugin refusal now owner name command config enabled x =
     (case validate_plugin refusal name command config of Inl e \<Rightarrow> (Inl e, x)
      | Inr _ \<Rightarrow>
        let n = next_plugin x;
            p = \<lparr>plugin_id = n, plugin_owner = owner, plugin_name = trim name, plugin_command = command, plugin_config = config,
              plugin_enabled = enabled, plugin_created_at = now, plugin_updated_at = now\<rparr>;
            x1 = x\<lparr>plugins := plugins x @ [p], next_plugin := n + 1\<rparr>
        in (case get_plugin n owner x1 of None \<Rightarrow> (Inl [lit ''created plugin disappeared''], x1) | Some p \<Rightarrow> (Inr p, x1)))"

definition update_plugin :: "(json \<Rightarrow> ustr) \<Rightarrow> int \<Rightarrow> int \<Rightarrow> int \<Rightarrow> ustr option \<Rightarrow> ustr option \<Rightarrow> json option \<Rightarrow> bool option \<Rightarrow> site_rows
    \<Rightarrow> (error + plugin_row option) \<times> site_rows" where
  "update_plugin refusal now pid owner name_in command_in config_in enabled_in x =
     (case get_plugin pid owner x of None \<Rightarrow> (Inr None, x)
      | Some current \<Rightarrow>
        let name = (case name_in of Some n \<Rightarrow> n | None \<Rightarrow> plugin_name current);
            command = (case command_in of Some c \<Rightarrow> c | None \<Rightarrow> plugin_command current);
            config = (case config_in of Some c \<Rightarrow> c | None \<Rightarrow> plugin_config current);
            enabled = (case enabled_in of Some b \<Rightarrow> b | None \<Rightarrow> plugin_enabled current)
        in (case validate_plugin refusal name command config of Inl e \<Rightarrow> (Inl e, x)
            | Inr _ \<Rightarrow>
              let x1 = x\<lparr>plugins := update_where (\<lambda>p. plugin_id p = pid \<and> plugin_owner p = owner)
                    (\<lambda>p. p\<lparr>plugin_name := trim name, plugin_command := command, plugin_config := config,
                      plugin_enabled := enabled, plugin_updated_at := now\<rparr>) (plugins x)\<rparr>
              in (Inr (get_plugin pid owner x1), x1)))"

definition delete_plugin :: "int \<Rightarrow> int \<Rightarrow> site_rows \<Rightarrow> bool \<times> site_rows" where
  "delete_plugin pid owner x =
     (let hit = (\<lambda>p. plugin_id p = pid \<and> plugin_owner p = owner) in
      (0 < affected hit (plugins x), x\<lparr>plugins := delete_where hit (plugins x)\<rparr>))"

text \<open>The plugins a run of an account gets: one that cannot be built is left out.\<close>

definition plugin_address :: "plugin_row \<Rightarrow> ustr" where
  "plugin_address p = lit ''plugin-'' @ int_to_str (plugin_id p)"

definition build_plugin :: "(json \<Rightarrow> ustr) \<Rightarrow> plugin_row \<Rightarrow> error + subprocess_plugin" where
  "build_plugin refusal p = rbind (plugin_capabilities refusal (plugin_config p)) (\<lambda>caps.
     subprocess_from_command \<lparr>mf_api_version = PLUGIN_API_VERSION, mf_id = plugin_address p, mf_name = plugin_name p,
       mf_version = lit ''1'', mf_capabilities = caps\<rparr> (plugin_command p))"

definition load_plugins_for_owner :: "(json \<Rightarrow> ustr) \<Rightarrow> int \<Rightarrow> site_rows \<Rightarrow> subprocess_plugin list" where
  "load_plugins_for_owner refusal owner x =
     List.map_filter (\<lambda>p. case build_plugin refusal p of Inr b \<Rightarrow> Some b | Inl _ \<Rightarrow> None) (list_enabled_plugins owner x)"

section \<open>Metrics\<close>

record metrics_snapshot =
  ms_runs :: "(ustr \<times> nat) list"
  ms_active :: nat
  ms_oldest_age :: int
  ms_tasks_enabled :: nat
  ms_tasks_disabled :: nat
  ms_deliveries :: "(ustr \<times> nat) list"
  ms_users :: nat

text \<open>The counts of \<open>GROUP BY\<close> added to the listed labels; a label that is not listed goes to the end.\<close>

definition counted :: "ustr list \<Rightarrow> ustr list \<Rightarrow> (ustr \<times> nat) list" where
  "counted labels xs = map (\<lambda>l. (l, length (filter (\<lambda>x. x = l) xs))) (labels @ remdups (filter (\<lambda>x. x \<notin> set labels) xs))"

definition RUN_STATUSES :: "ustr list" where
  "RUN_STATUSES = map status_str [Pending, Leased, Running, Succeeded, Failed, Cancelled]"

definition metrics_snapshot :: "int \<Rightarrow> nat \<Rightarrow> db \<Rightarrow> metrics_snapshot" where
  "metrics_snapshot now user_count db =
     (let waiting = filter (\<lambda>r. active (run_status r)) (runs db) in
      \<lparr>ms_runs = counted RUN_STATUSES (map (\<lambda>r. status_str (run_status r)) (runs db)),
       ms_active = length waiting,
       ms_oldest_age = (case map run_created_at waiting of [] \<Rightarrow> 0 | t # ts \<Rightarrow> max (now - fold min ts t) 0),
       ms_tasks_enabled = length (filter (\<lambda>t. \<not> disabled t) (tasks db)),
       ms_tasks_disabled = length (filter disabled (tasks db)),
       ms_deliveries = counted [lit ''succeeded'', lit ''failed''] (map delivery_status (deliveries db)),
       ms_users = user_count\<rparr>)"

record metrics_config =
  mc_token :: "ustr option"
  mc_enabled :: bool

definition new_metrics_config :: "ustr option \<Rightarrow> bool \<Rightarrow> metrics_config" where
  "new_metrics_config token on =
     (let token = (case token of Some t \<Rightarrow> if t = [] then None else Some t | None \<Rightarrow> None)
      in \<lparr>mc_token = token, mc_enabled = on \<or> token \<noteq> None\<rparr>)"

definition metrics_authorised :: "metrics_config \<Rightarrow> (ustr \<times> ustr) list \<Rightarrow> bool" where
  "metrics_authorised c hs = (case mc_token c of None \<Rightarrow> True
     | Some expected \<Rightarrow>
         (case Option.bind (map_of hs (lit ''authorization'')) (strip_prefix (lit ''Bearer '')) of
            Some t \<Rightarrow> t | None \<Rightarrow> []) = expected)"

definition help_line :: "ustr \<Rightarrow> ustr \<Rightarrow> ustr" where
  "help_line name text = lit ''# HELP '' @ name @ lit '' '' @ text @ [10] @ lit ''# TYPE '' @ name @ lit '' gauge'' @ [10]"

definition labelled :: "ustr \<Rightarrow> ustr \<Rightarrow> (ustr \<times> nat) list \<Rightarrow> ustr" where
  "labelled name label xs = concat (map (\<lambda>(l, n). name @ lit ''{'' @ label @ lit ''='' @ [34] @ l @ [34] @ lit ''} '' @ nat_to_str n @ [10]) xs)"

definition render_metrics :: "ustr \<Rightarrow> metrics_snapshot \<Rightarrow> ustr" where
  "render_metrics version s =
     help_line (lit ''qdrust_build_info'') (lit ''Build metadata; always 1.'') @ labelled (lit ''qdrust_build_info'') (lit ''version'') [(version, 1)]
     @ help_line (lit ''qdrust_runs_total'') (lit ''Run records by final status.'') @ labelled (lit ''qdrust_runs_total'') (lit ''status'') (ms_runs s)
     @ help_line (lit ''qdrust_runs_active'') (lit ''Runs queued or in flight right now.'')
     @ lit ''qdrust_runs_active '' @ nat_to_str (ms_active s) @ [10]
     @ help_line (lit ''qdrust_runs_oldest_pending_age_seconds'')
         (lit ''Age of the run that has been waiting longest; 0 when the queue is empty.'')
     @ lit ''qdrust_runs_oldest_pending_age_seconds '' @ int_to_str (ms_oldest_age s) @ [10]
     @ help_line (lit ''qdrust_tasks_total'') (lit ''Tasks by whether they are scheduled.'')
     @ labelled (lit ''qdrust_tasks_total'') (lit ''disabled'') [(lit ''false'', ms_tasks_enabled s), (lit ''true'', ms_tasks_disabled s)]
     @ help_line (lit ''qdrust_notification_deliveries_total'') (lit ''Recorded notification attempts by outcome.'')
     @ labelled (lit ''qdrust_notification_deliveries_total'') (lit ''status'') (ms_deliveries s)
     @ help_line (lit ''qdrust_users_total'') (lit ''Accounts that still exist.'')
     @ lit ''qdrust_users_total '' @ nat_to_str (ms_users s) @ [10]"

text \<open>The scrape: no answer at all while the endpoint is off, then the credential.\<close>

datatype scrape = NoEndpoint | Refused | Scraped ustr

definition metrics :: "metrics_config \<Rightarrow> (ustr \<times> ustr) list \<Rightarrow> ustr \<Rightarrow> metrics_snapshot \<Rightarrow> scrape" where
  "metrics c hs version s =
     (if \<not> mc_enabled c then NoEndpoint else if \<not> metrics_authorised c hs then Refused else Scraped (render_metrics version s))"

section \<open>The calendar of runs\<close>

text \<open>\<open>day_of\<close> is the local date of a time in the reader's zone, \<open>YYYY-MM-DD\<close>; nothing where it cannot be represented.\<close>

record calendar_day =
  cd_date :: ustr
  cd_total :: nat
  cd_failed :: nat

definition count_day :: "ustr \<Rightarrow> bool \<Rightarrow> (ustr \<times> nat \<times> nat) list \<Rightarrow> (ustr \<times> nat \<times> nat) list" where
  "count_day d failed m =
     (let (total, bad) = (case map_of m d of Some c \<Rightarrow> c | None \<Rightarrow> (0, 0))
      in bt_insert d (total + 1, if failed then bad + 1 else bad) m)"

definition run_calendar_for_owner :: "(int \<Rightarrow> ustr option) \<Rightarrow> int \<Rightarrow> int \<Rightarrow> int \<Rightarrow> db \<Rightarrow> calendar_day list" where
  "run_calendar_for_owner day_of owner start stop db =
     map (\<lambda>(d, total, bad). \<lparr>cd_date = d, cd_total = total, cd_failed = bad\<rparr>)
       (fold (\<lambda>r m. case day_of (run_created_at r) of None \<Rightarrow> m | Some d \<Rightarrow> count_day d (run_status r = Failed) m)
         (filter (\<lambda>r. owns_task db owner (run_task_id r) \<and> start \<le> run_created_at r \<and> run_created_at r < stop) (runs db)) [])"

end
