(* ===== verification/Api.thy ===== *)
theory Api
  imports SiteRows Scheduler Login
begin

text \<open>
  The handlers of tasks, runs, notifications, templates, plugins, notepads, subscriptions, publication
  and settings (\<open>crates/qdrust-server/src/api.rs\<close>).

  A handler takes the headers and the decoded input and answers with the rows it serialises, or an
  error; the status of a success is left out.  What a template that is run writes into a notepad, and what
  a plugin does, is part of the world \<open>'w\<close>.  The audit log is left out.
\<close>

section \<open>State and answers\<close>

record 'w api =
  api_site :: site
  api_server :: "'w server"
  api_rows :: site_rows
  api_settings :: runtime_settings

record ('w, 'enc) api_env =
  ae_auth :: auth_env
  ae_catalog :: catalog_lib
  ae_urls :: url_lib
  ae_scheduler :: "('w, 'enc) scheduler"
  ae_outside :: "int \<Rightarrow> subprocess_plugin list \<Rightarrow> ('w, 'enc) outside"
  ae_process :: "'w process_lib"
  ae_refusal :: "json \<Rightarrow> ustr"
  ae_zone :: "ustr \<Rightarrow> (ustr \<times> (int \<Rightarrow> ustr option)) option"
  ae_timezone :: "ustr option"

abbreviation api_catalog :: "'w api \<Rightarrow> catalog" where
  "api_catalog a \<equiv> sv_catalog (api_server a)"

abbreviation api_db :: "'w api \<Rightarrow> db" where
  "api_db a \<equiv> base (api_catalog a)"

abbreviation caller :: "authenticated_session \<Rightarrow> int" where
  "caller u \<equiv> user_id (auth_user u)"

definition in_catalog :: "(catalog \<Rightarrow> 'a \<times> catalog) \<Rightarrow> 'w api \<Rightarrow> 'a \<times> 'w api" where
  "in_catalog f a = (let (r, c) = f (api_catalog a) in (r, a\<lparr>api_server := (api_server a)\<lparr>sv_catalog := c\<rparr>\<rparr>))"

definition in_db :: "(db \<Rightarrow> 'a \<times> db) \<Rightarrow> 'w api \<Rightarrow> 'a \<times> 'w api" where
  "in_db f = in_catalog (\<lambda>c. let (r, d) = f (base c) in (r, c\<lparr>base := d\<rparr>))"

definition in_rows :: "(site_rows \<Rightarrow> 'a \<times> site_rows) \<Rightarrow> 'w api \<Rightarrow> 'a \<times> 'w api" where
  "in_rows f a = (let (r, x) = f (api_rows a) in (r, a\<lparr>api_rows := x\<rparr>))"

definition found :: "ustr \<Rightarrow> 'a option \<Rightarrow> api_error + 'a" where
  "found code r = (case r of Some x \<Rightarrow> Inr x | None \<Rightarrow> Inl (NotFound code))"

definition gone_or_done :: "ustr \<Rightarrow> bool \<Rightarrow> api_error + unit" where
  "gone_or_done code done = (if done then Inr () else Inl (NotFound code))"

definition unprocessable :: "error + 'a \<Rightarrow> api_error + 'a" where
  "unprocessable r = (case r of Inl e \<Rightarrow> Inl (Unprocessable e) | Inr x \<Rightarrow> Inr x)"

definition internal :: "error + 'a \<Rightarrow> api_error + 'a" where
  "internal r = (case r of Inl e \<Rightarrow> Inl (Internal e) | Inr x \<Rightarrow> Inr x)"

definition answer :: "('a \<Rightarrow> api_error + 'b) \<Rightarrow> 'a \<times> 'w api \<Rightarrow> (api_error + 'b) \<times> 'w api" where
  "answer f = (\<lambda>(r, a). (f r, a))"

text \<open>The session, from the store alone or through the cache.\<close>

definition as_account :: "('w, 'enc) api_env \<Rightarrow> int \<Rightarrow> request_headers
    \<Rightarrow> (authenticated_session \<Rightarrow> 'w api \<Rightarrow> (api_error + 'a) \<times> 'w api) \<Rightarrow> 'w api \<Rightarrow> (api_error + 'a) \<times> 'w api" where
  "as_account E now hs k a =
     (case require_session_from_store (token_hash (ae_auth E)) now hs (site_acc (api_site a)) of
        (Inl e, c) \<Rightarrow> (Inl e, a\<lparr>api_site := put_acc c (api_site a)\<rparr>)
      | (Inr (_, u), c) \<Rightarrow> k u (a\<lparr>api_site := put_acc c (api_site a)\<rparr>))"

definition as_cached_account :: "('w, 'enc) api_env \<Rightarrow> int \<Rightarrow> request_headers
    \<Rightarrow> (authenticated_session \<Rightarrow> 'w api \<Rightarrow> (api_error + 'a) \<times> 'w api) \<Rightarrow> 'w api \<Rightarrow> (api_error + 'a) \<times> 'w api" where
  "as_cached_account E now hs k a =
     (let A = ae_auth E in
      case require_session (token_hash A) (session_ttl A) (redis_up A) now hs (site_app (api_site a)) of
        (Inl e, st) \<Rightarrow> (Inl e, a\<lparr>api_site := (api_site a)\<lparr>site_app := st\<rparr>\<rparr>)
      | (Inr (_, u), st) \<Rightarrow> k u (a\<lparr>api_site := (api_site a)\<lparr>site_app := st\<rparr>\<rparr>))"

definition is_admin :: "authenticated_session \<Rightarrow> bool" where
  "is_admin u \<longleftrightarrow> role (auth_user u) = lit ''admin''"

definition as_admin :: "('w, 'enc) api_env \<Rightarrow> int \<Rightarrow> request_headers
    \<Rightarrow> (authenticated_session \<Rightarrow> 'w api \<Rightarrow> (api_error + 'a) \<times> 'w api) \<Rightarrow> 'w api \<Rightarrow> (api_error + 'a) \<times> 'w api" where
  "as_admin E now hs k = as_cached_account E now hs (\<lambda>u a.
     if is_admin u then k u a else (Inl (Forbidden (lit ''admin_required'')), a))"

section \<open>Tasks\<close>

definition list_tasks_handler :: "('w, 'enc) api_env \<Rightarrow> int \<Rightarrow> request_headers \<Rightarrow> ustr option \<Rightarrow> 'w api
    \<Rightarrow> (api_error + task_row list) \<times> 'w api" where
  "list_tasks_handler E now hs g = as_account E now hs (\<lambda>u a. (Inr (list_for_owner_with_group (caller u) g (api_catalog a)), a))"

definition create_task_handler :: "('w, 'enc) api_env \<Rightarrow> int \<Rightarrow> request_headers \<Rightarrow> create_task \<Rightarrow> 'w api
    \<Rightarrow> (api_error + task_row) \<times> 'w api" where
  "create_task_handler E now hs input = as_account E now hs (\<lambda>u a.
     answer unprocessable (in_catalog (create_with_owner (ae_catalog E) now (Some (caller u)) input) a))"

definition get_task_handler :: "('w, 'enc) api_env \<Rightarrow> int \<Rightarrow> request_headers \<Rightarrow> int \<Rightarrow> 'w api \<Rightarrow> (api_error + task_row) \<times> 'w api" where
  "get_task_handler E now hs i = as_account E now hs (\<lambda>u a.
     (found (lit ''task_not_found'') (get_for_owner i (caller u) (api_db a)), a))"

definition update_task_handler :: "('w, 'enc) api_env \<Rightarrow> int \<Rightarrow> request_headers \<Rightarrow> int \<Rightarrow> update_task \<Rightarrow> 'w api
    \<Rightarrow> (api_error + task_row) \<times> 'w api" where
  "update_task_handler E now hs i input = as_account E now hs (\<lambda>u a.
     answer (\<lambda>r. case unprocessable r of Inl e \<Rightarrow> Inl e | Inr t \<Rightarrow> found (lit ''task_not_found'') t)
       (in_catalog (update_for_optional_owner (ae_catalog E) now i (Some (caller u)) input) a))"

definition delete_task_handler :: "('w, 'enc) api_env \<Rightarrow> int \<Rightarrow> request_headers \<Rightarrow> int \<Rightarrow> 'w api \<Rightarrow> (api_error + unit) \<times> 'w api" where
  "delete_task_handler E now hs i = as_account E now hs (\<lambda>u a.
     answer (gone_or_done (lit ''task_not_found'')) (in_db (delete_task_rows i (Some (caller u))) a))"

definition list_task_groups :: "('w, 'enc) api_env \<Rightarrow> int \<Rightarrow> request_headers \<Rightarrow> 'w api \<Rightarrow> (api_error + ustr list) \<times> 'w api" where
  "list_task_groups E now hs = as_account E now hs (\<lambda>u a. (Inr (list_groups_for_owner (caller u) (api_catalog a)), a))"

definition batch_tasks :: "('w, 'enc) api_env \<Rightarrow> int \<Rightarrow> request_headers \<Rightarrow> int list \<Rightarrow> ustr \<Rightarrow> 'w api \<Rightarrow> (api_error + nat) \<times> 'w api" where
  "batch_tasks E now hs ids action = as_account E now hs (\<lambda>u a.
     answer unprocessable (in_catalog (batch_operations_for_owner now (caller u) ids action) a))"

section \<open>Runs\<close>

definition list_task_runs_handler :: "('w, 'enc) api_env \<Rightarrow> int \<Rightarrow> request_headers \<Rightarrow> int \<Rightarrow> 'w api
    \<Rightarrow> (api_error + run_row list) \<times> 'w api" where
  "list_task_runs_handler E now hs i = as_account E now hs (\<lambda>u a.
     (found (lit ''task_not_found'') (list_task_runs_for_owner i (caller u) (api_db a)), a))"

text \<open>No retained trace is an empty answer, no task an error.\<close>

definition latest_failure_trace :: "('w, 'enc) api_env \<Rightarrow> int \<Rightarrow> request_headers \<Rightarrow> int \<Rightarrow> 'w api
    \<Rightarrow> (api_error + run_row option) \<times> 'w api" where
  "latest_failure_trace E now hs i = as_account E now hs (\<lambda>u a.
     (case latest_failed_run_trace_for_owner i (caller u) (api_db a) of
        Some r \<Rightarrow> Inr (Some r)
      | None \<Rightarrow> if get_for_owner i (caller u) (api_db a) = None then Inl (NotFound (lit ''task_not_found'')) else Inr None, a))"

record runs_query =
  rq_status :: "ustr option"
  rq_task_id :: "int option"
  rq_from :: "int option"
  rq_to :: "int option"
  rq_before_id :: "int option"
  rq_limit :: "int option"

record runs_page =
  rp_items :: "run_row list"
  rp_has_more :: bool
  rp_next_cursor :: "int option"

definition run_filter_of :: "runs_query \<Rightarrow> run_filter" where
  "run_filter_of q =
     \<lparr>filter_status = (case rq_status q of Some s \<Rightarrow> if trim s = [] then None else Some (trim s) | None \<Rightarrow> None),
      filter_task_id = rq_task_id q, filter_from = rq_from q, filter_to = rq_to q, filter_before_id = rq_before_id q,
      filter_limit = max 1 (min 500 (or_else (rq_limit q) 100))\<rparr>"

definition runs_page_of :: "int \<Rightarrow> run_row list \<Rightarrow> runs_page" where
  "runs_page_of limit rows =
     (let more_rows = limit < int (length rows); items = (if more_rows then take (nat limit) rows else rows)
      in \<lparr>rp_items = items, rp_has_more = more_rows,
        rp_next_cursor = (if more_rows \<and> items \<noteq> [] then Some (run_id (last items)) else None)\<rparr>)"

definition list_runs :: "('w, 'enc) api_env \<Rightarrow> int \<Rightarrow> request_headers \<Rightarrow> runs_query \<Rightarrow> 'w api
    \<Rightarrow> (api_error + runs_page) \<times> 'w api" where
  "list_runs E now hs q = as_account E now hs (\<lambda>u a.
     (Inr (runs_page_of (filter_limit (run_filter_of q)) (search_runs_for_owner (caller u) (run_filter_of q) (api_db a))), a))"

text \<open>Arithmetic on 64-bit integers wraps.\<close>

definition wrap64 :: "int \<Rightarrow> int" where
  "wrap64 x = (x + 2 ^ 63) mod 2 ^ 64 - 2 ^ 63"

definition run_calendar :: "('w, 'enc) api_env \<Rightarrow> int \<Rightarrow> request_headers \<Rightarrow> int option \<Rightarrow> int option \<Rightarrow> ustr option \<Rightarrow> 'w api
    \<Rightarrow> (api_error + int \<times> int \<times> ustr \<times> calendar_day list) \<times> 'w api" where
  "run_calendar E now hs q_from q_to q_tz = as_account E now hs (\<lambda>u a.
     let stop = or_else q_to (wrap64 (now + 86400));
         start = max (or_else q_from (wrap64 (stop - 365 * 86400))) (wrap64 (stop - 400 * 86400));
         tz = (case q_tz of Some s \<Rightarrow> if trim s = [] then UTC else trim s | None \<Rightarrow> UTC)
     in (if stop \<le> start then Inl (Unprocessable [lit ''`to` must be after `from`''])
         else (case ae_zone E tz of None \<Rightarrow> Inl (Unprocessable [lit ''unknown timezone `'' @ tz @ lit ''`''])
           | Some (name, day_of) \<Rightarrow> Inr (start, stop, name, run_calendar_for_owner day_of (caller u) start stop (api_db a))), a))"

definition run_task_handler :: "('w, 'enc) api_env \<Rightarrow> int \<Rightarrow> request_headers \<Rightarrow> int \<Rightarrow> 'w api \<Rightarrow> (api_error + run_row) \<times> 'w api" where
  "run_task_handler E now hs i = as_account E now hs (\<lambda>u a.
     if get_for_owner i (caller u) (api_db a) = None then (Inl (NotFound (lit ''task_not_found'')), a)
     else answer (\<lambda>r. case internal r of Inl e \<Rightarrow> Inl e | Inr (Some r) \<Rightarrow> Inr r
         | Inr None \<Rightarrow> Inl (Conflict (lit ''task_already_running'')))
       (in_db (enqueue_run now i) a))"

text \<open>The run of a task of the caller.\<close>

definition callers_run :: "int \<Rightarrow> authenticated_session \<Rightarrow> 'w api \<Rightarrow> bool" where
  "callers_run i u a \<longleftrightarrow> (case get_run i (api_db a) of None \<Rightarrow> False
     | Some r \<Rightarrow> get_for_owner (run_task_id r) (caller u) (api_db a) \<noteq> None)"

definition cancel_run_handler :: "('w, 'enc) api_env \<Rightarrow> int \<Rightarrow> request_headers \<Rightarrow> int \<Rightarrow> 'w api \<Rightarrow> (api_error + unit) \<times> 'w api" where
  "cancel_run_handler E now hs i = as_account E now hs (\<lambda>u a.
     if \<not> callers_run i u a then (Inl (NotFound (lit ''run_not_found'')), a)
     else answer (\<lambda>done. if done then Inr () else Inl (Conflict (lit ''run_not_active''))) (in_db (cancel_run now i) a))"

definition delete_run_handler :: "('w, 'enc) api_env \<Rightarrow> int \<Rightarrow> request_headers \<Rightarrow> int \<Rightarrow> 'w api \<Rightarrow> (api_error + unit) \<times> 'w api" where
  "delete_run_handler E now hs i = as_account E now hs (\<lambda>u a.
     if \<not> callers_run i u a then (Inl (NotFound (lit ''run_not_found'')), a)
     else answer (gone_or_done (lit ''run_not_found'')) (in_db (delete_run i) a))"

definition delete_all_runs_handler :: "('w, 'enc) api_env \<Rightarrow> int \<Rightarrow> request_headers \<Rightarrow> 'w api \<Rightarrow> (api_error + nat) \<times> 'w api" where
  "delete_all_runs_handler E now hs = as_account E now hs (\<lambda>u a.
     answer Inr (in_db (if is_admin u then delete_all_runs else delete_runs_for_owner (caller u)) a))"

definition delete_task_runs :: "('w, 'enc) api_env \<Rightarrow> int \<Rightarrow> request_headers \<Rightarrow> int \<Rightarrow> 'w api \<Rightarrow> (api_error + nat) \<times> 'w api" where
  "delete_task_runs E now hs i = as_account E now hs (\<lambda>u a.
     if \<not> is_admin u \<and> get_for_owner i (caller u) (api_db a) = None then (Inl (NotFound (lit ''task_not_found'')), a)
     else answer Inr (in_db (delete_runs_for_task i) a))"

definition list_run_steps_handler :: "('w, 'enc) api_env \<Rightarrow> int \<Rightarrow> request_headers \<Rightarrow> int \<Rightarrow> 'w api
    \<Rightarrow> (api_error + run_step list) \<times> 'w api" where
  "list_run_steps_handler E now hs i = as_account E now hs (\<lambda>u a.
     (found (lit ''run_not_found'') (list_run_steps_for_owner i (caller u) (api_db a)), a))"

definition list_run_deliveries :: "('w, 'enc) api_env \<Rightarrow> int \<Rightarrow> request_headers \<Rightarrow> int \<Rightarrow> 'w api
    \<Rightarrow> (api_error + delivery_record list) \<times> 'w api" where
  "list_run_deliveries E now hs i = as_account E now hs (\<lambda>u a.
     (found (lit ''run_not_found'') (list_notification_deliveries_for_run_owner i (caller u) (api_db a)), a))"

text \<open>A delivery that fails again is an outcome: the answer is the ledger after the attempt.\<close>

definition retry_notification_delivery :: "('w, 'enc) api_env \<Rightarrow> int \<Rightarrow> request_headers \<Rightarrow> int \<Rightarrow> 'w api
    \<Rightarrow> (api_error + delivery_record list) \<times> 'w api" where
  "retry_notification_delivery E now hs i = as_cached_account E now hs (\<lambda>u a.
     let db = api_db a; unavailable = (Inl (Conflict (lit ''delivery_unavailable'')), a) in
     case get_notification_delivery i db of None \<Rightarrow> (Inl (NotFound (lit ''delivery_not_found'')), a)
     | Some d \<Rightarrow>
       (case get_for_owner (delivery_task_id d) (caller u) db of None \<Rightarrow> (Inl (NotFound (lit ''delivery_not_found'')), a)
        | Some t \<Rightarrow>
          (case (Option.bind (delivery_action_id d) (\<lambda>x. get_notification_action x (caller u) db),
                 Option.bind (delivery_channel_id d) (\<lambda>x. get_notification_channel x (caller u) db)) of
             (Some act, Some chn) \<Rightarrow>
               (case email_client (email_from_env (sc_env (ae_scheduler E))) of Inl e \<Rightarrow> (Inl (Internal e), a)
                | Inr c \<Rightarrow>
                  let S = (ae_scheduler E)\<lparr>sc_email := c, sc_http := (sc_http (ae_scheduler E))\<lparr>oh_settings := api_settings a\<rparr>\<rparr>;
                      sv = snd (retry_delivery S now d t act chn (api_server a))
                  in (Inr (list_notification_deliveries_for_run (delivery_run_id d) (db_of sv)), a\<lparr>api_server := sv\<rparr>))
           | _ \<Rightarrow> unavailable)))"

end
