(* ===== verification/ApiRest.thy ===== *)
theory ApiRest
  imports Api
begin

text \<open>
  The remaining handlers (\<open>crates/qdrust-server/src/api.rs\<close>): notifications, templates, plugins,
  notepads, subscriptions, publication requests, settings and logs; and the live stream of a run.
\<close>

section \<open>Channels\<close>

definition list_notification_channels_handler :: "('w, 'enc) api_env \<Rightarrow> int \<Rightarrow> request_headers \<Rightarrow> 'w api
    \<Rightarrow> (api_error + notification_channel list) \<times> 'w api" where
  "list_notification_channels_handler E now hs = as_account E now hs (\<lambda>u a. (Inr (list_notification_channels (caller u) (api_db a)), a))"

definition create_notification_channel_handler :: "('w, 'enc) api_env \<Rightarrow> int \<Rightarrow> request_headers \<Rightarrow> ustr \<Rightarrow> ustr \<Rightarrow> json \<Rightarrow> bool
    \<Rightarrow> 'w api \<Rightarrow> (api_error + notification_channel) \<times> 'w api" where
  "create_notification_channel_handler E now hs name kind config enabled = as_account E now hs (\<lambda>u a.
     if \<not> is_known_channel_kind kind
     then (Inl (Unprocessable [lit ''unsupported notification channel kind: '' @ kind]), a)
     else answer unprocessable (in_db (create_notification_channel (ae_urls E) now (caller u) name kind config enabled) a))"

definition get_notification_channel_handler :: "('w, 'enc) api_env \<Rightarrow> int \<Rightarrow> request_headers \<Rightarrow> int \<Rightarrow> 'w api
    \<Rightarrow> (api_error + notification_channel) \<times> 'w api" where
  "get_notification_channel_handler E now hs i = as_account E now hs (\<lambda>u a.
     (found (lit ''notification_channel_not_found'') (get_notification_channel i (caller u) (api_db a)), a))"

definition changed_row :: "ustr \<Rightarrow> error + 'a option \<Rightarrow> api_error + 'a" where
  "changed_row code r = (case unprocessable r of Inl e \<Rightarrow> Inl e | Inr x \<Rightarrow> found code x)"

definition update_notification_channel_handler :: "('w, 'enc) api_env \<Rightarrow> int \<Rightarrow> request_headers \<Rightarrow> int \<Rightarrow> ustr option
    \<Rightarrow> json option \<Rightarrow> bool option \<Rightarrow> 'w api \<Rightarrow> (api_error + notification_channel) \<times> 'w api" where
  "update_notification_channel_handler E now hs i name config enabled = as_account E now hs (\<lambda>u a.
     answer (changed_row (lit ''notification_channel_not_found''))
       (in_db (update_notification_channel (ae_urls E) now i (caller u) name config enabled) a))"

definition delete_notification_channel_handler :: "('w, 'enc) api_env \<Rightarrow> int \<Rightarrow> request_headers \<Rightarrow> int \<Rightarrow> 'w api
    \<Rightarrow> (api_error + unit) \<times> 'w api" where
  "delete_notification_channel_handler E now hs i = as_account E now hs (\<lambda>u a.
     answer (gone_or_done (lit ''notification_channel_not_found'')) (in_db (delete_notification_channel i (caller u)) a))"

definition test_vars :: "clock_lib \<Rightarrow> int \<Rightarrow> ustr option \<Rightarrow> template_vars" where
  "test_vars C now tz = \<lparr>tv_event = lit ''test'', tv_task_id = 0, tv_task_name = lit ''qdrust channel test'', tv_run_id = 0,
     tv_status = lit ''200'', tv_error = [],
     tv_log = lit ''This is a test message from qdrust. If you can read this, the channel works.'',
     tv_time = format_notification_time C now tz\<rparr>"

definition test_message :: "template_vars \<Rightarrow> message" where
  "test_message v =
     (let title = render_vars v (lit ''[qdrust] Test notification'');
          body = render_vars v (join [10] [lit ''This is a test message from qdrust.'',
            lit ''If you can read this, the channel works.'', lit ''Time: {t}''])
      in \<lparr>msg_title = title, msg_body = body, msg_payload = JObj [(lit ''body'', JStr body), (lit ''error'', JNull),
          (lit ''event'', JStr (lit ''test'')), (lit ''http_status'', JNull), (lit ''run_id'', JNull), (lit ''task_id'', JNull),
          (lit ''task_name'', JNull), (lit ''title'', JStr title)]\<rparr>)"

definition test_notification_channel :: "('w, 'enc) api_env \<Rightarrow> int \<Rightarrow> request_headers \<Rightarrow> int \<Rightarrow> 'w api
    \<Rightarrow> (api_error + ustr) \<times> 'w api" where
  "test_notification_channel E now hs i = as_account E now hs (\<lambda>u a.
     case get_notification_channel i (caller u) (api_db a) of None \<Rightarrow> (Inl (NotFound (lit ''notification_channel_not_found'')), a)
     | Some h \<Rightarrow>
       let S = ae_scheduler E; v = test_vars (sc_clock S) now (ae_timezone E);
           (r, w) = deliver (sc_net S) ((sc_http S)\<lparr>oh_settings := api_settings a\<rparr>) (sc_env S) None (channel_kind h) (channel_config h)
             (test_message v) (render_vars v) (sv_world (api_server a));
           a1 = a\<lparr>api_server := (api_server a)\<lparr>sv_world := w\<rparr>\<rparr>
       in (case unprocessable r of Inl e \<Rightarrow> Inl e | Inr _ \<Rightarrow> Inr (channel_kind h), a1))"

section \<open>Bindings and defaults\<close>

definition list_notification_actions_handler :: "('w, 'enc) api_env \<Rightarrow> int \<Rightarrow> request_headers \<Rightarrow> int \<Rightarrow> 'w api
    \<Rightarrow> (api_error + notification_action list) \<times> 'w api" where
  "list_notification_actions_handler E now hs i = as_account E now hs (\<lambda>u a.
     (found (lit ''task_not_found'') (list_notification_actions i (caller u) (api_db a)), a))"

definition list_all_notification_actions_handler :: "('w, 'enc) api_env \<Rightarrow> int \<Rightarrow> request_headers \<Rightarrow> 'w api
    \<Rightarrow> (api_error + notification_action list) \<times> 'w api" where
  "list_all_notification_actions_handler E now hs = as_account E now hs (\<lambda>u a.
     (Inr (list_all_notification_actions (caller u) (api_db a)), a))"

definition create_notification_action_handler :: "('w, 'enc) api_env \<Rightarrow> int \<Rightarrow> request_headers \<Rightarrow> int \<Rightarrow> create_action \<Rightarrow> 'w api
    \<Rightarrow> (api_error + notification_action) \<times> 'w api" where
  "create_notification_action_handler E now hs i input = as_account E now hs (\<lambda>u a.
     answer (changed_row (lit ''task_or_channel_not_found'')) (in_db (create_notification_action now i (caller u) input) a))"

definition clear_task_notification_actions :: "('w, 'enc) api_env \<Rightarrow> int \<Rightarrow> request_headers \<Rightarrow> int \<Rightarrow> 'w api
    \<Rightarrow> (api_error + nat) \<times> 'w api" where
  "clear_task_notification_actions E now hs i = as_account E now hs (\<lambda>u a.
     if get_for_owner i (caller u) (api_db a) = None then (Inl (NotFound (lit ''task_not_found'')), a)
     else answer Inr (in_db (delete_notification_actions_for_task i (caller u)) a))"

definition batch_create_notification_actions :: "('w, 'enc) api_env \<Rightarrow> int \<Rightarrow> request_headers \<Rightarrow> int list \<Rightarrow> create_action \<Rightarrow> 'w api
    \<Rightarrow> (api_error + nat) \<times> 'w api" where
  "batch_create_notification_actions E now hs ids input = as_account E now hs (\<lambda>u a.
     answer unprocessable (in_db (create_notification_actions_for_tasks now (caller u) ids input) a))"

definition delete_notification_action_handler :: "('w, 'enc) api_env \<Rightarrow> int \<Rightarrow> request_headers \<Rightarrow> int \<Rightarrow> 'w api
    \<Rightarrow> (api_error + unit) \<times> 'w api" where
  "delete_notification_action_handler E now hs i = as_account E now hs (\<lambda>u a.
     answer (gone_or_done (lit ''notification_action_not_found'')) (in_db (delete_notification_action i (caller u)) a))"

definition update_notification_action_handler :: "('w, 'enc) api_env \<Rightarrow> int \<Rightarrow> request_headers \<Rightarrow> int \<Rightarrow> update_action \<Rightarrow> 'w api
    \<Rightarrow> (api_error + notification_action) \<times> 'w api" where
  "update_notification_action_handler E now hs i input = as_account E now hs (\<lambda>u a.
     answer (changed_row (lit ''notification_action_not_found'')) (in_db (update_notification_action i (caller u) input) a))"

record preview =
  pv_event :: ustr
  pv_task_id :: int
  pv_channel_id :: int
  pv_run_id :: "int option"
  pv_title :: ustr
  pv_body :: ustr

text \<open>The text a binding would deliver for a run of its task, named or the newest.\<close>

definition preview_binding :: "clock_lib \<Rightarrow> int \<Rightarrow> ustr option \<Rightarrow> notification_action \<Rightarrow> task_row \<Rightarrow> run_row option
    \<Rightarrow> notification_default list \<Rightarrow> preview" where
  "preview_binding C now requested act t run defaults =
     (let event = preview_event (action_event act) requested (map_option (\<lambda>r. run_status r = Failed) run);
          dflt = find (\<lambda>d. default_event d = event) defaults;
          v = run_vars C now t (case run of Some r \<Rightarrow> run_id r | None \<Rightarrow> 0) run event (Option.bind run run_http_status)
            (Option.bind run run_error) None;
          m = notification_message act dflt v JNull
      in \<lparr>pv_event = event, pv_task_id = action_task_id act, pv_channel_id = action_channel_id act, pv_run_id = map_option run_id run,
          pv_title = msg_title m, pv_body = msg_body m\<rparr>)"

definition preview_notification_action :: "('w, 'enc) api_env \<Rightarrow> int \<Rightarrow> request_headers \<Rightarrow> int \<Rightarrow> int option \<Rightarrow> ustr option \<Rightarrow> 'w api
    \<Rightarrow> (api_error + preview) \<times> 'w api" where
  "preview_notification_action E now hs i q_run requested = as_account E now hs (\<lambda>u a.
     (if requested \<noteq> None \<and> requested \<noteq> Some (lit ''success'') \<and> requested \<noteq> Some (lit ''failure'')
      then Inl (Unprocessable [lit ''invalid notification event '' @ debug_text (ae_catalog E) (the requested)
        @ lit '': expected success or failure''])
      else case get_notification_action i (caller u) (api_db a) of None \<Rightarrow> Inl (NotFound (lit ''notification_action_not_found''))
      | Some act \<Rightarrow>
        (case get_for_owner (action_task_id act) (caller u) (api_db a) of None \<Rightarrow> Inl (NotFound (lit ''task_not_found''))
         | Some t \<Rightarrow>
           let rs = (case list_task_runs_for_owner (action_task_id act) (caller u) (api_db a) of Some rs \<Rightarrow> rs | None \<Rightarrow> []);
               run = (case q_run of Some r \<Rightarrow> find (\<lambda>x. run_id x = r) rs | None \<Rightarrow> (case rs of [] \<Rightarrow> None | r # _ \<Rightarrow> Some r))
           in Inr (preview_binding (sc_clock (ae_scheduler E)) now requested act t run
                (notification_defaults (caller u) (sv_defaults (api_server a))))), a))"

definition list_notification_defaults :: "('w, 'enc) api_env \<Rightarrow> int \<Rightarrow> request_headers \<Rightarrow> 'w api
    \<Rightarrow> (api_error + notification_default list) \<times> 'w api" where
  "list_notification_defaults E now hs = as_account E now hs (\<lambda>u a.
     (Inr (notification_defaults (caller u) (sv_defaults (api_server a))), a))"

definition set_notification_default_handler :: "('w, 'enc) api_env \<Rightarrow> int \<Rightarrow> request_headers \<Rightarrow> ustr \<Rightarrow> ustr option \<Rightarrow> ustr option
    \<Rightarrow> 'w api \<Rightarrow> (api_error + notification_default) \<times> 'w api" where
  "set_notification_default_handler E now hs event title body = as_account E now hs (\<lambda>u a.
     if event \<noteq> lit ''success'' \<and> event \<noteq> lit ''failure''
     then (Inl (Unprocessable [lit ''invalid notification event '' @ debug_text (ae_catalog E) event
        @ lit '': expected success or failure'']), a)
     else let (r, ds) = set_notification_default now (caller u) event title body (sv_defaults (api_server a))
       in (unprocessable r, a\<lparr>api_server := (api_server a)\<lparr>sv_defaults := ds\<rparr>\<rparr>))"

section \<open>Templates\<close>

text \<open>
  The page of a template list.  The search has clamped the limit, the page has not: a row too many is cut
  off, and nothing at all (\<open>None\<close>) comes of cutting a row off an empty answer: the task panics.
\<close>

record template_page =
  tp_items :: "template_row list"
  tp_has_more :: bool
  tp_next_cursor :: "int option"

definition template_page_of :: "int \<Rightarrow> template_row list \<Rightarrow> template_page option" where
  "template_page_of limit rows =
     (let more_rows = limit < int (length rows); items = (if more_rows then butlast rows else rows) in
      if more_rows \<and> rows = [] then None
      else Some \<lparr>tp_items = items, tp_has_more = more_rows,
        tp_next_cursor = (if more_rows \<and> items \<noteq> [] then Some (tpl_id (last items)) else None)\<rparr>)"

definition list_templates_handler :: "('w, 'enc) api_env \<Rightarrow> int \<Rightarrow> request_headers \<Rightarrow> ustr option \<Rightarrow> ustr option \<Rightarrow> int option
    \<Rightarrow> int option \<Rightarrow> 'w api \<Rightarrow> (api_error + template_page option) \<times> 'w api" where
  "list_templates_handler E now hs q g cursor q_limit = as_account E now hs (\<lambda>u a.
     let limit = or_else q_limit 50
     in (Inr (template_page_of limit (search_templates_for_owner (ae_catalog E) (caller u) q g cursor limit (api_catalog a))), a))"

definition list_public_templates_handler :: "('w, 'enc) api_env \<Rightarrow> int \<Rightarrow> request_headers \<Rightarrow> 'w api
    \<Rightarrow> (api_error + template_row list) \<times> 'w api" where
  "list_public_templates_handler E now hs = as_account E now hs (\<lambda>_ a. (Inr (list_public_templates (api_catalog a)), a))"

definition publish_template :: "('w, 'enc) api_env \<Rightarrow> int \<Rightarrow> request_headers \<Rightarrow> int \<Rightarrow> 'w api \<Rightarrow> (api_error + unit) \<times> 'w api" where
  "publish_template E now hs i = as_account E now hs (\<lambda>u a.
     answer (gone_or_done (lit ''template_not_found'')) (in_catalog (set_template_published now i (caller u) True) a))"

definition unpublish_template :: "('w, 'enc) api_env \<Rightarrow> int \<Rightarrow> request_headers \<Rightarrow> int \<Rightarrow> 'w api \<Rightarrow> (api_error + unit) \<times> 'w api" where
  "unpublish_template E now hs i = as_account E now hs (\<lambda>u a.
     answer (gone_or_done (lit ''template_not_found'')) (in_catalog (set_template_published now i (caller u) False) a))"

definition copy_public_template_handler :: "('w, 'enc) api_env \<Rightarrow> int \<Rightarrow> request_headers \<Rightarrow> int \<Rightarrow> 'w api
    \<Rightarrow> (api_error + template_row) \<times> 'w api" where
  "copy_public_template_handler E now hs i = as_account E now hs (\<lambda>u a.
     answer (found (lit ''public_template_not_found'')) (in_catalog (copy_public_template now i (caller u)) a))"

definition create_template_handler :: "('w, 'enc) api_env \<Rightarrow> int \<Rightarrow> request_headers \<Rightarrow> ustr \<Rightarrow> ustr option \<Rightarrow> template_definition
    \<Rightarrow> ustr option \<Rightarrow> 'w api \<Rightarrow> (api_error + template_row) \<times> 'w api" where
  "create_template_handler E now hs name description d g = as_account E now hs (\<lambda>u a.
     answer unprocessable (in_catalog (create_template_with_owner now (Some (caller u)) name description d g) a))"

definition import_qd_har_handler :: "('w, 'enc) api_env \<Rightarrow> int \<Rightarrow> request_headers \<Rightarrow> ustr \<Rightarrow> ustr option \<Rightarrow> json \<Rightarrow> 'w api
    \<Rightarrow> (api_error + template_row) \<times> 'w api" where
  "import_qd_har_handler E now hs name description har = as_account E now hs (\<lambda>u a.
     answer unprocessable (in_catalog (import_qd_har_with_owner (ae_catalog E) now (Some (caller u)) name description har) a))"

record har_validation =
  hv_entries :: nat
  hv_enabled :: nat
  hv_requests :: nat
  hv_controls :: nat
  hv_extract :: nat

text \<open>Open to anybody.  The compiler always returns (\<open>compile_program_total\<close>).\<close>

definition validate_qd_har :: "catalog_lib \<Rightarrow> json \<Rightarrow> api_error + har_validation" where
  "validate_qd_har L har = unprocessable (rbind (parse_qd (har_refusal L) har) (\<lambda>d. rbind (compile_har d) (\<lambda>_.
     let enabled = enabled_entries d; controls = filter (\<lambda>e. entry_control e \<noteq> None) enabled
     in Inr \<lparr>hv_entries = length (log_entries d), hv_enabled = length enabled, hv_requests = length enabled - length controls,
          hv_controls = length controls, hv_extract = sum_list (map (\<lambda>e. length (en_extract e)) enabled)\<rparr>)))"

text \<open>A template is run with the caller's variables; nothing is stored.\<close>

definition test_template :: "('w, 'enc) api_env \<Rightarrow> int \<Rightarrow> request_headers \<Rightarrow> int \<Rightarrow> vars \<Rightarrow> 'w api
    \<Rightarrow> (api_error + step_result list \<times> vars \<times> ustr option) \<times> 'w api" where
  "test_template E now hs i vs = as_account E now hs (\<lambda>u a.
     case get_template_for_owner i (caller u) (api_catalog a) of None \<Rightarrow> (Inl (NotFound (lit ''template_not_found'')), a)
     | Some p \<Rightarrow>
       let S = ae_scheduler E;
           out = ae_outside E (caller u) (load_plugins_for_owner (ae_refusal E) (caller u) (api_rows a));
           (result, s) = execute_template_with_observer (sc_engine S) out (sc_refusal S) (run_policy_of None (api_settings a))
             False None p vs (sv_world (api_server a));
           a1 = a\<lparr>api_server := (api_server a)\<lparr>sv_world := rn_world s\<rparr>\<rparr>
       in (unprocessable (rbind result (\<lambda>(steps, final). Inr (steps, final, log_message final))), a1))"

definition get_template_handler :: "('w, 'enc) api_env \<Rightarrow> int \<Rightarrow> request_headers \<Rightarrow> int \<Rightarrow> 'w api \<Rightarrow> (api_error + template_row) \<times> 'w api" where
  "get_template_handler E now hs i = as_account E now hs (\<lambda>u a.
     (found (lit ''template_not_found'') (get_template_for_owner i (caller u) (api_catalog a)), a))"

definition update_template_handler :: "('w, 'enc) api_env \<Rightarrow> int \<Rightarrow> request_headers \<Rightarrow> int \<Rightarrow> ustr option \<Rightarrow> ustr option
    \<Rightarrow> template_definition option \<Rightarrow> ustr option option \<Rightarrow> 'w api \<Rightarrow> (api_error + template_row) \<times> 'w api" where
  "update_template_handler E now hs i name description d g = as_account E now hs (\<lambda>u a.
     answer (changed_row (lit ''template_not_found''))
       (in_catalog (update_template_with_owner now i (Some (caller u)) name description d g) a))"

definition delete_template_handler :: "('w, 'enc) api_env \<Rightarrow> int \<Rightarrow> request_headers \<Rightarrow> int \<Rightarrow> 'w api \<Rightarrow> (api_error + unit) \<times> 'w api" where
  "delete_template_handler E now hs i = as_account E now hs (\<lambda>u a.
     answer (\<lambda>r. case r of NoContent \<Rightarrow> Inr () | TemplateNotFound \<Rightarrow> Inl (NotFound (lit ''template_not_found''))
        | TemplateInUse n \<Rightarrow> Inl (Conflict (lit ''template_in_use'')) | Failure e \<Rightarrow> Inl (Internal e))
       (in_catalog (delete_template i (caller u)) a))"

definition update_qd_har_handler :: "('w, 'enc) api_env \<Rightarrow> int \<Rightarrow> request_headers \<Rightarrow> int \<Rightarrow> ustr \<Rightarrow> ustr option \<Rightarrow> json \<Rightarrow> 'w api
    \<Rightarrow> (api_error + template_row) \<times> 'w api" where
  "update_qd_har_handler E now hs i name description har = as_account E now hs (\<lambda>u a.
     answer (changed_row (lit ''template_not_found''))
       (in_catalog (update_qd_har_for_owner (ae_catalog E) now i (caller u) name description har) a))"

end
