(* ===== verification/ApiSite.thy ===== *)
theory ApiSite
  imports ApiRest
begin

text \<open>
  The handlers of plugins, notepads, subscriptions, publication requests, settings and logs, and the live
  stream of a run (\<open>crates/qdrust-server/src/api.rs\<close>).
\<close>

section \<open>Plugins\<close>

definition list_plugins_handler :: "('w, 'enc) api_env \<Rightarrow> int \<Rightarrow> request_headers \<Rightarrow> 'w api \<Rightarrow> (api_error + plugin_row list) \<times> 'w api" where
  "list_plugins_handler E now hs = as_account E now hs (\<lambda>u a. (Inr (list_plugins (caller u) (api_rows a)), a))"

definition create_plugin_handler :: "('w, 'enc) api_env \<Rightarrow> int \<Rightarrow> request_headers \<Rightarrow> ustr \<Rightarrow> ustr \<Rightarrow> json \<Rightarrow> bool \<Rightarrow> 'w api
    \<Rightarrow> (api_error + plugin_row) \<times> 'w api" where
  "create_plugin_handler E now hs name command config enabled = as_account E now hs (\<lambda>u a.
     answer unprocessable (in_rows (create_plugin (ae_refusal E) now (caller u) name command config enabled) a))"

definition get_plugin_handler :: "('w, 'enc) api_env \<Rightarrow> int \<Rightarrow> request_headers \<Rightarrow> int \<Rightarrow> 'w api \<Rightarrow> (api_error + plugin_row) \<times> 'w api" where
  "get_plugin_handler E now hs i = as_account E now hs (\<lambda>u a.
     (found (lit ''plugin_not_found'') (get_plugin i (caller u) (api_rows a)), a))"

definition update_plugin_handler :: "('w, 'enc) api_env \<Rightarrow> int \<Rightarrow> request_headers \<Rightarrow> int \<Rightarrow> ustr option \<Rightarrow> ustr option \<Rightarrow> json option
    \<Rightarrow> bool option \<Rightarrow> 'w api \<Rightarrow> (api_error + plugin_row) \<times> 'w api" where
  "update_plugin_handler E now hs i name command config enabled = as_account E now hs (\<lambda>u a.
     answer (changed_row (lit ''plugin_not_found''))
       (in_rows (update_plugin (ae_refusal E) now i (caller u) name command config enabled) a))"

definition delete_plugin_handler :: "('w, 'enc) api_env \<Rightarrow> int \<Rightarrow> request_headers \<Rightarrow> int \<Rightarrow> 'w api \<Rightarrow> (api_error + unit) \<times> 'w api" where
  "delete_plugin_handler E now hs i = as_account E now hs (\<lambda>u a.
     answer (gone_or_done (lit ''plugin_not_found'')) (in_rows (delete_plugin i (caller u)) a))"

text \<open>The call itself; \<open>late\<close> is the world when it is given up after ten seconds.\<close>

definition invoke_plugin :: "('w, 'enc) api_env \<Rightarrow> int \<Rightarrow> 'w option \<Rightarrow> request_headers \<Rightarrow> int \<Rightarrow> ustr \<Rightarrow> (ustr \<times> ustr) list \<Rightarrow> 'w api
    \<Rightarrow> (api_error + plugin_response) \<times> 'w api" where
  "invoke_plugin E now late hs i action query = as_account E now hs (\<lambda>u a.
     case Option.bind (get_plugin i (caller u) (api_rows a)) (\<lambda>p. if plugin_enabled p then Some p else None) of
       None \<Rightarrow> (Inl (NotFound (lit ''plugin_not_found'')), a)
     | Some p \<Rightarrow>
       if trim action = [] then (Inl (Unprocessable [lit ''plugin action cannot be empty'']), a)
       else (case build_plugin (ae_refusal E) p of Inl e \<Rightarrow> (Inl (Unprocessable e), a)
         | Inr runner \<Rightarrow>
           let (r, w) = (case late of Some w \<Rightarrow> (Inl [lit ''plugin call timed out''], w)
                 | None \<Rightarrow> subprocess_call (ae_process E) runner
                     \<lparr>pq_plugin_id = plugin_address p, pq_action = action, pq_query = query\<rparr> (sv_world (api_server a)))
           in (unprocessable r, a\<lparr>api_server := (api_server a)\<lparr>sv_world := w\<rparr>\<rparr>)))"

section \<open>Notepads\<close>

definition NOTEPAD_EDIT_LIMIT :: nat where "NOTEPAD_EDIT_LIMIT = 256 * 1024"
definition NOTEPAD_PREVIEW_CHARS :: nat where "NOTEPAD_PREVIEW_CHARS = 120"

record notepad_line =
  nl_id :: int
  nl_size :: nat
  nl_preview :: ustr
  nl_updated_at :: int

definition notepad_text :: "ustr option \<Rightarrow> ustr" where
  "notepad_text c = (case c of Some t \<Rightarrow> t | None \<Rightarrow> [])"

definition list_notepads :: "('w, 'enc) api_env \<Rightarrow> int \<Rightarrow> request_headers \<Rightarrow> 'w api \<Rightarrow> (api_error + notepad_line list) \<times> 'w api" where
  "list_notepads E now hs = as_account E now hs (\<lambda>u a.
     (Inr (map (\<lambda>n. \<lparr>nl_id = notepad_id n, nl_size = byte_len (notepad_text (notepad_content n)),
        nl_preview = take NOTEPAD_PREVIEW_CHARS (notepad_text (notepad_content n)), nl_updated_at = notepad_updated_at n\<rparr>)
        (notepad_rows (caller u) (api_rows a))), a))"

definition get_notepad :: "('w, 'enc) api_env \<Rightarrow> int \<Rightarrow> request_headers \<Rightarrow> int \<Rightarrow> 'w api \<Rightarrow> (api_error + ustr) \<times> 'w api" where
  "get_notepad E now hs slot = as_account E now hs (\<lambda>u a.
     (case notepad_slot (caller u) slot (api_rows a) of
        Missing \<Rightarrow> Inl (NotFound (lit ''notepad_not_found'')) | Stored c \<Rightarrow> Inr (notepad_text c), a))"

text \<open>The answer says whether the slot is new.\<close>

definition set_notepad :: "('w, 'enc) api_env \<Rightarrow> int \<Rightarrow> request_headers \<Rightarrow> int \<Rightarrow> ustr \<Rightarrow> 'w api \<Rightarrow> (api_error + bool) \<times> 'w api" where
  "set_notepad E now hs slot content = as_account E now hs (\<lambda>u a.
     if slot < 1 then (Inl (Unprocessable [lit ''notepad slot must be a positive integer: '' @ int_to_str slot]), a)
     else if NOTEPAD_EDIT_LIMIT < byte_len content
     then (Inl (Unprocessable [lit ''notepad content exceeds the '' @ nat_to_str NOTEPAD_EDIT_LIMIT @ lit '' byte edit limit'']), a)
     else
       let created = (notepad_slot (caller u) slot (api_rows a) = Missing) in
       if created \<and> NOTEPAD_LIMIT \<le> length (notepad_slots (caller u) (api_rows a))
       then (Inl (Unprocessable [lit ''notepad slot limit reached: '' @ nat_to_str NOTEPAD_LIMIT]), a)
       else (Inr created, a\<lparr>api_rows := notepad_write now (caller u) slot (Some content) (api_rows a)\<rparr>))"

definition delete_notepad :: "('w, 'enc) api_env \<Rightarrow> int \<Rightarrow> request_headers \<Rightarrow> int \<Rightarrow> 'w api \<Rightarrow> (api_error + unit) \<times> 'w api" where
  "delete_notepad E now hs slot = as_account E now hs (\<lambda>u a.
     answer (gone_or_done (lit ''notepad_not_found'')) (in_rows (notepad_remove (caller u) slot) a))"

section \<open>Subscriptions and publication\<close>

definition list_subscriptions_handler :: "('w, 'enc) api_env \<Rightarrow> int \<Rightarrow> request_headers \<Rightarrow> 'w api \<Rightarrow> (api_error + subscription list) \<times> 'w api" where
  "list_subscriptions_handler E now hs = as_cached_account E now hs (\<lambda>u a. (Inr (list_subscriptions (caller u) (api_catalog a)), a))"

definition create_subscription_handler :: "('w, 'enc) api_env \<Rightarrow> int \<Rightarrow> request_headers \<Rightarrow> ustr \<Rightarrow> ustr \<Rightarrow> 'w api
    \<Rightarrow> (api_error + subscription) \<times> 'w api" where
  "create_subscription_handler E now hs name url = as_cached_account E now hs (\<lambda>u a.
     answer unprocessable (in_catalog (create_subscription now (caller u) name url) a))"

definition get_subscription_handler :: "('w, 'enc) api_env \<Rightarrow> int \<Rightarrow> request_headers \<Rightarrow> int \<Rightarrow> 'w api \<Rightarrow> (api_error + subscription) \<times> 'w api" where
  "get_subscription_handler E now hs i = as_cached_account E now hs (\<lambda>u a.
     (found (lit ''subscription_not_found'') (get_subscription i (caller u) (api_catalog a)), a))"

definition update_subscription_handler :: "('w, 'enc) api_env \<Rightarrow> int \<Rightarrow> request_headers \<Rightarrow> int \<Rightarrow> ustr option \<Rightarrow> ustr option \<Rightarrow> bool option
    \<Rightarrow> 'w api \<Rightarrow> (api_error + subscription) \<times> 'w api" where
  "update_subscription_handler E now hs i name url enabled = as_cached_account E now hs (\<lambda>u a.
     answer (changed_row (lit ''subscription_not_found''))
       (in_catalog (update_subscription now i (caller u) name url enabled) a))"

definition delete_subscription_handler :: "('w, 'enc) api_env \<Rightarrow> int \<Rightarrow> request_headers \<Rightarrow> int \<Rightarrow> 'w api \<Rightarrow> (api_error + unit) \<times> 'w api" where
  "delete_subscription_handler E now hs i = as_cached_account E now hs (\<lambda>u a.
     answer (gone_or_done (lit ''subscription_not_found'')) (in_catalog (delete_subscription i (caller u)) a))"

definition create_push_request_handler :: "('w, 'enc) api_env \<Rightarrow> int \<Rightarrow> request_headers \<Rightarrow> int \<Rightarrow> ustr option \<Rightarrow> 'w api
    \<Rightarrow> (api_error + push_request) \<times> 'w api" where
  "create_push_request_handler E now hs i note = as_cached_account E now hs (\<lambda>u a.
     answer (changed_row (lit ''template_not_found_or_already_public'')) (in_catalog (create_push_request now (caller u) i note) a))"

definition list_my_push_requests :: "('w, 'enc) api_env \<Rightarrow> int \<Rightarrow> request_headers \<Rightarrow> 'w api \<Rightarrow> (api_error + push_request list) \<times> 'w api" where
  "list_my_push_requests E now hs = as_cached_account E now hs (\<lambda>u a.
     (Inr (list_push_requests_for_owner (caller u) (api_catalog a)), a))"

definition list_admin_push_requests :: "('w, 'enc) api_env \<Rightarrow> int \<Rightarrow> request_headers \<Rightarrow> ustr option \<Rightarrow> 'w api
    \<Rightarrow> (api_error + push_request list) \<times> 'w api" where
  "list_admin_push_requests E now hs status = as_admin E now hs (\<lambda>_ a. (Inr (list_push_requests status (api_catalog a)), a))"

definition decide_push_request_handler :: "('w, 'enc) api_env \<Rightarrow> int \<Rightarrow> request_headers \<Rightarrow> int \<Rightarrow> bool \<Rightarrow> ustr option \<Rightarrow> 'w api
    \<Rightarrow> (api_error + push_request) \<times> 'w api" where
  "decide_push_request_handler E now hs i approve note = as_admin E now hs (\<lambda>u a.
     answer (found (lit ''push_request_not_found'')) (in_catalog (decide_push_request now i (caller u) approve note) a))"

section \<open>Settings and logs\<close>

definition admin_list_settings :: "('w, 'enc) api_env \<Rightarrow> int \<Rightarrow> request_headers \<Rightarrow> 'w api \<Rightarrow> (api_error + site_setting list) \<times> 'w api" where
  "admin_list_settings E now hs = as_admin E now hs (\<lambda>_ a. (Inr (list_settings (api_rows a)), a))"

definition admin_get_setting :: "('w, 'enc) api_env \<Rightarrow> int \<Rightarrow> request_headers \<Rightarrow> ustr \<Rightarrow> 'w api \<Rightarrow> (api_error + site_setting) \<times> 'w api" where
  "admin_get_setting E now hs key = as_admin E now hs (\<lambda>_ a.
     (found (lit ''setting_not_found'') (get_setting key (api_rows a)), a))"

definition ensure_setting_key :: "ustr \<Rightarrow> api_error + unit" where
  "ensure_setting_key key = (if key = [] \<or> 128 < byte_len key then Inl (Unprocessable [lit ''setting key is invalid'']) else Inr ())"

definition admin_set_setting :: "('w, 'enc) api_env \<Rightarrow> int \<Rightarrow> request_headers \<Rightarrow> ustr \<Rightarrow> json \<Rightarrow> 'w api \<Rightarrow> (api_error + site_setting) \<times> 'w api" where
  "admin_set_setting E now hs key v = as_admin E now hs (\<lambda>_ a.
     case ensure_setting_key key of Inl e \<Rightarrow> (Inl e, a)
     | Inr _ \<Rightarrow> (let (s, x) = set_setting now key v (api_rows a)
         in (Inr s, a\<lparr>api_rows := x, api_settings := apply_runtime_setting key v (api_settings a)\<rparr>)))"

definition admin_clear_logs :: "('w, 'enc) api_env \<Rightarrow> int \<Rightarrow> request_headers \<Rightarrow> int option \<Rightarrow> 'w api \<Rightarrow> (api_error + int) \<times> 'w api" where
  "admin_clear_logs E now hs older = as_admin E now hs (\<lambda>_ a.
     let days = max (or_else older 0) 0; before = wrap64 (now - wrap64 (days * 86400)) in
     if days = 0 then (let n = count_old_runs before (api_db a); (_, a1) = in_db (prune_run_logs before 0) a in (Inr n, a1))
     else (let (n, a1) = in_db (prune_run_logs before 0) a in (Inr (int n), a1)))"

section \<open>The live stream of a run\<close>

text \<open>
  What reaches the task of a socket, with the tables as they are at that moment.  A frame that cannot be
  sent is the client that has gone.
\<close>

datatype stream_input = ClientGone | ClientPing | ClientFrame | PingTick | Published run_event | Lagged | PublisherGone

datatype frame = Snapshot "run_step list" | Status ustr "ustr option" | Ping | Pong | Forwarded run_event

definition is_terminal_run_status :: "ustr \<Rightarrow> bool" where
  "is_terminal_run_status s \<longleftrightarrow> s \<in> {lit ''succeeded'', lit ''failed'', lit ''cancelled''}"

definition send_run_snapshot :: "int \<Rightarrow> db \<Rightarrow> frame list \<times> bool" where
  "send_run_snapshot rid db = (let snapshot = Snapshot (list_run_steps rid db) in case get_run rid db of
      None \<Rightarrow> ([snapshot], True)
    | Some r \<Rightarrow> if is_terminal_run_status (status_str (run_status r))
        then ([snapshot, Status (status_str (run_status r)) (run_error r)], False) else ([snapshot], True))"

definition is_last_event :: "run_event \<Rightarrow> bool" where
  "is_last_event e \<longleftrightarrow> re_kind e = lit ''status'' \<and> (case re_status e of Some s \<Rightarrow> is_terminal_run_status s | None \<Rightarrow> False)"

text \<open>The frames sent for one input, and whether the stream goes on.\<close>

definition stream_one :: "int \<Rightarrow> stream_input \<Rightarrow> db \<Rightarrow> frame list \<times> bool" where
  "stream_one rid x db = (case x of
      ClientGone \<Rightarrow> ([], False)
    | ClientPing \<Rightarrow> ([Pong], True)
    | ClientFrame \<Rightarrow> ([], True)
    | PingTick \<Rightarrow> ([Ping], True)
    | PublisherGone \<Rightarrow> ([], False)
    | Lagged \<Rightarrow> send_run_snapshot rid db
    | Published e \<Rightarrow> if re_run_id e \<noteq> rid then ([], True) else ([Forwarded e], \<not> is_last_event e))"

fun stream_rest :: "int \<Rightarrow> (stream_input \<times> db) list \<Rightarrow> frame list \<times> bool" where
  "stream_rest rid [] = ([], True)"
| "stream_rest rid ((x, db) # xs) = (case stream_one rid x db of
      (fs, False) \<Rightarrow> (fs, False)
    | (fs, True) \<Rightarrow> (let (gs, open_still) = stream_rest rid xs in (fs @ gs, open_still)))"

definition stream_run_steps :: "int \<Rightarrow> db \<Rightarrow> (stream_input \<times> db) list \<Rightarrow> frame list \<times> bool" where
  "stream_run_steps rid db xs = (case send_run_snapshot rid db of
      (fs, False) \<Rightarrow> (fs, False)
    | (fs, True) \<Rightarrow> (let (gs, open_still) = stream_rest rid xs in (fs @ gs, open_still)))"

text \<open>The upgrade: the run must belong to the caller.\<close>

definition run_steps_websocket :: "('w, 'enc) api_env \<Rightarrow> int \<Rightarrow> request_headers \<Rightarrow> int \<Rightarrow> (stream_input \<times> db) list \<Rightarrow> 'w api
    \<Rightarrow> (api_error + frame list \<times> bool) \<times> 'w api" where
  "run_steps_websocket E now hs i xs = as_cached_account E now hs (\<lambda>u a.
     (if list_run_steps_for_owner i (caller u) (api_db a) = None then Inl (NotFound (lit ''run_not_found''))
      else Inr (stream_run_steps i (api_db a) xs), a))"

end
