(* ===== verification/ApiProps.thy ===== *)
theory ApiProps
  imports ApiSite CatalogProps
begin

text \<open>
  What a request may change: \<open>spares v\<close> says that two states hold the same rows of the account \<open>v\<close>, and
  every statement a handler makes for an account spares all the others.
\<close>

section \<open>The rows of an account\<close>

definition kept :: "('r \<Rightarrow> bool) \<Rightarrow> 'r list \<Rightarrow> 'r list \<Rightarrow> bool" where
  "kept Q xs ys \<longleftrightarrow> filter Q ys = filter Q xs"

named_theorems kept_rules

lemma kept_refl [kept_rules]: "kept Q xs xs"
  by (simp add: kept_def)

lemma kept_trans: "kept Q xs ys \<Longrightarrow> kept Q ys zs \<Longrightarrow> kept Q xs zs"
  by (simp add: kept_def)

lemma kept_snoc [kept_rules]: "\<not> Q x \<Longrightarrow> kept Q xs (xs @ [x])"
  by (simp add: kept_def)

lemma kept_update [kept_rules]: "(\<And>x. x \<in> set xs \<Longrightarrow> P x \<Longrightarrow> \<not> Q x) \<Longrightarrow> (\<And>x. x \<in> set xs \<Longrightarrow> P x \<Longrightarrow> \<not> Q (f x)) \<Longrightarrow> kept Q xs (update_where P f xs)"
  by (induction xs) (auto simp: kept_def update_where_def)

lemma kept_delete [kept_rules]: "(\<And>x. x \<in> set xs \<Longrightarrow> P x \<Longrightarrow> \<not> Q x) \<Longrightarrow> kept Q xs (delete_where P xs)"
  by (induction xs) (auto simp: kept_def delete_where_def)

definition spares_db :: "int \<Rightarrow> db \<Rightarrow> db \<Rightarrow> bool" where
  "spares_db v db db2 \<longleftrightarrow> kept (\<lambda>t. owner_id t = Some v) (tasks db) (tasks db2)
     \<and> kept (\<lambda>r. owns_task db v (run_task_id r)) (runs db) (runs db2)
     \<and> kept (\<lambda>s. run_in (\<lambda>r. owns_task db v (run_task_id r)) db (step_run_id s)) (steps db) (steps db2)
     \<and> kept (\<lambda>d. owns_task db v (delivery_task_id d)) (deliveries db) (deliveries db2)
     \<and> kept (\<lambda>h. channel_owner h = v) (channels db) (channels db2)
     \<and> kept (\<lambda>a. owns_task db v (action_task_id a)) (actions db) (actions db2)"

definition spares :: "int \<Rightarrow> catalog \<Rightarrow> catalog \<Rightarrow> bool" where
  "spares v c c2 \<longleftrightarrow> spares_db v (base c) (base c2) \<and> kept (\<lambda>t. tpl_owner t = Some v) (templates c) (templates c2)
     \<and> kept (\<lambda>s. sub_owner s = v) (subscriptions c) (subscriptions c2) \<and> kept (\<lambda>p. push_owner p = v) (pushes c) (pushes c2)"

lemma spares_db_refl [simp]: "spares_db v db db"
  by (simp add: spares_db_def kept_refl)

lemma spares_refl [simp]: "spares v c c"
  by (simp add: spares_def kept_refl)

lemma kept_owns: "kept (\<lambda>t. owner_id t = Some v) (tasks db) (tasks db2) \<Longrightarrow> owns_task db2 v = owns_task db v"
proof
  fix tid
  assume "kept (\<lambda>t. owner_id t = Some v) (tasks db) (tasks db2)"
  then have "set (filter (\<lambda>t. owner_id t = Some v) (tasks db2)) = set (filter (\<lambda>t. owner_id t = Some v) (tasks db))"
    by (simp add: kept_def)
  then have "t \<in> set (tasks db2) \<and> owner_id t = Some v \<longleftrightarrow> t \<in> set (tasks db) \<and> owner_id t = Some v" for t by auto
  then show "owns_task db2 v tid = owns_task db v tid" unfolding owns_task_def by blast
qed

lemma kept_run_in: "kept R (runs db) (runs db2) \<Longrightarrow> run_in R db2 = run_in R db"
proof
  fix rid
  assume "kept R (runs db) (runs db2)"
  then have "set (filter R (runs db2)) = set (filter R (runs db))" by (simp add: kept_def)
  then have "r \<in> set (runs db2) \<and> R r \<longleftrightarrow> r \<in> set (runs db) \<and> R r" for r by auto
  then show "run_in R db2 rid = run_in R db rid" unfolding run_in_def list_ex_iff by blast
qed

lemma spares_db_trans:
  assumes "spares_db v a b" "spares_db v b c"
  shows "spares_db v a c"
proof -
  have o: "owns_task b v = owns_task a v" using assms(1) by (intro kept_owns) (simp add: spares_db_def)
  have r: "run_in (\<lambda>r. owns_task a v (run_task_id r)) b = run_in (\<lambda>r. owns_task a v (run_task_id r)) a"
    using assms(1) by (intro kept_run_in) (simp add: spares_db_def)
  from assms show ?thesis unfolding spares_db_def o r by (meson kept_trans)
qed

text \<open>What the statements rest on: rows are told apart by their ids, and a delivery is filed under the task of its run.\<close>

definition filed :: "db \<Rightarrow> bool" where
  "filed db \<longleftrightarrow> (\<forall>d\<in>set (deliveries db). \<forall>r\<in>set (runs db). run_id r = delivery_run_id d \<longrightarrow> run_task_id r = delivery_task_id d)"

definition orderly :: "catalog \<Rightarrow> bool" where
  "orderly c \<longleftrightarrow> isolated c \<and> distinct (map run_id (runs (base c))) \<and> filed (base c)"

lemma one_owner: "keyed task_id n (tasks db) \<Longrightarrow> owns_task db u tid \<Longrightarrow> owns_task db v tid \<Longrightarrow> u = v"
proof -
  assume k: "keyed task_id n (tasks db)" and "owns_task db u tid" "owns_task db v tid"
  then obtain s t where s: "s \<in> set (tasks db)" "task_id s = tid" "owner_id s = Some u" and
    t: "t \<in> set (tasks db)" "task_id t = tid" "owner_id t = Some v" unfolding owns_task_def by blast
  then have "s = t" using k by (auto simp: keyed_def distinct_map inj_on_def)
  with s t show ?thesis by simp
qed

lemma got_for_owner: "get_for_owner i u db = Some t \<Longrightarrow> t \<in> set (tasks db) \<and> task_id t = i \<and> owner_id t = Some u \<and> owns_task db u i"
  by (auto simp: get_for_owner_def find_Some_iff owns_task_def)

lemma orderly_owner: "orderly c \<Longrightarrow> owns_task (base c) u tid \<Longrightarrow> owns_task (base c) v tid \<Longrightarrow> u = v"
  by (rule one_owner) (auto simp: orderly_def isolated_def ids_fresh_def)

lemma orderly_task: "orderly c \<Longrightarrow> t \<in> set (tasks_of c) \<Longrightarrow> owner_id t = Some v \<Longrightarrow> owns_task (base c) u (task_id t) \<Longrightarrow> u = v"
  by (rule orderly_owner) (auto simp: owns_task_def)

lemma orderly_run: "orderly c \<Longrightarrow> r \<in> set (runs (base c)) \<Longrightarrow> q \<in> set (runs (base c)) \<Longrightarrow> run_id r = run_id q \<Longrightarrow> r = q"
  by (auto simp: orderly_def distinct_map inj_on_def)

lemma orderly_delivery: "orderly c \<Longrightarrow> d \<in> set (deliveries (base c)) \<Longrightarrow> r \<in> set (runs (base c)) \<Longrightarrow> run_id r = delivery_run_id d
    \<Longrightarrow> delivery_task_id d = run_task_id r"
  by (auto simp: orderly_def filed_def)

section \<open>Tasks and runs\<close>

named_theorems sparing

lemma spares_base: "spares_db v (base c) db \<Longrightarrow> spares v c (c\<lparr>base := db\<rparr>)"
  by (simp add: spares_def kept_refl)

lemma spares_tasks: "kept (\<lambda>t. owner_id t = Some v) (tasks_of c) ts \<Longrightarrow> spares_db v (base c) ((base c)\<lparr>tasks := ts\<rparr>)"
  by (simp add: spares_db_def kept_refl)

lemma spares_runs: "kept (\<lambda>r. owns_task db v (run_task_id r)) (runs db) rs \<Longrightarrow> spares_db v db (db\<lparr>runs := rs\<rparr>)"
  by (simp add: spares_db_def kept_refl)

lemma spares_create_task [sparing]: "u \<noteq> v \<Longrightarrow> spares v c (snd (create_with_owner L now (Some u) input c))"
proof -
  assume uv: "u \<noteq> v"
  have "spares v c (c\<lparr>base := (base c)\<lparr>tasks := tasks_of c @ [task_of_input now i (Some u) m x input]\<rparr>, next_task := j\<rparr>)" for i m x j
    using uv by (auto simp: spares_def task_of_input_def intro!: spares_tasks kept_rules)
  then show ?thesis by (auto simp: create_with_owner_def Let_def split: sum.split option.split)
qed

lemma spares_update_task [sparing]:
  assumes "u \<noteq> v" "orderly c"
  shows "spares v c (snd (update_for_optional_owner L now i (Some u) input c))"
proof (cases "get_for_owner i u (base c)")
  case (Some t)
  then have o: "owns_task (base c) u i" using got_for_owner by blast
  have "spares v c (c\<lparr>base := (base c)\<lparr>tasks := update_where (\<lambda>t. task_id t = i) (updated_task now input t m x) (tasks_of c)\<rparr>\<rparr>)" for m x
    using orderly_task [OF assms(2), of _ v u] o assms(1)
    by (auto simp: updated_task_def intro!: spares_base spares_tasks kept_rules)
  with Some show ?thesis by (auto simp: update_for_optional_owner_def Let_def split: sum.split)
qed (simp add: update_for_optional_owner_def)

text \<open>Rows of runs deleted by a predicate on the task, none of which is the account's.\<close>

lemma spares_delete_runs:
  assumes "\<And>r. r \<in> set (runs db) \<Longrightarrow> R r \<Longrightarrow> \<not> owns_task db v (run_task_id r)"
    "\<And>d. d \<in> set (deliveries db) \<Longrightarrow> D d \<Longrightarrow> \<not> owns_task db v (delivery_task_id d)"
    "\<And>s. s \<in> set (steps db) \<Longrightarrow> S s \<Longrightarrow> \<not> run_in (\<lambda>r. owns_task db v (run_task_id r)) db (step_run_id s)"
  shows "spares_db v db (snd (delete_runs_where R D S db))"
  using assms by (auto simp: spares_db_def delete_runs_where_def intro!: kept_rules)

lemma spares_runs_of_tasks:
  assumes "\<And>tid. T tid \<Longrightarrow> \<not> owns_task (base c) v tid" "orderly c"
  shows "spares_db v (base c) (snd (delete_runs_where (\<lambda>r. T (run_task_id r)) (\<lambda>d. T (delivery_task_id d))
    (\<lambda>s. run_in (\<lambda>r. T (run_task_id r)) (base c) (step_run_id s)) (base c)))"
proof (rule spares_delete_runs)
  fix s assume "run_in (\<lambda>r. T (run_task_id r)) (base c) (step_run_id s)"
  then obtain q where q: "q \<in> set (runs (base c))" "run_id q = step_run_id s" "T (run_task_id q)"
    unfolding run_in_def list_ex_iff by blast
  have "r = q" if "r \<in> set (runs (base c))" "run_id r = step_run_id s" for r
    using orderly_run [OF assms(2) that(1) q(1)] that(2) q(2) by simp
  with q(3) assms(1) show "\<not> run_in (\<lambda>r. owns_task (base c) v (run_task_id r)) (base c) (step_run_id s)"
    unfolding run_in_def list_ex_iff by blast
qed (use assms(1) in auto)

lemma spares_delete_task [sparing]:
  assumes "u \<noteq> v" "orderly c"
  shows "spares_db v (base c) (snd (delete_task_rows i (Some u) (base c)))"
proof (cases "list_ex (\<lambda>t. task_id t = i \<and> owner_id t = Some u) (tasks_of c)")
  case True
  then have o: "owns_task (base c) u i" by (auto simp: list_ex_iff owns_task_def)
  have not_v: "\<not> owns_task (base c) v i" using orderly_owner [OF assms(2) o] assms(1) by blast
  let ?d = "snd (delete_runs_for_task i (base c))"
  have d: "spares_db v (base c) ?d"
    unfolding delete_runs_for_task_def by (rule spares_runs_of_tasks [where T = "\<lambda>t. t = i"]) (use not_v assms(2) in auto)
  have "tasks ?d = tasks_of c" "actions ?d = actions (base c)" by (simp_all add: delete_runs_for_task_def delete_runs_where_def)
  then have "spares_db v (base c) (?d\<lparr>actions := delete_where (\<lambda>a. action_task_id a = i) (actions ?d),
      tasks := delete_where (\<lambda>t. task_id t = i) (tasks ?d)\<rparr>)"
    using d not_v by (auto simp: spares_db_def owns_task_def intro!: kept_rules)
  with True show ?thesis by (simp add: delete_task_rows_def split_beta)
qed (simp add: delete_task_rows_def)

lemma spares_enqueue [sparing]:
  assumes "\<not> owns_task db v i"
  shows "spares_db v db (snd (enqueue_run now i db))"
proof -
  have "spares_db v db (db\<lparr>runs := runs db @ [(new_run 0 i now)\<lparr>run_trigger := t, run_id := j\<rparr>], next_run := k\<rparr>)" for t j k
    using assms by (auto simp: spares_db_def new_run_def intro!: kept_rules)
  then show ?thesis
    by (auto simp: enqueue_run_def enqueue_run_with_trigger_def insert_unless_active_def insert_run_def)
qed

lemma enqueue_tasks: "tasks (snd (enqueue_run now i db)) = tasks db"
  by (auto simp: enqueue_run_def enqueue_run_with_trigger_def insert_unless_active_def insert_run_def)

lemma spares_batch_run [sparing]:
  assumes "u \<noteq> v" "keyed task_id n (tasks db)"
  shows "spares_db v db (snd (batch_run now u ids db))"
  using assms
proof (induction ids arbitrary: db)
  case (Cons i ids)
  show ?case
  proof (cases "get_for_owner i u db")
    case None
    then show ?thesis using Cons by simp
  next
    case (Some t)
    then have "\<not> owns_task db v i" using got_for_owner one_owner [OF Cons.prems(2)] Cons.prems(1) by blast
    then have one: "spares_db v db (snd (enqueue_run now i db))" by (rule spares_enqueue)
    have "spares_db v (snd (enqueue_run now i db)) (snd (batch_run now u ids (snd (enqueue_run now i db))))"
      using Cons by (simp add: enqueue_tasks)
    with one Some show ?thesis by (auto simp: split_beta split: sum.split intro: spares_db_trans)
  qed
qed simp

lemma spares_batch_disable [sparing]: "u \<noteq> v \<Longrightarrow> spares v c (snd (batch_disable now u ids b c))"
  by (auto simp: batch_disable_def Let_def intro!: spares_base spares_tasks kept_rules)

lemma spares_batch_delete [sparing]:
  assumes "u \<noteq> v" "orderly c"
  shows "spares v c (snd (batch_delete u ids c))"
proof -
  let ?hit = "\<lambda>t. owner_id t = Some u \<and> task_id t \<in> set ids"
  let ?mine = "\<lambda>tid. list_ex (\<lambda>t. ?hit t \<and> task_id t = tid) (tasks_of c)"
  let ?d = "snd (delete_runs_where (\<lambda>r. ?mine (run_task_id r)) (\<lambda>d. ?mine (delivery_task_id d))
             (\<lambda>s. run_in (\<lambda>r. ?mine (run_task_id r)) (base c) (step_run_id s)) (base c))"
  have not_v: "\<not> owns_task (base c) v tid" if "?mine tid" for tid
    using that orderly_task [OF assms(2), of _ u v] assms(1) by (auto simp: list_ex_iff)
  have d: "spares_db v (base c) ?d" by (rule spares_runs_of_tasks [where T = ?mine]) (use not_v assms(2) in auto)
  have "tasks ?d = tasks_of c" "actions ?d = actions (base c)" by (simp_all add: delete_runs_where_def)
  then have "spares_db v (base c) (?d\<lparr>actions := delete_where (\<lambda>a. ?mine (action_task_id a)) (actions ?d),
      tasks := delete_where ?hit (tasks ?d)\<rparr>)"
    using d not_v assms(1) by (auto simp: spares_db_def intro!: kept_rules)
  then show ?thesis by (simp add: batch_delete_def Let_def spares_base)
qed

lemma spares_batch [sparing]:
  assumes "u \<noteq> v" "orderly c"
  shows "spares v c (snd (batch_operations_for_owner now u ids op c))"
proof -
  obtain n where "keyed task_id n (tasks_of c)" using assms(2) by (auto simp: orderly_def isolated_def ids_fresh_def)
  then show ?thesis using assms
    by (auto simp: batch_operations_for_owner_def split_beta spares_batch_disable spares_batch_delete intro!: spares_base spares_batch_run)
qed

lemma spares_cancel [sparing]:
  assumes "u \<noteq> v" "orderly c" "r \<in> set (runs (base c))" "run_id r = i" "owns_task (base c) u (run_task_id r)"
  shows "spares_db v (base c) (snd (cancel_run now i (base c)))"
proof -
  have "q = r" if "q \<in> set (runs (base c))" "run_id q = i" for q using orderly_run [OF assms(2) that(1) assms(3)] that(2) assms(4) by simp
  moreover have "\<not> owns_task (base c) v (run_task_id r)" using orderly_owner [OF assms(2,5)] assms(1) by blast
  ultimately show ?thesis by (auto simp: cancel_run_def update_runs_def Let_def intro!: spares_runs kept_rules)
qed

text \<open>Runs deleted by a predicate on the run, with the deliveries and steps of those runs.\<close>

lemma spares_runs_by_id:
  assumes "orderly c" "\<And>r. r \<in> set (runs (base c)) \<Longrightarrow> R r \<Longrightarrow> \<not> owns_task (base c) v (run_task_id r)"
    and "\<And>i. gone i \<Longrightarrow> \<exists>r\<in>set (runs (base c)). run_id r = i \<and> R r"
  shows "spares_db v (base c) (snd (delete_runs_where R (\<lambda>d. gone (delivery_run_id d)) (\<lambda>s. gone (step_run_id s)) (base c)))"
proof (rule spares_delete_runs)
  fix d assume d: "d \<in> set (deliveries (base c))" "gone (delivery_run_id d)"
  then obtain r where r: "r \<in> set (runs (base c))" "run_id r = delivery_run_id d" "R r" using assms(3) by blast
  with orderly_delivery [OF assms(1) d(1) r(1,2)] assms(2) show "\<not> owns_task (base c) v (delivery_task_id d)" by auto
next
  fix s assume "gone (step_run_id s)"
  then obtain q where q: "q \<in> set (runs (base c))" "run_id q = step_run_id s" "R q" using assms(3) by blast
  have "r = q" if "r \<in> set (runs (base c))" "run_id r = step_run_id s" for r
    using orderly_run [OF assms(1) that(1) q(1)] that(2) q(2) by simp
  with q assms(2) show "\<not> run_in (\<lambda>r. owns_task (base c) v (run_task_id r)) (base c) (step_run_id s)"
    unfolding run_in_def list_ex_iff by blast
qed (use assms(2) in auto)

lemma spares_delete_run [sparing]:
  assumes "u \<noteq> v" "orderly c" "r \<in> set (runs (base c))" "run_id r = i" "owns_task (base c) u (run_task_id r)"
  shows "spares_db v (base c) (snd (delete_run i (base c)))"
proof -
  have "q = r" if "q \<in> set (runs (base c))" "run_id q = i" for q using orderly_run [OF assms(2) that(1) assms(3)] that(2) assms(4) by simp
  moreover have "\<not> owns_task (base c) v (run_task_id r)" using orderly_owner [OF assms(2,5)] assms(1) by blast
  ultimately have n: "\<not> owns_task (base c) v (run_task_id q)" if "q \<in> set (runs (base c))" "run_id q = i" for q using that by blast
  have "spares_db v (base c) (snd (delete_runs_where (\<lambda>r. run_id r = i) (\<lambda>d. delivery_run_id d = i) (\<lambda>s. step_run_id s = i) (base c)))"
    by (rule spares_runs_by_id [where R = "\<lambda>r. run_id r = i" and gone = "\<lambda>x. x = i", OF assms(2)]) (use n assms(3,4) in blast)+
  then show ?thesis by (simp add: delete_run_def split_beta)
qed

lemma spares_delete_runs_for_owner [sparing]:
  assumes "u \<noteq> v" "orderly c"
  shows "spares_db v (base c) (snd (delete_runs_for_owner u (base c)))"
  unfolding delete_runs_for_owner_def Let_def
  by (rule spares_runs_by_id [where gone = "run_in (\<lambda>r. owns_task (base c) u (run_task_id r)) (base c)", OF assms(2)])
    (use orderly_owner [OF assms(2), of u _ v] assms(1) in \<open>auto simp: run_in_def list_ex_iff\<close>)

lemma spares_delete_runs_for_task [sparing]:
  assumes "u \<noteq> v" "orderly c" "owns_task (base c) u i"
  shows "spares_db v (base c) (snd (delete_runs_for_task i (base c)))"
  unfolding delete_runs_for_task_def
  by (rule spares_runs_of_tasks [where T = "\<lambda>t. t = i"]) (use orderly_owner [OF assms(2,3)] assms(1,2) in auto)

lemma spares_retry [sparing]:
  assumes "u \<noteq> v" "orderly (sv_catalog sv)" "get_for_owner i u (db_of sv) = Some t"
  shows "spares v (sv_catalog sv) (sv_catalog (snd (retry_delivery S now d t act h sv))) \<and> sv_defaults (snd (retry_delivery S now d t act h sv)) = sv_defaults sv"
proof -
  have "\<not> owns_task (db_of sv) v (task_id t)"
    using got_for_owner [OF assms(3)] orderly_owner [OF assms(2)] assms(1) by metis
  then have "spares_db v (db_of sv) (record_attempt now rid t act h event result (db_of sv))" for rid event result
    by (auto simp: record_attempt_def Let_def record_notification_delivery_def spares_db_def split: sum.split intro!: kept_rules)
  then have "spares v (sv_catalog sv) ((sv_catalog sv)\<lparr>base := record_attempt now rid t act h event result (db_of sv)\<rparr>)" for rid event result
    by (rule spares_base)
  then show ?thesis by (simp add: retry_delivery_def send_one_def on_db_def split_beta Let_def split: option.split)
qed

section \<open>Channels and bindings\<close>

lemma spares_create_channel [sparing]: "u \<noteq> v \<Longrightarrow> spares_db v db (snd (create_notification_channel N now u name kind config b db))"
  by (auto simp: create_notification_channel_def Let_def spares_db_def intro!: kept_rules split: sum.split option.split)

lemma spares_update_channel [sparing]: "u \<noteq> v \<Longrightarrow> spares_db v db (snd (update_notification_channel N now i u name config b db))"
  by (auto simp: update_notification_channel_def Let_def spares_db_def intro!: kept_rules split: sum.split option.split)

lemma orderly_action: "orderly c \<Longrightarrow> a \<in> set (actions (base c)) \<Longrightarrow> h \<in> set (channels (base c)) \<Longrightarrow> channel_id h = action_channel_id a
    \<Longrightarrow> owns_task (base c) (channel_owner h) (action_task_id a)"
proof -
  assume c: "orderly c" and a: "a \<in> set (actions (base c))" and h: "h \<in> set (channels (base c))" "channel_id h = action_channel_id a"
  obtain u p where u: "(action_task_id a, Some u, p) \<in> task_links c" "(action_channel_id a, u) \<in> channel_links (base c)"
    using isolated_action [of c "action_task_id a" "action_channel_id a"] c a by (auto simp: orderly_def action_links_def)
  from u(2) h c have "channel_owner h = u"
    by (auto simp: channel_links_def orderly_def isolated_def ids_fresh_def keyed_def distinct_map inj_on_def)
  with u(1) show ?thesis by (auto simp: task_links_def owns_task_def)
qed

lemma spares_delete_channel [sparing]:
  assumes "u \<noteq> v" "orderly c"
  shows "spares_db v (base c) (snd (delete_notification_channel i u (base c)))"
proof (cases "get_notification_channel i u (base c)")
  case (Some h)
  then have h: "h \<in> set (channels (base c))" "channel_id h = i" "channel_owner h = u"
    by (auto simp: get_notification_channel_def find_Some_iff)
  have "\<not> owns_task (base c) v (action_task_id a)" if "a \<in> set (actions (base c))" "action_channel_id a = i" for a
    using orderly_action [OF assms(2) that(1) h(1)] that(2) h orderly_owner [OF assms(2)] assms(1) by metis
  with Some assms(1) show ?thesis by (auto simp: delete_notification_channel_def spares_db_def intro!: kept_rules)
qed (simp add: delete_notification_channel_def)

lemma spares_create_action [sparing]:
  assumes "u \<noteq> v" "keyed task_id n (tasks db)"
  shows "spares_db v db (snd (create_notification_action now tid u input db))"
proof -
  have "\<not> owns_task db v tid" if "list_ex (\<lambda>t. task_id t = tid \<and> owner_id t = Some u \<and> P t) (tasks db)" for P
    using that one_owner [OF assms(2), of u tid v] assms(1) by (auto simp: list_ex_iff owns_task_def)
  then show ?thesis by (auto simp: create_notification_action_def Let_def spares_db_def intro!: kept_rules)
qed

lemma create_action_tasks: "tasks (snd (create_notification_action now tid u input db)) = tasks db"
  by (simp add: create_notification_action_def Let_def)

lemma spares_create_actions [sparing]:
  assumes "u \<noteq> v" "keyed task_id n (tasks db)"
  shows "spares_db v db (snd (create_notification_actions_for_tasks now u tids input db))"
  using assms
proof (induction tids arbitrary: db)
  case (Cons tid tids)
  let ?d = "snd (create_notification_action now tid u input db)"
  have "spares_db v db ?d" using Cons.prems by (rule spares_create_action)
  moreover have "spares_db v ?d (snd (create_notification_actions_for_tasks now u tids input ?d))"
    using Cons by (simp add: create_action_tasks)
  ultimately show ?case by (auto simp: split_beta split: sum.split intro: spares_db_trans)
qed simp

lemma spares_actions: "kept (\<lambda>a. owns_task db v (action_task_id a)) (actions db) xs \<Longrightarrow> spares_db v db (db\<lparr>actions := xs\<rparr>)"
  by (simp add: spares_db_def kept_refl)

lemma spares_update_action [sparing]:
  assumes "u \<noteq> v" "keyed task_id n (tasks db)"
  shows "spares_db v db (snd (update_notification_action i u input db))"
proof -
  have "\<not> owns_task db v tid" if "owns_task db u tid" for tid using one_owner [OF assms(2) that] assms(1) by blast
  then show ?thesis
    by (auto simp: update_notification_action_def Let_def intro!: spares_actions kept_rules split: option.split)
qed

lemma spares_delete_actions [sparing]:
  assumes "u \<noteq> v" "keyed task_id n (tasks db)"
  shows "spares_db v db (snd (delete_notification_action i u db))" "spares_db v db (snd (delete_notification_actions_for_task i u db))"
proof -
  have "\<not> owns_task db v tid" if "owns_task db u tid" for tid using one_owner [OF assms(2) that] assms(1) by blast
  then show "spares_db v db (snd (delete_notification_action i u db))" "spares_db v db (snd (delete_notification_actions_for_task i u db))"
    by (auto simp: delete_notification_action_def delete_notification_actions_for_task_def delete_actions_where_def intro!: spares_actions kept_rules)
qed

section \<open>Templates, subscriptions, publication requests\<close>

lemma spares_templates: "kept (\<lambda>t. tpl_owner t = Some v) (templates c) ts \<Longrightarrow> spares v c (c\<lparr>templates := ts\<rparr>)"
  by (simp add: spares_def kept_refl)

lemma spares_insert_template: "tpl_owner t = Some u \<Longrightarrow> u \<noteq> v \<Longrightarrow> spares v c (snd (insert_template t gone c))"
  by (auto simp: insert_template_def Let_def spares_def intro!: kept_rules)

lemma spares_create_template [sparing]: "u \<noteq> v \<Longrightarrow> spares v c (snd (create_template_with_owner now (Some u) name d df g c))"
  by (auto simp: create_template_with_owner_def new_template_def intro!: spares_insert_template split: sum.split)

lemma spares_import [sparing]: "u \<noteq> v \<Longrightarrow> spares v c (snd (import_qd_har_with_owner L now (Some u) name d har c))"
  by (auto simp: import_qd_har_with_owner_def new_template_def intro!: spares_insert_template split: sum.split)

lemma spares_update_template [sparing]: "u \<noteq> v \<Longrightarrow> spares v c (snd (update_template_with_owner now i (Some u) name d df g c))"
  by (auto simp: update_template_with_owner_def Let_def intro!: spares_templates kept_rules split: sum.split option.split)

lemma spares_update_har [sparing]: "u \<noteq> v \<Longrightarrow> spares v c (snd (update_qd_har_for_owner L now i u name d har c))"
  by (auto simp: update_qd_har_for_owner_def Let_def intro!: spares_templates kept_rules split: sum.split)

lemma spares_publish [sparing]: "u \<noteq> v \<Longrightarrow> spares v c (snd (set_template_published now i u b c))"
  by (auto simp: set_template_published_def Let_def intro!: spares_templates kept_rules)

lemma spares_copy [sparing]: "u \<noteq> v \<Longrightarrow> spares v c (snd (copy_public_template now i u c))"
  by (auto simp: copy_public_template_def new_template_def Let_def spares_def intro!: kept_rules split: option.split)

lemma orderly_template: "orderly c \<Longrightarrow> t \<in> set (templates c) \<Longrightarrow> s \<in> set (templates c) \<Longrightarrow> tpl_id t = tpl_id s \<Longrightarrow> t = s"
  by (auto simp: orderly_def isolated_def ids_fresh_def keyed_def distinct_map inj_on_def)

lemma spares_delete_template_rows:
  assumes "u \<noteq> v" "orderly c"
  shows "spares v c (snd (delete_template_rows i (Some u) c))"
proof (cases "list_ex (\<lambda>t. tpl_id t = i \<and> tpl_owner t = Some u) (templates c)")
  case True
  then obtain s where s: "s \<in> set (templates c)" "tpl_id s = i" "tpl_owner s = Some u" by (auto simp: list_ex_iff)
  have t: "tpl_owner t \<noteq> Some v" if "t \<in> set (templates c)" "tpl_id t = i" for t
    using orderly_template [OF assms(2) that(1) s(1)] that(2) s assms(1) by auto
  have p: "push_owner p \<noteq> v" if "p \<in> set (pushes c)" "push_template p = i" for p
  proof -
    have "(i, Some (push_owner p)) \<in> template_links c"
      using isolated_push [of c i "push_owner p"] that assms(2) by (auto simp: push_links_def orderly_def image_iff)
    then obtain s' where "s' \<in> set (templates c)" "tpl_id s' = i" "tpl_owner s' = Some (push_owner p)"
      by (auto simp: template_links_def)
    with t show ?thesis by auto
  qed
  have "spares v c (c\<lparr>template_imports := delete_where (\<lambda>m. imp_template m = i) (template_imports c),
      pushes := delete_where (\<lambda>p. push_template p = i) (pushes c), templates := delete_where (\<lambda>t. tpl_id t = i) (templates c)\<rparr>)"
    using t p by (auto simp: spares_def intro!: kept_rules)
  then show ?thesis by (simp add: delete_template_rows_def)
qed (simp add: delete_template_rows_def)

lemma spares_delete_template [sparing]:
  assumes "u \<noteq> v" "orderly c"
  shows "spares v c (snd (delete_template i u c))"
  using spares_delete_template_rows [OF assms, of i]
  by (auto simp: delete_template_def Let_def split_beta split: sum.split)

lemma spares_subscriptions [sparing]:
  assumes "u \<noteq> v"
  shows "spares v c (snd (create_subscription now u name url c))" "spares v c (snd (update_subscription now i u name_in url_in b c))"
    "spares v c (snd (delete_subscription i u c))"
  using assms by (auto simp: create_subscription_def update_subscription_def delete_subscription_def Let_def spares_def
      intro!: kept_rules split: sum.split option.split)

lemma spares_create_push [sparing]: "u \<noteq> v \<Longrightarrow> spares v c (snd (create_push_request now u i note c))"
  by (auto simp: create_push_request_def Let_def spares_def intro!: kept_rules split: option.split)

end
