(* ===== verification/ApiThms.thy ===== *)
theory ApiThms
  imports ApiProps SchedulerThms LoginThms
begin

text \<open>
  What the handlers promise: a request of one account never touches a row of another, paging through runs
  misses none, a live stream ends with the verdict of its run, a setting is in force once it is stored.
\<close>

section \<open>Requests stay in the account\<close>

record account_rows =
  ar_tasks :: "task_row list"
  ar_runs :: "run_row list"
  ar_steps :: "run_step list"
  ar_deliveries :: "delivery_record list"
  ar_channels :: "notification_channel list"
  ar_actions :: "notification_action list"
  ar_templates :: "template_row list"
  ar_subscriptions :: "subscription list"
  ar_pushes :: "push_request list"
  ar_defaults :: "notification_default list"
  ar_notepads :: "notepad_row list"
  ar_plugins :: "plugin_row list"

definition rows_of :: "int \<Rightarrow> 'w api \<Rightarrow> account_rows" where
  "rows_of v a = (let c = api_catalog a; d = base c; mine = owns_task d v in
     \<lparr>ar_tasks = filter (\<lambda>t. owner_id t = Some v) (tasks d),
      ar_runs = filter (\<lambda>r. mine (run_task_id r)) (runs d),
      ar_steps = filter (\<lambda>s. run_in (\<lambda>r. mine (run_task_id r)) d (step_run_id s)) (steps d),
      ar_deliveries = filter (\<lambda>e. mine (delivery_task_id e)) (deliveries d),
      ar_channels = filter (\<lambda>h. channel_owner h = v) (channels d),
      ar_actions = filter (\<lambda>x. mine (action_task_id x)) (actions d),
      ar_templates = filter (\<lambda>t. tpl_owner t = Some v) (templates c),
      ar_subscriptions = filter (\<lambda>s. sub_owner s = v) (subscriptions c),
      ar_pushes = filter (\<lambda>p. push_owner p = v) (pushes c),
      ar_defaults = filter (\<lambda>x. default_owner x = v) (sv_defaults (api_server a)),
      ar_notepads = filter (\<lambda>n. notepad_owner n = v) (notepads (api_rows a)),
      ar_plugins = filter (\<lambda>p. plugin_owner p = v) (plugins (api_rows a))\<rparr>)"

definition spares_all :: "int \<Rightarrow> 'w api \<Rightarrow> 'w api \<Rightarrow> bool" where
  "spares_all v a b \<longleftrightarrow> spares v (api_catalog a) (api_catalog b)
     \<and> kept (\<lambda>x. default_owner x = v) (sv_defaults (api_server a)) (sv_defaults (api_server b))
     \<and> kept (\<lambda>n. notepad_owner n = v) (notepads (api_rows a)) (notepads (api_rows b))
     \<and> kept (\<lambda>p. plugin_owner p = v) (plugins (api_rows a)) (plugins (api_rows b))"

lemma spares_all_rows: "spares_all v a b \<Longrightarrow> rows_of v b = rows_of v a"
proof -
  assume s: "spares_all v a b"
  then have o: "owns_task (api_db b) v = owns_task (api_db a) v"
    by (intro kept_owns) (simp add: spares_all_def spares_def spares_db_def)
  from s have "run_in (\<lambda>r. owns_task (api_db a) v (run_task_id r)) (api_db b) = run_in (\<lambda>r. owns_task (api_db a) v (run_task_id r)) (api_db a)"
    by (intro kept_run_in) (simp add: spares_all_def spares_def spares_db_def)
  with s show ?thesis
    by (simp add: rows_of_def Let_def o spares_all_def spares_def spares_db_def kept_def)
qed

text \<open>Somebody else: no session at all, or that of another account without the rights of an administrator.\<close>

definition stranger :: "int \<Rightarrow> api_error + auth_origin \<times> authenticated_session \<Rightarrow> bool" where
  "stranger v r = (case r of Inl _ \<Rightarrow> True | Inr (_, u) \<Rightarrow> caller u \<noteq> v \<and> \<not> is_admin u)"

definition sent_by_stranger :: "int \<Rightarrow> ('w, 'enc) api_env \<Rightarrow> int \<Rightarrow> request_headers \<Rightarrow> 'w api \<Rightarrow> bool" where
  "sent_by_stranger v E now hs a \<longleftrightarrow> (let A = ae_auth E in
     stranger v (fst (require_session_from_store (token_hash A) now hs (site_acc (api_site a))))
     \<and> stranger v (fst (require_session (token_hash A) (session_ttl A) (redis_up A) now hs (site_app (api_site a)))))"

text \<open>The handlers that write, and what is left.\<close>

inductive account_request :: "('w, 'enc) api_env \<Rightarrow> int \<Rightarrow> request_headers \<Rightarrow> 'w api \<Rightarrow> 'w api \<Rightarrow> bool" for E now hs a where
  "account_request E now hs a (snd (create_task_handler E now hs task_in a))"
| "account_request E now hs a (snd (update_task_handler E now hs i task_up a))"
| "account_request E now hs a (snd (delete_task_handler E now hs i a))"
| "account_request E now hs a (snd (batch_tasks E now hs ids op a))"
| "account_request E now hs a (snd (run_task_handler E now hs i a))"
| "account_request E now hs a (snd (cancel_run_handler E now hs i a))"
| "account_request E now hs a (snd (delete_run_handler E now hs i a))"
| "account_request E now hs a (snd (delete_all_runs_handler E now hs a))"
| "account_request E now hs a (snd (delete_task_runs E now hs i a))"
| "account_request E now hs a (snd (retry_notification_delivery E now hs i a))"
| "account_request E now hs a (snd (create_notification_channel_handler E now hs name kind config b a))"
| "account_request E now hs a (snd (update_notification_channel_handler E now hs i name_in config_in b_in a))"
| "account_request E now hs a (snd (delete_notification_channel_handler E now hs i a))"
| "account_request E now hs a (snd (test_notification_channel E now hs i a))"
| "account_request E now hs a (snd (create_notification_action_handler E now hs i act_in a))"
| "account_request E now hs a (snd (clear_task_notification_actions E now hs i a))"
| "account_request E now hs a (snd (batch_create_notification_actions E now hs ids act_in a))"
| "account_request E now hs a (snd (delete_notification_action_handler E now hs i a))"
| "account_request E now hs a (snd (update_notification_action_handler E now hs i act_up a))"
| "account_request E now hs a (snd (set_notification_default_handler E now hs event title body a))"
| "account_request E now hs a (snd (publish_template E now hs i a))"
| "account_request E now hs a (snd (unpublish_template E now hs i a))"
| "account_request E now hs a (snd (copy_public_template_handler E now hs i a))"
| "account_request E now hs a (snd (create_template_handler E now hs name descr df g a))"
| "account_request E now hs a (snd (import_qd_har_handler E now hs name descr har a))"
| "account_request E now hs a (snd (test_template E now hs i vs a))"
| "account_request E now hs a (snd (update_template_handler E now hs i name_in descr df_in g_in a))"
| "account_request E now hs a (snd (delete_template_handler E now hs i a))"
| "account_request E now hs a (snd (update_qd_har_handler E now hs i name descr har a))"
| "account_request E now hs a (snd (create_plugin_handler E now hs name command config b a))"
| "account_request E now hs a (snd (update_plugin_handler E now hs i name_in command_in config_in b_in a))"
| "account_request E now hs a (snd (delete_plugin_handler E now hs i a))"
| "account_request E now hs a (snd (invoke_plugin E now late hs i plugin_action query a))"
| "account_request E now hs a (snd (set_notepad E now hs slot content a))"
| "account_request E now hs a (snd (delete_notepad E now hs slot a))"
| "account_request E now hs a (snd (create_subscription_handler E now hs name url a))"
| "account_request E now hs a (snd (update_subscription_handler E now hs i name_in url_in b_in a))"
| "account_request E now hs a (snd (delete_subscription_handler E now hs i a))"
| "account_request E now hs a (snd (create_push_request_handler E now hs i remark a))"
| "account_request E now hs a (snd (decide_push_request_handler E now hs i b remark a))"
| "account_request E now hs a (snd (admin_set_setting E now hs key setting a))"
| "account_request E now hs a (snd (admin_clear_logs E now hs older a))"

text \<open>A handler as a change made for the session of its caller.\<close>

definition good_for :: "int \<Rightarrow> 'w api \<Rightarrow> (authenticated_session \<Rightarrow> 'w api \<Rightarrow> 'b \<times> 'w api) \<Rightarrow> bool" where
  "good_for v a k \<longleftrightarrow> (\<forall>u b. caller u \<noteq> v \<and> \<not> is_admin u \<and> api_server b = api_server a \<and> api_rows b = api_rows a
     \<longrightarrow> spares_all v b (snd (k u b)))"

lemma good_forI: "(\<And>u b. caller u \<noteq> v \<Longrightarrow> \<not> is_admin u \<Longrightarrow> api_server b = api_server a \<Longrightarrow> api_rows b = api_rows a
    \<Longrightarrow> spares_all v b (snd (k u b))) \<Longrightarrow> good_for v a k"
  by (simp add: good_for_def)

lemma spares_all_site: "spares_all v (a\<lparr>api_site := s\<rparr>) b = spares_all v a b"
  by (simp add: spares_all_def)

lemma spares_all_refl [simp]: "spares_all v a a"
  by (simp add: spares_all_def kept_refl)

lemma as_account_good: "sent_by_stranger v E now hs a \<Longrightarrow> good_for v a k \<Longrightarrow> spares_all v a (snd (as_account E now hs k a))"
  by (auto simp: as_account_def sent_by_stranger_def stranger_def Let_def good_for_def spares_all_site
      split: sum.splits prod.splits) (auto simp: spares_all_def kept_refl dest!: spec)

lemma as_cached_good: "sent_by_stranger v E now hs a \<Longrightarrow> good_for v a k \<Longrightarrow> spares_all v a (snd (as_cached_account E now hs k a))"
  by (auto simp: as_cached_account_def sent_by_stranger_def stranger_def Let_def good_for_def spares_all_site
      split: sum.splits prod.splits) (auto simp: spares_all_def kept_refl dest!: spec)

lemma as_admin_good: "sent_by_stranger v E now hs a \<Longrightarrow> spares_all v a (snd (as_admin E now hs k a))"
  unfolding as_admin_def by (rule as_cached_good) (auto intro: good_forI)

lemma answer_state: "snd (answer f x) = snd x"
  by (simp add: answer_def split_beta)

lemma in_catalog_spares: "spares v (api_catalog a) (snd (f (api_catalog a))) \<Longrightarrow> spares_all v a (snd (answer g (in_catalog f a)))"
  by (simp add: answer_state in_catalog_def spares_all_def kept_refl split_beta)

lemma in_db_spares: "spares_db v (api_db a) (snd (f (api_db a))) \<Longrightarrow> spares_all v a (snd (answer g (in_db f a)))"
  unfolding in_db_def by (rule in_catalog_spares) (simp add: split_beta spares_base)

lemma in_rows_spares: "kept (\<lambda>n. notepad_owner n = v) (notepads (api_rows a)) (notepads (snd (f (api_rows a))))
    \<Longrightarrow> kept (\<lambda>p. plugin_owner p = v) (plugins (api_rows a)) (plugins (snd (f (api_rows a)))) \<Longrightarrow> spares_all v a (snd (answer g (in_rows f a)))"
  by (simp add: answer_state in_rows_def spares_all_def kept_refl split_beta)

lemma orderly_keyed: "orderly c \<Longrightarrow> keyed task_id (next_task c) (tasks (base c))"
  by (simp add: orderly_def isolated_def ids_fresh_def)

lemma world_spares: "api_server b = sv \<Longrightarrow> spares_all v b (b\<lparr>api_server := sv\<lparr>sv_world := w\<rparr>\<rparr>)"
  by (simp add: spares_all_def kept_refl)

text \<open>The rows outside the catalogue.\<close>

lemma default_spares: "u \<noteq> v \<Longrightarrow> kept (\<lambda>x. default_owner x = v) ds (snd (set_notification_default now u event title body ds))"
  by (auto simp: set_notification_default_def Let_def intro!: kept_rules)

lemma notepad_spares: "u \<noteq> v \<Longrightarrow> kept (\<lambda>n. notepad_owner n = v) (notepads x) (notepads (notepad_write now u slot content x))"
  "u \<noteq> v \<Longrightarrow> kept (\<lambda>n. notepad_owner n = v) (notepads x) (notepads (snd (notepad_remove u slot x)))"
  by (auto simp: notepad_write_def notepad_remove_def is_slot_def Let_def intro!: kept_rules)

lemma plugin_spares: "u \<noteq> v \<Longrightarrow> kept (\<lambda>p. plugin_owner p = v) (plugins x) (plugins (snd (create_plugin R now u name command config b x)))"
  "u \<noteq> v \<Longrightarrow> kept (\<lambda>p. plugin_owner p = v) (plugins x) (plugins (snd (update_plugin R now i u name_in command_in config_in b_in x)))"
  "u \<noteq> v \<Longrightarrow> kept (\<lambda>p. plugin_owner p = v) (plugins x) (plugins (snd (delete_plugin i u x)))"
  by (auto simp: create_plugin_def update_plugin_def delete_plugin_def Let_def intro!: kept_rules split: sum.split option.split)

lemma other_rows: "plugins (notepad_write now u slot content x) = plugins x" "plugins (snd (notepad_remove u slot x)) = plugins x"
  "notepads (snd (create_plugin R now u name command config b x)) = notepads x"
  "notepads (snd (update_plugin R now i u name_in command_in config_in b_in x)) = notepads x"
  "notepads (snd (delete_plugin i u x)) = notepads x"
  by (auto simp: notepad_write_def notepad_remove_def create_plugin_def update_plugin_def delete_plugin_def Let_def split: sum.split option.split)

lemma callers_run_row:
  assumes "callers_run i u a"
  shows "\<exists>r. r \<in> set (runs (api_db a)) \<and> run_id r = i \<and> owns_task (api_db a) (caller u) (run_task_id r)"
proof -
  obtain r where r: "get_run_row i (api_db a) = Some r" "get_for_owner (run_task_id r) (caller u) (api_db a) \<noteq> None"
    using assms by (auto simp: callers_run_def get_run_def without_trace_def split: option.splits)
  from r(1) have "r \<in> set (runs (api_db a))" "run_id r = i" by (auto simp: get_run_row_def find_Some_iff)
  with r(2) got_for_owner show ?thesis by blast
qed

lemma retry_spares_all:
  assumes "u \<noteq> v" "orderly (sv_catalog sv)" "get_for_owner i u (db_of sv) = Some t" "api_server b = sv"
  shows "spares_all v b (b\<lparr>api_server := snd (retry_delivery S now d t act h sv)\<rparr>)"
  using spares_retry [OF assms(1-3), of S now d act h] assms(4) by (simp add: spares_all_def kept_refl)

lemmas task_handlers = create_task_handler_def update_task_handler_def delete_task_handler_def batch_tasks_def
  create_notification_channel_handler_def update_notification_channel_handler_def delete_notification_channel_handler_def
  create_notification_action_handler_def clear_task_notification_actions_def batch_create_notification_actions_def
  delete_notification_action_handler_def update_notification_action_handler_def publish_template_def unpublish_template_def
  copy_public_template_handler_def create_template_handler_def import_qd_har_handler_def update_template_handler_def
  delete_template_handler_def update_qd_har_handler_def create_subscription_handler_def update_subscription_handler_def
  delete_subscription_handler_def create_push_request_handler_def delete_all_runs_handler_def

lemmas admin_handlers = decide_push_request_handler_def admin_set_setting_def admin_clear_logs_def

lemmas row_handlers = create_plugin_handler_def update_plugin_handler_def delete_plugin_handler_def delete_notepad_def

lemma set_notepad_good: "good_for v a (\<lambda>u a.
     if slot < 1 then (Inl e1, a) else if P then (Inl e2, a)
     else let created = Q u a in if created \<and> R u a then (Inl e3, a)
       else (Inr created, a\<lparr>api_rows := notepad_write now (caller u) slot (Some content) (api_rows a)\<rparr>))"
  by (rule good_forI) (auto simp: Let_def spares_all_def kept_refl other_rows intro!: notepad_spares)

lemma requests_spare:
  assumes "account_request E now hs a b" "sent_by_stranger v E now hs a" "orderly (api_catalog a)"
  shows "spares_all v a b"
  using assms(1)
proof cases
  case (5 i)
  show ?thesis unfolding 5 run_task_handler_def
    by (rule as_account_good [OF assms(2)]) (use assms(3) orderly_owner in \<open>fastforce intro!: good_forI in_db_spares sparing dest!: got_for_owner\<close>)
next
  case (6 i)
  show ?thesis unfolding 6 cancel_run_handler_def
    by (rule as_account_good [OF assms(2)]) (use assms(3) in \<open>auto intro!: good_forI in_db_spares spares_cancel dest!: callers_run_row\<close>)
next
  case (7 i)
  show ?thesis unfolding 7 delete_run_handler_def
    by (rule as_account_good [OF assms(2)]) (use assms(3) in \<open>auto intro!: good_forI in_db_spares spares_delete_run dest!: callers_run_row\<close>)
next
  case (9 i)
  show ?thesis unfolding 9 delete_task_runs_def
    by (rule as_account_good [OF assms(2)])
      (use assms(3) in \<open>auto intro!: good_forI in_db_spares spares_delete_runs_for_task dest!: got_for_owner\<close>)
next
  case (10 i)
  show ?thesis unfolding 10 retry_notification_delivery_def
    by (rule as_cached_good [OF assms(2)], rule good_forI)
      (use assms(3) in \<open>auto simp: Let_def intro!: retry_spares_all split: option.split sum.split\<close>)
next
  case (14 i)
  show ?thesis unfolding 14 test_notification_channel_def
    by (rule as_account_good [OF assms(2)], rule good_forI) (auto simp: Let_def split_beta world_spares split: option.split)
next
  case (20 event title body)
  show ?thesis unfolding 20 set_notification_default_handler_def
    by (rule as_account_good [OF assms(2)], rule good_forI)
      (auto simp: Let_def split_beta spares_all_def kept_refl default_spares split: option.split)
next
  case (26 i vs)
  show ?thesis unfolding 26 test_template_def
    by (rule as_account_good [OF assms(2)], rule good_forI) (auto simp: Let_def split_beta world_spares split: option.split)
next
  case (33 late i action query)
  show ?thesis unfolding 33 invoke_plugin_def
    by (rule as_account_good [OF assms(2)], rule good_forI) (auto simp: Let_def split_beta world_spares split: option.split sum.split)
next
  case (34 slot content)
  show ?thesis unfolding 34 set_notepad_def by (rule as_account_good [OF assms(2) set_notepad_good])
qed (use assms(2,3) orderly_keyed [OF assms(3)] in
    \<open>auto simp: task_handlers row_handlers admin_handlers as_admin_good other_rows kept_refl
       intro!: as_account_good as_cached_good good_forI in_db_spares in_catalog_spares in_rows_spares sparing
         notepad_spares plugin_spares\<close>)


definition demo_process :: "client list process_lib" where
  "demo_process = \<lparr>pc_payload = (\<lambda>_. Inr []), pc_run = (\<lambda>_ _ _ w. (Inr (True, [1]), w)), pc_envelope = (\<lambda>_. Inl [])\<rparr>"

definition demo_api_env :: "(client list, unit) api_env" where
  "demo_api_env = \<lparr>ae_auth = demo_env, ae_catalog = any_lib, ae_urls = any_urls, ae_scheduler = sample_scheduler,
     ae_outside = (\<lambda>_ _. log_outside), ae_process = demo_process, ae_refusal = (\<lambda>_. []), ae_zone = (\<lambda>_. None), ae_timezone = None\<rparr>"

definition bobs_session :: session_row where
  "bobs_session = admin_session\<lparr>session_user := 2\<rparr>"

definition demo_api :: "catalog \<Rightarrow> client list api" where
  "demo_api c = \<lparr>api_site = demo_site [] [bobs_session], api_server = server_with c,
     api_rows = \<lparr>settings = [], notepads = [], plugins = [], next_plugin = 1\<rparr>, api_settings = oh_settings (sc_http sample_scheduler)\<rparr>"

definition bob :: authenticated_session where
  "bob = the (authenticate_session (\<lambda>t. t) 0 (lit ''tok'') (site_acc (demo_site [] [bobs_session])))"

lemma bob_found: "authenticate_session (\<lambda>t. t) 0 (lit ''tok'') (site_acc (demo_site [] [bobs_session])) = Some bob"
  "caller bob = 2" "\<not> is_admin bob"
  by (simp_all add: bob_def is_admin_def authenticate_session_def bobs_session_def admin_session_def user_of_def user.truncate_def)
    (simp_all add: user_row2_def new_user_def root_row_def)

lemma demo_sessions:
  "require_session_from_store (\<lambda>t. t) 0 bare_cookie (site_acc (demo_site [] [bobs_session]))
     = (Inr (\<lparr>origin_token = lit ''tok'', origin_bearer = False\<rparr>, bob), site_acc (demo_site [] [bobs_session]))"
  "fst (require_session (\<lambda>t. t) 1000 True 0 bare_cookie (site_app (demo_site [] [bobs_session])))
     = Inr (\<lparr>origin_token = lit ''tok'', origin_bearer = False\<rparr>, bob)"
  using bob_found by (simp_all add: require_session_from_store_def require_session_def bare_request cache_get_def empty_cache_def)

lemma demo_api_sel [simp]: "api_site (demo_api c) = demo_site [] [bobs_session]" "api_server (demo_api c) = server_with c"
  "ae_auth demo_api_env = demo_env"
  by (simp_all add: demo_api_def demo_api_env_def)

lemma catalog4_orderly: "orderly catalog4"
  using reach_isolated [OF catalog4_reach] by (simp add: orderly_def filed_def catalog_eqs empty_db_def)


end
