(* ===== verification/ApiPages.thy ===== *)
theory ApiPages
  imports ApiThms
begin

text \<open>
  Paging through the runs and the templates of an account, the live stream of a run, and the slots of a
  notepad (\<open>crates/qdrust-server/src/api.rs\<close>).
\<close>

section \<open>Following a cursor\<close>

text \<open>A client that asks for the next page as long as there is a cursor, at most \<open>n\<close> times.\<close>

fun follow :: "(int option \<Rightarrow> 'r list \<times> int option) \<Rightarrow> nat \<Rightarrow> int option \<Rightarrow> 'r list" where
  "follow page 0 c = []"
| "follow page (Suc n) c = (let (xs, d) = page c in xs @ (case d of None \<Rightarrow> [] | Some i \<Rightarrow> follow page n (Some i)))"

lemma below_last:
  fixes ident :: "'r \<Rightarrow> int"
  assumes "sorted_wrt (\<lambda>x y. ident y < ident x) xs" "0 < n" "n < length xs"
  shows "filter (\<lambda>x. ident x < ident (last (take n xs))) xs = drop n xs"
proof -
  let ?l = "last (take n xs)"
  have ne: "take n xs \<noteq> []" using assms(2,3) by auto
  have s: "sorted_wrt (\<lambda>x y. ident y < ident x) (take n xs @ drop n xs)" using assms(1) by simp
  then have "ident x < ident ?l" if "x \<in> set (drop n xs)" for x using that ne by (auto simp: sorted_wrt_append simp del: append_take_drop_id)
  moreover have "\<not> ident x < ident ?l" if "x \<in> set (take n xs)" for x
  proof -
    obtain ys where ys: "take n xs = ys @ [?l]" using ne by (metis append_butlast_last_id)
    have "sorted_wrt (\<lambda>x y. ident y < ident x) (ys @ [?l])" using s by (simp add: sorted_wrt_append ys [symmetric] del: append_take_drop_id)
    moreover have "x \<in> set ys \<or> x = ?l" using that ys by (metis Un_iff empty_iff insert_iff list.set set_append)
    ultimately show ?thesis by (auto simp: sorted_wrt_append)
  qed
  ultimately have "filter (\<lambda>x. ident x < ident ?l) (take n xs @ drop n xs) = drop n xs"
    by (simp add: filter_empty_conv filter_id_conv del: append_take_drop_id)
  then show ?thesis by simp
qed

locale paged =
  fixes ident :: "'r \<Rightarrow> int" and ok :: "'s \<Rightarrow> bool" and rows :: "'s \<Rightarrow> 'r list"
    and page :: "'s \<Rightarrow> int option \<Rightarrow> 'r list \<times> int option" and limit :: "'s \<Rightarrow> nat"
  assumes falling: "ok s \<Longrightarrow> sorted_wrt (\<lambda>x y. ident y < ident x) (rows s)"
    and positive: "ok s \<Longrightarrow> 0 < limit s"
    and page: "ok s \<Longrightarrow> xs = filter (\<lambda>x. when_set c (\<lambda>i. ident x < i)) (rows s)
      \<Longrightarrow> page s c = (take (limit s) xs, if limit s < length xs then Some (ident (last (take (limit s) xs))) else None)"
begin

lemma follow_drop:
  assumes "ok s" "filter (\<lambda>x. when_set c (\<lambda>i. ident x < i)) (rows s) = drop k (rows s)" "length (rows s) \<le> k + n"
  shows "follow (page s) (Suc n) c = drop k (rows s)"
  using assms(2,3)
proof (induction n arbitrary: c k)
  case 0
  then show ?case using page [OF assms(1) refl, of c] by simp
next
  case (Suc n)
  let ?xs = "drop k (rows s)" and ?l = "limit s"
  have p: "page s c = (take ?l ?xs, if ?l < length ?xs then Some (ident (last (take ?l ?xs))) else None)"
    using page [OF assms(1) refl, of c] Suc.prems(1) by simp
  show ?case
  proof (cases "?l < length ?xs")
    case True
    have "take k (rows s) @ ?xs = rows s" by simp
    then have sorted: "sorted_wrt (\<lambda>x y. ident y < ident x) (take k (rows s) @ ?xs)" using falling [OF assms(1)] by simp
    then have inner: "sorted_wrt (\<lambda>x y. ident y < ident x) ?xs" by (simp add: sorted_wrt_append del: append_take_drop_id)
    let ?i = "ident (last (take ?l ?xs))"
    have "last (take ?l ?xs) \<in> set ?xs" using True positive [OF assms(1)] by (metis drop_eq_Nil2 in_set_takeD last_in_set linorder_not_le list.size(3) not_less_zero take_eq_Nil)
    then have "\<not> ident x < ?i" if "x \<in> set (take k (rows s))" for x
      using sorted that by (force simp: sorted_wrt_append simp del: append_take_drop_id)
    then have "filter (\<lambda>x. ident x < ?i) (take k (rows s) @ ?xs) = filter (\<lambda>x. ident x < ?i) ?xs"
      by (simp add: filter_empty_conv del: append_take_drop_id)
    also have "\<dots> = drop ?l ?xs" using below_last [OF inner positive [OF assms(1)] True] .
    finally have next_rows: "filter (\<lambda>x. when_set (Some ?i) (\<lambda>i. ident x < i)) (rows s) = drop (?l + k) (rows s)"
      by (simp add: when_set_def add.commute)
    have "length (rows s) \<le> ?l + k + n" using Suc.prems(2) positive [OF assms(1)] by simp
    from Suc.IH [OF next_rows this] True p have "follow (page s) (Suc (Suc n)) c = take ?l ?xs @ drop (?l + k) (rows s)"
      by (simp del: follow.simps(2) add: follow.simps(2) [of _ "Suc n"])
    then show ?thesis by (metis append_take_drop_id drop_drop)
  next
    case False
    then show ?thesis using p by simp
  qed
qed

lemma follow_all: "ok s \<Longrightarrow> length (rows s) \<le> n \<Longrightarrow> follow (page s) (Suc n) None = rows s"
  using follow_drop [of s None 0 n] by (simp add: when_set_def)

end

section \<open>Runs\<close>

definition all_runs :: "int \<Rightarrow> runs_query \<Rightarrow> db \<Rightarrow> run_row list" where
  "all_runs u q db = map without_trace (sort_key (\<lambda>r. - run_id r)
     (filter (\<lambda>r. owns_task db u (run_task_id r) \<and> matches_filter ((run_filter_of q)\<lparr>filter_before_id := None\<rparr>) r) (runs db)))"

text \<open>One request of a client: a session, a query without a cursor, and the cursor.\<close>

record ('w, 'enc) paged_query =
  cq_env :: "('w, 'enc) api_env"
  cq_now :: int
  cq_headers :: request_headers
  cq_api :: "'w api"

definition query_session :: "('w, 'enc) paged_query \<Rightarrow> authenticated_session option" where
  "query_session s = (case fst (require_session_from_store (token_hash (ae_auth (cq_env s))) (cq_now s) (cq_headers s)
      (site_acc (api_site (cq_api s)))) of Inl _ \<Rightarrow> None | Inr (_, u) \<Rightarrow> Some u)"

definition runs_page_at :: "('w, 'enc) paged_query \<times> runs_query \<Rightarrow> int option \<Rightarrow> run_row list \<times> int option" where
  "runs_page_at = (\<lambda>(s, q) c. case fst (list_runs (cq_env s) (cq_now s) (cq_headers s) (q\<lparr>rq_before_id := c\<rparr>) (cq_api s)) of
      Inl _ \<Rightarrow> ([], None) | Inr p \<Rightarrow> (rp_items p, rp_next_cursor p))"

lemma handler_answer: "query_session s = Some u \<Longrightarrow>
  fst (as_account (cq_env s) (cq_now s) (cq_headers s) (\<lambda>u a. (f u a, a)) (cq_api s))
    = f u ((cq_api s)\<lparr>api_site := put_acc (snd (require_session_from_store (token_hash (ae_auth (cq_env s))) (cq_now s) (cq_headers s)
        (site_acc (api_site (cq_api s))))) (api_site (cq_api s))\<rparr>)"
  by (auto simp: query_session_def as_account_def split: sum.splits prod.splits)

lemma sorted_falling:
  fixes ident :: "'r \<Rightarrow> int"
  assumes "distinct (map ident xs)"
  shows "sorted_wrt (\<lambda>x y. ident y < ident x) (sort_key (\<lambda>r. - ident r) xs)"
proof -
  let ?ys = "sort_key (\<lambda>r. - ident r) xs"
  have "distinct ?ys" "inj_on ident (set ?ys)" using assms by (simp_all add: distinct_map)
  then have "distinct (map (\<lambda>r. - ident r) ?ys)" by (simp add: distinct_map inj_on_def)
  then have "sorted_wrt (<) (map (\<lambda>r. - ident r) ?ys)" by (simp add: strict_sorted_iff)
  then show ?thesis by (simp add: sorted_wrt_map)
qed

definition rows_of_query :: "('w, 'enc) paged_query \<times> runs_query \<Rightarrow> run_row list" where
  "rows_of_query = (\<lambda>(s, q). case query_session s of None \<Rightarrow> [] | Some u \<Rightarrow> all_runs (caller u) q (api_db (cq_api s)))"

definition runs_ready :: "('w, 'enc) paged_query \<times> runs_query \<Rightarrow> bool" where
  "runs_ready = (\<lambda>(s, q). query_session s \<noteq> None \<and> distinct (map run_id (runs (api_db (cq_api s)))))"

definition runs_limit :: "('w, 'enc) paged_query \<times> runs_query \<Rightarrow> nat" where
  "runs_limit = (\<lambda>(s, q). nat (max 1 (min 500 (or_else (rq_limit q) 100))))"

lemma filter_sort_key_comm: "filter P (sort_key f xs) = sort_key f (filter P xs)"
  by (simp add: filter_sort)

lemma search_is_page: "search_runs_for_owner u (run_filter_of (q\<lparr>rq_before_id := c\<rparr>)) db
    = take (nat (max 1 (min 500 (or_else (rq_limit q) 100))) + 1) (filter (\<lambda>r. when_set c (\<lambda>i. run_id r < i)) (all_runs u q db))"
proof -
  let ?f = "run_filter_of (q\<lparr>rq_before_id := c\<rparr>)"
  have l: "nat (max 1 (min 500 (filter_limit ?f)) + 1) = nat (max 1 (min 500 (or_else (rq_limit q) 100))) + 1"
    by (simp add: run_filter_of_def)
  have m: "(owns_task db u (run_task_id r) \<and> matches_filter ?f r)
      = ((owns_task db u (run_task_id r) \<and> matches_filter ((run_filter_of q)\<lparr>filter_before_id := None\<rparr>) r) \<and> when_set c (\<lambda>i. run_id r < i))" for r
    by (auto simp: matches_filter_def run_filter_of_def when_set_def)
  have "filter (\<lambda>r. when_set c (\<lambda>i. run_id r < i)) (map without_trace xs) = map without_trace (filter (\<lambda>r. when_set c (\<lambda>i. run_id r < i)) xs)" for xs
    by (simp add: filter_map comp_def without_trace_def)
  then show ?thesis
    unfolding search_runs_for_owner_def all_runs_def l m by (simp add: take_map filter_sort_key_comm conj_assoc)
qed

lemma take_page: "runs_page_of (int n) (take (Suc n) xs) = \<lparr>rp_items = take n xs, rp_has_more = n < length xs,
    rp_next_cursor = (if n < length xs \<and> 0 < n then Some (run_id (last (take n xs))) else None)\<rparr>"
  by (auto simp: runs_page_of_def Let_def min_def)

lemma runs_page_is: "query_session s = Some u \<Longrightarrow> l = nat (max 1 (min 500 (or_else (rq_limit q) 100)))
    \<Longrightarrow> xs = filter (\<lambda>x. when_set c (\<lambda>i. run_id x < i)) (all_runs (caller u) q (api_db (cq_api s)))
    \<Longrightarrow> runs_page_at (s, q) c = (take l xs, if l < length xs then Some (run_id (last (take l xs))) else None)"
proof -
  assume u: "query_session s = Some u" and l: "l = nat (max 1 (min 500 (or_else (rq_limit q) 100)))"
    and xs: "xs = filter (\<lambda>x. when_set c (\<lambda>i. run_id x < i)) (all_runs (caller u) q (api_db (cq_api s)))"
  have "filter_limit (run_filter_of (q\<lparr>rq_before_id := c\<rparr>)) = int l" by (simp add: l run_filter_of_def)
  moreover have "0 < l" by (simp add: l)
  ultimately show ?thesis
    by (simp add: runs_page_at_def list_runs_def handler_answer [OF u] search_is_page l [symmetric] xs [symmetric] take_page)
qed

interpretation run_pages: paged run_id runs_ready rows_of_query runs_page_at runs_limit
proof unfold_locales
  fix s :: "('w, 'enc) paged_query \<times> runs_query"
  assume "runs_ready s"
  then show "sorted_wrt (\<lambda>x y. run_id y < run_id x) (rows_of_query s)"
    by (auto simp: runs_ready_def rows_of_query_def all_runs_def sorted_wrt_map without_trace_def
        intro!: sorted_falling distinct_map_filter split: prod.splits)
qed (auto simp: runs_ready_def rows_of_query_def runs_limit_def runs_page_is split: prod.splits)


definition bobs_catalog :: catalog where
  "bobs_catalog = (empty_catalog True)\<lparr>base := (empty_db True [])\<lparr>tasks := [task1\<lparr>owner_id := Some 2\<rparr>],
     runs := map (\<lambda>i. new_run i 1 0) [1, 2, 3]\<rparr>, templates := map (\<lambda>i. template1\<lparr>tpl_id := int i, tpl_owner := Some 2\<rparr>) [0..<300]\<rparr>"

definition bobs_query :: "(client list, unit) paged_query" where
  "bobs_query = \<lparr>cq_env = demo_api_env, cq_now = 0, cq_headers = bare_cookie, cq_api = demo_api bobs_catalog\<rparr>"

definition two_at_a_time :: runs_query where
  "two_at_a_time = \<lparr>rq_status = None, rq_task_id = None, rq_from = None, rq_to = None, rq_before_id = None, rq_limit = Some 2\<rparr>"

lemma bobs_query_session: "query_session bobs_query = Some bob"
  by (simp add: query_session_def bobs_query_def demo_sessions)

lemma bobs_runs: "all_runs 2 two_at_a_time (api_db (cq_api bobs_query)) = map (\<lambda>i. new_run i 1 0) [3, 2, 1]"
  by (simp add: all_runs_def bobs_query_def bobs_catalog_def two_at_a_time_def run_filter_of_def matches_filter_def when_set_def
      owns_task_def task1_sel new_run_def without_trace_def)


section \<open>Templates\<close>

definition all_templates :: "catalog_lib \<Rightarrow> int \<Rightarrow> ustr option \<Rightarrow> ustr option \<Rightarrow> catalog \<Rightarrow> template_row list" where
  "all_templates L u query g c = sort_key (\<lambda>t. - tpl_id t) (filter (\<lambda>t. tpl_owner t = Some u
     \<and> when_set (map_option (\<lambda>q. lit ''%'' @ trim_by is_ws q @ lit ''%'') query) (\<lambda>p. sql_like L p (tpl_name t))
     \<and> when_set g (\<lambda>x. tpl_grp t = Some x)) (templates c))"

definition templates_page_at :: "('w, 'enc) paged_query \<Rightarrow> ustr option \<Rightarrow> ustr option \<Rightarrow> int option \<Rightarrow> int option \<Rightarrow> template_page option" where
  "templates_page_at s query g l c = (case fst (list_templates_handler (cq_env s) (cq_now s) (cq_headers s) query g c l (cq_api s)) of
      Inl _ \<Rightarrow> None | Inr p \<Rightarrow> p)"

lemma templates_search: "search_templates_for_owner L u query g c l cat
    = take (Suc (nat (max 1 (min 200 l)))) (filter (\<lambda>t. when_set c (\<lambda>i. tpl_id t < i)) (all_templates L u query g cat))"
proof -
  have "nat (max 1 (min 200 l) + 1) = Suc (nat (max 1 (min 200 l)))" by simp
  then show ?thesis unfolding search_templates_for_owner_def all_templates_def Let_def
    by (simp add: filter_sort_key_comm conj_assoc)
qed

lemma templates_page_is: "query_session s = Some u \<Longrightarrow> templates_page_at s query g l c = template_page_of (or_else l 50)
    (take (Suc (nat (max 1 (min 200 (or_else l 50))))) (filter (\<lambda>t. when_set c (\<lambda>i. tpl_id t < i))
      (all_templates (ae_catalog (cq_env s)) (caller u) query g (api_catalog (cq_api s)))))"
  by (simp add: templates_page_at_def list_templates_handler_def Let_def handler_answer templates_search)

lemma template_page_small: "int (length xs) \<le> l \<Longrightarrow> template_page_of l xs = Some \<lparr>tp_items = xs, tp_has_more = False, tp_next_cursor = None\<rparr>"
  by (simp add: template_page_of_def Let_def)

lemma template_page_full: "0 < n \<Longrightarrow> n < length xs \<Longrightarrow> template_page_of (int n) (take (Suc n) xs)
    = Some \<lparr>tp_items = take n xs, tp_has_more = True, tp_next_cursor = Some (tpl_id (last (take n xs)))\<rparr>"
proof -
  assume n: "0 < n" "n < length xs"
  have one_over: "template_page_of (int n) ys = Some \<lparr>tp_items = butlast ys, tp_has_more = True, tp_next_cursor = Some (tpl_id (last (butlast ys)))\<rparr>"
    if "length ys = Suc n" for ys
  proof -
    have "length (butlast ys) = n" "ys \<noteq> []" using that by auto
    then have "butlast ys \<noteq> []" using n(1) by (metis length_0_conv not_gr0)
    with that \<open>ys \<noteq> []\<close> show ?thesis by (simp add: template_page_of_def Let_def)
  qed
  have "butlast (take (Suc n) xs) = take n xs" using n(2) by (simp add: butlast_take)
  with one_over [of "take (Suc n) xs"] n(2) show ?thesis by simp
qed

text \<open>With a limit between 1 and 200 the pages are complete.\<close>

definition templates_ready :: "('w, 'enc) paged_query \<times> ustr option \<times> ustr option \<times> nat \<Rightarrow> bool" where
  "templates_ready = (\<lambda>(s, query, g, n). query_session s \<noteq> None \<and> distinct (map tpl_id (templates (api_catalog (cq_api s))))
     \<and> 1 \<le> n \<and> n \<le> 200)"

definition templates_of_query :: "('w, 'enc) paged_query \<times> ustr option \<times> ustr option \<times> nat \<Rightarrow> template_row list" where
  "templates_of_query = (\<lambda>(s, query, g, n). case query_session s of None \<Rightarrow> []
     | Some u \<Rightarrow> all_templates (ae_catalog (cq_env s)) (caller u) query g (api_catalog (cq_api s)))"

definition templates_step :: "('w, 'enc) paged_query \<times> ustr option \<times> ustr option \<times> nat \<Rightarrow> int option \<Rightarrow> template_row list \<times> int option" where
  "templates_step = (\<lambda>(s, query, g, n) c. case templates_page_at s query g (Some (int n)) c of
      None \<Rightarrow> ([], None) | Some p \<Rightarrow> (tp_items p, tp_next_cursor p))"

interpretation template_pages: paged tpl_id templates_ready templates_of_query templates_step "\<lambda>(s, query, g, n). n"
proof unfold_locales
  fix s :: "('w, 'enc) paged_query \<times> ustr option \<times> ustr option \<times> nat" and xs c
  assume r: "templates_ready s" and xs: "xs = filter (\<lambda>x. when_set c (\<lambda>i. tpl_id x < i)) (templates_of_query s)"
  obtain q query g n where s: "s = (q, query, g, n)" by (cases s)
  obtain u where u: "query_session q = Some u" and n: "1 \<le> n" "n \<le> 200" using r by (auto simp: s templates_ready_def)
  have "nat (max 1 (min 200 (or_else (Some (int n)) 50))) = n" using n by (simp add: or_else_def)
  then have p: "templates_page_at q query g (Some (int n)) c = template_page_of (int n) (take (Suc n) xs)"
    by (simp add: templates_page_is [OF u] xs s templates_of_query_def u or_else_def)
  show "templates_step s c = (take (case s of (s, query, g, n) \<Rightarrow> n) xs,
      if (case s of (s, query, g, n) \<Rightarrow> n) < length xs then Some (tpl_id (last (take (case s of (s, query, g, n) \<Rightarrow> n) xs))) else None)"
    using p n template_page_full [of n xs] template_page_small [of xs "int n"] by (cases "n < length xs") (simp_all add: s templates_step_def)
next
  fix s :: "('w, 'enc) paged_query \<times> ustr option \<times> ustr option \<times> nat"
  assume "templates_ready s"
  then show "sorted_wrt (\<lambda>x y. tpl_id y < tpl_id x) (templates_of_query s)"
    by (auto simp: templates_ready_def templates_of_query_def all_templates_def intro!: sorted_falling distinct_map_filter)
qed (auto simp: templates_ready_def)

lemmas templates_paged = template_pages.follow_all

text \<open>
  C29.  A page of templates with a limit above 200 hides the rest: it holds the newest 201 templates, says that
  there are no more, and has no cursor to ask for them.
\<close>

theorem large_template_page_cut:
  assumes "query_session s = Some u" "200 < l"
  shows "templates_page_at s query g (Some l) None
    = Some \<lparr>tp_items = take 201 (all_templates (ae_catalog (cq_env s)) (caller u) query g (api_catalog (cq_api s))),
        tp_has_more = False, tp_next_cursor = None\<rparr>"
proof -
  let ?xs = "all_templates (ae_catalog (cq_env s)) (caller u) query g (api_catalog (cq_api s))"
  have "Suc (nat (max 1 (min 200 (or_else (Some l) 50)))) = 201" "or_else (Some l) 50 = l" using assms(2) by (simp_all add: or_else_def)
  then have "templates_page_at s query g (Some l) None = template_page_of l (take 201 ?xs)"
    by (simp add: templates_page_is [OF assms(1)] when_set_def)
  then show ?thesis using assms(2) by (subst (asm) template_page_small) auto
qed

theorem large_template_page_cut_witness:
  "(\<exists>p. templates_page_at bobs_query None None (Some 500) None = Some p \<and> \<not> tp_has_more p \<and> tp_next_cursor p = None
      \<and> length (tp_items p) = 201)
    \<and> length (all_templates (ae_catalog (cq_env bobs_query)) 2 None None (api_catalog (cq_api bobs_query))) = 300"
proof -
  have n: "length (all_templates (ae_catalog (cq_env bobs_query)) 2 None None (api_catalog (cq_api bobs_query))) = 300"
    by (simp add: all_templates_def when_set_def bobs_query_def bobs_catalog_def filter_map comp_def del: upt_rec_numeral)
  show ?thesis using large_template_page_cut [OF bobs_query_session, of 500 None None] n by (simp add: bob_found)
qed

end
