(* ===== verification/ApiLive.thy ===== *)
theory ApiLive
  imports ApiPages
begin

text \<open>
  The live stream of a run, the slots of a notepad and the settings in force
  (\<open>crates/qdrust-server/src/api.rs\<close>, \<open>store.rs\<close>, \<open>main.rs\<close>).
\<close>

section \<open>The live stream\<close>

definition verdict :: "frame \<Rightarrow> bool" where
  "verdict f = (case f of Status s _ \<Rightarrow> is_terminal_run_status s | Forwarded e \<Rightarrow> is_last_event e | _ \<Rightarrow> False)"

definition about :: "int \<Rightarrow> frame \<Rightarrow> bool" where
  "about rid f = (case f of Forwarded e \<Rightarrow> re_run_id e = rid | Snapshot ss \<Rightarrow> (\<forall>s\<in>set ss. step_run_id s = rid) | _ \<Rightarrow> True)"

text \<open>The shape of what is sent: a verdict comes last, and closes the stream.\<close>

definition well_ended :: "int \<Rightarrow> frame list \<times> bool \<Rightarrow> bool \<Rightarrow> bool" where
  "well_ended rid r hung_up = (case r of (fs, going) \<Rightarrow> (\<forall>f\<in>set fs. about rid f) \<and> (\<forall>f\<in>set (butlast fs). \<not> verdict f)
     \<and> (fs \<noteq> [] \<and> verdict (last fs) \<longrightarrow> \<not> going) \<and> (\<not> going \<longrightarrow> hung_up \<or> fs \<noteq> [] \<and> verdict (last fs)))"

lemma well_endedI: "r = (fs, going) \<Longrightarrow> \<forall>f\<in>set fs. about rid f \<Longrightarrow> \<forall>f\<in>set (butlast fs). \<not> verdict f
    \<Longrightarrow> (fs \<noteq> [] \<and> verdict (last fs) \<longrightarrow> \<not> going) \<Longrightarrow> (\<not> going \<longrightarrow> hung_up \<or> fs \<noteq> [] \<and> verdict (last fs)) \<Longrightarrow> well_ended rid r hung_up"
  by (simp add: well_ended_def)

lemma snapshot_about: "about rid (Snapshot (list_run_steps rid db))"
  by (simp add: about_def list_run_steps_def)

lemma snapshot_well_ended: "well_ended rid (send_run_snapshot rid db) False"
proof (cases "get_run rid db")
  case (Some r)
  then show ?thesis using snapshot_about by (simp add: send_run_snapshot_def well_ended_def verdict_def about_def Let_def)
qed (use snapshot_about in \<open>simp add: send_run_snapshot_def well_ended_def verdict_def Let_def\<close>)

definition hangs_up :: "stream_input \<Rightarrow> bool" where
  "hangs_up x \<longleftrightarrow> x = ClientGone \<or> x = PublisherGone"

lemma one_well_ended: "well_ended rid (stream_one rid x db) (hangs_up x)"
proof (cases x)
  case Lagged
  then show ?thesis using snapshot_well_ended [of rid db] by (simp add: stream_one_def hangs_up_def)
qed (auto simp: stream_one_def well_ended_def hangs_up_def verdict_def about_def)

lemma well_ended_append:
  assumes "well_ended rid (fs, True) b" "well_ended rid (gs, going) c"
  shows "well_ended rid (fs @ gs, going) c"
proof (cases "gs = []")
  case True
  with assms show ?thesis by (cases fs rule: rev_cases) (auto simp: well_ended_def)
next
  case False
  have "\<not> verdict f" if "f \<in> set fs" for f
    using that assms(1) by (cases fs rule: rev_cases) (auto simp: well_ended_def)
  with False assms show ?thesis by (auto simp: well_ended_def butlast_append)
qed

lemma rest_well_ended: "well_ended rid (stream_rest rid xs) (list_ex hangs_up (map fst xs))"
proof (induction rid xs rule: stream_rest.induct)
  case (1 rid)
  show ?case by (simp add: well_ended_def)
next
  case (2 rid x db xs)
  obtain fs going where one: "stream_one rid x db = (fs, going)" by (cases "stream_one rid x db")
  obtain gs still where rest: "stream_rest rid xs = (gs, still)" by (cases "stream_rest rid xs")
  show ?case
  proof (cases going)
    case True
    then have "well_ended rid (gs, still) (list_ex hangs_up (map fst xs))" using 2 one rest by auto
    with True one_well_ended [of rid x db] one rest have "well_ended rid (fs @ gs, still) (list_ex hangs_up (map fst xs))"
      by (auto intro: well_ended_append)
    with True one rest show ?thesis by (auto simp: well_ended_def)
  next
    case False
    then show ?thesis using one_well_ended [of rid x db] one by (auto simp: well_ended_def)
  qed
qed

lemma stream_well_ended: "well_ended rid (stream_run_steps rid db xs) (list_ex hangs_up (map fst xs))"
proof (cases "send_run_snapshot rid db")
  case (Pair fs going)
  obtain gs still where rest: "stream_rest rid xs = (gs, still)" by (cases "stream_rest rid xs")
  show ?thesis
  proof (cases going)
    case True
    with Pair rest well_ended_append [of rid fs False gs still] snapshot_well_ended [of rid db] rest_well_ended [of rid xs]
    show ?thesis by (simp add: stream_run_steps_def)
  next
    case False
    then show ?thesis using Pair snapshot_well_ended [of rid db] by (auto simp: stream_run_steps_def well_ended_def)
  qed
qed

lemma snapshot_sent: "fst (stream_run_steps rid db xs) \<noteq> []"
proof -
  have "fst (send_run_snapshot rid db) \<noteq> []" by (simp add: send_run_snapshot_def Let_def split: option.split)
  then show ?thesis by (simp add: stream_run_steps_def split_beta split: prod.split bool.split)
qed

text \<open>
  C27.  A live stream carries frames of its own run only; the verdict of the run (its terminal status, read from
  the table or published) is the last frame and closes the stream, and unless one side hangs up the stream is
  closed by nothing else.
\<close>

theorem stream_ends_with_verdict:
  assumes "stream_run_steps rid db xs = (fs, going)"
  shows "fs \<noteq> [] \<and> (\<forall>f\<in>set fs. about rid f) \<and> (\<forall>f\<in>set (butlast fs). \<not> verdict f)
    \<and> (verdict (last fs) \<longrightarrow> \<not> going) \<and> (\<not> going \<longrightarrow> list_ex hangs_up (map fst xs) \<or> verdict (last fs))"
proof -
  have "fs \<noteq> []" using assms snapshot_sent [of rid db xs] by simp
  with stream_well_ended [of rid db xs] assms show ?thesis by (simp add: well_ended_def)
qed

text \<open>A run that succeeds while it is watched, after a lag of the stream.\<close>

definition finished_event :: run_event where
  "finished_event = \<lparr>re_run_id = 1, re_kind = lit ''status'', re_status = Some (lit ''succeeded''),
     re_step = None, re_error = None\<rparr>"

theorem stream_ends_with_verdict_witness:
  "\<exists>fs. stream_run_steps 1 held_by_a [(Lagged, held_by_a), (PingTick, held_by_a), (Published finished_event, held_by_a)] = (fs, False)
     \<and> last fs = Forwarded finished_event \<and> \<not> (\<exists>f\<in>set (butlast fs). verdict f)"
proof -
  let ?s = "Snapshot (list_run_steps 1 held_by_a)"
  have snap: "send_run_snapshot 1 held_by_a = ([?s], True)"
    by (simp add: send_run_snapshot_def get_run_def held_row_found(1) Let_def without_trace_def)
      (simp add: held_row_def is_terminal_run_status_def status_str_def)
  have "is_last_event finished_event" "re_run_id finished_event = 1"
    by (simp_all add: is_last_event_def finished_event_def is_terminal_run_status_def)
  then have run: "stream_run_steps 1 held_by_a [(Lagged, held_by_a), (PingTick, held_by_a), (Published finished_event, held_by_a)]
      = ([?s, ?s, Ping, Forwarded finished_event], False)"
    by (simp add: stream_run_steps_def stream_one_def snap)
  from stream_ends_with_verdict [OF run] run show ?thesis by auto
qed

section \<open>Settings in force\<close>

text \<open>What the table says is in force.\<close>

definition stored_apply :: "ustr \<Rightarrow> site_rows \<Rightarrow> runtime_settings \<Rightarrow> runtime_settings" where
  "stored_apply key x r = (case get_setting key x of Some s \<Rightarrow> apply_runtime_setting key (setting_value s) r | None \<Rightarrow> r)"

definition in_force :: "site_rows \<Rightarrow> runtime_settings \<Rightarrow> bool" where
  "in_force x r \<longleftrightarrow> (\<forall>key\<in>set RUNTIME_KEYS. stored_apply key x r = r)"

text \<open>Each key has its own field, so that two settings do not get in each other's way.\<close>

lemma apply_cases:
  obtains "k = lit ''require_email_verification''" | "k = lit ''ga_key''" | "k = lit ''logs.retention_days''"
  | "k = ALLOW_PRIVATE_NETWORK_SETTING" | "k = ALLOW_INVALID_CERTIFICATES_SETTING" | "\<And>v r. apply_runtime_setting k v r = r"
proof -
  let ?ks = "{lit ''require_email_verification'', lit ''ga_key'', lit ''logs.retention_days'', ALLOW_PRIVATE_NETWORK_SETTING,
    ALLOW_INVALID_CERTIFICATES_SETTING}"
  have "apply_runtime_setting k v r = r" if "k \<notin> ?ks" for v r
    using that by (simp only: apply_runtime_setting_def insert_iff de_Morgan_disj if_False)
  then show thesis using that by blast
qed

lemma keys_differ [simp]: "lit ''ga_key'' \<noteq> lit ''require_email_verification''" "lit ''logs.retention_days'' \<noteq> lit ''require_email_verification''"
  "lit ''logs.retention_days'' \<noteq> lit ''ga_key''" "ALLOW_PRIVATE_NETWORK_SETTING \<noteq> lit ''require_email_verification''"
  "ALLOW_PRIVATE_NETWORK_SETTING \<noteq> lit ''ga_key''" "ALLOW_PRIVATE_NETWORK_SETTING \<noteq> lit ''logs.retention_days''"
  "ALLOW_INVALID_CERTIFICATES_SETTING \<noteq> lit ''require_email_verification''" "ALLOW_INVALID_CERTIFICATES_SETTING \<noteq> lit ''ga_key''"
  "ALLOW_INVALID_CERTIFICATES_SETTING \<noteq> lit ''logs.retention_days''" "ALLOW_INVALID_CERTIFICATES_SETTING \<noteq> ALLOW_PRIVATE_NETWORK_SETTING"
  by (simp_all add: ALLOW_PRIVATE_NETWORK_SETTING_def ALLOW_INVALID_CERTIFICATES_SETTING_def)

lemma apply_at:
  "apply_runtime_setting (lit ''require_email_verification'') v r = r\<lparr>require_email_verification := or_else (as_bool v) (require_email_verification r)\<rparr>"
  "apply_runtime_setting (lit ''ga_key'') v r = r\<lparr>ga_key := or_opt (as_str v) (ga_key r)\<rparr>"
  "apply_runtime_setting (lit ''logs.retention_days'') v r = r\<lparr>log_retention_days := or_else (map_option (\<lambda>n. nat (max n 0)) (as_i64 v)) (log_retention_days r)\<rparr>"
  "apply_runtime_setting ALLOW_PRIVATE_NETWORK_SETTING v r = r\<lparr>allow_private_network := or_else (as_bool v) (allow_private_network r)\<rparr>"
  "apply_runtime_setting ALLOW_INVALID_CERTIFICATES_SETTING v r = r\<lparr>allow_invalid_certificates := or_else (as_bool v) (allow_invalid_certificates r)\<rparr>"
  by (simp_all only: apply_runtime_setting_def keys_differ if_False if_True refl)
    (simp_all add: or_else_def or_opt_def split: option.split)

lemma apply_commute: "k \<noteq> l \<Longrightarrow> apply_runtime_setting k v (apply_runtime_setting l w r) = apply_runtime_setting l w (apply_runtime_setting k v r)"
  by (cases k rule: apply_cases; cases l rule: apply_cases) (simp_all only: apply_at, simp_all)

lemma apply_twice: "apply_runtime_setting k v (apply_runtime_setting k v r) = apply_runtime_setting k v r"
  by (cases k rule: apply_cases) (simp_all only: apply_at, simp_all add: or_else_def or_opt_def split: option.split)

lemma find_appended: "find P (xs @ [x]) = (case find P xs of None \<Rightarrow> if P x then Some x else None | Some y \<Rightarrow> Some y)"
  by (induction xs) auto

lemma find_update: "find (\<lambda>s. setting_key s = k) (update_where (\<lambda>s. setting_key s = l) (\<lambda>_. s) xs)
    = (if list_ex (\<lambda>s. setting_key s = l) xs \<and> k = l then Some s else find (\<lambda>s. setting_key s = k) xs)" if "setting_key s = l"
  using that by (induction xs) (auto simp: update_where_def)

lemma find_none: "\<not> list_ex P xs \<Longrightarrow> find P xs = None"
  by (auto simp: find_None_iff list_ex_iff)

lemma get_set_setting: "get_setting k (snd (set_setting now l v x))
    = (if k = l then Some \<lparr>setting_key = l, setting_value = v, setting_updated_at = now\<rparr> else get_setting k x)"
  by (cases "list_ex (\<lambda>s. setting_key s = l) (settings x)")
    (auto simp: get_setting_def set_setting_def Let_def find_update find_appended find_none split: option.split)

lemma stored_after_set: "stored_apply k (snd (set_setting now l v x)) (apply_runtime_setting l v r)
    = apply_runtime_setting l v (if k = l then r else stored_apply k x r)"
  by (cases "k = l") (simp_all add: stored_apply_def get_set_setting apply_commute apply_twice split: option.split)

lemma watcher_in_force: "in_force x r \<Longrightarrow> settings_watcher None x r = r"
proof -
  assume f: "in_force x r"
  have "fold (\<lambda>k. stored_apply k x) ks r = r" if "set ks \<subseteq> set RUNTIME_KEYS" for ks
    using that f by (induction ks) (auto simp: in_force_def)
  from this [of RUNTIME_KEYS] show ?thesis by (simp add: settings_watcher_def apply_settings_table_def stored_apply_def [abs_def])
qed

text \<open>A setting an administrator stores is in force at once, and the watcher finds nothing to change.\<close>

theorem setting_in_force:
  assumes "admin_set_setting E now hs key v a = (Inr s, b)" "in_force (api_rows a) (api_settings a)"
  shows "get_setting key (api_rows b) = Some s \<and> setting_value s = v
    \<and> api_settings b = apply_runtime_setting key v (api_settings a) \<and> settings_watcher None (api_rows b) (api_settings b) = api_settings b"
proof -
  have b: "api_rows b = snd (set_setting now key v (api_rows a))" "api_settings b = apply_runtime_setting key v (api_settings a)"
    "s = fst (set_setting now key v (api_rows a))"
    using assms(1) by (auto simp: admin_set_setting_def as_admin_def as_cached_account_def Let_def split_beta
        split: sum.splits prod.splits if_splits)
  then have "in_force (api_rows b) (api_settings b)"
    using assms(2) by (simp add: in_force_def stored_after_set)
  with b show ?thesis by (simp add: watcher_in_force get_set_setting) (simp add: set_setting_def Let_def)
qed

section \<open>Notepads\<close>

text \<open>No account has more slots than the limit, and none twice, whatever is written through the page.\<close>

definition slots_ok :: "site_rows \<Rightarrow> bool" where
  "slots_ok x \<longleftrightarrow> (\<forall>owner. distinct (notepad_slots owner x) \<and> length (notepad_slots owner x) \<le> NOTEPAD_LIMIT)"

definition owned_ids :: "int \<Rightarrow> notepad_row list \<Rightarrow> int list" where
  "owned_ids u ns = map notepad_id (filter (\<lambda>n. notepad_owner n = u) ns)"

lemma slots_of: "distinct (notepad_slots u x) = distinct (owned_ids u (notepads x))" "length (notepad_slots u x) = length (owned_ids u (notepads x))"
  "set (notepad_slots u x) = set (owned_ids u (notepads x))"
  by (simp_all add: notepad_slots_def notepad_rows_def owned_ids_def distinct_map)

lemma owned_update: "notepad_owner n = u \<Longrightarrow> notepad_id n = i \<Longrightarrow> owned_ids w (update_where (is_slot u i) (\<lambda>_. n) ns) = owned_ids w ns"
  by (induction ns) (auto simp: owned_ids_def update_where_def is_slot_def)

lemma is_slot_mem: "list_ex (is_slot u i) ns = (i \<in> set (owned_ids u ns))"
  by (induction ns) (auto simp: owned_ids_def is_slot_def)

lemma slots_ok_write:
  assumes "slots_ok x" "i \<in> set (notepad_slots u x) \<or> length (notepad_slots u x) < NOTEPAD_LIMIT"
  shows "slots_ok (notepad_write now u i c x)"
proof (cases "list_ex (is_slot u i) (notepads x)")
  case True
  then show ?thesis using assms(1) by (simp add: slots_ok_def slots_of notepad_write_def Let_def owned_update)
next
  case False
  have snoc: "owned_ids w (ns @ [n]) = (if notepad_owner n = w then owned_ids w ns @ [notepad_id n] else owned_ids w ns)" for w ns n
    by (simp add: owned_ids_def)
  from False assms show ?thesis
    by (auto simp: slots_ok_def slots_of notepad_write_def Let_def is_slot_mem snoc)
qed

text \<open>Reading a slot back gives what was written; another slot is as it was; the bound holds.\<close>

theorem notepad_set:
  assumes "set_notepad E now hs i content a = (Inr created, b)" "slots_ok (api_rows a)"
  shows "slots_ok (api_rows b) \<and> (\<exists>u. notepad_slot u i (api_rows b) = Stored (Some content))"
proof -
  obtain u where u: "api_rows b = notepad_write now u i (Some content) (api_rows a)"
    "created = (notepad_slot u i (api_rows a) = Missing)" "\<not> (created \<and> NOTEPAD_LIMIT \<le> length (notepad_slots u (api_rows a)))"
    using assms(1) by (auto simp: set_notepad_def as_account_def Let_def split: sum.splits prod.splits if_splits)
  have "notepad_slot u i (api_rows a) \<noteq> Missing \<Longrightarrow> i \<in> set (notepad_slots u (api_rows a))"
    by (auto simp: notepad_slot_def slots_of is_slot_mem [symmetric] list_ex_iff find_Some_iff split: option.splits)
  then have "slots_ok (api_rows b)" using u assms(2) by (auto intro!: slots_ok_write)
  moreover have "notepad_slot u i (api_rows b) = Stored (Some content)"
  proof (cases "list_ex (is_slot u i) (notepads (api_rows a))")
    case True
    then have "find (is_slot u i) (update_where (is_slot u i) (\<lambda>_. n) ns) = (if list_ex (is_slot u i) ns then Some n else None)"
      if "is_slot u i n" for n ns using that by (induction ns) (auto simp: update_where_def)
    with True show ?thesis by (simp add: u(1) notepad_slot_def notepad_write_def Let_def is_slot_def)
  next
    case False
    then show ?thesis by (simp add: u(1) notepad_slot_def notepad_write_def Let_def find_appended find_none) (simp add: is_slot_def)
  qed
  ultimately show ?thesis by blast
qed

end
