(* ===== verification/Library.thy ===== *)
theory Library
  imports Outbound Catalog
begin

text \<open>
  Template libraries (\<open>crates/qdrust-server/src/library.rs\<close>): reading what a subscribed source offers,
  showing it, and importing what is picked into the templates of the owner.

  The world \<open>'w\<close> is the network and the clock.  Serde's reading of a manifest, base64 and JSON are
  parameters; the pauses between attempts are left out.
\<close>

section \<open>Sources\<close>

definition GITHUB_URL :: ustr where "GITHUB_URL = lit ''https://github.com/''"
definition RAW_URL :: ustr where "RAW_URL = lit ''https://raw.githubusercontent.com/''"

record github_source =
  gh_owner :: ustr
  gh_repo :: ustr
  gh_branch :: ustr
  gh_mirror :: "ustr option"

definition mirror_rewrite :: "ustr option \<Rightarrow> ustr \<Rightarrow> ustr" where
  "mirror_rewrite mirror url = (case mirror of None \<Rightarrow> url
     | Some m \<Rightarrow> if starts_with GITHUB_URL url \<or> starts_with RAW_URL url then m @ url else url)"

definition through_mirror :: "github_source \<Rightarrow> ustr \<Rightarrow> ustr" where
  "through_mirror s = mirror_rewrite (gh_mirror s)"

definition raw_url :: "github_source \<Rightarrow> ustr \<Rightarrow> ustr" where
  "raw_url s path = through_mirror s (RAW_URL @ join [47] [gh_owner s, gh_repo s, gh_branch s, path])"

definition blob_url :: "github_source \<Rightarrow> ustr \<Rightarrow> ustr" where
  "blob_url s path = through_mirror s (GITHUB_URL @ join [47] [gh_owner s, gh_repo s, lit ''blob'', gh_branch s, path])"

definition branch_of :: "ustr list \<Rightarrow> ustr" where
  "branch_of parts = (case parts of p # named # _ \<Rightarrow> if p = lit ''tree'' \<or> p = lit ''blob'' then named else lit ''HEAD'' | _ \<Rightarrow> lit ''HEAD'')"

definition parse_github_url :: "ustr \<Rightarrow> github_source option" where
  "parse_github_url url =
     (let found = (case strip_prefix GITHUB_URL url of Some rest \<Rightarrow> Some (None, rest)
        | None \<Rightarrow> (case split_once GITHUB_URL url of None \<Rightarrow> None
            | Some (prefix, rest) \<Rightarrow>
                if (starts_with (lit ''http://'') prefix \<or> starts_with (lit ''https://'') prefix) \<and> ends_with [47] prefix
                then Some (Some prefix, rest) else None))
      in case found of None \<Rightarrow> None
         | Some (mirror, rest) \<Rightarrow>
             (case filter (\<lambda>p. p \<noteq> []) (split_by (\<lambda>c. c = 47) rest) of
                owner # repo # parts \<Rightarrow> Some \<lparr>gh_owner = owner, gh_repo = trim_end_str (lit ''.git'') repo,
                  gh_branch = branch_of parts, gh_mirror = mirror\<rparr>
              | _ \<Rightarrow> None))"

section \<open>Catalogues\<close>

definition MAX_LIBRARY_ENTRIES :: nat where "MAX_LIBRARY_ENTRIES = 2000"
definition MAX_OVERVIEW_ENTRIES :: nat where "MAX_OVERVIEW_ENTRIES = 4 * MAX_LIBRARY_ENTRIES"
definition CATALOGUE_TTL :: nat where "CATALOGUE_TTL = 90 * 1000"
definition FETCH_ATTEMPTS :: nat where "FETCH_ATTEMPTS = 3"
definition LIBRARY_TIMEOUT :: nat where "LIBRARY_TIMEOUT = 60"
definition MANIFEST_FILE :: ustr where "MANIFEST_FILE = lit ''tpls_history.json''"
definition USER_AGENT :: ustr where "USER_AGENT = lit ''qdrust-subscription''"

record raw_entry =
  le_name :: ustr
  le_author :: "ustr option"
  le_comments :: "ustr option"
  le_version :: "ustr option"
  le_date :: "ustr option"
  le_filename :: ustr
  le_url :: "ustr option"
  le_comment_url :: "ustr option"
  le_content :: "ustr option"

record catalogue =
  ca_kind :: ustr
  ca_manifest_version :: "ustr option"
  ca_entries :: "raw_entry list"

text \<open>Collecting into a hash map: the last entry of a name wins.\<close>

definition by_name :: "ustr \<Rightarrow> catalogue \<Rightarrow> raw_entry option" where
  "by_name n c = find (\<lambda>e. le_name e = n) (rev (ca_entries c))"

record manifest_entry =
  me_author :: "ustr option"
  me_comments :: "ustr option"
  me_version :: "ustr option"
  me_date :: "ustr option"
  me_filename :: "ustr option"
  me_url :: "ustr option"
  me_commenturl :: "ustr option"
  me_content :: "ustr option"

record manifest =
  mn_version :: "ustr option"
  mn_har :: "(ustr \<times> manifest_entry) list"

definition not_blank :: "ustr option \<Rightarrow> ustr option" where
  "not_blank v = (case v of Some s \<Rightarrow> if trim s = [] then None else Some s | None \<Rightarrow> None)"

definition manifest_raw_entry :: "ustr \<Rightarrow> manifest_entry \<Rightarrow> raw_entry option" where
  "manifest_raw_entry key e =
     (if not_blank (me_content e) = None \<and> not_blank (me_url e) = None \<and> not_blank (me_filename e) = None then None
      else Some \<lparr>le_name = key, le_author = not_blank (me_author e), le_comments = not_blank (me_comments e),
        le_version = not_blank (me_version e), le_date = not_blank (me_date e),
        le_filename = (case me_filename e of Some f \<Rightarrow> f | None \<Rightarrow> key @ lit ''.har''),
        le_url = not_blank (me_url e), le_comment_url = not_blank (me_commenturl e), le_content = not_blank (me_content e)\<rparr>)"

section \<open>Requests\<close>

text \<open>
  A failure carries whether it is \<open>is_transient\<close>: a \<open>reqwest\<close> error that is a timeout, a connection, a body
  or a request error.  A refusal of the guard and an HTTP status are not.
\<close>

type_synonym failure = "bool \<times> error"

record fetched =
  ft_status :: nat
  ft_text :: "failure + ustr"
  ft_json :: "failure + json"

record 'w library_lib =
  li_out :: "'w outworld"
  li_http :: outbound_http
  li_send :: "client \<Rightarrow> nat \<Rightarrow> out_request \<Rightarrow> 'w \<Rightarrow> (failure + fetched) \<times> 'w"
  li_clock :: "'w \<Rightarrow> nat"
  li_manifest :: "ustr \<Rightarrow> error + manifest"
  li_json :: "ustr \<Rightarrow> error + json"
  li_json_bytes :: "nat list \<Rightarrow> error + json"
  li_base64 :: "ustr \<Rightarrow> error + nat list"
  li_base64_no_pad :: "ustr \<Rightarrow> error + nat list"

fun retrying :: "nat \<Rightarrow> failure \<Rightarrow> ('w \<Rightarrow> (failure + 'a) \<times> 'w) \<Rightarrow> 'w \<Rightarrow> (error + 'a) \<times> 'w" where
  "retrying 0 last_one fetch w = (Inl (snd last_one), w)"
| "retrying (Suc n) last_one fetch w = (case fetch w of
      (Inr x, w1) \<Rightarrow> (Inr x, w1)
    | (Inl e, w1) \<Rightarrow> if fst e then retrying n e fetch w1 else (Inl (snd e), w1))"

definition no_attempt :: failure where
  "no_attempt = (False, [lit ''library request failed''])"

definition library_get :: "ustr \<Rightarrow> (ustr \<times> ustr) list \<Rightarrow> out_request" where
  "library_get url hs = \<lparr>or_method = lit ''GET'', or_url = url, or_query = [], or_headers = hs, or_body = NoBody\<rparr>"

text \<open>One attempt, with what is made of the answer.\<close>

definition attempt_get :: "'w library_lib \<Rightarrow> out_request \<Rightarrow> ustr list \<Rightarrow> (fetched \<Rightarrow> failure + 'a) \<Rightarrow> 'w \<Rightarrow> (failure + 'a) \<times> 'w" where
  "attempt_get Y rq sent read w = (case outbound_request (li_out Y) (li_http Y) (or_url rq) w of
      (Inl e, w1) \<Rightarrow> (Inl (False, e), w1)
    | (Inr cl, w1) \<Rightarrow> (case li_send Y cl LIBRARY_TIMEOUT rq w1 of
          (Inl (t, e), w2) \<Rightarrow> (Inl (t, sent @ e), w2)
        | (Inr r, w2) \<Rightarrow> (read r, w2)))"

definition status_error :: "'w library_lib \<Rightarrow> ustr \<Rightarrow> fetched \<Rightarrow> error option" where
  "status_error Y url r = (if 400 \<le> ft_status r \<and> ft_status r < 600 then Some [ow_status_error (li_out Y) (ft_status r) url] else None)"

definition read_text :: "'w library_lib \<Rightarrow> ustr \<Rightarrow> fetched \<Rightarrow> failure + ustr option" where
  "read_text Y url r = (if ft_status r = 404 then Inr None
     else case status_error Y url r of Some e \<Rightarrow> Inl (False, (url @ lit '' returned an error'') # e)
       | None \<Rightarrow> (case ft_text r of Inl (t, e) \<Rightarrow> Inl (t, (lit ''cannot read the body of '' @ url) # e) | Inr s \<Rightarrow> Inr (Some s)))"

definition fetch_text :: "'w library_lib \<Rightarrow> ustr \<Rightarrow> 'w \<Rightarrow> (error + ustr option) \<times> 'w" where
  "fetch_text Y url = scontext (lit ''cannot reach '' @ url)
     (retrying FETCH_ATTEMPTS no_attempt
        (attempt_get Y (library_get url [(lit ''User-Agent'', USER_AGENT)]) [] (read_text Y url)))"

definition fetch_manifest :: "'w library_lib \<Rightarrow> github_source \<Rightarrow> 'w \<Rightarrow> (error + manifest option) \<times> 'w" where
  "fetch_manifest Y s = (let url = raw_url s MANIFEST_FILE in
     sbind (fetch_text Y url) (\<lambda>t. sread (\<lambda>_. case t of None \<Rightarrow> Inr None
       | Some text \<Rightarrow> rbind (with_context (url @ lit '' is not a valid manifest'') (li_manifest Y text)) (\<lambda>m. Inr (Some m)))))"

definition read_tree :: "'w library_lib \<Rightarrow> ustr \<Rightarrow> fetched \<Rightarrow> failure + json" where
  "read_tree Y url r = (case status_error Y url r of Some e \<Rightarrow> Inl (False, lit ''GitHub API returned an error'' # e)
     | None \<Rightarrow> (case ft_json r of Inl (t, e) \<Rightarrow> Inl (t, lit ''invalid GitHub API response'' # e) | Inr j \<Rightarrow> Inr j))"

definition looks_like_qd_template :: "ustr \<Rightarrow> bool" where
  "looks_like_qd_template path \<longleftrightarrow> (let low = to_ascii_lowercase path in
     (ends_with (lit ''.har'') low \<or> ends_with (lit ''.json'') low) \<and> \<not> ends_with MANIFEST_FILE low)"

definition file_stem :: "ustr \<Rightarrow> ustr" where
  "file_stem path = trim_end_str (lit ''.har'') (trim_end_str (lit ''.json'') (last (split_by (\<lambda>c. c = 47) path)))"

definition tree_entry :: "github_source \<Rightarrow> json \<Rightarrow> raw_entry option" where
  "tree_entry s item =
     (if Option.bind (jget (lit ''type'') item) as_str \<noteq> Some (lit ''blob'') then None
      else case Option.bind (jget (lit ''path'') item) as_str of None \<Rightarrow> None
        | Some path \<Rightarrow> if \<not> looks_like_qd_template path then None
            else Some \<lparr>le_name = file_stem path, le_author = None, le_comments = None, le_version = None, le_date = None,
              le_filename = path, le_url = Some (raw_url s path), le_comment_url = Some (blob_url s path), le_content = None\<rparr>)"

definition scan_tree :: "'w library_lib \<Rightarrow> github_source \<Rightarrow> 'w \<Rightarrow> (error + raw_entry list) \<times> 'w" where
  "scan_tree Y s = (let url = lit ''https://api.github.com/repos/'' @ gh_owner s @ [47] @ gh_repo s @ lit ''/git/trees/'' @ gh_branch s
        @ lit ''?recursive=1'' in
     sbind (retrying FETCH_ATTEMPTS no_attempt (attempt_get Y (library_get url [(lit ''User-Agent'', USER_AGENT),
         (lit ''Accept'', lit ''application/vnd.github+json'')]) [lit ''cannot reach GitHub API''] (read_tree Y url)))
       (\<lambda>body. sread (\<lambda>_. case Option.bind (jget (lit ''tree'') body) as_array of
           None \<Rightarrow> Inl [lit ''GitHub tree response has no entries'']
         | Some tree \<Rightarrow> Inr (take MAX_LIBRARY_ENTRIES (List.map_filter (tree_entry s) tree)))))"

definition direct_entry :: "ustr \<Rightarrow> raw_entry" where
  "direct_entry url = (let name = file_stem url in
     \<lparr>le_name = name, le_author = None, le_comments = None, le_version = None, le_date = None, le_filename = name,
      le_url = Some url, le_comment_url = None, le_content = None\<rparr>)"

definition catalogue_of :: "'w library_lib \<Rightarrow> ustr \<Rightarrow> 'w \<Rightarrow> (error + catalogue) \<times> 'w" where
  "catalogue_of Y url = (case parse_github_url url of
      None \<Rightarrow> sret \<lparr>ca_kind = lit ''files'', ca_manifest_version = None, ca_entries = [direct_entry url]\<rparr>
    | Some s \<Rightarrow> sbind (fetch_manifest Y s) (\<lambda>m. case m of
          Some m \<Rightarrow>
            let entries = List.map_filter (\<lambda>(k, e). manifest_raw_entry k e) (take MAX_LIBRARY_ENTRIES (mn_har m)) in
            if entries = [] then sfail [MANIFEST_FILE @ lit '' lists no usable templates'']
            else sret \<lparr>ca_kind = lit ''manifest'', ca_manifest_version = mn_version m, ca_entries = entries\<rparr>
        | None \<Rightarrow> sbind (scan_tree Y s) (\<lambda>entries.
            if entries = [] then sfail [lit ''no template files found in that repository'']
            else sret \<lparr>ca_kind = lit ''files'', ca_manifest_version = None, ca_entries = entries\<rparr>)))"

section \<open>The cache of catalogues\<close>

text \<open>The tables, the cache by source, and the world.\<close>

record 'w library =
  lb_catalog :: catalog
  lb_cache :: "ustr \<Rightarrow> (nat \<times> catalogue) option"
  lb_world :: 'w

definition fresh :: "nat \<Rightarrow> nat \<Rightarrow> nat \<times> catalogue \<Rightarrow> bool" where
  "fresh now max_age hit \<longleftrightarrow> now - fst hit < max_age"

definition retain_fresh :: "nat \<Rightarrow> (ustr \<Rightarrow> (nat \<times> catalogue) option) \<Rightarrow> ustr \<Rightarrow> (nat \<times> catalogue) option" where
  "retain_fresh now cached u = (case cached u of Some hit \<Rightarrow> if fresh now CATALOGUE_TTL hit then Some hit else None | None \<Rightarrow> None)"

definition catalogue_via :: "('w \<Rightarrow> nat) \<Rightarrow> ustr \<Rightarrow> nat \<Rightarrow> ('w \<Rightarrow> (error + catalogue) \<times> 'w) \<Rightarrow> ('w library, catalogue \<times> bool) serr" where
  "catalogue_via clock url max_age fetch b =
     (let reusable = (case lb_cache b url of Some hit \<Rightarrow> if 0 < max_age \<and> fresh (clock (lb_world b)) max_age hit then Some hit else None
        | None \<Rightarrow> None) in
      case reusable of Some (_, c) \<Rightarrow> (Inr (c, True), b)
      | None \<Rightarrow> (case fetch (lb_world b) of
          (Inr c, w) \<Rightarrow> (Inr (c, False), b\<lparr>lb_world := w,
             lb_cache := (retain_fresh (clock w) (lb_cache b))(url \<mapsto> (clock w, c))\<rparr>)
        | (Inl e, w) \<Rightarrow> (let b1 = b\<lparr>lb_world := w\<rparr> in
            if 0 < max_age then (case lb_cache b url of None \<Rightarrow> (Inl e, b1) | Some (_, c) \<Rightarrow> (Inr (c, True), b1))
            else (Inl e, b1))))"

definition cached_catalogue :: "'w library_lib \<Rightarrow> ustr \<Rightarrow> nat \<Rightarrow> ('w library, catalogue \<times> bool) serr" where
  "cached_catalogue Y url max_age = catalogue_via (li_clock Y) url max_age (catalogue_of Y url)"

text \<open>A request that leaves the tables and the cache alone.\<close>

definition on_world :: "('w \<Rightarrow> (error + 'a) \<times> 'w) \<Rightarrow> ('w library, 'a) serr" where
  "on_world f b = (let (r, w) = f (lb_world b) in (r, b\<lparr>lb_world := w\<rparr>))"

definition on_tables :: "(catalog \<Rightarrow> (error + 'a) \<times> catalog) \<Rightarrow> ('w library, 'a) serr" where
  "on_tables f b = (let (r, c) = f (lb_catalog b) in (r, b\<lparr>lb_catalog := c\<rparr>))"

section \<open>What is shown\<close>

record library_entry =
  ly_name :: ustr
  ly_author :: "ustr option"
  ly_comments :: "ustr option"
  ly_version :: "ustr option"
  ly_date :: "ustr option"
  ly_filename :: ustr
  ly_url :: "ustr option"
  ly_comment_url :: "ustr option"
  ly_installed_template :: "int option"
  ly_installed_version :: "ustr option"
  ly_update_available :: bool
  ly_source :: "(int \<times> ustr) option"

definition version_is_newer :: "ustr option \<Rightarrow> ustr option \<Rightarrow> bool" where
  "version_is_newer upstream installed = (case (upstream, installed) of
      (Some u, Some i) \<Rightarrow>
        let u = trim u; i = trim i in
        if u = [] \<or> i = [] then False
        else (case (parse_unsigned 64 u, parse_unsigned 64 i) of (Some m, Some n) \<Rightarrow> n < m | _ \<Rightarrow> i < u)
    | _ \<Rightarrow> False)"

text \<open>Tags are dropped, those of blocks become line breaks.\<close>

function plain_chars :: "ustr \<Rightarrow> ustr" where
  "plain_chars [] = []"
| "plain_chars (c # cs) =
     (if c \<noteq> ch CHR ''<'' then c # plain_chars cs
      else let tag = takeWhile (\<lambda>d. d \<noteq> ch CHR ''>'') cs;
               name = to_ascii_lowercase (hd (split_by (\<lambda>d. is_ws d \<or> d = 47) (trim_start_by (\<lambda>d. d = 47) tag)));
               rest = plain_chars (drop (Suc (length tag)) cs)
        in if name \<in> {lit ''br'', lit ''p'', lit ''div'', lit ''li''} then 10 # rest else rest)"
  by pat_completeness auto
termination by (relation "measure length") auto

definition plain_text :: "ustr \<Rightarrow> ustr" where
  "plain_text html =
     (let s = fold (\<lambda>(old, new). replace_str old new) [(lit ''&nbsp;'', lit '' ''), (lit ''&amp;'', lit ''&''), (lit ''&lt;'', lit ''<''),
        (lit ''&gt;'', lit ''>''), (lit ''&quot;'', [34]), (lit ''&#39;'', [39])] (plain_chars html)
      in join [10] (filter (\<lambda>l. l \<noteq> []) (map trim (split_by (\<lambda>c. c = 10) s))))"

definition library_entry_of :: "raw_entry \<Rightarrow> template_import option \<Rightarrow> library_entry" where
  "library_entry_of e installed = (let v = Option.bind installed imp_version in
     \<lparr>ly_name = le_name e, ly_author = le_author e, ly_comments = map_option plain_text (le_comments e), ly_version = le_version e,
      ly_date = le_date e, ly_filename = le_filename e, ly_url = le_url e, ly_comment_url = le_comment_url e,
      ly_installed_template = map_option imp_template installed, ly_installed_version = v,
      ly_update_available = (installed \<noteq> None \<and> version_is_newer (le_version e) v), ly_source = None\<rparr>)"

definition installed_index :: "template_import list \<Rightarrow> ustr \<Rightarrow> template_import option" where
  "installed_index ms n = find (\<lambda>m. imp_entry m = n) (rev ms)"

record template_library =
  tl_subscription :: int
  tl_kind :: ustr
  tl_manifest_version :: "ustr option"
  tl_entries :: "library_entry list"

definition browse :: "'w library_lib \<Rightarrow> subscription \<Rightarrow> ('w library, template_library) serr" where
  "browse Y s = sbind (on_world (catalogue_of Y (sub_url s))) (\<lambda>c. sread (\<lambda>b.
     let installed = installed_index (list_template_imports (sub_id s) (lb_catalog b)) in
     Inr \<lparr>tl_subscription = sub_id s, tl_kind = ca_kind c, tl_manifest_version = ca_manifest_version c,
       tl_entries = map (\<lambda>e. library_entry_of e (installed (le_name e))) (ca_entries c)\<rparr>))"

definition bounded :: "ustr \<Rightarrow> ustr" where
  "bounded m = take 4096 m @ (if 4096 < length m then lit ''...'' else [])"

text \<open>\<open>to_string\<close> of an error: its outermost message.\<close>

definition headline :: "error \<Rightarrow> ustr" where
  "headline e = (case e of [] \<Rightarrow> [] | m # _ \<Rightarrow> m)"

section \<open>Importing\<close>

definition decode_base64 :: "'w library_lib \<Rightarrow> ustr \<Rightarrow> error + nat list" where
  "decode_base64 Y v = (let compact = filter (\<lambda>c. \<not> is_ws c) v in
     with_context (lit ''template content is not valid base64'')
       (case li_base64 Y compact of Inr bs \<Rightarrow> Inr bs | Inl _ \<Rightarrow> li_base64_no_pad Y compact))"

definition resolve_har :: "'w library_lib \<Rightarrow> github_source option \<Rightarrow> raw_entry \<Rightarrow> 'w \<Rightarrow> (error + json) \<times> 'w" where
  "resolve_har Y source e =
     (case not_blank (le_content e) of
        Some content \<Rightarrow> sread (\<lambda>_. rbind (with_context (le_name e @ lit '' has unreadable content'') (decode_base64 Y content))
          (\<lambda>bs. with_context (le_name e @ lit '' is not valid JSON'') (li_json_bytes Y bs)))
      | None \<Rightarrow>
        (case or_opt (le_url e) (map_option (\<lambda>s. raw_url s (le_filename e)) source) of
           None \<Rightarrow> sfail [le_name e @ lit '' has neither content nor a download URL'']
         | Some url \<Rightarrow>
           let url = (case source of Some s \<Rightarrow> through_mirror s url | None \<Rightarrow> url) in
           sbind (fetch_text Y url) (\<lambda>t. case t of
               None \<Rightarrow> sfail [le_name e @ lit '' is not available at '' @ url]
             | Some text \<Rightarrow> sread (\<lambda>_. with_context (url @ lit '' is not valid JSON'') (li_json Y text)))))"

definition valid_har :: "catalog_lib \<Rightarrow> ustr \<Rightarrow> json \<Rightarrow> error + unit" where
  "valid_har L name har = rbind (with_context (name @ lit '' is not a valid QD HAR template'') (parse_qd (har_refusal L) har)) (\<lambda>_. Inr ())"

text \<open>The recorded template first, then one of the same name; the provenance is recorded either way.\<close>

definition persist_entry :: "catalog_lib \<Rightarrow> int \<Rightarrow> subscription \<Rightarrow> raw_entry \<Rightarrow> ustr \<Rightarrow> ustr option \<Rightarrow> json \<Rightarrow> int option
    \<Rightarrow> (catalog, int \<times> bool) serr" where
  "persist_entry L now s e name description har linked c =
     (let owner = sub_owner s; existing = (case linked of Some i \<Rightarrow> Some i | None \<Rightarrow> find_template_by_name owner name c)
      in sbind (case existing of
           Some i \<Rightarrow> sbind (update_qd_har_for_owner L now i owner name description har) (\<lambda>t. case t of
               None \<Rightarrow> sfail [lit ''template '' @ int_to_str i @ lit '' disappeared while importing'']
             | Some t \<Rightarrow> sret (tpl_id t, True))
         | None \<Rightarrow> sbind (import_qd_har_with_owner L now (Some owner) name description har) (\<lambda>t. sret (tpl_id t, False)))
         (\<lambda>(i, updated). sbind (record_template_import (sub_id s) i (le_name e) (le_version e)) (\<lambda>_. sret (i, updated))) c)"

definition import_entry :: "catalog_lib \<Rightarrow> 'w library_lib \<Rightarrow> int \<Rightarrow> subscription \<Rightarrow> github_source option \<Rightarrow> raw_entry \<Rightarrow> int option
    \<Rightarrow> ('w library, int \<times> bool) serr" where
  "import_entry L Y now s source e linked = sbind (on_world (resolve_har Y source e)) (\<lambda>har.
     sbind (sread (\<lambda>_. valid_har L (le_name e) har)) (\<lambda>_.
       on_tables (persist_entry L now s e (le_name e) (map_option plain_text (le_comments e)) har linked)))"

record import_outcome =
  io_name :: ustr
  io_template :: int
  io_updated :: bool

record import_result =
  ir_imported :: nat
  ir_updated :: nat
  ir_failed :: "(ustr \<times> ustr) list"
  ir_templates :: "import_outcome list"

definition add_outcome :: "ustr \<Rightarrow> error + int \<times> bool \<Rightarrow> import_result \<Rightarrow> import_result" where
  "add_outcome n r res = (case r of
      Inl e \<Rightarrow> res\<lparr>ir_failed := ir_failed res @ [(n, bounded (headline e))]\<rparr>
    | Inr (i, updated) \<Rightarrow> res\<lparr>ir_updated := ir_updated res + (if updated then 1 else 0),
        ir_imported := ir_imported res + (if updated then 0 else 1),
        ir_templates := ir_templates res @ [\<lparr>io_name = n, io_template = i, io_updated = updated\<rparr>]\<rparr>)"

fun import_names :: "(ustr \<Rightarrow> ('w library, int \<times> bool) serr) \<Rightarrow> ustr list \<Rightarrow> ustr list \<Rightarrow> import_result \<Rightarrow> 'w library
    \<Rightarrow> import_result \<times> 'w library" where
  "import_names one seen [] res b = (res, b)"
| "import_names one seen (n # ns) res b =
     (if n \<in> set seen then import_names one seen ns res b
      else let (r, b1) = one n b in import_names one (n # seen) ns (add_outcome n r res) b1)"

definition import_selected :: "catalog_lib \<Rightarrow> 'w library_lib \<Rightarrow> int \<Rightarrow> subscription \<Rightarrow> ustr list \<Rightarrow> ('w library, import_result) serr" where
  "import_selected L Y now s names =
     (if names = [] then sfail [lit ''no templates selected'']
      else sbind (on_world (catalogue_of Y (sub_url s))) (\<lambda>c b.
        let linked = installed_index (list_template_imports (sub_id s) (lb_catalog b));
            source = parse_github_url (sub_url s);
            one = (\<lambda>n. case by_name n c of
                None \<Rightarrow> sfail [lit ''this source does not offer that template'']
              | Some e \<Rightarrow> import_entry L Y now s source e (map_option imp_template (linked (le_name e))));
            (res, b1) = import_names one [] names \<lparr>ir_imported = 0, ir_updated = 0, ir_failed = [], ir_templates = []\<rparr> b
        in (Inr res, b1)))"

section \<open>Preview, save and overview\<close>

definition offered :: "catalogue \<Rightarrow> ustr \<Rightarrow> error + raw_entry" where
  "offered c n = (case by_name n c of None \<Rightarrow> Inl [lit ''this source does not offer '' @ n] | Some e \<Rightarrow> Inr e)"

definition library_preview :: "catalog_lib \<Rightarrow> 'w library_lib \<Rightarrow> subscription \<Rightarrow> ustr \<Rightarrow> ('w library, library_entry \<times> json) serr" where
  "library_preview L Y s n =
     sbind (cached_catalogue Y (sub_url s) CATALOGUE_TTL) (\<lambda>(c, _).
     sbind (sread (\<lambda>_. offered c n)) (\<lambda>e.
     sbind (on_world (resolve_har Y (parse_github_url (sub_url s)) e)) (\<lambda>har.
     sbind (sread (\<lambda>_. valid_har L n har)) (\<lambda>_.
     sread (\<lambda>b. Inr (library_entry_of e (installed_index (list_template_imports (sub_id s) (lb_catalog b)) n), har))))))"

record apply_input =
  ai_entry :: ustr
  ai_template_id :: "int option"
  ai_name :: ustr
  ai_description :: "ustr option"
  ai_har :: json

definition apply_library :: "catalog_lib \<Rightarrow> 'w library_lib \<Rightarrow> int \<Rightarrow> subscription \<Rightarrow> apply_input \<Rightarrow> ('w library, import_outcome) serr" where
  "apply_library L Y now s x =
     (if trim (ai_name x) = [] then sfail [lit ''the template needs a name'']
      else sbind (cached_catalogue Y (sub_url s) CATALOGUE_TTL) (\<lambda>(c, _).
        sbind (sread (\<lambda>_. offered c (ai_entry x))) (\<lambda>e.
        sbind (sread (\<lambda>_. valid_har L (ai_name x) (ai_har x))) (\<lambda>_.
        sbind (on_tables (persist_entry L now s e (ai_name x) (ai_description x) (ai_har x) (ai_template_id x))) (\<lambda>(i, updated).
        sret \<lparr>io_name = le_name e, io_template = i, io_updated = updated\<rparr>)))))"

record source_status =
  ss_subscription :: int
  ss_name :: ustr
  ss_kind :: "ustr option"
  ss_entries :: nat
  ss_cached :: bool
  ss_error :: "ustr option"

record overview =
  ov_entries :: "library_entry list"
  ov_sources :: "source_status list"
  ov_truncated :: bool

text \<open>The sources are read one after another.\<close>

fun read_sources :: "'w library_lib \<Rightarrow> nat \<Rightarrow> subscription list \<Rightarrow> 'w library
    \<Rightarrow> (subscription \<times> (error + catalogue \<times> bool)) list \<times> 'w library" where
  "read_sources Y max_age [] b = ([], b)"
| "read_sources Y max_age (s # ss) b = (let (r, b1) = cached_catalogue Y (sub_url s) max_age b; (rs, b2) = read_sources Y max_age ss b1
     in ((s, r) # rs, b2))"

definition add_source :: "catalog \<Rightarrow> subscription \<times> (error + catalogue \<times> bool) \<Rightarrow> overview \<Rightarrow> overview" where
  "add_source c = (\<lambda>(s, r) ov. case r of
      Inl e \<Rightarrow> ov\<lparr>ov_sources := ov_sources ov @ [\<lparr>ss_subscription = sub_id s, ss_name = sub_name s, ss_kind = None, ss_entries = 0,
        ss_cached = False, ss_error = Some (bounded (headline e))\<rparr>]\<rparr>
    | Inr (ca, cached) \<Rightarrow>
      let installed = installed_index (list_template_imports (sub_id s) c);
          room = MAX_OVERVIEW_ENTRIES - length (ov_entries ov);
          rows = map (\<lambda>e. (library_entry_of e (installed (le_name e)))\<lparr>ly_source := Some (sub_id s, sub_name s)\<rparr>) (take room (ca_entries ca))
      in \<lparr>ov_entries = ov_entries ov @ rows,
          ov_sources = ov_sources ov @ [\<lparr>ss_subscription = sub_id s, ss_name = sub_name s, ss_kind = Some (ca_kind ca),
            ss_entries = length rows, ss_cached = cached, ss_error = None\<rparr>],
          ov_truncated = (ov_truncated ov \<or> room < length (ca_entries ca))\<rparr>)"

definition library_overview :: "'w library_lib \<Rightarrow> bool \<Rightarrow> subscription list \<Rightarrow> 'w library \<Rightarrow> overview \<times> 'w library" where
  "library_overview Y refresh ss b =
     (let (rs, b1) = read_sources Y (if refresh then 0 else CATALOGUE_TTL) ss b
      in (fold (add_source (lb_catalog b1)) rs \<lparr>ov_entries = [], ov_sources = [], ov_truncated = False\<rparr>, b1))"

end
