(* ===== verification/ApiLibrary.thy ===== *)
theory ApiLibrary
  imports Library ApiSite
begin

text \<open>The handlers of template libraries (\<open>crates/qdrust-server/src/api.rs\<close>); the cache of catalogues is passed along.\<close>

type_synonym cached = "ustr \<Rightarrow> (nat \<times> catalogue) option"

definition owned_subscription :: "('w, 'enc) api_env \<Rightarrow> int \<Rightarrow> request_headers \<Rightarrow> int \<Rightarrow> 'w api \<Rightarrow> (api_error + subscription) \<times> 'w api" where
  "owned_subscription E now hs i = as_cached_account E now hs (\<lambda>u a.
     (found (lit ''subscription_not_found'') (get_subscription i (caller u) (api_catalog a)), a))"

definition run_library :: "('w library \<Rightarrow> (error + 'a) \<times> 'w library) \<Rightarrow> 'w api \<Rightarrow> cached \<Rightarrow> (api_error + 'a) \<times> 'w api \<times> cached" where
  "run_library f a cached =
     (let (r, b) = f \<lparr>lb_catalog = api_catalog a, lb_cache = cached, lb_world = sv_world (api_server a)\<rparr>
      in (unprocessable r, a\<lparr>api_server := (api_server a)\<lparr>sv_catalog := lb_catalog b, sv_world := lb_world b\<rparr>\<rparr>, lb_cache b))"

definition on_subscription :: "('w, 'enc) api_env \<Rightarrow> int \<Rightarrow> request_headers \<Rightarrow> int \<Rightarrow> (subscription \<Rightarrow> ('w library, 'a) serr) \<Rightarrow> 'w api
    \<Rightarrow> cached \<Rightarrow> (api_error + 'a) \<times> 'w api \<times> cached" where
  "on_subscription E now hs i f a cached = (case owned_subscription E now hs i a of
      (Inl e, a1) \<Rightarrow> (Inl e, a1, cached)
    | (Inr s, a1) \<Rightarrow> run_library (f s) a1 cached)"

definition browse_subscription_library :: "'w library_lib \<Rightarrow> ('w, 'enc) api_env \<Rightarrow> int \<Rightarrow> request_headers \<Rightarrow> int \<Rightarrow> 'w api \<Rightarrow> cached
    \<Rightarrow> (api_error + template_library) \<times> 'w api \<times> cached" where
  "browse_subscription_library Y E now hs i = on_subscription E now hs i (browse Y)"

definition import_subscription_library :: "'w library_lib \<Rightarrow> ('w, 'enc) api_env \<Rightarrow> int \<Rightarrow> request_headers \<Rightarrow> int \<Rightarrow> ustr list \<Rightarrow> 'w api
    \<Rightarrow> cached \<Rightarrow> (api_error + import_result) \<times> 'w api \<times> cached" where
  "import_subscription_library Y E now hs i names =
     on_subscription E now hs i (\<lambda>s. import_selected (ae_catalog E) Y now s names)"

definition preview_subscription_library :: "'w library_lib \<Rightarrow> ('w, 'enc) api_env \<Rightarrow> int \<Rightarrow> request_headers \<Rightarrow> int \<Rightarrow> ustr \<Rightarrow> 'w api
    \<Rightarrow> cached \<Rightarrow> (api_error + library_entry \<times> json) \<times> 'w api \<times> cached" where
  "preview_subscription_library Y E now hs i n = on_subscription E now hs i (\<lambda>s. library_preview (ae_catalog E) Y s n)"

definition apply_subscription_library :: "'w library_lib \<Rightarrow> ('w, 'enc) api_env \<Rightarrow> int \<Rightarrow> request_headers \<Rightarrow> int \<Rightarrow> apply_input \<Rightarrow> 'w api
    \<Rightarrow> cached \<Rightarrow> (api_error + import_outcome) \<times> 'w api \<times> cached" where
  "apply_subscription_library Y E now hs i input = on_subscription E now hs i (\<lambda>s. apply_library (ae_catalog E) Y now s input)"

definition library_overview_handler :: "'w library_lib \<Rightarrow> ('w, 'enc) api_env \<Rightarrow> int \<Rightarrow> request_headers \<Rightarrow> bool \<Rightarrow> 'w api
    \<Rightarrow> cached \<Rightarrow> (api_error + overview) \<times> 'w api \<times> cached" where
  "library_overview_handler Y E now hs refresh a cached =
     (case as_cached_account E now hs (\<lambda>u a. (Inr (list_subscriptions (caller u) (api_catalog a)), a)) a of
        (Inl e, a1) \<Rightarrow> (Inl e, a1, cached)
      | (Inr ss, a1) \<Rightarrow> run_library (\<lambda>b. let (ov, b1) = library_overview Y refresh (filter sub_enabled ss) b in (Inr ov, b1)) a1 cached)"

end
