(* ===== verification/LibraryThms.thy ===== *)
theory LibraryThms
  imports ApiLibrary ApiProps CatalogThms
begin

text \<open>
  What template libraries promise: an import is recorded, repeated in place and stays in the account; a
  request is tried at most three times; and where the cache and the names of files let a source down.
\<close>

section \<open>Rows of one account\<close>

lemma record_import_templates: "templates (snd (record_template_import sid tid n v c)) = templates c"
  "next_template (snd (record_template_import sid tid n v c)) = next_template c" "base (snd (record_template_import sid tid n v c)) = base c"
  "spares w c (snd (record_template_import sid tid n v c))"
  by (simp_all add: record_template_import_def Let_def spares_def kept_refl)

lemma spares_trans: "spares v a b \<Longrightarrow> spares v b c \<Longrightarrow> spares v a c"
  unfolding spares_def by (meson spares_db_trans kept_trans)

lemma spares_sbind: "spares v c (snd (m c)) \<Longrightarrow> (\<And>x c1. spares v c1 (snd (f x c1))) \<Longrightarrow> spares v c (snd (sbind m f c))"
proof -
  assume m: "spares v c (snd (m c))" and f: "\<And>x c1. spares v c1 (snd (f x c1))"
  show ?thesis
  proof (cases "m c")
    case (Pair r c1)
    then show ?thesis using m f spares_trans [of v c c1] by (cases r) (auto simp: sbind_def)
  qed
qed

lemma spares_sret [simp]: "spares v c (snd (sret x c))" "spares v c (snd (sfail e c))"
  by (simp_all add: sret_def sfail_def)

lemma persist_spares:
  assumes "sub_owner s \<noteq> v"
  shows "spares v c (snd (persist_entry L now s e name d har linked c))"
  unfolding persist_entry_def Let_def using assms
  by (auto intro!: spares_sbind record_import_templates(4) spares_update_har spares_import split: option.split)

section \<open>What an import leaves\<close>

definition holds_har :: "int \<Rightarrow> int \<Rightarrow> ustr \<Rightarrow> ustr option \<Rightarrow> json \<Rightarrow> catalog \<Rightarrow> bool" where
  "holds_har i owner name description har c \<longleftrightarrow> (\<exists>t. get_template_for_owner i owner c = Some t \<and> tpl_name t = name
     \<and> tpl_description t = description \<and> tpl_source t = QdHar har)"

lemma fresh_not_found: "keyed tpl_id n ts \<Longrightarrow> (\<And>x. P x \<Longrightarrow> tpl_id x = n) \<Longrightarrow> find P ts = None"
  by (force simp: find_None_iff keyed_def)

lemma import_holds:
  assumes "import_qd_har_with_owner L now (Some owner) name d har c = (Inr t, c1)" "keyed tpl_id (next_template c) (templates c)"
  shows "holds_har (tpl_id t) owner name d har c1 \<and> length (templates c1) = Suc (length (templates c))
    \<and> keyed tpl_id (next_template c1) (templates c1)"
proof -
  let ?n = "next_template c"
  let ?t = "(new_template now (Some owner) name d (QdHar har))\<lparr>tpl_id := ?n\<rparr>"
  have c1: "c1 = c\<lparr>templates := templates c @ [?t], next_template := ?n + 1\<rparr>" and g: "get_template ?n c1 = Some t"
    using assms(1) by (auto simp: import_qd_har_with_owner_def insert_template_def Let_def split: sum.splits option.splits)
  have "t = ?t" using g fresh_not_found [OF assms(2), of "\<lambda>x. tpl_id x = ?n"] by (simp add: get_template_def c1 find_append)
  moreover have "find (\<lambda>x. tpl_id x = ?n \<and> tpl_owner x = Some owner) (templates c) = None" by (rule fresh_not_found [OF assms(2)]) simp
  ultimately show ?thesis
    using assms(2) by (auto simp: holds_har_def get_template_for_owner_def c1 find_append new_template_def keyed_def)
qed

lemma keyed_find: "keyed tpl_id n ts \<Longrightarrow> x \<in> set ts \<Longrightarrow> tpl_id x = i \<Longrightarrow> P x \<Longrightarrow> find (\<lambda>t. tpl_id t = i \<and> P t) ts = Some x"
proof (induction ts)
  case (Cons t ts)
  then show ?case by (cases "t = x") (auto simp: keyed_def)
qed simp

lemma update_holds:
  assumes "update_qd_har_for_owner L now i owner name d har c = (Inr (Some t), c1)" "keyed tpl_id (next_template c) (templates c)"
  shows "tpl_id t = i \<and> holds_har i owner name d har c1 \<and> length (templates c1) = length (templates c)
    \<and> keyed tpl_id (next_template c1) (templates c1)"
proof -
  let ?hit = "\<lambda>t. tpl_id t = i \<and> tpl_owner t = Some owner \<and> is_har t"
  let ?f = "\<lambda>t. t\<lparr>tpl_name := name, tpl_description := d, tpl_source := QdHar har, tpl_updated_at := now\<rparr>"
  have c1: "c1 = c\<lparr>templates := update_where ?hit ?f (templates c)\<rparr>" and g: "get_template_for_owner i owner c1 = Some t"
    and n: "affected ?hit (templates c) \<noteq> 0"
    using assms(1) by (auto simp: update_qd_har_for_owner_def Let_def split: sum.splits if_splits)
  from n obtain x where x: "x \<in> set (templates c)" "?hit x" by (auto simp: affected_def filter_empty_conv)
  have k: "keyed tpl_id (next_template c1) (templates c1)"
    using assms(2) unfolding c1 by (simp add: keyed_update)
  have "?f x \<in> set (templates c1)" using x by (auto simp: c1 set_update_where image_iff)
  from keyed_find [OF k this, of i "\<lambda>t. tpl_owner t = Some owner"] x(2) g have "t = ?f x" by (simp add: get_template_for_owner_def)
  with x(2) g k show ?thesis by (auto simp: holds_har_def c1 update_where_def)
qed

lemma index_all: "\<exists>m\<in>set ms. imp_entry m = n \<Longrightarrow> (\<And>m. m \<in> set ms \<Longrightarrow> imp_entry m = n \<Longrightarrow> Q m) \<Longrightarrow> \<exists>m. installed_index ms n = Some m \<and> Q m"
proof -
  assume e: "\<exists>m\<in>set ms. imp_entry m = n" and q: "\<And>m. m \<in> set ms \<Longrightarrow> imp_entry m = n \<Longrightarrow> Q m"
  have "installed_index ms n \<noteq> None" using e by (auto simp: installed_index_def find_None_iff)
  then obtain m where m: "installed_index ms n = Some m" by blast
  then have "m \<in> set (rev ms)" "imp_entry m = n" by (auto simp: installed_index_def find_Some_iff simp del: set_rev dest: nth_mem)
  with m q show ?thesis by auto
qed

definition linked_to_entry :: "subscription \<Rightarrow> raw_entry \<Rightarrow> int \<Rightarrow> catalog \<Rightarrow> bool" where
  "linked_to_entry s e i c \<longleftrightarrow> (\<exists>m. installed_index (list_template_imports (sub_id s) c) (le_name e) = Some m
     \<and> imp_template m = i \<and> imp_version m = le_version e)"

lemma updated_exists: "x \<in> set xs \<Longrightarrow> P x \<Longrightarrow> (\<And>y. P y \<Longrightarrow> P (f y)) \<Longrightarrow> \<exists>y\<in>set (update_where P f xs). P y"
  by (induction xs) (auto simp: update_where_def)

lemma record_links:
  assumes "record_template_import (sub_id s) i (le_name e) (le_version e) c = (Inr (), c2)"
  shows "linked_to_entry s e i c2 \<and> templates c2 = templates c \<and> next_template c2 = next_template c"
proof -
  let ?hit = "\<lambda>m. imp_subscription m = sub_id s \<and> imp_entry m = le_name e"
  have "\<exists>m\<in>set (template_imports c2). ?hit m"
  proof (cases "affected ?hit (template_imports c) = 0")
    case True
    then show ?thesis using assms by (auto simp: record_template_import_def Let_def split: if_splits)
  next
    case False
    then show ?thesis using assms by (auto simp: record_template_import_def Let_def affected_def filter_empty_conv
        intro!: updated_exists split: if_splits)
  qed
  moreover have "\<forall>m\<in>set (template_imports c2). ?hit m \<longrightarrow> imp_template m = i \<and> imp_version m = le_version e"
    using assms by (auto simp: record_template_import_def Let_def affected_def filter_empty_conv set_update_where split: if_splits)
  ultimately have "linked_to_entry s e i c2" unfolding linked_to_entry_def by (intro index_all) (auto simp: list_template_imports_def)
  moreover have "templates c2 = templates c \<and> next_template c2 = next_template c"
    using assms by (auto simp: record_template_import_def Let_def split: if_splits)
  ultimately show ?thesis by simp
qed

definition har_accepted :: "catalog_lib \<Rightarrow> ustr \<Rightarrow> json \<Rightarrow> bool" where
  "har_accepted L name har \<longleftrightarrow> (\<exists>d. rbind (validate_template_name name) (\<lambda>_. parse_qd (har_refusal L) har) = Inr d)"

lemma persist_result:
  assumes "persist_entry L now s e name d har linked c = (Inr (i, updated), c2)" "keyed tpl_id (next_template c) (templates c)"
  shows "holds_har i (sub_owner s) name d har c2 \<and> linked_to_entry s e i c2 \<and> har_accepted L name har
    \<and> length (templates c2) = length (templates c) + (if updated then 0 else 1) \<and> keyed tpl_id (next_template c2) (templates c2)
    \<and> (linked = Some j \<longrightarrow> i = j \<and> updated)"
proof -
  have after: "holds_har i u name d har c2" if "holds_har i u name d har c1" "templates c2 = templates c1" for u c1
    using that by (simp add: holds_har_def get_template_for_owner_def)
  show ?thesis
  proof (cases "case linked of Some k \<Rightarrow> Some k | None \<Rightarrow> find_template_by_name (sub_owner s) name c")
    case None
    then have l: "linked = None" by (simp split: option.splits)
    from None assms(1) obtain t c1 where t: "import_qd_har_with_owner L now (Some (sub_owner s)) name d har c = (Inr t, c1)" "i = tpl_id t" "\<not> updated"
      and r: "record_template_import (sub_id s) i (le_name e) (le_version e) c1 = (Inr (), c2)"
      by (auto simp: persist_entry_def Let_def sbind_def sret_def split: sum.splits prod.splits)
    have "har_accepted L name har" using t(1) by (auto simp: har_accepted_def import_qd_har_with_owner_def split: sum.splits)
    with import_holds [OF t(1) assms(2)] record_links [OF r] t(2,3) l after [of "sub_owner s" c1] show ?thesis by simp
  next
    case (Some k)
    with assms(1) obtain t c1 where t: "update_qd_har_for_owner L now k (sub_owner s) name d har c = (Inr (Some t), c1)" "i = tpl_id t" updated
      and r: "record_template_import (sub_id s) i (le_name e) (le_version e) c1 = (Inr (), c2)"
      by (auto simp: persist_entry_def Let_def sbind_def sret_def sfail_def split: sum.splits prod.splits option.splits)
    have "har_accepted L name har" using t(1) by (auto simp: har_accepted_def update_qd_har_for_owner_def split: sum.splits)
    with update_holds [OF t(1) assms(2)] record_links [OF r] t(2,3) Some after [of "sub_owner s" c1] show ?thesis by auto
  qed
qed

section \<open>Imports repeated\<close>

lemma update_succeeds:
  assumes "holds_har i owner n0 d0 h0 c" "har_accepted L name har"
  shows "\<exists>t c1. update_qd_har_for_owner L now i owner name d har c = (Inr (Some t), c1)"
proof -
  let ?hit = "\<lambda>t. tpl_id t = i \<and> tpl_owner t = Some owner \<and> is_har t"
  let ?f = "\<lambda>t. t\<lparr>tpl_name := name, tpl_description := d, tpl_source := QdHar har, tpl_updated_at := now\<rparr>"
  from assms(1) obtain t where t: "find (\<lambda>t. tpl_id t = i \<and> tpl_owner t = Some owner) (templates c) = Some t" "is_har t"
    by (auto simp: holds_har_def get_template_for_owner_def is_har_def)
  then have x: "t \<in> set (templates c)" "?hit t" by (auto simp: find_Some_iff)
  then have "\<exists>y\<in>set (update_where ?hit ?f (templates c)). ?hit y" by (intro updated_exists) (auto simp: is_har_def)
  then have "get_template_for_owner i owner (c\<lparr>templates := update_where ?hit ?f (templates c)\<rparr>) \<noteq> None"
    by (auto simp: get_template_for_owner_def find_None_iff)
  moreover have "affected ?hit (templates c) \<noteq> 0" using x by (auto simp: affected_def filter_empty_conv)
  ultimately show ?thesis using assms(2) by (auto simp: update_qd_har_for_owner_def har_accepted_def Let_def)
qed

lemma record_succeeds:
  assumes "get_template i c \<noteq> None" "installed_index (list_template_imports sid c) n = Some m"
  shows "fst (record_template_import sid i n v c) = Inr ()"
proof -
  from assms(2) have "m \<in> set (list_template_imports sid c)" "imp_entry m = n"
    by (auto simp: installed_index_def find_Some_iff simp del: set_rev dest: nth_mem) (metis nth_mem set_rev length_rev)
  then have "affected (\<lambda>m. imp_subscription m = sid \<and> imp_entry m = n) (template_imports c) \<noteq> 0"
    by (auto simp: list_template_imports_def affected_def filter_empty_conv)
  then show ?thesis using assms(1) by (simp add: record_template_import_def Let_def)
qed

lemma update_keeps_rest:
  assumes "update_qd_har_for_owner L now i owner name d har c = (r, c1)" "x \<in> set (templates c)" "tpl_id x \<noteq> i"
  shows "x \<in> set (templates c1)" "template_imports c1 = template_imports c"
  using assms by (auto simp: update_qd_har_for_owner_def Let_def set_update_where split: sum.splits if_splits)

lemma persist_again:
  assumes "holds_har i (sub_owner s) n0 d0 h0 c" "installed_index (list_template_imports (sub_id s) c) (le_name e) = Some m"
    "har_accepted L name har"
  shows "\<exists>c2. persist_entry L now s e name d har (Some i) c = (Inr (i, True), c2)"
proof -
  from update_succeeds [OF assms(1,3)] obtain t c1 where u: "update_qd_har_for_owner L now i (sub_owner s) name d har c = (Inr (Some t), c1)"
    by blast
  then have i: "get_template_for_owner i (sub_owner s) c1 = Some t" and links: "template_imports c1 = template_imports c"
    by (auto simp: update_qd_har_for_owner_def Let_def split: sum.splits if_splits)
  from i have t: "tpl_id t = i" "get_template i c1 \<noteq> None"
    by (auto simp: get_template_for_owner_def get_template_def find_Some_iff find_None_iff) (metis nth_mem)
  from links assms(2) have "installed_index (list_template_imports (sub_id s) c1) (le_name e) = Some m"
    by (simp add: list_template_imports_def)
  from record_succeeds [OF t(2) this, of "le_version e"] obtain c2
    where "record_template_import (sub_id s) i (le_name e) (le_version e) c1 = (Inr (), c2)" by (metis prod.collapse)
  with u t(1) show ?thesis by (simp add: persist_entry_def sbind_def sret_def)
qed

definition import_again :: "catalog_lib \<Rightarrow> int \<Rightarrow> subscription \<Rightarrow> raw_entry \<Rightarrow> ustr \<Rightarrow> ustr option \<Rightarrow> json
    \<Rightarrow> (catalog, int \<times> bool) serr" where
  "import_again L now s e name d har c = persist_entry L now s e name d har
     (map_option imp_template (installed_index (list_template_imports (sub_id s) c) (le_name e))) c"

text \<open>
  C28.  Importing an entry again refreshes the template of the first import: once an entry has been
  imported, a later import of it (of whatever version, under whatever name, with any readable document)
  succeeds on that template, adds none, leaves the new name, description and document in it, records
  the version taken, and neither import touches rows of another account.
\<close>

theorem import_repeats_in_place:
  assumes first: "persist_entry L now s e name d har linked c = (Inr (i, updated), c1)" and ids: "keyed tpl_id (next_template c) (templates c)"
    and same: "le_name later = le_name e" and har: "har_accepted L name2 har2"
  shows "\<exists>c2. import_again L now2 s later name2 d2 har2 c1 = (Inr (i, True), c2)
    \<and> length (templates c2) = length (templates c1) \<and> holds_har i (sub_owner s) name2 d2 har2 c2
    \<and> linked_to_entry s later i c2 \<and> (\<forall>v. v \<noteq> sub_owner s \<longrightarrow> spares v c c2)"
proof -
  note p = persist_result [OF first ids]
  then obtain m where m: "installed_index (list_template_imports (sub_id s) c1) (le_name later) = Some m" "imp_template m = i"
    unfolding linked_to_entry_def same by blast
  with p persist_again [OF _ m(1) har, of i] obtain c2
    where again: "persist_entry L now2 s later name2 d2 har2 (Some i) c1 = (Inr (i, True), c2)" by blast
  have "spares v c c2" if "v \<noteq> sub_owner s" for v
  proof -
    have "sub_owner s \<noteq> v" using that by simp
    from persist_spares [OF this, of c L now e name d har linked] persist_spares [OF this, of c1 L now2 later name2 d2 har2 "Some i"]
    show ?thesis using first again spares_trans [of v c c1 c2] by simp
  qed
  moreover have "keyed tpl_id (next_template c1) (templates c1)" using p by blast
  from persist_result [OF again this] have "holds_har i (sub_owner s) name2 d2 har2 c2 \<and> linked_to_entry s later i c2
    \<and> length (templates c2) = length (templates c1)" by simp
  ultimately show ?thesis using again m by (simp add: import_again_def)
qed

definition sample_source :: subscription where
  "sample_source = \<lparr>sub_id = 3, sub_owner = 7, sub_name = lit ''q'', sub_url = lit ''https://a/h.har'', sub_enabled = True,
     sub_created_at = 0, sub_updated_at = 0\<rparr>"

definition subscribed :: catalog where
  "subscribed = (empty_catalog True)\<lparr>subscriptions := [sample_source]\<rparr>"

lemma trim_name: "trim [104] \<noteq> []" "trim [107] \<noteq> []"
  by (simp_all add: trim_defs)

lemma subscribed_import:
  "persist_entry any_lib 5 sample_source (direct_entry (lit ''https://a/h.har'')) (lit ''h'') None bare_document None subscribed
     = (Inr (1, False), subscribed\<lparr>templates := [template1], next_template := 2,
         template_imports := [\<lparr>imp_subscription = 3, imp_template = 1, imp_entry = le_name (direct_entry (lit ''https://a/h.har'')), imp_version = None\<rparr>]\<rparr>)"
  by (simp add: persist_entry_def sbind_def sret_def find_template_by_name_def subscribed_def empty_catalog_def empty_db_def
      import_qd_har_with_owner_def insert_template_def validate_template_name_def ensure_def Let_def get_template_def
      record_template_import_def affected_def sample_source_def template1_def new_template_def direct_entry_def rbind_def trim_name)

lemma bare_accepted: "har_accepted any_lib (lit ''k'') bare_document"
  by (simp add: har_accepted_def validate_template_name_def ensure_def rbind_def trim_name)

theorem import_repeats_in_place_witness:
  "\<exists>c1 c2. persist_entry any_lib 5 sample_source (direct_entry (lit ''https://a/h.har'')) (lit ''h'') None bare_document None subscribed
       = (Inr (1, False), c1)
     \<and> import_again any_lib 9 sample_source (direct_entry (lit ''https://a/h.har'')) (lit ''k'') None bare_document c1 = (Inr (1, True), c2)
     \<and> length (templates c2) = 1 \<and> holds_har 1 7 (lit ''k'') None bare_document c2"
proof -
  have "keyed tpl_id (next_template subscribed) (templates subscribed)" by (simp add: subscribed_def empty_catalog_def keyed_def)
  from import_repeats_in_place [OF subscribed_import this refl bare_accepted, of 9 None] subscribed_import
  show ?thesis by (auto simp: sample_source_def)
qed

section \<open>Attempts\<close>

lemma retrying_attempts:
  "0 < n \<Longrightarrow> \<exists>k<n. snd (retrying n last_one fetch w) = ((\<lambda>v. snd (fetch v)) ^^ Suc k) w
     \<and> (\<forall>j<k. \<exists>e. fst (fetch (((\<lambda>v. snd (fetch v)) ^^ j) w)) = Inl (True, e))
     \<and> fst (retrying n last_one fetch w) = map_sum snd (\<lambda>x. x) (fst (fetch (((\<lambda>v. snd (fetch v)) ^^ k) w)))
     \<and> (Suc k < n \<longrightarrow> (\<forall>e. fst (fetch (((\<lambda>v. snd (fetch v)) ^^ k) w)) \<noteq> Inl (True, e)))"
proof (induction n arbitrary: last_one w)
  case (Suc n)
  let ?f = "\<lambda>v. snd (fetch v)"
  show ?case
  proof (cases "\<exists>e. fst (fetch w) = Inl (True, e) \<and> 0 < n")
    case True
    then obtain e w1 where f: "fetch w = (Inl (True, e), w1)" and n: "0 < n" by (metis prod.collapse)
    from Suc.IH [OF n, of "(True, e)" w1] obtain k where k: "k < n" "snd (retrying n (True, e) fetch w1) = (?f ^^ Suc k) w1"
      "\<forall>j<k. \<exists>e. fst (fetch ((?f ^^ j) w1)) = Inl (True, e)"
      "fst (retrying n (True, e) fetch w1) = map_sum snd (\<lambda>x. x) (fst (fetch ((?f ^^ k) w1)))"
      "Suc k < n \<longrightarrow> (\<forall>e. fst (fetch ((?f ^^ k) w1)) \<noteq> Inl (True, e))" by blast
    have shift: "(?f ^^ Suc j) w = (?f ^^ j) w1" for j using f by (simp only: funpow_Suc_right o_apply) simp
    have before: "\<exists>e. fst (fetch ((?f ^^ j) w)) = Inl (True, e)" if "j < Suc k" for j
      using that k(3) f shift by (cases j) auto
    show ?thesis
      by (rule exI [of _ "Suc k"], intro conjI allI impI)
        (use k f shift [of k] shift [of "Suc k"] before in \<open>simp_all del: funpow.simps\<close>)
  next
    case False
    then show ?thesis
      by (intro exI [of _ 0]) (auto split: prod.split sum.split)
  qed
qed simp

text \<open>A request is sent once more only after a transient failure, and three times at most; the last answer is the answer.\<close>

theorem library_attempts:
  "\<exists>k<3. snd (retrying FETCH_ATTEMPTS no_attempt fetch w) = ((\<lambda>v. snd (fetch v)) ^^ Suc k) w
     \<and> (\<forall>j<k. \<exists>e. fst (fetch (((\<lambda>v. snd (fetch v)) ^^ j) w)) = Inl (True, e))
     \<and> fst (retrying FETCH_ATTEMPTS no_attempt fetch w) = map_sum snd (\<lambda>x. x) (fst (fetch (((\<lambda>v. snd (fetch v)) ^^ k) w)))"
  using retrying_attempts [of FETCH_ATTEMPTS no_attempt fetch w] unfolding FETCH_ATTEMPTS_def by auto

section \<open>The cache\<close>

text \<open>A listing that cannot be read afresh is answered from the copy, however old it is.\<close>

lemma last_good_copy:
  assumes "lb_cache b u = Some (t, c)" "fetch (lb_world b) = (Inl e, w)" "0 < max_age"
  shows "fst (catalogue_via clock u max_age fetch b) = Inr (c, True)"
  using assms by (auto simp: catalogue_via_def Let_def split: option.split)

text \<open>But reading any other source first drops the copy once it is older than the time to live.\<close>

theorem last_good_copy_lost:
  assumes "lb_cache b u = Some (t, c)" "u \<noteq> v" "lb_cache b v = None" "0 < max_age"
    and other: "fetch_other (lb_world b) = (Inr c2, w)" and old: "CATALOGUE_TTL \<le> clock w - t" and down: "fetch w = (Inl e, w2)"
  shows "fst (catalogue_via clock u max_age fetch (snd (catalogue_via clock v max_age fetch_other b))) = Inl e"
  using assms by (simp add: catalogue_via_def Let_def retain_fresh_def fresh_def)

section \<open>Names of files\<close>

text \<open>
  The files of a repository without a manifest are named by their stem.  Of two of the same stem the
  first is listed, and cannot be had: every look-up of its name finds the second.
\<close>

lemma find_stops: "P x \<Longrightarrow> find P (xs @ x # ys) = Some y \<Longrightarrow> y \<in> set (x # xs)"
  by (induction xs) (auto split: if_splits)

theorem same_stem_hidden:
  assumes "e1 = the (tree_entry s i1)" "e2 = the (tree_entry s i2)" "tree_entry s i1 \<noteq> None" "tree_entry s i2 \<noteq> None"
    and stems: "file_stem (le_filename e1) = file_stem (le_filename e2)" and entries: "ca_entries c = es1 @ e1 # es2 @ e2 # es3"
    and once: "distinct (ca_entries c)"
  shows "by_name n c \<noteq> Some e1"
proof
  assume found: "by_name n c = Some e1"
  then have "le_name e1 = n" by (auto simp: by_name_def find_Some_iff)
  moreover have "le_name e1 = le_name e2" using assms by (auto simp: tree_entry_def Let_def split: if_splits option.splits)
  ultimately have "e1 \<in> set (e2 # rev es3)"
    using find_stops [of "\<lambda>e. le_name e = n" e2 "rev es3" "rev es2 @ e1 # rev es1" e1] found by (simp add: by_name_def entries)
  with once show False by (auto simp: entries)
qed
end
