(* ===== verification/Spec2Isabelle.thy ===== *)
theory Spec2Isabelle
  imports QdProgram Template Ssrf ExecProps PyRegex HttpForm Plugin Redact RunQueueThms Totp SessionThms LoginThms HarThms CatalogThms SchedulerThms RunThms PyThms IdentityThms ApiLive LibraryThms
begin

text \<open>
  qdrust runs HTTP templates on a schedule.  A template is a QD HAR document (a list of HAR entries with
  control entries between them) or a native step list.  The server keeps accounts, templates, tasks and
  runs in a SQL store; a worker claims due runs from the store, executes the template, and stores steps,
  traces and the verdict; users reach all of it over an HTTP API with sessions and a second factor.

  \<^bold>\<open>Theories.\<close>

  \<^item> \<open>QPrelude\<close>, \<open>RustStr\<close>, \<open>Utf8\<close>, \<open>Json\<close>: what the code uses of Rust's standard library and serde.  A
    string is a list of code points (\<open>ustr\<close>), an error is the chain of its messages (\<open>error\<close>), a fallible
    function returns \<open>error + 'a\<close> (\<open>rbind\<close>, \<open>ensure\<close>) and one with state also returns the state.
  \<^item> \<open>QdProgram\<close>, \<open>HarJson\<close>, \<open>HarThms\<close> (\<open>core/qd_har.rs\<close>): the compiler from entries to blocks; the readers from
    JSON, the normalisation of QD's shapes, the variables of a template.  \<open>Template\<close> (\<open>core/template.rs\<close>):
    the native schema and its validation.
  \<^item> \<open>Ssrf\<close>, \<open>HttpForm\<close>, \<open>PyRegex\<close>, \<open>ExecPure\<close>, \<open>StateErr\<close>, \<open>Executor\<close>, \<open>ExecProps\<close> (\<open>core/executor.rs\<close>): the guard against
    private addresses, form bodies, the translation of Python patterns, labels and digests, and the
    executor itself with its loops, its request budget and its event log.
  \<^item> \<open>Plugin\<close> (\<open>core/plugin.rs\<close>): manifests, the registry and subprocess plugins.
  \<^item> \<open>Redact\<close> (\<open>server/redact.rs\<close>): what is masked before a text is stored.
  \<^item> \<open>Tables\<close>, \<open>RunQueue\<close>, \<open>RunQueueProps\<close>, \<open>RunQueueThms\<close> (\<open>server/store.rs\<close>, \<open>server/model.rs\<close>): the rows of runs, tasks
    and steps, every statement on runs, the run table invariant and the lease lock it refines.
  \<^item> \<open>Totp\<close> (\<open>core/totp.rs\<close>, \<open>server/totp.rs\<close>): Base32, one-time passwords, the verification window.
  \<^item> \<open>Accounts\<close> (\<open>server/store.rs\<close>, \<open>server/auth.rs\<close>): users, sessions, tokens and challenges with their statements.
  \<^item> \<open>Sessions\<close>, \<open>SessionProps\<close>, \<open>SessionThms\<close> (\<open>server/redis_cache.rs\<close>, \<open>server/api.rs\<close>): the session cache before the
    store, the wrappers that change both, \<open>require_session\<close>, \<open>require_csrf\<close>.
  \<^item> \<open>Login\<close>, \<open>LoginProps\<close>, \<open>LoginThms\<close> (\<open>server/auth.rs\<close>, \<open>server/api.rs\<close>): the limiter of failed logins, both steps of
    a login, enrolment, registration, password reset, email verification, API tokens, administration.
  \<^item> \<open>Identity\<close>, \<open>IdentityThms\<close> (\<open>server/oidc.rs\<close>, \<open>header_auth.rs\<close>, \<open>api.rs\<close>, \<open>store.rs\<close>): logins through an OpenID
    provider and through the headers of a trusted proxy, the accounts they lead to and the states they use up.
  \<^item> \<open>Outbound\<close> (\<open>server/outbound.rs\<close>, \<open>push_channels.rs\<close>, \<open>email.rs\<close>): the guarded client of the server, the push
    channels and mail.  \<open>Notify\<close> (\<open>server/store.rs\<close>, \<open>delivery.rs\<close>): channels, bindings, defaults and the ledger
    of deliveries, and how a message is chosen, rendered and delivered.
  \<^item> \<open>Catalog\<close>, \<open>CatalogProps\<close>, \<open>CatalogThms\<close> (\<open>server/store.rs\<close>): tasks, templates, subscriptions and publication
    requests, their ownership, and the deletion of an account.
  \<^item> \<open>Scheduler\<close>, \<open>SchedulerProps\<close>, \<open>SchedulerGuard\<close>, \<open>SchedulerThms\<close>, \<open>RunThms\<close> (\<open>server/scheduler.rs\<close>): due tasks and the
    tick, the worker, what a run executes, observes, concludes, notifies and tries again.
  \<^item> \<open>SiteRows\<close> (\<open>server/store.rs\<close>, \<open>metrics.rs\<close>, \<open>main.rs\<close>): settings and what applies them, notepads, plugin
    manifests, metrics, the calendar of runs.  \<open>Api\<close>, \<open>ApiRest\<close>, \<open>ApiSite\<close> (\<open>server/api.rs\<close>): the handlers of tasks,
    runs, notifications, templates, plugins, notepads, subscriptions, publication, settings and logs over
    all of these (\<open>api\<close> puts \<open>site\<close>, \<open>server\<close> and the rows of \<open>SiteRows\<close> side by side), and the live stream of a
    run; with their properties in \<open>ApiProps\<close>, \<open>ApiThms\<close>, \<open>ApiPages\<close> and \<open>ApiLive\<close>.
  \<^item> \<open>Library\<close>, \<open>ApiLibrary\<close>, \<open>LibraryThms\<close> (\<open>server/library.rs\<close> and its handlers in \<open>api.rs\<close>): what a
    subscribed repository offers, the cache of catalogues, previews and imports (\<open>library\<close> holds the tables,
    the cache and the world).  An import repeated refreshes its template in place; a request is tried three
    times at most; the copy of an unreachable source gets lost, and so does a file whose stem another has.
  \<^item> \<open>PyText\<close>, \<open>PyCodecs\<close>, \<open>PyRewrite\<close>, \<open>PyValue\<close>, \<open>PyMethods\<close>, \<open>PyEngine\<close> and their properties in \<open>PyTextProps\<close>,
    \<open>PyCodecProps\<close>, \<open>PyRewriteProps\<close>, \<open>PyThms\<close> (\<open>core/expression.rs\<close>): Python's text operations, codecs and
    checksums; the rewriting of Python spellings before a template is parsed; values, arguments and numbers;
    formatting and the methods of texts, mappings and lists; the registered filters, the reported variables
    and defaults, and the entry points.

  \<^bold>\<open>State.\<close>  The executor's state is a record \<open>run\<close>: the context of \<open>ExecutionContext\<close>, the cookie jar, the
  world of the parameters (network, plugins, cancellation) and the events emitted.  A table of the store
  is the list of its rows in insertion order, and a SQL statement is \<open>update_where\<close>, \<open>delete_where\<close>, a filter
  or an append on it; \<open>affected\<close> is \<open>rows_affected\<close>.  \<open>db\<close> holds the tables of the run queue, \<open>accounts\<close>
  those of the accounts, \<open>app\<close> adds the session cache, \<open>site\<close> the login limiter, \<open>idp\<close> the external identities
  and login states.  \<open>catalog\<close> puts the tables
  of templates and subscriptions around \<open>db\<close>, and \<open>server\<close> is what a run changes: the catalog, the defaults
  of the accounts, the events broadcast and the world outside.  A statement is one step: \<open>queue_step\<close>,
  \<open>app_step\<close>, \<open>site_step\<close> and \<open>catalog_step\<close> are the step relations whose reachable states the invariants
  are about; the worker and the ticker are shown to be sequences of such steps.  A request handler is one step too; where an interleaving inside a handler
  matters it is stated on its parts (\<open>revoked_session_revived\<close>).

  \<^bold>\<open>Parameters.\<close>  What is not under \<open>src/\<close> is an argument: DNS and HTTP, the regular expression engines, the
  template engine and its values (\<open>jinja\<close>), 64-bit floats, ciphers, the plugins' processes, HMAC, SHA-256, Argon2, the collation of user names, Unicode
  lower case.  Clocks, random tokens and salts are arguments as well.  Named hypotheses on them say no
  more than their documentation (\<open>hmac_ok\<close>: the digest lengths), and their witnesses instantiate them.

  \<^bold>\<open>What the lemmas show.\<close>

  \<^item> Documents: the compiler accepts exactly the block grammar and returns the derived blocks; template
    validation is its declarative specification.
  \<^item> Execution: with private targets refused every request goes through a guarded client, the request
    budget and the event log are consistent in every outcome, loops end as they should.
  \<^item> Texts: form bodies round trip, the pattern translation stays in the common dialect, each masking
    pass is idempotent.
  \<^item> Run queue: the table invariant over all calls, the refinement of one lease lock per task (the locale
    \<open>run_update\<close> is the contract of a call), exclusive leases, final verdicts, the claim order, the
    retention sweep, and that a worker finds work.
  \<^item> Sessions: \<open>coherent\<close> relates cache and store; the locales \<open>user_call\<close> and \<open>store_call\<close> are what a statement
    owes the cache with and without an eviction, and are interpreted on the statements of the store.
    A cookie is good only if the store says so, and a password change signs everybody out.
  \<^item> Login: what a session presupposes at each of the two steps, and the bound on wrong codes.

  \<^item> External logins: the account an identity leads to, and that a login state is redeemed once and only by
    the browser that asked for it; headers from elsewhere than a trusted proxy are refused or dropped.
  \<^item> Catalog: \<open>isolated\<close> holds in every state the calls of the accounts reach (the locale \<open>linked_table\<close> is the
    contract of a statement with the columns that link rows), so notifications reach channels of the right
    account and the deletion of an account is never refused and leaves nothing of it.
  \<^item> Scheduler: the locales \<open>attempt_calls\<close>, \<open>scheduler_calls\<close> and \<open>worker_calls\<close> say which relations between
    databases the composed operations keep, and are interpreted with the reachable states of the run queue,
    the owners of rows, the ledger and the silence about other runs.  A held run ends with its outcome in its
    row, notifications are those the bindings ask for, retries and stored texts are bounded, a tick gives
    every due task a run, and a worker sends through guarded clients only.

  \<^item> Handlers: \<open>spares\<close> says that a statement leaves the rows of an account alone; it holds of every statement
    made for another account, and so of every request (\<open>account_request\<close>).  The locale \<open>paged\<close> is the contract of
    a list with cursors, interpreted on the runs and, for limits up to 200, on the templates.  A live stream
    ends with the verdict of its run, and a setting that is stored is in force.

  \<^item> Expressions: rewriting stays inside the expression tags of a template; checksums are their shift
    registers; codecs round trip where they do; split pieces join back; a wrapped text keeps its letters; the
    lists a template changes are Python's up to one index.

  The theorems of kind \<open>error\<close> state where the code departs from what it or its comments mean: documents
  that import but never run, a failure that is taken for a cancellation, a cancelled run that is tried
  again; and so do further theorems that follow the properties of their component (a lease that is not
  checked, a CSRF token that is not asked for, a second factor that can be tried without bound).

  \<^bold>\<open>Bounds and termination.\<close>  The only fuel is that of the block parser, one unit per nested call and
  iteration; the compiler gives it the number of entries, which is shown to be enough.  The interpreter
  and the template validation recurse on the block or step, its while loops count down the loop limit of
  the code (\<open>MAX_LOOP_ITERATIONS\<close>); the pattern translation recurses on the text left; the retention sweep
  on the number of old runs, of which each batch deletes at least one.  Word arithmetic is kept where it
  can overflow: the buffers of Base32 and the truncation of a code are 32-bit words; expiry times are
  compared with \<open>2 ^ 63\<close> where the code checks for overflow.

  \<^bold>\<open>Not modelled.\<close>  Tokio's tasks run one after another: an interruption (deadline or cancellation) is the
  argument \<open>halt\<close> of a run, the prefix of its effects that happened.  SQL connection failures, migrations
  and the second database dialect; the audit log, which nothing reads; the OpenID library (\<open>oidc_lib\<close> is an argument); the browser plugin
  and the command line.  Of the store the backup, which copies whole tables by column name; of the plugins the
  utility plugin; and the reading of the environment into the configuration records, which are arguments here.
\<close>

end
